(* ===== verification/Iris_Prelude.thy ===== *)
theory Iris_Prelude
  imports Main "HOL-Library.Word"
begin

text \<open>
  Shared vocabulary of the development: bytes, results of fallible Python code,
  slices, little-endian integers as \<^verbatim>\<open>struct\<close> packs them, and the generic
  lemmas the components use. Collections:
  \<^item> \<open>le_simps\<close>: conversion between little-endian byte strings and numbers;
  \<^item> \<open>res_simps\<close>: unfolding of the result combinators.
\<close>

unbundle bit_operations_syntax

named_theorems le_simps \<open>little-endian conversions\<close>
named_theorems res_simps \<open>result combinators\<close>

section \<open>Bytes and slices\<close>

type_synonym byte = "8 word"
type_synonym bytes = "byte list"

text \<open>Python's \<^verbatim>\<open>data[a:b]\<close> for nonnegative bounds: both bounds are clipped.\<close>

definition pyslice :: "nat \<Rightarrow> nat \<Rightarrow> 'a list \<Rightarrow> 'a list" where
  "pyslice a b xs = take (b - a) (drop a xs)"

lemma length_pyslice [simp]: "length (pyslice a b xs) = min (b - a) (length xs - a)"
  by (simp add: pyslice_def min_def)

lemma pyslice_0 [simp]: "pyslice 0 n xs = take n xs"
  by (simp add: pyslice_def)

lemma pyslice_append1: "b \<le> length xs \<Longrightarrow> pyslice a b (xs @ ys) = pyslice a b xs"
  by (simp add: pyslice_def)

lemma pyslice_append2: "length xs \<le> a \<Longrightarrow> pyslice a b (xs @ ys) = pyslice (a - length xs) (b - length xs) ys"
  by (simp add: pyslice_def)

lemma pyslice_to_end: "length xs \<le> b \<Longrightarrow> pyslice a b xs = drop a xs"
  by (simp add: pyslice_def)

section \<open>Results of fallible code\<close>

text \<open>
  A Python call returns a value (\<open>Inr\<close>) or raises (\<open>Inl\<close>). \<open>bindr\<close> sequences two
  calls: the second does not run when the first raised.
\<close>

fun bindr :: "'e + 'a \<Rightarrow> ('a \<Rightarrow> 'e + 'b) \<Rightarrow> 'e + 'b" where
  "bindr (Inl e) f = Inl e"
| "bindr (Inr x) f = f x"

definition is_ok :: "'e + 'a \<Rightarrow> bool" where
  "is_ok r = (case r of Inl _ \<Rightarrow> False | Inr _ \<Rightarrow> True)"

lemma is_ok_simps [simp]: "is_ok (Inr x)" "\<not> is_ok (Inl e)"
  by (simp_all add: is_ok_def)

lemma is_ok_iff: "is_ok r \<longleftrightarrow> (\<exists>x. r = Inr x)"
  by (cases r) auto

lemma bindr_eq_Inr [res_simps]: "bindr m f = Inr y \<longleftrightarrow> (\<exists>x. m = Inr x \<and> f x = Inr y)"
  by (cases m) auto

lemma bindr_eq_Inl [res_simps]:
  "bindr m f = Inl e \<longleftrightarrow> m = Inl e \<or> (\<exists>x. m = Inr x \<and> f x = Inl e)"
  by (cases m) auto

lemma bindr_InrE:
  assumes "bindr m f = Inr y"
  obtains x where "m = Inr x" and "f x = Inr y"
  using assms by (cases m) auto

lemma bindr_cong [fundef_cong]:
  "m = m' \<Longrightarrow> (\<And>x. m' = Inr x \<Longrightarrow> f x = g x) \<Longrightarrow> bindr m f = bindr m' g"
  by (cases m') auto

lemma bindr_assoc: "bindr (bindr m f) g = bindr m (\<lambda>x. bindr (f x) g)"
  by (cases m) auto

lemma bindr_Inr_right [simp]: "bindr m Inr = m"
  by (cases m) auto

text \<open>A guard: raise \<open>e\<close> when \<open>c\<close> holds.\<close>

definition raise_if :: "bool \<Rightarrow> 'e \<Rightarrow> 'e + unit" where
  "raise_if c e = (if c then Inl e else Inr ())"

lemma raise_if_simps [simp]: "raise_if True e = Inl e" "raise_if False e = Inr ()"
  by (simp_all add: raise_if_def)

lemma raise_if_eq_Inr [res_simps]: "raise_if c e = Inr u \<longleftrightarrow> \<not> c"
  by (simp add: raise_if_def)

lemma raise_if_eq_Inl [res_simps]: "raise_if c e = Inl e' \<longleftrightarrow> c \<and> e' = e"
  by (auto simp: raise_if_def)

text \<open>A loop over a list whose body may raise.\<close>

fun mapr :: "('a \<Rightarrow> 'e + 'b) \<Rightarrow> 'a list \<Rightarrow> 'e + 'b list" where
  "mapr f [] = Inr []"
| "mapr f (x # xs) = bindr (f x) (\<lambda>y. bindr (mapr f xs) (\<lambda>ys. Inr (y # ys)))"

lemma mapr_cong [fundef_cong]:
  "xs = ys \<Longrightarrow> (\<And>x. x \<in> set ys \<Longrightarrow> f x = g x) \<Longrightarrow> mapr f xs = mapr g ys"
  by (induction ys arbitrary: xs) auto

lemma mapr_length: "mapr f xs = Inr ys \<Longrightarrow> length ys = length xs"
  by (induction xs arbitrary: ys) (auto simp: res_simps)

lemma mapr_nth: "mapr f xs = Inr ys \<Longrightarrow> i < length xs \<Longrightarrow> f (xs ! i) = Inr (ys ! i)"
proof (induction xs arbitrary: ys i)
  case Nil
  then show ?case by simp
next
  case (Cons x xs)
  then show ?case by (cases i) (auto simp: res_simps)
qed

text \<open>A loop with state whose body may raise.\<close>

fun foldlr :: "('s \<Rightarrow> 'a \<Rightarrow> 'e + 's) \<Rightarrow> 's \<Rightarrow> 'a list \<Rightarrow> 'e + 's" where
  "foldlr f s [] = Inr s"
| "foldlr f s (x # xs) = bindr (f s x) (\<lambda>s'. foldlr f s' xs)"

lemma foldlr_invariant:
  assumes "foldlr f s xs = Inr t" and "I s"
    and "\<And>s x s'. I s \<Longrightarrow> f s x = Inr s' \<Longrightarrow> I s'"
  shows "I t"
  using assms(1,2)
proof (induction xs arbitrary: s)
  case Nil
  then show ?case by simp
next
  case (Cons x xs)
  from Cons.prems(1) obtain s' where "f s x = Inr s'" "foldlr f s' xs = Inr t"
    by (auto simp: res_simps)
  with Cons assms(3) show ?case by blast
qed

section \<open>Little-endian integers\<close>

text \<open>\<open>le_bytes n v\<close> is \<open>v\<close> in \<open>n\<close> bytes, least significant byte first (\<^verbatim>\<open>struct.pack\<close>
  with \<^verbatim>\<open><\<close> and \<^verbatim>\<open>B\<close>, \<^verbatim>\<open>H\<close>, \<^verbatim>\<open>I\<close>, \<^verbatim>\<open>Q\<close> for \<open>n\<close> = 1, 2, 4, 8); \<open>le_nat\<close> reads it back.\<close>

primrec le_bytes :: "nat \<Rightarrow> nat \<Rightarrow> bytes" where
  "le_bytes 0 v = []"
| "le_bytes (Suc n) v = of_nat (v mod 256) # le_bytes n (v div 256)"

primrec le_nat :: "bytes \<Rightarrow> nat" where
  "le_nat [] = 0"
| "le_nat (b # bs) = unat b + 256 * le_nat bs"

lemma length_le_bytes [simp]: "length (le_bytes n v) = n"
  by (induction n arbitrary: v) auto

lemma unat_of_nat_byte: "v < 256 \<Longrightarrow> unat (of_nat v :: byte) = v"
  by (simp add: unat_of_nat)

lemma byte_lt [simp]: "unat (b :: byte) < 256"
  using unsigned_less [of b, where ?'a = nat] by simp

lemma le_nat_le_bytes_mod: "le_nat (le_bytes n v) = v mod 256 ^ n"
proof (induction n arbitrary: v)
  case 0
  then show ?case by simp
next
  case (Suc n)
  have "v mod 256 ^ Suc n = v mod 256 + 256 * (v div 256 mod 256 ^ n)"
    by (simp add: mod_mult2_eq)
  then show ?case
    by (simp add: Suc unat_of_nat_byte)
qed

lemma le_nat_le_bytes [le_simps]: "v < 256 ^ n \<Longrightarrow> le_nat (le_bytes n v) = v"
  by (simp add: le_nat_le_bytes_mod)

lemma le_nat_bound: "le_nat bs < 256 ^ length bs"
proof (induction bs)
  case Nil
  then show ?case by simp
next
  case (Cons b bs)
  have "unat b < 256" by (rule byte_lt)
  moreover from Cons have "Suc (le_nat bs) \<le> 256 ^ length bs" by simp
  then have "256 * Suc (le_nat bs) \<le> 256 * 256 ^ length bs" by (rule mult_le_mono2)
  ultimately show ?case by (simp del: byte_lt)
qed

lemma le_bytes_le_nat [le_simps]: "le_bytes (length bs) (le_nat bs) = bs"
  by (induction bs) (simp_all add: mod_mult_self2 div_mult_self2)

lemma le_nat_inj: "length bs = length cs \<Longrightarrow> le_nat bs = le_nat cs \<Longrightarrow> bs = cs"
  by (metis le_bytes_le_nat)

text \<open>\<^verbatim>\<open>struct.pack\<close> of an unsigned field: \<^verbatim>\<open>struct.error\<close> outside its range.\<close>

definition pack_uint :: "'e \<Rightarrow> nat \<Rightarrow> int \<Rightarrow> 'e + bytes" where
  "pack_uint err n v = (if 0 \<le> v \<and> v < 256 ^ n then Inr (le_bytes n (nat v)) else Inl err)"

lemma pack_uint_ok [simp]: "0 \<le> v \<Longrightarrow> v < 256 ^ n \<Longrightarrow> pack_uint err n v = Inr (le_bytes n (nat v))"
  by (simp add: pack_uint_def)

text \<open>The unsigned and signed field of \<open>n\<close> bytes at an offset (\<^verbatim>\<open>struct.unpack_from\<close>);
  every use stands behind the source's own length check.\<close>

definition uint_at :: "nat \<Rightarrow> nat \<Rightarrow> bytes \<Rightarrow> nat" where
  "uint_at n off bs = le_nat (pyslice off (off + n) bs)"

definition sint_at :: "nat \<Rightarrow> nat \<Rightarrow> bytes \<Rightarrow> int" where
  "sint_at n off bs =
     (let v = uint_at n off bs
      in if v < 256 ^ n div 2 then int v else int v - 256 ^ n)"

lemma uint_at_bound: "uint_at n off bs < 256 ^ n"
proof -
  have "uint_at n off bs < 256 ^ length (pyslice off (off + n) bs)"
    by (simp add: uint_at_def le_nat_bound del: length_pyslice)
  also have "(256::nat) ^ length (pyslice off (off + n) bs) \<le> 256 ^ n"
    by (rule power_increasing) auto
  finally show ?thesis .
qed

lemma uint_at_append1 [le_simps]:
  "off + n \<le> length xs \<Longrightarrow> uint_at n off (xs @ ys) = uint_at n off xs"
  by (simp add: uint_at_def pyslice_append1)

lemma uint_at_append2 [le_simps]:
  "length xs \<le> off \<Longrightarrow> uint_at n off (xs @ ys) = uint_at n (off - length xs) ys"
  by (simp add: uint_at_def pyslice_append2)

lemma uint_at_le_bytes [le_simps]: "v < 256 ^ n \<Longrightarrow> uint_at n 0 (le_bytes n v) = v"
  by (simp add: uint_at_def le_simps)

lemma uint_at_le_bytes_append [le_simps]:
  "v < 256 ^ n \<Longrightarrow> uint_at n 0 (le_bytes n v @ ys) = v"
  by (simp add: uint_at_append1 uint_at_le_bytes)

lemma le_bytes_uint_at:
  assumes "off + n \<le> length bs"
  shows "le_bytes n (uint_at n off bs) = pyslice off (off + n) bs"
proof -
  have "length (pyslice off (off + n) bs) = n" using assms by simp
  then show ?thesis
    using le_bytes_le_nat [of "pyslice off (off + n) bs"] by (simp add: uint_at_def)
qed

lemma pyslice_join: "a \<le> b \<Longrightarrow> b \<le> c \<Longrightarrow> pyslice a b xs @ pyslice b c xs = pyslice a c xs"
proof -
  assume "a \<le> b" "b \<le> c"
  then have "drop b xs = drop (b - a) (drop a xs)" "c - a = (b - a) + (c - b)" by simp_all
  then show ?thesis by (simp add: pyslice_def take_add)
qed

lemma pyslice_clip:
  "pyslice off (off + length (pyslice off (off + n) xs)) xs = pyslice off (off + n) xs"
  by (simp add: pyslice_def min_def)

declare le_bytes.simps [simp del] le_nat.simps [simp del]

text \<open>Evaluation at concrete widths.\<close>

lemma le_bytes_numeral:
  "le_bytes (numeral k) v = of_nat (v mod 256) # le_bytes (pred_numeral k) (v div 256)"
  by (subst numeral_eq_Suc) (rule le_bytes.simps(2))

lemmas le_eval = le_bytes_numeral le_bytes.simps le_nat.simps uint_at_def pyslice_def

section \<open>Chunks of a byte string\<close>

text \<open>A chunk of a transfer: what it belongs to, its offset and its bytes.\<close>

type_synonym data_chunk = "nat \<times> nat \<times> bytes"

text \<open>\<open>covers i data off ms\<close>: the messages carry component \<open>i\<close>, one after the other without gap or
  overlap, from \<open>off\<close> to the end of \<open>data\<close>.\<close>

fun covers :: "nat \<Rightarrow> bytes \<Rightarrow> nat \<Rightarrow> data_chunk list \<Rightarrow> bool" where
  "covers i data off [] \<longleftrightarrow> length data \<le> off"
| "covers i data off ((i', off', chunk) # ms) \<longleftrightarrow>
     i' = i \<and> off' = off \<and> chunk = pyslice off (off + length chunk) data
     \<and> covers i data (off + length chunk) ms"

lemma covers_data:
  "covers i data off ms \<Longrightarrow> concat (map (\<lambda>m. snd (snd m)) ms) = drop off data"
proof (induction ms arbitrary: off)
  case Nil
  then show ?case by simp
next
  case (Cons m ms)
  obtain i' off' chunk where m: "m = (i', off', chunk)" by (cases m)
  with Cons.prems have "chunk = take (length chunk) (drop off data)"
    and "covers i data (off + length chunk) ms" by (simp_all add: pyslice_def)
  with Cons.IH [of "off + length chunk"] show ?case
    using append_take_drop_id [of "length chunk" "drop off data"] by (simp add: m add.commute)
qed

lemma covers_append_one:
  "covers i data off (ms @ [(i', off', chunk)]) \<Longrightarrow> length data \<le> off' + length chunk"
proof (induction ms arbitrary: off)
  case (Cons m ms)
  then show ?case by (cases m) auto
qed auto

section \<open>Hexadecimal text\<close>

text \<open>\<^verbatim>\<open>bytes.hex()\<close>.\<close>

definition hex_digit :: "nat \<Rightarrow> char" where
  "hex_digit n = ''0123456789abcdef'' ! n"

definition hex :: "bytes \<Rightarrow> string" where
  "hex bs = concat (map (\<lambda>b. [hex_digit (unat b div 16), hex_digit (unat b mod 16)]) bs)"

lemma hex_simps [simp]:
  "hex [] = []"
  "hex (b # bs) = hex_digit (unat b div 16) # hex_digit (unat b mod 16) # hex bs"
  by (simp_all add: hex_def)

lemma length_hex [simp]: "length (hex bs) = 2 * length bs"
  by (induction bs) auto

lemma hex_digit_inject: "m < 16 \<Longrightarrow> n < 16 \<Longrightarrow> hex_digit m = hex_digit n \<longleftrightarrow> m = n"
proof -
  assume "m < 16" "n < 16"
  moreover have "distinct ''0123456789abcdef''" by simp
  ultimately show ?thesis by (simp add: hex_digit_def nth_eq_iff_index_eq)
qed

lemma hex_inject [simp]: "hex bs = hex cs \<longleftrightarrow> bs = cs"
proof (induction bs arbitrary: cs)
  case Nil
  then show ?case by (cases cs) auto
next
  case (Cons b bs)
  show ?case
  proof (cases cs)
    case Nil
    then show ?thesis by simp
  next
    case (Cons c cs')
    have lt: "unat x div 16 < 16" for x :: byte using byte_lt [of x] by linarith
    have "unat b = unat c" if "unat b div 16 = unat c div 16" "unat b mod 16 = unat c mod 16"
      using that by (metis div_mult_mod_eq)
    then show ?thesis
      using Cons.IH [of cs'] \<open>cs = c # cs'\<close> lt
      by (auto simp: hex_digit_inject word_unat_eq_iff)
  qed
qed

end
