(* ===== verification/Protocol_Types.thy ===== *)
theory Protocol_Types
  imports Iris_Prelude
begin

text \<open>
  The constants of \<^verbatim>\<open>tools/iris_gateway/protocol.py\<close>: one datatype per \<^verbatim>\<open>enum\<close> class
  with its wire values, and the value lookup \<^verbatim>\<open>E(v)\<close> of Python's enums. The contract of an
  enum (every member listed, no two members with the same value) is the locale
  \<open>value_enum\<close>, interpreted on each class. The exceptions of the gateway modules follow.
\<close>

section \<open>The contract of an enum class\<close>

text \<open>\<^verbatim>\<open>E(v)\<close>: the member with value \<open>v\<close>; \<open>None\<close> is Python's \<^verbatim>\<open>ValueError\<close>.\<close>

definition enum_of :: "('a \<Rightarrow> 'c) \<Rightarrow> 'a list \<Rightarrow> 'c \<Rightarrow> 'a option" where
  "enum_of code members v = find (\<lambda>x. code x = v) members"

locale value_enum =
  fixes code :: "'a \<Rightarrow> 'c" and members :: "'a list"
  assumes complete: "x \<in> set members"
    and distinct_codes: "distinct (map code members)"
begin

lemma code_inject: "code x = code y \<longleftrightarrow> x = y"
  using distinct_codes complete [of x] complete [of y]
  by (auto simp: distinct_map dest: inj_onD)

lemma of_code: "enum_of code members (code x) = Some x"
proof -
  from complete [of x] have "enum_of code members (code x) \<noteq> None"
    by (auto simp: enum_of_def find_None_iff)
  then show ?thesis
    by (auto simp: enum_of_def find_Some_iff code_inject)
qed

lemma of_Some_iff: "enum_of code members v = Some x \<longleftrightarrow> code x = v"
  using of_code by (auto simp: enum_of_def find_Some_iff)

lemma of_None_iff: "enum_of code members v = None \<longleftrightarrow> v \<notin> range code"
  using complete by (auto simp: enum_of_def find_None_iff)

end

section \<open>Constants of the framing\<close>

definition MAGIC :: bytes where
  "MAGIC = [0x49, 0x52, 0x49, 0x53]"

definition VERSION :: nat where
  "VERSION = 1"

definition HEADER_SIZE :: nat where
  "HEADER_SIZE = 32"

definition MAX_PAYLOAD :: nat where
  "MAX_PAYLOAD = 4000"

definition MAX_WIRE_FRAME :: nat where
  "MAX_WIRE_FRAME = 4096"

lemmas frame_consts = MAGIC_def VERSION_def HEADER_SIZE_def MAX_PAYLOAD_def MAX_WIRE_FRAME_def

section \<open>The enum classes\<close>

datatype (plugins only: code size) channel =
    Channel_CONTROL | Channel_LOG | Channel_EVENT | Channel_SCREEN | Channel_IMAGE
  | Channel_AUDIO | Channel_OTA | Channel_CRASH | Channel_FILE | Channel_SYSTEM_UPDATE

primrec channel_code :: "channel \<Rightarrow> nat" where
  "channel_code Channel_CONTROL = 0"
| "channel_code Channel_LOG = 1"
| "channel_code Channel_EVENT = 2"
| "channel_code Channel_SCREEN = 3"
| "channel_code Channel_IMAGE = 4"
| "channel_code Channel_AUDIO = 5"
| "channel_code Channel_OTA = 6"
| "channel_code Channel_CRASH = 7"
| "channel_code Channel_FILE = 8"
| "channel_code Channel_SYSTEM_UPDATE = 9"

definition channel_members :: "channel list" where
  "channel_members = [Channel_CONTROL, Channel_LOG, Channel_EVENT, Channel_SCREEN,
     Channel_IMAGE, Channel_AUDIO, Channel_OTA, Channel_CRASH, Channel_FILE,
     Channel_SYSTEM_UPDATE]"

datatype (plugins only: code size) transport =
    Transport_USB | Transport_TCP | Transport_USB_SERIAL_JTAG

primrec transport_code :: "transport \<Rightarrow> nat" where
  "transport_code Transport_USB = 1"
| "transport_code Transport_TCP = 2"
| "transport_code Transport_USB_SERIAL_JTAG = 3"

definition transport_members :: "transport list" where
  "transport_members = [Transport_USB, Transport_TCP, Transport_USB_SERIAL_JTAG]"

datatype (plugins only: code size) capability =
    Capability_LOG | Capability_EVENT | Capability_STATUS | Capability_TIME_SYNC
  | Capability_SCREEN | Capability_OTA | Capability_CRASH | Capability_AUTH | Capability_RPC
  | Capability_JOBS | Capability_IMAGE | Capability_AUDIO | Capability_MIRROR
  | Capability_FILE | Capability_OTA_PROJECT_NAME_MATCH | Capability_SYSTEM_UPDATE
  | Capability_SYSTEM_INVENTORY | Capability_SESSION_REOPEN | Capability_CRASH_LOOP

primrec capability_code :: "capability \<Rightarrow> nat" where
  "capability_code Capability_LOG = 2 ^ 0"
| "capability_code Capability_EVENT = 2 ^ 1"
| "capability_code Capability_STATUS = 2 ^ 2"
| "capability_code Capability_TIME_SYNC = 2 ^ 3"
| "capability_code Capability_SCREEN = 2 ^ 4"
| "capability_code Capability_OTA = 2 ^ 5"
| "capability_code Capability_CRASH = 2 ^ 6"
| "capability_code Capability_AUTH = 2 ^ 7"
| "capability_code Capability_RPC = 2 ^ 8"
| "capability_code Capability_JOBS = 2 ^ 9"
| "capability_code Capability_IMAGE = 2 ^ 10"
| "capability_code Capability_AUDIO = 2 ^ 11"
| "capability_code Capability_MIRROR = 2 ^ 12"
| "capability_code Capability_FILE = 2 ^ 13"
| "capability_code Capability_OTA_PROJECT_NAME_MATCH = 2 ^ 14"
| "capability_code Capability_SYSTEM_UPDATE = 2 ^ 15"
| "capability_code Capability_SYSTEM_INVENTORY = 2 ^ 16"
| "capability_code Capability_SESSION_REOPEN = 2 ^ 17"
| "capability_code Capability_CRASH_LOOP = 2 ^ 18"

definition capability_members :: "capability list" where
  "capability_members = [Capability_LOG, Capability_EVENT, Capability_STATUS,
     Capability_TIME_SYNC, Capability_SCREEN, Capability_OTA, Capability_CRASH,
     Capability_AUTH, Capability_RPC, Capability_JOBS, Capability_IMAGE, Capability_AUDIO,
     Capability_MIRROR, Capability_FILE, Capability_OTA_PROJECT_NAME_MATCH,
     Capability_SYSTEM_UPDATE, Capability_SYSTEM_INVENTORY, Capability_SESSION_REOPEN,
     Capability_CRASH_LOOP]"

text \<open>\<^verbatim>\<open>capabilities & Capability.X\<close> as a condition.\<close>

definition has_capability :: "nat \<Rightarrow> capability \<Rightarrow> bool" where
  "has_capability caps c \<longleftrightarrow> caps AND capability_code c \<noteq> 0"

datatype (plugins only: code size) control_type =
    ControlType_HELLO | ControlType_HELLO_ACK | ControlType_PING | ControlType_PONG
  | ControlType_TIME_SYNC_REQUEST | ControlType_TIME_SYNC_RESPONSE
  | ControlType_STATUS_REQUEST | ControlType_STATUS_RESPONSE | ControlType_CREDIT
  | ControlType_REQUEST | ControlType_RESPONSE | ControlType_CANCEL | ControlType_JOB_QUERY
  | ControlType_JOB_STATUS | ControlType_RESTART | ControlType_AUTH_RESULT
  | ControlType_ERROR

primrec control_type_code :: "control_type \<Rightarrow> nat" where
  "control_type_code ControlType_HELLO = 1"
| "control_type_code ControlType_HELLO_ACK = 2"
| "control_type_code ControlType_PING = 3"
| "control_type_code ControlType_PONG = 4"
| "control_type_code ControlType_TIME_SYNC_REQUEST = 5"
| "control_type_code ControlType_TIME_SYNC_RESPONSE = 6"
| "control_type_code ControlType_STATUS_REQUEST = 7"
| "control_type_code ControlType_STATUS_RESPONSE = 8"
| "control_type_code ControlType_CREDIT = 9"
| "control_type_code ControlType_REQUEST = 16"
| "control_type_code ControlType_RESPONSE = 17"
| "control_type_code ControlType_CANCEL = 18"
| "control_type_code ControlType_JOB_QUERY = 19"
| "control_type_code ControlType_JOB_STATUS = 20"
| "control_type_code ControlType_RESTART = 21"
| "control_type_code ControlType_AUTH_RESULT = 22"
| "control_type_code ControlType_ERROR = 127"

definition control_type_members :: "control_type list" where
  "control_type_members = [ControlType_HELLO, ControlType_HELLO_ACK, ControlType_PING,
     ControlType_PONG, ControlType_TIME_SYNC_REQUEST, ControlType_TIME_SYNC_RESPONSE,
     ControlType_STATUS_REQUEST, ControlType_STATUS_RESPONSE, ControlType_CREDIT,
     ControlType_REQUEST, ControlType_RESPONSE, ControlType_CANCEL, ControlType_JOB_QUERY,
     ControlType_JOB_STATUS, ControlType_RESTART, ControlType_AUTH_RESULT,
     ControlType_ERROR]"

datatype (plugins only: code size) event_type =
    EventType_BOOT | EventType_HEALTHY | EventType_PLANNED_RESTART | EventType_LINK_READY
  | EventType_PREVIOUS_BOOT_CRASH | EventType_RECOVERY_ENTERED
  | EventType_CORE_DUMP_AVAILABLE | EventType_CRASH_LOOP_DETECTED | EventType_JOB_UPDATE
  | EventType_OTA_READY

primrec event_type_code :: "event_type \<Rightarrow> nat" where
  "event_type_code EventType_BOOT = 1"
| "event_type_code EventType_HEALTHY = 3"
| "event_type_code EventType_PLANNED_RESTART = 4"
| "event_type_code EventType_LINK_READY = 5"
| "event_type_code EventType_PREVIOUS_BOOT_CRASH = 6"
| "event_type_code EventType_RECOVERY_ENTERED = 7"
| "event_type_code EventType_CORE_DUMP_AVAILABLE = 8"
| "event_type_code EventType_CRASH_LOOP_DETECTED = 9"
| "event_type_code EventType_JOB_UPDATE = 32"
| "event_type_code EventType_OTA_READY = 33"

definition event_type_members :: "event_type list" where
  "event_type_members = [EventType_BOOT, EventType_HEALTHY, EventType_PLANNED_RESTART,
     EventType_LINK_READY, EventType_PREVIOUS_BOOT_CRASH, EventType_RECOVERY_ENTERED,
     EventType_CORE_DUMP_AVAILABLE, EventType_CRASH_LOOP_DETECTED, EventType_JOB_UPDATE,
     EventType_OTA_READY]"

datatype (plugins only: code size) crash_type =
    CrashType_METADATA_REQUEST | CrashType_METADATA_RESPONSE | CrashType_READ_REQUEST
  | CrashType_READ_RESPONSE

primrec crash_type_code :: "crash_type \<Rightarrow> nat" where
  "crash_type_code CrashType_METADATA_REQUEST = 1"
| "crash_type_code CrashType_METADATA_RESPONSE = 2"
| "crash_type_code CrashType_READ_REQUEST = 3"
| "crash_type_code CrashType_READ_RESPONSE = 4"

definition crash_type_members :: "crash_type list" where
  "crash_type_members = [CrashType_METADATA_REQUEST, CrashType_METADATA_RESPONSE,
     CrashType_READ_REQUEST, CrashType_READ_RESPONSE]"

datatype (plugins only: code size) media_type =
    MediaType_OPEN | MediaType_OPENED | MediaType_READ | MediaType_DATA | MediaType_CLOSE
  | MediaType_MIRROR_START | MediaType_MIRROR_STOP | MediaType_MIRROR_STATE

primrec media_type_code :: "media_type \<Rightarrow> nat" where
  "media_type_code MediaType_OPEN = 1"
| "media_type_code MediaType_OPENED = 2"
| "media_type_code MediaType_READ = 3"
| "media_type_code MediaType_DATA = 4"
| "media_type_code MediaType_CLOSE = 5"
| "media_type_code MediaType_MIRROR_START = 6"
| "media_type_code MediaType_MIRROR_STOP = 7"
| "media_type_code MediaType_MIRROR_STATE = 8"

definition media_type_members :: "media_type list" where
  "media_type_members = [MediaType_OPEN, MediaType_OPENED, MediaType_READ, MediaType_DATA,
     MediaType_CLOSE, MediaType_MIRROR_START, MediaType_MIRROR_STOP,
     MediaType_MIRROR_STATE]"

datatype (plugins only: code size) ota_type =
    OtaType_BEGIN | OtaType_BEGIN_RESPONSE | OtaType_DATA | OtaType_DATA_RESPONSE
  | OtaType_END | OtaType_END_RESPONSE | OtaType_CANCEL | OtaType_STATUS

primrec ota_type_code :: "ota_type \<Rightarrow> nat" where
  "ota_type_code OtaType_BEGIN = 1"
| "ota_type_code OtaType_BEGIN_RESPONSE = 2"
| "ota_type_code OtaType_DATA = 3"
| "ota_type_code OtaType_DATA_RESPONSE = 4"
| "ota_type_code OtaType_END = 5"
| "ota_type_code OtaType_END_RESPONSE = 6"
| "ota_type_code OtaType_CANCEL = 7"
| "ota_type_code OtaType_STATUS = 8"

definition ota_type_members :: "ota_type list" where
  "ota_type_members = [OtaType_BEGIN, OtaType_BEGIN_RESPONSE, OtaType_DATA,
     OtaType_DATA_RESPONSE, OtaType_END, OtaType_END_RESPONSE, OtaType_CANCEL,
     OtaType_STATUS]"

datatype (plugins only: code size) system_update_type =
    SystemUpdateType_BEGIN | SystemUpdateType_BEGIN_RESPONSE
  | SystemUpdateType_COMPONENT_BEGIN | SystemUpdateType_COMPONENT_BEGIN_RESPONSE
  | SystemUpdateType_DATA | SystemUpdateType_DATA_RESPONSE | SystemUpdateType_COMPONENT_END
  | SystemUpdateType_COMPONENT_END_RESPONSE | SystemUpdateType_COMMIT
  | SystemUpdateType_COMMIT_RESPONSE | SystemUpdateType_CANCEL | SystemUpdateType_STATUS
  | SystemUpdateType_STATUS_RESPONSE | SystemUpdateType_INVENTORY
  | SystemUpdateType_INVENTORY_RESPONSE

primrec system_update_type_code :: "system_update_type \<Rightarrow> nat" where
  "system_update_type_code SystemUpdateType_BEGIN = 1"
| "system_update_type_code SystemUpdateType_BEGIN_RESPONSE = 2"
| "system_update_type_code SystemUpdateType_COMPONENT_BEGIN = 3"
| "system_update_type_code SystemUpdateType_COMPONENT_BEGIN_RESPONSE = 4"
| "system_update_type_code SystemUpdateType_DATA = 5"
| "system_update_type_code SystemUpdateType_DATA_RESPONSE = 6"
| "system_update_type_code SystemUpdateType_COMPONENT_END = 7"
| "system_update_type_code SystemUpdateType_COMPONENT_END_RESPONSE = 8"
| "system_update_type_code SystemUpdateType_COMMIT = 9"
| "system_update_type_code SystemUpdateType_COMMIT_RESPONSE = 10"
| "system_update_type_code SystemUpdateType_CANCEL = 11"
| "system_update_type_code SystemUpdateType_STATUS = 12"
| "system_update_type_code SystemUpdateType_STATUS_RESPONSE = 13"
| "system_update_type_code SystemUpdateType_INVENTORY = 14"
| "system_update_type_code SystemUpdateType_INVENTORY_RESPONSE = 15"

definition system_update_type_members :: "system_update_type list" where
  "system_update_type_members = [SystemUpdateType_BEGIN, SystemUpdateType_BEGIN_RESPONSE,
     SystemUpdateType_COMPONENT_BEGIN, SystemUpdateType_COMPONENT_BEGIN_RESPONSE,
     SystemUpdateType_DATA, SystemUpdateType_DATA_RESPONSE, SystemUpdateType_COMPONENT_END,
     SystemUpdateType_COMPONENT_END_RESPONSE, SystemUpdateType_COMMIT,
     SystemUpdateType_COMMIT_RESPONSE, SystemUpdateType_CANCEL, SystemUpdateType_STATUS,
     SystemUpdateType_STATUS_RESPONSE, SystemUpdateType_INVENTORY,
     SystemUpdateType_INVENTORY_RESPONSE]"

datatype (plugins only: code size) file_type =
    FileType_VOLUMES_REQUEST | FileType_VOLUMES_RESPONSE | FileType_STAT_REQUEST
  | FileType_STAT_RESPONSE | FileType_LIST_OPEN | FileType_LIST_OPENED | FileType_LIST_NEXT
  | FileType_LIST_DATA | FileType_CLOSE | FileType_CLOSE_RESPONSE | FileType_READ_OPEN
  | FileType_READ_OPENED | FileType_READ | FileType_DATA | FileType_WRITE_OPEN
  | FileType_WRITE_OPENED | FileType_WRITE | FileType_WRITE_ACK | FileType_COMMIT
  | FileType_COMMIT_RESPONSE | FileType_ABORT | FileType_ABORT_RESPONSE | FileType_MKDIR
  | FileType_MKDIR_RESPONSE | FileType_DELETE | FileType_DELETE_RESPONSE | FileType_RENAME
  | FileType_RENAME_RESPONSE | FileType_WRITE_STATUS | FileType_WRITE_STATUS_RESPONSE

primrec file_type_code :: "file_type \<Rightarrow> nat" where
  "file_type_code FileType_VOLUMES_REQUEST = 1"
| "file_type_code FileType_VOLUMES_RESPONSE = 2"
| "file_type_code FileType_STAT_REQUEST = 3"
| "file_type_code FileType_STAT_RESPONSE = 4"
| "file_type_code FileType_LIST_OPEN = 5"
| "file_type_code FileType_LIST_OPENED = 6"
| "file_type_code FileType_LIST_NEXT = 7"
| "file_type_code FileType_LIST_DATA = 8"
| "file_type_code FileType_CLOSE = 9"
| "file_type_code FileType_CLOSE_RESPONSE = 10"
| "file_type_code FileType_READ_OPEN = 11"
| "file_type_code FileType_READ_OPENED = 12"
| "file_type_code FileType_READ = 13"
| "file_type_code FileType_DATA = 14"
| "file_type_code FileType_WRITE_OPEN = 15"
| "file_type_code FileType_WRITE_OPENED = 16"
| "file_type_code FileType_WRITE = 17"
| "file_type_code FileType_WRITE_ACK = 18"
| "file_type_code FileType_COMMIT = 19"
| "file_type_code FileType_COMMIT_RESPONSE = 20"
| "file_type_code FileType_ABORT = 21"
| "file_type_code FileType_ABORT_RESPONSE = 22"
| "file_type_code FileType_MKDIR = 23"
| "file_type_code FileType_MKDIR_RESPONSE = 24"
| "file_type_code FileType_DELETE = 25"
| "file_type_code FileType_DELETE_RESPONSE = 26"
| "file_type_code FileType_RENAME = 27"
| "file_type_code FileType_RENAME_RESPONSE = 28"
| "file_type_code FileType_WRITE_STATUS = 29"
| "file_type_code FileType_WRITE_STATUS_RESPONSE = 30"

definition file_type_members :: "file_type list" where
  "file_type_members = [FileType_VOLUMES_REQUEST, FileType_VOLUMES_RESPONSE,
     FileType_STAT_REQUEST, FileType_STAT_RESPONSE, FileType_LIST_OPEN,
     FileType_LIST_OPENED, FileType_LIST_NEXT, FileType_LIST_DATA, FileType_CLOSE,
     FileType_CLOSE_RESPONSE, FileType_READ_OPEN, FileType_READ_OPENED, FileType_READ,
     FileType_DATA, FileType_WRITE_OPEN, FileType_WRITE_OPENED, FileType_WRITE,
     FileType_WRITE_ACK, FileType_COMMIT, FileType_COMMIT_RESPONSE, FileType_ABORT,
     FileType_ABORT_RESPONSE, FileType_MKDIR, FileType_MKDIR_RESPONSE, FileType_DELETE,
     FileType_DELETE_RESPONSE, FileType_RENAME, FileType_RENAME_RESPONSE,
     FileType_WRITE_STATUS, FileType_WRITE_STATUS_RESPONSE]"

datatype (plugins only: code size) file_status =
    FileStatus_OK | FileStatus_INVALID_ARGUMENT | FileStatus_NOT_FOUND
  | FileStatus_NOT_DIRECTORY | FileStatus_NOT_FILE | FileStatus_READ_ONLY | FileStatus_BUSY
  | FileStatus_NO_MEMORY | FileStatus_IO | FileStatus_NOT_SUPPORTED | FileStatus_CONFLICT
  | FileStatus_EXISTS | FileStatus_NOT_EMPTY | FileStatus_NO_SPACE
  | FileStatus_HASH_MISMATCH

primrec file_status_code :: "file_status \<Rightarrow> nat" where
  "file_status_code FileStatus_OK = 0"
| "file_status_code FileStatus_INVALID_ARGUMENT = 1"
| "file_status_code FileStatus_NOT_FOUND = 2"
| "file_status_code FileStatus_NOT_DIRECTORY = 3"
| "file_status_code FileStatus_NOT_FILE = 4"
| "file_status_code FileStatus_READ_ONLY = 5"
| "file_status_code FileStatus_BUSY = 6"
| "file_status_code FileStatus_NO_MEMORY = 7"
| "file_status_code FileStatus_IO = 8"
| "file_status_code FileStatus_NOT_SUPPORTED = 9"
| "file_status_code FileStatus_CONFLICT = 10"
| "file_status_code FileStatus_EXISTS = 11"
| "file_status_code FileStatus_NOT_EMPTY = 12"
| "file_status_code FileStatus_NO_SPACE = 13"
| "file_status_code FileStatus_HASH_MISMATCH = 14"

definition file_status_members :: "file_status list" where
  "file_status_members = [FileStatus_OK, FileStatus_INVALID_ARGUMENT, FileStatus_NOT_FOUND,
     FileStatus_NOT_DIRECTORY, FileStatus_NOT_FILE, FileStatus_READ_ONLY, FileStatus_BUSY,
     FileStatus_NO_MEMORY, FileStatus_IO, FileStatus_NOT_SUPPORTED, FileStatus_CONFLICT,
     FileStatus_EXISTS, FileStatus_NOT_EMPTY, FileStatus_NO_SPACE,
     FileStatus_HASH_MISMATCH]"

datatype (plugins only: code size) job_state =
    JobState_QUEUED | JobState_RUNNING | JobState_SUCCEEDED | JobState_FAILED
  | JobState_CANCELLED

primrec job_state_code :: "job_state \<Rightarrow> nat" where
  "job_state_code JobState_QUEUED = 0"
| "job_state_code JobState_RUNNING = 1"
| "job_state_code JobState_SUCCEEDED = 2"
| "job_state_code JobState_FAILED = 3"
| "job_state_code JobState_CANCELLED = 4"

definition job_state_members :: "job_state list" where
  "job_state_members = [JobState_QUEUED, JobState_RUNNING, JobState_SUCCEEDED,
     JobState_FAILED, JobState_CANCELLED]"

datatype (plugins only: code size) tlv_tag =
    TlvTag_DEVICE_ID | TlvTag_BOOT_ID | TlvTag_UPTIME_US | TlvTag_PROTOCOL_VERSION
  | TlvTag_CAPABILITIES | TlvTag_TRANSPORT | TlvTag_AUTH_MODE | TlvTag_RESET_REASON
  | TlvTag_PROJECT_NAME | TlvTag_APP_VERSION | TlvTag_FIRMWARE_SHA256 | TlvTag_IDF_VERSION
  | TlvTag_MAX_PAYLOAD | TlvTag_FIRMWARE_ROLE | TlvTag_PRODUCT_CONTRACT | TlvTag_CHIP_TARGET
  | TlvTag_BOARD_ID | TlvTag_RECOVERY_ABI | TlvTag_REQUIRED_FEATURES
  | TlvTag_HEALTH_TIMEOUT_MS | TlvTag_LAYOUT_ID | TlvTag_HARDWARE_MAC | TlvTag_FREE_INTERNAL
  | TlvTag_MIN_FREE_INTERNAL | TlvTag_LOG_DROPPED | TlvTag_RX_FRAMES | TlvTag_TX_FRAMES
  | TlvTag_INVALID_FRAMES | TlvTag_LINK_COUNT | TlvTag_TASK_STACK_FREE_MIN
  | TlvTag_WORKER_ACTIVE_MAX_US | TlvTag_LIFECYCLE_STATE | TlvTag_INTERNAL_HEAP_USED
  | TlvTag_STATIC_INTERNAL_BYTES | TlvTag_PREVIOUS_BOOT_CRASH | TlvTag_CORE_DUMP_PRESENT
  | TlvTag_CORE_DUMP_VALID | TlvTag_CORE_DUMP_SIZE | TlvTag_CORE_DUMP_ELF_SHA256
  | TlvTag_CORE_DUMP_ELF_SHA256_COMPLETE | TlvTag_PANIC_REASON | TlvTag_CORE_DUMP_CHUNK_MAX
  | TlvTag_CRASH_COUNT | TlvTag_CRASH_LIMIT | TlvTag_CRASH_LOOP_TRIGGERED
  | TlvTag_CRASH_RECOVERY_PENDING | TlvTag_CRASH_ORIGIN_RESET_REASON
  | TlvTag_CRASH_FAILED_APP_ADDRESS | TlvTag_CRASH_FAILED_FIRMWARE_SHA256
  | TlvTag_CRASH_STATE_ERROR | TlvTag_AUTH_CHALLENGE | TlvTag_JOB_ID | TlvTag_JOB_STATE
  | TlvTag_JOB_PROGRESS | TlvTag_JOB_RESULT | TlvTag_MEDIA_DROPPED | TlvTag_OTA_PARTITION

primrec tlv_tag_code :: "tlv_tag \<Rightarrow> nat" where
  "tlv_tag_code TlvTag_DEVICE_ID = 1"
| "tlv_tag_code TlvTag_BOOT_ID = 2"
| "tlv_tag_code TlvTag_UPTIME_US = 3"
| "tlv_tag_code TlvTag_PROTOCOL_VERSION = 4"
| "tlv_tag_code TlvTag_CAPABILITIES = 5"
| "tlv_tag_code TlvTag_TRANSPORT = 6"
| "tlv_tag_code TlvTag_AUTH_MODE = 7"
| "tlv_tag_code TlvTag_RESET_REASON = 8"
| "tlv_tag_code TlvTag_PROJECT_NAME = 9"
| "tlv_tag_code TlvTag_APP_VERSION = 10"
| "tlv_tag_code TlvTag_FIRMWARE_SHA256 = 11"
| "tlv_tag_code TlvTag_IDF_VERSION = 12"
| "tlv_tag_code TlvTag_MAX_PAYLOAD = 13"
| "tlv_tag_code TlvTag_FIRMWARE_ROLE = 14"
| "tlv_tag_code TlvTag_PRODUCT_CONTRACT = 15"
| "tlv_tag_code TlvTag_CHIP_TARGET = 16"
| "tlv_tag_code TlvTag_BOARD_ID = 17"
| "tlv_tag_code TlvTag_RECOVERY_ABI = 18"
| "tlv_tag_code TlvTag_REQUIRED_FEATURES = 19"
| "tlv_tag_code TlvTag_HEALTH_TIMEOUT_MS = 20"
| "tlv_tag_code TlvTag_LAYOUT_ID = 21"
| "tlv_tag_code TlvTag_HARDWARE_MAC = 22"
| "tlv_tag_code TlvTag_FREE_INTERNAL = 32"
| "tlv_tag_code TlvTag_MIN_FREE_INTERNAL = 33"
| "tlv_tag_code TlvTag_LOG_DROPPED = 34"
| "tlv_tag_code TlvTag_RX_FRAMES = 35"
| "tlv_tag_code TlvTag_TX_FRAMES = 36"
| "tlv_tag_code TlvTag_INVALID_FRAMES = 37"
| "tlv_tag_code TlvTag_LINK_COUNT = 38"
| "tlv_tag_code TlvTag_TASK_STACK_FREE_MIN = 39"
| "tlv_tag_code TlvTag_WORKER_ACTIVE_MAX_US = 40"
| "tlv_tag_code TlvTag_LIFECYCLE_STATE = 41"
| "tlv_tag_code TlvTag_INTERNAL_HEAP_USED = 42"
| "tlv_tag_code TlvTag_STATIC_INTERNAL_BYTES = 43"
| "tlv_tag_code TlvTag_PREVIOUS_BOOT_CRASH = 48"
| "tlv_tag_code TlvTag_CORE_DUMP_PRESENT = 49"
| "tlv_tag_code TlvTag_CORE_DUMP_VALID = 50"
| "tlv_tag_code TlvTag_CORE_DUMP_SIZE = 51"
| "tlv_tag_code TlvTag_CORE_DUMP_ELF_SHA256 = 52"
| "tlv_tag_code TlvTag_CORE_DUMP_ELF_SHA256_COMPLETE = 53"
| "tlv_tag_code TlvTag_PANIC_REASON = 54"
| "tlv_tag_code TlvTag_CORE_DUMP_CHUNK_MAX = 55"
| "tlv_tag_code TlvTag_CRASH_COUNT = 56"
| "tlv_tag_code TlvTag_CRASH_LIMIT = 57"
| "tlv_tag_code TlvTag_CRASH_LOOP_TRIGGERED = 58"
| "tlv_tag_code TlvTag_CRASH_RECOVERY_PENDING = 59"
| "tlv_tag_code TlvTag_CRASH_ORIGIN_RESET_REASON = 60"
| "tlv_tag_code TlvTag_CRASH_FAILED_APP_ADDRESS = 61"
| "tlv_tag_code TlvTag_CRASH_FAILED_FIRMWARE_SHA256 = 62"
| "tlv_tag_code TlvTag_CRASH_STATE_ERROR = 63"
| "tlv_tag_code TlvTag_AUTH_CHALLENGE = 64"
| "tlv_tag_code TlvTag_JOB_ID = 65"
| "tlv_tag_code TlvTag_JOB_STATE = 66"
| "tlv_tag_code TlvTag_JOB_PROGRESS = 67"
| "tlv_tag_code TlvTag_JOB_RESULT = 68"
| "tlv_tag_code TlvTag_MEDIA_DROPPED = 69"
| "tlv_tag_code TlvTag_OTA_PARTITION = 70"

definition tlv_tag_members :: "tlv_tag list" where
  "tlv_tag_members = [TlvTag_DEVICE_ID, TlvTag_BOOT_ID, TlvTag_UPTIME_US,
     TlvTag_PROTOCOL_VERSION, TlvTag_CAPABILITIES, TlvTag_TRANSPORT, TlvTag_AUTH_MODE,
     TlvTag_RESET_REASON, TlvTag_PROJECT_NAME, TlvTag_APP_VERSION, TlvTag_FIRMWARE_SHA256,
     TlvTag_IDF_VERSION, TlvTag_MAX_PAYLOAD, TlvTag_FIRMWARE_ROLE, TlvTag_PRODUCT_CONTRACT,
     TlvTag_CHIP_TARGET, TlvTag_BOARD_ID, TlvTag_RECOVERY_ABI, TlvTag_REQUIRED_FEATURES,
     TlvTag_HEALTH_TIMEOUT_MS, TlvTag_LAYOUT_ID, TlvTag_HARDWARE_MAC, TlvTag_FREE_INTERNAL,
     TlvTag_MIN_FREE_INTERNAL, TlvTag_LOG_DROPPED, TlvTag_RX_FRAMES, TlvTag_TX_FRAMES,
     TlvTag_INVALID_FRAMES, TlvTag_LINK_COUNT, TlvTag_TASK_STACK_FREE_MIN,
     TlvTag_WORKER_ACTIVE_MAX_US, TlvTag_LIFECYCLE_STATE, TlvTag_INTERNAL_HEAP_USED,
     TlvTag_STATIC_INTERNAL_BYTES, TlvTag_PREVIOUS_BOOT_CRASH, TlvTag_CORE_DUMP_PRESENT,
     TlvTag_CORE_DUMP_VALID, TlvTag_CORE_DUMP_SIZE, TlvTag_CORE_DUMP_ELF_SHA256,
     TlvTag_CORE_DUMP_ELF_SHA256_COMPLETE, TlvTag_PANIC_REASON, TlvTag_CORE_DUMP_CHUNK_MAX,
     TlvTag_CRASH_COUNT, TlvTag_CRASH_LIMIT, TlvTag_CRASH_LOOP_TRIGGERED,
     TlvTag_CRASH_RECOVERY_PENDING, TlvTag_CRASH_ORIGIN_RESET_REASON,
     TlvTag_CRASH_FAILED_APP_ADDRESS, TlvTag_CRASH_FAILED_FIRMWARE_SHA256,
     TlvTag_CRASH_STATE_ERROR, TlvTag_AUTH_CHALLENGE, TlvTag_JOB_ID, TlvTag_JOB_STATE,
     TlvTag_JOB_PROGRESS, TlvTag_JOB_RESULT, TlvTag_MEDIA_DROPPED, TlvTag_OTA_PARTITION]"

section \<open>Every class meets the contract\<close>

interpretation channel: value_enum channel_code channel_members
proof
  show "x \<in> set channel_members" for x
    by (cases x) (simp_all add: channel_members_def)
qed (simp add: channel_members_def)

interpretation transport: value_enum transport_code transport_members
proof
  show "x \<in> set transport_members" for x
    by (cases x) (simp_all add: transport_members_def)
qed (simp add: transport_members_def)

interpretation capability: value_enum capability_code capability_members
proof
  show "x \<in> set capability_members" for x
    by (cases x) (simp_all add: capability_members_def)
qed (simp add: capability_members_def)

interpretation control_type: value_enum control_type_code control_type_members
proof
  show "x \<in> set control_type_members" for x
    by (cases x) (simp_all add: control_type_members_def)
qed (simp add: control_type_members_def)

interpretation event_type: value_enum event_type_code event_type_members
proof
  show "x \<in> set event_type_members" for x
    by (cases x) (simp_all add: event_type_members_def)
qed (simp add: event_type_members_def)

interpretation crash_type: value_enum crash_type_code crash_type_members
proof
  show "x \<in> set crash_type_members" for x
    by (cases x) (simp_all add: crash_type_members_def)
qed (simp add: crash_type_members_def)

interpretation media_type: value_enum media_type_code media_type_members
proof
  show "x \<in> set media_type_members" for x
    by (cases x) (simp_all add: media_type_members_def)
qed (simp add: media_type_members_def)

interpretation ota_type: value_enum ota_type_code ota_type_members
proof
  show "x \<in> set ota_type_members" for x
    by (cases x) (simp_all add: ota_type_members_def)
qed (simp add: ota_type_members_def)

interpretation system_update_type: value_enum system_update_type_code system_update_type_members
proof
  show "x \<in> set system_update_type_members" for x
    by (cases x) (simp_all add: system_update_type_members_def)
qed (simp add: system_update_type_members_def)

interpretation file_type: value_enum file_type_code file_type_members
proof
  show "x \<in> set file_type_members" for x
    by (cases x) (simp_all add: file_type_members_def)
qed (simp add: file_type_members_def)

interpretation file_status: value_enum file_status_code file_status_members
proof
  show "x \<in> set file_status_members" for x
    by (cases x) (simp_all add: file_status_members_def)
qed (simp add: file_status_members_def)

interpretation job_state: value_enum job_state_code job_state_members
proof
  show "x \<in> set job_state_members" for x
    by (cases x) (simp_all add: job_state_members_def)
qed (simp add: job_state_members_def)

interpretation tlv_tag: value_enum tlv_tag_code tlv_tag_members
proof
  show "x \<in> set tlv_tag_members" for x
    by (cases x) (simp_all add: tlv_tag_members_def)
qed (simp add: tlv_tag_members_def)

section \<open>Exceptions\<close>

text \<open>
  The exceptions the modelled modules raise or let through, with the constant part of the
  message where the source has one. \<open>StructError\<close> is \<^verbatim>\<open>struct.error\<close>; \<open>UnicodeError\<close> is
  \<^verbatim>\<open>UnicodeEncodeError\<close> or \<^verbatim>\<open>UnicodeDecodeError\<close>; \<open>IntegrityError\<close> is \<^verbatim>\<open>sqlite3.IntegrityError\<close>; \<open>QueueFull\<close> and \<open>CancelledError\<close> are asyncio's, the second is the one
  \<^verbatim>\<open>BaseException\<close> here that is not an \<^verbatim>\<open>Exception\<close>.
\<close>

datatype (plugins only: code size) exn =
    ProtocolError string
  | ValueError string
  | TypeError string
  | KeyError string
  | LookupError string
  | IndexError
  | AssertionError
  | StructError
  | UnicodeError
  | RuntimeError string
  | FileServiceError file_status string
  | TimeoutError string
  | ConnectionError string
  | OSError string
  | StateTransitionError string
  | OperationConflict
  | OperationCancelled string
  | OperationOutcomeUnknown string
  | DeviceMaintenance
  | IntegrityError
  | PermissionError string
  | OverflowError
  | QueueFull
  | AttributeError
  | CancelledError

type_synonym 'a res = "exn + 'a"

text \<open>\<^verbatim>\<open>except (asyncio.TimeoutError, TimeoutError)\<close>, \<^verbatim>\<open>except (ConnectionError, OSError)\<close>
  (which stand after it) and \<^verbatim>\<open>except Exception\<close>.\<close>

fun is_timeout :: "exn \<Rightarrow> bool" where
  "is_timeout (TimeoutError _) = True"
| "is_timeout _ = False"

fun is_os_error :: "exn \<Rightarrow> bool" where
  "is_os_error (TimeoutError _) = True"
| "is_os_error (ConnectionError _) = True"
| "is_os_error (OSError _) = True"
| "is_os_error (PermissionError _) = True"
| "is_os_error _ = False"

fun is_exception :: "exn \<Rightarrow> bool" where
  "is_exception CancelledError = False"
| "is_exception _ = True"

end
