(* ===== verification/Cobs.thy ===== *)
theory Cobs
  imports Protocol_Types
begin

text \<open>
  Consistent overhead byte stuffing, \<^verbatim>\<open>cobs_encode\<close> and \<^verbatim>\<open>cobs_decode\<close> of
  \<^verbatim>\<open>protocol.py\<close>. The encoder is the source's loop over an output buffer whose current code
  byte is patched later; the decoder is its index loop. Both are shown equal to recursive
  reference functions over blocks, from which the round trip, the absence of zero bytes and
  the length bounds follow.
\<close>

section \<open>The encoder\<close>

record cobs_enc =
  enc_output :: bytes
  enc_code_offset :: nat
  enc_code :: nat

definition cobs_close :: "cobs_enc \<Rightarrow> bytes" where
  "cobs_close s = (enc_output s)[enc_code_offset s := of_nat (enc_code s)]"

text \<open>Patch the code byte of the finished block and open the next one.\<close>

definition cobs_next_block :: "cobs_enc \<Rightarrow> cobs_enc" where
  "cobs_next_block s =
     (let out = cobs_close s
      in \<lparr>enc_output = out @ [0], enc_code_offset = length out, enc_code = 1\<rparr>)"

definition cobs_encode_byte :: "byte \<Rightarrow> cobs_enc \<Rightarrow> cobs_enc" where
  "cobs_encode_byte v s =
     (if v = 0 then cobs_next_block s
      else let s' = s\<lparr>enc_output := enc_output s @ [v], enc_code := enc_code s + 1\<rparr>
           in if enc_code s' = 0xFF then cobs_next_block s' else s')"

definition cobs_encode :: "bytes \<Rightarrow> bytes" where
  "cobs_encode data =
     cobs_close (fold cobs_encode_byte data \<lparr>enc_output = [0], enc_code_offset = 0, enc_code = 1\<rparr>)"

section \<open>The decoder\<close>

function cobs_decode_loop :: "bytes \<Rightarrow> nat \<Rightarrow> bytes \<Rightarrow> bytes res" where
  "cobs_decode_loop data offset output =
     (if offset < length data
      then let code = unat (data ! offset);
               start = offset + 1;
               stop = start + (code - 1)
           in if code = 0 then Inl (ProtocolError ''zero byte inside COBS frame'')
              else if stop > length data then Inl (ProtocolError ''truncated COBS block'')
              else cobs_decode_loop data stop
                     (output @ pyslice start stop data
                       @ (if code \<noteq> 0xFF \<and> stop < length data then [0] else []))
      else Inr output)"
  by pat_completeness auto
termination
  by (relation "measure (\<lambda>(data, offset, output). length data - offset)") auto

declare cobs_decode_loop.simps [simp del]

definition cobs_decode :: "bytes \<Rightarrow> bytes res" where
  "cobs_decode data = cobs_decode_loop data 0 []"

section \<open>Reference functions over blocks\<close>

text \<open>\<open>blk\<close> is the content of the open block.\<close>

fun cobs_blocks :: "bytes \<Rightarrow> bytes \<Rightarrow> bytes" where
  "cobs_blocks blk [] = of_nat (length blk + 1) # blk"
| "cobs_blocks blk (v # vs) =
     (if v = 0 then of_nat (length blk + 1) # blk @ cobs_blocks [] vs
      else if length blk + 2 = 255 then 255 # blk @ [v] @ cobs_blocks [] vs
      else cobs_blocks (blk @ [v]) vs)"

function cobs_unblock :: "bytes \<Rightarrow> bytes res" where
  "cobs_unblock [] = Inr []"
| "cobs_unblock (c # rest) =
     (if c = 0 then Inl (ProtocolError ''zero byte inside COBS frame'')
      else if unat c - 1 > length rest then Inl (ProtocolError ''truncated COBS block'')
      else bindr (cobs_unblock (drop (unat c - 1) rest))
             (\<lambda>out. Inr (take (unat c - 1) rest
                @ (if c \<noteq> 255 \<and> unat c - 1 < length rest then [0] else []) @ out)))"
  by pat_completeness auto
termination
  by (relation "measure length") auto

lemma cobs_fold_blocks:
  assumes "length blk < 254"
  shows "cobs_close (fold cobs_encode_byte data
           \<lparr>enc_output = pre @ 0 # blk, enc_code_offset = length pre, enc_code = length blk + 1\<rparr>)
         = pre @ cobs_blocks blk data"
  using assms
proof (induction data arbitrary: pre blk)
  case Nil
  then show ?case by (simp add: cobs_close_def)
next
  case (Cons v vs)
  let ?code = "of_nat (length blk + 1) :: byte"
  consider "v = 0" | "v \<noteq> 0" "length blk + 2 = 255" | "v \<noteq> 0" "length blk + 2 < 255"
    using Cons.prems by linarith
  then show ?case
  proof cases
    case 1
    then show ?thesis
      using Cons.IH [of "[]" "pre @ ?code # blk"]
      by (simp add: cobs_encode_byte_def cobs_next_block_def cobs_close_def Let_def)
  next
    case 2
    then show ?thesis
      using Cons.IH [of "[]" "pre @ 255 # blk @ [v]"]
      by (simp add: cobs_encode_byte_def cobs_next_block_def cobs_close_def Let_def)
  next
    case 3
    then show ?thesis
      using Cons.IH [of "blk @ [v]" pre]
      by (simp add: cobs_encode_byte_def Let_def)
  qed
qed

lemma cobs_encode_blocks: "cobs_encode data = cobs_blocks [] data"
  using cobs_fold_blocks [of "[]" data "[]"] by (simp add: cobs_encode_def)

lemma cobs_decode_loop_unblock:
  "offset \<le> length data \<Longrightarrow>
   cobs_decode_loop data offset acc
     = bindr (cobs_unblock (drop offset data)) (\<lambda>out. Inr (acc @ out))"
proof (induction data offset acc rule: cobs_decode_loop.induct)
  case (1 data offset acc)
  show ?case
  proof (cases "offset < length data")
    case False
    with 1 show ?thesis by (simp add: cobs_decode_loop.simps)
  next
    case True
    define c where "c = data ! offset"
    define rest where "rest = drop (Suc offset) data"
    have split: "drop offset data = c # rest"
      using True by (simp add: c_def rest_def Cons_nth_drop_Suc)
    have c0: "unat c = 0 \<longleftrightarrow> c = 0" by (simp add: unat_eq_0)
    have c255: "unat c = 255 \<longleftrightarrow> c = 255"
      using word_unat_eq_iff [of c 255] by simp
    show ?thesis
    proof (cases "c = 0 \<or> unat c - 1 > length rest")
      case True
      then show ?thesis
        using \<open>offset < length data\<close> c0
        by (subst cobs_decode_loop.simps)
           (auto simp: split Let_def c_def [symmetric] rest_def)
    next
      case False
      define n where "n = unat c - 1"
      define tl where "tl = (if c \<noteq> 255 \<and> n < length rest then [0 :: byte] else [])"
      have un: "unat c = Suc n" using False c0 by (simp add: n_def)
      have stop: "Suc (offset + n) \<le> length data"
        using False \<open>offset < length data\<close> by (auto simp: rest_def un)
      have dr: "drop (Suc (offset + n)) data = drop n rest"
        by (simp add: rest_def add.commute)
      have sl: "pyslice (Suc offset) (Suc (offset + n)) data = take n rest"
        by (simp add: pyslice_def rest_def)
      have tl: "(if unat c \<noteq> 255 \<and> Suc (offset + n) < length data then [0] else []) = tl"
        using \<open>offset < length data\<close> by (auto simp: rest_def tl_def c255)
      have IH: "cobs_decode_loop data (Suc (offset + n)) (acc @ take n rest @ tl)
          = bindr (cobs_unblock (drop n rest)) (\<lambda>out. Inr (acc @ take n rest @ tl @ out))"
        using 1(1) [OF \<open>offset < length data\<close> refl refl refl] stop
        by (simp add: c_def [symmetric] dr sl tl [unfolded un, simplified] un)
      have "cobs_decode_loop data offset acc
          = cobs_decode_loop data (Suc (offset + n)) (acc @ take n rest @ tl)"
        using \<open>offset < length data\<close> stop
        by (subst cobs_decode_loop.simps)
           (simp add: Let_def c_def [symmetric] sl un tl [unfolded un, simplified])
      moreover have "cobs_unblock (drop offset data)
          = bindr (cobs_unblock (drop n rest)) (\<lambda>out. Inr (take n rest @ tl @ out))"
        using False by (simp add: split un tl_def)
      ultimately show ?thesis
        by (simp add: IH bindr_assoc)
    qed
  qed
qed

lemma cobs_decode_unblock: "cobs_decode data = cobs_unblock data"
  by (simp add: cobs_decode_def cobs_decode_loop_unblock)

section \<open>Properties of the blocks\<close>

lemma cobs_blocks_nonempty [simp]: "cobs_blocks blk data \<noteq> []"
  by (induction blk data rule: cobs_blocks.induct) auto

lemma block_code: "length blk < 254 \<Longrightarrow> unat (of_nat (length blk + 1) :: byte) = length blk + 1"
  by (rule unat_of_nat_byte) simp

lemma block_code_neq:
  assumes "length blk < 254"
  shows "(of_nat (length blk + 1) :: byte) \<noteq> 0" and "(of_nat (length blk + 1) :: byte) \<noteq> 255"
  using block_code [OF assms] assms word_unat_eq_iff [of "of_nat (length blk + 1) :: byte"]
  by auto

lemma cobs_unblock_blocks:
  "length blk < 254 \<Longrightarrow> cobs_unblock (cobs_blocks blk data) = Inr (blk @ data)"
proof (induction blk data rule: cobs_blocks.induct)
  case (1 blk)
  then show ?case
    using block_code [of blk] block_code_neq [of blk] by (simp del: of_nat_add of_nat_Suc)
next
  case (2 blk v vs)
  then show ?case
    using block_code [of blk] block_code_neq [of blk] by (auto simp del: of_nat_add of_nat_Suc)
qed

lemma cobs_blocks_zero_free:
  "length blk < 254 \<Longrightarrow> 0 \<notin> set blk \<Longrightarrow> 0 \<notin> set (cobs_blocks blk data)"
proof (induction blk data rule: cobs_blocks.induct)
  case (1 blk)
  then show ?case using block_code_neq [of blk] by (simp del: of_nat_add of_nat_Suc)
next
  case (2 blk v vs)
  then show ?case using block_code_neq [of blk] by (auto simp del: of_nat_add of_nat_Suc)
qed

lemma cobs_blocks_length:
  "length blk < 254 \<Longrightarrow>
   length (cobs_blocks blk data) \<le> length blk + length data + 1 + (length blk + length data) div 254"
proof (induction blk data rule: cobs_blocks.induct)
  case (1 blk)
  then show ?case by simp
next
  case (2 blk v vs)
  then show ?case by (auto split: if_splits)
qed

lemma cobs_blocks_longer: "length blk + length data < length (cobs_blocks blk data)"
  by (induction blk data rule: cobs_blocks.induct) auto

lemma cobs_unblock_length: "cobs_unblock data = Inr out \<Longrightarrow> data \<noteq> [] \<Longrightarrow> length out < length data"
proof (induction data arbitrary: out rule: cobs_unblock.induct)
  case 1
  then show ?case by simp
next
  case (2 c rest)
  let ?n = "unat c - 1"
  from 2(2) obtain out' where ok: "c \<noteq> 0" "?n \<le> length rest"
    and out': "cobs_unblock (drop ?n rest) = Inr out'"
    and out: "out = take ?n rest @ (if c \<noteq> 255 \<and> ?n < length rest then [0] else []) @ out'"
    by (auto simp: res_simps split: if_splits)
  show ?case
  proof (cases "?n < length rest")
    case True
    with 2(1) [OF ok(1) _ out'] ok have "length out' < length rest - ?n" by simp
    moreover have "length out \<le> ?n + 1 + length out'" by (auto simp: out)
    ultimately show ?thesis by simp
  next
    case False
    with out' have "out' = []" by simp
    with False show ?thesis by (simp add: out)
  qed
qed

section \<open>The interface of a byte stuffing\<close>

text \<open>
  What the framing relies on: decoding inverts encoding, an encoding is not empty and holds
  no zero byte, so a zero byte delimits it. The consequences are proved once here.
\<close>

locale byte_stuffing =
  fixes enc :: "bytes \<Rightarrow> bytes" and dec :: "bytes \<Rightarrow> bytes res"
  assumes dec_enc: "dec (enc d) = Inr d"
    and enc_zero_free: "0 \<notin> set (enc d)"
    and enc_nonempty: "enc d \<noteq> []"
begin

lemma enc_inject: "enc d = enc d' \<longleftrightarrow> d = d'"
  using dec_enc by (metis sum.inject(2))

lemma enc_delimited: "takeWhile (\<lambda>b. b \<noteq> 0) (enc d @ 0 # r) = enc d"
proof -
  have "takeWhile (\<lambda>b. b \<noteq> 0) (enc d @ 0 # r) = enc d @ takeWhile (\<lambda>b. b \<noteq> 0) (0 # r)"
    using enc_zero_free by (intro takeWhile_append2) metis
  then show ?thesis by simp
qed

lemma self_delimiting: "enc d @ 0 # r = enc d' @ 0 # r' \<Longrightarrow> d = d' \<and> r = r'"
  using enc_delimited [of d r] enc_delimited [of d' r'] enc_inject by simp

end

interpretation cobs: byte_stuffing cobs_encode cobs_decode
proof
  show "cobs_decode (cobs_encode d) = Inr d" for d
    using cobs_unblock_blocks [of "[]" d] by (simp add: cobs_decode_unblock cobs_encode_blocks)
  show "0 \<notin> set (cobs_encode d)" for d
    using cobs_blocks_zero_free [of "[]" d] by (simp add: cobs_encode_blocks)
  show "cobs_encode d \<noteq> []" for d
    by (simp add: cobs_encode_blocks)
qed

lemma cobs_encode_length_bound: "length (cobs_encode d) \<le> length d + 1 + length d div 254"
  using cobs_blocks_length [of "[]" d] by (simp add: cobs_encode_blocks)

lemma cobs_decode_length: "cobs_decode d = Inr out \<Longrightarrow> d \<noteq> [] \<Longrightarrow> length out < length d"
  by (simp add: cobs_decode_unblock cobs_unblock_length)

section \<open>Claims\<close>

text \<open>
  COBS round trip on every byte string: the encoding is non-empty, holds no zero
  byte (so the zero delimiter is unambiguous), costs at least one byte and at most one byte
  per 254 bytes of data beyond the first code byte, and \<^verbatim>\<open>cobs_decode\<close> gives back exactly
  the data.
\<close>

theorem cobs_roundtrip:
  "cobs_decode (cobs_encode d) = Inr d \<and> 0 \<notin> set (cobs_encode d)
   \<and> length d < length (cobs_encode d) \<and> length (cobs_encode d) \<le> length d + 1 + length d div 254"
  using cobs.dec_enc cobs.enc_zero_free cobs_encode_length_bound
    cobs_blocks_longer [of "[]" d]
  by (simp add: cobs_encode_blocks)

text \<open>
  Two concatenated wire frames can be split in one way only: if an encoding, its
  delimiter and any following bytes equal another encoding, delimiter and following bytes,
  the data and the following bytes are the same.
\<close>

theorem cobs_self_delimiting:
  "cobs_encode d @ 0 # r = cobs_encode d' @ 0 # r' \<longleftrightarrow> d = d' \<and> r = r'"
  using cobs.self_delimiting by blast

end
