(* ===== verification/Crc32.thy ===== *)
theory Crc32
  imports Iris_Prelude
begin

text \<open>
  The CRC-32 of \<^verbatim>\<open>zlib.crc32\<close> (reflected polynomial \<^verbatim>\<open>0xEDB88320\<close>, initial value and
  final complement all ones), which \<^verbatim>\<open>protocol.py\<close> uses from the standard library. The
  register update is injective in the register and in the byte, so changing one byte of a
  message changes its checksum.
\<close>

definition crc_shift :: "32 word \<Rightarrow> 32 word" where
  "crc_shift c = (if bit c 0 then drop_bit 1 c XOR 0xEDB88320 else drop_bit 1 c)"

definition crc_byte :: "32 word \<Rightarrow> byte \<Rightarrow> 32 word" where
  "crc_byte c b = (crc_shift ^^ 8) (c XOR ucast b)"

definition crc32 :: "bytes \<Rightarrow> 32 word" where
  "crc32 bs = NOT (foldl crc_byte (NOT 0) bs)"

lemma crc_byte_unfold:
  "crc_byte c b =
     crc_shift (crc_shift (crc_shift (crc_shift
       (crc_shift (crc_shift (crc_shift (crc_shift (c XOR ucast b))))))))"
  by (simp add: crc_byte_def numeral_eq_Suc)

text \<open>The check value of the CRC catalogue: the digits 1 to 9.\<close>

lemma crc32_check: "crc32 [0x31, 0x32, 0x33, 0x34, 0x35, 0x36, 0x37, 0x38, 0x39] = 0xCBF43926"
  by (simp add: crc32_def crc_byte_unfold crc_shift_def)

lemma xor_inject: "(a :: 'a::len word) XOR b = c XOR b \<longleftrightarrow> a = c"
  by (metis xor.assoc xor_self_eq xor.right_neutral)

lemma xor_inject_left: "(b :: 'a::len word) XOR a = b XOR c \<longleftrightarrow> a = c"
  using xor_inject [of a b c] by (simp add: xor.commute)

lemma crc_shift_top: "bit (crc_shift c) 31 = bit c 0"
  using bit_imp_le_length [of c 32] by (auto simp: crc_shift_def bit_simps)

lemma crc_shift_inject: "crc_shift c = crc_shift d \<longleftrightarrow> c = d"
proof
  assume eq: "crc_shift c = crc_shift d"
  then have low: "bit c 0 = bit d 0" by (metis crc_shift_top)
  with eq have drop: "drop_bit 1 c = drop_bit 1 d"
    by (auto simp: crc_shift_def xor_inject split: if_splits)
  show "c = d"
  proof (rule bit_word_eqI)
    fix n assume "n < LENGTH(32)"
    show "bit c n = bit d n"
    proof (cases n)
      case 0
      with low show ?thesis by simp
    next
      case (Suc m)
      have "bit (drop_bit 1 c) m = bit (drop_bit 1 d) m" by (simp only: drop)
      with Suc show ?thesis by (simp only: bit_drop_bit_eq o_apply plus_1_eq_Suc)
    qed
  qed
qed simp

lemma crc_shifts_inject: "(crc_shift ^^ n) c = (crc_shift ^^ n) d \<longleftrightarrow> c = d"
  by (induction n) (simp_all add: crc_shift_inject)

lemma crc_byte_inject_reg: "crc_byte c b = crc_byte d b \<longleftrightarrow> c = d"
  by (simp add: crc_byte_def crc_shifts_inject xor_inject)

lemma crc_byte_inject_byte: "crc_byte c b = crc_byte c b' \<longleftrightarrow> b = b'"
proof -
  have "(ucast b :: 32 word) = ucast b' \<longleftrightarrow> b = b'"
  proof -
    have "unat (ucast x :: 32 word) = unat x" for x :: byte
    proof -
      have "unat x < 2 ^ 32" by (rule less_trans [OF byte_lt]) simp
      then show ?thesis by (simp add: unsigned_ucast_eq take_bit_eq_mod)
    qed
    then show ?thesis by (metis word_unat_eq_iff)
  qed
  then show ?thesis
    by (simp add: crc_byte_def crc_shifts_inject xor_inject_left)
qed

lemma crc_fold_inject: "foldl crc_byte c bs = foldl crc_byte d bs \<longleftrightarrow> c = d"
  by (induction bs arbitrary: c d) (simp_all add: crc_byte_inject_reg)

lemma crc32_one_byte: "b \<noteq> b' \<Longrightarrow> crc32 (xs @ b # ys) \<noteq> crc32 (xs @ b' # ys)"
  by (simp add: crc32_def crc_fold_inject crc_byte_inject_byte)

lemma crc32_update:
  "i < length bs \<Longrightarrow> b \<noteq> bs ! i \<Longrightarrow> crc32 (bs[i := b]) \<noteq> crc32 bs"
  using crc32_one_byte [of b "bs ! i" "take i bs" "drop (Suc i) bs"]
  by (simp add: upd_conv_take_nth_drop id_take_nth_drop [symmetric])

end
