(* ===== verification/Framing.thy ===== *)
theory Framing
  imports Cobs Crc32
begin

text \<open>
  The wire frame of \<^verbatim>\<open>protocol.py\<close>: the \<^verbatim>\<open>Frame\<close> dataclass, \<^verbatim>\<open>encode_frame\<close> and
  \<^verbatim>\<open>decode_frame\<close> with every check in the order of the source. A decoded frame is
  characterised exactly (\<open>decode_frame_iff\<close>), which gives the round trip, and a single
  changed byte of the stuffed content is always rejected.
\<close>

record frame =
  fr_channel :: int
  fr_type :: int
  fr_flags :: int
  fr_session_id :: int
  fr_request_id :: int
  fr_stream_id :: int
  fr_sequence :: int
  fr_payload :: bytes

definition wire_uint :: "string \<Rightarrow> int \<Rightarrow> nat \<Rightarrow> nat res" where
  "wire_uint name v bits =
     (if 0 \<le> v \<and> v < 2 ^ bits then Inr (nat v)
      else Inl (ProtocolError (name @ '' does not fit'')))"

text \<open>\<^verbatim>\<open>HEADER = struct.Struct("<4sBBBBHHIIIII")\<close>.\<close>

definition pack_header ::
  "nat \<Rightarrow> nat \<Rightarrow> nat \<Rightarrow> nat \<Rightarrow> nat \<Rightarrow> nat \<Rightarrow> nat \<Rightarrow> nat \<Rightarrow> bytes" where
  "pack_header channel ftype flags session_id request_id stream_id sequence payload_size =
     MAGIC @ le_bytes 1 VERSION @ le_bytes 1 HEADER_SIZE @ le_bytes 1 channel @ le_bytes 1 ftype
     @ le_bytes 2 flags @ le_bytes 2 0 @ le_bytes 4 session_id @ le_bytes 4 request_id
     @ le_bytes 4 stream_id @ le_bytes 4 sequence @ le_bytes 4 payload_size"

definition encode_frame :: "frame \<Rightarrow> bytes res" where
  "encode_frame frame =
     (let payload = fr_payload frame in
      bindr (raise_if (length payload > MAX_PAYLOAD) (ProtocolError ''payload exceeds limit'')) (\<lambda>_.
      bindr (wire_uint ''channel'' (fr_channel frame) 8) (\<lambda>channel.
      bindr (raise_if (channel > channel_code Channel_SYSTEM_UPDATE)
               (ProtocolError ''invalid channel'')) (\<lambda>_.
      bindr (wire_uint ''type'' (fr_type frame) 8) (\<lambda>ftype.
      bindr (wire_uint ''flags'' (fr_flags frame) 16) (\<lambda>flags.
      bindr (wire_uint ''session_id'' (fr_session_id frame) 32) (\<lambda>session_id.
      bindr (wire_uint ''request_id'' (fr_request_id frame) 32) (\<lambda>request_id.
      bindr (wire_uint ''stream_id'' (fr_stream_id frame) 32) (\<lambda>stream_id.
      bindr (wire_uint ''sequence'' (fr_sequence frame) 32) (\<lambda>sequence.
      let header = pack_header channel ftype flags session_id request_id stream_id sequence
                     (length payload);
          plain = header @ payload;
          plain = plain @ le_bytes 4 (unat (crc32 plain));
          wire = cobs_encode plain @ [0]
      in bindr (raise_if (length wire > MAX_WIRE_FRAME)
                  (ProtocolError ''encoded frame exceeds wire buffer'')) (\<lambda>_.
         Inr wire)))))))))))"

definition decode_frame :: "bytes \<Rightarrow> frame res" where
  "decode_frame encoded =
     bindr (raise_if (encoded = [] \<or> length encoded \<ge> MAX_WIRE_FRAME)
              (ProtocolError ''invalid encoded frame size'')) (\<lambda>_.
     bindr (cobs_decode encoded) (\<lambda>plain.
     bindr (raise_if (length plain < HEADER_SIZE + 4)
              (ProtocolError ''frame is shorter than header and CRC'')) (\<lambda>_.
     let magic = take 4 plain;
         version = uint_at 1 4 plain;
         header_size = uint_at 1 5 plain;
         channel = uint_at 1 6 plain;
         ftype = uint_at 1 7 plain;
         flags = uint_at 2 8 plain;
         reserved = uint_at 2 10 plain;
         session_id = uint_at 4 12 plain;
         request_id = uint_at 4 16 plain;
         stream_id = uint_at 4 20 plain;
         sequence = uint_at 4 24 plain;
         payload_size = uint_at 4 28 plain
     in
     bindr (raise_if (magic \<noteq> MAGIC \<or> version \<noteq> VERSION \<or> header_size \<noteq> HEADER_SIZE)
              (ProtocolError ''unsupported frame header'')) (\<lambda>_.
     bindr (raise_if (reserved \<noteq> 0 \<or> channel > channel_code Channel_SYSTEM_UPDATE)
              (ProtocolError ''invalid reserved field or channel'')) (\<lambda>_.
     bindr (raise_if (payload_size > MAX_PAYLOAD \<or> length plain \<noteq> HEADER_SIZE + payload_size + 4)
              (ProtocolError ''payload size mismatch'')) (\<lambda>_.
     let expected_crc = uint_at 4 (length plain - 4) plain;
         actual_crc = unat (crc32 (take (length plain - 4) plain))
     in
     bindr (raise_if (expected_crc \<noteq> actual_crc) (ProtocolError ''CRC32 mismatch'')) (\<lambda>_.
     Inr \<lparr>fr_channel = int channel, fr_type = int ftype, fr_flags = int flags,
          fr_session_id = int session_id, fr_request_id = int request_id,
          fr_stream_id = int stream_id, fr_sequence = int sequence,
          fr_payload = pyslice HEADER_SIZE (length plain - 4) plain\<rparr>)))))))"

section \<open>What a frame must satisfy\<close>

definition frame_valid :: "frame \<Rightarrow> bool" where
  "frame_valid f \<longleftrightarrow>
     0 \<le> fr_channel f \<and> fr_channel f \<le> 9 \<and> 0 \<le> fr_type f \<and> fr_type f < 2 ^ 8
   \<and> 0 \<le> fr_flags f \<and> fr_flags f < 2 ^ 16 \<and> 0 \<le> fr_session_id f \<and> fr_session_id f < 2 ^ 32
   \<and> 0 \<le> fr_request_id f \<and> fr_request_id f < 2 ^ 32 \<and> 0 \<le> fr_stream_id f \<and> fr_stream_id f < 2 ^ 32
   \<and> 0 \<le> fr_sequence f \<and> fr_sequence f < 2 ^ 32 \<and> length (fr_payload f) \<le> MAX_PAYLOAD"

definition frame_body :: "frame \<Rightarrow> bytes" where
  "frame_body f =
     pack_header (nat (fr_channel f)) (nat (fr_type f)) (nat (fr_flags f)) (nat (fr_session_id f))
       (nat (fr_request_id f)) (nat (fr_stream_id f)) (nat (fr_sequence f)) (length (fr_payload f))
     @ fr_payload f"

text \<open>The content that is stuffed: header, payload and checksum.\<close>

definition frame_plain :: "frame \<Rightarrow> bytes" where
  "frame_plain f = frame_body f @ le_bytes 4 (unat (crc32 (frame_body f)))"

lemma length_MAGIC [simp]: "length MAGIC = 4"
  by (simp add: MAGIC_def)

lemma length_pack_header [simp]: "length (pack_header c t fl s r st sq n) = 32"
  by (simp add: pack_header_def)

lemma length_frame_plain: "length (frame_plain f) = 36 + length (fr_payload f)"
  by (simp add: frame_plain_def frame_body_def)

lemma unat_crc: "unat (c :: 32 word) < 4294967296"
  using unsigned_less [of c, where ?'a = nat] by simp

lemma frame_wire_fits:
  assumes "length (fr_payload f) \<le> MAX_PAYLOAD"
  shows "length (cobs_encode (frame_plain f)) < MAX_WIRE_FRAME"
proof -
  have "length (frame_plain f) \<le> 4036" (is "?n \<le> _")
    using assms by (simp add: length_frame_plain frame_consts)
  then have "?n div 254 \<le> 15" by linarith
  with \<open>?n \<le> 4036\<close> cobs_encode_length_bound [of "frame_plain f"] show ?thesis
    by (simp add: frame_consts)
qed

lemma wire_uint_eq_Inr: "wire_uint name v bits = Inr n \<longleftrightarrow> 0 \<le> v \<and> v < 2 ^ bits \<and> n = nat v"
  by (auto simp: wire_uint_def)

lemma encode_frame_valid:
  assumes "frame_valid f"
  shows "encode_frame f = Inr (cobs_encode (frame_plain f) @ [0])"
proof -
  have "length (cobs_encode (frame_plain f)) < MAX_WIRE_FRAME"
    using assms by (intro frame_wire_fits) (simp add: frame_valid_def)
  moreover have "nat (fr_channel f) \<le> 9"
    using assms by (auto simp: frame_valid_def)
  ultimately show ?thesis
    using assms
    by (simp add: encode_frame_def frame_valid_def wire_uint_def raise_if_def Let_def
        frame_plain_def frame_body_def)
qed

lemma encode_frame_invalid:
  assumes "encode_frame f = Inr w"
  shows "frame_valid f"
  using assms
  by (simp add: encode_frame_def frame_valid_def Let_def res_simps wire_uint_eq_Inr not_less)
     linarith

section \<open>Decoding\<close>

lemma frame_plain_fields:
  assumes "frame_valid f"
  defines "p \<equiv> frame_plain f"
  shows "take 4 p = MAGIC" "uint_at 1 4 p = VERSION" "uint_at 1 5 p = HEADER_SIZE"
    "uint_at 1 6 p = nat (fr_channel f)" "uint_at 1 7 p = nat (fr_type f)"
    "uint_at 2 8 p = nat (fr_flags f)" "uint_at 2 10 p = 0"
    "uint_at 4 12 p = nat (fr_session_id f)" "uint_at 4 16 p = nat (fr_request_id f)"
    "uint_at 4 20 p = nat (fr_stream_id f)" "uint_at 4 24 p = nat (fr_sequence f)"
    "uint_at 4 28 p = length (fr_payload f)"
    "uint_at 4 (length p - 4) p = unat (crc32 (frame_body f))"
    "take (length p - 4) p = frame_body f"
    "pyslice HEADER_SIZE (length p - 4) p = fr_payload f"
  using assms(1)
  by (simp_all add: p_def frame_plain_def frame_body_def pack_header_def frame_valid_def le_simps
      VERSION_def HEADER_SIZE_def MAX_PAYLOAD_def nat_less_iff pyslice_def unat_crc)

lemma header_of_plain:
  assumes len: "36 \<le> length p" and magic: "take 4 p = MAGIC"
    and fixd: "uint_at 1 4 p = VERSION" "uint_at 1 5 p = HEADER_SIZE" "uint_at 2 10 p = 0"
  shows "pack_header (uint_at 1 6 p) (uint_at 1 7 p) (uint_at 2 8 p) (uint_at 4 12 p)
           (uint_at 4 16 p) (uint_at 4 20 p) (uint_at 4 24 p) (uint_at 4 28 p) = take 32 p"
proof -
  have "pack_header (uint_at 1 6 p) (uint_at 1 7 p) (uint_at 2 8 p) (uint_at 4 12 p)
          (uint_at 4 16 p) (uint_at 4 20 p) (uint_at 4 24 p) (uint_at 4 28 p)
      = pyslice 0 4 p @ pyslice 4 5 p @ pyslice 5 6 p @ pyslice 6 7 p @ pyslice 7 8 p
        @ pyslice 8 10 p @ pyslice 10 12 p @ pyslice 12 16 p @ pyslice 16 20 p @ pyslice 20 24 p
        @ pyslice 24 28 p @ pyslice 28 32 p"
  proof -
    have "MAGIC = pyslice 0 4 p" by (simp add: magic)
    moreover have "le_bytes 1 VERSION = pyslice 4 5 p"
      using le_bytes_uint_at [of 4 1 p] len by (simp add: fixd [simplified])
    moreover have "le_bytes 1 HEADER_SIZE = pyslice 5 6 p"
      using le_bytes_uint_at [of 5 1 p] len by (simp add: fixd [simplified])
    moreover have "le_bytes 2 0 = pyslice 10 12 p"
      using le_bytes_uint_at [of 10 2 p] len by (simp add: fixd)
    ultimately show ?thesis
      using len by (simp add: pack_header_def le_bytes_uint_at del: pyslice_0)
  qed
  also have "\<dots> = pyslice 0 32 p"
    by (simp add: pyslice_join del: pyslice_0)
  finally show ?thesis by simp
qed

lemma plain_of_decoded:
  assumes dec: "decode_frame e = Inr f"
  obtains "e \<noteq> []" "length e < MAX_WIRE_FRAME" "frame_valid f" "cobs_decode e = Inr (frame_plain f)"
proof -
  from dec obtain p where e: "e \<noteq> []" "length e < MAX_WIRE_FRAME" and p: "cobs_decode e = Inr p"
    and len: "36 \<le> length p" "length p = 36 + uint_at 4 28 p" "uint_at 4 28 p \<le> MAX_PAYLOAD"
    and magic: "take 4 p = MAGIC"
    and fixd: "uint_at 1 4 p = VERSION" "uint_at 1 5 p = HEADER_SIZE" "uint_at 2 10 p = 0"
    and chan: "uint_at 1 6 p \<le> 9"
    and crc: "uint_at 4 (length p - 4) p = unat (crc32 (take (length p - 4) p))"
    and f: "f = \<lparr>fr_channel = int (uint_at 1 6 p), fr_type = int (uint_at 1 7 p),
          fr_flags = int (uint_at 2 8 p), fr_session_id = int (uint_at 4 12 p),
          fr_request_id = int (uint_at 4 16 p), fr_stream_id = int (uint_at 4 20 p),
          fr_sequence = int (uint_at 4 24 p), fr_payload = pyslice 32 (length p - 4) p\<rparr>"
    by (auto simp: decode_frame_def Let_def res_simps HEADER_SIZE_def not_less not_le)
  have pay: "length (fr_payload f) = uint_at 4 28 p"
    using len by (simp add: f)
  have body: "frame_body f = take (length p - 4) p"
  proof -
    have "frame_body f = take 32 p @ pyslice 32 (length p - 4) p"
      using header_of_plain [OF len(1) magic fixd] pay by (simp add: frame_body_def f)
    also have "\<dots> = pyslice 0 (length p - 4) p"
      using len(1) pyslice_join [of 0 32 "length p - 4" p] by simp
    finally show ?thesis by simp
  qed
  have "frame_plain f = pyslice 0 (length p - 4) p @ pyslice (length p - 4) (length p) p"
    using le_bytes_uint_at [of "length p - 4" 4 p] len(1) crc
    by (simp add: frame_plain_def body)
  also have "\<dots> = p"
    using pyslice_join [of 0 "length p - 4" "length p" p] by simp
  finally have "frame_plain f = p" .
  moreover have "frame_valid f"
    using len(3) pay chan uint_at_bound [of 1 7 p] uint_at_bound [of 2 8 p]
      uint_at_bound [of 4 12 p] uint_at_bound [of 4 16 p] uint_at_bound [of 4 20 p]
      uint_at_bound [of 4 24 p]
    by (simp add: frame_valid_def f)
  ultimately show thesis using that e p by simp
qed

lemma decode_frame_plain:
  assumes "e \<noteq> []" "length e < MAX_WIRE_FRAME" "frame_valid f" "cobs_decode e = Inr (frame_plain f)"
  shows "decode_frame e = Inr f"
proof -
  have bounds: "nat (fr_channel f) \<le> 9" "length (fr_payload f) \<le> MAX_PAYLOAD"
    using assms(3) by (auto simp: frame_valid_def)
  have "raise_if (e = [] \<or> length e \<ge> MAX_WIRE_FRAME) x = Inr ()" for x :: exn
    using assms(1,2) by (simp add: raise_if_def)
  moreover have "raise_if (length (frame_plain f) < HEADER_SIZE + 4) x = Inr ()" for x :: exn
    by (simp add: length_frame_plain HEADER_SIZE_def)
  moreover have "raise_if (length (fr_payload f) > MAX_PAYLOAD
      \<or> length (frame_plain f) \<noteq> HEADER_SIZE + length (fr_payload f) + 4) x = Inr ()" for x :: exn
    using bounds(2) by (simp add: length_frame_plain HEADER_SIZE_def raise_if_def)
  moreover have "raise_if (0 \<noteq> (0::nat) \<or> nat (fr_channel f) > channel_code Channel_SYSTEM_UPDATE) x
      = Inr ()" for x :: exn
    using bounds(1) by (simp add: raise_if_def)
  ultimately have "decode_frame e = Inr \<lparr>fr_channel = int (nat (fr_channel f)),
      fr_type = int (nat (fr_type f)), fr_flags = int (nat (fr_flags f)),
      fr_session_id = int (nat (fr_session_id f)), fr_request_id = int (nat (fr_request_id f)),
      fr_stream_id = int (nat (fr_stream_id f)), fr_sequence = int (nat (fr_sequence f)),
      fr_payload = fr_payload f\<rparr>"
    by (simp only: decode_frame_def Let_def assms(4) bindr.simps frame_plain_fields [OF assms(3)]
        simp_thms raise_if_simps)
  then show ?thesis
    using assms(3) by (simp add: frame_valid_def)
qed

lemma decode_frame_iff:
  "decode_frame e = Inr f \<longleftrightarrow>
     e \<noteq> [] \<and> length e < MAX_WIRE_FRAME \<and> frame_valid f \<and> cobs_decode e = Inr (frame_plain f)"
proof
  assume "decode_frame e = Inr f"
  then show "e \<noteq> [] \<and> length e < MAX_WIRE_FRAME \<and> frame_valid f \<and> cobs_decode e = Inr (frame_plain f)"
    by (rule plain_of_decoded) (intro conjI)
next
  assume "e \<noteq> [] \<and> length e < MAX_WIRE_FRAME \<and> frame_valid f \<and> cobs_decode e = Inr (frame_plain f)"
  then show "decode_frame e = Inr f"
    by (intro decode_frame_plain) (elim conjE, assumption)+
qed

section \<open>Corruption\<close>

lemma decode_crc_mismatch:
  assumes "cobs_decode e = Inr p"
    and "uint_at 4 (length p - 4) p \<noteq> unat (crc32 (take (length p - 4) p))"
  shows "\<exists>m. decode_frame e = Inl (ProtocolError m)"
  using assms by (auto simp: decode_frame_def Let_def raise_if_def)

lemma update_body_crc:
  assumes "i < length p - 4" "4 \<le> length p" "b \<noteq> p ! i"
    and "uint_at 4 (length p - 4) p = unat (crc32 (take (length p - 4) p))"
  shows "uint_at 4 (length p - 4) (p[i := b]) \<noteq> unat (crc32 (take (length p - 4) (p[i := b])))"
proof -
  have "uint_at 4 (length p - 4) (p[i := b]) = uint_at 4 (length p - 4) p"
    using assms(1) by (simp add: uint_at_def pyslice_def)
  moreover have "crc32 (take (length p - 4) (p[i := b])) \<noteq> crc32 (take (length p - 4) p)"
    using crc32_update [of i "take (length p - 4) p" b] assms(1,3) by (simp add: take_update_swap)
  ultimately show ?thesis
    using assms(4) by (metis word_unat_eq_iff)
qed

lemma update_crc_field:
  assumes "length p - 4 \<le> i" "i < length p" "4 \<le> length p" "b \<noteq> p ! i"
    and "uint_at 4 (length p - 4) p = unat (crc32 (take (length p - 4) p))"
  shows "uint_at 4 (length p - 4) (p[i := b]) \<noteq> unat (crc32 (take (length p - 4) (p[i := b])))"
proof -
  let ?k = "length p - 4"
  have "drop ?k (p[i := b]) \<noteq> drop ?k p"
  proof
    assume "drop ?k (p[i := b]) = drop ?k p"
    then have "drop ?k (p[i := b]) ! (i - ?k) = drop ?k p ! (i - ?k)" by simp
    with assms(1,2,4) show False by simp
  qed
  then have "uint_at 4 ?k (p[i := b]) \<noteq> uint_at 4 ?k p"
    using assms(3) le_nat_inj [of "drop ?k (p[i := b])" "drop ?k p"]
    by (auto simp: uint_at_def pyslice_to_end)
  with assms(1,5) show ?thesis by simp
qed

section \<open>Claims\<close>

text \<open>
  Claim C2. Round trip of a frame: whenever \<^verbatim>\<open>encode_frame\<close> returns, its result is a
  non-empty run of non-zero bytes followed by the delimiter, fits the wire buffer, and
  \<^verbatim>\<open>decode_frame\<close> of that run gives back the frame with every field unchanged.
\<close>

theorem frame_roundtrip:
  assumes "encode_frame f = Inr w"
  shows "\<exists>e. w = e @ [0] \<and> e \<noteq> [] \<and> 0 \<notin> set e \<and> length w \<le> MAX_WIRE_FRAME \<and> decode_frame e = Inr f"
proof -
  from assms have valid: "frame_valid f" by (rule encode_frame_invalid)
  then have fits: "length (cobs_encode (frame_plain f)) < MAX_WIRE_FRAME"
    by (intro frame_wire_fits) (simp add: frame_valid_def)
  have "decode_frame (cobs_encode (frame_plain f)) = Inr f"
    using fits valid cobs.enc_nonempty cobs.dec_enc by (intro decode_frame_plain)
  moreover have "w = cobs_encode (frame_plain f) @ [0]"
    using assms encode_frame_valid [OF valid] by simp
  ultimately show ?thesis
    using fits cobs.enc_zero_free cobs.enc_nonempty by simp
qed

definition ping_frame :: frame where
  "ping_frame = \<lparr>fr_channel = 0, fr_type = 3, fr_flags = 0, fr_session_id = 7, fr_request_id = 1,
     fr_stream_id = 0, fr_sequence = 1, fr_payload = [0, 1, 0, 255]\<rparr>"

lemma ping_frame_valid: "frame_valid ping_frame"
  by (simp add: frame_valid_def ping_frame_def MAX_PAYLOAD_def)

theorem frame_roundtrip_witness:
  "\<exists>w e. encode_frame ping_frame = Inr w \<and> w = e @ [0] \<and> decode_frame e = Inr ping_frame"
  using encode_frame_valid [OF ping_frame_valid] frame_roundtrip [of ping_frame] by blast

text \<open>
  \<^verbatim>\<open>encode_frame\<close> returns exactly on the frames whose channel is a known channel,
  whose header fields fit their wire width and whose payload has at most 4000 bytes. In
  particular the last check, for an encoding beyond the wire buffer, never fires.
\<close>

theorem encode_frame_accepts:
  "is_ok (encode_frame f) \<longleftrightarrow> frame_valid f"
  using encode_frame_valid [of f] encode_frame_invalid [of f] by (auto simp: is_ok_iff)


text \<open>
  A frame with one corrupted byte is never accepted: if the content of an accepted
  encoding is changed in any one byte, header, payload or checksum, to any other value,
  \<^verbatim>\<open>decode_frame\<close> of its encoding raises \<^verbatim>\<open>ProtocolError\<close>.
\<close>

theorem decode_frame_detects_corruption:
  assumes "decode_frame e = Inr f" and "cobs_decode e = Inr p"
    and "i < length p" and "b \<noteq> p ! i"
  shows "\<exists>m. decode_frame (cobs_encode (p[i := b])) = Inl (ProtocolError m)"
proof -
  have p: "p = frame_plain f" "frame_valid f" using assms(1,2) by (auto simp: decode_frame_iff)
  then have len: "4 \<le> length p" by (simp add: length_frame_plain)
  have crc: "uint_at 4 (length p - 4) p = unat (crc32 (take (length p - 4) p))"
    using p by (simp add: frame_plain_fields)
  have "uint_at 4 (length p - 4) (p[i := b]) \<noteq> unat (crc32 (take (length p - 4) (p[i := b])))"
    using update_body_crc [OF _ len assms(4) crc] update_crc_field [OF _ assms(3) len assms(4) crc]
    by (cases "i < length p - 4") simp_all
  then show ?thesis
    using decode_crc_mismatch [of "cobs_encode (p[i := b])"] cobs.dec_enc by simp
qed

theorem decode_frame_detects_corruption_witness:
  "decode_frame (cobs_encode (frame_plain ping_frame)) = Inr ping_frame
   \<and> (\<exists>m. decode_frame (cobs_encode ((frame_plain ping_frame)[32 := 9])) = Inl (ProtocolError m))"
proof -
  have len: "length (frame_plain ping_frame) = 40"
    by (simp add: length_frame_plain ping_frame_def)
  have nth: "frame_plain ping_frame ! 32 = 0"
    by (simp add: frame_plain_def frame_body_def nth_append) (simp add: ping_frame_def)
  have dec: "decode_frame (cobs_encode (frame_plain ping_frame)) = Inr ping_frame"
    using encode_frame_valid [OF ping_frame_valid] frame_wire_fits [of ping_frame]
    by (simp add: decode_frame_iff ping_frame_valid cobs.dec_enc cobs.enc_nonempty)
       (simp add: ping_frame_def MAX_PAYLOAD_def)
  show ?thesis
    using dec decode_frame_detects_corruption [OF dec cobs.dec_enc, of 32 9] by (simp add: len nth)
qed

end
