(* ===== verification/Frame_Decoder.thy ===== *)
theory Frame_Decoder
  imports Framing
begin

text \<open>
  The incremental parser \<^verbatim>\<open>FrameDecoder\<close> of \<^verbatim>\<open>protocol.py\<close>: its buffer, the discarding flag
  and the counter of invalid frames, one byte at a time as the loop of \<^verbatim>\<open>feed\<close>. Its abstract
  specification splits the whole stream at the zero bytes and decodes each segment on its own;
  the parser refines it, whatever the chunks the stream arrives in.
\<close>

record frame_decoder =
  fd_encoded :: bytes
  fd_discarding :: bool
  fd_invalid_frames :: nat

definition frame_decoder_init :: frame_decoder where
  "frame_decoder_init = \<lparr>fd_encoded = [], fd_discarding = False, fd_invalid_frames = 0\<rparr>"

text \<open>\<^verbatim>\<open>except ProtocolError\<close> is a handler for every exception of \<^verbatim>\<open>decode_frame\<close>.\<close>

lemma cobs_decode_errors: "cobs_decode e = Inl x \<Longrightarrow> \<exists>m. x = ProtocolError m"
  unfolding cobs_decode_unblock
proof (induction e rule: cobs_unblock.induct)
  case 1
  then show ?case by simp
next
  case (2 c rest)
  then show ?case by (auto simp: res_simps split: if_splits)
qed

lemma decode_frame_errors: "decode_frame e = Inl x \<Longrightarrow> \<exists>m. x = ProtocolError m"
  by (auto simp: decode_frame_def Let_def res_simps dest: cobs_decode_errors)

definition feed_byte :: "byte \<Rightarrow> frame_decoder \<times> frame list \<Rightarrow> frame_decoder \<times> frame list" where
  "feed_byte v s =
     (case s of (d, frames) \<Rightarrow>
       if v = 0 then
         if fd_discarding d then (d\<lparr>fd_discarding := False, fd_encoded := []\<rparr>, frames)
         else if fd_encoded d = [] then (d, frames)
         else (case decode_frame (fd_encoded d) of
                 Inr f \<Rightarrow> (d\<lparr>fd_encoded := []\<rparr>, frames @ [f])
               | Inl _ \<Rightarrow> (d\<lparr>fd_invalid_frames := fd_invalid_frames d + 1, fd_encoded := []\<rparr>, frames))
       else if \<not> fd_discarding d then
         if length (fd_encoded d) \<ge> MAX_WIRE_FRAME - 1
         then (d\<lparr>fd_invalid_frames := fd_invalid_frames d + 1, fd_discarding := True,
                 fd_encoded := []\<rparr>, frames)
         else (d\<lparr>fd_encoded := fd_encoded d @ [v]\<rparr>, frames)
       else (d, frames))"

definition feed :: "frame_decoder \<Rightarrow> bytes \<Rightarrow> frame_decoder \<times> frame list" where
  "feed d data = fold feed_byte data (d, [])"

text \<open>The read loop: one \<^verbatim>\<open>feed\<close> per chunk the link returns, the frames in order.\<close>

fun feed_chunks :: "frame_decoder \<Rightarrow> bytes list \<Rightarrow> frame_decoder \<times> frame list" where
  "feed_chunks d [] = (d, [])"
| "feed_chunks d (c # cs) =
     (case feed d c of (d', fs) \<Rightarrow> case feed_chunks d' cs of (d'', gs) \<Rightarrow> (d'', fs @ gs))"

section \<open>The abstract specification\<close>

text \<open>The segments closed by a zero byte, and the bytes after the last zero.\<close>

fun split_zero :: "bytes \<Rightarrow> bytes \<Rightarrow> bytes list \<times> bytes" where
  "split_zero seg [] = ([], seg)"
| "split_zero seg (v # vs) =
     (if v = 0 then (case split_zero [] vs of (segs, rest) \<Rightarrow> (seg # segs, rest))
      else split_zero (seg @ [v]) vs)"

definition segment_frames :: "bytes \<Rightarrow> frame list" where
  "segment_frames seg = (case decode_frame seg of Inr f \<Rightarrow> [f] | Inl _ \<Rightarrow> [])"

definition segment_invalid :: "bytes \<Rightarrow> nat" where
  "segment_invalid seg = (if seg = [] \<or> is_ok (decode_frame seg) then 0 else 1)"

text \<open>The parser's state after the bytes \<open>rest\<close> of an open segment.\<close>

definition decoder_after :: "nat \<Rightarrow> bytes \<Rightarrow> frame_decoder" where
  "decoder_after n rest =
     (if length rest < MAX_WIRE_FRAME
      then \<lparr>fd_encoded = rest, fd_discarding = False, fd_invalid_frames = n\<rparr>
      else \<lparr>fd_encoded = [], fd_discarding = True, fd_invalid_frames = n + 1\<rparr>)"

section \<open>Refinement\<close>

lemma feed_byte_nonzero:
  "v \<noteq> 0 \<Longrightarrow> feed_byte v (decoder_after n seg, out) = (decoder_after n (seg @ [v]), out)"
  by (simp add: feed_byte_def decoder_after_def MAX_WIRE_FRAME_def)

lemma feed_byte_zero:
  "feed_byte 0 (decoder_after n seg, out)
     = (decoder_after (n + segment_invalid seg) [], out @ segment_frames seg)"
proof (cases "length seg < MAX_WIRE_FRAME")
  case True
  then show ?thesis
    by (auto simp: feed_byte_def decoder_after_def segment_invalid_def segment_frames_def
        MAX_WIRE_FRAME_def decode_frame_def split: sum.split)
next
  case False
  then have "decode_frame seg = Inl (ProtocolError ''invalid encoded frame size'')"
    by (simp add: decode_frame_def raise_if_def)
  with False show ?thesis
    by (auto simp: feed_byte_def decoder_after_def segment_invalid_def segment_frames_def
        MAX_WIRE_FRAME_def)
qed

lemma fold_feed_split:
  "fold feed_byte data (decoder_after n seg, out)
     = (case split_zero seg data of (segs, rest) \<Rightarrow>
          (decoder_after (n + sum_list (map segment_invalid segs)) rest,
           out @ concat (map segment_frames segs)))"
proof (induction data arbitrary: n seg out)
  case Nil
  then show ?case by simp
next
  case (Cons v vs)
  then show ?case
    by (cases "v = 0") (simp_all add: feed_byte_zero feed_byte_nonzero split_beta add.assoc)
qed

lemma feed_split:
  "feed (decoder_after n seg) data
     = (case split_zero seg data of (segs, rest) \<Rightarrow>
          (decoder_after (n + sum_list (map segment_invalid segs)) rest,
           concat (map segment_frames segs)))"
  by (simp add: feed_def fold_feed_split)

lemma decoder_init_after: "frame_decoder_init = decoder_after 0 []"
  by (simp add: frame_decoder_init_def decoder_after_def MAX_WIRE_FRAME_def)

lemma feed_byte_prefix:
  "feed_byte v (d, out @ fs) = (case feed_byte v (d, fs) of (d', gs) \<Rightarrow> (d', out @ gs))"
  by (simp add: feed_byte_def split: sum.split)

lemma fold_feed_prefix:
  "fold feed_byte data (d, out @ fs)
     = (case fold feed_byte data (d, fs) of (d', gs) \<Rightarrow> (d', out @ gs))"
proof (induction data arbitrary: d fs)
  case Nil
  then show ?case by simp
next
  case (Cons v vs)
  then show ?case by (simp add: feed_byte_prefix split_beta)
qed

lemma feed_append:
  "feed d (xs @ ys) = (case feed d xs of (d', fs) \<Rightarrow> case feed d' ys of (d'', gs) \<Rightarrow> (d'', fs @ gs))"
  using fold_feed_prefix [of ys "fst (feed d xs)" "snd (feed d xs)" "[]"]
  by (simp add: feed_def split_beta)

lemma split_zero_free: "0 \<notin> set xs \<Longrightarrow> split_zero seg xs = ([], seg @ xs)"
  by (induction xs arbitrary: seg) auto

lemma split_zero_delimited:
  "0 \<notin> set xs \<Longrightarrow> split_zero seg (xs @ 0 # ys)
     = (case split_zero [] ys of (segs, rest) \<Rightarrow> ((seg @ xs) # segs, rest))"
  by (induction xs arbitrary: seg) auto

lemma feed_wires:
  assumes "list_all2 (\<lambda>f w. encode_frame f = Inr w) fs ws"
  shows "feed (decoder_after n []) (concat ws) = (decoder_after n [], fs)"
  using assms
proof (induction rule: list_all2_induct)
  case Nil
  then show ?case by (simp add: feed_def)
next
  case (Cons f fs w ws)
  from Cons(1) have valid: "frame_valid f" by (rule encode_frame_invalid)
  let ?e = "cobs_encode (frame_plain f)"
  have w: "w = ?e @ [0]" using Cons(1) encode_frame_valid [OF valid] by simp
  have dec: "decode_frame ?e = Inr f"
    using valid frame_wire_fits [of f]
    by (simp add: decode_frame_iff cobs.dec_enc cobs.enc_nonempty frame_valid_def)
  have "feed (decoder_after n []) w = (decoder_after n [], [f])"
    using split_zero_delimited [OF cobs.enc_zero_free, of "[]" "frame_plain f" "[]"] dec
    by (simp add: feed_split w segment_invalid_def segment_frames_def)
  then show ?case
    using Cons.IH by (simp add: feed_append)
qed

section \<open>Claims\<close>

text \<open>
  Claim C1. Refinement: fed with any stream from its initial state, the parser delivers exactly
  the frames of the zero-delimited segments that \<^verbatim>\<open>decode_frame\<close> accepts, in stream order; it
  counts one invalid frame per non-empty segment that is not accepted, over-long ones included
  (an open segment is counted as soon as it outgrows the buffer), and holds the open segment.
\<close>

theorem decoder_refines_segments:
  "feed frame_decoder_init data
     = (case split_zero [] data of (segs, rest) \<Rightarrow>
          (decoder_after (sum_list (map segment_invalid segs)) rest,
           concat (map segment_frames segs)))"
  using feed_split [of 0 "[]" data] by (simp add: decoder_init_after)

text \<open>
  Claim C4. The chunks in which a stream arrives do not matter: feeding it chunk by chunk gives
  the frames and the final state of feeding it at once, from every state of the parser.
\<close>

theorem decoder_chunking: "feed_chunks d cs = feed d (concat cs)"
proof (induction cs arbitrary: d)
  case Nil
  then show ?case by (simp add: feed_def)
next
  case (Cons c cs)
  then show ?case by (simp add: feed_append split_beta)
qed

text \<open>
  Claim C5. Resynchronisation: whatever bytes came before, after the next zero byte every
  encoded frame of the stream is delivered, in order and unchanged, none is counted invalid,
  and the parser is left as the zero byte left it.
\<close>

theorem decoder_resynchronizes:
  assumes "list_all2 (\<lambda>f w. encode_frame f = Inr w) fs ws"
  shows "feed frame_decoder_init (garbage @ 0 # concat ws)
           = (case feed frame_decoder_init (garbage @ [0]) of (d, out) \<Rightarrow> (d, out @ fs))"
proof -
  define n where "n = (case split_zero [] garbage of (segs, rest) \<Rightarrow>
      sum_list (map segment_invalid segs) + segment_invalid rest)"
  have "fst (feed frame_decoder_init (garbage @ [0])) = decoder_after n []"
    using fold_feed_split [of garbage 0 "[]" "[]"]
    by (simp add: feed_def decoder_init_after feed_byte_zero n_def split_beta)
  moreover have "feed frame_decoder_init (garbage @ 0 # concat ws)
      = feed frame_decoder_init ((garbage @ [0]) @ concat ws)" by simp
  ultimately show ?thesis
    using feed_wires [OF assms, of n] by (simp only: feed_append) (simp add: split_beta)
qed

theorem decoder_resynchronizes_witness:
  "\<exists>w. encode_frame ping_frame = Inr w
     \<and> snd (feed frame_decoder_init ([9, 8, 7] @ 0 # w)) = [ping_frame]"
proof -
  let ?w = "cobs_encode (frame_plain ping_frame) @ [0]"
  have enc: "encode_frame ping_frame = Inr ?w" by (rule encode_frame_valid [OF ping_frame_valid])
  have "decode_frame [9, 8, 7] = Inl (ProtocolError ''truncated COBS block'')"
    by (simp add: decode_frame_def MAX_WIRE_FRAME_def cobs_decode_unblock)
  then have "snd (feed frame_decoder_init ([9, 8, 7] @ [0])) = []"
    by (simp add: decoder_init_after feed_split segment_frames_def)
  moreover have "feed frame_decoder_init ([9, 8, 7] @ 0 # concat [?w])
      = (case feed frame_decoder_init ([9, 8, 7] @ [0]) of (d, out) \<Rightarrow> (d, out @ [ping_frame]))"
    using decoder_resynchronizes [of "[ping_frame]" "[?w]" "[9, 8, 7]"] enc by simp
  ultimately have "snd (feed frame_decoder_init ([9, 8, 7] @ 0 # ?w)) = [ping_frame]"
    by (simp add: split_beta)
  with enc show ?thesis by blast
qed

text \<open>
  Bounds and types: the parser never buffers more than 4095 bytes, never holds bytes
  while it discards, and delivers only frames whose fields are in their wire ranges.
\<close>

theorem decoder_bounded:
  "length (fd_encoded (fst (feed frame_decoder_init data))) < MAX_WIRE_FRAME
   \<and> \<not> (fd_discarding (fst (feed frame_decoder_init data))
        \<and> fd_encoded (fst (feed frame_decoder_init data)) \<noteq> [])
   \<and> list_all frame_valid (snd (feed frame_decoder_init data))"
proof -
  have "list_all frame_valid (segment_frames seg)" for seg
    by (simp add: segment_frames_def decode_frame_iff split: sum.split)
  then have "list_all frame_valid (concat (map segment_frames segs))" for segs
    by (induction segs) auto
  then show ?thesis
    using feed_split [of 0 "[]" data]
    by (simp add: decoder_init_after split_beta) (simp add: decoder_after_def MAX_WIRE_FRAME_def)
qed

end
