(* ===== verification/Tlv.thy ===== *)
theory Tlv
  imports Protocol_Types
begin

text \<open>
  The type-length-value records of \<^verbatim>\<open>protocol.py\<close>: \<^verbatim>\<open>encode_tlv\<close>, \<^verbatim>\<open>decode_tlv\<close> and the
  typed readers \<^verbatim>\<open>tlv_u8\<close> to \<^verbatim>\<open>tlv_u64\<close>. The decoded dictionary is a map from tags to
  values; the decoder accepts exactly the encoder's outputs.
\<close>

definition encode_tlv_item :: "int \<times> bytes \<Rightarrow> bytes res" where
  "encode_tlv_item item =
     (case item of (tag, value) \<Rightarrow>
        bindr (raise_if (length value > 0xFFFF) (ProtocolError ''TLV value is too large'')) (\<lambda>_.
        bindr (pack_uint StructError 1 tag) (\<lambda>b.
        bindr (pack_uint StructError 2 (int (length value))) (\<lambda>h.
        Inr (b @ h @ value)))))"

definition encode_tlv :: "(int \<times> bytes) list \<Rightarrow> bytes res" where
  "encode_tlv items = bindr (mapr encode_tlv_item items) (\<lambda>parts. Inr (concat parts))"

type_synonym tlv_fields = "nat \<rightharpoonup> bytes"

function decode_tlv_loop :: "bytes \<Rightarrow> nat \<Rightarrow> tlv_fields \<Rightarrow> tlv_fields res" where
  "decode_tlv_loop payload offset result =
     (if offset < length payload then
        if length payload - offset < 3 then Inl (ProtocolError ''truncated TLV header'')
        else let tag = uint_at 1 offset payload;
                 len = uint_at 2 (offset + 1) payload;
                 start = offset + 3;
                 stop = start + len
             in if stop > length payload then Inl (ProtocolError ''truncated TLV value'')
                else decode_tlv_loop payload stop (result(tag \<mapsto> pyslice start stop payload))
      else Inr result)"
  by pat_completeness auto
termination
  by (relation "measure (\<lambda>(payload, offset, result). length payload - offset)") auto

declare decode_tlv_loop.simps [simp del]

definition decode_tlv :: "bytes \<Rightarrow> tlv_fields res" where
  "decode_tlv payload = decode_tlv_loop payload 0 Map.empty"

text \<open>The readers: a missing field or a field of another size gives the default.\<close>

definition tlv_uint :: "nat \<Rightarrow> tlv_fields \<Rightarrow> nat \<Rightarrow> nat \<Rightarrow> nat" where
  "tlv_uint n fields tag dflt =
     (case fields tag of
        Some value \<Rightarrow> if length value = n then le_nat value else dflt
      | None \<Rightarrow> dflt)"

definition tlv_u8 :: "tlv_fields \<Rightarrow> nat \<Rightarrow> nat \<Rightarrow> nat" where
  "tlv_u8 fields tag dflt =
     (case fields tag of
        Some value \<Rightarrow> if length value = 1 then unat (value ! 0) else dflt
      | None \<Rightarrow> dflt)"

definition tlv_u16 :: "tlv_fields \<Rightarrow> nat \<Rightarrow> nat \<Rightarrow> nat" where
  "tlv_u16 = tlv_uint 2"

definition tlv_u32 :: "tlv_fields \<Rightarrow> nat \<Rightarrow> nat \<Rightarrow> nat" where
  "tlv_u32 = tlv_uint 4"

definition tlv_u64 :: "tlv_fields \<Rightarrow> nat \<Rightarrow> nat \<Rightarrow> nat" where
  "tlv_u64 = tlv_uint 8"

section \<open>Records on the wire\<close>

text \<open>The bytes of a record whose tag and length fit.\<close>

definition tlv_record :: "nat \<times> bytes \<Rightarrow> bytes" where
  "tlv_record r = le_bytes 1 (fst r) @ le_bytes 2 (length (snd r)) @ snd r"

definition tlv_ok :: "nat \<times> bytes \<Rightarrow> bool" where
  "tlv_ok r \<longleftrightarrow> fst r < 256 \<and> length (snd r) \<le> 0xFFFF"

definition tlv_map :: "(nat \<times> bytes) list \<Rightarrow> tlv_fields" where
  "tlv_map rs = map_of (rev rs)"

lemma length_tlv_record [simp]: "length (tlv_record r) = 3 + length (snd r)"
  by (simp add: tlv_record_def)

lemma decode_step:
  assumes "tlv_ok r"
  shows "decode_tlv_loop (pre @ tlv_record r @ rest) (length pre) result
       = decode_tlv_loop (pre @ tlv_record r @ rest) (length (pre @ tlv_record r))
           (result(fst r \<mapsto> snd r))"
proof -
  let ?p = "pre @ tlv_record r @ rest"
  have tag: "uint_at 1 (length pre) ?p = fst r"
    and len: "uint_at 2 (length pre + 1) ?p = length (snd r)"
    using assms by (simp_all add: tlv_record_def tlv_ok_def le_simps)
  have val: "pyslice (length pre + 3) (length pre + 3 + length (snd r)) ?p = snd r"
    by (simp add: tlv_record_def pyslice_def)
  show ?thesis
    by (subst decode_tlv_loop.simps)
       (simp add: Let_def tag [simplified] len [simplified] val [unfolded add.assoc] add.assoc)
qed

lemma decode_records:
  "list_all tlv_ok rs \<Longrightarrow>
   decode_tlv_loop (pre @ concat (map tlv_record rs)) (length pre) result
     = Inr (result ++ tlv_map rs)"
proof (induction rs arbitrary: pre result)
  case Nil
  then show ?case by (simp add: decode_tlv_loop.simps tlv_map_def)
next
  case (Cons r rs)
  then show ?case
    using decode_step [of r pre "concat (map tlv_record rs)" result]
      Cons.IH [of "pre @ tlv_record r"]
    by (simp add: tlv_map_def)
qed

lemma decode_tlv_records: "list_all tlv_ok rs \<Longrightarrow> decode_tlv (concat (map tlv_record rs)) = Inr (tlv_map rs)"
  using decode_records [of rs "[]" Map.empty] by (simp add: decode_tlv_def)

lemma decode_loop_records:
  "decode_tlv_loop payload offset result = Inr m \<Longrightarrow> offset \<le> length payload \<Longrightarrow>
   \<exists>rs. list_all tlv_ok rs \<and> drop offset payload = concat (map tlv_record rs) \<and> m = result ++ tlv_map rs"
proof (induction payload offset result rule: decode_tlv_loop.induct)
  case (1 payload offset result)
  show ?case
  proof (cases "offset < length payload")
    case False
    with 1(2,3) show ?thesis
      by (intro exI [of _ "[]"]) (simp add: decode_tlv_loop.simps tlv_map_def)
  next
    case True
    define tag where "tag = uint_at 1 offset payload"
    define len where "len = uint_at 2 (offset + 1) payload"
    define stop where "stop = offset + 3 + len"
    define val where "val = pyslice (offset + 3) stop payload"
    from 1(2) True have ok: "3 \<le> length payload - offset" "stop \<le> length payload"
      and next_loop: "decode_tlv_loop payload stop (result(tag \<mapsto> val)) = Inr m"
      by (auto simp: decode_tlv_loop.simps [of payload offset] Let_def tag_def len_def stop_def
          val_def split: if_splits)
    from 1(1) [OF True _ refl refl refl refl] ok next_loop obtain rs
      where rs: "list_all tlv_ok rs" "drop stop payload = concat (map tlv_record rs)"
        "m = result(tag \<mapsto> val) ++ tlv_map rs"
      by (auto simp: tag_def len_def stop_def val_def not_less fun_upd_def)
    have tag: "tag < 256" using uint_at_bound [of 1 offset payload] by (simp add: tag_def)
    have len: "len < 65536" using uint_at_bound [of 2 "offset + 1" payload] by (simp add: len_def)
    have val_len: "length val = len" using ok by (simp add: val_def stop_def)
    have "tlv_record (tag, val) = pyslice offset stop payload"
    proof -
      have "tlv_record (tag, val)
          = pyslice offset (offset + 1) payload @ pyslice (offset + 1) (offset + 3) payload @ val"
        using ok le_bytes_uint_at [of offset 1 payload] le_bytes_uint_at [of "offset + 1" 2 payload]
        by (simp add: tlv_record_def val_len tag_def len_def numeral_3_eq_3)
      then show ?thesis
        by (simp add: val_def pyslice_join stop_def)
    qed
    then have "drop offset payload = tlv_record (tag, val) @ drop stop payload"
      using ok pyslice_join [of offset stop "length payload" payload]
      by (simp add: pyslice_to_end stop_def)
    with rs tag len val_len show ?thesis
      by (intro exI [of _ "(tag, val) # rs"]) (simp add: tlv_ok_def [of "(tag, val)"] tlv_map_def)
  qed
qed

lemma encode_tlv_eq:
  "encode_tlv items = Inr p \<longleftrightarrow>
     list_all (\<lambda>(tag, val). 0 \<le> tag \<and> tag < 256 \<and> length val \<le> 0xFFFF) items
     \<and> p = concat (map tlv_record (map (\<lambda>(tag, val). (nat tag, val)) items))"
proof (induction items arbitrary: p)
  case Nil
  then show ?case by (auto simp: encode_tlv_def)
next
  case (Cons item items)
  obtain tag val where item: "item = (tag, val)" by fastforce
  have one: "encode_tlv_item item = Inr q \<longleftrightarrow>
      0 \<le> tag \<and> tag < 256 \<and> length val \<le> 0xFFFF \<and> q = tlv_record (nat tag, val)" for q
    by (auto simp: item encode_tlv_item_def res_simps pack_uint_def tlv_record_def)
  have "encode_tlv (item # items) = Inr p \<longleftrightarrow>
      (\<exists>q ps. encode_tlv_item item = Inr q \<and> encode_tlv items = Inr ps \<and> p = q @ ps)"
    by (auto simp: encode_tlv_def res_simps)
  then show ?case
    by (auto simp: one Cons.IH) (auto simp: item)
qed

lemma decode_tlv_exact:
  "decode_tlv p = Inr m \<longleftrightarrow>
     (\<exists>rs. list_all tlv_ok rs \<and> p = concat (map tlv_record rs) \<and> m = tlv_map rs)"
  using decode_loop_records [of p 0 Map.empty m] decode_tlv_records
  by (auto simp: decode_tlv_def)

lemma tlv_uint_bound: "dflt < 256 ^ n \<Longrightarrow> tlv_uint n fields tag dflt < 256 ^ n"
  using le_nat_bound by (auto simp: tlv_uint_def split: option.split)

lemma tlv_u8_uint: "tlv_u8 = tlv_uint 1"
proof (intro ext)
  fix fields :: tlv_fields and tag dflt :: nat
  have "unat (v ! 0) = le_nat v" if "length v = 1" for v :: bytes
    using that by (cases v) (auto simp: le_nat.simps)
  then show "tlv_u8 fields tag dflt = tlv_uint 1 fields tag dflt"
    by (simp add: tlv_u8_def tlv_uint_def split: option.split)
qed

lemmas tlv_uints = tlv_u8_uint tlv_u16_def tlv_u32_def tlv_u64_def

lemma tlv_uint_present [le_simps]:
  "fields tag = Some (le_bytes n v) \<Longrightarrow> v < 256 ^ n \<Longrightarrow> tlv_uint n fields tag dflt = v"
  by (simp add: tlv_uint_def le_simps)

section \<open>Claims\<close>

text \<open>
  TLV round trip: whatever list of records \<^verbatim>\<open>encode_tlv\<close> accepts (each tag in one
  byte, each value at most 65535 bytes), \<^verbatim>\<open>decode_tlv\<close> of its result gives the dictionary of
  the records, where a later record with the same tag replaces an earlier one; and
  \<^verbatim>\<open>encode_tlv\<close> raises on every other list.
\<close>

theorem tlv_roundtrip:
  "(if list_all (\<lambda>(tag, val). 0 \<le> tag \<and> tag < 256 \<and> length val \<le> 0xFFFF) items
    then \<exists>p. encode_tlv items = Inr p
           \<and> decode_tlv p = Inr (map_of (rev (map (\<lambda>(tag, val). (nat tag, val)) items)))
    else \<exists>e. encode_tlv items = Inl e)"
proof (cases "list_all (\<lambda>(tag, val). 0 \<le> tag \<and> tag < 256 \<and> length val \<le> 0xFFFF) items")
  case True
  let ?rs = "map (\<lambda>(tag, val). (nat tag, val)) items"
  have enc: "encode_tlv items = Inr (concat (map tlv_record ?rs))"
    using True by (simp only: encode_tlv_eq simp_thms)
  have "list_all tlv_ok ?rs"
    using True by (induction items) (auto simp: tlv_ok_def nat_less_iff)
  then show ?thesis
    using True enc decode_tlv_records [of ?rs] by (simp add: tlv_map_def)
next
  case False
  then show ?thesis
    by (cases "encode_tlv items") (auto simp: encode_tlv_eq)
qed

text \<open>
  \<^verbatim>\<open>decode_tlv\<close> accepts a payload exactly when \<^verbatim>\<open>encode_tlv\<close> produces it from some
  list of records, and then returns that list's dictionary: no truncated or overlapping record
  is ever accepted, and no accepted byte is ignored.
\<close>

theorem decode_tlv_accepts:
  "decode_tlv p = Inr m \<longleftrightarrow>
     (\<exists>items. encode_tlv items = Inr p
        \<and> m = map_of (rev (map (\<lambda>(tag, val). (nat tag, val)) items)))"
proof
  assume "decode_tlv p = Inr m"
  then obtain rs where rs: "list_all tlv_ok rs" "p = concat (map tlv_record rs)" "m = tlv_map rs"
    by (auto simp: decode_tlv_exact)
  let ?items = "map (\<lambda>(tag, val). (int tag, val)) rs"
  have "encode_tlv ?items = Inr p"
    using rs(1,2) by (induction rs arbitrary: p) (auto simp: encode_tlv_eq tlv_ok_def)
  moreover have "map (\<lambda>(tag, val). (nat tag, val)) ?items = rs"
    by (induction rs) auto
  ultimately show "\<exists>items. encode_tlv items = Inr p
      \<and> m = map_of (rev (map (\<lambda>(tag, val). (nat tag, val)) items))"
    using rs(3) by (intro exI [of _ ?items]) (simp add: tlv_map_def del: map_map)
next
  assume "\<exists>items. encode_tlv items = Inr p
      \<and> m = map_of (rev (map (\<lambda>(tag, val). (nat tag, val)) items))"
  then obtain items where items: "encode_tlv items = Inr p"
    "m = map_of (rev (map (\<lambda>(tag, val). (nat tag, val)) items))" by blast
  let ?rs = "map (\<lambda>(tag, val). (nat tag, val)) items"
  have "list_all tlv_ok ?rs" "p = concat (map tlv_record ?rs)"
    using items(1) by (auto simp: encode_tlv_eq list_all_iff tlv_ok_def nat_less_iff)
  then show "decode_tlv p = Inr m"
    using decode_tlv_records [of ?rs] items(2) by (simp add: tlv_map_def)
qed

end
