(* ===== verification/State_Machine.thy ===== *)
theory State_Machine
  imports Protocol_Types
begin

text \<open>
  \<^verbatim>\<open>tools/iris_gateway/state_machine.py\<close>: the states of an operation with the table of legal
  transitions, and the states of a device session. Strings are the persisted values, as in
  the source's \<^verbatim>\<open>StrEnum\<close> classes.
\<close>

section \<open>Operation states\<close>

datatype (plugins only: code size) operation_state =
    QUEUED | RUNNING | PRESERVING_EVIDENCE | ENTERING_RECOVERY | WAITING_RECOVERY
  | RECOVERY_CONNECTED | PREPARING_OTA | ERASING | VALIDATING_PLAN | TRANSFERRING
  | VERIFYING | COMMITTING | WAITING_DEVICE | RECONNECTING | SUCCEEDED | FAILED
  | CANCELLED | INTERRUPTED | OUTCOME_UNKNOWN

primrec operation_state_value :: "operation_state \<Rightarrow> string" where
  "operation_state_value QUEUED = ''queued''"
| "operation_state_value RUNNING = ''running''"
| "operation_state_value PRESERVING_EVIDENCE = ''preserving_evidence''"
| "operation_state_value ENTERING_RECOVERY = ''entering_recovery''"
| "operation_state_value WAITING_RECOVERY = ''waiting_recovery''"
| "operation_state_value RECOVERY_CONNECTED = ''recovery_connected''"
| "operation_state_value PREPARING_OTA = ''preparing_ota''"
| "operation_state_value ERASING = ''erasing''"
| "operation_state_value VALIDATING_PLAN = ''validating_plan''"
| "operation_state_value TRANSFERRING = ''transferring''"
| "operation_state_value VERIFYING = ''verifying''"
| "operation_state_value COMMITTING = ''committing''"
| "operation_state_value WAITING_DEVICE = ''waiting_device''"
| "operation_state_value RECONNECTING = ''reconnecting''"
| "operation_state_value SUCCEEDED = ''succeeded''"
| "operation_state_value FAILED = ''failed''"
| "operation_state_value CANCELLED = ''cancelled''"
| "operation_state_value INTERRUPTED = ''interrupted''"
| "operation_state_value OUTCOME_UNKNOWN = ''outcome_unknown''"

definition operation_state_members :: "operation_state list" where
  "operation_state_members = [QUEUED, RUNNING, PRESERVING_EVIDENCE, ENTERING_RECOVERY,
     WAITING_RECOVERY, RECOVERY_CONNECTED, PREPARING_OTA, ERASING, VALIDATING_PLAN,
     TRANSFERRING, VERIFYING, COMMITTING, WAITING_DEVICE, RECONNECTING, SUCCEEDED,
     FAILED, CANCELLED, INTERRUPTED, OUTCOME_UNKNOWN]"

interpretation operation_state: value_enum operation_state_value operation_state_members
proof
  show "x \<in> set operation_state_members" for x
    by (cases x) (simp_all add: operation_state_members_def)
qed (simp add: operation_state_members_def)

definition TERMINAL_OPERATION_STATES :: "operation_state list" where
  "TERMINAL_OPERATION_STATES = [SUCCEEDED, FAILED, CANCELLED, INTERRUPTED, OUTCOME_UNKNOWN]"

definition ACTIVE_OPERATION_STATES :: "operation_state list" where
  "ACTIVE_OPERATION_STATES =
     filter (\<lambda>s. s \<notin> set TERMINAL_OPERATION_STATES) operation_state_members"

definition operation_transitions :: "operation_state \<Rightarrow> operation_state list" where
  "operation_transitions s =
     (if s = QUEUED then [RUNNING, CANCELLED, INTERRUPTED, OUTCOME_UNKNOWN]
      else if s \<in> set ACTIVE_OPERATION_STATES
      then ACTIVE_OPERATION_STATES @ TERMINAL_OPERATION_STATES
      else [])"

definition operation_transition :: "string \<Rightarrow> string \<Rightarrow> operation_state res" where
  "operation_transition current requested =
     (case enum_of operation_state_value operation_state_members current of
        None \<Rightarrow> Inl (StateTransitionError ''not a valid OperationState'')
      | Some source \<Rightarrow>
        (case enum_of operation_state_value operation_state_members requested of
           None \<Rightarrow> Inl (StateTransitionError ''not a valid OperationState'')
         | Some target \<Rightarrow>
           if source = target \<and> source \<notin> set TERMINAL_OPERATION_STATES then Inr target
           else if target \<notin> set (operation_transitions source)
           then Inl (StateTransitionError ''illegal operation transition'')
           else Inr target))"

section \<open>Session states\<close>

datatype (plugins only: code size) session_state = NEGOTIATING | READY | CLOSED

datatype (plugins only: code size) session_event = AUTHENTICATED | CLOSE

definition session_transition :: "session_state \<Rightarrow> session_event \<Rightarrow> session_state res" where
  "session_transition current event =
     (case (current, event) of
        (NEGOTIATING, AUTHENTICATED) \<Rightarrow> Inr READY
      | (NEGOTIATING, CLOSE) \<Rightarrow> Inr CLOSED
      | (READY, CLOSE) \<Rightarrow> Inr CLOSED
      | _ \<Rightarrow> Inl (StateTransitionError ''illegal session transition''))"

section \<open>Facts\<close>

abbreviation terminal :: "operation_state \<Rightarrow> bool" where
  "terminal s \<equiv> s \<in> set TERMINAL_OPERATION_STATES"

lemma active_iff: "s \<in> set ACTIVE_OPERATION_STATES \<longleftrightarrow> \<not> terminal s"
  by (simp add: ACTIVE_OPERATION_STATES_def operation_state.complete)

lemma queued_not_terminal [simp]: "\<not> terminal QUEUED" "\<not> terminal RUNNING"
  by (simp_all add: TERMINAL_OPERATION_STATES_def)

lemma operation_transitions_iff:
  "t \<in> set (operation_transitions s) \<longleftrightarrow>
     (if s = QUEUED then t \<in> {RUNNING, CANCELLED, INTERRUPTED, OUTCOME_UNKNOWN} else \<not> terminal s)"
  by (auto simp: operation_transitions_def active_iff)

text \<open>A legal step between two states.\<close>

definition legal :: "operation_state \<Rightarrow> operation_state \<Rightarrow> bool" where
  "legal s t \<longleftrightarrow> \<not> terminal s
     \<and> (s \<noteq> QUEUED \<or> t \<in> {QUEUED, RUNNING, CANCELLED, INTERRUPTED, OUTCOME_UNKNOWN})"

lemma operation_transition_values:
  "operation_transition (operation_state_value s) (operation_state_value t)
     = (if legal s t then Inr t else Inl (StateTransitionError ''illegal operation transition''))"
  by (auto simp: operation_transition_def operation_state.of_code operation_transitions_iff legal_def)

lemma operation_transition_eq_Inr:
  "operation_transition c r = Inr t \<longleftrightarrow>
     (\<exists>s. c = operation_state_value s \<and> r = operation_state_value t \<and> legal s t)"
proof
  assume "operation_transition c r = Inr t"
  then obtain s where "c = operation_state_value s" "r = operation_state_value t"
    by (auto simp: operation_transition_def operation_state.of_Some_iff split: option.splits if_splits)
  with \<open>operation_transition c r = Inr t\<close> show
    "\<exists>s. c = operation_state_value s \<and> r = operation_state_value t \<and> legal s t"
    by (auto simp: operation_transition_values split: if_splits)
qed (auto simp: operation_transition_values)

lemma operation_transition_error:
  "operation_transition c r = Inl e \<Longrightarrow> \<exists>m. e = StateTransitionError m"
  by (auto simp: operation_transition_def split: option.splits if_splits)

section \<open>Histories\<close>

text \<open>
  The persisted states of one operation, latest first: it is created queued and every change
  goes through \<open>operation_transition\<close>.
\<close>

inductive op_history :: "operation_state list \<Rightarrow> bool" where
  created: "op_history [QUEUED]"
| moved: "op_history (s # h) \<Longrightarrow>
     operation_transition (operation_state_value s) (operation_state_value t) = Inr t \<Longrightarrow>
     op_history (t # s # h)"

inductive_cases op_history_ConsE: "op_history (t # s # h)"

lemma op_history_past_active: "op_history (t # h) \<Longrightarrow> s \<in> set h \<Longrightarrow> \<not> terminal s"
proof (induction "t # h" arbitrary: t h rule: op_history.induct)
  case created
  then show ?case by simp
next
  case (moved s h t)
  then show ?case by (auto simp: operation_transition_values legal_def split: if_splits)
qed

lemma op_history_ran:
  "op_history (t # h) \<Longrightarrow>
   t \<in> {QUEUED, CANCELLED, INTERRUPTED, OUTCOME_UNKNOWN} \<or> RUNNING \<in> set (t # h)"
proof (induction "t # h" arbitrary: t h rule: op_history.induct)
  case created
  then show ?case by simp
next
  case (moved s h t)
  then show ?case
    by (auto simp: operation_transition_values legal_def TERMINAL_OPERATION_STATES_def
        split: if_splits)
qed

section \<open>Claims\<close>


text \<open>
  In every history of an operation, from its creation as queued: no state before the
  latest is terminal (a terminal state is final), and an operation that shows any state other
  than queued, cancelled, interrupted or outcome_unknown, in particular succeeded or failed, has
  been running.
\<close>

theorem operation_history_sound:
  assumes "op_history (t # h)"
  shows "list_all (\<lambda>s. s \<notin> set TERMINAL_OPERATION_STATES) h
    \<and> (t \<in> {QUEUED, CANCELLED, INTERRUPTED, OUTCOME_UNKNOWN} \<or> RUNNING \<in> set (t # h))"
  using op_history_past_active [OF assms] op_history_ran [OF assms] by (simp add: list_all_iff)

theorem operation_history_sound_witness:
  "op_history [SUCCEEDED, TRANSFERRING, RUNNING, QUEUED]
   \<and> list_all (\<lambda>s. s \<notin> set TERMINAL_OPERATION_STATES) [TRANSFERRING, RUNNING, QUEUED]
   \<and> (SUCCEEDED \<in> {QUEUED, CANCELLED, INTERRUPTED, OUTCOME_UNKNOWN}
      \<or> RUNNING \<in> set [SUCCEEDED, TRANSFERRING, RUNNING, QUEUED])"
proof -
  have "op_history [SUCCEEDED, TRANSFERRING, RUNNING, QUEUED]"
    by (intro op_history.intros)
       (simp_all add: operation_transition_values legal_def TERMINAL_OPERATION_STATES_def
        del: operation_state_value.simps)
  then show ?thesis using operation_history_sound by blast
qed

end
