(* ===== verification/Sha256.thy ===== *)
theory Sha256
  imports Iris_Prelude
begin

text \<open>
  SHA-256 (FIPS 180-4) and HMAC-SHA-256 (RFC 2104) as \<^verbatim>\<open>hashlib\<close> and \<^verbatim>\<open>hmac\<close> compute them.
\<close>

type_synonym w32 = "32 word"

definition rotr :: "nat \<Rightarrow> w32 \<Rightarrow> w32" where
  "rotr n x = drop_bit n x OR push_bit (32 - n) x"

definition sha_k :: "w32 list" where
  "sha_k =
    [1116352408, 1899447441, 3049323471, 3921009573, 961987163, 1508970993, 2453635748, 2870763221,
     3624381080, 310598401, 607225278, 1426881987, 1925078388, 2162078206, 2614888103, 3248222580,
     3835390401, 4022224774, 264347078, 604807628, 770255983, 1249150122, 1555081692, 1996064986,
     2554220882, 2821834349, 2952996808, 3210313671, 3336571891, 3584528711, 113926993, 338241895,
     666307205, 773529912, 1294757372, 1396182291, 1695183700, 1986661051, 2177026350, 2456956037,
     2730485921, 2820302411, 3259730800, 3345764771, 3516065817, 3600352804, 4094571909, 275423344,
     430227734, 506948616, 659060556, 883997877, 958139571, 1322822218, 1537002063, 1747873779,
     1955562222, 2024104815, 2227730452, 2361852424, 2428436474, 2756734187, 3204031479, 3329325298]"

definition sha_init :: "w32 list" where
  "sha_init =
    [1779033703, 3144134277, 1013904242, 2773480762, 1359893119, 2600822924, 528734635, 1541459225]"

text \<open>Big-endian words.\<close>

definition be_word :: "bytes \<Rightarrow> w32" where
  "be_word bs = of_nat (le_nat (rev bs))"

definition be_bytes :: "nat \<Rightarrow> nat \<Rightarrow> bytes" where
  "be_bytes n v = rev (le_bytes n v)"

definition sha_pad :: "bytes \<Rightarrow> bytes" where
  "sha_pad m = m @ [0x80] @ replicate ((119 - length m mod 64) mod 64) 0 @ be_bytes 8 (8 * length m)"

fun sha_schedule :: "nat \<Rightarrow> w32 list \<Rightarrow> w32 list" where
  "sha_schedule 0 ws = ws"
| "sha_schedule (Suc n) ws =
     (let t = length ws;
          x = ws ! (t - 15);
          y = ws ! (t - 2);
          s0 = rotr 7 x XOR rotr 18 x XOR drop_bit 3 x;
          s1 = rotr 17 y XOR rotr 19 y XOR drop_bit 10 y
      in sha_schedule n (ws @ [ws ! (t - 16) + s0 + ws ! (t - 7) + s1]))"

definition sha_round :: "w32 \<times> w32 \<Rightarrow> w32 list \<Rightarrow> w32 list" where
  "sha_round kw st =
     (case st of
        [a, b, c, d, e, f, g, h] \<Rightarrow>
          let s1 = rotr 6 e XOR rotr 11 e XOR rotr 25 e;
              ch = (e AND f) XOR (NOT e AND g);
              t1 = h + s1 + ch + fst kw + snd kw;
              s0 = rotr 2 a XOR rotr 13 a XOR rotr 22 a;
              maj = (a AND b) XOR (a AND c) XOR (b AND c)
          in [t1 + s0 + maj, a, b, c, d + t1, e, f, g]
      | _ \<Rightarrow> st)"

definition sha_block :: "bytes \<Rightarrow> w32 list \<Rightarrow> w32 list" where
  "sha_block block h =
     (let ws = map (\<lambda>i. be_word (pyslice (4 * i) (4 * i + 4) block)) [0..<16];
          schedule = sha_schedule 48 ws
      in map2 (+) h (fold sha_round (zip sha_k schedule) h))"

fun sha_blocks :: "nat \<Rightarrow> bytes \<Rightarrow> w32 list \<Rightarrow> w32 list" where
  "sha_blocks 0 m h = h"
| "sha_blocks (Suc n) m h = sha_blocks n (drop 64 m) (sha_block (take 64 m) h)"

definition sha256 :: "bytes \<Rightarrow> bytes" where
  "sha256 m =
     (let p = sha_pad m
      in concat (map (\<lambda>x. be_bytes 4 (unat x)) (sha_blocks (length p div 64) p sha_init)))"

lemma length_sha_round [simp]: "length (sha_round kw st) = length st"
  by (simp add: sha_round_def Let_def split: list.split)

lemma length_fold_round: "length (fold sha_round ks st) = length st"
  by (induction ks arbitrary: st) simp_all

lemma length_sha_block: "length (sha_block b h) = length h"
  by (simp add: sha_block_def Let_def length_fold_round)

lemma length_sha_blocks: "length (sha_blocks n m h) = length h"
  by (induction n m h rule: sha_blocks.induct) (simp_all add: length_sha_block)

lemma length_sha256 [simp]: "length (sha256 m) = 32"
proof -
  have "length (concat (map (\<lambda>x. be_bytes 4 (unat x)) xs)) = 4 * length xs" for xs :: "w32 list"
    by (induction xs) (simp_all add: be_bytes_def)
  then show ?thesis
    by (simp add: sha256_def Let_def length_sha_blocks) (simp add: sha_init_def)
qed

section \<open>HMAC\<close>

definition hmac_sha256 :: "bytes \<Rightarrow> bytes \<Rightarrow> bytes" where
  "hmac_sha256 key message =
     (let k = (if length key > 64 then sha256 key else key);
          k64 = k @ replicate (64 - length k) 0
      in sha256 (map (\<lambda>b. b XOR 0x5C) k64 @ sha256 (map (\<lambda>b. b XOR 0x36) k64 @ message)))"

lemma length_hmac_sha256 [simp]: "length (hmac_sha256 key message) = 32"
  by (simp add: hmac_sha256_def Let_def)

end
