(* ===== verification/Py_Text.thy ===== *)
theory Py_Text
  imports Iris_Prelude
begin

text \<open>
  Python text: a \<^verbatim>\<open>str\<close> is a list of code points. UTF-8 encoding (surrogates cannot be
  encoded), UTF-8 decoding with \<^verbatim>\<open>errors="replace"\<close> (one U+FFFD per maximal invalid
  subsequence, as CPython decodes) and strict, ASCII decoding, and \<^verbatim>\<open>bytes.fromhex\<close>.
\<close>

type_synonym ustr = "nat list"

text \<open>The text of an ASCII literal.\<close>

definition u :: "string \<Rightarrow> ustr" where
  "u s = map of_char s"

lemma u_simps [simp]: "u [] = []" "u (c # s) = of_char c # u s"
  by (simp_all add: u_def)

section \<open>UTF-8\<close>

definition utf8_char :: "nat \<Rightarrow> bytes option" where
  "utf8_char c =
     (if c < 0x80 then Some [of_nat c]
      else if c < 0x800 then Some [of_nat (0xC0 + c div 0x40), of_nat (0x80 + c mod 0x40)]
      else if 0xD800 \<le> c \<and> c < 0xE000 then None
      else if c < 0x10000
      then Some [of_nat (0xE0 + c div 0x1000), of_nat (0x80 + c div 0x40 mod 0x40),
                 of_nat (0x80 + c mod 0x40)]
      else if c < 0x110000
      then Some [of_nat (0xF0 + c div 0x40000), of_nat (0x80 + c div 0x1000 mod 0x40),
                 of_nat (0x80 + c div 0x40 mod 0x40), of_nat (0x80 + c mod 0x40)]
      else None)"

fun utf8_encode :: "ustr \<Rightarrow> bytes option" where
  "utf8_encode [] = Some []"
| "utf8_encode (c # cs) =
     (case (utf8_char c, utf8_encode cs) of (Some b, Some bs) \<Rightarrow> Some (b @ bs) | _ \<Rightarrow> None)"

text \<open>The number of valid continuation bytes, at most \<open>n\<close>: the first in \<open>lo..hi\<close>, the others
  in \<^verbatim>\<open>0x80..0xBF\<close>.\<close>

fun continuation :: "nat \<Rightarrow> nat \<Rightarrow> nat \<Rightarrow> bytes \<Rightarrow> nat" where
  "continuation lo hi 0 bs = 0"
| "continuation lo hi (Suc n) [] = 0"
| "continuation lo hi (Suc n) (b # bs) =
     (if lo \<le> unat b \<and> unat b \<le> hi then Suc (continuation 0x80 0xBF n bs) else 0)"

fun continuation_value :: "nat \<Rightarrow> bytes \<Rightarrow> nat" where
  "continuation_value v [] = v"
| "continuation_value v (b # bs) = continuation_value (v * 64 + unat b mod 64) bs"

text \<open>The number of continuation bytes, the range of the first, and the leading bits of a
  start byte; \<open>None\<close> for a byte that starts no character.\<close>

definition utf8_start :: "nat \<Rightarrow> (nat \<times> nat \<times> nat \<times> nat) option" where
  "utf8_start b =
     (if b < 0x80 then Some (0, 0x80, 0xBF, b)
      else if 0xC2 \<le> b \<and> b \<le> 0xDF then Some (1, 0x80, 0xBF, b - 0xC0)
      else if 0xE0 \<le> b \<and> b \<le> 0xEF
      then Some (2, if b = 0xE0 then 0xA0 else 0x80, if b = 0xED then 0x9F else 0xBF, b - 0xE0)
      else if 0xF0 \<le> b \<and> b \<le> 0xF4
      then Some (3, if b = 0xF0 then 0x90 else 0x80, if b = 0xF4 then 0x8F else 0xBF, b - 0xF0)
      else None)"

text \<open>One decoding step: the character, or \<open>None\<close> for an invalid sequence, and the bytes left.\<close>

definition utf8_step :: "byte \<Rightarrow> bytes \<Rightarrow> nat option \<times> bytes" where
  "utf8_step b rest =
     (case utf8_start (unat b) of
        None \<Rightarrow> (None, rest)
      | Some (n, lo, hi, bits) \<Rightarrow>
          let k = continuation lo hi n rest
          in if k = n then (Some (continuation_value bits (take n rest)), drop n rest)
             else (None, drop k rest))"

lemma utf8_step_rest: "length (snd (utf8_step b rest)) \<le> length rest"
  by (auto simp: utf8_step_def Let_def split: option.split prod.split)

lemma utf8_step_shrinks: "utf8_step b rest = (c, rest') \<Longrightarrow> length rest' < Suc (length rest)"
  using utf8_step_rest [of b rest] by simp

function utf8_decode :: "bytes \<Rightarrow> ustr" where
  "utf8_decode [] = []"
| "utf8_decode (b # rest) =
     (case utf8_step b rest of (c, rest') \<Rightarrow>
        (case c of Some v \<Rightarrow> v | None \<Rightarrow> 0xFFFD) # utf8_decode rest')"
  by pat_completeness auto
termination
  by (relation "measure length") (auto dest!: utf8_step_shrinks [OF sym])

function utf8_decode_strict :: "bytes \<Rightarrow> ustr option" where
  "utf8_decode_strict [] = Some []"
| "utf8_decode_strict (b # rest) =
     (case utf8_step b rest of (c, rest') \<Rightarrow>
        (case c of
           Some v \<Rightarrow> map_option (\<lambda>vs. v # vs) (utf8_decode_strict rest')
         | None \<Rightarrow> None))"
  by pat_completeness auto
termination
  by (relation "measure length") (auto dest!: utf8_step_shrinks [OF sym])

lemma utf8_decode_empty_iff: "utf8_decode bs = [] \<longleftrightarrow> bs = []"
  by (cases bs) (simp_all split: prod.split)

text \<open>\<^verbatim>\<open>.decode("ascii")\<close>, strict and with replacement.\<close>

definition ascii_decode_strict :: "bytes \<Rightarrow> ustr option" where
  "ascii_decode_strict bs = (if list_all (\<lambda>b. unat b < 0x80) bs then Some (map unat bs) else None)"

definition ascii_decode :: "bytes \<Rightarrow> ustr" where
  "ascii_decode bs = map (\<lambda>b. if unat b < 0x80 then unat b else 0xFFFD) bs"

section \<open>Splitting and stripping\<close>

text \<open>\<^verbatim>\<open>s.split("/")\<close>, with the current component as an accumulator.\<close>

fun split_slash :: "ustr \<Rightarrow> ustr \<Rightarrow> ustr list" where
  "split_slash acc [] = [acc]"
| "split_slash acc (c # cs) =
     (if c = 0x2F then acc # split_slash [] cs else split_slash (acc @ [c]) cs)"

text \<open>\<^verbatim>\<open>str.isspace\<close> of one character, and \<^verbatim>\<open>s.strip()\<close> and \<^verbatim>\<open>s.strip(c)\<close>.\<close>

definition py_space :: "nat \<Rightarrow> bool" where
  "py_space c \<longleftrightarrow> (0x09 \<le> c \<and> c \<le> 0x0D) \<or> (0x1C \<le> c \<and> c \<le> 0x20) \<or> c = 0x85 \<or> c = 0xA0
     \<or> c = 0x1680 \<or> (0x2000 \<le> c \<and> c \<le> 0x200A) \<or> c = 0x2028 \<or> c = 0x2029 \<or> c = 0x202F
     \<or> c = 0x205F \<or> c = 0x3000"

definition strip_by :: "(nat \<Rightarrow> bool) \<Rightarrow> ustr \<Rightarrow> ustr" where
  "strip_by P s = rev (dropWhile P (rev (dropWhile P s)))"

definition starts_with :: "string \<Rightarrow> ustr \<Rightarrow> bool" where
  "starts_with p s \<longleftrightarrow> take (length p) s = u p"

definition remove_prefix :: "string \<Rightarrow> ustr \<Rightarrow> ustr" where
  "remove_prefix p s = (if starts_with p s then drop (length p) s else s)"

section \<open>Decimal text\<close>

text \<open>\<^verbatim>\<open>str(n)\<close> of an integer.\<close>

fun decimal :: "nat \<Rightarrow> string" where
  "decimal n = (if n < 10 then [hex_digit n] else decimal (n div 10) @ [hex_digit (n mod 10)])"

declare decimal.simps [simp del]

definition str_int :: "int \<Rightarrow> string" where
  "str_int n = (if n < 0 then ''-'' @ decimal (nat (- n)) else decimal (nat n))"

section \<open>Hexadecimal parsing\<close>

definition hex_value :: "nat \<Rightarrow> nat option" where
  "hex_value c =
     (if 0x30 \<le> c \<and> c \<le> 0x39 then Some (c - 0x30)
      else if 0x41 \<le> c \<and> c \<le> 0x46 then Some (c - 0x37)
      else if 0x61 \<le> c \<and> c \<le> 0x66 then Some (c - 0x57)
      else None)"

definition ascii_space :: "nat \<Rightarrow> bool" where
  "ascii_space c \<longleftrightarrow> c = 0x20 \<or> (0x09 \<le> c \<and> c \<le> 0x0D)"

text \<open>\<^verbatim>\<open>bytes.fromhex\<close>: pairs of digits, with ASCII white space between them.\<close>

fun fromhex :: "ustr \<Rightarrow> bytes option" where
  "fromhex [] = Some []"
| "fromhex [c] = (if ascii_space c then Some [] else None)"
| "fromhex (c # d # cs) =
     (if ascii_space c then fromhex (d # cs)
      else case (hex_value c, hex_value d, fromhex cs) of
             (Some a, Some b, Some bs) \<Rightarrow> Some (of_nat (16 * a + b) # bs)
           | _ \<Rightarrow> None)"

definition lower_hex :: "nat \<Rightarrow> bool" where
  "lower_hex c \<longleftrightarrow> (0x30 \<le> c \<and> c \<le> 0x39) \<or> (0x61 \<le> c \<and> c \<le> 0x66)"

text \<open>\<^verbatim>\<open>str.lower\<close> on ASCII text.\<close>

definition ascii_lower :: "ustr \<Rightarrow> ustr" where
  "ascii_lower = map (\<lambda>c. if 0x41 \<le> c \<and> c \<le> 0x5A then c + 0x20 else c)"

lemma fromhex_length:
  "fromhex cs = Some bs \<Longrightarrow> 2 * length bs \<le> length cs"
proof (induction cs arbitrary: bs rule: fromhex.induct)
  case (3 c d cs)
  then show ?case by (cases "ascii_space c") (fastforce split: option.splits)+
qed (auto split: if_splits)

lemma fromhex_exact:
  "fromhex cs = Some bs \<Longrightarrow> length cs = 2 * length bs \<Longrightarrow> list_all (\<lambda>c. hex_value c \<noteq> None) cs"
proof (induction cs arbitrary: bs rule: fromhex.induct)
  case (3 c d cs)
  show ?case
  proof (cases "ascii_space c")
    case True
    with 3(3) fromhex_length [of "d # cs" bs] 3(4) show ?thesis by simp
  next
    case False
    with 3 show ?thesis by (fastforce split: option.splits)
  qed
qed (auto split: if_splits)

lemma fromhex_digits:
  "list_all (\<lambda>c. hex_value c \<noteq> None) cs \<Longrightarrow> even (length cs) \<Longrightarrow>
   \<exists>bs. fromhex cs = Some bs \<and> length cs = 2 * length bs"
proof (induction cs rule: fromhex.induct)
  case (3 c d cs)
  then have "\<not> ascii_space c" by (auto simp: ascii_space_def hex_value_def split: if_splits)
  with 3 show ?case by (auto split: option.splits)
qed auto

lemma hex_value_lower:
  "hex_value c \<noteq> None \<and> (if 0x41 \<le> c \<and> c \<le> 0x5A then c + 0x20 else c) = c \<longleftrightarrow> lower_hex c"
  by (auto simp: hex_value_def lower_hex_def)

text \<open>\<^verbatim>\<open>bytes.fromhex(data.hex()) == data\<close>, and the text is in lower case.\<close>

lemma u_Cons [simp]: "u (c # cs) = of_char c # u cs"
  by (simp add: u_def)

lemma u_Nil [simp]: "u [] = []"
  by (simp add: u_def)

lemma length_u [simp]: "length (u s) = length s"
  by (simp add: u_def)

definition hex_code :: "nat \<Rightarrow> nat" where
  "hex_code n = of_char (hex_digit n)"

lemma hex_code_all:
  "list_all (\<lambda>n. hex_value (hex_code n) = Some n \<and> \<not> ascii_space (hex_code n) \<and> lower_hex (hex_code n)) [0..<16]"
  by (simp add: upt_rec numeral_nat hex_value_def hex_code_def hex_digit_def ascii_space_def lower_hex_def)

lemma hex_code_lower:
  assumes "n < 16"
  shows "hex_value (hex_code n) = Some n" "\<not> ascii_space (hex_code n)" "lower_hex (hex_code n)"
  using hex_code_all assms by (auto simp: list_all_iff)

lemma fromhex_hex: "fromhex (u (hex bs)) = Some bs"
proof (induction bs)
  case Nil
  then show ?case by simp
next
  case (Cons b bs)
  have lt: "unat b div 16 < 16" using byte_lt [of b] by linarith
  have "(of_nat (16 * (unat b div 16) + unat b mod 16) :: byte) = b" by simp
  with Cons lt show ?case
    by (simp add: hex_code_lower hex_code_def [symmetric])
qed

lemma ascii_lower_hex: "ascii_lower (u (hex bs)) = u (hex bs)"
proof (induction bs)
  case Nil
  then show ?case by (simp add: ascii_lower_def)
next
  case (Cons b bs)
  have "unat b div 16 < 16" using byte_lt [of b] by linarith
  then have "lower_hex (hex_code (unat b div 16))" "lower_hex (hex_code (unat b mod 16))"
    by (simp_all add: hex_code_lower)
  with Cons show ?case
    by (auto simp: ascii_lower_def lower_hex_def hex_code_def [symmetric])
qed

end
