(* ===== verification/Json_Value.thy ===== *)
theory Json_Value
  imports Py_Text Py_Float
begin

text \<open>
  JSON documents as Python holds them after \<^verbatim>\<open>json.loads\<close>, and as the gateway builds them for
  its results, events and progress notifications, where a value may also be \<^verbatim>\<open>bytes\<close>: a
  dictionary is the list of its items in insertion order. The tree of a parsed text has its objects as the pairs of the text, which may repeat a
  key; what the source does with such pairs is in the component that calls the parser.
\<close>

datatype json =
    JNull
  | JBool bool
  | JInt int
  | JFloat rat
  | JStr ustr
  | JBytes bytes
  | JList "json list"
  | JDict "(ustr \<times> json) list"

type_synonym dict = "(ustr \<times> json) list"

text \<open>\<^verbatim>\<open>d.get(key, default)\<close> and \<^verbatim>\<open>d.get(key)\<close>.\<close>

definition dget_default :: "dict \<Rightarrow> string \<Rightarrow> json \<Rightarrow> json" where
  "dget_default d key v = (case map_of d (u key) of Some x \<Rightarrow> x | None \<Rightarrow> v)"

definition dget :: "dict \<Rightarrow> string \<Rightarrow> json" where
  "dget d key = dget_default d key JNull"

text \<open>Writing dictionaries.\<close>

definition item :: "string \<Rightarrow> json \<Rightarrow> ustr \<times> json" where
  "item key v = (u key, v)"

definition jstr :: "string \<Rightarrow> json" where
  "jstr s = JStr (u s)"

definition jnat :: "nat \<Rightarrow> json" where
  "jnat n = JInt (int n)"

text \<open>\<^verbatim>\<open>d[key] = value\<close>: a known key keeps its place.\<close>

fun dput :: "dict \<Rightarrow> ustr \<Rightarrow> json \<Rightarrow> dict" where
  "dput [] key v = [(key, v)]"
| "dput ((k, w) # d) key v = (if k = key then (k, v) # d else (k, w) # dput d key v)"

lemma map_of_dput [simp]: "map_of (dput d key v) = (map_of d)(key \<mapsto> v)"
  by (induction d key v rule: dput.induct) (auto simp: fun_eq_iff)

end
