(* ===== verification/System_Update.thy ===== *)
theory System_Update
  imports Firmware Json_Value "HOL-Library.Product_Lexorder"
begin

text \<open>
  Update bundles (\<^verbatim>\<open>system_update.py\<close>): the manifest checks, the archive checks and the loader,
  every guard in the order of the source. The ZIP reader, the JSON parser and the elliptic-curve
  library are arguments. A bundle the loader returns satisfies \<open>bundle_ok\<close>, whatever these do.
\<close>

section \<open>Data\<close>

definition MAX_BUNDLE_BYTES :: nat where "MAX_BUNDLE_BYTES = 32 * 1024 * 1024"
definition MAX_ARCHIVE_MEMBERS :: nat where "MAX_ARCHIVE_MEMBERS = 16"
definition MAX_MANIFEST_BYTES :: nat where "MAX_MANIFEST_BYTES = 2048"
definition MAX_SIGNATURE_BYTES :: nat where "MAX_SIGNATURE_BYTES = 256"
definition MAX_COMPONENTS :: nat where "MAX_COMPONENTS = 8"
definition MAX_COMPONENT_BYTES :: nat where "MAX_COMPONENT_BYTES = 16 * 1024 * 1024"
definition PARTITION_TABLE_REGION_BYTES :: nat where "PARTITION_TABLE_REGION_BYTES = 0x1000"
definition SYSTEM_UPDATE_SCHEMA :: ustr where "SYSTEM_UPDATE_SCHEMA = u ''esp-iris-system-update/v1''"
definition MANIFEST_NAME :: ustr where "MANIFEST_NAME = u ''manifest.json''"
definition SIGNATURE_NAME :: ustr where "SIGNATURE_NAME = u ''manifest.sig''"

datatype component_kind = BOOTLOADER | PARTITION_TABLE | APPLICATION | RECOVERY | DATA

primrec kind_code :: "component_kind \<Rightarrow> nat" where
  "kind_code BOOTLOADER = 1"
| "kind_code PARTITION_TABLE = 2"
| "kind_code APPLICATION = 3"
| "kind_code RECOVERY = 4"
| "kind_code DATA = 5"

text \<open>The keys of \<^verbatim>\<open>_KIND_NAMES\<close>, which are also \<^verbatim>\<open>kind.name.lower()\<close>.\<close>

primrec kind_name :: "component_kind \<Rightarrow> string" where
  "kind_name BOOTLOADER = ''bootloader''"
| "kind_name PARTITION_TABLE = ''partition_table''"
| "kind_name APPLICATION = ''application''"
| "kind_name RECOVERY = ''recovery''"
| "kind_name DATA = ''data''"

definition kind_members :: "component_kind list" where
  "kind_members = [BOOTLOADER, PARTITION_TABLE, APPLICATION, RECOVERY, DATA]"

interpretation component_kind: value_enum kind_code kind_members
proof
  show "x \<in> set kind_members" for x
    by (cases x) (simp_all add: kind_members_def)
qed (simp add: kind_members_def)

text \<open>\<^verbatim>\<open>_KIND_NAMES[name]\<close>.\<close>

definition kind_key :: "component_kind \<Rightarrow> ustr" where
  "kind_key k = u (kind_name k)"

interpretation kind_names: value_enum kind_key kind_members
proof
  show "x \<in> set kind_members" for x
    by (rule component_kind.complete)
qed (simp add: kind_members_def kind_key_def u_def)

record component =
  sc_id :: int
  sc_kind :: component_kind
  sc_flags :: int
  sc_target_offset :: int
  sc_size :: int
  sc_sha256 :: bytes
  sc_filename :: ustr
  sc_data :: bytes

definition component_as_dict :: "component \<Rightarrow> dict" where
  "component_as_dict c =
     [item ''id'' (JInt (sc_id c)), item ''kind'' (jstr (kind_name (sc_kind c))),
      item ''flags'' (JInt (sc_flags c)), item ''target_offset'' (JInt (sc_target_offset c)),
      item ''size'' (JInt (sc_size c)), item ''sha256'' (jstr (hex (sc_sha256 c))),
      item ''file'' (JStr (sc_filename c))]"

record update_bundle =
  sb_manifest :: dict
  sb_manifest_bytes :: bytes
  sb_signature :: bytes
  sb_manifest_sha256 :: bytes
  sb_key_id :: "ustr option"
  sb_signature_verified :: bool
  sb_chip_id :: int
  sb_flash_size :: int
  sb_target_layout_sha256 :: ustr
  sb_components :: "component list"

definition bundle_as_dict :: "update_bundle \<Rightarrow> dict" where
  "bundle_as_dict b =
     [item ''schema'' (JStr SYSTEM_UPDATE_SCHEMA),
      item ''manifest_sha256'' (jstr (hex (sb_manifest_sha256 b))),
      item ''key_id'' (case sb_key_id b of None \<Rightarrow> JNull | Some k \<Rightarrow> JStr k),
      item ''chip_id'' (JInt (sb_chip_id b)), item ''flash_size'' (JInt (sb_flash_size b)),
      item ''target_layout_sha256'' (JStr (sb_target_layout_sha256 b)),
      item ''components'' (JList (map (\<lambda>c. JDict (component_as_dict c)) (sb_components b))),
      item ''signature_verified'' (JBool (sb_signature_verified b))]"

section \<open>Checks of manifest values\<close>

text \<open>\<^verbatim>\<open>_strict_object\<close>, the hook \<^verbatim>\<open>json.loads\<close> calls for every object.\<close>

definition strict_object :: "dict \<Rightarrow> dict res" where
  "strict_object pairs =
     foldlr (\<lambda>result kv.
       if fst kv \<in> fst ` set result then Inl (ValueError ''duplicate manifest field'')
       else Inr (result @ [kv])) [] pairs"

fun strict_json :: "json \<Rightarrow> json res" where
  "strict_json (JList xs) = bindr (mapr strict_json xs) (\<lambda>ys. Inr (JList ys))"
| "strict_json (JDict kvs) =
     bindr (mapr (\<lambda>kv. bindr (strict_json (snd kv)) (\<lambda>v. Inr (fst kv, v))) kvs) (\<lambda>kvs'.
     bindr (strict_object kvs') (\<lambda>d. Inr (JDict d)))"
| "strict_json v = Inr v"

definition mapping_of :: "json \<Rightarrow> string \<Rightarrow> dict res" where
  "mapping_of v name =
     (case v of JDict d \<Rightarrow> Inr d | _ \<Rightarrow> Inl (TypeError (name @ '' must be an object'')))"

definition require_fields :: "dict \<Rightarrow> string \<Rightarrow> string list \<Rightarrow> string list \<Rightarrow> unit res" where
  "require_fields v name required optional =
     (let keys = map fst v;
          allowed = map u (required @ optional) in
      bindr (raise_if (\<not> list_all (\<lambda>k. k \<in> set keys) (map u required))
               (ValueError (name @ '' is missing fields''))) (\<lambda>_.
      raise_if (\<not> list_all (\<lambda>k. k \<in> set allowed) keys) (ValueError (name @ '' has unknown fields''))))"

definition bounded_uint :: "json \<Rightarrow> string \<Rightarrow> nat \<Rightarrow> int res" where
  "bounded_uint v name maximum =
     (case v of
        JInt n \<Rightarrow> if 0 \<le> n \<and> n \<le> int maximum then Inr n
                  else Inl (ValueError (name @ '' is outside its range''))
      | _ \<Rightarrow> Inl (TypeError (name @ '' must be an integer'')))"

definition sha256_hex :: "json \<Rightarrow> string \<Rightarrow> ustr res" where
  "sha256_hex v name =
     (case v of
        JStr s \<Rightarrow>
          if length s \<noteq> 64 then Inl (ValueError (name @ '' must contain 64 lowercase hex characters''))
          else (case fromhex s of
                  None \<Rightarrow> Inl (ValueError (name @ '' is not hexadecimal''))
                | Some raw \<Rightarrow>
                    if s \<noteq> ascii_lower s \<or> length raw \<noteq> 32
                    then Inl (ValueError (name @ '' must contain canonical lowercase SHA-256''))
                    else Inr s)
      | _ \<Rightarrow> Inl (ValueError (name @ '' must contain 64 lowercase hex characters'')))"

text \<open>\<^verbatim>\<open>pathlib.PurePosixPath(value).parts\<close>: empty and \<^verbatim>\<open>.\<close> components vanish, an absolute
  path has its root as the first part.\<close>

definition is_absolute :: "ustr \<Rightarrow> bool" where
  "is_absolute s \<longleftrightarrow> s \<noteq> [] \<and> hd s = 0x2F"

definition path_parts :: "ustr \<Rightarrow> ustr list" where
  "path_parts s =
     (if is_absolute s then [u ''/''] else [])
     @ filter (\<lambda>p. p \<noteq> [] \<and> p \<noteq> u ''.'') (split_slash [] s)"

definition safe_member_name :: "json \<Rightarrow> string \<Rightarrow> ustr res" where
  "safe_member_name v name =
     (case v of
        JStr s \<Rightarrow>
          if s = [] \<or> length s > 128
          then Inl (ValueError (name @ '' must be a non-empty archive member name''))
          else if is_absolute s \<or> u ''..'' \<in> set (path_parts s) \<or> length (path_parts s) \<noteq> 1
          then Inl (ValueError (name @ '' must be a root-level archive filename''))
          else Inr s
      | _ \<Rightarrow> Inl (ValueError (name @ '' must be a non-empty archive member name'')))"

section \<open>The archive\<close>

text \<open>
  One entry of \<^verbatim>\<open>archive.infolist()\<close>, with what \<^verbatim>\<open>archive.read\<close> gives for it: the bytes, or the
  exception the ZIP reader raises.
\<close>

record zip_info =
  zi_filename :: ustr
  zi_flag_bits :: nat
  zi_compress_type :: nat
  zi_file_size :: nat
  zi_content :: "bytes res"

definition zi_is_dir :: "zip_info \<Rightarrow> bool" where
  "zi_is_dir info \<longleftrightarrow> zi_filename info \<noteq> [] \<and> last (zi_filename info) = 0x2F"

definition ZIP_STORED :: nat where "ZIP_STORED = 0"
definition ZIP_DEFLATED :: nat where "ZIP_DEFLATED = 8"

type_synonym members = "(ustr \<times> zip_info) list"

definition archive_member :: "members \<times> nat \<Rightarrow> zip_info \<Rightarrow> (members \<times> nat) res" where
  "archive_member st info =
     (case st of (result, expanded) \<Rightarrow>
      bindr (safe_member_name (JStr (zi_filename info)) ''archive member'') (\<lambda>name.
      bindr (raise_if (name \<in> fst ` set result) (ValueError ''duplicate archive member'')) (\<lambda>_.
      bindr (raise_if (zi_is_dir info \<or> odd (zi_flag_bits info))
               (ValueError ''directories and encrypted archive members are not allowed'')) (\<lambda>_.
      bindr (raise_if (zi_compress_type info \<notin> set [ZIP_STORED, ZIP_DEFLATED])
               (ValueError ''unsupported system-update archive compression'')) (\<lambda>_.
      bindr (raise_if (zi_file_size info > MAX_COMPONENT_BYTES)
               (ValueError ''archive member is too large'')) (\<lambda>_.
      let expanded = expanded + zi_file_size info in
      bindr (raise_if (expanded > MAX_BUNDLE_BYTES)
               (ValueError ''system-update archive expands beyond the size limit'')) (\<lambda>_.
      Inr (result @ [(name, info)], expanded))))))))"

definition archive_members :: "zip_info list \<Rightarrow> members res" where
  "archive_members infos =
     bindr (raise_if (\<not> (1 \<le> length infos \<and> length infos \<le> MAX_ARCHIVE_MEMBERS))
              (ValueError ''system-update archive has an invalid member count'')) (\<lambda>_.
     bindr (foldlr archive_member ([], 0) infos) (\<lambda>st. Inr (fst st)))"

text \<open>\<^verbatim>\<open>archive.read(members[name])\<close>.\<close>

definition read_member :: "members \<Rightarrow> ustr \<Rightarrow> bytes res" where
  "read_member ms name =
     (case map_of ms name of Some info \<Rightarrow> zi_content info | None \<Rightarrow> Inl (KeyError ''members''))"

section \<open>Loading\<close>

text \<open>The cryptography package: PEM loading, the ECDSA P-256 type test and the verification of
  a signature over data.\<close>

record 'k crypto =
  cr_load_pem :: "bytes \<Rightarrow> 'k res"
  cr_is_p256 :: "'k \<Rightarrow> bool"
  cr_verify :: "'k \<Rightarrow> bytes \<Rightarrow> bytes \<Rightarrow> bool"

definition load_public_key :: "'k crypto \<Rightarrow> bytes \<Rightarrow> 'k res" where
  "load_public_key cr data =
     (case cr_load_pem cr data of
        Inl (TypeError _) \<Rightarrow> Inl (ValueError ''system-update trust key is not valid PEM'')
      | Inl (ValueError _) \<Rightarrow> Inl (ValueError ''system-update trust key is not valid PEM'')
      | Inl e \<Rightarrow> Inl e
      | Inr key \<Rightarrow>
          if cr_is_p256 cr key then Inr key
          else Inl (TypeError ''system-update trust key must be ECDSA P-256''))"

text \<open>\<^verbatim>\<open>source\<close>: the bytes of the archive, or a path with the file's content (\<open>None\<close> when it is no
  file). \<open>zip_open\<close> gives the entries, or \<open>None\<close> for \<^verbatim>\<open>BadZipFile\<close> or \<^verbatim>\<open>OSError\<close>.\<close>

datatype bundle_source = FromBytes bytes | FromPath "bytes option"

definition source_stream :: "bundle_source \<Rightarrow> bytes res" where
  "source_stream src =
     (case src of
        FromBytes bs \<Rightarrow>
          if length bs > MAX_BUNDLE_BYTES
          then Inl (ValueError ''system-update archive exceeds the size limit'') else Inr bs
      | FromPath None \<Rightarrow> Inl (ValueError ''system-update archive is missing or too large'')
      | FromPath (Some bs) \<Rightarrow>
          if length bs > MAX_BUNDLE_BYTES
          then Inl (ValueError ''system-update archive is missing or too large'') else Inr bs)"

text \<open>The authenticated part: manifest bytes and signature under the trust policy.\<close>

definition authenticated_manifest ::
  "'k crypto \<Rightarrow> 'k option \<Rightarrow> members \<Rightarrow> (bytes \<times> bytes) res" where
  "authenticated_manifest cr public_key ms =
     bindr (raise_if (MANIFEST_NAME \<notin> fst ` set ms)
              (ValueError ''system-update bundle requires manifest.json'')) (\<lambda>_.
     bindr (read_member ms MANIFEST_NAME) (\<lambda>manifest_bytes.
     bindr (if SIGNATURE_NAME \<in> fst ` set ms then read_member ms SIGNATURE_NAME else Inr []) (\<lambda>signature.
     bindr (raise_if (\<not> (1 \<le> length manifest_bytes \<and> length manifest_bytes \<le> MAX_MANIFEST_BYTES))
              (ValueError ''system-update manifest exceeds the device bound'')) (\<lambda>_.
     bindr (raise_if (length signature > MAX_SIGNATURE_BYTES)
              (ValueError ''system-update signature has an invalid size'')) (\<lambda>_.
     bindr (raise_if (signature \<noteq> [] \<and> public_key = None)
              (ValueError ''signed system-update bundle requires a trust key'')) (\<lambda>_.
     bindr (raise_if (signature = [] \<and> public_key \<noteq> None)
              (ValueError ''unsigned system-update bundle rejected by trust policy'')) (\<lambda>_.
     bindr (raise_if (signature \<noteq> [] \<and>
                (case public_key of Some key \<Rightarrow> \<not> cr_verify cr key signature manifest_bytes | None \<Rightarrow> False))
              (ValueError ''system-update manifest signature is invalid'')) (\<lambda>_.
     Inr (manifest_bytes, signature)))))))))"

text \<open>\<^verbatim>\<open>json.loads(manifest_bytes.decode("utf-8"), object_pairs_hook=_strict_object)\<close>. The argument
  \<open>json_parse\<close> gives the tree of a text; \<open>None\<close> is \<^verbatim>\<open>json.JSONDecodeError\<close>.\<close>

definition parse_manifest :: "(ustr \<Rightarrow> json option) \<Rightarrow> bytes \<Rightarrow> json res" where
  "parse_manifest json_parse manifest_bytes =
     (case utf8_decode_strict manifest_bytes of
        None \<Rightarrow> Inl (ValueError ''system-update manifest is not valid UTF-8 JSON'')
      | Some text \<Rightarrow>
          (case json_parse text of
             None \<Rightarrow> Inl (ValueError ''system-update manifest is not valid UTF-8 JSON'')
           | Some tree \<Rightarrow> strict_json tree))"

definition check_optional_text :: "dict \<Rightarrow> string \<Rightarrow> unit res" where
  "check_optional_text manifest key =
     (case dget manifest key of
        JNull \<Rightarrow> Inr ()
      | JStr s \<Rightarrow> raise_if (\<not> (1 \<le> length s \<and> length s \<le> 64)) (TypeError (key @ '' must be a bounded string''))
      | _ \<Rightarrow> Inl (TypeError (key @ '' must be a bounded string'')))"

definition manifest_key_id :: "dict \<Rightarrow> bytes \<Rightarrow> ustr option res" where
  "manifest_key_id manifest signature =
     (let signature_value = dget manifest ''signature'' in
      if signature \<noteq> [] then
        bindr (mapping_of signature_value ''signature'') (\<lambda>signature_info.
        bindr (require_fields signature_info ''signature'' [''algorithm'', ''key_id''] []) (\<lambda>_.
        bindr (raise_if (dget signature_info ''algorithm'' \<noteq> jstr ''ecdsa-p256-sha256'')
                 (ValueError ''unsupported system-update signature algorithm'')) (\<lambda>_.
        case dget signature_info ''key_id'' of
          JStr s \<Rightarrow>
            if 1 \<le> length s \<and> length s \<le> 64 then Inr (Some s)
            else Inl (ValueError ''system-update signature key_id is invalid'')
        | _ \<Rightarrow> Inl (ValueError ''system-update signature key_id is invalid''))))
      else
        bindr (raise_if (signature_value \<noteq> JNull)
                 (ValueError ''unsigned system-update manifest must omit signature'')) (\<lambda>_.
        Inr None))"

record manifest_header =
  mh_key_id :: "ustr option"
  mh_chip_id :: int
  mh_flash_size :: int
  mh_target_layout :: ustr
  mh_components :: "json list"

definition manifest_header_of :: "dict \<Rightarrow> bytes \<Rightarrow> manifest_header res" where
  "manifest_header_of manifest signature =
     bindr (raise_if (dget manifest ''schema'' \<noteq> JStr SYSTEM_UPDATE_SCHEMA)
              (ValueError ''unsupported system-update manifest schema'')) (\<lambda>_.
     bindr (require_fields manifest ''manifest''
              [''schema'', ''target'', ''target_layout_sha256'', ''components'']
              [''release'', ''minimum_recovery_version'', ''signature'']) (\<lambda>_.
     bindr (check_optional_text manifest ''release'') (\<lambda>_.
     bindr (check_optional_text manifest ''minimum_recovery_version'') (\<lambda>_.
     bindr (manifest_key_id manifest signature) (\<lambda>key_id.
     bindr (mapping_of (dget manifest ''target'') ''target'') (\<lambda>target.
     bindr (require_fields target ''target'' [''chip_id'', ''flash_size''] []) (\<lambda>_.
     bindr (bounded_uint (dget target ''chip_id'') ''target.chip_id'' 0xFFFF) (\<lambda>chip_id.
     bindr (bounded_uint (dget target ''flash_size'') ''target.flash_size'' 0xFFFFFFFF) (\<lambda>flash_size.
     bindr (raise_if (flash_size = 0 \<or> flash_size mod 4096 \<noteq> 0)
              (ValueError ''target.flash_size must be a non-zero 4 KiB multiple'')) (\<lambda>_.
     bindr (sha256_hex (dget manifest ''target_layout_sha256'') ''target_layout_sha256'') (\<lambda>target_layout.
     case dget manifest ''components'' of
       JList values \<Rightarrow>
         if 1 \<le> length values \<and> length values \<le> MAX_COMPONENTS
         then Inr \<lparr>mh_key_id = key_id, mh_chip_id = chip_id, mh_flash_size = flash_size,
                   mh_target_layout = target_layout, mh_components = values\<rparr>
         else Inl (ValueError ''components must contain 1..8 entries'')
     | _ \<Rightarrow> Inl (ValueError ''components must contain 1..8 entries''))))))))))))"

text \<open>\<^verbatim>\<open>kind_name not in _KIND_NAMES\<close>: a list or a dictionary is not hashable.\<close>

definition kind_of :: "json \<Rightarrow> component_kind res" where
  "kind_of v =
     (case v of
        JStr s \<Rightarrow>
          (case enum_of kind_key kind_members s of
             Some k \<Rightarrow> Inr k | None \<Rightarrow> Inl (ValueError ''unsupported component kind''))
      | JList _ \<Rightarrow> Inl (TypeError ''unhashable type'')
      | JDict _ \<Rightarrow> Inl (TypeError ''unhashable type'')
      | _ \<Rightarrow> Inl (ValueError ''unsupported component kind''))"

text \<open>The loop over the components: what it collects, and one iteration.\<close>

record load_state =
  ls_components :: "component list"
  ls_identifiers :: "int list"
  ls_singletons :: "component_kind list"
  ls_filenames :: "ustr list"

definition component_alignment :: "component_kind \<Rightarrow> int" where
  "component_alignment kind = (if kind = APPLICATION then 0x10000 else 0x1000)"

definition load_component :: "members \<Rightarrow> int \<Rightarrow> int \<Rightarrow> load_state \<Rightarrow> json \<Rightarrow> load_state res" where
  "load_component ms chip_id flash_size st v =
     bindr (mapping_of v ''components'') (\<lambda>item.
     bindr (require_fields item ''components''
              [''id'', ''kind'', ''target_offset'', ''size'', ''sha256'', ''file''] [''flags'']) (\<lambda>_.
     bindr (bounded_uint (dget item ''id'') ''component id'' 0xFF) (\<lambda>identifier.
     bindr (raise_if (identifier = 0 \<or> identifier \<in> set (ls_identifiers st))
              (ValueError ''component IDs must be unique and non-zero'')) (\<lambda>_.
     bindr (kind_of (dget item ''kind'')) (\<lambda>kind.
     bindr (raise_if (kind \<noteq> DATA \<and> kind \<in> set (ls_singletons st))
              (ValueError ''component kind is duplicated'')) (\<lambda>_.
     bindr (bounded_uint (dget_default item ''flags'' (JInt 0)) ''component flags'' 0xFFFF) (\<lambda>flags.
     bindr (bounded_uint (dget item ''target_offset'') ''component target_offset'' 0xFFFFFFFF) (\<lambda>offset.
     bindr (bounded_uint (dget item ''size'') ''component size'' 0xFFFFFFFF) (\<lambda>size.
     bindr (raise_if (size = 0 \<or> size > int MAX_COMPONENT_BYTES \<or> offset + size > flash_size)
              (ValueError ''component is empty, too large or outside target Flash'')) (\<lambda>_.
     bindr (raise_if (offset mod component_alignment kind \<noteq> 0)
              (ValueError ''component target offset is not aligned'')) (\<lambda>_.
     bindr (sha256_hex (dget item ''sha256'') ''component sha256'') (\<lambda>sha_hex.
     bindr (safe_member_name (dget item ''file'') ''component file'') (\<lambda>filename.
     bindr (raise_if (filename \<in> set (ls_filenames st) \<or> filename \<notin> fst ` set ms)
              (ValueError ''component archive member is invalid'')) (\<lambda>_.
     bindr (read_member ms filename) (\<lambda>data.
     bindr (raise_if (int (length data) \<noteq> size)
              (ValueError ''component size does not match manifest'')) (\<lambda>_.
     let digest = sha256 data in
     bindr (raise_if (u (hex digest) \<noteq> sha_hex)
              (ValueError ''component SHA-256 does not match manifest'')) (\<lambda>_.
     bindr (if kind = APPLICATION \<or> kind = RECOVERY
            then bindr (inspect_firmware_image data) (\<lambda>firmware.
                 raise_if (int (fw_chip_id firmware) \<noteq> chip_id)
                   (ValueError ''component chip ID does not match target''))
            else Inr ()) (\<lambda>_.
     Inr \<lparr>ls_components = ls_components st @
            [\<lparr>sc_id = identifier, sc_kind = kind, sc_flags = flags, sc_target_offset = offset,
              sc_size = size, sc_sha256 = digest, sc_filename = filename, sc_data = data\<rparr>],
          ls_identifiers = ls_identifiers st @ [identifier],
          ls_singletons = (if kind = DATA then ls_singletons st else ls_singletons st @ [kind]),
          ls_filenames = ls_filenames st @ [filename]\<rparr>))))))))))))))))))"

text \<open>\<^verbatim>\<open>(item.target_offset, item.target_offset + item.size, item.id)\<close>.\<close>

definition region :: "component \<Rightarrow> int \<times> int \<times> int" where
  "region c = (sc_target_offset c, sc_target_offset c + sc_size c, sc_id c)"

fun adjacent_overlap :: "(int \<times> int \<times> int) list \<Rightarrow> bool" where
  "adjacent_overlap ((a, b, i) # (a', b', i') # rs) \<longleftrightarrow> a' < b \<or> adjacent_overlap ((a', b', i') # rs)"
| "adjacent_overlap rs \<longleftrightarrow> False"

definition of_kind :: "component_kind \<Rightarrow> component list \<Rightarrow> component list" where
  "of_kind k cs = filter (\<lambda>c. sc_kind c = k) cs"

text \<open>The checks after the loop, on all components together.\<close>

definition check_components :: "component list \<Rightarrow> ustr \<Rightarrow> unit res" where
  "check_components components target_layout =
     (let ordered_regions = sort (map region components);
          partition_tables = of_kind PARTITION_TABLE components;
          recoveries = of_kind RECOVERY components;
          bootloaders = of_kind BOOTLOADER components in
      bindr (raise_if (adjacent_overlap ordered_regions)
               (ValueError ''components overlap in target Flash'')) (\<lambda>_.
      bindr (raise_if (partition_tables \<noteq> [] \<and>
                 sc_size (hd partition_tables) \<noteq> int PARTITION_TABLE_REGION_BYTES)
               (ValueError ''partition-table component must cover one 4 KiB sector'')) (\<lambda>_.
      bindr (raise_if (recoveries \<noteq> [] \<and> length components \<noteq> 1)
               (ValueError ''recovery must be the only component of the bundle'')) (\<lambda>_.
      bindr (raise_if (recoveries \<noteq> [] \<and> target_layout = replicate 64 0x30)
               (ValueError ''recovery bundle requires an explicit target layout SHA-256'')) (\<lambda>_.
      bindr (raise_if (bootloaders \<noteq> [] \<and> partition_tables = [])
               (ValueError ''bootloader component requires a partition-table component'')) (\<lambda>_.
      bindr (raise_if (bootloaders \<noteq> [] \<and>
                 sc_target_offset (hd bootloaders) + sc_size (hd bootloaders)
                   \<noteq> sc_target_offset (hd partition_tables))
               (ValueError ''bootloader component must cover the full range before the partition table'')) (\<lambda>_.
      raise_if (partition_tables \<noteq> [] \<and> u (hex (sc_sha256 (hd partition_tables))) \<noteq> target_layout)
        (ValueError ''target layout SHA-256 does not match partition table''))))))))"

definition load_system_update_bundle ::
  "(bytes \<Rightarrow> zip_info list option) \<Rightarrow> (ustr \<Rightarrow> json option) \<Rightarrow> 'k crypto \<Rightarrow>
   bundle_source \<Rightarrow> bytes option \<Rightarrow> update_bundle res" where
  "load_system_update_bundle zip_open json_parse cr src trusted_public_key =
     bindr (source_stream src) (\<lambda>stream.
     bindr (case trusted_public_key of
              None \<Rightarrow> Inr None
            | Some data \<Rightarrow> bindr (load_public_key cr data) (\<lambda>key. Inr (Some key))) (\<lambda>public_key.
     case zip_open stream of
       None \<Rightarrow> Inl (ValueError ''system-update bundle is not a valid ZIP archive'')
     | Some infos \<Rightarrow>
         bindr (archive_members infos) (\<lambda>ms.
         bindr (authenticated_manifest cr public_key ms) (\<lambda>(manifest_bytes, signature).
         bindr (parse_manifest json_parse manifest_bytes) (\<lambda>document.
         bindr (mapping_of document ''manifest'') (\<lambda>manifest.
         bindr (manifest_header_of manifest signature) (\<lambda>header.
         bindr (foldlr (load_component ms (mh_chip_id header) (mh_flash_size header))
                  \<lparr>ls_components = [], ls_identifiers = [], ls_singletons = [],
                   ls_filenames = MANIFEST_NAME # (if signature \<noteq> [] then [SIGNATURE_NAME] else [])\<rparr>
                  (mh_components header)) (\<lambda>st.
         bindr (raise_if (\<not> list_all (\<lambda>m. fst m \<in> set (ls_filenames st)) ms)
                  (ValueError ''system-update bundle contains undeclared members'')) (\<lambda>_.
         bindr (check_components (ls_components st) (mh_target_layout header)) (\<lambda>_.
         Inr \<lparr>sb_manifest = manifest, sb_manifest_bytes = manifest_bytes,
              sb_signature = signature, sb_manifest_sha256 = sha256 manifest_bytes,
              sb_key_id = mh_key_id header, sb_signature_verified = (signature \<noteq> []),
              sb_chip_id = mh_chip_id header, sb_flash_size = mh_flash_size header,
              sb_target_layout_sha256 = mh_target_layout header,
              sb_components = ls_components st\<rparr>))))))))))"

section \<open>What an accepted bundle satisfies\<close>

definition component_ok :: "int \<Rightarrow> int \<Rightarrow> component \<Rightarrow> bool" where
  "component_ok chip_id flash_size c \<longleftrightarrow>
     0 < sc_id c \<and> sc_id c \<le> 0xFF \<and> 0 \<le> sc_flags c \<and> sc_flags c \<le> 0xFFFF
     \<and> 0 \<le> sc_target_offset c \<and> sc_target_offset c mod component_alignment (sc_kind c) = 0
     \<and> 0 < sc_size c \<and> sc_size c \<le> int MAX_COMPONENT_BYTES
     \<and> sc_target_offset c + sc_size c \<le> flash_size
     \<and> sc_size c = int (length (sc_data c)) \<and> sc_sha256 c = sha256 (sc_data c)
     \<and> (if sc_kind c = APPLICATION \<or> sc_kind c = RECOVERY
         then (case inspect_firmware_image (sc_data c) of
                 Inr fw \<Rightarrow> int (fw_chip_id fw) = chip_id | Inl _ \<Rightarrow> False)
         else True)"

definition regions_disjoint :: "component \<Rightarrow> component \<Rightarrow> bool" where
  "regions_disjoint c d \<longleftrightarrow>
     sc_target_offset c + sc_size c \<le> sc_target_offset d
     \<or> sc_target_offset d + sc_size d \<le> sc_target_offset c"

text \<open>The protected components: one partition table of one sector, which the layout digest
  names; a bootloader that ends where the partition table starts; a recovery image alone.\<close>

definition protected_ok :: "component list \<Rightarrow> ustr \<Rightarrow> bool" where
  "protected_ok cs layout \<longleftrightarrow>
     list_all (\<lambda>k. k = DATA \<or> length (of_kind k cs) \<le> 1) kind_members
     \<and> list_all (\<lambda>p. sc_size p = 0x1000 \<and> u (hex (sha256 (sc_data p))) = layout)
         (of_kind PARTITION_TABLE cs)
     \<and> list_all (\<lambda>b. length (of_kind PARTITION_TABLE cs) = 1
           \<and> sc_target_offset b + sc_size b = sc_target_offset (hd (of_kind PARTITION_TABLE cs)))
         (of_kind BOOTLOADER cs)
     \<and> list_all (\<lambda>r. cs = [r] \<and> layout \<noteq> replicate 64 0x30) (of_kind RECOVERY cs)"

definition bundle_ok :: "update_bundle \<Rightarrow> bool" where
  "bundle_ok b \<longleftrightarrow>
     1 \<le> length (sb_components b) \<and> length (sb_components b) \<le> MAX_COMPONENTS
     \<and> 0 < sb_flash_size b \<and> sb_flash_size b mod 4096 = 0
     \<and> list_all (component_ok (sb_chip_id b) (sb_flash_size b)) (sb_components b)
     \<and> distinct (map sc_id (sb_components b)) \<and> distinct (map sc_filename (sb_components b))
     \<and> sorted_wrt regions_disjoint (sb_components b)
     \<and> protected_ok (sb_components b) (sb_target_layout_sha256 b)
     \<and> sb_manifest_sha256 b = sha256 (sb_manifest_bytes b)"

subsection \<open>The loop over the components\<close>

definition load_inv :: "members \<Rightarrow> int \<Rightarrow> int \<Rightarrow> ustr list \<Rightarrow> load_state \<Rightarrow> bool" where
  "load_inv ms chip_id flash_size names st \<longleftrightarrow>
     list_all (component_ok chip_id flash_size) (ls_components st)
     \<and> ls_identifiers st = map sc_id (ls_components st) \<and> distinct (ls_identifiers st)
     \<and> ls_singletons st = filter (\<lambda>k. k \<noteq> DATA) (map sc_kind (ls_components st))
     \<and> distinct (ls_singletons st)
     \<and> ls_filenames st = names @ map sc_filename (ls_components st) \<and> distinct (ls_filenames st)
     \<and> list_all (\<lambda>c. read_member ms (sc_filename c) = Inr (sc_data c)) (ls_components st)"

lemma bounded_uint_ok [res_simps]:
  "bounded_uint v name m = Inr n \<longleftrightarrow> v = JInt n \<and> 0 \<le> n \<and> n \<le> int m"
  by (auto simp: bounded_uint_def split: json.splits)

lemma load_component_new:
  assumes "load_component ms chip flash st v = Inr st'"
  obtains c where "ls_components st' = ls_components st @ [c]"
    and "ls_identifiers st' = ls_identifiers st @ [sc_id c]"
    and "ls_singletons st' = ls_singletons st @ filter (\<lambda>k. k \<noteq> DATA) [sc_kind c]"
    and "ls_filenames st' = ls_filenames st @ [sc_filename c]"
    and "component_ok chip flash c" and "sc_id c \<notin> set (ls_identifiers st)"
    and "sc_kind c \<noteq> DATA \<Longrightarrow> sc_kind c \<notin> set (ls_singletons st)"
    and "sc_filename c \<notin> set (ls_filenames st)"
    and "read_member ms (sc_filename c) = Inr (sc_data c)"
proof -
  from assms obtain ident kind flags offset size filename data
    where st': "st' = \<lparr>ls_components = ls_components st @
            [\<lparr>sc_id = ident, sc_kind = kind, sc_flags = flags, sc_target_offset = offset,
              sc_size = size, sc_sha256 = sha256 data, sc_filename = filename, sc_data = data\<rparr>],
          ls_identifiers = ls_identifiers st @ [ident],
          ls_singletons = (if kind = DATA then ls_singletons st else ls_singletons st @ [kind]),
          ls_filenames = ls_filenames st @ [filename]\<rparr>"
      and num: "0 \<le> ident" "ident \<le> 0xFF" "ident \<noteq> 0"
        "ident \<notin> set (ls_identifiers st)" "0 \<le> flags" "flags \<le> 0xFFFF" "0 \<le> offset"
        "0 \<le> size" "size \<noteq> 0" "size \<le> int MAX_COMPONENT_BYTES" "offset + size \<le> flash"
        "offset mod component_alignment kind = 0"
      and rest: "\<not> (kind \<noteq> DATA \<and> kind \<in> set (ls_singletons st))"
        "filename \<notin> set (ls_filenames st)" "read_member ms filename = Inr data"
        "int (length data) = size"
      and fw: "is_ok (if kind = APPLICATION \<or> kind = RECOVERY
            then bindr (inspect_firmware_image data) (\<lambda>firmware.
                 raise_if (int (fw_chip_id firmware) \<noteq> chip)
                   (ValueError ''component chip ID does not match target''))
            else Inr ())"
    unfolding load_component_def Let_def
    apply (elim bindr_InrE)
    apply (rule that)
    apply (erule sum.inject(2) [THEN iffD1, symmetric])
    apply (simp_all only: raise_if_eq_Inr bounded_uint_ok not_not de_Morgan_disj not_less of_nat_numeral is_ok_simps not_False_eq_True)
    done
  let ?c = "\<lparr>sc_id = ident, sc_kind = kind, sc_flags = flags, sc_target_offset = offset,
     sc_size = size, sc_sha256 = sha256 data, sc_filename = filename, sc_data = data\<rparr>"
  from fw have "component_ok chip flash ?c"
    using num rest by (auto simp: component_ok_def is_ok_iff res_simps split: if_splits)
  then show thesis
    using num rest by (intro that [of ?c]) (simp_all add: st')
qed

lemma load_component_inv:
  assumes "load_inv ms chip flash names st" and "load_component ms chip flash st v = Inr st'"
  shows "load_inv ms chip flash names st'"
proof -
  from assms(2) show ?thesis
  proof (rule load_component_new)
    fix c
    assume new: "ls_components st' = ls_components st @ [c]"
      "ls_identifiers st' = ls_identifiers st @ [sc_id c]"
      "ls_singletons st' = ls_singletons st @ filter (\<lambda>k. k \<noteq> DATA) [sc_kind c]"
      "ls_filenames st' = ls_filenames st @ [sc_filename c]"
      and c: "component_ok chip flash c" "sc_id c \<notin> set (ls_identifiers st)"
      "sc_kind c \<noteq> DATA \<Longrightarrow> sc_kind c \<notin> set (ls_singletons st)"
      "sc_filename c \<notin> set (ls_filenames st)"
      "read_member ms (sc_filename c) = Inr (sc_data c)"
    show ?thesis
      using assms(1) c unfolding load_inv_def new
      by (elim conjE, cases "sc_kind c = DATA") simp_all
  qed
qed

lemma of_kind_single:
  assumes "distinct (filter (\<lambda>k. k \<noteq> DATA) (map sc_kind cs))" and "k \<noteq> DATA"
  shows "length (of_kind k cs) \<le> 1"
  using assms(1)
proof (induction cs)
  case Nil
  then show ?case by (simp add: of_kind_def)
next
  case (Cons c cs)
  show ?case
  proof (cases "sc_kind c = k")
    case True
    with Cons.prems assms(2) have "k \<notin> sc_kind ` set cs" by auto
    then have "of_kind k cs = []" by (auto simp: of_kind_def filter_empty_conv)
    with True show ?thesis by (simp add: of_kind_def)
  next
    case False
    have "distinct (filter (\<lambda>k. k \<noteq> DATA) (map sc_kind cs))"
      using Cons.prems by (cases "sc_kind c = DATA") simp_all
    with Cons.IH False show ?thesis by (simp add: of_kind_def)
  qed
qed

subsection \<open>Neighbours in the sorted list suffice\<close>

lemma sorted_separated:
  assumes "sorted ((a, b, i) # rs)" and "\<not> adjacent_overlap ((a, b, i) # rs)"
    and "list_all (\<lambda>(a, b, i). a < b) ((a, b, i) # rs)" and "(a', b', i') \<in> set rs"
  shows "b \<le> a'"
  using assms
proof (induction rs arbitrary: a b i)
  case Nil
  then show ?case by simp
next
  case (Cons r rs)
  obtain a1 b1 i1 where r: "r = (a1, b1, i1)" by (cases r)
  with Cons.prems have step: "b \<le> a1" "a1 < b1" by auto
  show ?case
  proof (cases "(a', b', i') = r")
    case True
    with r step show ?thesis by simp
  next
    case False
    have "b1 \<le> a'"
      by (rule Cons.IH) (use Cons.prems False r in auto)
    with step show ?thesis by simp
  qed
qed

lemma sorted_pairwise:
  assumes "sorted rs" and "\<not> adjacent_overlap rs" and "list_all (\<lambda>(a, b, i). a < b) rs"
  shows "sorted_wrt (\<lambda>r r'. fst (snd r) \<le> fst r') rs"
  using assms
proof (induction rs)
  case Nil
  then show ?case by simp
next
  case (Cons r rs)
  obtain a b i where r: "r = (a, b, i)" by (cases r)
  have "\<not> adjacent_overlap rs" using Cons.prems(2) r by (cases rs) auto
  then have "sorted_wrt (\<lambda>r r'. fst (snd r) \<le> fst r') rs"
    using Cons by simp
  moreover have "b \<le> a'" if "(a', b', i') \<in> set rs" for a' b' i'
    using sorted_separated [OF Cons.prems [unfolded r] that] .
  ultimately show ?case by (auto simp: r)
qed

text \<open>A symmetric relation between all pairs of a list does not depend on the order.\<close>

lemma sorted_wrt_insort:
  assumes "\<And>x y. R x y = R y x"
  shows "sorted_wrt R (insort x xs) \<longleftrightarrow> list_all (R x) xs \<and> sorted_wrt R xs"
  using assms by (induction xs) (auto simp: set_insort_key list_all_iff)

lemma sorted_wrt_sort:
  assumes "\<And>x y. R x y = R y x"
  shows "sorted_wrt R (sort xs) \<longleftrightarrow> sorted_wrt R xs"
  by (induction xs) (simp_all add: sorted_wrt_insort [OF assms] list_all_iff)

definition ranges_disjoint :: "int \<times> int \<times> int \<Rightarrow> int \<times> int \<times> int \<Rightarrow> bool" where
  "ranges_disjoint r r' \<longleftrightarrow> fst (snd r) \<le> fst r' \<or> fst (snd r') \<le> fst r"

lemma no_overlap_pairwise:
  assumes "\<not> adjacent_overlap (sort (map region cs))" and "list_all (\<lambda>c. 0 < sc_size c) cs"
  shows "sorted_wrt regions_disjoint cs"
proof -
  have "list_all (\<lambda>(a, b, i). a < b) (sort (map region cs))"
    using assms(2) by (auto simp: list_all_iff region_def)
  with assms(1) have "sorted_wrt (\<lambda>r r'. fst (snd r) \<le> fst r') (sort (map region cs))"
    by (intro sorted_pairwise) simp_all
  then have "sorted_wrt ranges_disjoint (sort (map region cs))"
    by (rule sorted_wrt_mono_rel [rotated]) (simp add: ranges_disjoint_def)
  then have "sorted_wrt ranges_disjoint (map region cs)"
    by (simp add: sorted_wrt_sort ranges_disjoint_def disj_commute)
  then show ?thesis
    by (simp add: sorted_wrt_map ranges_disjoint_def region_def regions_disjoint_def [abs_def])
qed

lemma check_components_protected:
  assumes "check_components cs layout = Inr v"
    and "distinct (filter (\<lambda>k. k \<noteq> DATA) (map sc_kind cs))"
    and "list_all (\<lambda>c. sc_sha256 c = sha256 (sc_data c)) cs"
  shows "protected_ok cs layout"
proof -
  have one: "length (of_kind k cs) \<le> 1" if "k \<noteq> DATA" for k
    by (rule of_kind_single [OF assms(2) that])
  have hd_only: "x = hd (of_kind k cs) \<and> length (of_kind k cs) = 1"
    if "x \<in> set (of_kind k cs)" "k \<noteq> DATA" for x k
    using one [OF that(2)] that(1) by (cases "of_kind k cs") auto
  have sha: "sc_sha256 x = sha256 (sc_data x)" if "x \<in> set (of_kind k cs)" for x k
    using that assms(3) by (auto simp: of_kind_def list_all_iff)
  note checks = assms(1) [unfolded check_components_def Let_def bindr_eq_Inr raise_if_eq_Inr]
  have "list_all (\<lambda>p. sc_size p = 0x1000 \<and> u (hex (sha256 (sc_data p))) = layout)
      (of_kind PARTITION_TABLE cs)"
  proof (unfold list_all_iff, intro ballI)
    fix p assume p: "p \<in> set (of_kind PARTITION_TABLE cs)"
    then have "p = hd (of_kind PARTITION_TABLE cs)" "of_kind PARTITION_TABLE cs \<noteq> []"
      using hd_only [OF p] by auto
    with checks show "sc_size p = 0x1000 \<and> u (hex (sha256 (sc_data p))) = layout"
      using sha [OF p] by (simp add: PARTITION_TABLE_REGION_BYTES_def)
  qed
  moreover have "list_all (\<lambda>b. length (of_kind PARTITION_TABLE cs) = 1
         \<and> sc_target_offset b + sc_size b = sc_target_offset (hd (of_kind PARTITION_TABLE cs)))
       (of_kind BOOTLOADER cs)"
  proof (unfold list_all_iff, intro ballI)
    fix b assume b: "b \<in> set (of_kind BOOTLOADER cs)"
    then have "b = hd (of_kind BOOTLOADER cs)" "of_kind BOOTLOADER cs \<noteq> []"
      using hd_only [OF b] by auto
    with checks one [of PARTITION_TABLE] show "length (of_kind PARTITION_TABLE cs) = 1
         \<and> sc_target_offset b + sc_size b = sc_target_offset (hd (of_kind PARTITION_TABLE cs))"
      by (cases "of_kind PARTITION_TABLE cs") auto
  qed
  moreover have "list_all (\<lambda>r. cs = [r] \<and> layout \<noteq> replicate 64 0x30) (of_kind RECOVERY cs)"
  proof (unfold list_all_iff, intro ballI)
    fix r assume r: "r \<in> set (of_kind RECOVERY cs)"
    then have "of_kind RECOVERY cs \<noteq> []" "r \<in> set cs" by (auto simp: of_kind_def filter_empty_conv)
    with checks show "cs = [r] \<and> layout \<noteq> replicate 64 0x30"
      by (auto simp: length_Suc_conv)
  qed
  moreover have "list_all (\<lambda>k. k = DATA \<or> length (of_kind k cs) \<le> 1) kind_members"
    using one by (auto simp: list_all_iff)
  ultimately show ?thesis by (simp add: protected_ok_def)
qed

subsection \<open>The loader\<close>

lemma load_bundle_cases:
  assumes "load_system_update_bundle zip_open json_parse cr src key = Inr b"
  obtains stream public_key infos ms manifest_bytes signature document manifest header st checked
  where "source_stream src = Inr stream" and "zip_open stream = Some infos"
    and "(case key of None \<Rightarrow> Inr None
          | Some data \<Rightarrow> bindr (load_public_key cr data) (\<lambda>key. Inr (Some key))) = Inr public_key"
    and "archive_members infos = Inr ms"
    and "authenticated_manifest cr public_key ms = Inr (manifest_bytes, signature)"
    and "parse_manifest json_parse manifest_bytes = Inr document"
    and "document = JDict manifest"
    and "manifest_header_of manifest signature = Inr header"
    and "foldlr (load_component ms (mh_chip_id header) (mh_flash_size header))
           \<lparr>ls_components = [], ls_identifiers = [], ls_singletons = [],
            ls_filenames = MANIFEST_NAME # (if signature \<noteq> [] then [SIGNATURE_NAME] else [])\<rparr>
           (mh_components header) = Inr st"
    and "list_all (\<lambda>m. fst m \<in> set (ls_filenames st)) ms"
    and "check_components (ls_components st) (mh_target_layout header) = Inr checked"
    and "b = \<lparr>sb_manifest = manifest, sb_manifest_bytes = manifest_bytes,
              sb_signature = signature, sb_manifest_sha256 = sha256 manifest_bytes,
              sb_key_id = mh_key_id header, sb_signature_verified = (signature \<noteq> []),
              sb_chip_id = mh_chip_id header, sb_flash_size = mh_flash_size header,
              sb_target_layout_sha256 = mh_target_layout header,
              sb_components = ls_components st\<rparr>"
proof -
  from assms obtain stream public_key where
    1: "source_stream src = Inr stream"
      "(case key of None \<Rightarrow> Inr None
        | Some data \<Rightarrow> bindr (load_public_key cr data) (\<lambda>key. Inr (Some key))) = Inr public_key"
    unfolding load_system_update_bundle_def by (elim bindr_InrE) blast
  with assms obtain infos where 2: "zip_open stream = Some infos"
    by (auto simp: load_system_update_bundle_def split: option.splits)
  from assms 1 2 obtain ms manifest_bytes signature where
    3: "archive_members infos = Inr ms"
      "authenticated_manifest cr public_key ms = Inr (manifest_bytes, signature)"
    by (auto simp: load_system_update_bundle_def bindr_eq_Inr)
  have mapping: "v = JDict d" if "mapping_of v name = Inr d" for v name d
    using that by (simp add: mapping_of_def split: json.splits)
  show thesis
    using assms unfolding load_system_update_bundle_def
    apply (simp only: 1 2 3 bindr.simps option.case prod.case)
    apply (elim bindr_InrE)
    apply (drule mapping)
    apply (drule sum.inject(2) [THEN iffD1, symmetric])
    apply (rule that [OF 1(1) 2 1(2) 3])
    apply (assumption | simp only: raise_if_eq_Inr not_not)+
    done
qed

lemma manifest_header_ok:
  assumes "manifest_header_of manifest signature = Inr header"
  shows "0 < mh_flash_size header" "mh_flash_size header mod 4096 = 0"
    and "1 \<le> length (mh_components header)" "length (mh_components header) \<le> MAX_COMPONENTS"
    and "(mh_key_id header = None) = (signature = [])"
proof -
  have *: "0 < mh_flash_size header \<and> mh_flash_size header mod 4096 = 0
      \<and> 1 \<le> length (mh_components header) \<and> length (mh_components header) \<le> MAX_COMPONENTS
      \<and> manifest_key_id manifest signature = Inr (mh_key_id header)"
    using assms unfolding manifest_header_of_def
    by (elim bindr_InrE)
       (auto simp: raise_if_eq_Inr bounded_uint_ok split: json.splits if_splits)
  then show "0 < mh_flash_size header" "mh_flash_size header mod 4096 = 0"
    "1 \<le> length (mh_components header)" "length (mh_components header) \<le> MAX_COMPONENTS"
    by simp_all
  from * have "manifest_key_id manifest signature = Inr (mh_key_id header)" by simp
  then show "(mh_key_id header = None) = (signature = [])"
    unfolding manifest_key_id_def Let_def
    by (auto split: if_splits json.splits elim!: bindr_InrE dest: sym)
qed

lemma load_components_inv:
  assumes "foldlr (load_component ms chip flash)
      \<lparr>ls_components = [], ls_identifiers = [], ls_singletons = [], ls_filenames = names\<rparr> vs = Inr st"
    and "distinct names"
  shows "load_inv ms chip flash names st"
proof (rule foldlr_invariant [OF assms(1)])
  show "load_inv ms chip flash names
      \<lparr>ls_components = [], ls_identifiers = [], ls_singletons = [], ls_filenames = names\<rparr>"
    using assms(2) by (simp add: load_inv_def)
qed (rule load_component_inv)

lemma load_component_length:
  "load_component ms chip flash st v = Inr st' \<Longrightarrow>
   length (ls_components st') = Suc (length (ls_components st))"
  by (erule load_component_new) simp

lemma load_components_length:
  "foldlr (load_component ms chip flash) st vs = Inr st' \<Longrightarrow>
   length (ls_components st') = length (ls_components st) + length vs"
  by (induction vs arbitrary: st) (auto simp: bindr_eq_Inr dest: load_component_length)

lemma base_names_distinct:
  "distinct (MANIFEST_NAME # (if signature \<noteq> [] then [SIGNATURE_NAME] else []))"
  by (simp add: MANIFEST_NAME_def SIGNATURE_NAME_def u_def)

section \<open>An example bundle\<close>

text \<open>A signed bundle with two data components, and an environment that serves it.\<close>

definition ex_component :: "int \<Rightarrow> int \<Rightarrow> string \<Rightarrow> bytes \<Rightarrow> json" where
  "ex_component ident offset file data =
     JDict [item ''id'' (JInt ident), item ''kind'' (jstr ''data''),
       item ''target_offset'' (JInt offset), item ''size'' (JInt (int (length data))),
       item ''sha256'' (jstr (hex (sha256 data))), item ''file'' (jstr file)]"

definition ex_manifest :: "json \<Rightarrow> json" where
  "ex_manifest signature_info =
     JDict [item ''schema'' (JStr SYSTEM_UPDATE_SCHEMA),
       item ''target'' (JDict [item ''chip_id'' (JInt 0x20), item ''flash_size'' (JInt 0x400000)]),
       item ''target_layout_sha256'' (jstr (hex (sha256 []))),
       item ''components'' (JList [ex_component 2 0x20000 ''b'' [1, 2], ex_component 1 0x10000 ''a'' [3]]),
       item ''signature'' signature_info]"

definition ex_info :: "ustr \<Rightarrow> bytes \<Rightarrow> zip_info" where
  "ex_info name data =
     \<lparr>zi_filename = name, zi_flag_bits = 0, zi_compress_type = ZIP_STORED,
      zi_file_size = length data, zi_content = Inr data\<rparr>"

definition ex_infos :: "zip_info list" where
  "ex_infos = [ex_info MANIFEST_NAME [0x7B], ex_info SIGNATURE_NAME [9], ex_info (u ''a'') [3],
               ex_info (u ''b'') [1, 2]]"

definition ex_signature :: json where
  "ex_signature = JDict [item ''algorithm'' (jstr ''ecdsa-p256-sha256''), item ''key_id'' (jstr ''k'')]"

definition ex_crypto :: "nat crypto" where
  "ex_crypto = \<lparr>cr_load_pem = (\<lambda>_. Inr 0), cr_is_p256 = (\<lambda>_. True),
     cr_verify = (\<lambda>_ signature data. signature = [9] \<and> data = [0x7B])\<rparr>"

definition ex_bundle :: update_bundle where
  "ex_bundle = \<lparr>sb_manifest = (case ex_manifest ex_signature of JDict d \<Rightarrow> d | _ \<Rightarrow> []),
     sb_manifest_bytes = [0x7B],
     sb_signature = [9], sb_manifest_sha256 = sha256 [0x7B], sb_key_id = Some (u ''k''),
     sb_signature_verified = True, sb_chip_id = 0x20, sb_flash_size = 0x400000,
     sb_target_layout_sha256 = u (hex (sha256 [])),
     sb_components =
       [\<lparr>sc_id = 2, sc_kind = DATA, sc_flags = 0, sc_target_offset = 0x20000, sc_size = 2,
         sc_sha256 = sha256 [1, 2], sc_filename = u ''b'', sc_data = [1, 2]\<rparr>,
        \<lparr>sc_id = 1, sc_kind = DATA, sc_flags = 0, sc_target_offset = 0x10000, sc_size = 1,
         sc_sha256 = sha256 [3], sc_filename = u ''a'', sc_data = [3]\<rparr>]\<rparr>"

lemma sha256_hex_digest: "sha256_hex (JStr (u (hex (sha256 d)))) name = Inr (u (hex (sha256 d)))"
  by (simp add: sha256_hex_def fromhex_hex ascii_lower_hex)

lemmas ex_defs = item_def jstr_def SYSTEM_UPDATE_SCHEMA_def MANIFEST_NAME_def SIGNATURE_NAME_def

lemma ex_members:
  "archive_members ex_infos = Inr (map (\<lambda>i. (zi_filename i, i)) ex_infos)"
  by (simp add: archive_members_def ex_infos_def ex_info_def archive_member_def safe_member_name_def
      path_parts_def is_absolute_def zi_is_dir_def ex_defs MAX_ARCHIVE_MEMBERS_def
      MAX_COMPONENT_BYTES_def MAX_BUNDLE_BYTES_def ZIP_STORED_def)

lemma ex_strict: "strict_json (ex_manifest ex_signature) = Inr (ex_manifest ex_signature)"
  by (simp add: ex_manifest_def ex_signature_def ex_component_def strict_object_def ex_defs)

lemma ex_authenticated:
  "authenticated_manifest ex_crypto (Some 0) (map (\<lambda>i. (zi_filename i, i)) ex_infos) = Inr ([0x7B], [9])"
  by (simp add: authenticated_manifest_def ex_crypto_def read_member_def ex_infos_def ex_info_def
      ex_defs MAX_MANIFEST_BYTES_def MAX_SIGNATURE_BYTES_def)

lemma ex_header:
  "manifest_header_of (sb_manifest ex_bundle) [9] =
     Inr \<lparr>mh_key_id = Some (u ''k''), mh_chip_id = 0x20, mh_flash_size = 0x400000,
          mh_target_layout = u (hex (sha256 [])),
          mh_components = [ex_component 2 0x20000 ''b'' [1, 2], ex_component 1 0x10000 ''a'' [3]]\<rparr>"
  by (simp add: manifest_header_of_def ex_bundle_def ex_manifest_def ex_signature_def ex_defs
      require_fields_def check_optional_text_def manifest_key_id_def mapping_of_def dget_def
      dget_default_def bounded_uint_def sha256_hex_digest MAX_COMPONENTS_def del: hex_simps)

lemma ex_load_component:
  assumes "0 < ident" "ident \<le> 255" "ident \<notin> set (ls_identifiers st)" "0 \<le> offset"
    "offset + int (length data) \<le> flash" "flash \<le> 0xFFFFFFFF" "offset mod 0x1000 = 0"
    "data \<noteq> []" "int (length data) \<le> int MAX_COMPONENT_BYTES" "u [c] \<notin> set (ls_filenames st)"
    "read_member ms (u [c]) = Inr data" "u [c] \<in> fst ` set ms" "c \<noteq> CHR ''.''" "c \<noteq> CHR ''/''"
  shows "load_component ms chip flash st (ex_component ident offset [c] data) =
    Inr (st\<lparr>ls_components := ls_components st @
        [\<lparr>sc_id = ident, sc_kind = DATA, sc_flags = 0, sc_target_offset = offset,
          sc_size = int (length data), sc_sha256 = sha256 data, sc_filename = u [c], sc_data = data\<rparr>],
      ls_identifiers := ls_identifiers st @ [ident], ls_filenames := ls_filenames st @ [u [c]]\<rparr>)"
proof -
  have name: "safe_member_name (JStr (u [c])) name = Inr (u [c])" for name
  proof -
    have "of_char c \<noteq> (0x2F :: nat)" "of_char c \<noteq> (0x2E :: nat)"
      using assms(13,14) of_char_eq_iff [of c "CHR ''/''", where 'a = nat]
        of_char_eq_iff [of c "CHR ''.''", where 'a = nat] by simp_all
    then show ?thesis by (simp add: safe_member_name_def path_parts_def is_absolute_def)
  qed
  have kind: "kind_of (jstr ''data'') = Inr DATA"
    using kind_names.of_code [of DATA] by (simp add: kind_of_def jstr_def kind_key_def)
  show ?thesis
    using assms(1-12) name kind
    by (simp add: load_component_def ex_component_def mapping_of_def require_fields_def item_def
        dget_def dget_default_def bounded_uint_def component_alignment_def sha256_hex_digest jstr_def
        del: hex_simps)
qed

lemma ex_components:
  "foldlr (load_component (map (\<lambda>i. (zi_filename i, i)) ex_infos) 0x20 0x400000)
     \<lparr>ls_components = [], ls_identifiers = [], ls_singletons = [],
      ls_filenames = [MANIFEST_NAME, SIGNATURE_NAME]\<rparr>
     [ex_component 2 0x20000 ''b'' [1, 2], ex_component 1 0x10000 ''a'' [3]] =
   Inr \<lparr>ls_components = sb_components ex_bundle, ls_identifiers = [2, 1], ls_singletons = [],
        ls_filenames = [MANIFEST_NAME, SIGNATURE_NAME, u ''b'', u ''a'']\<rparr>"
  by (simp add: ex_load_component read_member_def ex_infos_def ex_info_def ex_defs
      MAX_COMPONENT_BYTES_def ex_bundle_def)

lemma ex_loads:
  "load_system_update_bundle (\<lambda>_. Some ex_infos) (\<lambda>_. Some (ex_manifest ex_signature)) ex_crypto
     (FromBytes [0]) (Some [0]) = Inr ex_bundle"
proof -
  have key: "load_public_key ex_crypto [0] = Inr 0"
    by (simp add: load_public_key_def ex_crypto_def)
  have "utf8_decode_strict [0x7B] = Some [0x7B]"
    by (simp add: utf8_step_def utf8_start_def)
  then have parse: "parse_manifest (\<lambda>_. Some (ex_manifest ex_signature)) [0x7B] = Inr (ex_manifest ex_signature)"
    by (simp add: parse_manifest_def ex_strict)
  have mapping: "mapping_of (ex_manifest ex_signature) ''manifest'' = Inr (sb_manifest ex_bundle)"
    by (simp add: mapping_of_def ex_manifest_def ex_bundle_def)
  have checks: "check_components (sb_components ex_bundle) (u (hex (sha256 []))) = Inr ()"
    by (simp add: check_components_def ex_bundle_def of_kind_def region_def)
  have names: "list_all (\<lambda>m. fst m \<in> set [MANIFEST_NAME, SIGNATURE_NAME, u ''b'', u ''a''])
      (map (\<lambda>i. (zi_filename i, i)) ex_infos)"
    by (simp add: ex_infos_def ex_info_def)
  have source: "source_stream (FromBytes [0]) = Inr [0]"
    by (simp add: source_stream_def MAX_BUNDLE_BYTES_def)
  show ?thesis
    unfolding load_system_update_bundle_def source key bindr.simps option.case ex_members
      ex_authenticated prod.case parse mapping ex_header
    using ex_components checks names
    by (simp add: ex_bundle_def del: hex_simps)
qed

section \<open>Claims\<close>

text \<open>
  Claim C8. Whatever the ZIP reader, the JSON parser and the trust key do, a bundle that
  \<^verbatim>\<open>load_system_update_bundle\<close> returns is well formed: one to eight components with distinct
  non-zero identifiers and distinct files; each lies inside the target Flash at its alignment,
  has the size and the SHA-256 of its bytes, and, if it is an application or recovery image, an
  image header for the target chip; the Flash regions of any two components (not only of
  neighbours) are disjoint; the partition table covers one sector and is the one the layout
  digest names, a bootloader ends where it starts, a recovery image is alone; and the manifest
  digest is that of the manifest bytes.
\<close>

theorem load_bundle_well_formed:
  assumes "load_system_update_bundle zip_open json_parse cr src key = Inr b"
  shows "bundle_ok b"
  using assms
proof (rule load_bundle_cases)
  fix ms signature manifest manifest_bytes header st checked
  assume header: "manifest_header_of manifest signature = Inr header"
    and loop: "foldlr (load_component ms (mh_chip_id header) (mh_flash_size header))
      \<lparr>ls_components = [], ls_identifiers = [], ls_singletons = [],
       ls_filenames = MANIFEST_NAME # (if signature \<noteq> [] then [SIGNATURE_NAME] else [])\<rparr>
      (mh_components header) = Inr st"
    and checks: "check_components (ls_components st) (mh_target_layout header) = Inr checked"
    and b: "b = \<lparr>sb_manifest = manifest, sb_manifest_bytes = manifest_bytes,
       sb_signature = signature, sb_manifest_sha256 = sha256 manifest_bytes,
       sb_key_id = mh_key_id header, sb_signature_verified = (signature \<noteq> []),
       sb_chip_id = mh_chip_id header, sb_flash_size = mh_flash_size header,
       sb_target_layout_sha256 = mh_target_layout header, sb_components = ls_components st\<rparr>"
  note inv = load_components_inv [OF loop base_names_distinct, unfolded load_inv_def]
  have "list_all (\<lambda>c. 0 < sc_size c) (ls_components st)"
    "list_all (\<lambda>c. sc_sha256 c = sha256 (sc_data c)) (ls_components st)"
    using inv by (auto simp: list_all_iff component_ok_def)
  moreover have "\<not> adjacent_overlap (sort (map region (ls_components st)))"
    using checks by (auto simp: check_components_def Let_def bindr_eq_Inr raise_if_eq_Inr)
  ultimately have "sorted_wrt regions_disjoint (ls_components st)"
    "protected_ok (ls_components st) (mh_target_layout header)"
    using inv checks by (auto intro: no_overlap_pairwise check_components_protected)
  then show ?thesis
    using inv manifest_header_ok [OF header] load_components_length [OF loop]
    by (auto simp: bundle_ok_def b)
qed

text \<open>
  Claim C9. The trust policy: with a trust key, the loader returns a bundle only when the key is
  an ECDSA P-256 key under which the signature in the archive verifies the manifest bytes, and
  the bundle is marked as verified and names a key; without one it returns only bundles with no
  signature and no key, which are marked as not verified.
\<close>

theorem load_bundle_trust_policy:
  assumes "load_system_update_bundle zip_open json_parse cr src key = Inr b"
  shows "case key of
       None \<Rightarrow> sb_signature b = [] \<and> \<not> sb_signature_verified b \<and> sb_key_id b = None
     | Some pem \<Rightarrow> \<exists>k. cr_load_pem cr pem = Inr k \<and> cr_is_p256 cr k
         \<and> cr_verify cr k (sb_signature b) (sb_manifest_bytes b)
         \<and> sb_signature b \<noteq> [] \<and> sb_signature_verified b \<and> sb_key_id b \<noteq> None"
  using assms
proof (rule load_bundle_cases)
  fix public_key ms signature manifest manifest_bytes header st
  assume pk: "(case key of None \<Rightarrow> Inr None
      | Some data \<Rightarrow> bindr (load_public_key cr data) (\<lambda>key. Inr (Some key))) = Inr public_key"
    and auth: "authenticated_manifest cr public_key ms = Inr (manifest_bytes, signature)"
    and header: "manifest_header_of manifest signature = Inr header"
    and b: "b = \<lparr>sb_manifest = manifest, sb_manifest_bytes = manifest_bytes,
       sb_signature = signature, sb_manifest_sha256 = sha256 manifest_bytes,
       sb_key_id = mh_key_id header, sb_signature_verified = (signature \<noteq> []),
       sb_chip_id = mh_chip_id header, sb_flash_size = mh_flash_size header,
       sb_target_layout_sha256 = mh_target_layout header, sb_components = ls_components st\<rparr>"
  have loaded: "cr_load_pem cr pem = Inr k \<and> cr_is_p256 cr k" if "load_public_key cr pem = Inr k" for pem k
    using that by (auto simp: load_public_key_def split: sum.splits exn.splits if_splits)
  have policy: "(signature = []) = (public_key = None)"
    "\<And>k. public_key = Some k \<Longrightarrow> cr_verify cr k signature manifest_bytes"
    using auth by (auto simp: authenticated_manifest_def bindr_eq_Inr raise_if_eq_Inr)
  show ?thesis
  proof (cases key)
    case None
    with pk policy manifest_header_ok(5) [OF header] show ?thesis by (simp add: b)
  next
    case (Some pem)
    with pk obtain k where "load_public_key cr pem = Inr k" "public_key = Some k"
      by (auto simp: bindr_eq_Inr)
    with Some policy loaded manifest_header_ok(5) [OF header] show ?thesis by (auto simp: b)
  qed
qed

theorem load_bundle_well_formed_witness: "bundle_ok ex_bundle"
  by (rule load_bundle_well_formed [OF ex_loads])

theorem load_bundle_trust_policy_witness:
  "\<exists>k. cr_load_pem ex_crypto [0] = Inr k \<and> cr_is_p256 ex_crypto k
     \<and> cr_verify ex_crypto k (sb_signature ex_bundle) (sb_manifest_bytes ex_bundle)
     \<and> sb_signature ex_bundle \<noteq> [] \<and> sb_signature_verified ex_bundle \<and> sb_key_id ex_bundle \<noteq> None"
  using load_bundle_trust_policy [OF ex_loads] by simp

end
