(* ===== verification/Device_IO.thy ===== *)
theory Device_IO
  imports Framing
begin

text \<open>
  Coroutines that talk to a device. The clients of a session (\<^verbatim>\<open>files.py\<close>,
  \<^verbatim>\<open>system_update_transport.py\<close>, the OTA part of \<^verbatim>\<open>session.py\<close>) await one reply per request;
  what the device, the link and the clock do is a script of replies, each a frame or the
  exception the await raises, and every theorem holds for every script. A client run returns,
  raises, or is blocked because the script has no further reply. The log records each request
  with its reply and each progress notification.
\<close>

record request =
  rq_channel :: nat
  rq_type :: nat
  rq_payload :: bytes
  rq_stream :: nat

datatype (dead 'p) event = Exchange request "frame res" | Notify 'p

record 'p world =
  w_replies :: "frame res list"
  w_log :: "'p event list"

datatype (dead 'a) outcome = Returned 'a | Raised exn | Blocked

type_synonym ('p, 'a) io = "'p world \<Rightarrow> 'a outcome \<times> 'p world"

definition ret :: "'a \<Rightarrow> ('p, 'a) io" where
  "ret x w = (Returned x, w)"

definition throw :: "exn \<Rightarrow> ('p, 'a) io" where
  "throw e w = (Raised e, w)"

definition lift_res :: "'a res \<Rightarrow> ('p, 'a) io" where
  "lift_res r = (case r of Inr x \<Rightarrow> ret x | Inl e \<Rightarrow> throw e)"

definition throw_if :: "bool \<Rightarrow> exn \<Rightarrow> ('p, unit) io" where
  "throw_if c e = (if c then throw e else ret ())"

definition bindio :: "('p, 'a) io \<Rightarrow> ('a \<Rightarrow> ('p, 'b) io) \<Rightarrow> ('p, 'b) io" where
  "bindio m f w =
     (case m w of
        (Returned x, w') \<Rightarrow> f x w'
      | (Raised e, w') \<Rightarrow> (Raised e, w')
      | (Blocked, w') \<Rightarrow> (Blocked, w'))"

text \<open>\<^verbatim>\<open>try: m except ...: h\<close>; the handler throws again what it does not catch.\<close>

definition catch :: "('p, 'a) io \<Rightarrow> (exn \<Rightarrow> ('p, 'a) io) \<Rightarrow> ('p, 'a) io" where
  "catch m h w =
     (case m w of
        (Raised e, w') \<Rightarrow> h e w'
      | (out, w') \<Rightarrow> (out, w'))"

text \<open>\<^verbatim>\<open>with contextlib.suppress(Exception): m\<close>.\<close>

definition suppress :: "('p, 'a) io \<Rightarrow> ('p, unit) io" where
  "suppress m =
     catch (bindio m (\<lambda>_. ret ())) (\<lambda>e. if is_exception e then ret () else throw e)"

text \<open>\<^verbatim>\<open>try: m finally: c\<close>; an exception of the clean-up replaces the outcome.\<close>

definition finally_io :: "('p, 'a) io \<Rightarrow> ('p, unit) io \<Rightarrow> ('p, 'a) io" where
  "finally_io m c w =
     (case m w of
        (Returned x, w') \<Rightarrow> bindio c (\<lambda>_. ret x) w'
      | (Raised e, w') \<Rightarrow> bindio c (\<lambda>_. throw e) w'
      | (Blocked, w') \<Rightarrow> (Blocked, w'))"

text \<open>\<^verbatim>\<open>try: m except BaseException: c; raise\<close>.\<close>

definition on_raise :: "('p, 'a) io \<Rightarrow> ('p, unit) io \<Rightarrow> ('p, 'a) io" where
  "on_raise m c = catch m (\<lambda>e. bindio c (\<lambda>_. throw e))"

definition ask :: "request \<Rightarrow> ('p, frame) io" where
  "ask r w =
     (case w_replies w of
        [] \<Rightarrow> (Blocked, w)
      | reply # rest \<Rightarrow>
          ((case reply of Inr f \<Rightarrow> Returned f | Inl e \<Rightarrow> Raised e),
           w\<lparr>w_replies := rest, w_log := w_log w @ [Exchange r reply]\<rparr>))"

text \<open>\<^verbatim>\<open>try: await request(...) except (asyncio.TimeoutError, TimeoutError): ...\<close>: the reply, or
  \<open>None\<close> where the source continues in its handler.\<close>

definition try_ask :: "request \<Rightarrow> ('p, frame option) io" where
  "try_ask r =
     catch (bindio (ask r) (\<lambda>f. ret (Some f))) (\<lambda>e. if is_timeout e then ret None else throw e)"

text \<open>A progress callback: absent, or a function that may raise.\<close>

type_synonym 'p callback = "('p \<Rightarrow> exn option) option"

definition notify :: "'p callback \<Rightarrow> 'p \<Rightarrow> ('p, unit) io" where
  "notify cb p w =
     (case cb of
        None \<Rightarrow> (Returned (), w)
      | Some g \<Rightarrow>
          ((case g p of None \<Rightarrow> Returned () | Some e \<Rightarrow> Raised e),
           w\<lparr>w_log := w_log w @ [Notify p]\<rparr>))"

section \<open>Congruence rules and unfolding\<close>

lemma bindio_cong [fundef_cong]:
  assumes "m w = m' w'" and "\<And>x v. m' w' = (Returned x, v) \<Longrightarrow> f x v = g x v"
  shows "bindio m f w = bindio m' g w'"
  using assms by (simp add: bindio_def split: prod.split outcome.split)

lemma catch_cong [fundef_cong]:
  assumes "m w = m' w'" and "\<And>e v. m' w' = (Raised e, v) \<Longrightarrow> h e v = k e v"
  shows "catch m h w = catch m' k w'"
  using assms by (simp add: catch_def split: prod.split outcome.split)

lemma bindio_ret [simp]: "bindio (ret x) f = f x"
  by (rule ext) (simp add: bindio_def ret_def)

lemma bindio_throw [simp]: "bindio (throw e) f = throw e"
  by (rule ext) (simp add: bindio_def throw_def)

lemma lift_res_simps [simp]: "lift_res (Inr x) = ret x" "lift_res (Inl e) = throw e"
  by (simp_all add: lift_res_def)

lemma throw_if_simps [simp]: "throw_if True e = throw e" "throw_if False e = ret ()"
  by (simp_all add: throw_if_def)

lemma bindio_Returned:
  "bindio m f w = (Returned y, v) \<longleftrightarrow> (\<exists>x u. m w = (Returned x, u) \<and> f x u = (Returned y, v))"
  by (auto simp: bindio_def split: prod.split outcome.split)

lemma bindio_Raised:
  "bindio m f w = (Raised e, v) \<longleftrightarrow>
     m w = (Raised e, v) \<or> (\<exists>x u. m w = (Returned x, u) \<and> f x u = (Raised e, v))"
  by (auto simp: bindio_def split: prod.split outcome.split)

lemma ret_eq [simp]: "ret x w = (out, v) \<longleftrightarrow> out = Returned x \<and> v = w"
  by (auto simp: ret_def)

lemma throw_eq [simp]: "throw e w = (out, v) \<longleftrightarrow> out = Raised e \<and> v = w"
  by (auto simp: throw_def)

lemma throw_if_Returned [simp]: "throw_if c e w = (Returned u, v) \<longleftrightarrow> \<not> c \<and> v = w"
  by (auto simp: throw_if_def)

lemma throw_if_Raised [simp]: "throw_if c e w = (Raised e', v) \<longleftrightarrow> c \<and> e' = e \<and> v = w"
  by (auto simp: throw_if_def)

lemma lift_res_Returned [simp]: "lift_res r w = (Returned x, v) \<longleftrightarrow> r = Inr x \<and> v = w"
  by (cases r) auto

lemma lift_res_Raised [simp]: "lift_res r w = (Raised e, v) \<longleftrightarrow> r = Inl e \<and> v = w"
  by (cases r) auto

lemma ask_Returned:
  "ask r w = (Returned f, v) \<longleftrightarrow>
     (\<exists>rest. w_replies w = Inr f # rest
        \<and> v = w\<lparr>w_replies := rest, w_log := w_log w @ [Exchange r (Inr f)]\<rparr>)"
  by (auto simp: ask_def split: list.split sum.split)

lemma ask_Raised:
  "ask r w = (Raised e, v) \<longleftrightarrow>
     (\<exists>rest. w_replies w = Inl e # rest
        \<and> v = w\<lparr>w_replies := rest, w_log := w_log w @ [Exchange r (Inl e)]\<rparr>)"
  by (auto simp: ask_def split: list.split sum.split)

lemma try_ask_Returned:
  "try_ask r w = (Returned reply, v) \<longleftrightarrow>
     (\<exists>a rest. w_replies w = a # rest
        \<and> v = w\<lparr>w_replies := rest, w_log := w_log w @ [Exchange r a]\<rparr>
        \<and> (case reply of Some f \<Rightarrow> a = Inr f | None \<Rightarrow> \<exists>e. a = Inl e \<and> is_timeout e))"
  by (auto simp: try_ask_def catch_def bindio_def ask_def ret_def throw_def
      split: list.split sum.split option.split)

lemma notify_Some_Returned:
  "notify (Some g) p w = (Returned y, v) \<longleftrightarrow> g p = None \<and> v = w\<lparr>w_log := w_log w @ [Notify p]\<rparr>"
  by (auto simp: notify_def split: option.splits)

lemmas io_returned = bindio_Returned ask_Returned lift_res_Returned throw_if_Returned ret_eq
  outcome.inject notify_Some_Returned

lemma on_raise_Returned: "on_raise m c w = (Returned x, v) \<longleftrightarrow> m w = (Returned x, v)"
  by (auto simp: on_raise_def catch_def bindio_def throw_def split: prod.splits outcome.splits)

lemma on_raise_Raised:
  fixes m :: "('p, 'a) io"
  shows "on_raise m c w = (Raised e, v) \<longleftrightarrow>
     (\<exists>e' u'. m w = (Raised e', u') \<and> bindio c (\<lambda>_. throw e' :: ('p, 'a) io) u' = (Raised e, v))"
  by (auto simp: on_raise_def catch_def split: prod.splits outcome.splits)

text \<open>Execution on a given script.\<close>

lemma run_ask:
  "ask r \<lparr>w_replies = Inr f # rest, w_log = l\<rparr> =
     (Returned f, \<lparr>w_replies = rest, w_log = l @ [Exchange r (Inr f)]\<rparr>)"
  "ask r \<lparr>w_replies = Inl e # rest, w_log = l\<rparr> =
     (Raised e, \<lparr>w_replies = rest, w_log = l @ [Exchange r (Inl e)]\<rparr>)"
  by (simp_all add: ask_def)

lemma run_bind:
  "m w = (Returned x, v) \<Longrightarrow> bindio m f w = f x v"
  "m w = (Raised e, v) \<Longrightarrow> bindio m f w = (Raised e, v)"
  by (simp_all add: bindio_def)

lemma run_bind_ask:
  "bindio (ask r) k \<lparr>w_replies = Inr f # rest, w_log = l\<rparr> =
     k f \<lparr>w_replies = rest, w_log = l @ [Exchange r (Inr f)]\<rparr>"
  "bindio (ask r) k \<lparr>w_replies = Inl e # rest, w_log = l\<rparr> =
     (Raised e, \<lparr>w_replies = rest, w_log = l @ [Exchange r (Inl e)]\<rparr>)"
  by (simp_all add: run_bind run_ask)

lemma run_ret: "ret x w = (Returned x, w)"
  by (simp add: ret_def)

lemma run_throw: "throw e w = (Raised e, w)"
  by (simp add: throw_def)

lemma run_notify:
  "bindio (notify (Some (\<lambda>_. None)) p) k \<lparr>w_replies = rs, w_log = l\<rparr> =
     k () \<lparr>w_replies = rs, w_log = l @ [Notify p]\<rparr>"
  "bindio (notify None p) k w = k () w"
  by (simp_all add: bindio_def notify_def)

lemma run_suppress_ask:
  "suppress (ask r) \<lparr>w_replies = Inr f # rest, w_log = l\<rparr> =
     (Returned (), \<lparr>w_replies = rest, w_log = l @ [Exchange r (Inr f)]\<rparr>)"
  "bindio (suppress (ask r)) k \<lparr>w_replies = Inr f # rest, w_log = l\<rparr> =
     k () \<lparr>w_replies = rest, w_log = l @ [Exchange r (Inr f)]\<rparr>"
  by (simp_all add: bindio_def suppress_def catch_def run_ask run_ret)

lemma bindio_assoc: "bindio (bindio m f) g = bindio m (\<lambda>x. bindio (f x) g)"
  by (rule ext) (simp add: bindio_def split: prod.split outcome.split)

lemma run_bind_pair:
  "bindio (Pair (Returned x)) f = f x" "bindio (Pair (Raised e)) f = throw e"
  by (rule ext, simp add: bindio_def throw_def)+

lemmas run_simps = run_bind_pair bindio_assoc run_ask run_bind_ask run_ret run_throw run_notify run_suppress_ask

section \<open>What a run consumes and what it logs\<close>

text \<open>
  \<open>emits P m\<close>: a run of \<open>m\<close> never gains replies, only appends to the log, and every appended
  event satisfies \<open>P\<close>. The rules follow the combinators.
\<close>

definition emits :: "('p event \<Rightarrow> bool) \<Rightarrow> ('p, 'a) io \<Rightarrow> bool" where
  "emits P m \<longleftrightarrow>
     (\<forall>w out v. m w = (out, v) \<longrightarrow> length (w_replies v) \<le> length (w_replies w)
        \<and> (\<exists>l. w_log v = w_log w @ l \<and> list_all P l))"

named_theorems emits_intros \<open>rules for what a coroutine logs\<close>

lemma emitsI:
  assumes "\<And>w out v. m w = (out, v) \<Longrightarrow> length (w_replies v) \<le> length (w_replies w)
    \<and> (\<exists>l. w_log v = w_log w @ l \<and> list_all P l)"
  shows "emits P m"
  using assms unfolding emits_def by blast

lemma emitsD:
  assumes "emits P m" and "m w = (out, v)"
  obtains l where "w_log v = w_log w @ l" "list_all P l" "length (w_replies v) \<le> length (w_replies w)"
  using assms unfolding emits_def by blast

lemma emits_ret [emits_intros]: "emits P (ret x)"
  by (rule emitsI) simp

lemma emits_throw [emits_intros]: "emits P (throw e)"
  by (rule emitsI) simp

lemma emits_lift_res [emits_intros]: "emits P (lift_res r)"
  by (cases r) (simp_all add: emits_intros)

lemma emits_throw_if [emits_intros]: "emits P (throw_if c e)"
  by (simp add: throw_if_def emits_intros)

lemma emits_ask [emits_intros]:
  assumes "\<And>reply. P (Exchange r reply)"
  shows "emits P (ask r)"
  using assms by (intro emitsI) (auto simp: ask_def split: list.splits)

lemma emits_notify [emits_intros]:
  assumes "P (Notify p)"
  shows "emits P (notify cb p)"
  using assms by (intro emitsI) (auto simp: notify_def split: option.splits)

lemma emits_one:
  assumes "emits P m" and "m w = (out, v)"
  shows "length (w_replies v) \<le> length (w_replies w) \<and> (\<exists>l. w_log v = w_log w @ l \<and> list_all P l)"
  using assms unfolding emits_def by blast

lemma emits_seq:
  assumes "emits P m" and "m w = (out, u)"
    and "k u = (out', v)" and "emits P k"
  shows "length (w_replies v) \<le> length (w_replies w) \<and> (\<exists>l. w_log v = w_log w @ l \<and> list_all P l)"
proof -
  obtain l where l: "w_log u = w_log w @ l" "list_all P l" "length (w_replies u) \<le> length (w_replies w)"
    using assms(1,2) by (rule emitsD)
  obtain l' where l': "w_log v = w_log u @ l'" "list_all P l'"
    "length (w_replies v) \<le> length (w_replies u)"
    using assms(4,3) by (rule emitsD)
  show ?thesis
    using l l' by (intro conjI exI [of _ "l @ l'"]) auto
qed

lemma emits_bindio [emits_intros]:
  assumes "emits P m" and "\<And>x. emits P (f x)"
  shows "emits P (bindio m f)"
proof (rule emitsI)
  fix w out v assume run: "bindio m f w = (out, v)"
  obtain o' u where m: "m w = (o', u)" by fastforce
  show "length (w_replies v) \<le> length (w_replies w) \<and> (\<exists>l. w_log v = w_log w @ l \<and> list_all P l)"
  proof (cases o')
    case (Returned x)
    with run m have "f x u = (out, v)" by (simp add: bindio_def)
    then show ?thesis by (rule emits_seq [OF assms(1) m _ assms(2)])
  next
    case (Raised e)
    with run m have "v = u" by (simp add: bindio_def)
    then show ?thesis using emits_one [OF assms(1) m] by simp
  next
    case Blocked
    with run m have "v = u" by (simp add: bindio_def)
    then show ?thesis using emits_one [OF assms(1) m] by simp
  qed
qed

lemma emits_catch [emits_intros]:
  assumes "emits P m" and "\<And>e. emits P (h e)"
  shows "emits P (catch m h)"
proof (rule emitsI)
  fix w out v assume run: "catch m h w = (out, v)"
  obtain o' u where m: "m w = (o', u)" by fastforce
  show "length (w_replies v) \<le> length (w_replies w) \<and> (\<exists>l. w_log v = w_log w @ l \<and> list_all P l)"
  proof (cases o')
    case (Raised e)
    with run m have "h e u = (out, v)" by (simp add: catch_def)
    then show ?thesis by (rule emits_seq [OF assms(1) m _ assms(2)])
  next
    case (Returned x)
    with run m have "v = u" by (simp add: catch_def)
    then show ?thesis using emits_one [OF assms(1) m] by simp
  next
    case Blocked
    with run m have "v = u" by (simp add: catch_def)
    then show ?thesis using emits_one [OF assms(1) m] by simp
  qed
qed

lemma emits_if [emits_intros]:
  "(c \<Longrightarrow> emits P m) \<Longrightarrow> (\<not> c \<Longrightarrow> emits P n) \<Longrightarrow> emits P (if c then m else n)"
  by simp

lemma emits_suppress [emits_intros]: "emits P m \<Longrightarrow> emits P (suppress m)"
  unfolding suppress_def by (intro emits_intros) auto

lemma emits_on_raise [emits_intros]: "emits P m \<Longrightarrow> emits P c \<Longrightarrow> emits P (on_raise m c)"
  unfolding on_raise_def by (intro emits_intros)

lemma emits_try_ask [emits_intros]:
  assumes "\<And>reply. P (Exchange r reply)"
  shows "emits P (try_ask r)"
  unfolding try_ask_def using assms by (intro emits_intros)

lemma emits_finally [emits_intros]:
  assumes "emits P m" and "emits P c"
  shows "emits P (finally_io m c)"
proof (rule emitsI)
  fix w out v assume run: "finally_io m c w = (out, v)"
  obtain o' u where m: "m w = (o', u)" by fastforce
  show "length (w_replies v) \<le> length (w_replies w) \<and> (\<exists>l. w_log v = w_log w @ l \<and> list_all P l)"
  proof (cases o')
    case (Returned x)
    with run m have "bindio c (\<lambda>_. ret x) u = (out, v)" by (simp add: finally_io_def)
    then show ?thesis by (rule emits_seq [OF assms(1) m _ emits_bindio [OF assms(2) emits_ret]])
  next
    case (Raised e)
    with run m have "bindio c (\<lambda>_. throw e :: ('a, 'b) io) u = (out, v)" by (simp add: finally_io_def)
    then show ?thesis by (rule emits_seq [OF assms(1) m _ emits_bindio [OF assms(2) emits_throw]])
  next
    case Blocked
    with run m have "v = u" by (simp add: finally_io_def)
    then show ?thesis using emits_one [OF assms(1) m] by simp
  qed
qed

lemma emits_mono: "emits P m \<Longrightarrow> (\<And>x. P x \<Longrightarrow> Q x) \<Longrightarrow> emits Q m"
  unfolding emits_def by (meson list.pred_mono_strong)

text \<open>Requests consume the script, which bounds every loop that sends one per iteration.\<close>

lemma ask_consumes: "ask r w = (out, v) \<Longrightarrow> out \<noteq> Blocked \<Longrightarrow> length (w_replies v) < length (w_replies w)"
  by (auto simp: ask_def split: list.splits)

lemma notify_replies: "notify cb p w = (out, v) \<Longrightarrow> w_replies v = w_replies w"
  by (auto simp: notify_def split: option.splits)

section \<open>What the log of one run satisfies\<close>

text \<open>
  \<open>run_log m w Q\<close>: the run of \<open>m\<close> from \<open>w\<close> appends to the log, and \<open>Q\<close> holds of its outcome and
  of the events it appended. The rules compute it along the combinators.
\<close>

definition run_log :: "('p, 'a) io \<Rightarrow> 'p world \<Rightarrow> ('a outcome \<Rightarrow> 'p event list \<Rightarrow> bool) \<Rightarrow> bool" where
  "run_log m w Q \<longleftrightarrow> (\<exists>l. w_log (snd (m w)) = w_log w @ l \<and> Q (fst (m w)) l)"

lemma run_log_mono:
  "run_log m w P \<Longrightarrow> (\<And>x v l. m w = (x, v) \<Longrightarrow> w_log v = w_log w @ l \<Longrightarrow> P x l \<Longrightarrow> Q x l) \<Longrightarrow>
   run_log m w Q"
  unfolding run_log_def by (metis prod.collapse)

lemma run_logD:
  assumes "run_log m w Q" and "m w = (out, v)"
  obtains l where "w_log v = w_log w @ l" and "Q out l"
  using assms unfolding run_log_def by auto

lemma run_log_ret: "Q (Returned x) [] \<Longrightarrow> run_log (ret x) w Q"
  by (simp add: run_log_def ret_def)

lemma run_log_throw: "Q (Raised e) [] \<Longrightarrow> run_log (throw e) w Q"
  by (simp add: run_log_def throw_def)

lemma run_log_lift_res:
  assumes "\<And>x. r = Inr x \<Longrightarrow> Q (Returned x) []" and "\<And>e. r = Inl e \<Longrightarrow> Q (Raised e) []"
  shows "run_log (lift_res r) w Q"
  using assms by (cases r) (auto intro: run_log_ret run_log_throw)

lemma run_log_throw_if:
  assumes "\<not> c \<Longrightarrow> Q (Returned ()) []" and "c \<Longrightarrow> Q (Raised e) []"
  shows "run_log (throw_if c e) w Q"
  using assms by (cases c) (auto intro: run_log_ret run_log_throw)

lemma run_log_ask:
  assumes "\<And>f. Q (Returned f) [Exchange r (Inr f)]" and "\<And>e. Q (Raised e) [Exchange r (Inl e)]"
    and "Q Blocked []"
  shows "run_log (ask r) w Q"
  using assms by (auto simp: run_log_def ask_def split: list.split sum.split)

lemma run_log_notify:
  assumes "\<And>l. l = [] \<or> l = [Notify p] \<Longrightarrow> Q (Returned ()) l" and "\<And>e. Q (Raised e) [Notify p]"
  shows "run_log (notify cb p) w Q"
  using assms by (auto simp: run_log_def notify_def split: option.split)

lemma run_log_bindio:
  assumes "run_log m w P"
    and "\<And>x l v. m w = (Returned x, v) \<Longrightarrow> P (Returned x) l \<Longrightarrow> run_log (f x) v (\<lambda>out l'. Q out (l @ l'))"
    and "\<And>e l. P (Raised e) l \<Longrightarrow> Q (Raised e) l" and "\<And>l. P Blocked l \<Longrightarrow> Q Blocked l"
  shows "run_log (bindio m f) w Q"
proof -
  obtain out v where m: "m w = (out, v)" by fastforce
  obtain l where l: "w_log v = w_log w @ l" "P out l" using assms(1) m by (rule run_logD)
  show ?thesis
  proof (cases out)
    case (Returned x)
    obtain out' v' where f: "f x v = (out', v')" by fastforce
    obtain l' where "w_log v' = w_log v @ l'" "Q out' (l @ l')"
      using assms(2) [of x v l] m l Returned f by (auto elim: run_logD)
    with m l Returned f show ?thesis
      by (auto simp: run_log_def bindio_def)
  next
    case (Raised e)
    with m l assms(3) show ?thesis by (auto simp: run_log_def bindio_def)
  next
    case Blocked
    with m l assms(4) show ?thesis by (auto simp: run_log_def bindio_def)
  qed
qed

lemma run_log_catch:
  assumes "run_log m w P"
    and "\<And>e l v. m w = (Raised e, v) \<Longrightarrow> P (Raised e) l \<Longrightarrow> run_log (h e) v (\<lambda>out l'. Q out (l @ l'))"
    and "\<And>x l. P (Returned x) l \<Longrightarrow> Q (Returned x) l" and "\<And>l. P Blocked l \<Longrightarrow> Q Blocked l"
  shows "run_log (catch m h) w Q"
proof -
  obtain out v where m: "m w = (out, v)" by fastforce
  obtain l where l: "w_log v = w_log w @ l" "P out l" using assms(1) m by (rule run_logD)
  show ?thesis
  proof (cases out)
    case (Raised e)
    obtain out' v' where f: "h e v = (out', v')" by fastforce
    obtain l' where "w_log v' = w_log v @ l'" "Q out' (l @ l')"
      using assms(2) [of e v l] m l Raised f by (auto elim: run_logD)
    with m l Raised f show ?thesis
      by (auto simp: run_log_def catch_def)
  next
    case (Returned x)
    with m l assms(3) show ?thesis by (auto simp: run_log_def catch_def)
  next
    case Blocked
    with m l assms(4) show ?thesis by (auto simp: run_log_def catch_def)
  qed
qed

lemma run_log_bind_lift:
  assumes "\<And>x. r = Inr x \<Longrightarrow> run_log (f x) w Q" and "\<And>e. Q (Raised e) []"
  shows "run_log (bindio (lift_res r) f) w Q"
  using assms by (cases r) (auto intro: run_log_throw)

lemma run_log_bind_throw_if:
  assumes "\<not> c \<Longrightarrow> run_log (f ()) w Q" and "Q (Raised e) []"
  shows "run_log (bindio (throw_if c e) f) w Q"
  using assms by (cases c) (auto intro: run_log_throw)

lemma run_log_emits: "emits P m \<Longrightarrow> run_log m w (\<lambda>out l. list_all P l)"
  unfolding emits_def run_log_def by (metis prod.collapse)

section \<open>Runs that succeed\<close>

text \<open>\<open>succeeds m rs x\<close>: whenever the script starts with the replies \<open>rs\<close>, \<open>m\<close> consumes just these
  and returns \<open>x\<close>.\<close>

definition succeeds :: "('p, 'a) io \<Rightarrow> frame res list \<Rightarrow> 'a \<Rightarrow> bool" where
  "succeeds m rs x \<longleftrightarrow>
     (\<forall>w rest. w_replies w = rs @ rest \<longrightarrow> (\<exists>v. m w = (Returned x, v) \<and> w_replies v = rest))"

named_theorems succeeds_intros \<open>rules for successful runs\<close>

lemma succeeds_ret [succeeds_intros]: "succeeds (ret x) [] x"
  by (simp add: succeeds_def)

lemma succeeds_ask [succeeds_intros]: "succeeds (ask r) [Inr f] f"
  by (simp add: succeeds_def ask_def)

lemma succeeds_try_ask [succeeds_intros]: "succeeds (try_ask r) [Inr f] (Some f)"
  by (auto simp: succeeds_def try_ask_Returned)

lemma succeeds_lift [succeeds_intros]: "r = Inr x \<Longrightarrow> succeeds (lift_res r) [] x"
  by (simp add: succeeds_def)

lemma succeeds_throw_if [succeeds_intros]: "\<not> c \<Longrightarrow> succeeds (throw_if c e) [] ()"
  by (simp add: succeeds_def)

lemma succeeds_bind [succeeds_intros]:
  assumes "succeeds m rs x" and "succeeds (f x) rs' y"
  shows "succeeds (bindio m f) (rs @ rs') y"
  unfolding succeeds_def
proof (intro allI impI)
  fix w :: "'a world" and rest assume w: "w_replies w = (rs @ rs') @ rest"
  then obtain v where v: "m w = (Returned x, v)" "w_replies v = rs' @ rest"
    using assms(1) [unfolded succeeds_def, rule_format, of w "rs' @ rest"] by auto
  then obtain v' where "f x v = (Returned y, v')" "w_replies v' = rest"
    using assms(2) [unfolded succeeds_def, rule_format, of v rest] by auto
  with v show "\<exists>v. bindio m f w = (Returned y, v) \<and> w_replies v = rest"
    by (simp add: bindio_def)
qed

lemma succeeds_bind_quiet:
  assumes "succeeds m [] x" and "succeeds (f x) rs y"
  shows "succeeds (bindio m f) rs y"
  using succeeds_bind [of m "[]" x f rs y] assms by simp

lemma succeeds_bind_cons:
  assumes "succeeds m [a] x" and "succeeds (f x) rs y"
  shows "succeeds (bindio m f) (a # rs) y"
  using succeeds_bind [of m "[a]" x f rs y] assms by simp

lemmas succeeds_bind_ask = succeeds_bind_cons [OF succeeds_ask]
lemmas succeeds_bind_try = succeeds_bind_cons [OF succeeds_try_ask]

lemma succeeds_catch [succeeds_intros]: "succeeds m rs x \<Longrightarrow> succeeds (catch m h) rs x"
  unfolding succeeds_def
proof (intro allI impI)
  fix w :: "'a world" and rest
  assume m: "\<forall>w rest. w_replies w = rs @ rest \<longrightarrow> (\<exists>v. m w = (Returned x, v) \<and> w_replies v = rest)"
    and w: "w_replies w = rs @ rest"
  then obtain v where "m w = (Returned x, v)" "w_replies v = rest" by blast
  then show "\<exists>v. catch m h w = (Returned x, v) \<and> w_replies v = rest" by (simp add: catch_def)
qed

lemma succeeds_on_raise [succeeds_intros]: "succeeds m rs x \<Longrightarrow> succeeds (on_raise m c) rs x"
  unfolding on_raise_def by (rule succeeds_catch)

text \<open>A callback that never raises.\<close>

definition callback_returns :: "'p callback \<Rightarrow> bool" where
  "callback_returns cb \<longleftrightarrow> (case cb of None \<Rightarrow> True | Some g \<Rightarrow> g = (\<lambda>_. None))"

lemma succeeds_notify [succeeds_intros]: "callback_returns cb \<Longrightarrow> succeeds (notify cb p) [] ()"
  by (auto simp: succeeds_def notify_def callback_returns_def split: option.splits)

lemma succeedsD:
  assumes "succeeds m rs x" and "w_replies w = rs"
  obtains v where "m w = (Returned x, v)" and "w_replies v = []"
  using assms(1) [unfolded succeeds_def, rule_format, of w "[]"] assms(2) that by auto

end
