(* ===== verification/System_Update_Transport.thy ===== *)
theory System_Update_Transport
  imports System_Update Device_IO
begin

text \<open>
  The update transaction of \<^verbatim>\<open>system_update_transport.py\<close>: begin, the components with their
  data chunks, commit, and cancellation of a transaction that fails. Requests go through
  \<open>ask\<close>; what \<^verbatim>\<open>wait_ready\<close> gives (the capabilities, or its exception) and the random
  identifier are arguments, and progress dictionaries are logged.
\<close>

section \<open>Status\<close>

datatype su_phase = SP_idle | SP_prepared | SP_receiving | SP_component_verified
  | SP_committing | SP_committed | SP_cancelled | SP_failed

primrec su_phase_code :: "su_phase \<Rightarrow> nat" where
  "su_phase_code SP_idle = 0"
| "su_phase_code SP_prepared = 1"
| "su_phase_code SP_receiving = 2"
| "su_phase_code SP_component_verified = 3"
| "su_phase_code SP_committing = 4"
| "su_phase_code SP_committed = 5"
| "su_phase_code SP_cancelled = 6"
| "su_phase_code SP_failed = 7"

definition su_phase_members :: "su_phase list" where
  "su_phase_members = [SP_idle, SP_prepared, SP_receiving, SP_component_verified,
     SP_committing, SP_committed, SP_cancelled, SP_failed]"

interpretation su_phase: value_enum su_phase_code su_phase_members
proof
  show "x \<in> set su_phase_members" for x
    by (cases x) (simp_all add: su_phase_members_def)
qed (simp add: su_phase_members_def)

record su_status =
  ss_operation_id :: string
  ss_job_id :: nat
  ss_phase :: su_phase
  ss_component_count :: nat
  ss_completed_components :: nat
  ss_active_component_id :: nat
  ss_bytes_received :: nat
  ss_bytes_total :: nat
  ss_result :: int

definition decode_system_update_status :: "bytes \<Rightarrow> su_status res" where
  "decode_system_update_status payload =
     bindr (raise_if (length payload \<noteq> 36)
              (ProtocolError ''invalid system-update status response'')) (\<lambda>_.
     let operation_id = take 16 payload;
         job_id = uint_at 4 16 payload;
         phase = uint_at 1 20 payload;
         component_count = uint_at 1 21 payload;
         completed_components = uint_at 1 22 payload;
         active_component_id = uint_at 1 23 payload
     in case enum_of su_phase_code su_phase_members phase of
          None \<Rightarrow> Inl (ProtocolError ''invalid system-update status fields'')
        | Some phase_name \<Rightarrow>
            bindr (raise_if (completed_components > component_count)
                     (ProtocolError ''invalid system-update status fields'')) (\<lambda>_.
            Inr \<lparr>ss_operation_id = hex operation_id, ss_job_id = job_id, ss_phase = phase_name,
                 ss_component_count = component_count,
                 ss_completed_components = completed_components,
                 ss_active_component_id = active_component_id,
                 ss_bytes_received = uint_at 4 24 payload, ss_bytes_total = uint_at 4 28 payload,
                 ss_result = sint_at 4 32 payload\<rparr>))"

definition su_request :: "system_update_type \<Rightarrow> bytes \<Rightarrow> request" where
  "su_request ty payload =
     \<lparr>rq_channel = channel_code Channel_SYSTEM_UPDATE, rq_type = system_update_type_code ty,
      rq_payload = payload, rq_stream = 0\<rparr>"

definition is_su_type :: "frame \<Rightarrow> system_update_type \<Rightarrow> bool" where
  "is_su_type f ty \<longleftrightarrow> fr_type f = int (system_update_type_code ty)"

definition system_update_status :: "(json, su_status) io" where
  "system_update_status =
     bindio (ask (su_request SystemUpdateType_STATUS [])) (\<lambda>frame.
     bindio (throw_if (\<not> is_su_type frame SystemUpdateType_STATUS_RESPONSE)
               (ProtocolError ''unexpected system-update status response'')) (\<lambda>_.
     lift_res (decode_system_update_status (fr_payload frame))))"

definition system_update_inventory :: "nat res \<Rightarrow> (json, json) io" where
  "system_update_inventory ready =
     bindio (lift_res ready) (\<lambda>capabilities.
     bindio (throw_if (\<not> has_capability capabilities Capability_SYSTEM_INVENTORY)
               (RuntimeError ''device does not advertise system-inventory support'')) (\<lambda>_.
     bindio (ask (su_request SystemUpdateType_INVENTORY [])) (\<lambda>frame.
     let payload = fr_payload frame in
     bindio (throw_if (\<not> is_su_type frame SystemUpdateType_INVENTORY_RESPONSE \<or> length payload \<noteq> 92)
               (ProtocolError ''unexpected system-update inventory response'')) (\<lambda>_.
     let flags = uint_at 4 0 payload;
         field = (\<lambda>n a b. jstr (if bit flags n then hex (pyslice a b payload) else ''''))
     in ret (JDict
          [item ''flags'' (jnat flags), item ''layout_version'' (jnat (uint_at 4 4 payload)),
           item ''bootloader_sha256'' (field 0 8 40), item ''partition_table_sha256'' (field 1 40 72),
           item ''last_operation_id'' (field 2 72 88),
           item ''last_result'' (JInt (sint_at 4 88 payload))])))))"

section \<open>The transaction\<close>

text \<open>What the device accepted at begin, and the totals of the bundle.\<close>

record su_job =
  sj_identifier :: bytes
  sj_job_id :: nat
  sj_chunk_size :: nat
  sj_component_count :: nat
  sj_total :: int

definition BYTES_RANGE :: exn where
  "BYTES_RANGE = ValueError ''bytes must be in range(0, 256)''"

definition su_begin_message :: "update_bundle \<Rightarrow> bytes \<Rightarrow> bytes res" where
  "su_begin_message b identifier =
     bindr (pack_uint StructError 2 (int (length (sb_manifest_bytes b)))) (\<lambda>m.
     bindr (pack_uint StructError 2 (int (length (sb_signature b)))) (\<lambda>s.
     bindr (pack_uint StructError 1 (int (length (sb_components b)))) (\<lambda>n.
     Inr (identifier @ m @ s @ n @ [0] @ [0, 0] @ sb_manifest_sha256 b @ sb_manifest_bytes b
          @ sb_signature b))))"

definition su_begin_request :: "update_bundle \<Rightarrow> bytes \<Rightarrow> bytes \<Rightarrow> (json, frame) io" where
  "su_begin_request b identifier begin =
     catch (ask (su_request SystemUpdateType_BEGIN begin)) (\<lambda>e.
       if is_timeout e then
         bindio system_update_status (\<lambda>status.
         bindio (throw_if (ss_operation_id status \<noteq> hex identifier
                   \<or> ss_phase status \<noteq> SP_prepared \<or> ss_completed_components status \<noteq> 0
                   \<or> ss_active_component_id status \<noteq> 0
                   \<or> ss_component_count status \<noteq> length (sb_components b))
                   (TimeoutError ''system-update begin timeout'')) (\<lambda>_.
         ask (su_request SystemUpdateType_BEGIN begin)))
       else throw e)"

definition su_accept :: "update_bundle \<Rightarrow> bytes \<Rightarrow> frame \<Rightarrow> su_job res" where
  "su_accept b identifier frame =
     (let payload = fr_payload frame in
      bindr (raise_if (\<not> is_su_type frame SystemUpdateType_BEGIN_RESPONSE \<or> length payload \<noteq> 24)
               (ProtocolError ''unexpected system-update begin response'')) (\<lambda>_.
      let returned_id = take 16 payload;
          job_id = uint_at 4 16 payload;
          chunk_size = uint_at 2 20 payload;
          component_count = uint_at 1 22 payload in
      bindr (raise_if (returned_id \<noteq> identifier \<or> job_id = 0 \<or> chunk_size = 0
                 \<or> component_count \<noteq> length (sb_components b))
               (ProtocolError ''invalid system-update begin response'')) (\<lambda>_.
      Inr \<lparr>sj_identifier = identifier, sj_job_id = job_id, sj_chunk_size = chunk_size,
           sj_component_count = component_count,
           sj_total = sum_list (map sc_size (sb_components b))\<rparr>)))"

definition su_descriptor :: "bytes \<Rightarrow> component \<Rightarrow> bytes res" where
  "su_descriptor identifier c =
     bindr (pack_uint BYTES_RANGE 1 (sc_id c)) (\<lambda>i.
     bindr (pack_uint StructError 2 (sc_flags c)) (\<lambda>f.
     bindr (pack_uint StructError 4 (sc_target_offset c)) (\<lambda>t.
     bindr (pack_uint StructError 4 (sc_size c)) (\<lambda>s.
     Inr (identifier @ i @ le_bytes 1 (kind_code (sc_kind c)) @ f @ t @ s @ sc_sha256 c)))))"

text \<open>The opening of a component gives the chunk size in effect.\<close>

definition su_open :: "su_job \<Rightarrow> component \<Rightarrow> (json, nat) io" where
  "su_open job c =
     bindio (lift_res (su_descriptor (sj_identifier job) c)) (\<lambda>descriptor.
     bindio (ask (su_request SystemUpdateType_COMPONENT_BEGIN descriptor)) (\<lambda>opened.
     let payload = fr_payload opened in
     bindio (throw_if (\<not> is_su_type opened SystemUpdateType_COMPONENT_BEGIN_RESPONSE
               \<or> length payload \<noteq> 24 \<or> take 16 payload \<noteq> sj_identifier job
               \<or> int (uint_at 1 16 payload) \<noteq> sc_id c
               \<or> uint_at 1 17 payload \<noteq> kind_code (sc_kind c))
               (ProtocolError ''invalid system-update component response'')) (\<lambda>_.
     let accepted_chunk = uint_at 2 18 payload;
         accepted_size = uint_at 4 20 payload in
     bindio (throw_if (accepted_chunk = 0 \<or> int accepted_size \<noteq> sc_size c)
               (ProtocolError ''device rejected system-update component bounds'')) (\<lambda>_.
     ret (min (sj_chunk_size job) accepted_chunk)))))"

definition su_data_message :: "bytes \<Rightarrow> component \<Rightarrow> nat \<Rightarrow> bytes \<Rightarrow> bytes res" where
  "su_data_message identifier c offset chunk =
     bindr (pack_uint BYTES_RANGE 1 (sc_id c)) (\<lambda>i.
     bindr (pack_uint StructError 4 (int offset)) (\<lambda>off.
     Inr (identifier @ i @ [0] @ [0, 0] @ off @ chunk)))"

definition su_progress :: "su_job \<Rightarrow> component \<Rightarrow> nat \<Rightarrow> int \<Rightarrow> nat \<Rightarrow> nat \<Rightarrow> json" where
  "su_progress job c component_index transferred offset progress =
     JDict
       [item ''stage'' (jstr ''transferring''), item ''job_id'' (jnat (sj_job_id job)),
        item ''operation_id'' (jstr (hex (sj_identifier job))),
        item ''component_id'' (JInt (sc_id c)),
        item ''component_kind'' (jstr (kind_name (sc_kind c))),
        item ''component_index'' (jnat component_index),
        item ''component_count'' (jnat (sj_component_count job)),
        item ''bytes_received'' (JInt (transferred + int offset)),
        item ''bytes_total'' (JInt (sj_total job)), item ''progress_permille'' (jnat progress)]"

text \<open>One iteration of the transfer loop: the next offset.\<close>

definition su_data_step ::
  "json callback \<Rightarrow> su_job \<Rightarrow> component \<Rightarrow> nat \<Rightarrow> int \<Rightarrow> nat \<Rightarrow> nat \<Rightarrow> (json, nat) io" where
  "su_data_step cb job c component_index transferred effective_chunk offset =
     (let chunk = pyslice offset (offset + effective_chunk) (sc_data c) in
      bindio (lift_res (su_data_message (sj_identifier job) c offset chunk)) (\<lambda>message.
      bindio (try_ask (su_request SystemUpdateType_DATA message)) (\<lambda>reply.
      case reply of
        None \<Rightarrow>
          bindio system_update_status (\<lambda>status.
          bindio (throw_if (ss_operation_id status \<noteq> hex (sj_identifier job)
                    \<or> int (ss_active_component_id status) \<noteq> sc_id c
                    \<or> ss_phase status \<noteq> SP_receiving)
                    (TimeoutError ''system-update data timeout'')) (\<lambda>_.
          let received = ss_bytes_received status in
          bindio (throw_if (received \<notin> set [offset, offset + length chunk])
                    (ProtocolError ''system update resumed at unexpected offset'')) (\<lambda>_.
          ret received)))
      | Some response \<Rightarrow>
          let payload = fr_payload response in
          bindio (throw_if (\<not> is_su_type response SystemUpdateType_DATA_RESPONSE
                    \<or> length payload \<noteq> 24 \<or> take 16 payload \<noteq> sj_identifier job
                    \<or> int (uint_at 1 16 payload) \<noteq> sc_id c \<or> uint_at 1 17 payload \<noteq> 0)
                    (ProtocolError ''invalid system-update data response'')) (\<lambda>_.
          let progress = uint_at 2 18 payload;
              received = uint_at 4 20 payload in
          bindio (throw_if (received \<noteq> offset + length chunk)
                    (ProtocolError ''invalid system-update committed offset'')) (\<lambda>_.
          bindio (notify cb (su_progress job c component_index transferred received progress)) (\<lambda>_.
          ret received))))))"

lemma su_data_step_consumes:
  assumes "su_data_step cb job c i t n offset w = (Returned x, v)"
  shows "length (w_replies v) < length (w_replies w)"
proof -
  have status: "length (w_replies v') \<le> length (w_replies w')"
    if "system_update_status w' = (Returned y, v')" for w' y v'
    using that by (auto simp: system_update_status_def bindio_Returned ask_Returned)
  show ?thesis
    using assms
    by (auto simp: su_data_step_def Let_def bindio_Returned try_ask_Returned split: option.splits
        dest!: notify_replies status)
qed

text \<open>\<^verbatim>\<open>while offset < component.size\<close>; every iteration awaits a reply.\<close>

function su_data_loop ::
  "json callback \<Rightarrow> su_job \<Rightarrow> component \<Rightarrow> nat \<Rightarrow> int \<Rightarrow> nat \<Rightarrow> nat \<Rightarrow> (json, unit) io" where
  "su_data_loop cb job c i transferred n offset w =
     (if int offset < sc_size c
      then bindio (su_data_step cb job c i transferred n offset)
             (su_data_loop cb job c i transferred n) w
      else ret () w)"
  by pat_completeness auto
termination
  by (relation "measure (\<lambda>(cb, job, c, i, t, n, offset, w). length (w_replies w))")
     (auto dest: su_data_step_consumes)

declare su_data_loop.simps [simp del]

definition su_close :: "su_job \<Rightarrow> component \<Rightarrow> nat \<Rightarrow> (json, unit) io" where
  "su_close job c component_index =
     bindio (lift_res (pack_uint BYTES_RANGE 1 (sc_id c))) (\<lambda>i.
     bindio (ask (su_request SystemUpdateType_COMPONENT_END (sj_identifier job @ i @ [0, 0, 0]))) (\<lambda>ended.
     let payload = fr_payload ended in
     throw_if (\<not> is_su_type ended SystemUpdateType_COMPONENT_END_RESPONSE
         \<or> length payload \<noteq> 24 \<or> take 16 payload \<noteq> sj_identifier job
         \<or> int (uint_at 1 16 payload) \<noteq> sc_id c \<or> uint_at 1 17 payload \<noteq> component_index + 1
         \<or> sint_at 4 20 payload \<noteq> 0)
       (ProtocolError ''invalid system-update component completion'')))"

definition su_component ::
  "json callback \<Rightarrow> su_job \<Rightarrow> nat \<Rightarrow> int \<Rightarrow> component \<Rightarrow> (json, unit) io" where
  "su_component cb job component_index transferred c =
     bindio (su_open job c) (\<lambda>effective_chunk.
     bindio (su_data_loop cb job c component_index transferred effective_chunk 0) (\<lambda>_.
     su_close job c component_index))"

fun su_components ::
  "json callback \<Rightarrow> su_job \<Rightarrow> nat \<Rightarrow> int \<Rightarrow> component list \<Rightarrow> (json, int) io" where
  "su_components cb job i transferred [] = ret transferred"
| "su_components cb job i transferred (c # cs) =
     bindio (su_component cb job i transferred c) (\<lambda>_.
     su_components cb job (Suc i) (transferred + sc_size c) cs)"

datatype su_evidence = Commit_response | Device_status | Session_close

primrec su_evidence_text :: "su_evidence \<Rightarrow> string" where
  "su_evidence_text Commit_response = ''commit_response''"
| "su_evidence_text Device_status = ''device_status''"
| "su_evidence_text Session_close = ''session_close''"

definition su_commit :: "su_job \<Rightarrow> (json, su_evidence \<times> frame option) io" where
  "su_commit job =
     catch (bindio (ask (su_request SystemUpdateType_COMMIT (sj_identifier job)))
              (\<lambda>committed. ret (Commit_response, Some committed))) (\<lambda>e.
       if is_timeout e then
         bindio system_update_status (\<lambda>status.
         bindio (throw_if (ss_operation_id status \<noteq> hex (sj_identifier job)
                   \<or> ss_phase status \<noteq> SP_committed \<or> ss_result status \<noteq> 0)
                   (TimeoutError ''system-update commit timeout'')) (\<lambda>_.
         ret (Device_status, None)))
       else if is_os_error e then ret (Session_close, None)
       else throw e)"

definition su_committing :: "su_job \<Rightarrow> int \<Rightarrow> json" where
  "su_committing job transferred =
     JDict
       [item ''stage'' (jstr ''committing''), item ''job_id'' (jnat (sj_job_id job)),
        item ''operation_id'' (jstr (hex (sj_identifier job))),
        item ''bytes_received'' (JInt transferred), item ''bytes_total'' (JInt (sj_total job)),
        item ''progress_permille'' (jnat 950)]"

text \<open>The body of the \<^verbatim>\<open>try\<close> whose failure cancels the transaction.\<close>

definition su_transfer ::
  "json callback \<Rightarrow> su_job \<Rightarrow> update_bundle \<Rightarrow> (json, int \<times> su_evidence \<times> frame option) io" where
  "su_transfer cb job b =
     bindio (su_components cb job 0 0 (sb_components b)) (\<lambda>transferred.
     bindio (notify cb (su_committing job transferred)) (\<lambda>_.
     bindio (su_commit job) (\<lambda>committed.
     ret (transferred, committed))))"

definition su_check_commit :: "su_job \<Rightarrow> frame option \<Rightarrow> unit res" where
  "su_check_commit job committed =
     (case committed of
        None \<Rightarrow> Inr ()
      | Some frame \<Rightarrow>
          let payload = fr_payload frame in
          bindr (raise_if (\<not> is_su_type frame SystemUpdateType_COMMIT_RESPONSE
                    \<or> length payload \<noteq> 24 \<or> take 16 payload \<noteq> sj_identifier job)
                  (ProtocolError ''invalid system-update commit response'')) (\<lambda>_.
          raise_if (uint_at 4 16 payload \<noteq> sj_job_id job \<or> sint_at 4 20 payload \<noteq> 0)
            (RuntimeError ''system update failed with device error'')))"

record su_result =
  sr_operation_id :: string
  sr_job_id :: nat
  sr_manifest_sha256 :: string
  sr_target_layout_sha256 :: ustr
  sr_components :: "dict list"
  sr_bytes :: int
  sr_restart_required :: bool
  sr_completion_evidence :: su_evidence

definition su_cancel :: "bytes \<Rightarrow> (json, unit) io" where
  "su_cancel identifier = suppress (ask (su_request SystemUpdateType_CANCEL identifier))"

text \<open>\<open>ready\<close>: the capabilities \<^verbatim>\<open>wait_ready\<close> returns, or what it raises; \<open>token\<close>:
  \<^verbatim>\<open>secrets.token_bytes(16)\<close>, used when no identifier (or an empty one) is given.\<close>

definition su_identifier :: "bytes option \<Rightarrow> bytes \<Rightarrow> bytes" where
  "su_identifier operation_id token =
     (case operation_id of Some (b # bs) \<Rightarrow> b # bs | _ \<Rightarrow> token)"

definition perform_system_update ::
  "nat res \<Rightarrow> update_bundle \<Rightarrow> bytes option \<Rightarrow> bytes \<Rightarrow> json callback \<Rightarrow> (json, su_result) io" where
  "perform_system_update ready b operation_id token cb =
     bindio (lift_res ready) (\<lambda>capabilities.
     bindio (throw_if (\<not> has_capability capabilities Capability_SYSTEM_UPDATE)
               (RuntimeError ''device does not advertise system-update support'')) (\<lambda>_.
     let identifier = su_identifier operation_id token in
     bindio (throw_if (length identifier \<noteq> 16 \<or> identifier = replicate 16 0)
               (ValueError ''system-update operation ID must be 16 non-zero bytes'')) (\<lambda>_.
     bindio (throw_if (length (sb_manifest_bytes b) > 0xFFFF \<or> length (sb_signature b) > 0xFFFF)
               (ValueError ''system-update manifest or signature is too large'')) (\<lambda>_.
     bindio (lift_res (su_begin_message b identifier)) (\<lambda>begin.
     bindio (su_begin_request b identifier begin) (\<lambda>frame.
     bindio (lift_res (su_accept b identifier frame)) (\<lambda>job.
     bindio (on_raise (su_transfer cb job b) (su_cancel identifier))
       (\<lambda>(transferred, completion_evidence, committed).
     bindio (lift_res (su_check_commit job committed)) (\<lambda>_.
     ret \<lparr>sr_operation_id = hex identifier, sr_job_id = sj_job_id job,
          sr_manifest_sha256 = hex (sb_manifest_sha256 b),
          sr_target_layout_sha256 = sb_target_layout_sha256 b,
          sr_components = map component_as_dict (sb_components b), sr_bytes = transferred,
          sr_restart_required = True,
          sr_completion_evidence = completion_evidence\<rparr>)))))))))"

section \<open>What the device has confirmed\<close>

text \<open>
  An observer of the log that knows the protocol and not the client: a data message (component,
  offset, bytes) is confirmed by its response, or, after a request that raised, by a status that
  reports the component as receiving and the offset after the message.
\<close>

definition parse_data :: "bytes \<Rightarrow> data_chunk" where
  "parse_data payload = (uint_at 1 16 payload, uint_at 4 20 payload, drop 24 payload)"

definition is_su :: "system_update_type \<Rightarrow> request \<Rightarrow> bool" where
  "is_su ty r \<longleftrightarrow> rq_type r = system_update_type_code ty"

definition data_ack :: "data_chunk \<Rightarrow> frame \<Rightarrow> bool" where
  "data_ack m f \<longleftrightarrow> is_su_type f SystemUpdateType_DATA_RESPONSE \<and> length (fr_payload f) = 24
     \<and> uint_at 1 16 (fr_payload f) = fst m
     \<and> uint_at 4 20 (fr_payload f) = fst (snd m) + length (snd (snd m))"

definition status_confirms :: "data_chunk \<Rightarrow> frame \<Rightarrow> bool" where
  "status_confirms m f \<longleftrightarrow> is_su_type f SystemUpdateType_STATUS_RESPONSE \<and>
     (case decode_system_update_status (fr_payload f) of
        Inr st \<Rightarrow> ss_phase st = SP_receiving \<and> ss_active_component_id st = fst m
          \<and> ss_bytes_received st = fst (snd m) + length (snd (snd m))
      | Inl _ \<Rightarrow> False)"

fun su_observe :: "json event \<Rightarrow> data_chunk option \<times> data_chunk list \<Rightarrow> data_chunk option \<times> data_chunk list" where
  "su_observe (Notify p) st = st"
| "su_observe (Exchange r reply) (pending, ms) =
     (if is_su SystemUpdateType_DATA r then
        (case reply of
           Inr f \<Rightarrow> (None, if data_ack (parse_data (rq_payload r)) f then ms @ [parse_data (rq_payload r)] else ms)
         | Inl e \<Rightarrow> (Some (parse_data (rq_payload r)), ms))
      else if is_su SystemUpdateType_STATUS r then
        (case (pending, reply) of
           (Some m, Inr f) \<Rightarrow> (None, if status_confirms m f then ms @ [m] else ms)
         | _ \<Rightarrow> (None, ms))
      else (None, ms))"

definition confirmed :: "json event list \<Rightarrow> data_chunk list" where
  "confirmed es = snd (fold su_observe es (None, []))"

text \<open>The messages cover the components one after the other.\<close>

fun covers_all :: "component list \<Rightarrow> data_chunk list \<Rightarrow> bool" where
  "covers_all [] ms \<longleftrightarrow> ms = []"
| "covers_all (c # cs) ms \<longleftrightarrow>
     (\<exists>ms1 ms2. ms = ms1 @ ms2 \<and> covers (nat (sc_id c)) (sc_data c) 0 ms1 \<and> covers_all cs ms2)"

text \<open>Events that carry neither data nor a commit leave the observer idle.\<close>

definition quiet :: "json event \<Rightarrow> bool" where
  "quiet ev \<longleftrightarrow> (case ev of
     Exchange r _ \<Rightarrow> \<not> is_su SystemUpdateType_DATA r \<and> \<not> is_su SystemUpdateType_COMMIT r
   | Notify _ \<Rightarrow> True)"

definition no_commit :: "json event \<Rightarrow> bool" where
  "no_commit ev \<longleftrightarrow> (case ev of
     Exchange r _ \<Rightarrow> \<not> is_su SystemUpdateType_COMMIT r | Notify _ \<Rightarrow> True)"

lemma observe_quiet: "list_all quiet l \<Longrightarrow> fold su_observe l (None, ms) = (None, ms)"
proof (induction l)
  case Nil
  then show ?case by simp
next
  case (Cons ev l)
  then have "su_observe ev (None, ms) = (None, ms)"
    by (cases ev) (auto simp: quiet_def)
  with Cons show ?case by simp
qed

lemma quiet_no_commit: "list_all quiet l \<Longrightarrow> list_all no_commit l"
  by (auto simp: list_all_iff quiet_def no_commit_def split: event.splits)

lemma is_su_request [simp]:
  "is_su ty (su_request ty' p) \<longleftrightarrow> ty = ty'"
  by (auto simp: is_su_def su_request_def system_update_type.code_inject)

section \<open>The log of each part\<close>

lemma status_quiet: "emits quiet system_update_status"
  unfolding system_update_status_def by (intro emits_intros) (simp add: quiet_def)

lemma open_quiet: "emits quiet (su_open job c)"
  unfolding su_open_def Let_def by (intro emits_intros) (simp add: quiet_def)

lemma close_quiet: "emits quiet (su_close job c i)"
  unfolding su_close_def Let_def by (intro emits_intros) (simp add: quiet_def)

lemma begin_quiet: "emits quiet (su_begin_request b ident begin)"
  unfolding su_begin_request_def by (intro emits_intros status_quiet) (simp_all add: quiet_def)

lemma cancel_quiet: "emits quiet (su_cancel ident)"
  unfolding su_cancel_def by (intro emits_intros) (simp add: quiet_def)

lemma step_no_commit: "emits no_commit (su_data_step cb job c i t n off)"
  unfolding su_data_step_def Let_def
  by (intro emits_intros emits_mono [OF status_quiet])
     (auto simp: no_commit_def quiet_def split: option.split event.splits intro!: emits_intros emits_mono [OF status_quiet])

lemma parse_data_message:
  assumes "su_data_message ident c off chunk = Inr message" and "length ident = 16"
  shows "parse_data message = (nat (sc_id c), off, chunk)"
proof -
  from assms(1) have fits: "0 \<le> sc_id c" "sc_id c < 256" "off < 256 ^ 4"
    and m: "message = ident @ le_bytes 1 (nat (sc_id c)) @ [0, 0, 0] @ le_bytes 4 off @ chunk"
    by (auto simp: su_data_message_def pack_uint_def bindr_eq_Inr split: if_splits)
  have 1: "uint_at 1 0 (le_bytes 1 (nat (sc_id c)) @ r) = nat (sc_id c)" for r
    by (rule uint_at_le_bytes_append) (use fits in simp)
  have 2: "uint_at 4 3 (0 # 0 # 0 # le_bytes 4 off @ chunk) = off"
    using uint_at_append2 [of "[0, 0, 0]" 3 4 "le_bytes 4 off @ chunk"]
      uint_at_le_bytes_append [OF fits(3), of chunk] by simp
  show ?thesis
    using assms(2) 1 [simplified] 2 by (simp add: parse_data_def m uint_at_append2)
qed

lemma system_update_status_Returned:
  assumes "system_update_status w = (Returned st, v)"
  obtains f rest where "w_replies w = Inr f # rest"
    and "v = w\<lparr>w_replies := rest, w_log := w_log w @ [Exchange (su_request SystemUpdateType_STATUS []) (Inr f)]\<rparr>"
    and "is_su_type f SystemUpdateType_STATUS_RESPONSE"
    and "decode_system_update_status (fr_payload f) = Inr st"
  using assms by (auto simp: system_update_status_def bindio_Returned ask_Returned)

lemma notify_Returned:
  assumes "notify cb p w = (Returned y, v)"
  obtains l where "w_log v = w_log w @ l" and "l = [] \<or> l = [Notify p]"
  using assms by (auto simp: notify_def split: option.splits)

lemma step_returned:
  assumes run: "su_data_step cb job c i t n off w = (Returned x, v)"
    and len: "length (sj_identifier job) = 16"
  obtains l ms where "w_log v = w_log w @ l"
    and "\<And>acc. fold su_observe l (None, acc) = (None, acc @ ms)"
    and "(ms = [] \<and> x = off) \<or>
         (ms = [(nat (sc_id c), off, pyslice off (off + n) (sc_data c))]
          \<and> x = off + length (pyslice off (off + n) (sc_data c)))"
proof -
  define chunk where "chunk = pyslice off (off + n) (sc_data c)"
  let ?m = "(nat (sc_id c), off, chunk)"
  from run obtain message where msg: "su_data_message (sj_identifier job) c off chunk = Inr message"
    by (auto simp: su_data_step_def Let_def bindio_Returned chunk_def)
  note parse = parse_data_message [OF msg len]
  let ?ask = "su_request SystemUpdateType_DATA message"
  have payload: "rq_payload ?ask = message" by (simp add: su_request_def)
  from run msg obtain reply rest opt where w: "w_replies w = reply # rest"
    and opt: "case opt of Some f \<Rightarrow> reply = Inr f | None \<Rightarrow> \<exists>e. reply = Inl e \<and> is_timeout e"
    and tail: "try_ask ?ask w =
      (Returned opt, w\<lparr>w_replies := rest, w_log := w_log w @ [Exchange ?ask reply]\<rparr>)"
    by (auto simp: su_data_step_def Let_def bindio_Returned try_ask_Returned chunk_def)
  let ?w = "w\<lparr>w_replies := rest, w_log := w_log w @ [Exchange ?ask reply]\<rparr>"
  show thesis
  proof (cases opt)
    case None
    with run tail msg obtain st where st: "system_update_status ?w = (Returned st, v)"
      and ok: "int (ss_active_component_id st) = sc_id c" "ss_phase st = SP_receiving"
        "x = ss_bytes_received st" "x = off \<or> x = off + length chunk"
      by (auto simp: su_data_step_def Let_def bindio_Returned chunk_def)
    from st obtain f where v: "w_log v = w_log ?w @ [Exchange (su_request SystemUpdateType_STATUS []) (Inr f)]"
      and f: "is_su_type f SystemUpdateType_STATUS_RESPONSE"
        "decode_system_update_status (fr_payload f) = Inr st"
      by (rule system_update_status_Returned) simp
    have "status_confirms ?m f \<longleftrightarrow> x = off + length chunk"
      using f ok by (auto simp: status_confirms_def)
    with ok None opt v parse payload show thesis
      by (intro that [of "[Exchange ?ask reply, Exchange (su_request SystemUpdateType_STATUS []) (Inr f)]"
            "if status_confirms ?m f then [?m] else []"])
         (auto simp: chunk_def)
  next
    case (Some f)
    with run tail msg obtain p where ok: "data_ack ?m f" "x = off + length chunk"
      and n: "notify cb p ?w = (Returned (), v)"
      by (auto simp: su_data_step_def Let_def bindio_Returned chunk_def data_ack_def)
    from n obtain l where "w_log v = w_log ?w @ l" "l = [] \<or> l = [Notify p]"
      by (rule notify_Returned)
    with ok Some opt parse payload show thesis
      by (intro that [of "Exchange ?ask reply # l" "[?m]"]) (auto simp: chunk_def)
  qed
qed

lemma loop_no_commit: "run_log (su_data_loop cb job c i t n off) w (\<lambda>out l. list_all no_commit l)"
proof (induction cb job c i t n off w rule: su_data_loop.induct)
  case (1 cb job c i t n off w)
  show ?case
  proof (cases "int off < sc_size c")
    case True
    have "run_log (bindio (su_data_step cb job c i t n off) (su_data_loop cb job c i t n)) w
        (\<lambda>out l. list_all no_commit l)"
    proof (rule run_log_bindio [OF run_log_emits [OF step_no_commit]])
      fix x l v assume step: "su_data_step cb job c i t n off w = (Returned x, v)"
        and l: "list_all no_commit l"
      from 1 [OF True step] l show
        "run_log (su_data_loop cb job c i t n x) v (\<lambda>out l'. list_all no_commit (l @ l'))"
        by (auto intro: run_log_mono)
    qed simp_all
    with True show ?thesis by (simp add: run_log_def su_data_loop.simps [of cb job c i t n off w])
  next
    case False
    then show ?thesis by (simp add: run_log_def ret_def su_data_loop.simps [of cb job c i t n off w])
  qed
qed

lemma loop_returned:
  assumes "su_data_loop cb job c i t n off w = (Returned y, v)"
    and "length (sj_identifier job) = 16" and "sc_size c = int (length (sc_data c))"
  shows "\<exists>l ms. w_log v = w_log w @ l \<and> (\<forall>acc. fold su_observe l (None, acc) = (None, acc @ ms))
     \<and> covers (nat (sc_id c)) (sc_data c) off ms"
  using assms
proof (induction cb job c i t n off w rule: su_data_loop.induct)
  case (1 cb job c i t n off w)
  show ?case
  proof (cases "int off < sc_size c")
    case True
    with 1(2) obtain x v' where step: "su_data_step cb job c i t n off w = (Returned x, v')"
      and loop: "su_data_loop cb job c i t n x v' = (Returned y, v)"
      by (auto simp: su_data_loop.simps [of cb job c i t n off w] bindio_Returned)
    obtain l' ms' where l': "w_log v = w_log v' @ l'"
      "\<forall>acc. fold su_observe l' (None, acc) = (None, acc @ ms')"
      "covers (nat (sc_id c)) (sc_data c) x ms'"
      using 1(1) [OF True step loop 1(3,4)] by blast
    obtain l ms where l: "w_log v' = w_log w @ l"
      "\<And>acc. fold su_observe l (None, acc) = (None, acc @ ms)"
      "(ms = [] \<and> x = off) \<or> (ms = [(nat (sc_id c), off, pyslice off (off + n) (sc_data c))]
          \<and> x = off + length (pyslice off (off + n) (sc_data c)))"
      by (rule step_returned [OF step 1(3)]) (rule that)
    have "covers (nat (sc_id c)) (sc_data c) off (ms @ ms')"
      using l(3) l'(3) by (auto simp: pyslice_clip simp del: length_pyslice)
    with l l' show ?thesis
      by (intro exI [of _ "l @ l'"] exI [of _ "ms @ ms'"]) simp
  next
    case False
    with 1(2,4) show ?thesis
      by (intro exI [of _ "[]"]) (simp add: su_data_loop.simps [of cb job c i t n off w])
  qed
qed

lemma component_no_commit: "run_log (su_component cb job i t c) w (\<lambda>out l. list_all no_commit l)"
  unfolding su_component_def
  by (rule run_log_bindio [OF run_log_emits [OF open_quiet]],
      rule run_log_bindio [OF loop_no_commit],
      rule run_log_mono [OF run_log_emits [OF close_quiet]])
     (auto dest: quiet_no_commit)

lemma component_returned:
  assumes "su_component cb job i t c w = (Returned y, v)"
    and "length (sj_identifier job) = 16" and "sc_size c = int (length (sc_data c))"
  shows "\<exists>l ms. w_log v = w_log w @ l \<and> (\<forall>acc. fold su_observe l (None, acc) = (None, acc @ ms))
     \<and> covers (nat (sc_id c)) (sc_data c) 0 ms"
proof -
  from assms(1) obtain n v1 v2 where runs: "su_open job c w = (Returned n, v1)"
    "su_data_loop cb job c i t n 0 v1 = (Returned (), v2)" "su_close job c i v2 = (Returned y, v)"
    by (auto simp: su_component_def bindio_Returned)
  obtain l1 where l1: "w_log v1 = w_log w @ l1" "list_all quiet l1"
    using open_quiet runs(1) by (rule emitsD)
  obtain l2 ms where l2: "w_log v2 = w_log v1 @ l2"
    "\<forall>acc. fold su_observe l2 (None, acc) = (None, acc @ ms)"
    "covers (nat (sc_id c)) (sc_data c) 0 ms"
    using loop_returned [OF runs(2) assms(2,3)] by blast
  obtain l3 where l3: "w_log v = w_log v2 @ l3" "list_all quiet l3"
    using close_quiet runs(3) by (rule emitsD)
  show ?thesis
    using l1 l2 l3
    by (intro exI [of _ "l1 @ l2 @ l3"] exI [of _ ms]) (simp add: observe_quiet)
qed

lemma components_no_commit:
  "run_log (su_components cb job i t cs) w (\<lambda>out l. list_all no_commit l)"
proof (induction cs arbitrary: i t w)
  case Nil
  then show ?case by (simp add: run_log_ret)
next
  case (Cons c cs)
  show ?case
    by (simp, rule run_log_bindio [OF component_no_commit])
       (auto intro: run_log_mono [OF Cons.IH])
qed

lemma components_returned:
  assumes "su_components cb job i t cs w = (Returned y, v)" and "length (sj_identifier job) = 16"
    and "list_all (\<lambda>c. sc_size c = int (length (sc_data c))) cs"
  shows "\<exists>l ms. w_log v = w_log w @ l \<and> (\<forall>acc. fold su_observe l (None, acc) = (None, acc @ ms))
     \<and> covers_all cs ms"
  using assms
proof (induction cs arbitrary: i t w)
  case Nil
  then show ?case by (intro exI [of _ "[]"]) simp
next
  case (Cons c cs)
  from Cons.prems(1) obtain v' where runs: "su_component cb job i t c w = (Returned (), v')"
    "su_components cb job (Suc i) (t + sc_size c) cs v' = (Returned y, v)"
    by (auto simp: bindio_Returned)
  obtain l1 ms1 where 1: "w_log v' = w_log w @ l1"
    "\<forall>acc. fold su_observe l1 (None, acc) = (None, acc @ ms1)"
    "covers (nat (sc_id c)) (sc_data c) 0 ms1"
    using component_returned [OF runs(1) Cons.prems(2)] Cons.prems(3) by auto
  obtain l2 ms2 where 2: "w_log v = w_log v' @ l2"
    "\<forall>acc. fold su_observe l2 (None, acc) = (None, acc @ ms2)" "covers_all cs ms2"
    using Cons.IH [OF runs(2) Cons.prems(2)] Cons.prems(3) by auto
  from 1 2 show ?case
    by (intro exI [of _ "l1 @ l2"] exI [of _ "ms1 @ ms2"]) auto
qed

lemma commit_log:
  "run_log (su_commit job) w (\<lambda>out l. (l = [] \<and> out = Blocked) \<or>
     (\<exists>reply l'. l = Exchange (su_request SystemUpdateType_COMMIT (sj_identifier job)) reply # l'
        \<and> list_all quiet l'))"
  unfolding su_commit_def
proof (rule run_log_catch)
  show "run_log (bindio (ask (su_request SystemUpdateType_COMMIT (sj_identifier job)))
      (\<lambda>committed. ret (Commit_response, Some committed))) w
    (\<lambda>out l. (out = Blocked \<and> l = []) \<or> (out \<noteq> Blocked \<and>
       (\<exists>reply. l = [Exchange (su_request SystemUpdateType_COMMIT (sj_identifier job)) reply])))"
    by (auto simp: run_log_def bindio_def ask_def ret_def split: list.split sum.split)
next
  fix e v and l :: "json event list"
  assume l: "(Raised e :: (su_evidence \<times> frame option) outcome) = Blocked \<and> l = [] \<or>
    (Raised e :: (su_evidence \<times> frame option) outcome) \<noteq> Blocked \<and>
    (\<exists>reply. l = [Exchange (su_request SystemUpdateType_COMMIT (sj_identifier job)) reply])"
  let ?h = "if is_timeout e then
         bindio system_update_status (\<lambda>status.
         bindio (throw_if (ss_operation_id status \<noteq> hex (sj_identifier job)
                   \<or> ss_phase status \<noteq> SP_committed \<or> ss_result status \<noteq> 0)
                   (TimeoutError ''system-update commit timeout'')) (\<lambda>_.
         ret (Device_status, None)))
       else if is_os_error e then ret (Session_close, None)
       else throw e"
  have "emits quiet ?h"
    by (intro emits_intros status_quiet)
  then have "run_log ?h v (\<lambda>out l. list_all quiet l)"
    by (rule run_log_emits)
  then show "run_log ?h v (\<lambda>out l'. (l @ l' = [] \<and> out = Blocked) \<or>
     (\<exists>reply l''. l @ l' = Exchange (su_request SystemUpdateType_COMMIT (sj_identifier job)) reply # l''
        \<and> list_all quiet l''))"
    by (rule run_log_mono) (use l in auto)
qed auto

text \<open>The log of a transaction: no commit at all, or everything confirmed and then one commit.\<close>

definition commit_ok :: "component list \<Rightarrow> json event list \<Rightarrow> bool" where
  "commit_ok cs l \<longleftrightarrow> list_all no_commit l \<or>
     (\<exists>l1 r reply l2. l = l1 @ Exchange r reply # l2 \<and> list_all no_commit l1
        \<and> is_su SystemUpdateType_COMMIT r \<and> list_all no_commit l2 \<and> covers_all cs (confirmed l1))"

lemma commit_ok_prefix:
  assumes "list_all quiet l0" and "commit_ok cs l"
  shows "commit_ok cs (l0 @ l)"
proof -
  have "confirmed (l0 @ l1) = confirmed l1" for l1
    using assms(1) by (simp add: confirmed_def observe_quiet)
  then show ?thesis
    using assms quiet_no_commit [OF assms(1)] unfolding commit_ok_def
    by (metis append.assoc list_all_append)
qed

lemma commit_ok_suffix:
  assumes "list_all quiet l'" and "commit_ok cs l"
  shows "commit_ok cs (l @ l')"
proof -
  from assms(2) consider "list_all no_commit l"
    | l1 r reply l2 where "l = l1 @ Exchange r reply # l2" "list_all no_commit l1"
      "is_su SystemUpdateType_COMMIT r" "list_all no_commit l2" "covers_all cs (confirmed l1)"
    unfolding commit_ok_def by blast
  then show ?thesis
  proof cases
    case 1
    then show ?thesis using quiet_no_commit [OF assms(1)] by (simp add: commit_ok_def)
  next
    case 2
    then show ?thesis
      using quiet_no_commit [OF assms(1)] unfolding commit_ok_def
      by (intro disjI2 exI [of _ l1] exI [of _ r] exI [of _ reply] exI [of _ "l2 @ l'"]) simp
  qed
qed

lemma components_log:
  assumes "length (sj_identifier job) = 16"
    and "list_all (\<lambda>c. sc_size c = int (length (sc_data c))) cs"
  shows "run_log (su_components cb job 0 0 cs) w
     (\<lambda>out l. list_all no_commit l \<and> (\<forall>t. out = Returned t \<longrightarrow>
        fold su_observe l (None, []) = (None, confirmed l) \<and> covers_all cs (confirmed l)))"
proof (rule run_log_mono [OF components_no_commit])
  fix out v l
  assume run: "su_components cb job 0 0 cs w = (out, v)" and v: "w_log v = w_log w @ l"
    and l: "list_all no_commit l"
  show "list_all no_commit l \<and> (\<forall>t. out = Returned t \<longrightarrow>
      fold su_observe l (None, []) = (None, confirmed l) \<and> covers_all cs (confirmed l))"
    using components_returned [OF _ assms, of cb 0 0 w _ v] run v l
    by (auto simp: confirmed_def)
qed

lemma transfer_log:
  assumes "length (sj_identifier job) = 16"
    and "list_all (\<lambda>c. sc_size c = int (length (sc_data c))) (sb_components b)"
  shows "run_log (su_transfer cb job b) w (\<lambda>out l. commit_ok (sb_components b) l)"
  unfolding su_transfer_def
proof (rule run_log_bindio [OF components_log [OF assms]])
  fix t :: int and l v
  assume l: "list_all no_commit l \<and> (\<forall>t'. Returned t = Returned t' \<longrightarrow>
     fold su_observe l (None, []) = (None, confirmed l) \<and> covers_all (sb_components b) (confirmed l))"
  show "run_log (bindio (notify cb (su_committing job t)) (\<lambda>_.
      bindio (su_commit job) (\<lambda>committed. ret (t, committed)))) v
    (\<lambda>out l'. commit_ok (sb_components b) (l @ l'))"
  proof (rule run_log_bindio)
    show "run_log (notify cb (su_committing job t)) v (\<lambda>out n. list_all quiet n)"
      by (rule run_log_notify) (auto simp: quiet_def)
  next
    fix y n v' assume n: "list_all quiet n"
    from l have "fold su_observe l (None, []) = (None, confirmed l)" by simp
    with n have obs: "confirmed (l @ n) = confirmed l"
      by (simp add: confirmed_def [of "l @ n"] observe_quiet)
    have fin: "commit_ok (sb_components b) (l @ n @ l')"
      if "l' = [] \<or> (\<exists>reply l''. l' = Exchange (su_request SystemUpdateType_COMMIT (sj_identifier job)) reply # l''
        \<and> list_all quiet l'')" for l'
    proof (cases "l' = []")
      case True
      with l quiet_no_commit [OF n] show ?thesis by (simp add: commit_ok_def)
    next
      case False
      with that obtain reply l'' where
        "l' = Exchange (su_request SystemUpdateType_COMMIT (sj_identifier job)) reply # l''"
        "list_all no_commit l''" by (auto dest: quiet_no_commit)
      with l obs quiet_no_commit [OF n] show ?thesis
        unfolding commit_ok_def
        by (intro disjI2 exI [of _ "l @ n"] exI [of _ "su_request SystemUpdateType_COMMIT (sj_identifier job)"]
            exI [of _ reply] exI [of _ l'']) simp
    qed
    show "run_log (bindio (su_commit job) (\<lambda>committed. ret (t, committed))) v'
      (\<lambda>out l'. commit_ok (sb_components b) (l @ n @ l'))"
      by (rule run_log_bindio [OF commit_log]) (auto intro!: run_log_ret fin)
  qed (use l quiet_no_commit in \<open>auto simp: commit_ok_def\<close>)
qed (auto simp: commit_ok_def)

lemma on_raise_log:
  assumes "run_log m w Q" and "emits P c"
    and "\<And>out l l'. Q out l \<Longrightarrow> list_all P l' \<Longrightarrow> R (l @ l')"
  shows "run_log (on_raise m c) w (\<lambda>out l. R l)"
  unfolding on_raise_def
proof (rule run_log_catch [OF assms(1)])
  fix e l v assume "Q (Raised e) l"
  then show "run_log (bindio c (\<lambda>_. throw e)) v (\<lambda>out l'. R (l @ l'))"
    by (intro run_log_mono [OF run_log_emits [OF emits_bindio [OF assms(2) emits_throw]]]) (rule assms(3))
next
  fix x l assume "Q (Returned x) l"
  then show "R l" using assms(3) [of "Returned x" l "[]"] by simp
next
  fix l assume "Q Blocked l"
  then show "R l" using assms(3) [of Blocked l "[]"] by simp
qed

lemma perform_log:
  assumes "list_all (\<lambda>c. sc_size c = int (length (sc_data c))) (sb_components b)"
  shows "run_log (perform_system_update ready b operation_id token cb) w
    (\<lambda>out l. commit_ok (sb_components b) l)"
proof -
  let ?Q = "\<lambda>l. commit_ok (sb_components b) l"
  define ident where "ident = su_identifier operation_id token"
  have nil: "?Q []" by (simp add: commit_ok_def)
  have quiet: "?Q l" if "list_all quiet l" for l
    using quiet_no_commit [OF that] by (simp add: commit_ok_def)
  have transfer: "run_log (on_raise (su_transfer cb job b) (su_cancel ident)) v (\<lambda>out l. ?Q l)"
    if "length (sj_identifier job) = 16" for job v
    by (rule on_raise_log [OF transfer_log [OF that assms] cancel_quiet]) (rule commit_ok_suffix)
  have rest: "run_log (bindio (on_raise (su_transfer cb job b) (su_cancel ident)) k) v
      (\<lambda>out l'. ?Q (l @ l'))"
    if "length (sj_identifier job) = 16" "list_all quiet l" "\<And>x. emits quiet (k x)"
    for job v l and k :: "int \<times> su_evidence \<times> frame option \<Rightarrow> (json, su_result) io"
  proof (rule run_log_bindio [OF transfer [OF that(1)]])
    fix x l' v' assume "?Q l'"
    then show "run_log (k x) v' (\<lambda>out l''. ?Q (l @ l' @ l''))"
      by (intro run_log_mono [OF run_log_emits [OF that(3)]] commit_ok_prefix [OF that(2)] commit_ok_suffix)
  qed (simp_all add: commit_ok_prefix [OF that(2)])
  show ?thesis
    unfolding perform_system_update_def Let_def ident_def [symmetric]
  proof (intro run_log_bind_lift run_log_bind_throw_if nil,
      rule run_log_bindio [OF run_log_emits [OF begin_quiet]])
    fix message frame l v
    assume len: "\<not> (length ident \<noteq> 16 \<or> ident = replicate 16 0)" and l: "list_all quiet l"
    show "run_log (bindio (lift_res (su_accept b ident frame)) (\<lambda>job.
        bindio (on_raise (su_transfer cb job b) (su_cancel ident))
          (\<lambda>(transferred, completion_evidence, committed).
        bindio (lift_res (su_check_commit job committed)) (\<lambda>_.
        ret \<lparr>sr_operation_id = hex ident, sr_job_id = sj_job_id job,
          sr_manifest_sha256 = hex (sb_manifest_sha256 b),
          sr_target_layout_sha256 = sb_target_layout_sha256 b,
          sr_components = map component_as_dict (sb_components b), sr_bytes = transferred,
          sr_restart_required = True,
          sr_completion_evidence = completion_evidence\<rparr>)))) v (\<lambda>out l'. ?Q (l @ l'))"
    proof (rule run_log_bind_lift, rule rest)
      fix job assume "su_accept b ident frame = Inr job"
      then have "sj_identifier job = ident"
        by (auto simp: su_accept_def Let_def bindr_eq_Inr)
      with len show "length (sj_identifier job) = 16" by simp
    qed (use l quiet in \<open>auto intro!: emits_intros split: prod.split\<close>)
  qed (simp_all add: quiet)
qed

section \<open>A cooperative device\<close>

text \<open>The replies of a device that accepts every message, with chunks of \<open>n\<close> bytes.\<close>

definition su_frame :: "system_update_type \<Rightarrow> bytes \<Rightarrow> frame res" where
  "su_frame ty payload = Inr \<lparr>fr_channel = int (channel_code Channel_SYSTEM_UPDATE),
     fr_type = int (system_update_type_code ty), fr_flags = 0, fr_session_id = 1,
     fr_request_id = 1, fr_stream_id = 0, fr_sequence = 1, fr_payload = payload\<rparr>"

definition su_reply :: "system_update_type \<Rightarrow> bytes \<Rightarrow> nat \<Rightarrow> nat \<Rightarrow> nat \<Rightarrow> nat \<Rightarrow> frame res" where
  "su_reply ty ident a b c d = su_frame ty (ident @ le_bytes 1 a @ le_bytes 1 b @ le_bytes 2 c @ le_bytes 4 d)"

function coop_data :: "bytes \<Rightarrow> component \<Rightarrow> nat \<Rightarrow> nat \<Rightarrow> frame res list" where
  "coop_data ident c n off =
     (if off < length (sc_data c) \<and> 0 < n
      then su_reply SystemUpdateType_DATA_RESPONSE ident (nat (sc_id c)) 0 0 (min (off + n) (length (sc_data c)))
           # coop_data ident c n (min (off + n) (length (sc_data c)))
      else [])"
  by pat_completeness auto
termination
  by (relation "measure (\<lambda>(ident, c, n, off). length (sc_data c) - off)") auto

declare coop_data.simps [simp del]

definition coop_component :: "bytes \<Rightarrow> nat \<Rightarrow> nat \<Rightarrow> component \<Rightarrow> frame res list" where
  "coop_component ident n i c =
     [su_reply SystemUpdateType_COMPONENT_BEGIN_RESPONSE ident (nat (sc_id c)) (kind_code (sc_kind c)) n
        (nat (sc_size c))]
     @ coop_data ident c n 0
     @ [su_reply SystemUpdateType_COMPONENT_END_RESPONSE ident (nat (sc_id c)) (i + 1) 0 0]"

fun coop_components :: "bytes \<Rightarrow> nat \<Rightarrow> nat \<Rightarrow> component list \<Rightarrow> frame res list" where
  "coop_components ident n i [] = []"
| "coop_components ident n i (c # cs) = coop_component ident n i c @ coop_components ident n (Suc i) cs"

definition coop_replies :: "bytes \<Rightarrow> nat \<Rightarrow> nat \<Rightarrow> update_bundle \<Rightarrow> frame res list" where
  "coop_replies ident job_id n b =
     [su_frame SystemUpdateType_BEGIN_RESPONSE
        (ident @ le_bytes 4 job_id @ le_bytes 2 n @ le_bytes 1 (length (sb_components b)) @ [0])]
     @ coop_components ident n 0 (sb_components b)
     @ [su_frame SystemUpdateType_COMMIT_RESPONSE (ident @ le_bytes 4 job_id @ le_bytes 4 0)]"

lemma su_reply_fields:
  assumes "su_reply ty ident a b c d = Inr f" and "length ident = 16"
    and "a < 256" "b < 256" "c < 256 ^ 2" "d < 256 ^ 4"
  shows "is_su_type f ty" "length (fr_payload f) = 24" "take 16 (fr_payload f) = ident"
    and "uint_at 1 16 (fr_payload f) = a" "uint_at 1 17 (fr_payload f) = b"
    and "uint_at 2 18 (fr_payload f) = c" "uint_at 4 20 (fr_payload f) = d"
proof -
  have f: "fr_payload f = ident @ le_bytes 1 a @ le_bytes 1 b @ le_bytes 2 c @ le_bytes 4 d"
    "fr_type f = int (system_update_type_code ty)"
    using assms(1) by (auto simp: su_reply_def su_frame_def)
  then show "is_su_type f ty" "length (fr_payload f) = 24" "take 16 (fr_payload f) = ident"
    using assms(2) by (simp_all add: is_su_type_def)
  have lt: "a < 256 ^ 1" "b < 256 ^ 1" using assms by simp_all
  show "uint_at 1 16 (fr_payload f) = a" "uint_at 1 17 (fr_payload f) = b"
    "uint_at 2 18 (fr_payload f) = c" "uint_at 4 20 (fr_payload f) = d"
    unfolding f(1) using assms(2,5,6) lt
    by (simp_all only: uint_at_append2 length_append length_le_bytes uint_at_le_bytes_append
        uint_at_le_bytes) (simp_all add: uint_at_append2 uint_at_le_bytes_append uint_at_le_bytes)
qed

text \<open>What the transport needs of a component to encode its messages.\<close>

definition encodable :: "component \<Rightarrow> bool" where
  "encodable c \<longleftrightarrow> 0 \<le> sc_id c \<and> sc_id c < 256 \<and> 0 \<le> sc_flags c \<and> sc_flags c < 256 ^ 2
     \<and> 0 \<le> sc_target_offset c \<and> sc_target_offset c < 256 ^ 4
     \<and> sc_size c = int (length (sc_data c)) \<and> length (sc_data c) < 256 ^ 4"

lemma bundle_ok_encodable:
  assumes "bundle_ok b" and "sb_flash_size b < 256 ^ 4"
  shows "list_all encodable (sb_components b)"
  using assms by (auto simp: bundle_ok_def list_all_iff component_ok_def encodable_def MAX_COMPONENT_BYTES_def)

lemma su_reply_Inr: "\<exists>f. su_reply ty ident a b c d = Inr f"
  by (simp add: su_reply_def su_frame_def)

lemma coop_step:
  assumes c: "encodable c" and ident: "length (sj_identifier job) = 16" and cb: "callback_returns cb"
    and off: "off < length (sc_data c)"
  shows "succeeds (su_data_step cb job c i t n off)
    [su_reply SystemUpdateType_DATA_RESPONSE (sj_identifier job) (nat (sc_id c)) 0 0
       (min (off + n) (length (sc_data c)))] (min (off + n) (length (sc_data c)))"
proof -
  let ?fin = "min (off + n) (length (sc_data c))"
  let ?chunk = "pyslice off (off + n) (sc_data c)"
  obtain f where f: "su_reply SystemUpdateType_DATA_RESPONSE (sj_identifier job) (nat (sc_id c)) 0 0 ?fin = Inr f"
    using su_reply_Inr by blast
  have "nat (sc_id c) < 256" "?fin < 256 ^ 4" using c by (auto simp: encodable_def)
  note fields = su_reply_fields [OF f ident this(1) _ _ this(2), simplified]
  have chunk: "off + length ?chunk = ?fin" using off by simp
  obtain message where m: "su_data_message (sj_identifier job) c off ?chunk = Inr message"
    using c off by (auto simp: su_data_message_def encodable_def)
  show ?thesis
    unfolding su_data_step_def Let_def m f chunk
    by (rule succeeds_bind_quiet [OF succeeds_lift [OF refl]],
        rule succeeds_bind_try, simp,
        intro succeeds_bind_quiet)
       (use fields c in \<open>auto simp: encodable_def intro: succeeds_intros succeeds_notify [OF cb]\<close>)
qed

lemma coop_loop:
  assumes "encodable c" and "length (sj_identifier job) = 16" and "callback_returns cb" and "0 < n"
  shows "succeeds (su_data_loop cb job c i t n off) (coop_data (sj_identifier job) c n off) ()"
  using assms
proof (induction "sj_identifier job" c n off rule: coop_data.induct)
  case (1 c n off)
  have size: "sc_size c = int (length (sc_data c))" using 1(2) by (simp add: encodable_def)
  show ?case
  proof (cases "off < length (sc_data c)")
    case True
    have eq: "su_data_loop cb job c i t n off
        = bindio (su_data_step cb job c i t n off) (su_data_loop cb job c i t n)"
      by (rule ext) (simp add: su_data_loop.simps [of cb job c i t n off] size True)
    show ?thesis
      unfolding eq coop_data.simps [of _ c n off]
      using True 1(5)
      by (simp, intro succeeds_bind_cons [OF coop_step [OF 1(2,3,4) True]] 1(1) [OF _ 1(2,3,4,5)]) simp
  next
    case False
    have eq: "su_data_loop cb job c i t n off = ret ()"
      by (rule ext) (simp add: su_data_loop.simps [of cb job c i t n off] size False)
    show ?thesis
      unfolding eq using False by (subst coop_data.simps) (simp add: succeeds_ret)
  qed
qed

lemma coop_open:
  assumes "encodable c" and "length (sj_identifier job) = 16" and "0 < n" "n < 256 ^ 2"
    and "sj_chunk_size job = n"
  shows "succeeds (su_open job c)
    [su_reply SystemUpdateType_COMPONENT_BEGIN_RESPONSE (sj_identifier job) (nat (sc_id c))
       (kind_code (sc_kind c)) n (nat (sc_size c))] n"
proof -
  obtain f where f: "su_reply SystemUpdateType_COMPONENT_BEGIN_RESPONSE (sj_identifier job) (nat (sc_id c))
       (kind_code (sc_kind c)) n (nat (sc_size c)) = Inr f"
    using su_reply_Inr by blast
  have lt: "nat (sc_id c) < 256" "kind_code (sc_kind c) < 256" "nat (sc_size c) < 256 ^ 4"
    using assms(1) by (auto simp: encodable_def nat_less_iff split: component_kind.split) (cases "sc_kind c"; simp)
  note fields = su_reply_fields [OF f assms(2) lt(1,2) assms(4) lt(3), simplified]
  obtain d where d: "su_descriptor (sj_identifier job) c = Inr d"
    using assms(1) by (auto simp: su_descriptor_def encodable_def)
  show ?thesis
    unfolding su_open_def Let_def d f
    by (rule succeeds_bind_quiet [OF succeeds_lift [OF refl]],
        rule succeeds_bind_ask, intro succeeds_bind_quiet)
       (use fields assms in \<open>auto simp: encodable_def intro: succeeds_intros\<close>)
qed

lemma coop_close:
  assumes "encodable c" and "length (sj_identifier job) = 16" and "i + 1 < 256"
  shows "succeeds (su_close job c i)
    [su_reply SystemUpdateType_COMPONENT_END_RESPONSE (sj_identifier job) (nat (sc_id c)) (i + 1) 0 0] ()"
proof -
  obtain f where f: "su_reply SystemUpdateType_COMPONENT_END_RESPONSE (sj_identifier job) (nat (sc_id c)) (i + 1) 0 0 = Inr f"
    using su_reply_Inr by blast
  have lt: "nat (sc_id c) < 256" using assms(1) by (auto simp: encodable_def)
  note fields = su_reply_fields [OF f assms(2) lt assms(3) _ _, simplified]
  have result: "sint_at 4 20 (fr_payload f) = 0"
    using fields by (simp add: sint_at_def)
  show ?thesis
    unfolding su_close_def Let_def f
    by (rule succeeds_bind_quiet [OF succeeds_lift],
        use assms(1) in \<open>simp add: encodable_def\<close>,
        rule succeeds_bind_ask, rule succeeds_throw_if)
       (use fields assms result in \<open>auto simp: encodable_def\<close>)
qed

lemma coop_components_ok:
  assumes "length (sj_identifier job) = 16" and "callback_returns cb"
    and "0 < n" "n < 256 ^ 2" and "sj_chunk_size job = n"
  shows "list_all encodable cs \<Longrightarrow> i + length cs < 256 \<Longrightarrow>
    succeeds (su_components cb job i t cs) (coop_components (sj_identifier job) n i cs)
      (t + sum_list (map sc_size cs))"
proof (induction cs arbitrary: i t)
  case Nil
  then show ?case by (simp add: succeeds_ret)
next
  case (Cons c cs)
  then have c: "encodable c" and cs: "list_all encodable cs" and i: "i + 1 < 256"
    "Suc i + length cs < 256" by simp_all
  have "succeeds (su_component cb job i t c) (coop_component (sj_identifier job) n i c) ()"
    unfolding su_component_def coop_component_def
    by (rule succeeds_bind [OF coop_open [OF c assms(1,3,4,5)]],
        rule succeeds_bind [OF coop_loop [OF c assms(1,2,3)]], rule coop_close [OF c assms(1) i(1)])
  then show ?case
    using Cons.IH [OF cs i(2), of "t + sc_size c"]
    by (auto simp: add.assoc intro: succeeds_bind)
qed

section \<open>Claims\<close>

lemma split_unique:
  assumes "xs @ x # ys = xs' @ x' # ys'" and "list_all P xs" and "list_all P ys" and "\<not> P x'"
  shows "xs' = xs \<and> x' = x"
proof -
  have "x' \<notin> set xs" "x' \<notin> set ys" using assms(2-4) by (auto simp: list_all_iff)
  with assms(1) show ?thesis
    by (auto simp: append_eq_append_conv2 append_eq_Cons_conv Cons_eq_append_conv)
qed

text \<open>
  Claim C7. Whatever the device, the link and the callback do: when the transaction sends its
  commit, the device has confirmed, component by component and in the order of the bundle, data
  messages that cover each component's bytes from the first to the last without gap or overlap.
  A message counts as confirmed by its own response or, after a timeout, by a status that reports
  the offset behind it.
\<close>

theorem commit_only_after_confirmation:
  assumes "bundle_ok b" and "perform_system_update ready b operation_id token cb w = (out, v)"
    and "w_log w = []" and "w_log v = l1 @ Exchange r reply # l2"
    and "is_su SystemUpdateType_COMMIT r"
  shows "covers_all (sb_components b) (confirmed l1)"
proof -
  have "list_all (\<lambda>c. sc_size c = int (length (sc_data c))) (sb_components b)"
    using assms(1) by (auto simp: bundle_ok_def component_ok_def list_all_iff)
  from perform_log [OF this] assms(2) obtain l where "w_log v = w_log w @ l"
    and "commit_ok (sb_components b) l" by (rule run_logD)
  with assms(3,4) have ok: "commit_ok (sb_components b) (l1 @ Exchange r reply # l2)" by simp
  have commit: "\<not> no_commit (Exchange r reply)" using assms(5) by (simp add: no_commit_def)
  then have "\<not> list_all no_commit (l1 @ Exchange r reply # l2)" by simp
  with ok obtain l1' r' reply' l2' where
    "l1' @ Exchange r' reply' # l2' = l1 @ Exchange r reply # l2"
    "list_all no_commit l1'" "list_all no_commit l2'" "covers_all (sb_components b) (confirmed l1')"
    unfolding commit_ok_def by metis
  with split_unique [OF this(1-3) commit] show ?thesis by simp
qed

lemma su_commit_Returned:
  assumes "su_commit job w = (Returned (evidence, committed), v)"
  shows "\<exists>reply l2. w_log v = w_log w
       @ Exchange (su_request SystemUpdateType_COMMIT (sj_identifier job)) reply # l2
     \<and> (case evidence of
          Commit_response \<Rightarrow> l2 = [] \<and> (\<exists>f. reply = Inr f \<and> committed = Some f)
        | Device_status \<Rightarrow> committed = None \<and> (\<exists>e f st. reply = Inl e \<and> is_timeout e
            \<and> l2 = [Exchange (su_request SystemUpdateType_STATUS []) (Inr f)]
            \<and> decode_system_update_status (fr_payload f) = Inr st
            \<and> ss_operation_id st = hex (sj_identifier job) \<and> ss_phase st = SP_committed
            \<and> ss_result st = 0)
        | Session_close \<Rightarrow> committed = None \<and> l2 = [] \<and>
            (\<exists>e. reply = Inl e \<and> \<not> is_timeout e \<and> is_os_error e))"
proof -
  let ?r = "su_request SystemUpdateType_COMMIT (sj_identifier job)"
  obtain reply rest where w: "w_replies w = reply # rest"
    using assms by (cases "w_replies w") (auto simp: su_commit_def catch_def bindio_def ask_def)
  let ?w = "w\<lparr>w_replies := rest, w_log := w_log w @ [Exchange ?r reply]\<rparr>"
  show ?thesis
  proof (cases reply)
    case (Inr f)
    with assms w show ?thesis
      by (auto simp: su_commit_def catch_def bindio_def ask_def ret_def)
  next
    case (Inl e)
    show ?thesis
    proof (cases "is_timeout e")
      case True
      with assms w Inl have "bindio system_update_status (\<lambda>status.
         bindio (throw_if (ss_operation_id status \<noteq> hex (sj_identifier job)
                   \<or> ss_phase status \<noteq> SP_committed \<or> ss_result status \<noteq> 0)
                   (TimeoutError ''system-update commit timeout'')) (\<lambda>_.
         ret (Device_status, None))) ?w = (Returned (evidence, committed), v)"
        by (simp add: su_commit_def catch_def bindio_def [of "ask _"] ask_def)
      then obtain st where st: "system_update_status ?w = (Returned st, v)"
        "ss_operation_id st = hex (sj_identifier job)" "ss_phase st = SP_committed" "ss_result st = 0"
        "evidence = Device_status" "committed = None"
        by (auto simp: bindio_Returned)
      from st(1) obtain f where "w_log v = w_log ?w @ [Exchange (su_request SystemUpdateType_STATUS []) (Inr f)]"
        "decode_system_update_status (fr_payload f) = Inr st"
        by (rule system_update_status_Returned) simp
      with st True Inl show ?thesis by auto
    next
      case False
      with assms w Inl show ?thesis
        by (auto simp: su_commit_def catch_def bindio_def ask_def ret_def throw_def split: if_splits)
    qed
  qed
qed

lemma perform_evidence:
  assumes "perform_system_update ready b operation_id token cb w = (Returned r, v)"
  shows "\<exists>ident l1 reply l2. sr_operation_id r = hex ident
    \<and> w_log v = l1 @ Exchange (su_request SystemUpdateType_COMMIT ident) reply # l2
    \<and> (case sr_completion_evidence r of
         Commit_response \<Rightarrow> (\<exists>f. reply = Inr f \<and> is_su_type f SystemUpdateType_COMMIT_RESPONSE
           \<and> take 16 (fr_payload f) = ident \<and> uint_at 4 16 (fr_payload f) = sr_job_id r
           \<and> sint_at 4 20 (fr_payload f) = 0)
       | Device_status \<Rightarrow> (\<exists>e f st. reply = Inl e \<and> is_timeout e
           \<and> l2 = [Exchange (su_request SystemUpdateType_STATUS []) (Inr f)]
           \<and> decode_system_update_status (fr_payload f) = Inr st
           \<and> ss_operation_id st = hex ident \<and> ss_phase st = SP_committed \<and> ss_result st = 0)
       | Session_close \<Rightarrow> (\<exists>e. reply = Inl e \<and> \<not> is_timeout e \<and> is_os_error e))"
proof -
  define ident where "ident = su_identifier operation_id token"
  from assms obtain frame w1 w2 job transferred evidence committed where
    accept: "su_accept b ident frame = Inr job"
    and transfer: "su_transfer cb job b w1 = (Returned (transferred, evidence, committed), w2)"
    and check: "su_check_commit job committed = Inr ()" and v: "v = w2"
    and r: "sr_operation_id r = hex ident" "sr_job_id r = sj_job_id job"
      "sr_completion_evidence r = evidence"
    unfolding perform_system_update_def Let_def ident_def [symmetric]
    by (auto simp: bindio_Returned on_raise_Returned)
  have job: "sj_identifier job = ident"
    using accept by (auto simp: su_accept_def Let_def bindr_eq_Inr)
  from transfer obtain w3 where "su_commit job w3 = (Returned (evidence, committed), w2)"
    by (auto simp: su_transfer_def bindio_Returned)
  from su_commit_Returned [OF this] obtain reply l2 where
    log: "w_log v = w_log w3 @ Exchange (su_request SystemUpdateType_COMMIT ident) reply # l2"
    and ev: "case evidence of
          Commit_response \<Rightarrow> l2 = [] \<and> (\<exists>f. reply = Inr f \<and> committed = Some f)
        | Device_status \<Rightarrow> committed = None \<and> (\<exists>e f st. reply = Inl e \<and> is_timeout e
            \<and> l2 = [Exchange (su_request SystemUpdateType_STATUS []) (Inr f)]
            \<and> decode_system_update_status (fr_payload f) = Inr st
            \<and> ss_operation_id st = hex ident \<and> ss_phase st = SP_committed \<and> ss_result st = 0)
        | Session_close \<Rightarrow> committed = None \<and> l2 = [] \<and>
            (\<exists>e. reply = Inl e \<and> \<not> is_timeout e \<and> is_os_error e)"
    unfolding v job by blast
  have "is_su_type f SystemUpdateType_COMMIT_RESPONSE \<and> take 16 (fr_payload f) = ident
      \<and> uint_at 4 16 (fr_payload f) = sj_job_id job \<and> sint_at 4 20 (fr_payload f) = 0"
    if "committed = Some f" for f
    using check that job by (auto simp: su_check_commit_def Let_def bindr_eq_Inr raise_if_eq_Inr)
  with ev show ?thesis
    by (intro exI [of _ ident] exI [of _ "w_log w3"] exI [of _ reply] exI [of _ l2] conjI r(1) log)
       (auto simp: r split: su_evidence.splits)
qed

lemma su_cancel_logs:
  assumes "bindio (su_cancel ident) (\<lambda>_. throw e') w = (Raised e, v)"
  shows "\<exists>reply. w_log v = w_log w @ [Exchange (su_request SystemUpdateType_CANCEL ident) reply]"
  using assms
  by (cases "w_replies w")
     (auto simp: su_cancel_def suppress_def catch_def bindio_def ask_def ret_def throw_def
      split: sum.splits if_splits)

text \<open>
  Claim C11. A transaction that fails is cancelled: if the update raises after the first
  component was announced and before a commit was answered, its last request is the cancellation
  of its own identifier.
\<close>

theorem update_failure_cancels:
  assumes "perform_system_update ready b operation_id token cb w = (Raised e, v)" and "w_log w = []"
    and "\<exists>r reply. Exchange r reply \<in> set (w_log v) \<and> is_su SystemUpdateType_COMPONENT_BEGIN r"
    and "\<nexists>r f. Exchange r (Inr f) \<in> set (w_log v) \<and> is_su SystemUpdateType_COMMIT r"
  shows "\<exists>l reply. w_log v =
    l @ [Exchange (su_request SystemUpdateType_CANCEL (su_identifier operation_id token)) reply]"
proof -
  define ident where "ident = su_identifier operation_id token"
  let ?P = "\<lambda>ev. case ev of Exchange r _ \<Rightarrow> \<not> is_su SystemUpdateType_COMPONENT_BEGIN r | Notify _ \<Rightarrow> True"
  have emits: "emits ?P (su_begin_request b ident msg)" for msg
    unfolding su_begin_request_def system_update_status_def by (intro emits_intros) simp_all
  have quiet: "\<not> (\<exists>r reply. Exchange r reply \<in> set (w_log w') \<and> is_su SystemUpdateType_COMPONENT_BEGIN r)"
    if run: "su_begin_request b ident msg w = (out, w')" for msg out w'
  proof -
    obtain l where "w_log w' = w_log w @ l" "list_all ?P l" using emits run by (rule emitsD)
    with assms(2) show ?thesis by (auto simp: list_all_iff)
  qed
  from assms(1) consider (early) "\<not> (\<exists>r reply. Exchange r reply \<in> set (w_log v) \<and> is_su SystemUpdateType_COMPONENT_BEGIN r)"
    | (transfer) w1 job where "on_raise (su_transfer cb job b) (su_cancel ident) w1 = (Raised e, v)"
    | (commit) w1 job transferred evidence f where
      "su_transfer cb job b w1 = (Returned (transferred, evidence, Some f), v)"
    unfolding perform_system_update_def Let_def ident_def [symmetric]
    using assms(2) quiet
    by (auto simp: bindio_Raised on_raise_Returned su_check_commit_def split: option.splits)
  then show ?thesis
  proof cases
    case early
    with assms(3) show ?thesis by blast
  next
    case transfer
    then show ?thesis
      using su_cancel_logs unfolding on_raise_Raised ident_def [symmetric] by blast
  next
    case commit
    then obtain w3 where "su_commit job w3 = (Returned (evidence, Some f), v)"
      by (auto simp: su_transfer_def bindio_Returned)
    from su_commit_Returned [OF this] obtain reply l2 where
      "w_log v = w_log w3 @ Exchange (su_request SystemUpdateType_COMMIT (sj_identifier job)) reply # l2"
      "reply = Inr f" by (cases evidence) auto
    with assms(4) show ?thesis by force
  qed
qed

section \<open>A run to the end\<close>

lemma coop_commit:
  assumes "length (sj_identifier job) = 16"
  shows "\<exists>f. su_frame SystemUpdateType_COMMIT_RESPONSE (sj_identifier job @ le_bytes 4 (sj_job_id job) @ le_bytes 4 0) = Inr f
    \<and> succeeds (su_commit job) [Inr f] (Commit_response, Some f)
    \<and> (sj_job_id job < 256 ^ 4 \<longrightarrow> su_check_commit job (Some f) = Inr ())"
proof -
  obtain f where f: "su_frame SystemUpdateType_COMMIT_RESPONSE
      (sj_identifier job @ le_bytes 4 (sj_job_id job) @ le_bytes 4 0) = Inr f"
    by (simp add: su_frame_def)
  have "succeeds (su_commit job) [Inr f] (Commit_response, Some f)"
    unfolding su_commit_def by (intro succeeds_catch succeeds_bind_ask succeeds_ret)
  moreover have "su_check_commit job (Some f) = Inr ()" if "sj_job_id job < 256 ^ 4"
    using that assms f
    by (auto simp: su_check_commit_def Let_def su_frame_def is_su_type_def sint_at_def
        uint_at_append2 uint_at_le_bytes_append uint_at_le_bytes)
  ultimately show ?thesis using f by blast
qed

lemma coop_accept:
  assumes "length ident = 16" and "0 < n" "n < 256 ^ 2" and "0 < job_id" "job_id < 256 ^ 4"
    and "length (sb_components b) < 256"
    and "su_frame SystemUpdateType_BEGIN_RESPONSE
        (ident @ le_bytes 4 job_id @ le_bytes 2 n @ le_bytes 1 (length (sb_components b)) @ [0]) = Inr f"
  shows "su_accept b ident f = Inr \<lparr>sj_identifier = ident, sj_job_id = job_id, sj_chunk_size = n,
     sj_component_count = length (sb_components b), sj_total = sum_list (map sc_size (sb_components b))\<rparr>"
proof -
  have 1: "uint_at 1 0 (le_bytes 1 (length (sb_components b)) @ [0]) = length (sb_components b)"
    by (rule uint_at_le_bytes_append) (use assms(6) in simp)
  show ?thesis
    using assms 1 [simplified]
    by (auto simp: su_accept_def Let_def su_frame_def is_su_type_def uint_at_append2 uint_at_le_bytes_append)
qed

lemma coop_perform:
  assumes "bundle_ok b" and "sb_flash_size b < 256 ^ 4"
    and "length (sb_manifest_bytes b) \<le> 0xFFFF" and "length (sb_signature b) \<le> 0xFFFF"
    and "length ident = 16" and "ident \<noteq> replicate 16 0" and "0 < n" "n < 256 ^ 2"
    and "0 < job_id" "job_id < 256 ^ 4"
    and "has_capability capabilities Capability_SYSTEM_UPDATE" and "callback_returns cb"
  shows "\<exists>r. succeeds (perform_system_update (Inr capabilities) b (Some ident) token cb)
       (coop_replies ident job_id n b) r
     \<and> sr_operation_id r = hex ident \<and> sr_job_id r = job_id
     \<and> sr_bytes r = sum_list (map sc_size (sb_components b))
     \<and> sr_completion_evidence r = Commit_response"
proof -
  let ?job = "\<lparr>sj_identifier = ident, sj_job_id = job_id, sj_chunk_size = n,
     sj_component_count = length (sb_components b), sj_total = sum_list (map sc_size (sb_components b))\<rparr>"
  have count: "length (sb_components b) < 256"
    using assms(1) by (simp add: bundle_ok_def MAX_COMPONENTS_def)
  have ident: "su_identifier (Some ident) token = ident"
    using assms(5) by (auto simp: su_identifier_def split: list.split)
  obtain f where f: "su_frame SystemUpdateType_BEGIN_RESPONSE
      (ident @ le_bytes 4 job_id @ le_bytes 2 n @ le_bytes 1 (length (sb_components b)) @ [0]) = Inr f"
    by (simp add: su_frame_def)
  note accept = coop_accept [OF assms(5,7,8,9,10) count f]
  obtain g where g: "su_frame SystemUpdateType_COMMIT_RESPONSE (ident @ le_bytes 4 job_id @ le_bytes 4 0) = Inr g"
    "succeeds (su_commit ?job) [Inr g] (Commit_response, Some g)" "su_check_commit ?job (Some g) = Inr ()"
    using coop_commit [of ?job] assms(5,10) by auto
  have comps: "succeeds (su_components cb ?job 0 0 (sb_components b))
      (coop_components ident n 0 (sb_components b)) (sum_list (map sc_size (sb_components b)))"
    using coop_components_ok [of ?job cb n "sb_components b" 0 0] assms count bundle_ok_encodable
    by simp
  have transfer: "succeeds (su_transfer cb ?job b) (coop_components ident n 0 (sb_components b) @ [Inr g])
      (sum_list (map sc_size (sb_components b)), Commit_response, Some g)"
    unfolding su_transfer_def
    by (rule succeeds_bind [OF comps],
        rule succeeds_bind_quiet [OF succeeds_notify [OF assms(12)]],
        rule succeeds_bind_cons [OF g(2)], rule succeeds_ret)
  obtain m where m: "su_begin_message b ident = Inr m"
    using assms(3,4) count by (auto simp: su_begin_message_def)
  have start: "succeeds (su_begin_request b ident m) [Inr f] f"
    unfolding su_begin_request_def by (intro succeeds_catch succeeds_ask)
  let ?r = "\<lparr>sr_operation_id = hex ident, sr_job_id = job_id,
          sr_manifest_sha256 = hex (sb_manifest_sha256 b),
          sr_target_layout_sha256 = sb_target_layout_sha256 b,
          sr_components = map component_as_dict (sb_components b),
          sr_bytes = sum_list (map sc_size (sb_components b)),
          sr_restart_required = True, sr_completion_evidence = Commit_response\<rparr>"
  have "succeeds (perform_system_update (Inr capabilities) b (Some ident) token cb)
      (Inr f # (coop_components ident n 0 (sb_components b) @ [Inr g]) @ []) ?r"
    unfolding perform_system_update_def Let_def ident m
    apply (intro succeeds_bind_quiet [OF succeeds_lift [OF refl]] succeeds_bind_quiet [OF succeeds_throw_if])
    prefer 4
    apply (rule succeeds_bind_cons [OF start])
    apply (rule succeeds_bind_quiet [OF succeeds_lift [OF accept]])
    apply (rule succeeds_bind [OF succeeds_on_raise [OF transfer]])
    apply (simp add: g(3) succeeds_ret)
    using assms by auto
  then show ?thesis
    unfolding coop_replies_def f g(1) by (intro exI [of _ ?r]) simp
qed

text \<open>A concrete run, used by the examples below.\<close>

definition ex_ident :: bytes where
  "ex_ident = replicate 16 1"

definition ex_world :: "frame res list \<Rightarrow> json world" where
  "ex_world replies = \<lparr>w_replies = replies, w_log = []\<rparr>"

lemma ex_bundle_ok: "bundle_ok ex_bundle" "sb_flash_size ex_bundle < 256 ^ 4"
  by (simp_all add: bundle_ok_def ex_bundle_def MAX_COMPONENTS_def component_ok_def
      component_alignment_def MAX_COMPONENT_BYTES_def regions_disjoint_def protected_ok_def of_kind_def
      kind_members_def)

lemma ex_sizes:
  "length (sb_manifest_bytes ex_bundle) \<le> 0xFFFF" "length (sb_signature ex_bundle) \<le> 0xFFFF"
  "length ex_ident = 16" "ex_ident \<noteq> replicate 16 0"
  by (simp_all add: ex_bundle_def ex_ident_def numeral_eq_Suc)

lemma ex_run:
  "\<exists>r v. perform_system_update (Inr 32768) ex_bundle (Some ex_ident) [] None
      (ex_world (coop_replies ex_ident 7 1 ex_bundle)) = (Returned r, v) \<and> w_replies v = []"
proof -
  have cap: "has_capability 32768 Capability_SYSTEM_UPDATE"
    by (simp add: has_capability_def)
  have cb: "callback_returns None" by (simp add: callback_returns_def)
  obtain r where "succeeds (perform_system_update (Inr 32768) ex_bundle (Some ex_ident) [] None)
       (coop_replies ex_ident 7 1 ex_bundle) r"
    using coop_perform [OF ex_bundle_ok ex_sizes _ _ _ _ cap cb, of 1 7] by auto
  then show ?thesis
    by (rule succeedsD [where w = "ex_world (coop_replies ex_ident 7 1 ex_bundle)"])
       (auto simp: ex_world_def)
qed

section \<open>Further claims\<close>

theorem commit_only_after_confirmation_witness:
  "\<exists>r v l1 rq reply l2. perform_system_update (Inr 32768) ex_bundle (Some ex_ident) [] None
      (ex_world (coop_replies ex_ident 7 1 ex_bundle)) = (Returned r, v)
    \<and> w_log v = l1 @ Exchange rq reply # l2 \<and> is_su SystemUpdateType_COMMIT rq
    \<and> covers_all (sb_components ex_bundle) (confirmed l1)"
proof -
  obtain r v where run: "perform_system_update (Inr 32768) ex_bundle (Some ex_ident) [] None
      (ex_world (coop_replies ex_ident 7 1 ex_bundle)) = (Returned r, v)"
    using ex_run by blast
  then obtain ident l1 reply l2 where
    log: "w_log v = l1 @ Exchange (su_request SystemUpdateType_COMMIT ident) reply # l2"
    using perform_evidence [OF run] by blast
  have "covers_all (sb_components ex_bundle) (confirmed l1)"
    by (rule commit_only_after_confirmation [OF ex_bundle_ok(1) run _ log])
       (simp_all add: ex_world_def)
  with run log show ?thesis
    by (intro exI [of _ r] exI [of _ v] exI [of _ l1]
        exI [of _ "su_request SystemUpdateType_COMMIT ident"] exI [of _ reply] exI [of _ l2]) simp
qed

text \<open>
  What a reported success rests on: the transaction that returns has sent its commit,
  with its identifier, and reports the evidence it has: a commit response for this identifier and
  job with result 0; or, after a timeout, a status that shows this operation as committed with
  result 0; or the loss of the connection while the commit was awaited. The reported bytes are
  the sizes of all components.
\<close>

theorem update_success_evidence:
  assumes "perform_system_update ready b operation_id token cb w = (Returned r, v)"
  shows "\<exists>ident l1 reply l2. sr_operation_id r = hex ident
    \<and> w_log v = l1 @ Exchange (su_request SystemUpdateType_COMMIT ident) reply # l2
    \<and> (case sr_completion_evidence r of
         Commit_response \<Rightarrow> (\<exists>f. reply = Inr f \<and> is_su_type f SystemUpdateType_COMMIT_RESPONSE
           \<and> take 16 (fr_payload f) = ident \<and> uint_at 4 16 (fr_payload f) = sr_job_id r
           \<and> sint_at 4 20 (fr_payload f) = 0)
       | Device_status \<Rightarrow> (\<exists>e f st. reply = Inl e \<and> is_timeout e
           \<and> l2 = [Exchange (su_request SystemUpdateType_STATUS []) (Inr f)]
           \<and> decode_system_update_status (fr_payload f) = Inr st
           \<and> ss_operation_id st = hex ident \<and> ss_phase st = SP_committed \<and> ss_result st = 0)
       | Session_close \<Rightarrow> (\<exists>e. reply = Inl e \<and> \<not> is_timeout e \<and> is_os_error e))"
  using assms by (rule perform_evidence)

theorem update_success_evidence_witness:
  "\<exists>r v ident l1 reply l2. perform_system_update (Inr 32768) ex_bundle (Some ex_ident) [] None
      (ex_world (coop_replies ex_ident 7 1 ex_bundle)) = (Returned r, v)
    \<and> sr_operation_id r = hex ident
    \<and> w_log v = l1 @ Exchange (su_request SystemUpdateType_COMMIT ident) reply # l2"
proof -
  obtain r v where run: "perform_system_update (Inr 32768) ex_bundle (Some ex_ident) [] None
      (ex_world (coop_replies ex_ident 7 1 ex_bundle)) = (Returned r, v)"
    using ex_run by blast
  with update_success_evidence [OF run] show ?thesis by blast
qed

theorem update_failure_cancels_witness:
  "\<exists>e v l reply. perform_system_update (Inr 32768) ex_bundle (Some ex_ident) [] None
      (ex_world (take 1 (coop_replies ex_ident 7 1 ex_bundle)
         @ [Inl (ConnectionError ''closed''), Inl (ConnectionError ''closed'')])) = (Raised e, v)
    \<and> w_log v = l @ [Exchange (su_request SystemUpdateType_CANCEL ex_ident) reply]"
proof -
  let ?w = "ex_world (take 1 (coop_replies ex_ident 7 1 ex_bundle)
         @ [Inl (ConnectionError ''closed''), Inl (ConnectionError ''closed'')])"
  let ?e = "ConnectionError ''closed''"
  obtain f where f: "su_frame SystemUpdateType_BEGIN_RESPONSE
      (ex_ident @ le_bytes 4 7 @ le_bytes 2 1 @ le_bytes 1 (length (sb_components ex_bundle)) @ [0]) = Inr f"
    by (simp add: su_frame_def)
  obtain job where accept: "su_accept ex_bundle ex_ident f = Inr job" and job: "sj_identifier job = ex_ident"
    using coop_accept [OF ex_sizes(3) _ _ _ _ _ f] by (simp add: ex_bundle_def)
  have ident: "su_identifier (Some ex_ident) [] = ex_ident"
    by (simp add: su_identifier_def ex_ident_def numeral_eq_Suc)
  obtain m where m: "su_begin_message ex_bundle ex_ident = Inr m"
    by (simp add: su_begin_message_def ex_bundle_def)
  obtain c cs where cs: "sb_components ex_bundle = c # cs" and c: "encodable c"
    using bundle_ok_encodable [OF ex_bundle_ok] by (auto simp: ex_bundle_def)
  obtain d where d: "su_descriptor ex_ident c = Inr d"
    using c by (auto simp: su_descriptor_def encodable_def)
  define w0 where "w0 = ?w"
  have w: "w_replies w0 = [Inr f, Inl ?e, Inl ?e]" "w_log w0 = []"
    by (simp_all add: w0_def ex_world_def coop_replies_def f [unfolded One_nat_def])
  let ?b = "Exchange (su_request SystemUpdateType_BEGIN m) (Inr f)"
  let ?o = "Exchange (su_request SystemUpdateType_COMPONENT_BEGIN d) (Inl ?e)"
  let ?c = "Exchange (su_request SystemUpdateType_CANCEL ex_ident) (Inl ?e)"
  have 1: "su_begin_request ex_bundle ex_ident m w0 = (Returned f, w0\<lparr>w_replies := [Inl ?e, Inl ?e], w_log := [?b]\<rparr>)"
    by (simp add: su_begin_request_def catch_def ask_def w)
  have 2: "su_transfer None job ex_bundle (w0\<lparr>w_replies := [Inl ?e, Inl ?e], w_log := [?b]\<rparr>)
      = (Raised ?e, w0\<lparr>w_replies := [Inl ?e], w_log := [?b, ?o]\<rparr>)"
    by (simp add: su_transfer_def cs su_component_def su_open_def job d bindio_def ask_def)
  have 3: "su_cancel ex_ident (w0\<lparr>w_replies := [Inl ?e], w_log := [?b, ?o]\<rparr>)
      = (Returned (), w0\<lparr>w_replies := [], w_log := [?b, ?o, ?c]\<rparr>)"
    by (simp add: su_cancel_def suppress_def catch_def bindio_def ask_def)
  have run: "perform_system_update (Inr 32768) ex_bundle (Some ex_ident) [] None ?w
      = (Raised ?e, w0\<lparr>w_replies := [], w_log := [?b, ?o, ?c]\<rparr>)"
    unfolding w0_def [symmetric]
    using ex_sizes
    by (simp add: perform_system_update_def ident m has_capability_def bindio_def 1 accept
        on_raise_def catch_def 2 3 throw_def ret_def)
  have "\<exists>l reply. w_log (w0\<lparr>w_replies := [], w_log := [?b, ?o, ?c]\<rparr>) =
      l @ [Exchange (su_request SystemUpdateType_CANCEL (su_identifier (Some ex_ident) [])) reply]"
    by (rule update_failure_cancels [OF run]) (auto simp: ex_world_def)
  with run ident show ?thesis by auto
qed



end
