(* ===== verification/Files.thy ===== *)
theory Files
  imports Json_Value Device_IO Sha256
begin

text \<open>
  The file service client (\<^verbatim>\<open>files.py\<close>): paths, status checks, volumes, stat, directory
  listing, ranged reads, uploads with write reconciliation, and the simple operations. The bytes
  an asynchronous generator yields and the progress of an upload are notifications of the log.
\<close>

section \<open>Requests and checked responses\<close>

definition file_request :: "file_type \<Rightarrow> bytes \<Rightarrow> nat \<Rightarrow> request" where
  "file_request ty payload stream_id =
     \<lparr>rq_channel = channel_code Channel_FILE, rq_type = file_type_code ty,
      rq_payload = payload, rq_stream = stream_id\<rparr>"

definition is_volume_char :: "nat \<Rightarrow> bool" where
  "is_volume_char c \<longleftrightarrow> (0x41 \<le> c \<and> c \<le> 0x5A) \<or> (0x61 \<le> c \<and> c \<le> 0x7A)
     \<or> (0x30 \<le> c \<and> c \<le> 0x39) \<or> c = 0x5F \<or> c = 0x2D"

text \<open>\<^verbatim>\<open>VOLUME_ID.fullmatch\<close>.\<close>

definition is_volume_id :: "ustr \<Rightarrow> bool" where
  "is_volume_id s \<longleftrightarrow> 1 \<le> length s \<and> length s \<le> 15 \<and> list_all is_volume_char s"

definition file_error_http_status :: "file_status \<Rightarrow> nat" where
  "file_error_http_status status =
     (case status of
        FileStatus_INVALID_ARGUMENT \<Rightarrow> 400 | FileStatus_NOT_FOUND \<Rightarrow> 404
      | FileStatus_NOT_DIRECTORY \<Rightarrow> 400 | FileStatus_NOT_FILE \<Rightarrow> 400
      | FileStatus_READ_ONLY \<Rightarrow> 403 | FileStatus_BUSY \<Rightarrow> 409 | FileStatus_NO_MEMORY \<Rightarrow> 503
      | FileStatus_IO \<Rightarrow> 502 | FileStatus_NOT_SUPPORTED \<Rightarrow> 501 | FileStatus_CONFLICT \<Rightarrow> 409
      | FileStatus_EXISTS \<Rightarrow> 409 | FileStatus_NOT_EMPTY \<Rightarrow> 409 | FileStatus_NO_SPACE \<Rightarrow> 507
      | FileStatus_HASH_MISMATCH \<Rightarrow> 422 | _ \<Rightarrow> 502)"

definition path_payload :: "ustr \<Rightarrow> ustr \<Rightarrow> bytes res" where
  "path_payload volume path =
     bindr (raise_if (\<not> is_volume_id volume)
              (ValueError ''file volume ID must contain 1 to 15 ASCII identifier bytes'')) (\<lambda>_.
     bindr (raise_if (path \<noteq> [] \<and> (hd path = 0x2F \<or> last path = 0x2F) \<or> 0x5C \<in> set path)
              (ValueError ''file path must be an unrooted canonical relative path'')) (\<lambda>_.
     let parts = (if path \<noteq> [] then split_slash [] path else []) in
     bindr (raise_if (\<not> list_all (\<lambda>part. part \<notin> set [[], u ''.'', u ''..'']) parts)
              (ValueError ''file path contains an invalid component'')) (\<lambda>_.
     case utf8_encode path of
       None \<Rightarrow> Inl UnicodeError
     | Some encoded_path \<Rightarrow>
         bindr (raise_if (length encoded_path > 255
                   \<or> \<not> list_all (\<lambda>b. 0x20 \<le> unat b \<and> unat b \<noteq> 0x7F) encoded_path)
                  (ValueError ''file path exceeds 255 bytes or contains control bytes'')) (\<lambda>_.
         Inr (le_bytes 1 (length volume) @ [0] @ le_bytes 2 (length encoded_path)
              @ map of_nat volume @ encoded_path)))))"

definition checked :: "frame \<Rightarrow> file_type \<Rightarrow> string \<Rightarrow> nat \<Rightarrow> bytes res" where
  "checked frame ty operation minimum =
     bindr (raise_if (fr_channel frame \<noteq> int (channel_code Channel_FILE)
                \<or> fr_type frame \<noteq> int (file_type_code ty) \<or> length (fr_payload frame) < 4)
              (ProtocolError (''unexpected file '' @ operation @ '' response''))) (\<lambda>_.
     case enum_of file_status_code file_status_members (uint_at 2 0 (fr_payload frame)) of
       None \<Rightarrow> Inl (ProtocolError ''unknown file status'')
     | Some status \<Rightarrow>
         if status \<noteq> FileStatus_OK then Inl (FileServiceError status operation)
         else bindr (raise_if (length (fr_payload frame) < minimum)
                  (ProtocolError (''short file '' @ operation @ '' response''))) (\<lambda>_.
              Inr (fr_payload frame)))"

section \<open>Volumes and metadata\<close>

definition VOLUME_CAPABILITIES :: "(nat \<times> string) list" where
  "VOLUME_CAPABILITIES =
     [(0, ''read''), (1, ''list''), (2, ''mtime''), (3, ''write''), (4, ''delete''),
      (5, ''mkdir''), (6, ''rename''), (7, ''atomic_replace''), (8, ''hash'')]"

definition volume_record :: "bytes \<Rightarrow> nat \<times> json list \<Rightarrow> (nat \<times> json list) res" where
  "volume_record payload st =
     (case st of (offset, volumes) \<Rightarrow>
      bindr (raise_if (offset + 4 > length payload) (ProtocolError ''truncated file volume record'')) (\<lambda>_.
      let name_size = uint_at 1 offset payload;
          reserved = uint_at 1 (offset + 1) payload;
          capabilities = uint_at 2 (offset + 2) payload;
          offset = offset + 4 in
      bindr (raise_if (reserved \<noteq> 0 \<or> name_size = 0 \<or> offset + name_size > length payload)
               (ProtocolError ''invalid file volume record'')) (\<lambda>_.
      case ascii_decode_strict (pyslice offset (offset + name_size) payload) of
        None \<Rightarrow> Inl UnicodeError
      | Some name \<Rightarrow>
          Inr (offset + name_size, volumes @
            [JDict [item ''id'' (JStr name), item ''capabilities'' (jnat capabilities),
                    item ''capability_names'' (JList (map (\<lambda>c. jstr (snd c))
                      (filter (\<lambda>c. bit capabilities (fst c)) VOLUME_CAPABILITIES)))]]))))"

definition volumes :: "('p, json) io" where
  "volumes =
     bindio (ask (file_request FileType_VOLUMES_REQUEST [] 0)) (\<lambda>frame.
     bindio (lift_res (checked frame FileType_VOLUMES_RESPONSE ''volumes'' 12)) (\<lambda>payload.
     let chunk_max = uint_at 2 4 payload;
         path_max = uint_at 2 6 payload;
         count = uint_at 1 8 payload in
     bindio (lift_res (foldlr (\<lambda>st _. volume_record payload st) (12, []) [0..<count])) (\<lambda>(offset, vols).
     bindio (throw_if (offset \<noteq> length payload \<or> chunk_max = 0 \<or> path_max = 0)
               (ProtocolError ''invalid file volumes response'')) (\<lambda>_.
     ret (JDict [item ''volumes'' (JList vols), item ''chunk_max'' (jnat chunk_max),
                 item ''path_max'' (jnat path_max)])))))"

text \<open>\<^verbatim>\<open>f"{etag:016x}"\<close> of a 64-bit value is the hexadecimal text of its big-endian bytes.\<close>

definition etag_text :: "nat \<Rightarrow> string" where
  "etag_text etag = hex (be_bytes 8 etag)"

definition file_kind :: "nat \<Rightarrow> string option" where
  "file_kind kind = (if kind = 1 then Some ''file'' else if kind = 2 then Some ''directory'' else None)"

definition metadata :: "bytes \<Rightarrow> nat \<Rightarrow> bool \<Rightarrow> dict res" where
  "metadata payload offset list_entry =
     bindr (raise_if (length payload < offset + 28) (ProtocolError ''short file metadata'')) (\<lambda>_.
     let kind = uint_at 1 offset payload;
         reserved_byte = uint_at 1 (offset + 1) payload;
         reserved = uint_at 2 (offset + 2) payload;
         size = uint_at 8 (offset + 4) payload;
         mtime_s = uint_at 8 (offset + 12) payload;
         etag = uint_at 8 (offset + 20) payload
     in case file_kind kind of
          None \<Rightarrow> Inl (ProtocolError ''invalid file metadata'')
        | Some name \<Rightarrow>
            bindr (raise_if ((\<not> list_entry \<and> reserved_byte \<noteq> 0) \<or> reserved \<noteq> 0)
                     (ProtocolError ''invalid file metadata'')) (\<lambda>_.
            Inr [item ''kind'' (jstr name), item ''size'' (jnat size),
                 item ''mtime_s'' (jnat mtime_s), item ''etag'' (jstr (etag_text etag))]))"

text \<open>One request whose response carries metadata of 32 bytes (\<^verbatim>\<open>stat\<close>, \<^verbatim>\<open>mkdir\<close>, \<^verbatim>\<open>rename\<close>).\<close>

definition metadata_call ::
  "file_type \<Rightarrow> bytes res \<Rightarrow> file_type \<Rightarrow> string \<Rightarrow> dict \<Rightarrow> ('p, dict) io" where
  "metadata_call ty request_payload response operation prefix =
     bindio (lift_res request_payload) (\<lambda>rp.
     bindio (ask (file_request ty rp 0)) (\<lambda>frame.
     bindio (lift_res (checked frame response operation 32)) (\<lambda>payload.
     bindio (throw_if (length payload \<noteq> 32)
               (ProtocolError (''invalid file '' @ operation @ '' response''))) (\<lambda>_.
     bindio (lift_res (metadata payload 4 False)) (\<lambda>meta.
     ret (prefix @ meta))))))"

definition located :: "ustr \<Rightarrow> ustr \<Rightarrow> dict" where
  "located volume path = [item ''volume'' (JStr volume), item ''path'' (JStr path)]"

definition stat :: "ustr \<Rightarrow> ustr \<Rightarrow> ('p, dict) io" where
  "stat volume path =
     metadata_call FileType_STAT_REQUEST (path_payload volume path) FileType_STAT_RESPONSE ''stat''
       (located volume path)"

definition mkdir :: "ustr \<Rightarrow> ustr \<Rightarrow> ('p, dict) io" where
  "mkdir volume path =
     metadata_call FileType_MKDIR (path_payload volume path) FileType_MKDIR_RESPONSE ''mkdir''
       (located volume path)"

definition delete_file :: "ustr \<Rightarrow> ustr \<Rightarrow> ('p, dict) io" where
  "delete_file volume path =
     bindio (lift_res (path_payload volume path)) (\<lambda>rp.
     bindio (ask (file_request FileType_DELETE rp 0)) (\<lambda>frame.
     bindio (lift_res (checked frame FileType_DELETE_RESPONSE ''delete'' 4)) (\<lambda>payload.
     bindio (throw_if (length payload \<noteq> 4) (ProtocolError ''invalid file delete response'')) (\<lambda>_.
     ret (located volume path @ [item ''deleted'' (JBool True)])))))"

definition rename_payload :: "ustr \<Rightarrow> ustr \<Rightarrow> ustr \<Rightarrow> bytes res" where
  "rename_payload volume source destination =
     bindr (path_payload volume source) (\<lambda>_.
     bindr (path_payload volume destination) (\<lambda>_.
     case (utf8_encode source, utf8_encode destination) of
       (Some s, Some d) \<Rightarrow>
         Inr (le_bytes 1 (length volume) @ [0] @ le_bytes 2 (length s) @ le_bytes 2 (length d) @ [0, 0]
              @ map of_nat volume @ s @ d)
     | _ \<Rightarrow> Inl UnicodeError))"

definition rename :: "ustr \<Rightarrow> ustr \<Rightarrow> ustr \<Rightarrow> ('p, dict) io" where
  "rename volume source destination =
     metadata_call FileType_RENAME (rename_payload volume source destination) FileType_RENAME_RESPONSE
       ''rename'' [item ''volume'' (JStr volume), item ''source'' (JStr source),
                   item ''path'' (JStr destination)]"

section \<open>Directory listing\<close>

definition close_stream :: "nat \<Rightarrow> ('p, unit) io" where
  "close_stream stream_id = suppress (ask (file_request FileType_CLOSE [] stream_id))"

text \<open>The entry a page carries, if any.\<close>

definition list_entry :: "bytes \<Rightarrow> json option res" where
  "list_entry page =
     (if uint_at 1 3 page = 1 then
        bindr (metadata page 4 True) (\<lambda>meta.
        let name_size = uint_at 1 5 page in
        bindr (raise_if (length page \<noteq> 32 + name_size) (ProtocolError ''invalid file list entry'')) (\<lambda>_.
        case utf8_decode_strict (drop 32 page) of
          None \<Rightarrow> Inl UnicodeError
        | Some name \<Rightarrow> Inr (Some (JDict (item ''name'' (JStr name) # meta)))))
      else
        bindr (raise_if (length page \<noteq> 4) (ProtocolError ''invalid empty file list page'')) (\<lambda>_.
        Inr None))"

text \<open>The effect of a page on the entries and the count seen so far, and whether the loop ends.\<close>

definition list_advance ::
  "nat \<Rightarrow> int \<Rightarrow> int \<Rightarrow> json list \<times> nat \<Rightarrow> frame \<Rightarrow> ((json list \<times> nat) \<times> bool) res" where
  "list_advance stream_id cursor limit st frame =
     bindr (checked frame FileType_LIST_DATA ''list next'' 4) (\<lambda>page.
     bindr (raise_if (fr_stream_id frame \<noteq> int stream_id \<or> uint_at 1 3 page \<notin> set [0, 1])
              (ProtocolError ''invalid file list page'')) (\<lambda>_.
     let ended = bit (uint_at 1 2 page) 0 in
     bindr (list_entry page) (\<lambda>found.
     let st' = (case found of
                  None \<Rightarrow> st
                | Some entry \<Rightarrow>
                    (if int (snd st) \<ge> cursor then fst st @ [entry] else fst st, Suc (snd st)))
     in Inr (st', ended \<or> int (length (fst st')) > limit))))"

definition list_page ::
  "nat \<Rightarrow> int \<Rightarrow> int \<Rightarrow> json list \<times> nat \<Rightarrow> ('p, (json list \<times> nat) \<times> bool) io" where
  "list_page stream_id cursor limit st =
     bindio (ask (file_request FileType_LIST_NEXT [] stream_id)) (\<lambda>frame.
     lift_res (list_advance stream_id cursor limit st frame))"

lemma list_page_consumes:
  "list_page sid cursor limit st w = (Returned x, v) \<Longrightarrow> length (w_replies v) < length (w_replies w)"
  by (auto simp: list_page_def io_returned)

function list_loop :: "nat \<Rightarrow> int \<Rightarrow> int \<Rightarrow> json list \<times> nat \<Rightarrow> ('p, json list) io" where
  "list_loop stream_id cursor limit st w =
     (if int (length (fst st)) \<le> limit then
        bindio (list_page stream_id cursor limit st) (\<lambda>page v.
          if snd page then ret (fst (fst page)) v
          else list_loop stream_id cursor limit (fst page) v) w
      else ret (fst st) w)"
  by pat_completeness auto
termination
  by (relation "measure (\<lambda>(sid, cursor, limit, st, w). length (w_replies w))")
     (auto dest: list_page_consumes)

declare list_loop.simps [simp del]

definition list_open :: "ustr \<Rightarrow> ustr \<Rightarrow> ('p, nat) io" where
  "list_open volume path =
     bindio (lift_res (path_payload volume path)) (\<lambda>rp.
     bindio (ask (file_request FileType_LIST_OPEN rp 0)) (\<lambda>opened.
     bindio (lift_res (checked opened FileType_LIST_OPENED ''list open'' 8)) (\<lambda>payload.
     bindio (throw_if (length payload \<noteq> 8) (ProtocolError ''invalid file list open response'')) (\<lambda>_.
     let stream_id = uint_at 4 4 payload in
     bindio (throw_if (stream_id = 0 \<or> fr_stream_id opened \<noteq> int stream_id)
               (ProtocolError ''invalid file list stream ID'')) (\<lambda>_.
     ret stream_id)))))"

definition list_result :: "ustr \<Rightarrow> ustr \<Rightarrow> int \<Rightarrow> int \<Rightarrow> json list \<Rightarrow> dict" where
  "list_result volume path cursor limit entries =
     (let has_more = (int (length entries) > limit);
          entries = (if has_more then butlast entries else entries)
      in located volume path @
          [item ''entries'' (JList entries), item ''cursor'' (JInt cursor),
           item ''next_cursor'' (if has_more then JInt (cursor + int (length entries)) else JNull),
           item ''snapshot'' (JBool False)])"

definition list_directory :: "ustr \<Rightarrow> ustr \<Rightarrow> int \<Rightarrow> int \<Rightarrow> ('p, dict) io" where
  "list_directory volume path cursor limit =
     bindio (throw_if (cursor < 0 \<or> \<not> (1 \<le> limit \<and> limit \<le> 200))
               (ValueError ''file list cursor/limit is outside the supported range'')) (\<lambda>_.
     bindio (list_open volume path) (\<lambda>stream_id.
     bindio (finally_io (list_loop stream_id cursor limit ([], 0)) (close_stream stream_id)) (\<lambda>entries.
     ret (list_result volume path cursor limit entries))))"

section \<open>Ranged reads\<close>

text \<open>The parameters of an open read stream.\<close>

record read_stream =
  rd_stream_id :: nat
  rd_total_size :: nat
  rd_chunk_max :: nat

text \<open>The check of a data response, and the bytes that are handed on.\<close>

definition read_data :: "read_stream \<Rightarrow> nat \<Rightarrow> nat \<Rightarrow> nat \<Rightarrow> frame \<Rightarrow> bytes res" where
  "read_data rd stop cursor maximum frame =
     bindr (checked frame FileType_DATA ''read'' 20) (\<lambda>data_payload.
     let returned_offset = uint_at 8 4 data_payload;
         returned_total = uint_at 8 12 data_payload;
         data = drop 20 data_payload in
     bindr (raise_if (fr_stream_id frame \<noteq> int (rd_stream_id rd) \<or> returned_offset \<noteq> cursor
               \<or> returned_total \<noteq> rd_total_size rd \<or> data = [] \<or> length data > maximum)
               (ProtocolError ''invalid file data response'')) (\<lambda>_.
     Inr (if cursor + length data > stop then take (stop - cursor) data else data)))"

text \<open>One iteration: the next cursor. The consumer \<open>cb\<close> of the generator receives the bytes; an
  exception it answers with is the one thrown at the \<^verbatim>\<open>yield\<close>.\<close>

definition read_step :: "bytes callback \<Rightarrow> read_stream \<Rightarrow> nat \<Rightarrow> nat \<Rightarrow> (bytes, nat) io" where
  "read_step cb rd stop cursor =
     (let maximum = min (min (rd_chunk_max rd) (stop - cursor)) 0xFFFF in
      bindio (lift_res (pack_uint StructError 8 (int cursor))) (\<lambda>c.
      bindio (ask (file_request FileType_READ (c @ le_bytes 2 maximum @ [0, 0]) (rd_stream_id rd))) (\<lambda>frame.
      bindio (lift_res (read_data rd stop cursor maximum frame)) (\<lambda>data.
      bindio (notify cb data) (\<lambda>_.
      ret (cursor + length data))))))"

lemma read_step_consumes:
  "read_step cb rd stop cursor w = (Returned x, v) \<Longrightarrow> length (w_replies v) < length (w_replies w)"
  by (auto simp: read_step_def Let_def bindio_Returned ask_Returned dest!: notify_replies)

function read_loop :: "bytes callback \<Rightarrow> read_stream \<Rightarrow> nat \<Rightarrow> nat \<Rightarrow> (bytes, unit) io" where
  "read_loop cb rd stop cursor w =
     (if cursor < stop then bindio (read_step cb rd stop cursor) (read_loop cb rd stop) w
      else ret () w)"
  by pat_completeness auto
termination
  by (relation "measure (\<lambda>(cb, rd, stop, cursor, w). length (w_replies w))")
     (auto dest: read_step_consumes)

declare read_loop.simps [simp del]

definition read_open :: "ustr \<Rightarrow> ustr \<Rightarrow> (bytes, read_stream) io" where
  "read_open volume path =
     bindio (lift_res (path_payload volume path)) (\<lambda>rp.
     bindio (ask (file_request FileType_READ_OPEN rp 0)) (\<lambda>opened.
     bindio (lift_res (checked opened FileType_READ_OPENED ''read open'' 36)) (\<lambda>payload.
     bindio (throw_if (length payload \<noteq> 36) (ProtocolError ''invalid file read open response'')) (\<lambda>_.
     let stream_id = uint_at 4 4 payload;
         total_size = uint_at 8 8 payload;
         chunk_max = uint_at 2 32 payload;
         reserved = uint_at 2 34 payload in
     bindio (throw_if (stream_id = 0 \<or> fr_stream_id opened \<noteq> int stream_id \<or> chunk_max = 0 \<or> reserved \<noteq> 0)
               (ProtocolError ''invalid file read stream metadata'')) (\<lambda>_.
     ret \<lparr>rd_stream_id = stream_id, rd_total_size = total_size, rd_chunk_max = chunk_max\<rparr>)))))"

definition read_end :: "read_stream \<Rightarrow> int \<Rightarrow> int option \<Rightarrow> nat" where
  "read_end rd offset len =
     (case len of None \<Rightarrow> rd_total_size rd | Some n \<Rightarrow> nat (min (int (rd_total_size rd)) (offset + n)))"

definition read_chunks :: "bytes callback \<Rightarrow> ustr \<Rightarrow> ustr \<Rightarrow> int \<Rightarrow> int option \<Rightarrow> (bytes, unit) io" where
  "read_chunks cb volume path offset len =
     bindio (throw_if (offset < 0 \<or> (case len of None \<Rightarrow> False | Some n \<Rightarrow> n < 0))
               (ValueError ''file read range must be nonnegative'')) (\<lambda>_.
     bindio (read_open volume path) (\<lambda>rd.
     bindio (throw_if (offset > int (rd_total_size rd))
               (ValueError ''file read offset exceeds file size'')) (\<lambda>_.
     finally_io (read_loop cb rd (read_end rd offset len) (nat offset))
       (close_stream (rd_stream_id rd)))))"

section \<open>Uploads\<close>

definition is_hex :: "nat \<Rightarrow> bool" where
  "is_hex c \<longleftrightarrow> hex_value c \<noteq> None"

definition hex_int :: "ustr \<Rightarrow> nat" where
  "hex_int s = foldl (\<lambda>acc c. 16 * acc + (case hex_value c of Some d \<Rightarrow> d | None \<Rightarrow> 0)) 0 s"

definition etag_value :: "ustr option \<Rightarrow> nat res" where
  "etag_value v =
     (case v of
        None \<Rightarrow> Inr 0
      | Some s \<Rightarrow>
          let normalized = strip_by (\<lambda>c. c = 0x22) (remove_prefix ''W/'' (strip_by py_space s)) in
          if length normalized = 16 \<and> list_all is_hex normalized then Inr (hex_int normalized)
          else Inl (ValueError ''file etag must contain exactly 16 hexadecimal characters''))"

datatype write_state = WRITE_ACTIVE | WRITE_COMMITTED | WRITE_ABORTED

primrec write_state_code :: "write_state \<Rightarrow> nat" where
  "write_state_code WRITE_ACTIVE = 1"
| "write_state_code WRITE_COMMITTED = 2"
| "write_state_code WRITE_ABORTED = 3"

definition write_state_members :: "write_state list" where
  "write_state_members = [WRITE_ACTIVE, WRITE_COMMITTED, WRITE_ABORTED]"

interpretation write_state: value_enum write_state_code write_state_members
proof
  show "x \<in> set write_state_members" for x
    by (cases x) (simp_all add: write_state_members_def)
qed (simp add: write_state_members_def)

record write_status_info =
  ws_stream_id :: nat
  ws_committed :: nat
  ws_expected :: nat
  ws_state :: write_state
  ws_result :: file_status

definition decode_write_status :: "nat \<Rightarrow> frame \<Rightarrow> write_status_info res" where
  "decode_write_status stream_id frame =
     bindr (checked frame FileType_WRITE_STATUS_RESPONSE ''write status'' 28) (\<lambda>payload.
     bindr (raise_if (length payload \<noteq> 28 \<or> fr_stream_id frame \<noteq> int stream_id)
              (ProtocolError ''invalid file write status response'')) (\<lambda>_.
     case enum_of write_state_code write_state_members (uint_at 1 20 payload) of
       None \<Rightarrow> Inl (ProtocolError ''invalid file write status fields'')
     | Some state \<Rightarrow>
         bindr (raise_if (\<not> list_all (\<lambda>b. b = 0) (pyslice 21 24 payload) \<or> uint_at 2 26 payload \<noteq> 0)
                  (ProtocolError ''invalid file write status fields'')) (\<lambda>_.
         case enum_of file_status_code file_status_members (uint_at 2 24 payload) of
           None \<Rightarrow> Inl (ProtocolError ''unknown file write result'')
         | Some result \<Rightarrow>
             Inr \<lparr>ws_stream_id = stream_id, ws_committed = uint_at 8 4 payload,
                  ws_expected = uint_at 8 12 payload, ws_state = state, ws_result = result\<rparr>)))"

definition write_status :: "nat \<Rightarrow> ('p, write_status_info) io" where
  "write_status stream_id =
     bindio (ask (file_request FileType_WRITE_STATUS [] stream_id)) (\<lambda>frame.
     lift_res (decode_write_status stream_id frame))"

text \<open>The reconciliation loop, by the number of attempts left (12 at the start).\<close>

fun is_busy :: "exn \<Rightarrow> bool" where
  "is_busy (FileServiceError status operation) \<longleftrightarrow> status = FileStatus_BUSY"
| "is_busy _ \<longleftrightarrow> False"

fun reconcile_attempts :: "nat \<Rightarrow> nat \<Rightarrow> ('p, write_status_info) io" where
  "reconcile_attempts 0 stream_id = throw AssertionError"
| "reconcile_attempts (Suc left) stream_id =
     catch (write_status stream_id) (\<lambda>e.
       if \<not> is_busy e \<or> left = 0 then throw e else reconcile_attempts left stream_id)"

definition reconcile_write_status :: "nat \<Rightarrow> ('p, write_status_info) io" where
  "reconcile_write_status = reconcile_attempts 12"

text \<open>The stream a device opened for an upload, and what has been sent and committed.\<close>

record write_stream =
  wr_stream_id :: nat
  wr_chunk_max :: nat
  wr_total_size :: int

type_synonym upload_progress = "nat \<times> int"

definition WRITE_OVERWRITE :: nat where "WRITE_OVERWRITE = 1"
definition WRITE_IF_MATCH :: nat where "WRITE_IF_MATCH = 2"

definition write_open :: "ustr \<Rightarrow> ustr \<Rightarrow> int \<Rightarrow> bool \<Rightarrow> ustr option \<Rightarrow> ('p, write_stream) io" where
  "write_open volume path total_size overwrite if_match =
     bindio (throw_if (total_size < 0 \<or> total_size \<ge> 2 ^ 63)
               (ValueError ''file upload size is outside the supported range'')) (\<lambda>_.
     bindio (lift_res (etag_value if_match)) (\<lambda>if_match_value.
     let flags = (if overwrite then WRITE_OVERWRITE else 0) + (if if_match \<noteq> None then WRITE_IF_MATCH else 0) in
     bindio (lift_res (path_payload volume path)) (\<lambda>rp.
     bindio (ask (file_request FileType_WRITE_OPEN
               (rp @ le_bytes 8 (nat total_size) @ le_bytes 8 if_match_value @ le_bytes 2 flags @ [0, 0]) 0)) (\<lambda>opened.
     bindio (lift_res (checked opened FileType_WRITE_OPENED ''write open'' 12)) (\<lambda>payload.
     bindio (throw_if (length payload \<noteq> 12) (ProtocolError ''invalid file write open response'')) (\<lambda>_.
     let stream_id = uint_at 4 4 payload;
         chunk_max = uint_at 2 8 payload;
         reserved = uint_at 2 10 payload in
     bindio (throw_if (stream_id = 0 \<or> fr_stream_id opened \<noteq> int stream_id \<or> chunk_max = 0 \<or> reserved \<noteq> 0)
               (ProtocolError ''invalid file write stream metadata'')) (\<lambda>_.
     ret \<lparr>wr_stream_id = stream_id, wr_chunk_max = chunk_max, wr_total_size = total_size\<rparr>)))))))"

definition write_message :: "nat \<Rightarrow> bytes \<Rightarrow> bytes res" where
  "write_message committed part =
     bindr (pack_uint StructError 8 (int committed)) (\<lambda>c.
     bindr (pack_uint StructError 2 (int (length part))) (\<lambda>n.
     Inr (c @ n @ [0, 0] @ part)))"

text \<open>One attempt: the part is acknowledged (\<open>True\<close>), or the loop tries again (\<open>False\<close>).\<close>

definition write_attempt :: "nat \<Rightarrow> bytes \<Rightarrow> nat \<Rightarrow> nat \<Rightarrow> ('p, bool) io" where
  "write_attempt stream_id part committed attempt =
     (let target = committed + length part in
      catch
        (bindio (lift_res (write_message committed part)) (\<lambda>message.
         bindio (ask (file_request FileType_WRITE message stream_id)) (\<lambda>frame.
         bindio (lift_res (checked frame FileType_WRITE_ACK ''write'' 12)) (\<lambda>ack.
         bindio (throw_if (length ack \<noteq> 12 \<or> fr_stream_id frame \<noteq> int stream_id \<or> uint_at 8 4 ack \<noteq> target)
                   (ProtocolError ''invalid file write acknowledgement'')) (\<lambda>_.
         ret True)))))
        (\<lambda>e. if is_timeout e then
                bindio (reconcile_write_status stream_id) (\<lambda>status.
                if ws_committed status = target then ret True
                else if ws_committed status \<noteq> committed \<or> attempt \<noteq> 0 then throw e
                else ret False)
              else throw e))"

definition upload_part ::
  "upload_progress callback \<Rightarrow> write_stream \<Rightarrow> bytes \<Rightarrow> bytes \<Rightarrow> (upload_progress, bytes) io" where
  "upload_part cb wr sent part =
     (let committed = length sent; target = committed + length part in
      bindio (write_attempt (wr_stream_id wr) part committed 0) (\<lambda>first.
      bindio (if first then ret True else write_attempt (wr_stream_id wr) part committed 1) (\<lambda>acknowledged.
      bindio (throw_if (\<not> acknowledged) (TimeoutError ''file write acknowledgement was not recovered'')) (\<lambda>_.
      bindio (notify cb (target, wr_total_size wr)) (\<lambda>_.
      ret (sent @ part))))))"

text \<open>\<^verbatim>\<open>for start in range(0, len(data), chunk_max)\<close>, on the bytes that are left; \<open>sent\<close> holds what
  the digest has seen, so that \<^verbatim>\<open>committed\<close> is its length.\<close>

function upload_parts ::
  "upload_progress callback \<Rightarrow> write_stream \<Rightarrow> bytes \<Rightarrow> bytes \<Rightarrow> (upload_progress, bytes) io" where
  "upload_parts cb wr sent data =
     (if data = [] \<or> wr_chunk_max wr = 0 then ret sent
      else bindio (upload_part cb wr sent (take (wr_chunk_max wr) data)) (\<lambda>sent'.
           upload_parts cb wr sent' (drop (wr_chunk_max wr) data)))"
  by pat_completeness auto
termination
  by (relation "measure (\<lambda>(cb, wr, sent, data). length data)") auto

declare upload_parts.simps [simp del]

text \<open>\<^verbatim>\<open>async for chunk in chunks\<close>: an item of the source is a chunk or the exception it raises.\<close>

fun upload_chunks ::
  "upload_progress callback \<Rightarrow> write_stream \<Rightarrow> bytes \<Rightarrow> bytes res list \<Rightarrow> (upload_progress, bytes) io" where
  "upload_chunks cb wr sent [] = ret sent"
| "upload_chunks cb wr sent (Inl e # chunks) = throw e"
| "upload_chunks cb wr sent (Inr data # chunks) =
     (if data = [] then upload_chunks cb wr sent chunks
      else bindio (throw_if (int (length sent + length data) > wr_total_size wr)
                     (ValueError ''HTTP upload exceeds its declared content length'')) (\<lambda>_.
           bindio (upload_parts cb wr sent data) (\<lambda>sent'.
           upload_chunks cb wr sent' chunks)))"

text \<open>The commit: \<open>None\<close> when a status after a timeout shows it done, else its response.\<close>

definition upload_commit :: "nat \<Rightarrow> bytes \<Rightarrow> ('p, frame option) io" where
  "upload_commit stream_id digest =
     (let commit = ask (file_request FileType_COMMIT digest stream_id) in
      catch (bindio commit (\<lambda>frame. ret (Some frame))) (\<lambda>e.
        if is_timeout e then
          bindio (reconcile_write_status stream_id) (\<lambda>status.
          if ws_state status = WRITE_COMMITTED \<and> ws_result status = FileStatus_OK then ret None
          else bindio (throw_if (ws_state status \<noteq> WRITE_ACTIVE)
                         (FileServiceError (ws_result status) ''commit'')) (\<lambda>_.
               bindio commit (\<lambda>frame. ret (Some frame))))
        else throw e))"

text \<open>The part of \<^verbatim>\<open>upload\<close> in which a failure aborts the stream (\<^verbatim>\<open>complete\<close> is false).\<close>

definition upload_body ::
  "upload_progress callback \<Rightarrow> write_stream \<Rightarrow> bytes res list \<Rightarrow> (upload_progress, bytes \<times> bytes option) io" where
  "upload_body cb wr chunks =
     bindio (upload_chunks cb wr [] chunks) (\<lambda>sent.
     bindio (throw_if (int (length sent) \<noteq> wr_total_size wr)
               (ValueError ''HTTP upload ended before its declared content length'')) (\<lambda>_.
     bindio (upload_commit (wr_stream_id wr) (sha256 sent)) (\<lambda>committed.
     case committed of
       None \<Rightarrow> ret (sent, None)
     | Some frame \<Rightarrow>
         bindio (lift_res (checked frame FileType_COMMIT_RESPONSE ''commit'' 32)) (\<lambda>result.
         bindio (throw_if (length result \<noteq> 32 \<or> fr_stream_id frame \<noteq> int (wr_stream_id wr))
                   (ProtocolError ''invalid file commit response'')) (\<lambda>_.
         ret (sent, Some result))))))"

definition abort_stream :: "nat \<Rightarrow> ('p, unit) io" where
  "abort_stream stream_id = suppress (ask (file_request FileType_ABORT [] stream_id))"

definition upload ::
  "upload_progress callback \<Rightarrow> ustr \<Rightarrow> ustr \<Rightarrow> bytes res list \<Rightarrow> int \<Rightarrow> bool \<Rightarrow> ustr option \<Rightarrow>
   (upload_progress, dict) io" where
  "upload cb volume path chunks total_size overwrite if_match =
     bindio (write_open volume path total_size overwrite if_match) (\<lambda>wr.
     bindio (on_raise (upload_body cb wr chunks) (abort_stream (wr_stream_id wr))) (\<lambda>(sent, result).
     bindio (case result of
               None \<Rightarrow> stat volume path
             | Some payload \<Rightarrow>
                 bindio (lift_res (metadata payload 4 False)) (\<lambda>meta. ret (located volume path @ meta))) (\<lambda>info.
     ret (info @ [item ''sha256'' (jstr (hex (sha256 sent))), item ''replaced'' (JBool overwrite)]))))"

section \<open>Checked responses\<close>

lemma checked_Inr:
  assumes "checked f ty operation m = Inr p"
  shows "p = fr_payload f" and "m \<le> length p" and "4 \<le> length p"
    and "fr_type f = int (file_type_code ty)" and "uint_at 2 0 p = file_status_code FileStatus_OK"
  using assms
  by (auto simp: checked_def bindr_eq_Inr raise_if_eq_Inr file_status.of_Some_iff
      split: option.splits if_splits simp del: file_status_code.simps)

lemma read_data_Inr:
  assumes "read_data rd stop cursor maximum f = Inr data" and "cursor < stop"
    and "maximum \<le> stop - cursor"
  shows "uint_at 8 4 (fr_payload f) = cursor" and "data = drop 20 (fr_payload f)" and "data \<noteq> []"
    and "cursor + length data \<le> stop"
proof -
  from assms(1) obtain p where p: "checked f FileType_DATA ''read'' 20 = Inr p"
    and cond: "uint_at 8 4 p = cursor" "drop 20 p \<noteq> []" "length (drop 20 p) \<le> maximum"
    and data: "data = (if cursor + length (drop 20 p) > stop then take (stop - cursor) (drop 20 p)
        else drop 20 p)"
    unfolding read_data_def Let_def by (elim bindr_InrE) (simp add: raise_if_eq_Inr)
  have "p = fr_payload f" by (rule checked_Inr(1) [OF p])
  moreover have "\<not> cursor + length (drop 20 p) > stop" using cond(3) assms(2,3) by simp
  ultimately show "uint_at 8 4 (fr_payload f) = cursor" "data = drop 20 (fr_payload f)" "data \<noteq> []"
    "cursor + length data \<le> stop"
    using cond data by simp_all
qed

end
