(* ===== verification/File_Reading.thy ===== *)
theory File_Reading
  imports Files
begin

text \<open>
  Reading files and directories: a completed read delivers exactly the requested range of the
  file, a listing delivers exactly the requested window of the directory, and the stream of the
  device is closed on every way out of the transfer loops.
\<close>

section \<open>Streams are closed\<close>

lemma close_stream_logs:
  assumes "close_stream sid w = (out, v)" and "out \<noteq> Blocked"
  obtains reply where "w_log v = w_log w @ [Exchange (file_request FileType_CLOSE [] sid) reply]"
  using assms
  by (cases "w_replies w")
     (auto simp: close_stream_def suppress_def catch_def bindio_def ask_def ret_def throw_def
      split: sum.splits if_splits)

lemma finally_closes:
  assumes "finally_io m (close_stream sid) w = (out, v)" and "out \<noteq> Blocked"
  shows "\<exists>l reply. w_log v = l @ [Exchange (file_request FileType_CLOSE [] sid) reply]"
proof -
  obtain o' w' where m: "m w = (o', w')" by fastforce
  have "\<exists>reply. w_log v = w_log w' @ [Exchange (file_request FileType_CLOSE [] sid) reply]"
  proof (cases o')
    case (Returned x)
    with assms m have "bindio (close_stream sid) (\<lambda>_. ret x) w' = (out, v)"
      by (simp add: finally_io_def)
    with assms(2) show ?thesis
      by (cases "close_stream sid w'")
         (auto simp: bindio_def split: outcome.splits elim: close_stream_logs)
  next
    case (Raised e)
    with assms m have "bindio (close_stream sid) (\<lambda>_. throw e) w' = (out, v)"
      by (simp add: finally_io_def)
    with assms(2) show ?thesis
      by (cases "close_stream sid w'")
         (auto simp: bindio_def split: outcome.splits elim: close_stream_logs)
  next
    case Blocked
    with assms m show ?thesis by (simp add: finally_io_def)
  qed
  then show ?thesis by blast
qed

section \<open>The range of a read\<close>

text \<open>The bytes handed to the consumer.\<close>

fun yielded :: "bytes event list \<Rightarrow> bytes" where
  "yielded [] = []"
| "yielded (Notify data # l) = data @ yielded l"
| "yielded (Exchange r reply # l) = yielded l"

lemma yielded_append [simp]: "yielded (l @ l') = yielded l @ yielded l'"
  by (induction l rule: yielded.induct) simp_all

text \<open>A device that serves the file \<open>content\<close>: an open reply states its size, a data reply carries
  the bytes of the file at the offset it states.\<close>

definition serves :: "bytes \<Rightarrow> bytes event \<Rightarrow> bool" where
  "serves content ev \<longleftrightarrow>
     (case ev of
        Exchange r (Inr f) \<Rightarrow>
          (if rq_type r = file_type_code FileType_READ_OPEN
           then uint_at 8 8 (fr_payload f) = length content
           else if rq_type r = file_type_code FileType_READ
           then drop 20 (fr_payload f) =
             pyslice (uint_at 8 4 (fr_payload f))
               (uint_at 8 4 (fr_payload f) + length (drop 20 (fr_payload f))) content
           else True)
      | _ \<Rightarrow> True)"

lemma read_step_returned:
  assumes run: "read_step (Some g) rd stop cursor w = (Returned x, v)" and lt: "cursor < stop"
  shows "\<exists>l. w_log v = w_log w @ l \<and> x = cursor + length (yielded l) \<and> x \<le> stop
    \<and> (list_all (serves content) l \<longrightarrow> yielded l = pyslice cursor x content)"
proof -
  let ?max = "min (min (rd_chunk_max rd) (stop - cursor)) 0xFFFF"
  from run obtain c f data where
    data: "read_data rd stop cursor ?max f = Inr data" and x: "x = cursor + length data"
    and v: "w_log v = w_log w @ [Exchange (file_request FileType_READ c (rd_stream_id rd)) (Inr f), Notify data]"
    by (auto simp: read_step_def Let_def io_returned)
  have "?max \<le> stop - cursor" by simp
  note d = read_data_Inr [OF data lt this]
  have "data = pyslice cursor x content"
    if "serves content (Exchange (file_request FileType_READ c (rd_stream_id rd)) (Inr f))"
    using that x unfolding d(2) serves_def
    by (simp add: d(1) file_request_def del: length_drop)
  with v x d(4) show ?thesis
    by (intro exI [of _ "[Exchange (file_request FileType_READ c (rd_stream_id rd)) (Inr f), Notify data]"]) simp
qed

lemma read_loop_returned:
  assumes "read_loop (Some g) rd stop cursor w = (Returned y, v)" and "cursor \<le> stop"
  shows "\<exists>l. w_log v = w_log w @ l \<and> length (yielded l) = stop - cursor
    \<and> (list_all (serves content) l \<longrightarrow> yielded l = pyslice cursor stop content)"
  using assms
proof (induction "Some g" rd stop cursor w rule: read_loop.induct)
  case (1 rd stop cursor w)
  show ?case
  proof (cases "cursor < stop")
    case True
    with 1(2) obtain x w' where step: "read_step (Some g) rd stop cursor w = (Returned x, w')"
      and loop: "read_loop (Some g) rd stop x w' = (Returned y, v)"
      by (auto simp: read_loop.simps [of "Some g" rd stop cursor w] bindio_Returned)
    obtain l where l: "w_log w' = w_log w @ l" "x = cursor + length (yielded l)"
      "x \<le> stop" "list_all (serves content) l \<longrightarrow> yielded l = pyslice cursor x content"
      using read_step_returned [OF step True, of content] by blast
    obtain l' where l': "w_log v = w_log w' @ l'" "length (yielded l') = stop - x"
      "list_all (serves content) l' \<longrightarrow> yielded l' = pyslice x stop content"
      using 1(1) [OF True step loop l(3)] by blast
    have "pyslice cursor x content @ pyslice x stop content = pyslice cursor stop content"
      using l(2,3) by (intro pyslice_join) simp_all
    with l l' show ?thesis
      by (intro exI [of _ "l @ l'"]) auto
  next
    case False
    with 1(2,3) show ?thesis
      by (intro exI [of _ "[]"]) (auto simp: read_loop.simps [of "Some g" rd stop cursor w] pyslice_def)
  qed
qed

section \<open>The window of a listing\<close>

text \<open>The entries the pages of a log carry, in order.\<close>

definition page_entry :: "'p event \<Rightarrow> json list" where
  "page_entry ev =
     (case ev of
        Exchange r (Inr f) \<Rightarrow>
          (if rq_type r = file_type_code FileType_LIST_NEXT
           then (case list_entry (fr_payload f) of Inr (Some entry) \<Rightarrow> [entry] | _ \<Rightarrow> [])
           else [])
      | _ \<Rightarrow> [])"

definition page_entries :: "'p event list \<Rightarrow> json list" where
  "page_entries l = concat (map page_entry l)"

lemma page_entries_simps [simp]:
  "page_entries [] = []" "page_entries (l @ l') = page_entries l @ page_entries l'"
  "page_entries (ev # l) = page_entry ev @ page_entries l"
  by (simp_all add: page_entries_def)

lemma list_page_returned:
  fixes w v :: "'p world"
  assumes "list_page sid cursor limit (drop (nat cursor) seen, length seen) w = (Returned ((entries, n), stop), v)"
    and "0 \<le> cursor"
  shows "\<exists>ev. w_log v = w_log w @ [ev] \<and> entries = drop (nat cursor) (seen @ page_entry ev)
    \<and> n = length (seen @ page_entry ev) \<and> length entries \<le> Suc (length (drop (nat cursor) seen))"
proof -
  from assms(1) obtain f where
    adv: "list_advance sid cursor limit (drop (nat cursor) seen, length seen) f = Inr ((entries, n), stop)"
    and v: "w_log v = w_log w @ [Exchange (file_request FileType_LIST_NEXT [] sid) (Inr f)]"
    by (auto simp: list_page_def io_returned)
  from adv obtain p found where p: "checked f FileType_LIST_DATA ''list next'' 4 = Inr p"
    and found: "list_entry p = Inr found"
    and st: "(case found of
                  None \<Rightarrow> (drop (nat cursor) seen, length seen)
                | Some entry \<Rightarrow>
                    (if int (length seen) \<ge> cursor then drop (nat cursor) seen @ [entry]
                     else drop (nat cursor) seen, Suc (length seen))) = (entries, n)"
    unfolding list_advance_def Let_def
    by (elim bindr_InrE, intro that) (assumption, assumption, auto split: option.splits)
  have ev: "page_entry (Exchange (file_request FileType_LIST_NEXT [] sid) (Inr f) :: 'p event)
      = (case found of None \<Rightarrow> [] | Some entry \<Rightarrow> [entry])"
    using found checked_Inr(1) [OF p] by (simp add: page_entry_def file_request_def split: option.split)
  show ?thesis
  proof (cases found)
    case None
    with st ev v show ?thesis
      by (intro exI [of _ "Exchange (file_request FileType_LIST_NEXT [] sid) (Inr f)"]) auto
  next
    case (Some entry)
    have "entries = drop (nat cursor) (seen @ [entry])" "n = Suc (length seen)"
      using st Some assms(2) by (auto simp: drop_Cons' split: if_splits)
    with ev v Some show ?thesis
      by (intro exI [of _ "Exchange (file_request FileType_LIST_NEXT [] sid) (Inr f)"]) auto
  qed
qed

lemma list_loop_returned:
  assumes "list_loop sid cursor limit st w = (Returned entries, v)"
    and "st = (drop (nat cursor) seen, length seen)"
    and "0 \<le> cursor" and "int (length (fst st)) \<le> limit + 1"
  shows "\<exists>l. w_log v = w_log w @ l \<and> entries = drop (nat cursor) (seen @ page_entries l)
    \<and> int (length entries) \<le> limit + 1"
  using assms
proof (induction sid cursor limit st w arbitrary: seen rule: list_loop.induct)
  case (1 sid cursor limit st w)
  show ?case
  proof (cases "int (length (fst st)) \<le> limit")
    case True
    obtain r w' where page: "list_page sid cursor limit st w = (Returned r, w')"
      and rest: "(if snd r then ret (fst (fst r)) w' else list_loop sid cursor limit (fst r) w')
        = (Returned entries, v)"
      using 1(2) True unfolding list_loop.simps [of sid cursor limit st w] if_P [OF True] bindio_Returned
      by blast
    define st' stop where "st' = fst r" and "stop = snd r"
    then have r: "r = (st', stop)" by simp
    note page = page [unfolded r] and rest = rest [unfolded r fst_conv snd_conv]
    obtain ev where ev: "w_log w' = w_log w @ [ev]" "fst st' = drop (nat cursor) (seen @ page_entry ev)"
      "snd st' = length (seen @ page_entry ev)"
      "length (fst st') \<le> Suc (length (fst st))"
      using list_page_returned [of sid cursor limit seen w "fst st'" "snd st'" stop w'] page 1(3,4) by auto
    show ?thesis
    proof (cases stop)
      case stop: True
      with rest ev True 1(3) show ?thesis
        by (intro exI [of _ "[ev]"]) auto
    next
      case False
      have "st' = (drop (nat cursor) (seen @ page_entry ev), length (seen @ page_entry ev))"
        using ev(2,3) by (cases st') simp
      moreover have "list_loop sid cursor limit st' w' = (Returned entries, v)"
        using rest False by simp
      ultimately obtain l where "w_log v = w_log w' @ l"
        "entries = drop (nat cursor) ((seen @ page_entry ev) @ page_entries l)"
        "int (length entries) \<le> limit + 1"
        using 1(1) [OF True page, of "seen @ page_entry ev"] False 1(4) ev(4) True by auto
      with ev show ?thesis by (intro exI [of _ "ev # l"]) (simp add: page_entries_def)
    qed
  next
    case False
    then have "ret (fst st) w = (Returned entries, v)"
      using 1(2) by (simp add: list_loop.simps [of sid cursor limit st w])
    with 1(3,5) show ?thesis
      by (intro exI [of _ "[]"]) auto
  qed
qed

section \<open>An example device\<close>

definition ex_file_frame :: "file_type \<Rightarrow> nat \<Rightarrow> bytes \<Rightarrow> frame res" where
  "ex_file_frame ty stream payload = Inr \<lparr>fr_channel = int (channel_code Channel_FILE),
     fr_type = int (file_type_code ty), fr_flags = 0, fr_session_id = 1, fr_request_id = 1,
     fr_stream_id = int stream, fr_sequence = 1, fr_payload = [0, 0, 0, 0] @ payload\<rparr>"

text \<open>A file of three bytes, served two bytes at a time.\<close>

definition ex_open_reply :: "frame res" where
  "ex_open_reply = ex_file_frame FileType_READ_OPENED 5
     (le_bytes 4 5 @ le_bytes 8 3 @ le_bytes 8 0 @ le_bytes 8 0 @ le_bytes 2 2 @ le_bytes 2 0)"

definition ex_data_reply :: "nat \<Rightarrow> bytes \<Rightarrow> frame res" where
  "ex_data_reply off data = ex_file_frame FileType_DATA 5 (le_bytes 8 off @ le_bytes 8 3 @ data)"

definition ex_close_reply :: "frame res" where
  "ex_close_reply = ex_file_frame FileType_CLOSE_RESPONSE 5 []"

definition ex_read_world :: "bytes world" where
  "ex_read_world = \<lparr>w_replies = [ex_open_reply, ex_data_reply 0 [7, 8], ex_data_reply 2 [9], ex_close_reply],
     w_log = []\<rparr>"

lemma ex_path: "path_payload [0x76] [0x66] = Inr [1, 0, 1, 0, 0x76, 0x66]"
  by (simp add: path_payload_def is_volume_id_def is_volume_char_def utf8_char_def le_eval)



lemmas ex_file_defs = ex_open_reply_def ex_data_reply_def ex_close_reply_def ex_file_frame_def checked_def
  le_eval file_status_members_def enum_of_def

lemma ex_open: "read_open [0x76] [0x66] ex_read_world =
   (Returned \<lparr>rd_stream_id = 5, rd_total_size = 3, rd_chunk_max = 2\<rparr>,
    \<lparr>w_replies = [ex_data_reply 0 [7, 8], ex_data_reply 2 [9], ex_close_reply],
      w_log = [Exchange (file_request FileType_READ_OPEN [1, 0, 1, 0, 0x76, 0x66] 0) ex_open_reply]\<rparr>)"
  by (simp add: read_open_def ex_path ex_read_world_def run_simps ex_file_defs)

lemma ex_read_run: "read_chunks (Some (\<lambda>_. None)) [0x76] [0x66] 0 None ex_read_world =
   (Returned (), \<lparr>w_replies = [],
      w_log = [Exchange (file_request FileType_READ_OPEN [1, 0, 1, 0, 0x76, 0x66] 0) ex_open_reply,
        Exchange (file_request FileType_READ [0, 0, 0, 0, 0, 0, 0, 0, 2, 0, 0, 0] 5) (ex_data_reply 0 [7, 8]),
        Notify [7, 8],
        Exchange (file_request FileType_READ [2, 0, 0, 0, 0, 0, 0, 0, 1, 0, 0, 0] 5) (ex_data_reply 2 [9]),
        Notify [9], Exchange (file_request FileType_CLOSE [] 5) ex_close_reply]\<rparr>)"
  unfolding read_chunks_def
  by (simp add: bindio_def [of "read_open _ _"] ex_open)
   (simp add: finally_io_def read_end_def read_loop.simps read_step_def read_data_def
      close_stream_def run_simps ex_file_defs pack_uint_def)

text \<open>A directory of two entries.\<close>

definition ex_list_open_reply :: "frame res" where
  "ex_list_open_reply = ex_file_frame FileType_LIST_OPENED 6 (le_bytes 4 6)"

definition ex_page_reply :: "nat \<Rightarrow> byte \<Rightarrow> frame res" where
  "ex_page_reply flags name = Inr \<lparr>fr_channel = int (channel_code Channel_FILE),
     fr_type = int (file_type_code FileType_LIST_DATA), fr_flags = 0, fr_session_id = 1, fr_request_id = 1,
     fr_stream_id = 6, fr_sequence = 1, fr_payload = [0, 0, of_nat flags, 1] @ [1, 1, 0, 0]
       @ le_bytes 8 3 @ le_bytes 8 0 @ le_bytes 8 0 @ [name]\<rparr>"

definition ex_list_world :: "unit world" where
  "ex_list_world = \<lparr>w_replies = [ex_list_open_reply, ex_page_reply 0 0x61, ex_page_reply 1 0x62, ex_close_reply],
     w_log = []\<rparr>"

lemma ex_list_run: "\<exists>d v. list_directory [0x76] [0x66] 1 5 ex_list_world = (Returned d, v)
    \<and> length (page_entries (w_log v)) = 2"
  by (simp add: list_directory_def list_open_def ex_path ex_list_world_def run_simps
      bindio_def [of "finally_io _ _"] ex_list_open_reply_def
      ex_page_reply_def ex_file_defs list_loop.simps finally_io_def list_page_def list_advance_def
      list_entry_def metadata_def file_kind_def close_stream_def utf8_step_def utf8_start_def
      page_entry_def file_request_def bit_0)

section \<open>Claims\<close>

text \<open>The end of the requested range in a file of \<open>n\<close> bytes.\<close>

definition range_end :: "nat \<Rightarrow> int \<Rightarrow> int option \<Rightarrow> nat" where
  "range_end n offset len = (case len of None \<Rightarrow> n | Some k \<Rightarrow> min n (nat (offset + k)))"

lemma read_open_returned:
  assumes "read_open volume path w = (Returned rd, v)"
  obtains r f where "w_log v = w_log w @ [Exchange (file_request FileType_READ_OPEN r 0) (Inr f)]"
    and "rd_total_size rd = uint_at 8 8 (fr_payload f)"
proof -
  from assms obtain r f p where "checked f FileType_READ_OPENED ''read open'' 36 = Inr p"
    "w_log v = w_log w @ [Exchange (file_request FileType_READ_OPEN r 0) (Inr f)]"
    "rd_total_size rd = uint_at 8 8 p"
    by (auto simp: read_open_def Let_def io_returned)
  with checked_Inr(1) show thesis by (metis that)
qed

lemma finally_Returned:
  "finally_io m c w = (Returned x, v) \<longleftrightarrow>
     (\<exists>w'. m w = (Returned x, w') \<and> c w' = (Returned (), v))"
  by (auto simp: finally_io_def bindio_def ret_def throw_def split: prod.splits outcome.splits)

lemma close_stream_quiet:
  assumes "close_stream sid w = (Returned y, v)"
  obtains reply where "w_log v = w_log w @ [Exchange (file_request FileType_CLOSE [] sid) reply]"
  using close_stream_logs [OF assms] by auto

text \<open>
  Claim C12. A completed read delivers exactly the requested range: if the device serves the file
  \<open>content\<close> (its open reply states the size, each data reply carries the bytes of the file at the
  offset it states) and the generator runs to its end, the chunks the consumer received are, put
  together, the bytes of the file from the offset to the end of the range, clipped to the file,
  however the device cuts its replies.
\<close>

theorem read_delivers_range:
  assumes "read_chunks (Some g) volume path offset len w = (Returned y, v)"
    and "w_log w = []" and "list_all (serves content) (w_log v)"
  shows "yielded (w_log v) = pyslice (nat offset) (range_end (length content) offset len) content"
proof -
  from assms(1) obtain rd w1 w2 where nonneg: "0 \<le> offset" "case len of None \<Rightarrow> True | Some n \<Rightarrow> 0 \<le> n"
    and opened: "read_open volume path w = (Returned rd, w1)" and le: "offset \<le> int (rd_total_size rd)"
    and loop: "read_loop (Some g) rd (read_end rd offset len) (nat offset) w1 = (Returned y, w2)"
    and close: "close_stream (rd_stream_id rd) w2 = (Returned (), v)"
    by (auto simp: read_chunks_def bindio_Returned finally_Returned split: option.splits)
  obtain r f where w1: "w_log w1 = [Exchange (file_request FileType_READ_OPEN r 0) (Inr f)]"
    and size: "rd_total_size rd = uint_at 8 8 (fr_payload f)"
    using opened assms(2) by (auto elim: read_open_returned)
  obtain reply where v: "w_log v = w_log w2 @ [Exchange (file_request FileType_CLOSE [] (rd_stream_id rd)) reply]"
    using close by (rule close_stream_quiet)
  have "nat offset \<le> read_end rd offset len"
    using nonneg le by (auto simp: read_end_def split: option.splits)
  from read_loop_returned [OF loop this, of content] obtain l where l: "w_log w2 = w_log w1 @ l"
    "list_all (serves content) l \<longrightarrow> yielded l = pyslice (nat offset) (read_end rd offset len) content"
    by blast
  have "rd_total_size rd = length content" "list_all (serves content) l"
    using assms(3) v l w1 size by (auto simp: serves_def file_request_def)
  moreover from this(1) have "read_end rd offset len = range_end (length content) offset len"
    using nonneg by (auto simp: read_end_def range_end_def split: option.splits)
  ultimately show ?thesis using v l w1 by simp
qed

text \<open>
  A listing returns exactly the requested window of what the device listed: the entries
  after the first \<^verbatim>\<open>cursor\<close>, at most \<^verbatim>\<open>limit\<close> of them, in order; and it announces a next cursor, the
  position after the window, exactly when there was a further entry.
\<close>

theorem list_returns_window:
  assumes "list_directory volume path cursor limit w = (Returned d, v)" and "w_log w = []"
  shows "dget d ''entries'' = JList (take (nat limit) (drop (nat cursor) (page_entries (w_log v))))
    \<and> dget d ''next_cursor'' =
        (if int (length (drop (nat cursor) (page_entries (w_log v)))) > limit
         then JInt (cursor + limit) else JNull)"
proof -
  from assms(1) obtain sid w1 w2 entries where lim: "0 \<le> cursor" "1 \<le> limit"
    and opened: "list_open volume path w = (Returned sid, w1)"
    and loop: "list_loop sid cursor limit ([], 0) w1 = (Returned entries, w2)"
    and close: "close_stream sid w2 = (Returned (), v)"
    and d: "d = list_result volume path cursor limit entries"
    by (auto simp: list_directory_def io_returned finally_Returned not_less)
  obtain r f where w1: "w_log w1 = w_log w @ [Exchange (file_request FileType_LIST_OPEN r 0) (Inr f)]"
    using opened by (auto simp: list_open_def io_returned Let_def)
  obtain reply where v: "w_log v = w_log w2 @ [Exchange (file_request FileType_CLOSE [] sid) reply]"
    using close by (rule close_stream_quiet)
  obtain l where l: "w_log w2 = w_log w1 @ l" "entries = drop (nat cursor) (page_entries l)"
    "int (length entries) \<le> limit + 1"
    using list_loop_returned [OF loop, of "[]"] lim by auto
  have all: "page_entries (w_log v) = page_entries l"
    using v l(1) w1 assms(2) by (simp add: page_entry_def file_request_def split: sum.split)
  have take: "(if int (length entries) > limit then butlast entries else entries) = take (nat limit) entries"
  proof (cases "int (length entries) > limit")
    case True
    with l(3) have "nat limit = length entries - 1" by simp
    with True show ?thesis by (simp add: butlast_conv_take)
  next
    case False
    then show ?thesis using lim by simp
  qed
  show ?thesis
    using l(3) lim unfolding d list_result_def Let_def take all l(2) [symmetric]
    by (auto simp: dget_def dget_default_def item_def located_def min_def)
qed

lemma read_open_no_read:
  assumes "read_open volume path w = (out, v)" and "w_log w = []"
  shows "list_all (\<lambda>ev. case ev of Exchange r _ \<Rightarrow> rq_type r \<noteq> file_type_code FileType_READ
      | Notify _ \<Rightarrow> True) (w_log v)"
proof -
  have "emits (\<lambda>ev. case ev of Exchange r _ \<Rightarrow> rq_type r \<noteq> file_type_code FileType_READ
      | Notify _ \<Rightarrow> True) (read_open volume path)"
    unfolding read_open_def Let_def by (intro emits_intros) (simp add: file_request_def)
  then obtain l where "w_log v = w_log w @ l" "list_all (\<lambda>ev. case ev of
      Exchange r _ \<Rightarrow> rq_type r \<noteq> file_type_code FileType_READ | Notify _ \<Rightarrow> True) l"
    using assms(1) by (rule emitsD)
  with assms(2) show ?thesis by simp
qed

text \<open>
  Once a read has requested data, the device's stream is closed on every way out: when
  the generator ends, whether exhausted, by a protocol error, by a lost connection or by an
  exception its consumer throws into it, the last request it made is the close of its stream.
\<close>

theorem read_stream_closed:
  assumes "read_chunks cb volume path offset len w = (out, v)" and "out \<noteq> Blocked"
    and "w_log w = []" and "Exchange r reply \<in> set (w_log v)"
    and "rq_type r = file_type_code FileType_READ"
  shows "\<exists>sid l reply. w_log v = l @ [Exchange (file_request FileType_CLOSE [] sid) reply]"
proof -
  define k where "k rd = bindio (throw_if (offset > int (rd_total_size rd))
      (ValueError ''file read offset exceeds file size'')) (\<lambda>_.
     finally_io (read_loop cb rd (read_end rd offset len) (nat offset))
       (close_stream (rd_stream_id rd)))" for rd
  obtain o1 w1 where opened: "read_open volume path w = (o1, w1)" by fastforce
  have "Exchange r reply \<notin> set (w_log w1)"
    using read_open_no_read [OF opened assms(3)] assms(5)
    by (auto simp: list_all_iff simp del: file_type_code.simps dest!: bspec)
  with assms(3,4) have quiet: "w_log v \<noteq> w_log w1" "w_log v \<noteq> w_log w" by auto
  have "bindio (read_open volume path) k w = (out, v)"
    using assms(1) quiet unfolding read_chunks_def k_def [abs_def]
    by (auto simp: bindio_def [of "throw_if _ _"] throw_if_def throw_def ret_def split: if_splits)
  with opened quiet obtain rd where "k rd w1 = (out, v)"
    by (auto simp: bindio_def split: outcome.splits)
  with quiet have "finally_io (read_loop cb rd (read_end rd offset len) (nat offset))
       (close_stream (rd_stream_id rd)) w1 = (out, v)"
    by (auto simp: k_def throw_if_def split: if_splits)
  from finally_closes [OF this assms(2)] show ?thesis by blast
qed

text \<open>
  Claim C13. A read whose offset lies behind the end of the file raises after the device has
  opened the stream, and the open is the last request: the stream is not closed. (The check
  stands before the \<^verbatim>\<open>try\<close> whose \<^verbatim>\<open>finally\<close> closes the stream.)
\<close>

theorem read_past_end_leaves_stream:
  assumes "read_open volume path w = (Returned rd, v)" and "offset > int (rd_total_size rd)"
    and "case len of None \<Rightarrow> True | Some n \<Rightarrow> 0 \<le> n"
  shows "read_chunks cb volume path offset len w
      = (Raised (ValueError ''file read offset exceeds file size''), v)
    \<and> (\<exists>r reply. w_log v = w_log w @ [Exchange (file_request FileType_READ_OPEN r 0) reply])"
proof -
  have "\<not> (offset < 0 \<or> (case len of None \<Rightarrow> False | Some n \<Rightarrow> n < 0))"
    using assms(2,3) by (auto split: option.splits)
  with assms(1,2) have "read_chunks cb volume path offset len w
      = (Raised (ValueError ''file read offset exceeds file size''), v)"
    by (simp add: read_chunks_def bindio_def throw_def)
  moreover obtain r f where "w_log v = w_log w @ [Exchange (file_request FileType_READ_OPEN r 0) (Inr f)]"
    using assms(1) by (rule read_open_returned)
  ultimately show ?thesis by blast
qed

section \<open>Witnesses\<close>

theorem read_delivers_range_witness:
  "\<exists>v. read_chunks (Some (\<lambda>_. None)) [0x76] [0x66] 0 None ex_read_world = (Returned (), v)
    \<and> yielded (w_log v) = pyslice 0 3 [7, 8, 9]"
proof -
  let ?run = "read_chunks (Some (\<lambda>_. None)) [0x76] [0x66] 0 None ex_read_world"
  have run: "?run = (Returned (), snd ?run)" by (simp add: ex_read_run)
  have "list_all (serves [7, 8, 9]) (w_log (snd ?run))"
    by (simp add: ex_read_run serves_def file_request_def ex_file_defs)
  from read_delivers_range [OF run _ this] show ?thesis
    using run by (auto simp: range_end_def ex_read_world_def)
qed

theorem list_returns_window_witness:
  "\<exists>d v. list_directory [0x76] [0x66] 1 5 ex_list_world = (Returned d, v)
    \<and> dget d ''entries'' = JList (take 5 (drop 1 (page_entries (w_log v))))
    \<and> length (page_entries (w_log v)) = 2"
proof -
  obtain d v where run: "list_directory [0x76] [0x66] 1 5 ex_list_world = (Returned d, v)"
    "length (page_entries (w_log v)) = 2"
    using ex_list_run by blast
  with list_returns_window [OF run(1)] show ?thesis by (auto simp: ex_list_world_def)
qed

theorem read_stream_closed_witness:
  "\<exists>sid l reply. w_log (snd (read_chunks (Some (\<lambda>_. None)) [0x76] [0x66] 0 None ex_read_world))
     = l @ [Exchange (file_request FileType_CLOSE [] sid) reply]"
  by (rule read_stream_closed [OF prod.collapse [symmetric],
        where r = "file_request FileType_READ [0, 0, 0, 0, 0, 0, 0, 0, 2, 0, 0, 0] 5"
          and reply = "ex_data_reply 0 [7, 8]"])
     (simp_all add: ex_read_run, simp_all add: ex_read_world_def file_request_def)

theorem read_past_end_leaves_stream_witness:
  "\<exists>v. read_chunks None [0x76] [0x66] 4 None ex_read_world
     = (Raised (ValueError ''file read offset exceeds file size''), v)
    \<and> (\<exists>r reply. w_log v = w_log ex_read_world @ [Exchange (file_request FileType_READ_OPEN r 0) reply])"
  using read_past_end_leaves_stream [OF ex_open, of 4 None None] by auto

end
