(* ===== verification/File_Upload.thy ===== *)
theory File_Upload
  imports File_Reading
begin

text \<open>
  Uploads of the device file service: how many requests one can make, whatever the device answers, and
  that the commit names the digest of just the bytes the device has confirmed.
\<close>

section \<open>Bounded runs\<close>

text \<open>\<open>bounded n m\<close>: a run of \<open>m\<close> awaits at most \<open>n\<close> replies, and with as many at hand it ends.\<close>

definition bounded :: "nat \<Rightarrow> ('p, 'a) io \<Rightarrow> bool" where
  "bounded n m \<longleftrightarrow> (\<forall>w out v. m w = (out, v) \<longrightarrow>
     length (w_replies w) \<le> length (w_replies v) + n \<and> (n \<le> length (w_replies w) \<longrightarrow> out \<noteq> Blocked))"

named_theorems bounded_rules \<open>rules for the number of replies\<close>

lemma boundedD:
  assumes "bounded n m" and "m w = (out, v)"
  shows "length (w_replies w) \<le> length (w_replies v) + n" "n \<le> length (w_replies w) \<Longrightarrow> out \<noteq> Blocked"
  using assms unfolding bounded_def by blast+

lemma bounded_mono: "bounded n m \<Longrightarrow> n \<le> k \<Longrightarrow> bounded k m"
  unfolding bounded_def by (fastforce dest: order.trans)

lemma bounded_basic [bounded_rules]:
  "bounded 0 (ret x)" "bounded 0 (throw e)" "bounded 0 (lift_res r)" "bounded 0 (throw_if c e)"
  "bounded 0 (notify cb p)" "bounded (Suc 0) (ask q)"
  by (auto simp: bounded_def ret_def throw_def lift_res_def throw_if_def notify_def ask_def
      split: sum.splits option.splits list.splits)

lemma bounded_bind [bounded_rules]:
  assumes "bounded n m" and "\<And>x. bounded k (f x)"
  shows "bounded (n + k) (bindio m f)"
  unfolding bounded_def
proof (intro allI impI)
  fix w out v assume run: "bindio m f w = (out, v)"
  obtain o' u' where m: "m w = (o', u')" by fastforce
  note b = boundedD [OF assms(1) m]
  show "length (w_replies w) \<le> length (w_replies v) + (n + k) \<and> (n + k \<le> length (w_replies w) \<longrightarrow> out \<noteq> Blocked)"
  proof (cases o')
    case (Returned x)
    with run m have "f x u' = (out, v)" by (simp add: bindio_def)
    with boundedD [OF assms(2) this] b show ?thesis by auto
  qed (use run m b in \<open>auto simp: bindio_def\<close>)
qed

lemma bounded_catch [bounded_rules]:
  assumes "bounded n m" and "\<And>e. bounded k (h e)"
  shows "bounded (n + k) (catch m h)"
  unfolding bounded_def
proof (intro allI impI)
  fix w out v assume run: "catch m h w = (out, v)"
  obtain o' u' where m: "m w = (o', u')" by fastforce
  note b = boundedD [OF assms(1) m]
  show "length (w_replies w) \<le> length (w_replies v) + (n + k) \<and> (n + k \<le> length (w_replies w) \<longrightarrow> out \<noteq> Blocked)"
  proof (cases o')
    case (Raised e)
    with run m have "h e u' = (out, v)" by (simp add: catch_def)
    with boundedD [OF assms(2) this] b show ?thesis by auto
  qed (use run m b in \<open>auto simp: catch_def\<close>)
qed

lemma bounded_if [bounded_rules]:
  "bounded n m \<Longrightarrow> bounded k m' \<Longrightarrow> bounded (max n k) (if c then m else m')"
  by (auto intro: bounded_mono)

lemma bounded_option [bounded_rules]:
  "bounded n m \<Longrightarrow> (\<And>x. bounded k (f x)) \<Longrightarrow> bounded (max n k) (case_option m f z)"
  by (cases z) (auto intro: bounded_mono [OF _ max.cobounded1] bounded_mono [OF _ max.cobounded2])

lemma bounded_pair [bounded_rules]: "(\<And>x y. bounded n (f x y)) \<Longrightarrow> bounded n (case_prod f z)"
  by (cases z) simp

lemma bounded_suppress [bounded_rules]: "bounded n m \<Longrightarrow> bounded n (suppress m)"
proof -
  assume "bounded n m"
  then have "bounded (n + 0 + max 0 0) (suppress m)"
    unfolding suppress_def by (intro bounded_rules)
  then show ?thesis by simp
qed

lemma bounded_on_raise [bounded_rules]: "bounded n m \<Longrightarrow> bounded k c \<Longrightarrow> bounded (n + (k + 0)) (on_raise m c)"
  unfolding on_raise_def by (intro bounded_rules)

section \<open>The requests of an upload\<close>

lemma bounded_write_status: "bounded 1 (write_status i)"
proof -
  have "bounded (Suc 0 + 0) (write_status i)" unfolding write_status_def by (intro bounded_rules)
  then show ?thesis by simp
qed

lemma bounded_reconcile_attempts: "bounded n (reconcile_attempts n i :: ('p, write_status_info) io)"
proof (induction n)
  case 0
  show ?case by (simp add: bounded_rules)
next
  case (Suc n)
  have "bounded (1 + max 0 n) (reconcile_attempts (Suc n) i :: ('p, write_status_info) io)"
    unfolding reconcile_attempts.simps by (intro bounded_rules bounded_write_status Suc)
  then show ?case by simp
qed

lemma bounded_reconcile: "bounded 12 (reconcile_write_status i)"
  unfolding reconcile_write_status_def by (rule bounded_reconcile_attempts)

lemma bounded_attempt: "bounded 13 (write_attempt i part committed n)"
proof -
  have "bounded (0 + (Suc 0 + (0 + (0 + 0))) + max (12 + max 0 (max 0 0)) 0) (write_attempt i part committed n)"
    unfolding write_attempt_def Let_def by (intro bounded_rules bounded_reconcile)
  then show ?thesis by simp
qed

lemma bounded_part: "bounded 26 (upload_part cb wr sent part)"
proof -
  have "bounded (13 + (max 0 13 + (0 + (0 + 0)))) (upload_part cb wr sent part)"
    unfolding upload_part_def Let_def by (intro bounded_rules bounded_attempt)
  then show ?thesis by simp
qed

lemma bounded_parts: "bounded (26 * length data) (upload_parts cb wr sent data)"
proof (induction cb wr sent data rule: upload_parts.induct)
  case (1 cb wr sent data)
  show ?case
  proof (cases "data = [] \<or> wr_chunk_max wr = 0")
    case True
    have "bounded 0 (upload_parts cb wr sent data)"
      unfolding upload_parts.simps [of cb wr sent data] using True by (simp add: bounded_rules)
    then show ?thesis by (rule bounded_mono) simp
  next
    case False
    have "bounded (26 + 26 * length (drop (wr_chunk_max wr) data)) (upload_parts cb wr sent data)"
      unfolding upload_parts.simps [of cb wr sent data]
      using False 1 by (simp del: length_drop) (intro bounded_rules bounded_part, simp)
    moreover have "26 + 26 * length (drop (wr_chunk_max wr) data) \<le> 26 * length data"
      using False by (cases data) auto
    ultimately show ?thesis by (rule bounded_mono)
  qed
qed

fun chunk_bytes :: "bytes res list \<Rightarrow> bytes" where
  "chunk_bytes [] = []"
| "chunk_bytes (Inl e # chunks) = []"
| "chunk_bytes (Inr data # chunks) = data @ chunk_bytes chunks"

lemma bounded_chunks: "bounded (26 * length (chunk_bytes chunks)) (upload_chunks cb wr sent chunks)"
proof (induction cb wr sent chunks rule: upload_chunks.induct)
  case (3 cb wr sent data chunks)
  show ?case
  proof (cases "data = []")
    case False
    have "bounded (0 + (26 * length data + 26 * length (chunk_bytes chunks)))
        (bindio (throw_if (int (length sent + length data) > wr_total_size wr)
                     (ValueError ''HTTP upload exceeds its declared content length'')) (\<lambda>_.
           bindio (upload_parts cb wr sent data) (\<lambda>sent'. upload_chunks cb wr sent' chunks)))"
      by (intro bounded_rules bounded_parts 3(2) [OF False])
    with False show ?thesis by (simp add: algebra_simps)
  qed (use 3(1) in simp)
qed (simp_all add: bounded_rules)

lemma bounded_commit: "bounded 14 (upload_commit i d)"
proof -
  have "bounded (Suc 0 + 0 + max (12 + max 0 (0 + (Suc 0 + 0))) 0) (upload_commit i d)"
    unfolding upload_commit_def Let_def by (intro bounded_rules bounded_reconcile)
  then show ?thesis by simp
qed

lemma bounded_body: "bounded (26 * length (chunk_bytes chunks) + 14) (upload_body cb wr chunks)"
proof -
  have "bounded (26 * length (chunk_bytes chunks) + (0 + (14 + max 0 (0 + (0 + 0))))) (upload_body cb wr chunks)"
    unfolding upload_body_def by (intro bounded_rules bounded_commit bounded_chunks)
  then show ?thesis by simp
qed

lemma bounded_open: "bounded 1 (write_open volume path n overwrite if_match)"
proof -
  have "bounded (0 + (0 + (0 + (Suc 0 + (0 + (0 + (0 + 0))))))) (write_open volume path n overwrite if_match)"
    unfolding write_open_def Let_def by (intro bounded_rules)
  then show ?thesis by simp
qed

lemma bounded_stat: "bounded 1 (stat volume path)"
proof -
  have "bounded (0 + (Suc 0 + (0 + (0 + (0 + 0))))) (stat volume path)"
    unfolding stat_def metadata_call_def by (intro bounded_rules)
  then show ?thesis by simp
qed

lemma bounded_upload:
  "bounded (26 * length (chunk_bytes chunks) + 17) (upload cb volume path chunks n overwrite if_match)"
proof -
  have abort: "bounded (Suc 0) (abort_stream i)" for i
    unfolding abort_stream_def by (intro bounded_rules)
  have "bounded (1 + (26 * length (chunk_bytes chunks) + 14 + (Suc 0 + 0) + (max 1 (0 + 0) + 0)))
      (upload cb volume path chunks n overwrite if_match)"
    unfolding upload_def by (intro bounded_rules bounded_open bounded_body bounded_stat abort)
  then show ?thesis by (rule bounded_mono) simp
qed

text \<open>Claim C14. An upload ends: whatever the device answers, refuses or lets time out, it makes at most 26
  requests for each byte of the source and 17 more (a write is tried twice, and after each lost answer the status
  is asked for at most twelve times); once so many answers are there it has returned or raised.\<close>

theorem upload_terminates:
  "(let run = upload cb volume path chunks total_size overwrite if_match \<lparr>w_replies = replies, w_log = []\<rparr>;
        bound = 26 * length (chunk_bytes chunks) + 17
    in length replies \<le> length (w_replies (snd run)) + bound \<and> (bound \<le> length replies \<longrightarrow> fst run \<noteq> Blocked))"
proof -
  obtain out v where run: "upload cb volume path chunks total_size overwrite if_match \<lparr>w_replies = replies, w_log = []\<rparr> = (out, v)"
    by fastforce
  from boundedD [OF bounded_upload run] show ?thesis by (simp add: Let_def run)
qed

theorem upload_terminates_witness:
  "fst (upload None (u ''sd'') (u ''/a'') [] 0 False None \<lparr>w_replies = replicate 17 (Inl (TimeoutError ''request'')), w_log = []\<rparr>)
     \<noteq> Blocked"
  using upload_terminates [of None "u ''sd''" "u ''/a''" "[]" 0 False None "replicate 17 (Inl (TimeoutError ''request''))"]
  by (simp add: Let_def)

section \<open>What the device has confirmed\<close>

text \<open>
  An observer of the log: a write is confirmed by its acknowledgement, or, after a request that raised, by a write
  status that reports the offset behind it; what is confirmed is laid end to end.
\<close>

definition is_file :: "file_type \<Rightarrow> request \<Rightarrow> bool" where
  "is_file ty r \<longleftrightarrow> rq_type r = file_type_code ty"

definition write_ack :: "nat \<Rightarrow> frame \<Rightarrow> bool" where
  "write_ack n f \<longleftrightarrow> (case checked f FileType_WRITE_ACK ''write'' 12 of
     Inr p \<Rightarrow> uint_at 8 4 p = n | Inl _ \<Rightarrow> False)"

definition status_ack :: "nat \<Rightarrow> request \<Rightarrow> frame \<Rightarrow> bool" where
  "status_ack n r f \<longleftrightarrow> (case decode_write_status (rq_stream r) f of Inr st \<Rightarrow> ws_committed st = n | Inl _ \<Rightarrow> False)"

fun file_observe :: "upload_progress event \<Rightarrow> bytes \<times> bytes option \<Rightarrow> bytes \<times> bytes option" where
  "file_observe (Notify p) st = st"
| "file_observe (Exchange r reply) (conf, open_part) =
     (let part = drop 12 (rq_payload r) in
      if is_file FileType_WRITE r then
        (case reply of
           Inr f \<Rightarrow> if uint_at 8 0 (rq_payload r) = length conf \<and> write_ack (length conf + length part) f
                    then (conf @ part, None) else (conf, None)
         | Inl _ \<Rightarrow> (conf, if uint_at 8 0 (rq_payload r) = length conf then Some part else None))
      else if is_file FileType_WRITE_STATUS r then
        (case (open_part, reply) of
           (Some p, Inr f) \<Rightarrow> if status_ack (length conf + length p) r f then (conf @ p, None) else (conf, open_part)
         | _ \<Rightarrow> (conf, open_part))
      else (conf, open_part))"

definition file_confirmed :: "upload_progress event list \<Rightarrow> bytes" where
  "file_confirmed es = fst (fold file_observe es ([], None))"

definition no_file_commit :: "upload_progress event \<Rightarrow> bool" where
  "no_file_commit ev \<longleftrightarrow> (case ev of Exchange r _ \<Rightarrow> \<not> is_file FileType_COMMIT r | Notify _ \<Rightarrow> True)"

definition no_write :: "upload_progress event \<Rightarrow> bool" where
  "no_write ev \<longleftrightarrow> (case ev of Exchange r _ \<Rightarrow> \<not> is_file FileType_WRITE r | Notify _ \<Rightarrow> True)"

text \<open>Every commit in the log carries the digest of what is confirmed before it, which is all of \<open>data\<close>.\<close>

definition commits_ok :: "bytes \<Rightarrow> upload_progress event list \<Rightarrow> bool" where
  "commits_ok data es \<longleftrightarrow> (\<forall>es1 r reply es2. es = es1 @ Exchange r reply # es2 \<longrightarrow> is_file FileType_COMMIT r \<longrightarrow>
     rq_payload r = sha256 data \<and> file_confirmed es1 = data)"

lemma is_file_request [simp]: "is_file ty (file_request ty' p i) \<longleftrightarrow> ty = ty'"
  by (auto simp: is_file_def file_request_def file_type.code_inject)

lemma commits_ok_none: "list_all no_file_commit es \<Longrightarrow> commits_ok data es"
  by (auto simp: commits_ok_def no_file_commit_def)

lemma observe_settled:
  assumes "list_all no_write l"
  shows "fold file_observe l (conf, None) = (conf, None)"
  using assms
proof (induction l)
  case (Cons ev l)
  then have "file_observe ev (conf, None) = (conf, None)"
    by (cases ev) (auto simp: no_write_def Let_def)
  with Cons show ?case by simp
qed simp

text \<open>Commits only after \<open>l0\<close>, which leaves the observer settled with \<open>data\<close>.\<close>

lemma commits_ok_after:
  assumes "list_all no_file_commit l0" and "fold file_observe l0 ([], None) = (data, None)"
    and "list_all no_write l" and "\<And>r reply. Exchange r reply \<in> set l \<Longrightarrow> is_file FileType_COMMIT r \<Longrightarrow> rq_payload r = sha256 data"
  shows "commits_ok data (l0 @ l)"
  unfolding commits_ok_def
proof (intro allI impI)
  fix es1 r reply es2
  assume split: "l0 @ l = es1 @ Exchange r reply # es2" and commit: "is_file FileType_COMMIT r"
  have "length l0 \<le> length es1"
  proof (rule ccontr)
    assume "\<not> length l0 \<le> length es1"
    then have "(l0 @ l) ! length es1 = l0 ! length es1" "length es1 < length l0" by (simp_all add: nth_append)
    with split have "Exchange r reply \<in> set l0" by (metis nth_append_length nth_mem)
    with assms(1) commit show False by (auto simp: list_all_iff no_file_commit_def)
  qed
  then obtain l1 where l1: "es1 = l0 @ l1" "l = l1 @ Exchange r reply # es2"
    using split by (metis append_eq_append_conv_if append_eq_conv_conj)
  then have "list_all no_write l1" using assms(3) by simp
  with l1 assms(2) have "file_confirmed es1 = data"
    by (simp add: file_confirmed_def observe_settled)
  with assms(4) l1 commit show "rq_payload r = sha256 data \<and> file_confirmed es1 = data" by auto
qed

lemma run_log_bind_ask:
  assumes "\<And>f v. run_log (g f) v (\<lambda>out l. Q out (Exchange r (Inr f) # l))"
    and "\<And>e. Q (Raised e) [Exchange r (Inl e)]" and "Q Blocked []"
  shows "run_log (bindio (ask r) g) w Q"
proof (rule run_log_bindio [OF run_log_ask])
  fix x l v
  show "(case Returned x of Returned f \<Rightarrow> l = [Exchange r (Inr f)] | Raised e \<Rightarrow> l = [Exchange r (Inl e)] | Blocked \<Rightarrow> l = []) \<Longrightarrow>
      run_log (g x) v (\<lambda>out l'. Q out (l @ l'))"
    using assms(1) by simp
qed (use assms(2,3) in auto)

lemma observe_status:
  "file_observe (Exchange (file_request FileType_WRITE_STATUS [] i) (Inr f)) (conf, Some p) =
     (case decode_write_status i f of
        Inr st \<Rightarrow> if ws_committed st = length conf + length p then (conf @ p, None) else (conf, Some p)
      | Inl _ \<Rightarrow> (conf, Some p))"
  by (simp add: status_ack_def file_request_def is_file_def file_type.code_inject split: sum.split)

lemma observe_status_lost:
  "file_observe (Exchange (file_request FileType_WRITE_STATUS [] i) (Inl e)) (conf, z) = (conf, z)"
  by (simp split: option.split)

text \<open>The reconciliation tells the observer what it tells the caller.\<close>

definition status_seen :: "bytes \<Rightarrow> bytes \<Rightarrow> write_status_info outcome \<Rightarrow> upload_progress event list \<Rightarrow> bool" where
  "status_seen conf p out l \<longleftrightarrow> (case out of
     Returned st \<Rightarrow> fold file_observe l (conf, Some p) =
       (if ws_committed st = length conf + length p then (conf @ p, None) else (conf, Some p))
   | Raised e \<Rightarrow> fold file_observe l (conf, Some p) = (conf, Some p)
   | Blocked \<Rightarrow> True)"

lemma observe_write_status: "run_log (write_status i) w (status_seen conf p)"
  unfolding write_status_def
proof (rule run_log_bind_ask)
  fix f v
  show "run_log (lift_res (decode_write_status i f)) v
      (\<lambda>out l. status_seen conf p out (Exchange (file_request FileType_WRITE_STATUS [] i) (Inr f) # l))"
    by (intro run_log_lift_res) (simp_all add: status_seen_def observe_status del: file_observe.simps)
qed (auto simp: status_seen_def observe_status_lost simp del: file_observe.simps)

lemma observe_reconcile_attempts: "run_log (reconcile_attempts n i) w (status_seen conf p)"
proof (induction n arbitrary: w)
  case 0
  show ?case by (auto simp: status_seen_def intro: run_log_throw)
next
  case (Suc n)
  show ?case unfolding reconcile_attempts.simps
  proof (rule run_log_catch [OF observe_write_status [of i w conf p]])
    fix e l v assume seen: "status_seen conf p (Raised e) l"
    have "run_log (reconcile_attempts n i) v (\<lambda>out l'. status_seen conf p out (l @ l'))"
      by (rule run_log_mono [OF Suc]) (use seen in \<open>auto simp: status_seen_def split: outcome.splits\<close>)
    moreover have "run_log (throw e :: (upload_progress, write_status_info) io) v (\<lambda>out l'. status_seen conf p out (l @ l'))"
      by (rule run_log_throw) (use seen in simp)
    ultimately show "run_log (if \<not> is_busy e \<or> n = 0 then throw e else reconcile_attempts n i) v
        (\<lambda>out l'. status_seen conf p out (l @ l'))" by simp
  qed simp_all
qed

text \<open>One attempt: on success the part is confirmed behind what was; otherwise nothing is.\<close>

definition part_seen :: "bytes \<Rightarrow> bytes \<Rightarrow> bytes option \<Rightarrow> bool outcome \<Rightarrow> upload_progress event list \<Rightarrow> bool" where
  "part_seen conf part z out l \<longleftrightarrow> (case out of
     Returned acknowledged \<Rightarrow>
       if acknowledged then fold file_observe l (conf, z) = (conf @ part, None)
       else \<exists>z'. fold file_observe l (conf, z) = (conf, z')
   | _ \<Rightarrow> True)"

lemma write_message_Inr:
  assumes "write_message n part = Inr m"
  shows "uint_at 8 0 m = n" "drop 12 m = part"
  using assms
  by (auto simp: write_message_def pack_uint_def le_simps split: if_splits)

lemma observe_write:
  assumes "write_message (length conf) part = Inr m"
  shows "file_observe (Exchange (file_request FileType_WRITE m i) (Inl e)) (conf, z) = (conf, Some part)"
    and "checked f FileType_WRITE_ACK ''write'' 12 = Inr ack \<Longrightarrow> uint_at 8 4 ack = length conf + length part \<Longrightarrow>
      file_observe (Exchange (file_request FileType_WRITE m i) (Inr f)) (conf, z) = (conf @ part, None)"
proof -
  have "rq_payload (file_request FileType_WRITE m i) = m" by (simp add: file_request_def)
  with write_message_Inr [OF assms]
  show "file_observe (Exchange (file_request FileType_WRITE m i) (Inl e)) (conf, z) = (conf, Some part)"
    and "checked f FileType_WRITE_ACK ''write'' 12 = Inr ack \<Longrightarrow> uint_at 8 4 ack = length conf + length part \<Longrightarrow>
      file_observe (Exchange (file_request FileType_WRITE m i) (Inr f)) (conf, z) = (conf @ part, None)"
    by (simp_all add: write_ack_def)
qed

text \<open>The write of an attempt up to its acknowledgement; a timeout can only be the request's own.\<close>

definition write_seen :: "bytes \<Rightarrow> bytes \<Rightarrow> bytes option \<Rightarrow> bool outcome \<Rightarrow> upload_progress event list \<Rightarrow> bool" where
  "write_seen conf part z out l \<longleftrightarrow> (case out of
     Returned acknowledged \<Rightarrow> acknowledged \<and> fold file_observe l (conf, z) = (conf @ part, None)
   | Raised e \<Rightarrow> is_timeout e \<longrightarrow> fold file_observe l (conf, z) = (conf, Some part)
   | Blocked \<Rightarrow> True)"

lemma checked_no_timeout: "checked f ty operation m = Inl e \<Longrightarrow> \<not> is_timeout e"
  by (auto simp: checked_def raise_if_def split: if_splits option.splits sum.splits)

lemma observe_write_request:
  "run_log (bindio (lift_res (write_message (length conf) part)) (\<lambda>message.
         bindio (ask (file_request FileType_WRITE message i)) (\<lambda>frame.
         bindio (lift_res (checked frame FileType_WRITE_ACK ''write'' 12)) (\<lambda>ack.
         bindio (throw_if (length ack \<noteq> 12 \<or> fr_stream_id frame \<noteq> int i \<or> uint_at 8 4 ack \<noteq> length conf + length part)
                   (ProtocolError ''invalid file write acknowledgement'')) (\<lambda>_.
         ret True))))) w (write_seen conf part z)"
proof (cases "write_message (length conf) part")
  case (Inl e)
  then have "\<not> is_timeout e" by (auto simp: write_message_def pack_uint_def split: if_splits)
  with Inl show ?thesis by (auto simp: write_seen_def intro: run_log_throw)
next
  case (Inr m)
  let ?r = "file_request FileType_WRITE m i"
  have "run_log (bindio (ask ?r) (\<lambda>frame.
         bindio (lift_res (checked frame FileType_WRITE_ACK ''write'' 12)) (\<lambda>ack.
         bindio (throw_if (length ack \<noteq> 12 \<or> fr_stream_id frame \<noteq> int i \<or> uint_at 8 4 ack \<noteq> length conf + length part)
                   (ProtocolError ''invalid file write acknowledgement'')) (\<lambda>_.
         ret True)))) w (write_seen conf part z)"
  proof (rule run_log_bind_ask)
    fix f v
    show "run_log (bindio (lift_res (checked f FileType_WRITE_ACK ''write'' 12)) (\<lambda>ack.
         bindio (throw_if (length ack \<noteq> 12 \<or> fr_stream_id f \<noteq> int i \<or> uint_at 8 4 ack \<noteq> length conf + length part)
                   (ProtocolError ''invalid file write acknowledgement'')) (\<lambda>_.
         ret True))) v (\<lambda>out l. write_seen conf part z out (Exchange ?r (Inr f) # l))"
    proof (cases "checked f FileType_WRITE_ACK ''write'' 12")
      case (Inl e)
      with checked_no_timeout [OF Inl] show ?thesis by (auto simp: write_seen_def intro: run_log_throw)
    next
      case (Inr ack)
      with observe_write(2) [OF \<open>write_message (length conf) part = Inr m\<close> Inr] show ?thesis
        by (auto simp: write_seen_def simp del: file_observe.simps intro!: run_log_bind_throw_if run_log_ret)
    qed
  qed (use observe_write(1) [OF Inr] in \<open>auto simp: write_seen_def simp del: file_observe.simps\<close>)
  with Inr show ?thesis by simp
qed

lemma observe_attempt: "run_log (write_attempt i part (length conf) n) w (part_seen conf part z)"
  unfolding write_attempt_def Let_def
proof (rule run_log_catch [OF observe_write_request [of conf part i w z]])
  fix e l v assume seen: "write_seen conf part z (Raised e) l"
  show "run_log (if is_timeout e then
                bindio (reconcile_write_status i) (\<lambda>status.
                if ws_committed status = length conf + length part then ret True
                else if ws_committed status \<noteq> length conf \<or> n \<noteq> 0 then throw e
                else ret False)
              else throw e) v (\<lambda>out l'. part_seen conf part z out (l @ l'))"
  proof (cases "is_timeout e")
    case True
    with seen have l: "fold file_observe l (conf, z) = (conf, Some part)" by (simp add: write_seen_def)
    have "run_log (bindio (reconcile_write_status i) (\<lambda>status.
                if ws_committed status = length conf + length part then ret True
                else if ws_committed status \<noteq> length conf \<or> n \<noteq> 0 then throw e
                else ret False)) v (\<lambda>out l'. part_seen conf part z out (l @ l'))"
      unfolding reconcile_write_status_def
      by (rule run_log_bindio [OF observe_reconcile_attempts [of _ _ _ conf part]])
        (auto simp: part_seen_def status_seen_def l split: if_splits intro!: run_log_ret run_log_throw)
    with True show ?thesis by simp
  qed (auto simp: part_seen_def intro: run_log_throw)
qed (auto simp: part_seen_def write_seen_def)

definition sent_seen :: "bytes \<Rightarrow> bytes \<Rightarrow> bytes outcome \<Rightarrow> upload_progress event list \<Rightarrow> bool" where
  "sent_seen conf new out l \<longleftrightarrow> (case out of
     Returned sent \<Rightarrow> sent = conf @ new \<and> fold file_observe l (conf, None) = (sent, None)
   | _ \<Rightarrow> True)"

lemma sent_seen_simps [simp]:
  "sent_seen conf new (Returned sent) l \<longleftrightarrow> sent = conf @ new \<and> fold file_observe l (conf, None) = (sent, None)"
  "sent_seen conf new (Raised e) l" "sent_seen conf new Blocked l"
  by (simp_all add: sent_seen_def)

lemma observe_part: "run_log (upload_part cb wr conf part) w (sent_seen conf part)"
  unfolding upload_part_def Let_def
proof (rule run_log_bindio [OF observe_attempt [of _ part conf 0 w None]])
  fix first l v assume l: "part_seen conf part None (Returned first) l"
  have "run_log (if first then ret True else write_attempt (wr_stream_id wr) part (length conf) 1) v
      (\<lambda>out l'. part_seen conf part None out (l @ l'))"
  proof (cases first)
    case False
    with l obtain z where z: "fold file_observe l (conf, None) = (conf, z)" by (auto simp: part_seen_def)
    have "run_log (write_attempt (wr_stream_id wr) part (length conf) 1) v (\<lambda>out l'. part_seen conf part None out (l @ l'))"
      by (rule run_log_mono [OF observe_attempt [of _ part conf 1 v z]])
        (auto simp: part_seen_def z split: outcome.splits)
    with False show ?thesis by simp
  qed (use l in \<open>auto intro: run_log_ret\<close>)
  then show "run_log (bindio (if first then ret True else write_attempt (wr_stream_id wr) part (length conf) 1) (\<lambda>acknowledged.
      bindio (throw_if (\<not> acknowledged) (TimeoutError ''file write acknowledgement was not recovered'')) (\<lambda>_.
      bindio (notify cb (length conf + length part, wr_total_size wr)) (\<lambda>_.
      ret (conf @ part))))) v (\<lambda>out l'. sent_seen conf part out (l @ l'))"
  proof (rule run_log_bindio)
    fix acknowledged l' v'
    assume "part_seen conf part None (Returned acknowledged) (l @ l')"
    then show "run_log (bindio (throw_if (\<not> acknowledged) (TimeoutError ''file write acknowledgement was not recovered'')) (\<lambda>_.
      bindio (notify cb (length conf + length part, wr_total_size wr)) (\<lambda>_.
      ret (conf @ part)))) v' (\<lambda>out l''. sent_seen conf part out (l @ l' @ l''))"
      by (intro run_log_bind_throw_if
          run_log_bindio [OF run_log_notify [where Q = "\<lambda>out l. l = [] \<or> (\<exists>p. l = [Notify p])"]])
        (auto simp: part_seen_def intro!: run_log_ret)
  qed simp_all
qed simp_all

lemma sent_seen_append:
  assumes "sent_seen conf new (Returned conf') l" and "sent_seen conf' new' out l'"
  shows "sent_seen conf (new @ new') out (l @ l')"
  using assms by (simp add: sent_seen_def split: outcome.splits)

lemma observe_parts:
  assumes "wr_chunk_max wr \<noteq> 0"
  shows "run_log (upload_parts cb wr conf data) w (sent_seen conf data)"
  using assms
proof (induction cb wr conf data arbitrary: w rule: upload_parts.induct)
  case (1 cb wr conf data)
  let ?a = "take (wr_chunk_max wr) data" and ?b = "drop (wr_chunk_max wr) data"
  show ?case
  proof (cases "data = []")
    case False
    have "run_log (bindio (upload_part cb wr conf ?a) (\<lambda>sent'. upload_parts cb wr sent' ?b)) w (sent_seen conf data)"
    proof (rule run_log_bindio [OF observe_part [of cb wr conf ?a w]])
      fix sent' l v assume first: "sent_seen conf ?a (Returned sent') l"
      have "run_log (upload_parts cb wr sent' ?b) v (sent_seen sent' ?b)" using 1 False by simp
      then show "run_log (upload_parts cb wr sent' ?b) v (\<lambda>out l'. sent_seen conf data out (l @ l'))"
        by (rule run_log_mono) (use sent_seen_append [OF first] in force)
    qed simp_all
    with False 1(2) show ?thesis by (simp add: upload_parts.simps [of cb wr conf data])
  qed (simp add: upload_parts.simps [of cb wr conf "[]"] run_log_ret)
qed

text \<open>A source that is read to its end has raised nothing.\<close>

lemma observe_chunks:
  assumes "wr_chunk_max wr \<noteq> 0"
  shows "run_log (upload_chunks cb wr conf chunks) w (sent_seen conf (chunk_bytes chunks))"
  using assms
proof (induction cb wr conf chunks arbitrary: w rule: upload_chunks.induct)
  case (1 cb wr sent)
  show ?case by (simp add: run_log_ret)
next
  case (2 cb wr sent e chunks)
  show ?case by (simp add: run_log_throw)
next
  case (3 cb wr sent data chunks)
  show ?case
  proof (cases "data = []")
    case False
    have "run_log (bindio (upload_parts cb wr sent data) (\<lambda>sent'. upload_chunks cb wr sent' chunks)) w
        (sent_seen sent (data @ chunk_bytes chunks))"
    proof (rule run_log_bindio [OF observe_parts [OF 3(3), of cb sent data w]])
      fix sent' l v assume first: "sent_seen sent data (Returned sent') l"
      show "run_log (upload_chunks cb wr sent' chunks) v (\<lambda>out l'. sent_seen sent (data @ chunk_bytes chunks) out (l @ l'))"
        by (rule run_log_mono [OF 3(2) [OF False 3(3)]]) (rule sent_seen_append [OF first])
    qed simp_all
    with False show ?thesis by (auto intro!: run_log_bind_throw_if)
  qed (use 3 in simp)
qed

section \<open>What is committed\<close>

lemma emits_reconcile_attempts [emits_intros]:
  assumes "\<And>reply. P (Exchange (file_request FileType_WRITE_STATUS [] i) reply)"
  shows "emits P (reconcile_attempts n i)"
  by (induction n) (auto simp: write_status_def intro!: emits_intros assms)

lemma emits_write_attempt [emits_intros]: "emits no_file_commit (write_attempt i part committed n)"
  unfolding write_attempt_def Let_def reconcile_write_status_def
  by (intro emits_intros) (simp_all add: no_file_commit_def)

lemma emits_upload_part [emits_intros]: "emits no_file_commit (upload_part cb wr sent part)"
  unfolding upload_part_def Let_def by (intro emits_intros) (simp_all add: no_file_commit_def)

lemma emits_upload_parts [emits_intros]: "emits no_file_commit (upload_parts cb wr sent data)"
proof (induction cb wr sent data rule: upload_parts.induct)
  case (1 cb wr sent data)
  then show ?case
    by (subst upload_parts.simps) (intro emits_intros, auto)
qed

lemma emits_upload_chunks [emits_intros]: "emits no_file_commit (upload_chunks cb wr sent chunks)"
  by (induction cb wr sent chunks rule: upload_chunks.induct) (auto intro!: emits_intros)

text \<open>A commit asks for nothing but the commit of its digest and the status.\<close>

definition commit_event :: "bytes \<Rightarrow> upload_progress event \<Rightarrow> bool" where
  "commit_event digest ev \<longleftrightarrow> no_write ev \<and>
     (case ev of Exchange r _ \<Rightarrow> is_file FileType_COMMIT r \<longrightarrow> rq_payload r = digest | Notify _ \<Rightarrow> True)"

lemma emits_commit_status [emits_intros]:
  "emits (commit_event digest) (reconcile_write_status i)"
  unfolding reconcile_write_status_def
  by (rule emits_reconcile_attempts) (simp add: commit_event_def no_write_def)

lemma emits_commit [emits_intros]: "emits (commit_event digest) (upload_commit i digest)"
  unfolding upload_commit_def Let_def
  by (intro emits_intros) (simp_all add: commit_event_def no_write_def file_request_def is_file_def file_type.code_inject)

lemma emits_stat: "emits (commit_event digest) (stat volume path)"
  unfolding stat_def metadata_call_def
  by (intro emits_intros) (simp_all add: commit_event_def no_write_def)

lemma emits_open: "emits no_file_commit (write_open volume path n overwrite if_match)"
  unfolding write_open_def Let_def by (intro emits_intros) (simp_all add: no_file_commit_def)

lemma emits_open_write: "emits no_write (write_open volume path n overwrite if_match)"
  unfolding write_open_def Let_def by (intro emits_intros) (simp_all add: no_write_def)

text \<open>A log of writes without a commit, or one that goes on with commits of all that is confirmed then.\<close>

definition committed_log :: "bool \<Rightarrow> bytes \<Rightarrow> upload_progress event list \<Rightarrow> bool" where
  "committed_log whole data l \<longleftrightarrow> whole \<and> (\<exists>l0 l1. l = l0 @ l1 \<and> list_all no_file_commit l0 \<and>
     fold file_observe l0 ([], None) = (data, None) \<and> list_all (commit_event (sha256 data)) l1)"

definition upload_seen :: "bool \<Rightarrow> bytes \<Rightarrow> 'a outcome \<Rightarrow> upload_progress event list \<Rightarrow> bool" where
  "upload_seen whole data out l \<longleftrightarrow>
     ((\<forall>x. out \<noteq> Returned x) \<and> list_all no_file_commit l) \<or> committed_log whole data l"

lemma upload_seen_commits:
  assumes "upload_seen whole data out l"
  shows "commits_ok data l" and "(\<exists>r reply. Exchange r reply \<in> set l \<and> is_file FileType_COMMIT r) \<Longrightarrow> whole"
proof -
  have "commits_ok data (l0 @ l1)" if "list_all no_file_commit l0" "fold file_observe l0 ([], None) = (data, None)"
    "list_all (commit_event (sha256 data)) l1" for l0 l1
    by (rule commits_ok_after) (use that in \<open>force simp: list_all_iff commit_event_def\<close>)+
  with assms show "commits_ok data l" by (auto simp: upload_seen_def committed_log_def commits_ok_none)
  show "(\<exists>r reply. Exchange r reply \<in> set l \<and> is_file FileType_COMMIT r) \<Longrightarrow> whole"
    using assms by (auto simp: upload_seen_def committed_log_def list_all_iff no_file_commit_def)
qed

lemma committed_log_append:
  assumes "committed_log whole data l" and "list_all (commit_event (sha256 data)) l'"
  shows "committed_log whole data (l @ l')"
proof -
  from assms(1) obtain l0 l1 where l: "whole" "l = l0 @ l1" "list_all no_file_commit l0"
    "fold file_observe l0 ([], None) = (data, None)" "list_all (commit_event (sha256 data)) l1"
    by (auto simp: committed_log_def)
  then have "l @ l' = l0 @ (l1 @ l')" "list_all (commit_event (sha256 data)) (l1 @ l')" using assms(2) by simp_all
  with l show ?thesis unfolding committed_log_def by blast
qed

lemma upload_seen_prefix:
  assumes "upload_seen whole data out l" and "list_all no_file_commit lo" and "list_all no_write lo"
  shows "upload_seen whole data out (lo @ l)"
proof (cases "committed_log whole data l")
  case True
  then obtain l0 l1 where l: "whole" "l = l0 @ l1" "list_all no_file_commit l0"
    "fold file_observe l0 ([], None) = (data, None)" "list_all (commit_event (sha256 data)) l1"
    by (auto simp: committed_log_def)
  then have "lo @ l = (lo @ l0) @ l1" "list_all no_file_commit (lo @ l0)"
    "fold file_observe (lo @ l0) ([], None) = (data, None)"
    using assms(2,3) by (simp_all add: observe_settled)
  with l show ?thesis unfolding upload_seen_def committed_log_def by blast
qed (use assms in \<open>auto simp: upload_seen_def\<close>)

lemma upload_chunks_whole:
  "upload_chunks cb wr sent chunks w = (Returned x, v) \<Longrightarrow> Inl e \<notin> set chunks"
  by (induction cb wr sent chunks arbitrary: w rule: upload_chunks.induct)
    (auto simp: io_returned split: if_splits)

lemma observe_body:
  assumes "wr_chunk_max wr \<noteq> 0"
    and whole: "whole \<longleftrightarrow> (\<forall>e. Inl e \<notin> set chunks) \<and> int (length (chunk_bytes chunks)) = wr_total_size wr"
  shows "run_log (upload_body cb wr chunks) w (\<lambda>out l.
    upload_seen whole (chunk_bytes chunks) out l \<and> (\<forall>x. out = Returned x \<longrightarrow> fst x = chunk_bytes chunks))"
    (is "run_log _ _ (\<lambda>out l. upload_seen _ ?data out l \<and> ?ret out)")
proof -
  have writes: "run_log (upload_chunks cb wr [] chunks) w (\<lambda>out l. sent_seen [] ?data out l \<and> list_all no_file_commit l)"
    using observe_chunks [OF assms(1), of cb "[]" chunks w] run_log_emits [OF emits_upload_chunks, of cb wr "[]" chunks w]
    by (auto simp: run_log_def)
  show ?thesis unfolding upload_body_def
  proof (rule run_log_bindio [OF writes])
    fix sent l v
    assume run: "upload_chunks cb wr [] chunks w = (Returned sent, v)"
      and l: "sent_seen [] ?data (Returned sent) l \<and> list_all no_file_commit l"
    let ?rest = "\<lambda>committed. case committed of
       None \<Rightarrow> ret (sent, None)
     | Some frame \<Rightarrow>
         bindio (lift_res (checked frame FileType_COMMIT_RESPONSE ''commit'' 32)) (\<lambda>result.
         bindio (throw_if (length result \<noteq> 32 \<or> fr_stream_id frame \<noteq> int (wr_stream_id wr))
                   (ProtocolError ''invalid file commit response'')) (\<lambda>_.
         ret (sent, Some result)))"
    have ok: "upload_seen whole ?data out (l @ l')"
      if "int (length sent) = wr_total_size wr" "list_all (commit_event (sha256 ?data)) l'" for out :: "(bytes \<times> bytes option) outcome" and l'
      using upload_chunks_whole [OF run] l that by (auto simp: upload_seen_def committed_log_def whole)
    have rest: "run_log (?rest committed) v' (\<lambda>out l''. upload_seen whole ?data out (l @ l' @ l'') \<and> ?ret out)"
      if "int (length sent) = wr_total_size wr" "list_all (commit_event (sha256 ?data)) l'" for committed v' l'
      using ok [OF that(1)] that l
      by (cases committed) (auto intro!: run_log_ret run_log_bind_lift run_log_bind_throw_if)
    show "run_log (bindio (throw_if (int (length sent) \<noteq> wr_total_size wr)
               (ValueError ''HTTP upload ended before its declared content length'')) (\<lambda>_.
        bindio (upload_commit (wr_stream_id wr) (sha256 sent)) ?rest)) v
        (\<lambda>out l'. upload_seen whole ?data out (l @ l') \<and> ?ret out)"
    proof (rule run_log_bind_throw_if)
      assume "\<not> int (length sent) \<noteq> wr_total_size wr"
      then have size: "int (length sent) = wr_total_size wr" by simp
      show "run_log (bindio (upload_commit (wr_stream_id wr) (sha256 sent)) ?rest) v
        (\<lambda>out l'. upload_seen whole ?data out (l @ l') \<and> ?ret out)"
      proof (rule run_log_bindio [OF run_log_emits [OF emits_commit]])
        fix committed l' v'
        assume "list_all (commit_event (sha256 sent)) l'"
        with l show "run_log (?rest committed) v' (\<lambda>out l''. upload_seen whole ?data out (l @ l' @ l'') \<and> ?ret out)"
          by (intro rest [OF size]) simp
      qed (use l ok [OF size] in auto)
    qed (use l in \<open>simp add: upload_seen_def\<close>)
  qed (auto simp: upload_seen_def)
qed

lemma write_open_Returned:
  assumes "write_open volume path n overwrite if_match w = (Returned wr, v)"
  shows "wr_chunk_max wr \<noteq> 0" "wr_total_size wr = n"
  using assms by (auto simp: write_open_def Let_def io_returned)

lemma emits_abort: "emits (\<lambda>ev. no_file_commit ev \<and> commit_event digest ev) (abort_stream i)"
  unfolding abort_stream_def
  by (intro emits_intros) (simp add: commit_event_def no_write_def no_file_commit_def)

lemma observe_abort:
  assumes "upload_seen whole data (Raised e :: 'a outcome) l"
  shows "run_log (bindio (abort_stream i) (\<lambda>_. throw e)) w
    (\<lambda>out l'. upload_seen whole data (out :: 'a outcome) (l @ l') \<and> (\<forall>x. out \<noteq> Returned x))"
proof (rule run_log_bindio [OF run_log_emits [OF emits_abort [where digest = "sha256 data"]]])
  fix l' v
  assume "list_all (\<lambda>ev. no_file_commit ev \<and> commit_event (sha256 data) ev) l'"
  then have l': "list_all no_file_commit l'" "list_all (commit_event (sha256 data)) l'" by (auto simp: list_all_iff)
  with assms show "run_log (throw e) v (\<lambda>out l''. upload_seen whole data out (l @ l' @ l'') \<and> (\<forall>x. out \<noteq> Returned x))"
    by (auto simp: upload_seen_def intro!: run_log_throw committed_log_append)
qed (use assms in \<open>auto simp: upload_seen_def list_all_iff intro!: committed_log_append\<close>)

lemma emits_info:
  "emits (commit_event digest) (case result of
               None \<Rightarrow> stat volume path
             | Some payload \<Rightarrow>
                 bindio (lift_res (metadata payload 4 False)) (\<lambda>meta. ret (located volume path @ meta)))"
  by (cases result) (auto intro!: emits_intros emits_stat)

lemma upload_seen_fails:
  assumes "upload_seen whole data (out :: 'a outcome) l" and "\<And>x. out \<noteq> Returned x" and "\<And>y. out' \<noteq> Returned y"
  shows "upload_seen whole data (out' :: 'b outcome) l"
  using assms by (auto simp: upload_seen_def)

lemma observe_upload:
  assumes whole: "whole \<longleftrightarrow> (\<forall>e. Inl e \<notin> set chunks) \<and> int (length (chunk_bytes chunks)) = total_size"
  shows "run_log (upload cb volume path chunks total_size overwrite if_match) w (\<lambda>out l.
    upload_seen whole (chunk_bytes chunks) out l \<and> (\<forall>answer. out = Returned answer \<longrightarrow>
      item ''sha256'' (jstr (hex (sha256 (chunk_bytes chunks)))) \<in> set answer))"
    (is "run_log _ _ (\<lambda>out l. upload_seen _ ?data out l \<and> ?ret out)")
proof -
  have opens: "run_log (write_open volume path total_size overwrite if_match) w
      (\<lambda>out l. list_all no_file_commit l \<and> list_all no_write l)"
    using run_log_emits [OF emits_open, of volume path total_size overwrite if_match w]
      run_log_emits [OF emits_open_write, of volume path total_size overwrite if_match w] by (auto simp: run_log_def)
  show ?thesis unfolding upload_def
  proof (rule run_log_bindio [OF opens])
    fix wr lo v
    assume opened: "write_open volume path total_size overwrite if_match w = (Returned wr, v)"
      and lo: "list_all no_file_commit lo \<and> list_all no_write lo"
    have size: "wr_total_size wr = total_size" by (rule write_open_Returned(2) [OF opened])
    let ?body = "\<lambda>(out :: (bytes \<times> bytes option) outcome) l. upload_seen whole ?data out l \<and> (\<forall>x. out = Returned x \<longrightarrow> fst x = ?data)"
    have guarded: "run_log (on_raise (upload_body cb wr chunks) (abort_stream (wr_stream_id wr))) v ?body"
      unfolding on_raise_def
    proof (rule run_log_catch [OF observe_body [OF write_open_Returned(1) [OF opened] whole [folded size]]])
      fix e l v' assume l: "?body (Raised e) l"
      show "run_log (bindio (abort_stream (wr_stream_id wr)) (\<lambda>_. throw e)) v' (\<lambda>out l'. ?body out (l @ l'))"
        by (rule run_log_mono [OF observe_abort]) (use l in auto)
    qed simp_all
    show "run_log (bindio (on_raise (upload_body cb wr chunks) (abort_stream (wr_stream_id wr))) (\<lambda>(sent, result).
     bindio (case result of
               None \<Rightarrow> stat volume path
             | Some payload \<Rightarrow>
                 bindio (lift_res (metadata payload 4 False)) (\<lambda>meta. ret (located volume path @ meta))) (\<lambda>info.
     ret (info @ [item ''sha256'' (jstr (hex (sha256 sent))), item ''replaced'' (JBool overwrite)])))) v
       (\<lambda>out l. upload_seen whole ?data out (lo @ l) \<and> ?ret out)"
    proof (rule run_log_bindio [OF guarded])
      fix x l v' assume "?body (Returned x) l"
      then have l: "committed_log whole ?data (lo @ l)" and sent: "fst x = ?data"
        using upload_seen_prefix [of whole ?data "Returned x" l lo] lo by (auto simp: upload_seen_def)
      have tail: "upload_seen whole ?data out (lo @ l @ l')"
        if "list_all (commit_event (sha256 ?data)) l'" for out :: "dict outcome" and l'
        using committed_log_append [OF l that] by (simp add: upload_seen_def)
      show "run_log (case x of (sent, result) \<Rightarrow>
       bindio (case result of
               None \<Rightarrow> stat volume path
             | Some payload \<Rightarrow>
                 bindio (lift_res (metadata payload 4 False)) (\<lambda>meta. ret (located volume path @ meta))) (\<lambda>info.
       ret (info @ [item ''sha256'' (jstr (hex (sha256 sent))), item ''replaced'' (JBool overwrite)]))) v'
        (\<lambda>out l'. upload_seen whole ?data out (lo @ l @ l') \<and> ?ret out)"
        unfolding case_prod_beta
        by (rule run_log_bindio [OF run_log_emits [OF emits_info [where digest = "sha256 ?data"]]])
          (auto simp: sent intro!: run_log_ret tail)
    qed (use lo in \<open>auto intro: upload_seen_prefix upload_seen_fails\<close>)
  qed (auto simp: upload_seen_def)
qed

text \<open>Claim C15. An upload commits only what the device has confirmed. Whatever the device answers, a commit it asks
  for names the SHA-256 of the whole source, when the source has ended without an error at its declared size and when
  the parts the device has acknowledged, or reported committed after a lost answer, are together just those bytes; and
  an upload that returns reports this digest.\<close>

theorem upload_commits_confirmed:
  "let data = chunk_bytes chunks;
       whole = ((\<forall>e. Inl e \<notin> set chunks) \<and> int (length data) = total_size);
       (out, w) = upload cb volume path chunks total_size overwrite if_match \<lparr>w_replies = replies, w_log = []\<rparr>
   in (\<forall>es1 r reply es2. w_log w = es1 @ Exchange r reply # es2 \<longrightarrow> is_file FileType_COMMIT r \<longrightarrow>
         whole \<and> rq_payload r = sha256 data \<and> file_confirmed es1 = data)
    \<and> (\<forall>answer. out = Returned answer \<longrightarrow> whole \<and> item ''sha256'' (jstr (hex (sha256 data))) \<in> set answer)"
proof -
  let ?data = "chunk_bytes chunks"
  define whole where whole: "whole \<longleftrightarrow> (\<forall>e. Inl e \<notin> set chunks) \<and> int (length ?data) = total_size"
  obtain out w where run: "upload cb volume path chunks total_size overwrite if_match \<lparr>w_replies = replies, w_log = []\<rparr> = (out, w)"
    by fastforce
  obtain l where l: "w_log w = [] @ l" "upload_seen whole ?data out l"
    "\<And>answer. out = Returned answer \<Longrightarrow> item ''sha256'' (jstr (hex (sha256 ?data))) \<in> set answer"
    using run_logD [OF observe_upload [OF whole] run] by auto
  have "whole \<and> item ''sha256'' (jstr (hex (sha256 ?data))) \<in> set answer" if "out = Returned answer" for answer
    using l(2,3) that by (simp add: upload_seen_def committed_log_def)
  moreover have "whole \<and> rq_payload r = sha256 ?data \<and> file_confirmed es1 = ?data"
    if "w_log w = es1 @ Exchange r reply # es2" "is_file FileType_COMMIT r" for es1 r reply es2
  proof -
    from that l(1) have log: "l = es1 @ Exchange r reply # es2" by simp
    have "whole" by (rule upload_seen_commits(2) [OF l(2)]) (use log that(2) in auto)
    with upload_seen_commits(1) [OF l(2)] log that(2) show ?thesis unfolding commits_ok_def by blast
  qed
  ultimately show ?thesis unfolding Let_def run case_prod_conv whole [symmetric] by simp
qed

section \<open>An example\<close>

text \<open>Three bytes in parts of two; the acknowledgement of the second part is lost, its status is not.\<close>

definition ex_upload_world :: "upload_progress world" where
  "ex_upload_world = \<lparr>w_replies =
     [ex_file_frame FileType_WRITE_OPENED 5 (le_bytes 4 5 @ le_bytes 2 2 @ le_bytes 2 0),
      ex_file_frame FileType_WRITE_ACK 5 (le_bytes 8 2),
      Inl (TimeoutError ''request''),
      ex_file_frame FileType_WRITE_STATUS_RESPONSE 5 (le_bytes 8 3 @ le_bytes 8 3 @ [1, 0, 0, 0] @ le_bytes 2 0 @ le_bytes 2 0),
      ex_file_frame FileType_COMMIT_RESPONSE 5 ([1, 0, 0, 0] @ le_bytes 8 3 @ le_bytes 8 0 @ le_bytes 8 7)],
     w_log = []\<rparr>"

lemma reconcile_12: "reconcile_attempts 12 i = catch (write_status i) (\<lambda>e. if \<not> is_busy e then throw e else reconcile_attempts 11 i)"
  using reconcile_attempts.simps(2) [of 11 i] by simp

lemma ex_upload_run:
  "\<exists>answer v es1 reply. upload None [0x76] [0x66] [Inr [1, 2, 3]] 3 True None ex_upload_world = (Returned answer, v) \<and>
     w_log v = es1 @ [Exchange (file_request FileType_COMMIT (sha256 [1, 2, 3]) 5) reply] \<and> length es1 = 4"
  unfolding upload_def upload_body_def on_raise_def upload_commit_def Let_def
  by (simp add: write_open_def ex_path etag_value_def ex_upload_world_def run_simps
      upload_parts.simps upload_part_def write_attempt_def write_message_def pack_uint_def
      reconcile_write_status_def reconcile_12 write_status_def WRITE_OVERWRITE_def decode_write_status_def write_state_members_def
      ex_file_defs metadata_def catch_def bindio_def notify_def file_kind_def)

theorem upload_commits_confirmed_witness:
  "\<exists>es1 r reply. w_log (snd (upload None [0x76] [0x66] [Inr [1, 2, 3]] 3 True None ex_upload_world)) = es1 @ [Exchange r reply]
     \<and> length es1 = 4 \<and> is_file FileType_COMMIT r \<and> rq_payload r = sha256 [1, 2, 3] \<and> file_confirmed es1 = [1, 2, 3]"
proof -
  obtain answer v es1 reply where run: "upload None [0x76] [0x66] [Inr [1, 2, 3]] 3 True None ex_upload_world = (Returned answer, v)"
    and log: "w_log v = es1 @ [Exchange (file_request FileType_COMMIT (sha256 [1, 2, 3]) 5) reply]" "length es1 = 4"
    using ex_upload_run by blast
  have "file_confirmed es1 = [1, 2, 3]"
    using upload_commits_confirmed [of "[Inr [1, 2, 3]]" 3 None "[0x76]" "[0x66]" True None "w_replies ex_upload_world"]
      run log(1) unfolding ex_upload_world_def Let_def by (force simp: is_file_request)
  with run log show ?thesis by (auto simp: file_request_def is_file_def)
qed

end
