(* ===== verification/Stateful.thy ===== *)
theory Stateful
  imports Protocol_Types
begin

text \<open>
  Code that mutates an object and may raise: a function from the state to a result and the state
  it leaves. An exception keeps the mutations made before it, as in Python. The weakest
  precondition \<open>wp m Q E s\<close> says that \<open>m\<close>, started in \<open>s\<close>, returns with \<open>Q\<close> or raises with
  \<open>E\<close>; its equations, collected in \<open>wp_simps\<close>, follow the combinators, so that a property of a
  method is proved by rewriting its body.
\<close>

named_theorems wp_simps \<open>weakest preconditions of the combinators\<close>

type_synonym ('s, 'a) st = "'s \<Rightarrow> 'a res \<times> 's"

definition sret :: "'a \<Rightarrow> ('s, 'a) st" where
  "sret x s = (Inr x, s)"

definition sraise :: "exn \<Rightarrow> ('s, 'a) st" where
  "sraise e s = (Inl e, s)"

definition sbind :: "('s, 'a) st \<Rightarrow> ('a \<Rightarrow> ('s, 'b) st) \<Rightarrow> ('s, 'b) st" where
  "sbind m f s = (case m s of (Inr x, t) \<Rightarrow> f x t | (Inl e, t) \<Rightarrow> (Inl e, t))"

definition sget :: "('s \<Rightarrow> 'a) \<Rightarrow> ('s, 'a) st" where
  "sget g s = (Inr (g s), s)"

definition smod :: "('s \<Rightarrow> 's) \<Rightarrow> ('s, unit) st" where
  "smod f s = (Inr (), f s)"

definition slift :: "'a res \<Rightarrow> ('s, 'a) st" where
  "slift r s = (r, s)"

definition sraise_if :: "bool \<Rightarrow> exn \<Rightarrow> ('s, unit) st" where
  "sraise_if c e = (if c then sraise e else sret ())"

text \<open>\<^verbatim>\<open>try: m except ...: h\<close>, where the handler raises again what it does not catch, and
  \<^verbatim>\<open>try: m finally: c\<close>.\<close>

definition scatch :: "('s, 'a) st \<Rightarrow> (exn \<Rightarrow> ('s, 'a) st) \<Rightarrow> ('s, 'a) st" where
  "scatch m h s = (case m s of (Inr x, t) \<Rightarrow> (Inr x, t) | (Inl e, t) \<Rightarrow> h e t)"

definition sfinally :: "('s, 'a) st \<Rightarrow> ('s, unit) st \<Rightarrow> ('s, 'a) st" where
  "sfinally m c s =
     (case m s of
        (Inr x, t) \<Rightarrow> sbind c (\<lambda>_. sret x) t
      | (Inl e, t) \<Rightarrow> sbind c (\<lambda>_. sraise e) t)"

text \<open>A loop over a list.\<close>

primrec sfor :: "'b list \<Rightarrow> ('b \<Rightarrow> ('s, unit) st) \<Rightarrow> ('s, unit) st" where
  "sfor [] body = sret ()"
| "sfor (x # xs) body = sbind (body x) (\<lambda>_. sfor xs body)"

section \<open>Weakest preconditions\<close>

definition wp :: "('s, 'a) st \<Rightarrow> ('a \<Rightarrow> 's \<Rightarrow> bool) \<Rightarrow> (exn \<Rightarrow> 's \<Rightarrow> bool) \<Rightarrow> 's \<Rightarrow> bool" where
  "wp m Q E s \<longleftrightarrow> (case m s of (Inr x, t) \<Rightarrow> Q x t | (Inl e, t) \<Rightarrow> E e t)"

lemma wp_sret [wp_simps]: "wp (sret x) Q E = Q x"
  by (rule ext) (simp add: wp_def sret_def)

lemma wp_sraise [wp_simps]: "wp (sraise e) Q E = E e"
  by (rule ext) (simp add: wp_def sraise_def)

lemma wp_sbind [wp_simps]: "wp (sbind m f) Q E = wp m (\<lambda>x. wp (f x) Q E) E"
  by (rule ext) (auto simp: wp_def sbind_def split: prod.split sum.split)

lemma wp_sget [wp_simps]: "wp (sget g) Q E = (\<lambda>s. Q (g s) s)"
  by (rule ext) (simp add: wp_def sget_def)

lemma wp_smod [wp_simps]: "wp (smod f) Q E = (\<lambda>s. Q () (f s))"
  by (rule ext) (simp add: wp_def smod_def)

lemma wp_slift [wp_simps]: "wp (slift r) Q E = (case r of Inr x \<Rightarrow> Q x | Inl e \<Rightarrow> E e)"
  by (rule ext) (simp add: wp_def slift_def split: sum.split)

lemma wp_sraise_if [wp_simps]: "wp (sraise_if c e) Q E = (if c then E e else Q ())"
  by (simp add: sraise_if_def wp_simps)

lemma wp_if [wp_simps]: "wp (if c then m else n) Q E = (if c then wp m Q E else wp n Q E)"
  by simp

lemma wp_scatch [wp_simps]: "wp (scatch m h) Q E = wp m Q (\<lambda>e. wp (h e) Q E)"
  by (rule ext) (auto simp: wp_def scatch_def split: prod.split sum.split)

lemma wp_sfinally [wp_simps]:
  "wp (sfinally m c) Q E = wp m (\<lambda>x. wp c (\<lambda>_. Q x) E) (\<lambda>e. wp c (\<lambda>_. E e) E)"
  by (rule ext)
    (auto simp: wp_def sfinally_def sbind_def sret_def sraise_def split: prod.split sum.split)

text \<open>Consequence, and what a precondition says of a given run.\<close>

lemma wp_mono:
  assumes "wp m Q E s" and "\<And>x t. Q x t \<Longrightarrow> Q' x t" and "\<And>e t. E e t \<Longrightarrow> E' e t"
  shows "wp m Q' E' s"
  using assms by (auto simp: wp_def split: prod.splits sum.splits)

lemma wp_conj:
  assumes "wp m Q E s" and "wp m Q' E' s"
  shows "wp m (\<lambda>x t. Q x t \<and> Q' x t) (\<lambda>e t. E e t \<and> E' e t) s"
  using assms by (auto simp: wp_def split: prod.splits sum.splits)

lemma wp_run:
  assumes "wp m Q E s" and "m s = (r, t)"
  shows "case r of Inr x \<Rightarrow> Q x t | Inl e \<Rightarrow> E e t"
  using assms by (simp add: wp_def split: sum.splits)

lemma wp_snd: "wp m (\<lambda>_. P) (\<lambda>_. P) s \<longleftrightarrow> P (snd (m s))"
  by (simp add: wp_def split: prod.split sum.split)

text \<open>\<open>keeps I m\<close>: every way out of \<open>m\<close> keeps \<open>I\<close>.\<close>

definition keeps :: "('s \<Rightarrow> bool) \<Rightarrow> ('s, 'a) st \<Rightarrow> bool" where
  "keeps I m \<longleftrightarrow> (\<forall>s. I s \<longrightarrow> wp m (\<lambda>_. I) (\<lambda>_. I) s)"

lemma keepsI: "(\<And>s. I s \<Longrightarrow> wp m (\<lambda>_. I) (\<lambda>_. I) s) \<Longrightarrow> keeps I m"
  by (simp add: keeps_def)

lemma keepsD: "keeps I m \<Longrightarrow> I s \<Longrightarrow> wp m (\<lambda>_. I) (\<lambda>_. I) s"
  by (simp add: keeps_def)

lemma keeps_snd: "keeps I m \<Longrightarrow> I s \<Longrightarrow> I (snd (m s))"
  by (simp add: keeps_def wp_snd)

lemma keeps_sbind:
  assumes "keeps I m" and "\<And>x. keeps I (f x)"
  shows "keeps I (sbind m f)"
proof (rule keepsI)
  fix s assume "I s"
  with assms(1) have "wp m (\<lambda>_. I) (\<lambda>_. I) s" by (rule keepsD)
  then show "wp (sbind m f) (\<lambda>_. I) (\<lambda>_. I) s"
    unfolding wp_sbind by (rule wp_mono) (simp_all add: keepsD [OF assms(2)])
qed

lemma keeps_sfor:
  assumes "\<And>x. x \<in> set xs \<Longrightarrow> keeps I (body x)"
  shows "keeps I (sfor xs body)"
  using assms
proof (induction xs)
  case Nil
  then show ?case by (simp add: keeps_def wp_simps)
next
  case (Cons x xs)
  then show ?case by (simp add: keeps_sbind)
qed

section \<open>Relations between a state and what follows it\<close>

text \<open>\<open>leads R m\<close>: every run of \<open>m\<close>, whatever its outcome, leaves a state in relation \<open>R\<close> with
  the one it started in. For a preorder the combinators pass it on.\<close>

definition leads :: "('s \<Rightarrow> 's \<Rightarrow> bool) \<Rightarrow> ('s, 'a) st \<Rightarrow> bool" where
  "leads R m \<longleftrightarrow> (\<forall>s. R s (snd (m s)))"

lemma leadsI: "(\<And>s. wp m (\<lambda>_. R s) (\<lambda>_. R s) s) \<Longrightarrow> leads R m"
  by (simp add: leads_def wp_snd)

lemma leadsD: "leads R m \<Longrightarrow> wp m (\<lambda>_. R s) (\<lambda>_. R s) s"
  by (simp add: leads_def wp_snd)

lemma leads_run: "leads R m \<Longrightarrow> m s = (r, t) \<Longrightarrow> R s t"
  unfolding leads_def by (metis snd_conv)

lemma leads_mono: "leads R m \<Longrightarrow> R \<le> R' \<Longrightarrow> leads R' m"
  by (simp add: leads_def le_fun_def)

locale evolution =
  fixes R :: "'s \<Rightarrow> 's \<Rightarrow> bool"
  assumes refl: "R s s"
    and trans: "R s t \<Longrightarrow> R t v \<Longrightarrow> R s v"
begin

lemma after:
  assumes "leads R m" and "R s t"
  shows "wp m (\<lambda>_. R s) (\<lambda>_. R s) t"
  by (rule wp_mono [OF leadsD [OF assms(1)]]) (rule trans [OF assms(2)], assumption)+

lemma basic:
  "leads R (sret x)" "leads R (sraise e)" "leads R (sget g)" "leads R (slift r)"
  "leads R (sraise_if c e)"
  by (auto intro!: leadsI simp: wp_simps refl split: sum.split)

lemma change: "(\<And>s. R s (f s)) \<Longrightarrow> leads R (smod f)"
  by (auto intro!: leadsI simp: wp_simps)

lemma bind:
  assumes "leads R m" and "\<And>x. leads R (f x)"
  shows "leads R (sbind m f)"
proof (rule leadsI)
  fix s
  show "wp (sbind m f) (\<lambda>_. R s) (\<lambda>_. R s) s"
    unfolding wp_sbind by (rule wp_mono [OF leadsD [OF assms(1)]]) (auto intro: after assms(2))
qed

lemma handler:
  assumes "leads R m" and "\<And>e. leads R (h e)"
  shows "leads R (scatch m h)"
proof (rule leadsI)
  fix s
  show "wp (scatch m h) (\<lambda>_. R s) (\<lambda>_. R s) s"
    unfolding wp_scatch by (rule wp_mono [OF leadsD [OF assms(1)]]) (auto intro: after assms(2))
qed

lemma cleanup:
  assumes "leads R m" and "leads R c"
  shows "leads R (sfinally m c)"
proof (rule leadsI)
  fix s
  show "wp (sfinally m c) (\<lambda>_. R s) (\<lambda>_. R s) s"
    unfolding wp_sfinally by (rule wp_mono [OF leadsD [OF assms(1)]]) (auto intro: after assms(2))
qed

lemma branch:
  "(c \<Longrightarrow> leads R m) \<Longrightarrow> (\<not> c \<Longrightarrow> leads R n) \<Longrightarrow> leads R (if c then m else n)"
  by simp

lemma option_case:
  "leads R m \<Longrightarrow> (\<And>x. leads R (f x)) \<Longrightarrow> leads R (case_option m f z)"
  by (cases z) simp_all

lemma pair_case: "(\<And>x y. leads R (f x y)) \<Longrightarrow> leads R (case_prod f z)"
  by (cases z) simp

lemma loop: "(\<And>x. leads R (body x)) \<Longrightarrow> leads R (sfor xs body)"
  by (induction xs) (simp_all add: basic bind)

lemmas rules = basic bind handler cleanup branch option_case pair_case loop

end

section \<open>Which exceptions can be raised\<close>

text \<open>\<open>raises_only I A m\<close>: from a state with \<open>I\<close>, \<open>m\<close> returns in a state with \<open>I\<close> or raises an exception
  of \<open>A\<close>.\<close>

definition raises_only :: "('s \<Rightarrow> bool) \<Rightarrow> (exn \<Rightarrow> bool) \<Rightarrow> ('s, 'a) st \<Rightarrow> bool" where
  "raises_only I A m \<longleftrightarrow> (\<forall>s. I s \<longrightarrow> wp m (\<lambda>_. I) (\<lambda>e _. A e) s)"

named_theorems raises_rules \<open>rules for the exceptions of the combinators\<close>

lemma raises_onlyI: "(\<And>s. I s \<Longrightarrow> wp m (\<lambda>_. I) (\<lambda>e _. A e) s) \<Longrightarrow> raises_only I A m"
  by (simp add: raises_only_def)

lemma raises_onlyD: "raises_only I A m \<Longrightarrow> I s \<Longrightarrow> wp m (\<lambda>_. I) (\<lambda>e _. A e) s"
  by (simp add: raises_only_def)

lemma raises_only_run: "raises_only I A m \<Longrightarrow> I s \<Longrightarrow> m s = (Inl e, t) \<Longrightarrow> A e"
  by (auto simp: raises_only_def wp_def split: prod.splits)

lemma raises_bind [raises_rules]:
  assumes "raises_only I A m" and "\<And>x. raises_only I A (f x)"
  shows "raises_only I A (sbind m f)"
proof (rule raises_onlyI)
  fix s assume "I s"
  then show "wp (sbind m f) (\<lambda>_. I) (\<lambda>e _. A e) s"
    unfolding wp_sbind
    by (intro wp_mono [OF raises_onlyD [OF assms(1)]]) (simp_all add: raises_onlyD [OF assms(2)])
qed

lemma raises_basic [raises_rules]:
  "raises_only I A (sret x)" "raises_only I A (sget g)"
  "A e \<Longrightarrow> raises_only I A (sraise e)" "(c \<Longrightarrow> A e) \<Longrightarrow> raises_only I A (sraise_if c e)"
  "(\<And>e. r = Inl e \<Longrightarrow> A e) \<Longrightarrow> raises_only I A (slift r)"
  by (auto intro!: raises_onlyI simp: wp_simps split: sum.split)

lemma raises_smod: "(\<And>s. I s \<Longrightarrow> I (f s)) \<Longrightarrow> raises_only I A (smod f)"
  by (auto intro!: raises_onlyI simp: wp_simps)

lemma raises_if [raises_rules]:
  "(c \<Longrightarrow> raises_only I A m) \<Longrightarrow> (\<not> c \<Longrightarrow> raises_only I A n) \<Longrightarrow> raises_only I A (if c then m else n)"
  by simp

lemma raises_case_option [raises_rules]:
  "raises_only I A m \<Longrightarrow> (\<And>x. raises_only I A (f x)) \<Longrightarrow> raises_only I A (case_option m f z)"
  by (cases z) simp_all

text \<open>Execution.\<close>

lemma run_sbind:
  "m s = (Inr x, t) \<Longrightarrow> sbind m f s = f x t"
  "m s = (Inl e, t) \<Longrightarrow> sbind m f s = (Inl e, t)"
  by (simp_all add: sbind_def)

lemmas st_run = sret_def sraise_def sbind_def sget_def smod_def slift_def sraise_if_def scatch_def
  sfinally_def

end
