(* ===== verification/Boot_Identity.thy ===== *)
theory Boot_Identity
  imports Json_Value
begin

text \<open>
  \<^verbatim>\<open>boot_identity.py\<close>: a copy of a document in which every integer boot identifier has its decimal
  text beside it, in nested dictionaries and in dictionaries that are entries of a list.
\<close>

definition is_boot_key :: "ustr \<Rightarrow> bool" where
  "is_boot_key key \<longleftrightarrow> key = u ''boot_id'' \<or> drop (length key - 8) key = u ''_boot_id''"

definition add_boot_text :: "ustr \<times> json \<Rightarrow> dict \<Rightarrow> dict" where
  "add_boot_text kv result =
     (case kv of (key, v) \<Rightarrow>
        (case v of
           JInt n \<Rightarrow> if is_boot_key key then dput result (key @ u ''_text'') (JStr (u (str_int n)))
                     else result
         | _ \<Rightarrow> result))"

text \<open>The value of one key: a dictionary is copied, a list has its dictionaries copied.\<close>

fun is_dict :: "json \<Rightarrow> bool" where
  "is_dict (JDict _) = True"
| "is_dict _ = False"

fun boot_id_copy :: "json \<Rightarrow> json" where
  "boot_id_copy (JDict d) =
     JDict (fold add_boot_text d (map (\<lambda>(key, v). (key, boot_id_copy v)) d))"
| "boot_id_copy (JList vs) = JList (map (\<lambda>v. if is_dict v then boot_id_copy v else v) vs)"
| "boot_id_copy v = v"

definition boot_id_text :: "dict \<Rightarrow> dict" where
  "boot_id_text d = fold add_boot_text d (map (\<lambda>(key, v). (key, boot_id_copy v)) d)"

lemma boot_id_copy_dict: "boot_id_copy (JDict d) = JDict (boot_id_text d)"
  by (simp add: boot_id_text_def)

section \<open>What the copy keeps\<close>

text \<open>A key that no boot identifier of the document generates keeps its value.\<close>

lemma map_of_add_boot_texts:
  assumes "\<And>k. key \<noteq> k @ u ''_text''"
  shows "map_of (fold add_boot_text d result) key = map_of result key"
proof (induction d arbitrary: result)
  case Nil
  then show ?case by simp
next
  case (Cons kv d)
  have "map_of (add_boot_text kv result) key = map_of result key"
    using assms by (auto simp: add_boot_text_def split: prod.split json.split)
  with Cons show ?case by simp
qed

lemma boot_id_text_keeps:
  assumes "\<And>k. key \<noteq> k @ u ''_text''"
  shows "map_of (boot_id_text d) key = map_option boot_id_copy (map_of d key)"
  using assms by (simp add: boot_id_text_def map_of_add_boot_texts map_of_map comp_def)

end
