(* ===== verification/Session.thy ===== *)
theory Session
  imports Stateful Frame_Decoder Tlv State_Machine Boot_Identity Sha256 "HOL-Library.AList"
begin

text \<open>
  The device session (\<^verbatim>\<open>session.py\<close>, class \<^verbatim>\<open>DeviceSession\<close>): the state of one link, the
  handshake with its authentication proof and the reopening of a session, the acceptance of
  frames by session and sequence number, the routing of replies to pending requests, flow
  control credits, and closing. A handler is one step on the state; between two steps other
  tasks may run, so every claim holds for every sequence of steps. What the surroundings decide
  (whether a write or a callback raises, the nonce, the clocks) is the environment of a step.
\<close>

section \<open>Device information\<close>

record device_info =
  di_device_id :: ustr
  di_boot_id :: nat
  di_session_id :: int
  di_endpoint :: ustr
  di_transport :: nat
  di_project_name :: ustr
  di_app_version :: ustr
  di_idf_version :: ustr
  di_firmware_sha256 :: ustr
  di_reset_reason :: nat
  di_capabilities :: nat
  di_auth_mode :: nat
  di_max_payload :: nat
  di_firmware_mode :: ustr
  di_product_contract :: ustr
  di_chip_target :: ustr
  di_board_id :: ustr
  di_layout_id :: ustr
  di_recovery_abi :: nat
  di_required_features :: nat
  di_health_timeout_ms :: nat
  di_hardware_mac :: ustr

text \<open>\<^verbatim>\<open>dataclasses.asdict\<close>.\<close>

definition info_asdict :: "device_info \<Rightarrow> dict" where
  "info_asdict i =
     [item ''device_id'' (JStr (di_device_id i)), item ''boot_id'' (jnat (di_boot_id i)),
      item ''session_id'' (JInt (di_session_id i)), item ''endpoint'' (JStr (di_endpoint i)),
      item ''transport'' (jnat (di_transport i)), item ''project_name'' (JStr (di_project_name i)),
      item ''app_version'' (JStr (di_app_version i)), item ''idf_version'' (JStr (di_idf_version i)),
      item ''firmware_sha256'' (JStr (di_firmware_sha256 i)),
      item ''reset_reason'' (jnat (di_reset_reason i)),
      item ''capabilities'' (jnat (di_capabilities i)), item ''auth_mode'' (jnat (di_auth_mode i)),
      item ''max_payload'' (jnat (di_max_payload i)),
      item ''firmware_mode'' (JStr (di_firmware_mode i)),
      item ''product_contract'' (JStr (di_product_contract i)),
      item ''chip_target'' (JStr (di_chip_target i)), item ''board_id'' (JStr (di_board_id i)),
      item ''layout_id'' (JStr (di_layout_id i)), item ''recovery_abi'' (jnat (di_recovery_abi i)),
      item ''required_features'' (jnat (di_required_features i)),
      item ''health_timeout_ms'' (jnat (di_health_timeout_ms i)),
      item ''hardware_mac'' (JStr (di_hardware_mac i))]"

definition CAPABILITY_NAMES :: "(nat \<times> string) list" where
  "CAPABILITY_NAMES =
     [(0, ''log''), (1, ''events''), (2, ''status''), (3, ''time_sync''), (4, ''screen''),
      (5, ''ota''), (6, ''crash''), (7, ''auth''), (8, ''rpc''), (9, ''jobs''), (10, ''image''),
      (11, ''audio''), (12, ''mirror''), (13, ''files''), (14, ''ota_project_name_match''),
      (15, ''system_update''), (16, ''system_inventory'')]"

definition capability_names :: "nat \<Rightarrow> string list" where
  "capability_names caps =
     (let names = map snd (filter (\<lambda>c. bit caps (fst c)) CAPABILITY_NAMES) @ [''restart'']
      in if ''rpc'' \<in> set names then names @ [''input''] else names)"

definition as_dict :: "device_info \<Rightarrow> dict" where
  "as_dict i =
     dput (dput (boot_id_text (info_asdict i)) (u ''capability_names'')
             (JList (map jstr (capability_names (di_capabilities i)))))
       (u ''ota_project_name_match_required'')
       (JBool (has_capability (di_capabilities i) Capability_OTA_PROJECT_NAME_MATCH))"

section \<open>The state of a session\<close>

text \<open>A future of a request: not done, with a result, with an exception, or cancelled.\<close>

datatype future = Waiting | Result frame | Failed exn | Cancelled

text \<open>What a session does to its surroundings, in order.\<close>

datatype effect =
    Wrote frame
  | On_event dict
  | On_media dict
  | On_ready device_info
  | Link_closed

record session =
  ss_info :: "device_info option"
  ss_pairing_token :: "bytes option"
  ss_decoder :: frame_decoder
  ss_state :: session_state
  ss_pending :: "(nat \<times> nat) list"
  ss_futures :: "future list"
  ss_request_id :: nat
  ss_reopen_session_id :: "int option"
  ss_reopen_requested :: bool
  ss_sequence :: "nat list"
  ss_last_rx_sequence :: "int option list"
  ss_closed :: bool
  ss_ready :: bool
  ss_clock_task :: bool
  ss_log_credit :: int
  ss_crash_chunk_max :: nat
  ss_ready_announced :: bool
  ss_media_credit :: "int list"
  ss_clock_offset_us :: "rat option"
  ss_clock_uncertainty_us :: "rat option"
  ss_effects :: "effect list"

definition channel_count :: nat where
  "channel_count = Max (set (map channel_code channel_members)) + 1"

datatype token_argument = Token_text ustr | Token_bytes bytes

definition pairing_token_of :: "token_argument option \<Rightarrow> bytes option res" where
  "pairing_token_of token =
     bindr (case token of
              Some (Token_text s) \<Rightarrow>
                (case fromhex s of
                   Some b \<Rightarrow> Inr (Some b)
                 | None \<Rightarrow> Inl (ValueError ''pairing token must be 64 hex characters''))
            | Some (Token_bytes b) \<Rightarrow> Inr (Some b)
            | None \<Rightarrow> Inr None) (\<lambda>t.
     bindr (raise_if (\<exists>b \<in> set_option t. length b \<noteq> 32)
              (ValueError ''pairing token must contain 32 bytes'')) (\<lambda>_. Inr t))"

definition session_init :: "token_argument option \<Rightarrow> rat \<Rightarrow> rat \<Rightarrow> session res" where
  "session_init token clock_sync_interval clock_sync_timeout =
     bindr (raise_if (clock_sync_interval \<le> 0 \<or> clock_sync_timeout \<le> 0)
              (ValueError ''clock sync interval and timeout must be positive'')) (\<lambda>_.
     bindr (pairing_token_of token) (\<lambda>t.
     Inr \<lparr>ss_info = None, ss_pairing_token = t, ss_decoder = frame_decoder_init,
          ss_state = NEGOTIATING, ss_pending = [], ss_futures = [], ss_request_id = 0,
          ss_reopen_session_id = None, ss_reopen_requested = False,
          ss_sequence = replicate channel_count 0,
          ss_last_rx_sequence = replicate channel_count None,
          ss_closed = False, ss_ready = False, ss_clock_task = False, ss_log_credit = 0,
          ss_crash_chunk_max = 1024, ss_ready_announced = False,
          ss_media_credit = replicate channel_count 0,
          ss_clock_offset_us = None, ss_clock_uncertainty_us = None, ss_effects = []\<rparr>))"

section \<open>The environment of a step\<close>

text \<open>The endpoint name of the link, whether a write, a callback or closing the link raises,
  the random nonce, and the clock readings of the step.\<close>

record environment =
  en_endpoint :: ustr
  en_write :: "bytes \<Rightarrow> exn option"
  en_on_event :: "dict \<Rightarrow> exn option"
  en_on_media :: "dict \<Rightarrow> exn option"
  en_on_ready :: "exn option"
  en_close :: "exn option"
  en_nonce :: bytes
  en_monotonic_ns :: int
  en_time_ns :: int
  en_wall_minus_monotonic_ns :: int

definition perform :: "effect \<Rightarrow> exn option \<Rightarrow> (session, unit) st" where
  "perform a outcome =
     sbind (smod (\<lambda>s. s\<lparr>ss_effects := ss_effects s @ [a]\<rparr>)) (\<lambda>_.
     case outcome of None \<Rightarrow> sret () | Some e \<Rightarrow> sraise e)"

section \<open>Closing\<close>

definition fail_future :: "future \<Rightarrow> future" where
  "fail_future f = (if f = Waiting then Failed (ConnectionError ''ESP-Iris session closed'') else f)"

definition fail_pending :: "(session, unit) st" where
  "fail_pending =
     smod (\<lambda>s. s\<lparr>ss_futures := fold (\<lambda>p fs. fs[snd p := fail_future (fs ! snd p)]) (ss_pending s) (ss_futures s),
               ss_pending := []\<rparr>)"

text \<open>The part \<^verbatim>\<open>close\<close> and the end of \<^verbatim>\<open>run\<close> share.\<close>

definition mark_closed :: "(session, unit) st" where
  "mark_closed =
     sbind (smod (\<lambda>s. s\<lparr>ss_closed := True\<rparr>)) (\<lambda>_.
     sbind (sget ss_state) (\<lambda>state.
     sbind (if state \<noteq> CLOSED
            then sbind (slift (session_transition state CLOSE)) (\<lambda>state'.
                 smod (\<lambda>s. s\<lparr>ss_state := state'\<rparr>))
            else sret ()) (\<lambda>_.
     fail_pending)))"

definition close_link :: "environment \<Rightarrow> (session, unit) st" where
  "close_link env = perform Link_closed (en_close env)"

definition close_session :: "environment \<Rightarrow> (session, unit) st" where
  "close_session env = sbind mark_closed (\<lambda>_. close_link env)"

section \<open>Sending and requests\<close>

definition send ::
  "environment \<Rightarrow> nat \<Rightarrow> nat \<Rightarrow> bytes \<Rightarrow> nat \<Rightarrow> nat \<Rightarrow> nat \<Rightarrow> (session, unit) st" where
  "send env channel ty payload flags request_id stream_id =
     sbind (sget (\<lambda>s. case ss_info s of None \<Rightarrow> 0 | Some i \<Rightarrow> di_session_id i)) (\<lambda>session_id.
     sbind (sget (\<lambda>s. channel < length (ss_sequence s))) (\<lambda>known.
     sbind (sraise_if (\<not> known) IndexError) (\<lambda>_.
     sbind (smod (\<lambda>s. s\<lparr>ss_sequence := (ss_sequence s)[channel := (ss_sequence s ! channel + 1) mod 2 ^ 32]\<rparr>)) (\<lambda>_.
     sbind (sget (\<lambda>s. \<lparr>fr_channel = int channel, fr_type = int ty, fr_flags = int flags,
                       fr_session_id = session_id, fr_request_id = int request_id,
                       fr_stream_id = int stream_id, fr_sequence = int (ss_sequence s ! channel),
                       fr_payload = payload\<rparr>)) (\<lambda>frame.
     sbind (slift (encode_frame frame)) (\<lambda>wire.
     perform (Wrote frame) (en_write env wire)))))))"

definition next_request_id :: "nat \<Rightarrow> nat" where
  "next_request_id i = (if (i + 1) mod 2 ^ 32 = 0 then 1 else (i + 1) mod 2 ^ 32)"

definition pop_pending :: "nat \<Rightarrow> (session, unit) st" where
  "pop_pending request_id = smod (\<lambda>s. s\<lparr>ss_pending := AList.delete request_id (ss_pending s)\<rparr>)"

text \<open>\<^verbatim>\<open>wait_ready\<close>: where the session is not ready, waiting ends with the timeout.\<close>

definition wait_ready :: "(session, device_info) st" where
  "wait_ready =
     sbind (sget ss_ready) (\<lambda>ready.
     sbind (sraise_if (\<not> ready) (TimeoutError '''')) (\<lambda>_.
     sbind (sget ss_info) (\<lambda>info.
     case info of None \<Rightarrow> sraise AssertionError | Some i \<Rightarrow> sret i)))"

text \<open>\<^verbatim>\<open>_request_unlocked\<close> up to the wait for its future: the identifier and the future.\<close>

definition request_start ::
  "environment \<Rightarrow> nat \<Rightarrow> nat \<Rightarrow> bytes \<Rightarrow> nat \<Rightarrow> (session, nat \<times> nat) st" where
  "request_start env channel ty payload stream_id =
     sbind wait_ready (\<lambda>_.
     sbind (sget ss_closed) (\<lambda>closed.
     sbind (sraise_if closed (ConnectionError ''ESP-Iris session closed'')) (\<lambda>_.
     sbind (smod (\<lambda>s. s\<lparr>ss_request_id := next_request_id (ss_request_id s)\<rparr>)) (\<lambda>_.
     sbind (sget ss_request_id) (\<lambda>request_id.
     sbind (sget (\<lambda>s. length (ss_futures s))) (\<lambda>fut.
     sbind (smod (\<lambda>s. s\<lparr>ss_futures := ss_futures s @ [Waiting],
                       ss_pending := AList.update request_id fut (ss_pending s)\<rparr>)) (\<lambda>_.
     sbind (scatch (send env channel ty payload 0 request_id stream_id) (\<lambda>e.
              sbind (pop_pending request_id) (\<lambda>_. sraise e))) (\<lambda>_.
     sret (request_id, fut)))))))))"

text \<open>The end of the wait: the future is done, or the wait is given up (with \<open>e\<close>: the timeout or
  a cancellation), which cancels the future.\<close>

definition request_finish :: "nat \<times> nat \<Rightarrow> exn \<Rightarrow> (session, frame) st" where
  "request_finish req e =
     (case req of (request_id, fut) \<Rightarrow>
       sbind (sget (\<lambda>s. ss_futures s ! fut)) (\<lambda>f.
       sbind (if f = Waiting then smod (\<lambda>s. s\<lparr>ss_futures := (ss_futures s)[fut := Cancelled]\<rparr>) else sret ()) (\<lambda>_.
       sbind (pop_pending request_id) (\<lambda>_.
       case f of
         Result frame \<Rightarrow> sret frame
       | Failed e' \<Rightarrow> sraise e'
       | Cancelled \<Rightarrow> sraise CancelledError
       | Waiting \<Rightarrow> sraise e))))"

section \<open>Flow control\<close>

definition LOG_CREDIT_GRANT :: int where
  "LOG_CREDIT_GRANT = 256 * 1024"

definition LOG_CREDIT_LOW_WATER :: int where
  "LOG_CREDIT_LOW_WATER = 128 * 1024"

definition credit_payload :: "nat \<Rightarrow> int \<Rightarrow> bytes" where
  "credit_payload channel amount = le_bytes 1 channel @ [0, 0, 0] @ le_bytes 4 (nat amount)"

definition grant_log_credit :: "environment \<Rightarrow> int \<Rightarrow> (session, unit) st" where
  "grant_log_credit env amount =
     sbind (send env (channel_code Channel_CONTROL) (control_type_code ControlType_CREDIT)
              (credit_payload (channel_code Channel_LOG) amount) 0 0 0) (\<lambda>_.
     smod (\<lambda>s. s\<lparr>ss_log_credit := ss_log_credit s + amount\<rparr>))"

definition grant_media_credit :: "environment \<Rightarrow> nat \<Rightarrow> int \<Rightarrow> (session, unit) st" where
  "grant_media_credit env channel amount =
     sbind (send env (channel_code Channel_CONTROL) (control_type_code ControlType_CREDIT)
              (credit_payload channel amount) 0 0 0) (\<lambda>_.
     smod (\<lambda>s. s\<lparr>ss_media_credit := (ss_media_credit s)[channel := ss_media_credit s ! channel + amount]\<rparr>))"

section \<open>The handshake\<close>

definition tlv_bytes :: "tlv_fields \<Rightarrow> tlv_tag \<Rightarrow> bytes" where
  "tlv_bytes flds tag = (case flds (tlv_tag_code tag) of Some b \<Rightarrow> b | None \<Rightarrow> [])"

text \<open>\<^verbatim>\<open>_text\<close>.\<close>

definition tlv_text :: "tlv_fields \<Rightarrow> tlv_tag \<Rightarrow> ustr" where
  "tlv_text flds tag = utf8_decode (tlv_bytes flds tag)"

definition mac_text :: "bytes \<Rightarrow> ustr" where
  "mac_text mac = (if mac = [] then [] else tl (concat (map (\<lambda>b. 0x3A # u (hex [b])) mac)))"

definition has_length :: "tlv_fields \<Rightarrow> tlv_tag \<times> nat \<Rightarrow> bool" where
  "has_length flds t =
     (case flds (tlv_tag_code (fst t)) of Some b \<Rightarrow> length b = snd t | None \<Rightarrow> True)"

text \<open>The checks of a HELLO, in order.\<close>

definition check_hello :: "tlv_fields \<Rightarrow> unit res" where
  "check_hello flds =
     (let raw_device_id = tlv_bytes flds TlvTag_DEVICE_ID;
          raw_hardware_mac = tlv_bytes flds TlvTag_HARDWARE_MAC in
      bindr (raise_if (length raw_device_id \<noteq> 16)
               (ProtocolError ''HELLO is missing a 16-byte device ID'')) (\<lambda>_.
      bindr (raise_if (raw_hardware_mac \<noteq> [] \<and> length raw_hardware_mac \<noteq> 6)
               (ProtocolError ''HELLO has an invalid hardware MAC'')) (\<lambda>_.
      bindr (raise_if (raw_hardware_mac \<noteq> []
                 \<and> raw_device_id \<noteq> [0x45, 0x53, 0x50, 0x2D, 0x49, 0x52, 0x49, 0x53, 1, 0] @ raw_hardware_mac)
               (ProtocolError ''device ID does not match the factory hardware MAC'')) (\<lambda>_.
      bindr (raise_if (tlv_u16 flds (tlv_tag_code TlvTag_PROTOCOL_VERSION) 0 \<noteq> 1)
               (ProtocolError ''unsupported ESP-Iris protocol'')) (\<lambda>_.
      bindr (raise_if (\<not> list_all (has_length flds)
                 [(TlvTag_FIRMWARE_ROLE, 1), (TlvTag_RECOVERY_ABI, 2),
                  (TlvTag_REQUIRED_FEATURES, 8), (TlvTag_HEALTH_TIMEOUT_MS, 4)])
               (ProtocolError ''invalid length'')) (\<lambda>_.
      bindr (raise_if (\<not> list_all (\<lambda>tag. length (tlv_bytes flds tag) \<le> 64)
                 [TlvTag_PRODUCT_CONTRACT, TlvTag_CHIP_TARGET, TlvTag_BOARD_ID, TlvTag_LAYOUT_ID])
               (ProtocolError ''exceeds 64 bytes'')) (\<lambda>_.
      bindr (raise_if (tlv_u64 flds (tlv_tag_code TlvTag_REQUIRED_FEATURES) 0 \<noteq> 0)
               (ProtocolError ''unsupported required features'')) (\<lambda>_.
      bindr (raise_if (tlv_u8 flds (tlv_tag_code TlvTag_FIRMWARE_ROLE) 0 \<notin> {0, 1, 2})
               (ProtocolError ''unsupported firmware role'')) (\<lambda>_.
      let health_timeout_ms = tlv_u32 flds (tlv_tag_code TlvTag_HEALTH_TIMEOUT_MS) 45000 in
      raise_if (\<not> (1000 \<le> health_timeout_ms \<and> health_timeout_ms \<le> 600000))
        (ProtocolError ''health timeout must be between 1000 and 600000 ms''))))))))))"

definition role_name :: "nat \<Rightarrow> string" where
  "role_name role = (if role = 1 then ''normal'' else if role = 2 then ''recovery'' else ''unknown'')"

definition hello_info :: "ustr \<Rightarrow> int \<Rightarrow> tlv_fields \<Rightarrow> device_info" where
  "hello_info endpoint session_id flds =
     \<lparr>di_device_id = u (hex (tlv_bytes flds TlvTag_DEVICE_ID)),
      di_boot_id = tlv_u64 flds (tlv_tag_code TlvTag_BOOT_ID) 0,
      di_session_id = session_id,
      di_endpoint = endpoint,
      di_transport = tlv_u8 flds (tlv_tag_code TlvTag_TRANSPORT) 0,
      di_project_name = tlv_text flds TlvTag_PROJECT_NAME,
      di_app_version = tlv_text flds TlvTag_APP_VERSION,
      di_idf_version = tlv_text flds TlvTag_IDF_VERSION,
      di_firmware_sha256 = u (hex (tlv_bytes flds TlvTag_FIRMWARE_SHA256)),
      di_reset_reason = tlv_u32 flds (tlv_tag_code TlvTag_RESET_REASON) 0,
      di_capabilities = tlv_u64 flds (tlv_tag_code TlvTag_CAPABILITIES) 0,
      di_auth_mode = tlv_u8 flds (tlv_tag_code TlvTag_AUTH_MODE) 0,
      di_max_payload = tlv_u32 flds (tlv_tag_code TlvTag_MAX_PAYLOAD) 4000,
      di_firmware_mode = u (role_name (tlv_u8 flds (tlv_tag_code TlvTag_FIRMWARE_ROLE) 0)),
      di_product_contract = tlv_text flds TlvTag_PRODUCT_CONTRACT,
      di_chip_target = tlv_text flds TlvTag_CHIP_TARGET,
      di_board_id = tlv_text flds TlvTag_BOARD_ID,
      di_layout_id = tlv_text flds TlvTag_LAYOUT_ID,
      di_recovery_abi = tlv_u16 flds (tlv_tag_code TlvTag_RECOVERY_ABI) 0,
      di_required_features = tlv_u64 flds (tlv_tag_code TlvTag_REQUIRED_FEATURES) 0,
      di_health_timeout_ms = tlv_u32 flds (tlv_tag_code TlvTag_HEALTH_TIMEOUT_MS) 45000,
      di_hardware_mac = mac_text (tlv_bytes flds TlvTag_HARDWARE_MAC)\<rparr>"

text \<open>A new session of the same device after a requested reopen; otherwise the identity of a live
  link does not change.\<close>

definition reopening :: "device_info \<Rightarrow> session \<Rightarrow> bool" where
  "reopening info s \<longleftrightarrow>
     (case ss_reopen_session_id s of None \<Rightarrow> False | Some i \<Rightarrow> di_session_id info \<noteq> i)"

definition same_boot :: "device_info \<Rightarrow> session \<Rightarrow> bool" where
  "same_boot info s \<longleftrightarrow>
     (case ss_info s of
        None \<Rightarrow> False
      | Some old \<Rightarrow> di_device_id old = di_device_id info \<and> di_boot_id old = di_boot_id info)"

definition same_session :: "device_info \<Rightarrow> session \<Rightarrow> bool" where
  "same_session info s \<longleftrightarrow>
     (case ss_info s of
        None \<Rightarrow> True
      | Some old \<Rightarrow> di_device_id old = di_device_id info \<and> di_session_id old = di_session_id info)"

definition adopt_info :: "device_info \<Rightarrow> (session, unit) st" where
  "adopt_info info =
     sbind (sget (reopening info)) (\<lambda>reopen.
     sbind (sget (same_boot info)) (\<lambda>same.
     sbind (sraise_if (reopen \<and> \<not> same)
              (ProtocolError ''device identity changed during session reopen'')) (\<lambda>_.
     sbind (if reopen
            then smod (\<lambda>s. s\<lparr>ss_reopen_session_id := None,
                             ss_sequence := replicate (length (ss_sequence s)) 0,
                             ss_last_rx_sequence := replicate (length (ss_last_rx_sequence s)) None\<rparr>)
            else sret ()) (\<lambda>_.
     sbind (sget (same_session info)) (\<lambda>live.
     sbind (sraise_if (\<not> reopen \<and> \<not> live)
              (ProtocolError ''device identity/session changed on a live link'')) (\<lambda>_.
     sbind (smod (\<lambda>s. s\<lparr>ss_info := Some info\<rparr>)) (\<lambda>_.
     smod (\<lambda>s. if has_capability (di_capabilities info) Capability_SESSION_REOPEN
                   \<and> \<not> ss_reopen_requested s
                then s\<lparr>ss_reopen_requested := True, ss_reopen_session_id := Some (di_session_id info)\<rparr>
                else s))))))))"

definition complete_ready :: "environment \<Rightarrow> (session, unit) st" where
  "complete_ready env =
     sbind (sget ss_ready_announced) (\<lambda>announced.
     if announced then sret ()
     else
       sbind (sget ss_info) (\<lambda>info.
       case info of
         None \<Rightarrow> sraise AssertionError
       | Some i \<Rightarrow>
           sbind (sget ss_state) (\<lambda>state.
           sbind (slift (session_transition state AUTHENTICATED)) (\<lambda>state'.
           sbind (smod (\<lambda>s. s\<lparr>ss_state := state'\<rparr>)) (\<lambda>_.
           sbind (sget ss_log_credit) (\<lambda>credit.
           sbind (if credit = 0 then grant_log_credit env LOG_CREDIT_GRANT else sret ()) (\<lambda>_.
           sbind (perform (On_ready i) (en_on_ready env)) (\<lambda>_.
           smod (\<lambda>s. s\<lparr>ss_ready_announced := True, ss_ready := True, ss_clock_task := True\<rparr>)))))))))"

text \<open>\<^verbatim>\<open>b"ESP-Iris-auth-v1"\<close> and the message the proof signs.\<close>

definition auth_message :: "bytes \<Rightarrow> device_info \<Rightarrow> bytes \<Rightarrow> bytes \<Rightarrow> bytes" where
  "auth_message raw_device_id info challenge nonce =
     [0x45, 0x53, 0x50, 0x2D, 0x49, 0x72, 0x69, 0x73, 0x2D, 0x61, 0x75, 0x74, 0x68, 0x2D, 0x76, 0x31]
     @ raw_device_id @ le_bytes 8 (di_boot_id info) @ le_bytes 4 (nat (di_session_id info))
     @ challenge @ nonce"

definition send_ack :: "environment \<Rightarrow> bytes \<Rightarrow> nat \<Rightarrow> (session, unit) st" where
  "send_ack env payload flags =
     send env (channel_code Channel_CONTROL) (control_type_code ControlType_HELLO_ACK) payload flags 0 0"

definition handle_hello :: "environment \<Rightarrow> frame \<Rightarrow> (session, unit) st" where
  "handle_hello env frame =
     sbind (slift (decode_tlv (fr_payload frame))) (\<lambda>flds.
     sbind (slift (check_hello flds)) (\<lambda>_.
     let info = hello_info (en_endpoint env) (fr_session_id frame) flds in
     sbind (adopt_info info) (\<lambda>_.
     sbind (sget (\<lambda>s. if ss_reopen_session_id s \<noteq> None then 2 ^ 5 else 0)) (\<lambda>ack_flags.
     if di_auth_mode info = 0 then
       sbind (send_ack env [] ack_flags) (\<lambda>_.
       if ack_flags = 0 then complete_ready env else sret ())
     else
       sbind (sraise_if (di_auth_mode info \<noteq> 1) (ProtocolError ''unsupported ESP-Iris auth mode'')) (\<lambda>_.
       let challenge = tlv_bytes flds TlvTag_AUTH_CHALLENGE in
       sbind (sraise_if (length challenge \<noteq> 32)
                (ProtocolError ''authenticated HELLO has no 32-byte challenge'')) (\<lambda>_.
       sbind (sget ss_pairing_token) (\<lambda>token.
       case token of
         None \<Rightarrow> sraise (ProtocolError ''device requires a pairing token'')
       | Some key \<Rightarrow>
           let nonce = en_nonce env;
               proof_bytes = hmac_sha256 key
                 (auth_message (tlv_bytes flds TlvTag_DEVICE_ID) info challenge nonce)
           in send_ack env (nonce @ proof_bytes) ack_flags)))))))"

section \<open>Events, logs and media\<close>

definition opt_int :: "(device_info \<Rightarrow> int) \<Rightarrow> session \<Rightarrow> json" where
  "opt_int field s = (case ss_info s of None \<Rightarrow> JNull | Some i \<Rightarrow> JInt (field i))"

definition device_json :: "session \<Rightarrow> json" where
  "device_json s = (case ss_info s of None \<Rightarrow> JNull | Some i \<Rightarrow> JStr (di_device_id i))"

definition estimate_wall_ns :: "environment \<Rightarrow> session \<Rightarrow> nat \<Rightarrow> json" where
  "estimate_wall_ns env s device_monotonic_us =
     (case ss_clock_offset_us s of
        None \<Rightarrow> JNull
      | Some offset \<Rightarrow>
          let host_monotonic_us = fadd (float_of_int (int device_monotonic_us)) offset
          in JInt (int_of_float
               (fadd (fmul host_monotonic_us 1000) (float_of_int (en_wall_minus_monotonic_ns env)))))"

definition log_event :: "environment \<Rightarrow> session \<Rightarrow> bytes \<Rightarrow> dict" where
  "log_event env s payload =
     [item ''kind'' (jstr ''log''), item ''device_id'' (device_json s),
      item ''boot_id'' (opt_int (\<lambda>i. int (di_boot_id i)) s),
      item ''monotonic_us'' (jnat (uint_at 8 0 payload)),
      item ''estimated_wall_ns'' (estimate_wall_ns env s (uint_at 8 0 payload)),
      item ''dropped_bytes'' (jnat (uint_at 4 8 payload)),
      item ''source'' (jstr (if uint_at 1 12 payload = 2 then ''stderr'' else ''stdout'')),
      item ''flags'' (jnat (uint_at 1 13 payload)),
      item ''text'' (JStr (utf8_decode (drop 16 payload)))]"

definition handle_log :: "environment \<Rightarrow> frame \<Rightarrow> (session, unit) st" where
  "handle_log env frame =
     (let payload = fr_payload frame in
      sbind (sraise_if (length payload < 16) (ProtocolError ''short LOG record'')) (\<lambda>_.
      sbind (sraise_if (length payload \<noteq> 16 + uint_at 2 14 payload)
               (ProtocolError ''LOG record length mismatch'')) (\<lambda>_.
      sbind (smod (\<lambda>s. s\<lparr>ss_log_credit := max 0 (ss_log_credit s - int (length payload))\<rparr>)) (\<lambda>_.
      sbind (sget (\<lambda>s. log_event env s payload)) (\<lambda>event.
      sbind (perform (On_event event) (en_on_event env event)) (\<lambda>_.
      sbind (sget ss_log_credit) (\<lambda>credit.
      if credit < LOG_CREDIT_LOW_WATER then grant_log_credit env LOG_CREDIT_GRANT else sret ())))))))"

text \<open>The member names of \<^verbatim>\<open>JobState\<close> and \<^verbatim>\<open>EventType\<close> in lower case.\<close>

primrec job_state_name :: "job_state \<Rightarrow> string" where
  "job_state_name JobState_QUEUED = ''queued''"
| "job_state_name JobState_RUNNING = ''running''"
| "job_state_name JobState_SUCCEEDED = ''succeeded''"
| "job_state_name JobState_FAILED = ''failed''"
| "job_state_name JobState_CANCELLED = ''cancelled''"

primrec event_type_name :: "event_type \<Rightarrow> string" where
  "event_type_name EventType_BOOT = ''boot''"
| "event_type_name EventType_HEALTHY = ''healthy''"
| "event_type_name EventType_PLANNED_RESTART = ''planned_restart''"
| "event_type_name EventType_LINK_READY = ''link_ready''"
| "event_type_name EventType_PREVIOUS_BOOT_CRASH = ''previous_boot_crash''"
| "event_type_name EventType_RECOVERY_ENTERED = ''recovery_entered''"
| "event_type_name EventType_CORE_DUMP_AVAILABLE = ''core_dump_available''"
| "event_type_name EventType_CRASH_LOOP_DETECTED = ''crash_loop_detected''"
| "event_type_name EventType_JOB_UPDATE = ''job_update''"
| "event_type_name EventType_OTA_READY = ''ota_ready''"

definition decode_job :: "bytes \<Rightarrow> dict res" where
  "decode_job payload =
     bindr (raise_if (length payload \<noteq> 16) (ProtocolError ''invalid job status size'')) (\<lambda>_.
     bindr (raise_if (uint_at 2 10 payload \<noteq> 0) (ProtocolError ''job status reserved field is nonzero'')) (\<lambda>_.
     let state = uint_at 1 6 payload in
     Inr [item ''job_id'' (jnat (uint_at 4 0 payload)), item ''job_kind'' (jnat (uint_at 2 4 payload)),
          item ''job_state'' (jstr (case enum_of job_state_code job_state_members state of
                                      Some st \<Rightarrow> job_state_name st | None \<Rightarrow> ''unknown'')),
          item ''job_state_code'' (jnat state),
          item ''cancel_requested'' (JBool (uint_at 1 7 payload \<noteq> 0)),
          item ''progress_permille'' (jnat (uint_at 2 8 payload)),
          item ''result'' (JInt (sint_at 4 12 payload))]))"

definition job_event :: "environment \<Rightarrow> session \<Rightarrow> int \<Rightarrow> dict \<Rightarrow> dict" where
  "job_event env s host_receive_ns job =
     [item ''kind'' (jstr ''job''), item ''device_id'' (device_json s),
      item ''boot_id'' (opt_int (\<lambda>i. int (di_boot_id i)) s),
      item ''session_id'' (opt_int di_session_id s),
      item ''host_receive_monotonic_ns'' (JInt host_receive_ns),
      item ''host_receive_wall_ns'' (JInt (en_time_ns env))] @ job"

definition device_event :: "environment \<Rightarrow> session \<Rightarrow> frame \<Rightarrow> int \<Rightarrow> tlv_fields \<Rightarrow> dict" where
  "device_event env s frame host_receive_ns flds =
     (let field = (\<lambda>tag. tlv_u32 flds (tlv_tag_code tag) 0);
          monotonic_us = tlv_u64 flds (tlv_tag_code TlvTag_UPTIME_US) 0;
          boot_id = tlv_u64 flds (tlv_tag_code TlvTag_BOOT_ID)
                      (case ss_info s of None \<Rightarrow> 0 | Some i \<Rightarrow> di_boot_id i)
      in [item ''kind'' (jstr ''device_event''), item ''event_type'' (JInt (fr_type frame)),
          item ''event_name'' (jstr (case enum_of event_type_code event_type_members (nat (fr_type frame)) of
                                       Some e \<Rightarrow> event_type_name e | None \<Rightarrow> ''unknown'')),
          item ''device_id'' (device_json s), item ''boot_id'' (jnat boot_id),
          item ''session_id'' (opt_int di_session_id s),
          item ''monotonic_us'' (jnat monotonic_us),
          item ''estimated_wall_ns'' (estimate_wall_ns env s monotonic_us),
          item ''host_receive_monotonic_ns'' (JInt host_receive_ns),
          item ''host_receive_wall_ns'' (JInt (en_time_ns env)),
          item ''clock_uncertainty_us'' (case ss_clock_uncertainty_us s of None \<Rightarrow> JNull | Some x \<Rightarrow> JFloat x),
          item ''reset_reason'' (jnat (field TlvTag_RESET_REASON)),
          item ''crash_count'' (jnat (field TlvTag_CRASH_COUNT)),
          item ''crash_limit'' (jnat (field TlvTag_CRASH_LIMIT)),
          item ''crash_recovery_pending''
            (JBool (tlv_u8 flds (tlv_tag_code TlvTag_CRASH_RECOVERY_PENDING) 0 \<noteq> 0)),
          item ''crash_origin_reset_reason'' (jnat (field TlvTag_CRASH_ORIGIN_RESET_REASON)),
          item ''crash_failed_app_address'' (jnat (field TlvTag_CRASH_FAILED_APP_ADDRESS)),
          item ''crash_failed_firmware_sha256''
            (jstr (hex (tlv_bytes flds TlvTag_CRASH_FAILED_FIRMWARE_SHA256))),
          item ''crash_state_error'' (jnat (field TlvTag_CRASH_STATE_ERROR)),
          item ''sequence'' (JInt (fr_sequence frame)),
          item ''event_id'' (JStr ((case ss_info s of None \<Rightarrow> u ''unknown'' | Some i \<Rightarrow> di_device_id i)
             @ u '':'' @ u (decimal boot_id) @ u '':'' @ u (decimal monotonic_us) @ u '':''
             @ u (str_int (fr_sequence frame))))])"

definition handle_event :: "environment \<Rightarrow> frame \<Rightarrow> int \<Rightarrow> (session, unit) st" where
  "handle_event env frame host_receive_ns =
     (if fr_type frame = int (event_type_code EventType_JOB_UPDATE) then
        sbind (slift (decode_job (fr_payload frame))) (\<lambda>job.
        sbind (sget (\<lambda>s. job_event env s host_receive_ns job)) (\<lambda>event.
        perform (On_event event) (en_on_event env event)))
      else
        sbind (slift (decode_tlv (fr_payload frame))) (\<lambda>flds.
        sbind (sget (\<lambda>s. device_event env s frame host_receive_ns flds)) (\<lambda>event.
        perform (On_event event) (en_on_event env event))))"

definition media_event :: "environment \<Rightarrow> session \<Rightarrow> frame \<Rightarrow> dict" where
  "media_event env s frame =
     (let payload = fr_payload frame; monotonic_us = uint_at 8 0 payload in
      [item ''kind'' (jstr ''media''), item ''device_id'' (device_json s),
       item ''boot_id'' (opt_int (\<lambda>i. int (di_boot_id i)) s),
       item ''session_id'' (opt_int di_session_id s),
       item ''channel'' (JInt (fr_channel frame)), item ''stream_id'' (JInt (fr_stream_id frame)),
       item ''frame_id'' (jnat (uint_at 4 8 payload)), item ''monotonic_us'' (jnat monotonic_us),
       item ''estimated_wall_ns'' (estimate_wall_ns env s monotonic_us),
       item ''dropped'' (jnat (uint_at 4 12 payload)), item ''flags'' (jnat (uint_at 2 16 payload)),
       item ''description'' (JDict
         [item ''x'' (jnat (uint_at 2 20 payload)), item ''y'' (jnat (uint_at 2 22 payload)),
          item ''width'' (jnat (uint_at 2 24 payload)), item ''height'' (jnat (uint_at 2 26 payload)),
          item ''stride'' (jnat (uint_at 4 28 payload)), item ''format'' (jnat (uint_at 2 32 payload)),
          item ''quality'' (jnat (uint_at 2 34 payload))]),
       item ''data'' (JBytes (drop 36 payload))])"

definition handle_media :: "environment \<Rightarrow> frame \<Rightarrow> (session, unit) st" where
  "handle_media env frame =
     (let payload = fr_payload frame; channel = nat (fr_channel frame) in
      sbind (sraise_if (fr_type frame \<noteq> int (media_type_code MediaType_DATA) \<or> length payload < 36)
               (ProtocolError ''invalid media data frame'')) (\<lambda>_.
      sbind (sraise_if (length payload \<noteq> 36 + uint_at 2 18 payload)
               (ProtocolError ''media data size mismatch'')) (\<lambda>_.
      sbind (smod (\<lambda>s. s\<lparr>ss_media_credit := (ss_media_credit s)
                 [channel := max 0 (ss_media_credit s ! channel - int (length payload))]\<rparr>)) (\<lambda>_.
      sbind (sget (\<lambda>s. media_event env s frame)) (\<lambda>event.
      sbind (perform (On_media event) (en_on_media env event)) (\<lambda>_.
      sbind (sget (\<lambda>s. ss_media_credit s ! channel)) (\<lambda>credit.
      if credit < 64 * 1024 then grant_media_credit env channel (128 * 1024) else sret ())))))))"

section \<open>Frames\<close>

text \<open>\<^verbatim>\<open>_accept_sequence\<close>; the channel of a decoded frame is one of the ten.\<close>

definition accept_sequence :: "frame \<Rightarrow> (session, bool) st" where
  "accept_sequence frame =
     (let channel = nat (fr_channel frame) in
      sbind (sget (\<lambda>s. channel < length (ss_last_rx_sequence s))) (\<lambda>known.
      sbind (sraise_if (\<not> known) IndexError) (\<lambda>_.
      sbind (sget (\<lambda>s. ss_last_rx_sequence s ! channel)) (\<lambda>prev.
      let accept = sbind (smod (\<lambda>s. s\<lparr>ss_last_rx_sequence := (ss_last_rx_sequence s)
                                [channel := Some (fr_sequence frame)]\<rparr>)) (\<lambda>_. sret True) in
      case prev of
        None \<Rightarrow> accept
      | Some l \<Rightarrow>
          let distance = (fr_sequence frame - l) mod 2 ^ 32
          in if distance = 0 \<or> distance \<ge> 0x80000000 then sret False else accept))))"

definition is_control :: "frame \<Rightarrow> control_type \<Rightarrow> bool" where
  "is_control frame ty \<longleftrightarrow>
     fr_channel frame = int (channel_code Channel_CONTROL) \<and> fr_type frame = int (control_type_code ty)"

text \<open>The outcome a reply gives its future.\<close>

definition reply_outcome :: "frame \<Rightarrow> future" where
  "reply_outcome frame =
     (if fr_type frame = int (control_type_code ControlType_ERROR)
      then Failed (RuntimeError (''device error 0x''
             @ hex (be_bytes 4 (uint_at 4 0 (fr_payload frame @ [0, 0, 0, 0])))))
      else Result frame)"

definition handle_unsolicited :: "environment \<Rightarrow> frame \<Rightarrow> (session, unit) st" where
  "handle_unsolicited env frame =
     (if fr_channel frame = int (channel_code Channel_LOG) \<and> fr_type frame = 1
      then handle_log env frame
      else if fr_channel frame = int (channel_code Channel_EVENT)
      then handle_event env frame (en_monotonic_ns env)
      else if fr_channel frame \<in> {int (channel_code Channel_SCREEN),
                int (channel_code Channel_IMAGE), int (channel_code Channel_AUDIO)}
      then handle_media env frame
      else sret ())"

text \<open>What follows the acceptance of a frame.\<close>

definition dispatch :: "environment \<Rightarrow> frame \<Rightarrow> (session, unit) st" where
  "dispatch env frame =
     (if is_control frame ControlType_AUTH_RESULT then
        sbind (sraise_if (fr_payload frame \<noteq> [1] \<or> fr_flags frame AND 2 \<noteq> 0)
                 (ProtocolError ''ESP-Iris pairing proof was rejected'')) (\<lambda>_.
        complete_ready env)
      else
        sbind (sget (\<lambda>s. if fr_request_id frame \<noteq> 0
                          then map_of (ss_pending s) (nat (fr_request_id frame)) else None)) (\<lambda>waiter.
        case waiter of
          Some fut \<Rightarrow>
            smod (\<lambda>s. if ss_futures s ! fut = Waiting
                       then s\<lparr>ss_futures := (ss_futures s)[fut := reply_outcome frame]\<rparr> else s)
        | None \<Rightarrow> handle_unsolicited env frame))"

definition handle_frame :: "environment \<Rightarrow> frame \<Rightarrow> (session, unit) st" where
  "handle_frame env frame =
     (if is_control frame ControlType_HELLO then handle_hello env frame
      else
        sbind (sget ss_reopen_session_id) (\<lambda>reopen.
        if reopen \<noteq> None then sret ()
        else
          sbind (sget (\<lambda>s. case ss_info s of None \<Rightarrow> False
                            | Some i \<Rightarrow> fr_session_id frame = di_session_id i)) (\<lambda>current.
          if \<not> current then sret ()
          else
            sbind (accept_sequence frame) (\<lambda>fresh.
            if \<not> fresh then sret () else dispatch env frame))))"

section \<open>State the request coroutines change\<close>

text \<open>The end of \<^verbatim>\<open>sync_clock\<close>: a sample replaces the estimate when its uncertainty is smaller.\<close>

definition clock_sample :: "int \<Rightarrow> int \<Rightarrow> nat \<Rightarrow> nat \<Rightarrow> rat \<times> rat" where
  "clock_sample t1_ns t4_ns d2_us d3_us =
     (let host_mid_us = fdiv (fdiv (float_of_int (t1_ns + t4_ns)) 2) 1000;
          device_mid_us = fdiv (float_of_int (int d2_us + int d3_us)) 2;
          rtt_us = max 0 (fsub (fdiv (float_of_int (t4_ns - t1_ns)) 1000)
                            (float_of_int (int d3_us - int d2_us)))
      in (fsub host_mid_us device_mid_us, fdiv rtt_us 2))"

definition adopt_clock :: "rat \<times> rat \<Rightarrow> (session, unit) st" where
  "adopt_clock sample =
     smod (\<lambda>s. if (case ss_clock_uncertainty_us s of None \<Rightarrow> True | Some x \<Rightarrow> snd sample < x)
                then s\<lparr>ss_clock_offset_us := Some (fst sample), ss_clock_uncertainty_us := Some (snd sample)\<rparr>
                else s)"

text \<open>The chunk size a crash report announces (\<^verbatim>\<open>crash_report\<close>), and the credit of a stopped
  mirror (\<^verbatim>\<open>mirror_stop\<close>).\<close>

definition set_crash_chunk_max :: "nat \<Rightarrow> (session, unit) st" where
  "set_crash_chunk_max n = smod (\<lambda>s. s\<lparr>ss_crash_chunk_max := n\<rparr>)"

definition drop_media_credit :: "nat \<Rightarrow> (session, unit) st" where
  "drop_media_credit channel = smod (\<lambda>s. s\<lparr>ss_media_credit := (ss_media_credit s)[channel := 0]\<rparr>)"

section \<open>The read loop\<close>

definition run_step :: "environment \<Rightarrow> bytes res \<Rightarrow> (session, unit) st" where
  "run_step env received =
     sbind (slift received) (\<lambda>data.
     sbind (sraise_if (data = []) (ConnectionError ''ESP-Iris link closed'')) (\<lambda>_.
     sbind (sget (\<lambda>s. feed (ss_decoder s) data)) (\<lambda>(decoder, frames).
     sbind (smod (\<lambda>s. s\<lparr>ss_decoder := decoder\<rparr>)) (\<lambda>_.
     sfor frames (handle_frame env)))))"

definition run_cleanup :: "environment \<Rightarrow> (session, unit) st" where
  "run_cleanup env =
     sbind mark_closed (\<lambda>_.
     sbind (smod (\<lambda>s. s\<lparr>ss_clock_task := False\<rparr>)) (\<lambda>_.
     close_link env))"

text \<open>The loop on the reads of the link, each with the environment of its frames; \<open>None\<close> while it
  waits for a further read.\<close>

fun run_loop :: "(environment \<times> bytes res) list \<Rightarrow> session \<Rightarrow> unit res option \<times> session" where
  "run_loop [] s = (if ss_closed s then Some (Inr ()) else None, s)"
| "run_loop ((env, received) # reads) s =
     (if ss_closed s then (Some (Inr ()), s)
      else case run_step env received s of
             (Inr _, t) \<Rightarrow> run_loop reads t
           | (Inl e, t) \<Rightarrow> (Some (Inl e), t))"

definition run :: "(environment \<times> bytes res) list \<Rightarrow> environment \<Rightarrow> session \<Rightarrow> unit res option \<times> session" where
  "run reads env s =
     (case run_loop reads s of
        (None, t) \<Rightarrow> (None, t)
      | (Some r, t) \<Rightarrow>
          (case run_cleanup env t of
             (Inr _, v) \<Rightarrow> (Some r, v)
           | (Inl e, v) \<Rightarrow> (Some (Inl e), v)))"

end
