(* ===== verification/Session_Safety.thy ===== *)
theory Session_Safety
  imports Session
begin

text \<open>
  The life of a session as a transition system: one labelled step per handler and per operation
  of the requesting tasks, in any order. The invariant \<open>session_ok\<close> and the relation
  \<open>evolves\<close> between a state and its successors are shown for every operation through weakest
  preconditions; the claims follow by induction on traces.
\<close>

section \<open>Steps and traces\<close>

datatype label =
    Received frame "unit res"
  | Started "(nat \<times> nat) res"
  | Finished "nat \<times> nat" "frame res"
  | Closing
  | Internal

inductive session_step :: "session \<Rightarrow> label \<Rightarrow> session \<Rightarrow> bool" where
  received: "frame_valid f \<Longrightarrow> handle_frame env f s = (r, t) \<Longrightarrow> session_step s (Received f r) t"
| started: "request_start env channel ty payload stream_id s = (r, t) \<Longrightarrow> session_step s (Started r) t"
| finished: "snd req < length (ss_futures s) \<Longrightarrow> request_finish req e s = (r, t)
     \<Longrightarrow> session_step s (Finished req r) t"
| closing: "close_session env s = (r, t) \<Longrightarrow> session_step s Closing t"
| cleanup: "run_cleanup env s = (r, t) \<Longrightarrow> session_step s Closing t"
| decoded: "session_step s Internal (s\<lparr>ss_decoder := d\<rparr>)"
| granted: "grant_media_credit env channel amount s = (r, t) \<Longrightarrow> session_step s Internal t"
| dropped: "drop_media_credit channel s = (r, t) \<Longrightarrow> session_step s Internal t"
| crash_chunk: "set_crash_chunk_max n s = (r, t) \<Longrightarrow> session_step s Internal t"
| clock: "adopt_clock sample s = (r, t) \<Longrightarrow> session_step s Internal t"

inductive session_trace :: "session \<Rightarrow> label list \<Rightarrow> session \<Rightarrow> bool" where
  start: "session_trace s [] s"
| step: "session_trace s ls t \<Longrightarrow> session_step t l v \<Longrightarrow> session_trace s (ls @ [l]) v"

section \<open>Invariant and evolution\<close>

definition session_ok :: "session \<Rightarrow> bool" where
  "session_ok s \<longleftrightarrow>
     length (ss_sequence s) = channel_count \<and> length (ss_last_rx_sequence s) = channel_count
   \<and> length (ss_media_credit s) = channel_count
   \<and> (\<forall>x \<in> set (ss_sequence s). x < 2 ^ 32) \<and> ss_request_id s < 2 ^ 32
   \<and> ss_ready s = ss_ready_announced s
   \<and> (ss_ready_announced s \<longrightarrow> ss_state s \<noteq> NEGOTIATING \<and> ss_info s \<noteq> None)
   \<and> (ss_info s = None \<longrightarrow> ss_reopen_session_id s = None \<and> ss_state s \<noteq> READY)
   \<and> (\<forall>i. ss_info s = Some i \<longrightarrow> 0 \<le> di_session_id i \<and> di_session_id i < 2 ^ 32)
   \<and> (\<forall>r. ss_reopen_session_id s = Some r \<longrightarrow> ss_reopen_requested s
        \<and> (\<exists>i. ss_info s = Some i \<and> di_session_id i = r))
   \<and> (\<forall>(r, f) \<in> set (ss_pending s). f < length (ss_futures s) \<and> 0 < r \<and> r < 2 ^ 32)
   \<and> distinct (map fst (ss_pending s)) \<and> distinct (map snd (ss_pending s))"

text \<open>What never changes back: the device, the outcome of a future, the effects, being closed,
  and, once a reopen was requested and is over, the session.\<close>

definition settled :: "session \<Rightarrow> bool" where
  "settled s \<longleftrightarrow> ss_reopen_requested s \<and> ss_reopen_session_id s = None"

definition evolves :: "session \<Rightarrow> session \<Rightarrow> bool" where
  "evolves s t \<longleftrightarrow>
     (\<forall>i. ss_info s = Some i \<longrightarrow>
        (\<exists>j. ss_info t = Some j \<and> di_device_id j = di_device_id i
          \<and> (di_session_id j = di_session_id i \<or> \<not> settled s \<and> settled t)))
   \<and> (settled s \<longrightarrow> settled t)
   \<and> length (ss_futures s) \<le> length (ss_futures t)
   \<and> (\<forall>k < length (ss_futures s). ss_futures s ! k \<noteq> Waiting \<longrightarrow> ss_futures t ! k = ss_futures s ! k)
   \<and> (\<exists>es. ss_effects t = ss_effects s @ es)
   \<and> (ss_closed s \<longrightarrow> ss_closed t)"

lemma evolves_refl [simp]: "evolves s s"
  by (simp add: evolves_def)

lemma evolves_trans: "evolves s t \<Longrightarrow> evolves t v \<Longrightarrow> evolves s v"
  unfolding evolves_def by (elim conjE) (intro conjI, fastforce+)

definition fine :: "session \<Rightarrow> session \<Rightarrow> bool" where
  "fine s t \<longleftrightarrow> (session_ok s \<longrightarrow> session_ok t \<and> evolves s t)"

lemma fine_refl [simp]: "fine s s"
  by (simp add: fine_def)

lemma fine_trans: "fine s t \<Longrightarrow> fine t v \<Longrightarrow> fine s v"
  by (auto simp: fine_def intro: evolves_trans)

interpretation fine: evolution fine
  by unfold_locales (simp, rule fine_trans)

named_theorems fine_ops \<open>operations that keep the session invariant and evolve the state\<close>

text \<open>The state apart from the numbering of sent frames, the credits and the effects.\<close>

definition view :: "session \<Rightarrow> session" where
  "view s = s\<lparr>ss_sequence := [], ss_effects := [], ss_log_credit := 0, ss_media_credit := []\<rparr>"

definition same_view :: "session \<Rightarrow> session \<Rightarrow> bool" where
  "same_view s t \<longleftrightarrow> view t = view s"

interpretation quiet: evolution same_view
  by unfold_locales (simp_all add: same_view_def)

named_theorems quiet_ops \<open>operations that change only numbering, credits and effects\<close>

lemma same_viewD:
  assumes "same_view s t"
  shows "ss_info t = ss_info s" "ss_state t = ss_state s" "ss_pending t = ss_pending s"
    "ss_futures t = ss_futures s" "ss_reopen_session_id t = ss_reopen_session_id s"
    "ss_last_rx_sequence t = ss_last_rx_sequence s" "ss_closed t = ss_closed s"
    "ss_ready t = ss_ready s" "ss_ready_announced t = ss_ready_announced s"
    "ss_pairing_token t = ss_pairing_token s" "ss_reopen_requested t = ss_reopen_requested s"
  using assms by (cases s, cases t, simp add: same_view_def view_def)+

text \<open>A change of fields the invariant does not depend on.\<close>

lemma fineI:
  assumes "session_ok s \<Longrightarrow> session_ok t" and "session_ok s \<Longrightarrow> evolves s t"
  shows "fine s t"
  using assms by (simp add: fine_def)

lemma fine_fields [simp]:
  "fine s (s\<lparr>ss_effects := ss_effects s @ es\<rparr>)"
  "fine s (s\<lparr>ss_decoder := d\<rparr>)" "fine s (s\<lparr>ss_clock_task := b\<rparr>)" "fine s (s\<lparr>ss_log_credit := c\<rparr>)"
  "fine s (s\<lparr>ss_crash_chunk_max := n\<rparr>)" "fine s (s\<lparr>ss_closed := True\<rparr>)"
  "fine s (s\<lparr>ss_clock_offset_us := x, ss_clock_uncertainty_us := y\<rparr>)"
  "fine s (s\<lparr>ss_media_credit := (ss_media_credit s)[channel := c']\<rparr>)"
  "fine s (s\<lparr>ss_last_rx_sequence := (ss_last_rx_sequence s)[channel := q]\<rparr>)"
  by (rule fineI, simp add: session_ok_def, simp add: evolves_def settled_def)+

lemma perform_ops [fine_ops, quiet_ops]:
  "leads fine (perform a outcome)" "leads same_view (perform a outcome)"
  unfolding perform_def
  by (intro fine.rules fine.change; simp) (intro quiet.rules quiet.change; simp add: same_view_def view_def)

lemma fine_sequence: "fine s (s\<lparr>ss_sequence := (ss_sequence s)[channel := x mod 2 ^ 32]\<rparr>)"
proof -
  have "\<forall>y \<in> set ((ss_sequence s)[channel := x mod 2 ^ 32]). y < 2 ^ 32"
    if "\<forall>y \<in> set (ss_sequence s). y < 2 ^ 32"
    using that set_update_subset_insert [of "ss_sequence s" channel "x mod 2 ^ 32"] by auto
  then show ?thesis by (intro fineI) (simp_all add: session_ok_def evolves_def settled_def)
qed

lemma send_ops [fine_ops, quiet_ops]:
  "leads fine (send env channel ty payload flags request_id stream_id)"
  "leads same_view (send env channel ty payload flags request_id stream_id)"
  unfolding send_def
  by (intro fine.rules fine.change fine_ops fine_sequence)
     (intro quiet.rules quiet.change quiet_ops; simp add: same_view_def view_def)

lemma credit_ops [fine_ops, quiet_ops]:
  "leads fine (grant_log_credit env amount)" "leads same_view (grant_log_credit env amount)"
  "leads fine (grant_media_credit env channel amount)"
  "leads same_view (grant_media_credit env channel amount)"
  "leads fine (send_ack env payload flags)" "leads same_view (send_ack env payload flags)"
  unfolding grant_log_credit_def grant_media_credit_def send_ack_def
  by ((intro fine.rules fine.change fine_ops; simp) |
      (intro quiet.rules quiet.change quiet_ops; simp add: same_view_def view_def))+

lemma adopt_info_fine:
  assumes "0 \<le> di_session_id info" and "di_session_id info < 2 ^ 32"
  shows "leads fine (adopt_info info)"
proof (rule leadsI)
  fix s
  show "wp (adopt_info info) (\<lambda>_. fine s) (\<lambda>_. fine s) s"
  proof (cases "ss_reopen_session_id s")
    case None
    then show ?thesis
      using assms
      by (auto simp: adopt_info_def wp_simps reopening_def same_boot_def same_session_def
          session_ok_def evolves_def settled_def split: option.splits intro!: fineI)
  next
    case (Some r)
    then show ?thesis
      using assms
      by (auto simp: adopt_info_def wp_simps reopening_def same_boot_def same_session_def
          session_ok_def evolves_def settled_def split: option.splits intro!: fineI)
  qed
qed

text \<open>Both at once.\<close>

definition calm :: "session \<Rightarrow> session \<Rightarrow> bool" where
  "calm s t \<longleftrightarrow> fine s t \<and> same_view s t"

lemma calmD: "calm s t \<Longrightarrow> fine s t" "calm s t \<Longrightarrow> same_view s t"
  by (simp_all add: calm_def)

lemma calm_fine: "calm \<le> fine"
  by (simp add: calm_def le_fun_def)

interpretation calm: evolution calm
  by unfold_locales (auto simp: calm_def fine.refl quiet.refl intro: fine.trans quiet.trans)

lemma calm_op: "leads fine m \<Longrightarrow> leads same_view m \<Longrightarrow> leads calm m"
  by (simp add: leads_def calm_def)

lemmas calm_ops = calm_op [OF perform_ops] calm_op [OF send_ops]
  calm_op [OF credit_ops(1,2)] calm_op [OF credit_ops(3,4)] calm_op [OF credit_ops(5,6)]

section \<open>The handlers\<close>

lemma complete_ready_state:
  assumes info: "ss_info s = Some i" and quietly: "calm (s\<lparr>ss_state := READY\<rparr>) t"
  shows "fine s t" "fine s (t\<lparr>ss_ready_announced := True, ss_ready := True, ss_clock_task := True\<rparr>)"
proof -
  have first: "fine s (s\<lparr>ss_state := READY\<rparr>)"
    using info by (intro fineI) (auto simp: session_ok_def evolves_def settled_def)
  then show ft: "fine s t" using quietly by (meson calmD(1) fine.trans)
  have "ss_state t = READY" "ss_info t = Some i"
    using same_viewD [OF calmD(2) [OF quietly]] info by simp_all
  then have "fine t (t\<lparr>ss_ready_announced := True, ss_ready := True, ss_clock_task := True\<rparr>)"
    by (intro fineI) (auto simp: session_ok_def evolves_def settled_def)
  with ft show "fine s (t\<lparr>ss_ready_announced := True, ss_ready := True, ss_clock_task := True\<rparr>)"
    by (rule fine.trans)
qed

lemma complete_ready_fine [fine_ops]: "leads fine (complete_ready env)"
proof (rule leadsI)
  fix s
  show "wp (complete_ready env) (\<lambda>_. fine s) (\<lambda>_. fine s) s"
  proof (cases "ss_ready_announced s \<or> ss_info s = None \<or> ss_state s \<noteq> NEGOTIATING")
    case True
    then show ?thesis
      by (cases "ss_state s")
        (auto simp: complete_ready_def wp_simps session_transition_def split: option.splits)
  next
    case False
    then obtain i where i: "ss_info s = Some i" by auto
    let ?s = "s\<lparr>ss_state := READY\<rparr>"
    have "wp (sbind (if ss_log_credit s = 0 then grant_log_credit env LOG_CREDIT_GRANT else sret ()) (\<lambda>_.
              perform (On_ready i) (en_on_ready env))) (\<lambda>_. calm ?s) (\<lambda>_. calm ?s) ?s"
      by (intro leadsD calm.rules calm_ops)
    then have "wp (sbind (if ss_log_credit s = 0 then grant_log_credit env LOG_CREDIT_GRANT else sret ()) (\<lambda>_.
              perform (On_ready i) (en_on_ready env)))
        (\<lambda>_ t. fine s (t\<lparr>ss_ready_announced := True, ss_ready := True, ss_clock_task := True\<rparr>))
        (\<lambda>_. fine s) ?s"
      by (rule wp_mono) (auto intro: complete_ready_state [OF i])
    with False i show ?thesis
      by (simp add: complete_ready_def wp_simps session_transition_def)
  qed
qed

lemma handle_media_calm: "leads calm (handle_media env frame)"
  unfolding handle_media_def Let_def
  by (intro calm.rules calm.change calm_ops; simp add: calm_def same_view_def view_def)

lemma handle_log_calm: "leads calm (handle_log env frame)"
  unfolding handle_log_def Let_def
  by (intro calm.rules calm.change calm_ops; simp add: calm_def same_view_def view_def)

lemma handle_event_calm: "leads calm (handle_event env frame now)"
  unfolding handle_event_def by (intro calm.rules calm_ops)

lemma handle_unsolicited_calm: "leads calm (handle_unsolicited env frame)"
  unfolding handle_unsolicited_def
  by (intro calm.rules handle_media_calm handle_log_calm handle_event_calm)

lemmas handler_fine = leads_mono [OF handle_unsolicited_calm calm_fine]

lemma accept_sequence_fine: "leads fine (accept_sequence frame)"
  unfolding accept_sequence_def Let_def by (intro fine.rules fine.change; simp)

lemma handle_hello_fine:
  assumes "0 \<le> fr_session_id frame" and "fr_session_id frame < 2 ^ 32"
  shows "leads fine (handle_hello env frame)"
  unfolding handle_hello_def Let_def
  using assms by (intro fine.rules fine_ops adopt_info_fine) (simp_all add: hello_info_def)

text \<open>A change of futures that wait, with some requests removed.\<close>

lemma fine_futures:
  assumes "length fs = length (ss_futures s)"
    and "\<And>k. ss_futures s ! k \<noteq> Waiting \<Longrightarrow> fs ! k = ss_futures s ! k"
    and "\<And>P. set (ps P) \<subseteq> set P" and "\<And>P. distinct (map fst P) \<Longrightarrow> distinct (map fst (ps P))"
    and "\<And>P. distinct (map snd P) \<Longrightarrow> distinct (map snd (ps P))"
  shows "fine s (s\<lparr>ss_futures := fs, ss_pending := ps (ss_pending s)\<rparr>)"
proof (rule fineI)
  assume ok: "session_ok s"
  then have "\<forall>(r, f) \<in> set (ps (ss_pending s)). f < length (ss_futures s) \<and> 0 < r \<and> r < 2 ^ 32"
    using assms(3) [of "ss_pending s"] by (fastforce simp: session_ok_def)
  with ok show "session_ok (s\<lparr>ss_futures := fs, ss_pending := ps (ss_pending s)\<rparr>)"
    using assms(1,4,5) by (simp add: session_ok_def)
  show "evolves s (s\<lparr>ss_futures := fs, ss_pending := ps (ss_pending s)\<rparr>)"
    using assms(1,2) by (simp add: evolves_def settled_def)
qed

lemma update_waiting: "xs ! i = Waiting \<Longrightarrow> xs ! k \<noteq> Waiting \<Longrightarrow> xs[i := f] ! k = xs ! k"
  by (cases "i = k") auto

lemma fine_future:
  "ss_futures s ! fut = Waiting \<Longrightarrow> fine s (s\<lparr>ss_futures := (ss_futures s)[fut := f]\<rparr>)"
  using fine_futures [of "(ss_futures s)[fut := f]" s "\<lambda>P. P"] by (simp add: update_waiting)

lemma handle_frame_fine:
  assumes "frame_valid frame"
  shows "leads fine (handle_frame env frame)"
  using assms unfolding handle_frame_def dispatch_def frame_valid_def
  by (intro fine.rules fine.change fine_ops handler_fine handle_hello_fine accept_sequence_fine)
     (auto intro: fine_future)

section \<open>Requests and closing\<close>

lemma pop_pending_fine [fine_ops]: "leads fine (pop_pending request_id)"
  unfolding pop_pending_def
proof (rule fine.change)
  fix s
  have "fine s (s\<lparr>ss_futures := ss_futures s, ss_pending := AList.delete request_id (ss_pending s)\<rparr>)"
    by (rule fine_futures) (simp_all add: AList.delete_eq distinct_map_filter)
  then show "fine s (s\<lparr>ss_pending := AList.delete request_id (ss_pending s)\<rparr>)" by simp
qed

lemma next_request_id_bounds: "0 < next_request_id i" "next_request_id i < 2 ^ 32"
  by (simp_all add: next_request_id_def)

text \<open>A new future under the next identifier.\<close>

lemma update_snd: "set (map snd (AList.update k v P)) \<subseteq> insert v (set (map snd P))"
  by (induction P) auto

lemma distinct_snd_update:
  "v \<notin> set (map snd P) \<Longrightarrow> distinct (map snd P) \<Longrightarrow> distinct (map snd (AList.update k v P))"
proof (induction P)
  case (Cons p P)
  then show ?case using update_snd [of k v P] by auto
qed simp

lemma update_set: "set (AList.update k v P) \<subseteq> insert (k, v) (set P)"
  by (induction P) auto

lemma fine_register:
  fixes s :: session
  defines "r \<equiv> next_request_id (ss_request_id s)"
  defines "t \<equiv> s\<lparr>ss_request_id := r, ss_futures := ss_futures s @ [Waiting],
    ss_pending := AList.update r (length (ss_futures s)) (ss_pending s)\<rparr>"
  shows "fine s t"
proof (rule fineI)
  assume ok: "session_ok s"
  have fresh: "length (ss_futures s) \<notin> set (map snd (ss_pending s))"
    using ok by (fastforce simp: session_ok_def)
  have "\<forall>(r, f) \<in> set (AList.update r (length (ss_futures s)) (ss_pending s)).
      f < Suc (length (ss_futures s)) \<and> 0 < r \<and> r < 2 ^ 32"
    using ok update_set [of r "length (ss_futures s)" "ss_pending s"] next_request_id_bounds [of "ss_request_id s"]
    by (fastforce simp: session_ok_def r_def)
  with ok fresh next_request_id_bounds [of "ss_request_id s"] show "session_ok t"
    by (simp add: session_ok_def t_def r_def distinct_update distinct_snd_update)
  show "evolves s t"
    by (simp add: evolves_def t_def settled_def nth_append)
qed

lemma wait_ready_fine [fine_ops]: "leads fine wait_ready"
  unfolding wait_ready_def by (intro fine.rules)

lemma request_start_fine: "leads fine (request_start env channel ty payload stream_id)"
proof (rule leadsI)
  fix s :: session
  let ?r = "next_request_id (ss_request_id s)"
  let ?t = "s\<lparr>ss_request_id := ?r, ss_futures := ss_futures s @ [Waiting],
    ss_pending := AList.update ?r (length (ss_futures s)) (ss_pending s)\<rparr>"
  have "wp (sbind (scatch (send env channel ty payload 0 ?r stream_id)
             (\<lambda>e. sbind (pop_pending ?r) (\<lambda>_. sraise e))) (\<lambda>_. sret (?r, length (ss_futures s))))
          (\<lambda>_. fine s) (\<lambda>_. fine s) ?t"
    by (intro fine.after [OF _ fine_register] fine.rules fine_ops)
  then show "wp (request_start env channel ty payload stream_id) (\<lambda>_. fine s) (\<lambda>_. fine s) s"
    by (simp add: request_start_def wait_ready_def wp_simps split: option.split)
qed

lemma request_finish_fine: "leads fine (request_finish req e)"
proof (rule leadsI)
  fix s :: session
  obtain r fut where req: "req = (r, fut)" by (cases req)
  have waiting: "fine s (s\<lparr>ss_futures := (ss_futures s)[fut := Cancelled],
      ss_pending := AList.delete r (ss_pending s)\<rparr>)" if "ss_futures s ! fut = Waiting"
    by (rule fine_futures) (simp_all add: that update_waiting AList.delete_eq distinct_map_filter)
  have "fine s (s\<lparr>ss_pending := AList.delete r (ss_pending s)\<rparr>)"
    using pop_pending_fine [of r] by (simp add: leads_def pop_pending_def smod_def)
  with waiting show "wp (request_finish req e) (\<lambda>_. fine s) (\<lambda>_. fine s) s"
    by (simp add: request_finish_def req wp_simps pop_pending_def split: future.split)
qed

lemma fail_fold:
  "length (fold (\<lambda>p fs. fs[snd p := fail_future (fs ! snd p)]) P fs) = length fs"
  "fs ! k \<noteq> Waiting \<Longrightarrow>
     fold (\<lambda>p fs. fs[snd p := fail_future (fs ! snd p)]) P fs ! k = fs ! k"
proof (induction P arbitrary: fs)
  case (Cons p P)
  {
    case 1
    then show ?case using Cons by simp
  next
    case 2
    have "fs[snd p := fail_future (fs ! snd p)] ! k = fs ! k"
      using 2 by (cases "snd p = k") (auto simp: fail_future_def)
    with 2 Cons show ?case by simp
  }
qed simp_all

lemma fail_pending_fine [fine_ops]: "leads fine fail_pending"
  unfolding fail_pending_def
  by (rule fine.change, rule fine_futures) (simp_all add: fail_fold)

lemma mark_closed_fine [fine_ops]: "leads fine mark_closed"
proof (rule leadsI)
  fix s :: session
  have "fine s (s\<lparr>ss_closed := True\<rparr>)" "fine s (s\<lparr>ss_closed := True, ss_state := CLOSED\<rparr>)"
    by (intro fineI; auto simp: session_ok_def evolves_def settled_def)+
  then have "wp fail_pending (\<lambda>_. fine s) (\<lambda>_. fine s) (s\<lparr>ss_closed := True\<rparr>)"
    "wp fail_pending (\<lambda>_. fine s) (\<lambda>_. fine s) (s\<lparr>ss_closed := True, ss_state := CLOSED\<rparr>)"
    by (blast intro: fine.after fine_ops)+
  then show "wp mark_closed (\<lambda>_. fine s) (\<lambda>_. fine s) s"
    by (cases "ss_state s") (simp_all add: mark_closed_def wp_simps session_transition_def)
qed

lemma closing_fine: "leads fine (close_session env)" "leads fine (run_cleanup env)"
  unfolding close_session_def run_cleanup_def close_link_def
  by (intro fine.rules fine.change fine_ops; simp)+

lemma state_changes_fine:
  "leads fine (drop_media_credit channel)" "leads fine (set_crash_chunk_max n)"
  "leads fine (adopt_clock sample)"
  unfolding drop_media_credit_def set_crash_chunk_max_def adopt_clock_def
  by (intro fine.change; simp)+

section \<open>Every trace\<close>

lemma session_step_fine: "session_step s l t \<Longrightarrow> fine s t"
  by (induction rule: session_step.induct)
     (auto intro: leads_run handle_frame_fine request_start_fine request_finish_fine closing_fine
        state_changes_fine credit_ops(3))

lemma session_trace_fine: "session_trace s ls t \<Longrightarrow> fine s t"
  by (induction rule: session_trace.induct) (auto intro: session_step_fine fine.trans)

lemma channel_count_10: "channel_count = 10"
  by (simp add: channel_count_def channel_members_def)

lemma session_init_ok: "session_init token interval limit = Inr s \<Longrightarrow> session_ok s"
  by (auto simp: session_init_def session_ok_def res_simps)

end
