(* ===== verification/Session_Claims.thy ===== *)
theory Session_Claims
  imports Session_Safety
begin

text \<open>
  The properties of a device session: the identity behind a live link is fixed, no frame is
  taken twice, a request gets only its own reply, readiness follows authentication, the proof
  signs the challenge, the log credit stays in its window, and closing releases every request.
\<close>

section \<open>Frames are taken once\<close>

text \<open>What decides whether a frame is taken.\<close>

definition same_gate :: "session \<Rightarrow> session \<Rightarrow> bool" where
  "same_gate s t \<longleftrightarrow> ss_info t = ss_info s \<and> ss_reopen_session_id t = ss_reopen_session_id s
     \<and> ss_last_rx_sequence t = ss_last_rx_sequence s"

interpretation gate: evolution same_gate
  by unfold_locales (simp_all add: same_gate_def)

lemma calm_gate: "calm \<le> same_gate"
  using same_viewD [OF calmD(2)] by (simp add: same_gate_def le_fun_def)

lemmas gate_ops = leads_mono [OF handle_unsolicited_calm calm_gate] leads_mono [OF calm_ops(1) calm_gate]
  leads_mono [OF calm_ops(3) calm_gate]

lemma complete_ready_gate: "leads same_gate (complete_ready env)"
  unfolding complete_ready_def by (intro gate.rules gate.change gate_ops; simp add: same_gate_def)

lemma dispatch_gate: "leads same_gate (dispatch env frame)"
  unfolding dispatch_def
  by (intro gate.rules gate.change gate_ops complete_ready_gate) (auto simp: same_gate_def)

text \<open>Whether a frame passes: the session is current and the sequence number is ahead.\<close>

definition ahead :: "int option \<Rightarrow> int \<Rightarrow> bool" where
  "ahead prev n \<longleftrightarrow>
     (case prev of None \<Rightarrow> True
      | Some l \<Rightarrow> (n - l) mod 2 ^ 32 \<noteq> 0 \<and> (n - l) mod 2 ^ 32 < 0x80000000)"

definition passes :: "frame \<Rightarrow> session \<Rightarrow> bool" where
  "passes frame s \<longleftrightarrow>
     ss_reopen_session_id s = None
   \<and> (\<exists>i. ss_info s = Some i \<and> fr_session_id frame = di_session_id i)
   \<and> ahead (ss_last_rx_sequence s ! nat (fr_channel frame)) (fr_sequence frame)"

definition note_sequence :: "frame \<Rightarrow> session \<Rightarrow> session" where
  "note_sequence frame s = s\<lparr>ss_last_rx_sequence := (ss_last_rx_sequence s)
     [nat (fr_channel frame) := Some (fr_sequence frame)]\<rparr>"

lemma channel_known:
  "session_ok s \<Longrightarrow> frame_valid frame \<Longrightarrow> nat (fr_channel frame) < length (ss_last_rx_sequence s)"
  by (simp add: session_ok_def frame_valid_def channel_count_10 nat_less_iff)

lemma handle_frame_cases:
  assumes "session_ok s" and "frame_valid frame"
  shows "handle_frame env frame s =
    (if is_control frame ControlType_HELLO then handle_hello env frame s
     else if passes frame s then dispatch env frame (note_sequence frame s)
     else (Inr (), s))"
  using channel_known [OF assms]
  by (auto simp: handle_frame_def passes_def ahead_def note_sequence_def accept_sequence_def
      st_run Let_def split: option.split)

lemma dispatch_fine: "leads fine (dispatch env frame)"
  unfolding dispatch_def
  by (intro fine.rules fine.change fine_ops handler_fine) (auto intro: fine_future)

lemma trace_ok:
  assumes "session_init token interval limit = Inr s0" and "session_trace s0 ls s"
  shows "session_ok s"
  using session_trace_fine [OF assms(2)] session_init_ok [OF assms(1)] by (simp add: fine_def)


section \<open>The identity behind a link\<close>

text \<open>Claim C17. Whatever happens on a link, the device behind it stays the one its first HELLO
  named, and its session changes at most once (the reopening the gateway asked for): after a
  change of the session every later state has the new session.\<close>

theorem session_identity_pinned:
  assumes "session_init token interval limit = Inr s0" and "session_trace s0 ls s"
    and "session_trace s ms t" and "ss_info s = Some i"
  shows "\<exists>j. ss_info t = Some j \<and> di_device_id j = di_device_id i
    \<and> (di_session_id j \<noteq> di_session_id i \<longrightarrow>
         (\<forall>ns v. session_trace t ns v \<longrightarrow> (\<exists>k. ss_info v = Some k \<and> di_session_id k = di_session_id j)))"
proof -
  note ok = trace_ok [OF assms(1,2)]
  have "fine s t" by (rule session_trace_fine [OF assms(3)])
  with ok have okt: "session_ok t" and ev: "evolves s t" by (simp_all add: fine_def)
  from ev assms(4) obtain j where j: "ss_info t = Some j" "di_device_id j = di_device_id i"
    "di_session_id j = di_session_id i \<or> \<not> settled s \<and> settled t"
    by (auto simp: evolves_def)
  have "\<exists>k. ss_info v = Some k \<and> di_session_id k = di_session_id j"
    if "di_session_id j \<noteq> di_session_id i" and "session_trace t ns v" for ns v
  proof -
    have "evolves t v" using session_trace_fine [OF that(2)] okt by (simp add: fine_def)
    moreover have "settled t" using that(1) j(3) by simp
    ultimately show ?thesis using j(1) by (auto simp: evolves_def)
  qed
  with j show ?thesis by blast
qed

text \<open>The invariant of a session holds after every sequence of steps: the tables have
  one entry per channel, counters stay in their 32-bit range, readiness implies a device and a
  finished handshake, a reopen is pending only for the current session, and every pending request
  has an identifier and a future of its own.\<close>

theorem session_invariant:
  assumes "session_init token interval limit = Inr s" and "session_trace s ls t"
  shows "session_ok t"
  by (rule trace_ok [OF assms])

section \<open>Replies\<close>

definition same_waiters :: "session \<Rightarrow> session \<Rightarrow> bool" where
  "same_waiters s t \<longleftrightarrow> ss_pending t = ss_pending s \<and> ss_futures t = ss_futures s"

interpretation waiters: evolution same_waiters
  by unfold_locales (simp_all add: same_waiters_def)

lemma calm_waiters: "calm \<le> same_waiters"
  using same_viewD [OF calmD(2)] by (simp add: same_waiters_def le_fun_def)

lemmas waiters_ops = leads_mono [OF handle_unsolicited_calm calm_waiters] calm_ops [THEN leads_mono, OF calm_waiters]

lemma complete_ready_waiters: "leads same_waiters (complete_ready env)"
  unfolding complete_ready_def
  by (intro waiters.rules waiters.change waiters_ops; simp add: same_waiters_def)

lemma handle_hello_waiters: "leads same_waiters (handle_hello env frame)"
  unfolding handle_hello_def adopt_info_def Let_def
  by (intro waiters.rules waiters.change waiters_ops complete_ready_waiters)
     (auto simp: same_waiters_def)

lemma dispatch_waiters:
  assumes "dispatch env frame s = (r, t)"
  shows "same_waiters s t \<or> (\<exists>k. fr_request_id frame \<noteq> 0
    \<and> map_of (ss_pending s) (nat (fr_request_id frame)) = Some k \<and> ss_pending t = ss_pending s
    \<and> ss_futures s ! k = Waiting \<and> ss_futures t = (ss_futures s)[k := reply_outcome frame])"
proof (cases "is_control frame ControlType_AUTH_RESULT")
  case True
  have "leads same_waiters (dispatch env frame)"
    unfolding dispatch_def if_P [OF True] by (intro waiters.rules complete_ready_waiters)
  then show ?thesis using assms by (blast intro: leads_run)
next
  case False
  show ?thesis
  proof (cases "fr_request_id frame = 0 \<or> map_of (ss_pending s) (nat (fr_request_id frame)) = None")
    case True
    with False have "dispatch env frame s = handle_unsolicited env frame s"
      by (auto simp: dispatch_def sbind_def sget_def)
    with assms have "handle_unsolicited env frame s = (r, t)" by simp
    then show ?thesis by (blast intro: leads_run waiters_ops(1))
  next
    case pending: False
    with False show ?thesis using assms
      by (auto simp: dispatch_def st_run same_waiters_def split: if_splits)
  qed
qed

text \<open>How a request registers its future: not at all, under its identifier, or no longer.\<close>

definition registers :: "session \<Rightarrow> (nat \<times> nat) res \<Rightarrow> session \<Rightarrow> bool" where
  "registers s r t \<longleftrightarrow>
     (case r of
        Inr (q, k) \<Rightarrow> k = length (ss_futures s) \<and> ss_futures t = ss_futures s @ [Waiting]
          \<and> ss_pending t = AList.update q k (ss_pending s)
      | Inl e \<Rightarrow> same_waiters s t \<or> ss_futures t = ss_futures s @ [Waiting]
          \<and> (\<exists>q k. ss_pending t = AList.delete q (AList.update q k (ss_pending s))))"

lemma request_start_registers:
  assumes "request_start env channel ty payload stream_id s = (r, t)"
  shows "registers s r t"
proof -
  let ?q = "next_request_id (ss_request_id s)"
  let ?s = "s\<lparr>ss_request_id := ?q, ss_futures := ss_futures s @ [Waiting],
    ss_pending := AList.update ?q (length (ss_futures s)) (ss_pending s)\<rparr>"
  have sent: "registers s (Inr (?q, length (ss_futures s))) v" if "same_waiters ?s v" for v
    using that by (simp add: registers_def same_waiters_def)
  have failed: "registers s (Inl e) (v\<lparr>ss_pending := AList.delete ?q (ss_pending v)\<rparr>)"
    if "same_waiters ?s v" for v e
    unfolding registers_def sum.case
    by (rule disjI2, rule conjI, use that in \<open>simp add: same_waiters_def\<close>,
        rule exI [of _ ?q], rule exI [of _ "length (ss_futures s)"],
        use that in \<open>simp add: same_waiters_def\<close>)
  have early: "registers s (Inl e) s" for e
    by (simp add: registers_def same_waiters_def)
  have "wp (send env channel ty payload 0 ?q stream_id) (\<lambda>_. same_waiters ?s) (\<lambda>_. same_waiters ?s) ?s"
    by (intro leadsD waiters_ops)
  then have "wp (send env channel ty payload 0 ?q stream_id)
      (\<lambda>_. registers s (Inr (?q, length (ss_futures s))))
      (\<lambda>e t. registers s (Inl e) (t\<lparr>ss_pending := AList.delete ?q (ss_pending t)\<rparr>)) ?s"
    by (rule wp_mono) (erule sent, erule failed)
  then have "wp (request_start env channel ty payload stream_id)
      (\<lambda>x. registers s (Inr x)) (\<lambda>e. registers s (Inl e)) s"
    by (simp add: request_start_def wait_ready_def wp_simps pop_pending_def early split: option.split)
  from wp_run [OF this assms] show ?thesis by (cases r) simp_all
qed

text \<open>Every pending future was started under its identifier, and a future with a result holds a
  received frame with the identifier it was started under.\<close>

definition answered :: "label list \<Rightarrow> session \<Rightarrow> bool" where
  "answered ls s \<longleftrightarrow>
     (\<forall>q k. Started (Inr (q, k)) \<in> set ls \<longrightarrow> k < length (ss_futures s)
        \<and> (\<forall>q'. (q', k) \<in> set (ss_pending s) \<longrightarrow> q' = q)
        \<and> (\<forall>f. ss_futures s ! k = Result f \<longrightarrow> fr_request_id f = int q \<and> (\<exists>r. Received f r \<in> set ls)))"

text \<open>A step that starts nothing, removes requests and gives no results.\<close>

lemma answered_step:
  assumes "answered ls s" and "\<And>x. l \<noteq> Started (Inr x)"
    and "set (ss_pending t) \<subseteq> set (ss_pending s)" and "length (ss_futures s) \<le> length (ss_futures t)"
    and "\<And>k f. k < length (ss_futures s) \<Longrightarrow> ss_futures t ! k = Result f \<Longrightarrow> ss_futures s ! k = Result f"
  shows "answered (ls @ [l]) t"
  unfolding answered_def
proof (intro allI impI)
  fix q k assume "Started (Inr (q, k)) \<in> set (ls @ [l])"
  then have "Started (Inr (q, k)) \<in> set ls" using assms(2) [of "(q, k)"] by auto
  with assms(1) have *: "k < length (ss_futures s)" "\<forall>q'. (q', k) \<in> set (ss_pending s) \<longrightarrow> q' = q"
    "\<forall>f. ss_futures s ! k = Result f \<longrightarrow> fr_request_id f = int q \<and> (\<exists>r. Received f r \<in> set ls)"
    unfolding answered_def by blast+
  with assms(3,4) assms(5) [of k] show "k < length (ss_futures t) \<and> (\<forall>q'. (q', k) \<in> set (ss_pending t) \<longrightarrow> q' = q)
      \<and> (\<forall>f. ss_futures t ! k = Result f \<longrightarrow> fr_request_id f = int q \<and> (\<exists>r. Received f r \<in> set (ls @ [l])))"
    by fastforce
qed

lemma answered_same: "answered ls s \<Longrightarrow> (\<And>x. l \<noteq> Started (Inr x)) \<Longrightarrow> same_waiters s t \<Longrightarrow> answered (ls @ [l]) t"
  by (rule answered_step) (auto simp: same_waiters_def)

lemma answered_reply:
  assumes "answered ls s" and "fr_request_id frame \<noteq> 0" and "0 \<le> fr_request_id frame"
    and "map_of (ss_pending s) (nat (fr_request_id frame)) = Some k" and "ss_pending t = ss_pending s"
    and "ss_futures t = (ss_futures s)[k := reply_outcome frame]"
  shows "answered (ls @ [Received frame r]) t"
  unfolding answered_def
proof (intro allI impI)
  fix q k' assume "Started (Inr (q, k')) \<in> set (ls @ [Received frame r])"
  then have "Started (Inr (q, k')) \<in> set ls" by simp
  with assms(1) have *: "k' < length (ss_futures s)" "\<forall>q'. (q', k') \<in> set (ss_pending s) \<longrightarrow> q' = q"
    "\<forall>f. ss_futures s ! k' = Result f \<longrightarrow> fr_request_id f = int q \<and> (\<exists>r. Received f r \<in> set ls)"
    unfolding answered_def by blast+
  have "fr_request_id frame = int q" if "k' = k"
    using that * (2) map_of_SomeD [OF assms(4)] assms(3) by auto
  moreover have "f = frame" if "reply_outcome frame = Result f" for f
    using that by (simp add: reply_outcome_def split: if_splits)
  ultimately show "k' < length (ss_futures t) \<and> (\<forall>q'. (q', k') \<in> set (ss_pending t) \<longrightarrow> q' = q)
      \<and> (\<forall>f. ss_futures t ! k' = Result f \<longrightarrow>
           fr_request_id f = int q \<and> (\<exists>r'. Received f r' \<in> set (ls @ [Received frame r])))"
    using * assms(5,6) by (cases "k' = k") auto
qed

lemma answered_received:
  assumes "session_ok s" and "answered ls s" and "frame_valid f" and "handle_frame env f s = (r, t)"
  shows "answered (ls @ [Received f r]) t"
proof (cases "is_control f ControlType_HELLO \<or> \<not> passes f s")
  case True
  then have "same_waiters s t"
    using assms(4) leads_run [OF handle_hello_waiters]
    by (auto simp: handle_frame_cases [OF assms(1,3)] waiters.refl split: if_splits)
  with assms(2) show ?thesis by (auto intro: answered_same)
next
  case False
  then have run: "dispatch env f (note_sequence f s) = (r, t)"
    using assms(4) by (simp add: handle_frame_cases [OF assms(1,3)])
  have s: "answered ls (note_sequence f s)" using assms(2) by (simp add: answered_def note_sequence_def)
  have "0 \<le> fr_request_id f" using assms(3) by (simp add: frame_valid_def)
  with s dispatch_waiters [OF run] show ?thesis by (auto intro: answered_same answered_reply)
qed

lemma answered_started:
  assumes ok: "session_ok s" and ans: "answered ls s" and reg: "registers s r t"
  shows "answered (ls @ [Started r]) t"
proof (cases r)
  case (Inl e)
  have del: "set (AList.delete q (AList.update q k P)) \<subseteq> set P" for q k and P :: "(nat \<times> nat) list"
    using update_set [of q k P] by (auto simp: AList.delete_eq)
  show ?thesis
  proof (cases "same_waiters s t")
    case True
    then show ?thesis using ans by (rule_tac answered_same) (simp_all add: Inl)
  next
    case False
    with reg Inl obtain q k where "ss_futures t = ss_futures s @ [Waiting]"
      and "ss_pending t = AList.delete q (AList.update q k (ss_pending s))"
      by (auto simp: registers_def)
    then show ?thesis
      using del [of q k "ss_pending s"] by (intro answered_step [OF ans]) (simp_all add: Inl nth_append)
  qed
next
  case (Inr req)
  obtain q k where req: "req = (q, k)" by (cases req)
  from reg have t: "k = length (ss_futures s)" "ss_futures t = ss_futures s @ [Waiting]"
    "ss_pending t = AList.update q k (ss_pending s)"
    by (simp_all add: registers_def Inr req)
  have fresh: "(q', k) \<notin> set (ss_pending s)" for q' using ok t(1) by (auto simp: session_ok_def)
  show ?thesis
    unfolding answered_def
  proof (intro allI impI)
    fix q2 k2 assume "Started (Inr (q2, k2)) \<in> set (ls @ [Started r])"
    then consider "q2 = q" "k2 = k" | "Started (Inr (q2, k2)) \<in> set ls" by (auto simp: Inr req)
    then show "k2 < length (ss_futures t) \<and> (\<forall>q'. (q', k2) \<in> set (ss_pending t) \<longrightarrow> q' = q2)
      \<and> (\<forall>f. ss_futures t ! k2 = Result f \<longrightarrow>
           fr_request_id f = int q2 \<and> (\<exists>r'. Received f r' \<in> set (ls @ [Started r])))"
    proof cases
      case 1
      then show ?thesis using t fresh update_set [of q k "ss_pending s"] by auto
    next
      case 2
      with ans have *: "k2 < length (ss_futures s)" "\<forall>q'. (q', k2) \<in> set (ss_pending s) \<longrightarrow> q' = q2"
        "\<forall>f. ss_futures s ! k2 = Result f \<longrightarrow> fr_request_id f = int q2 \<and> (\<exists>r. Received f r \<in> set ls)"
        unfolding answered_def by blast+
      then show ?thesis
        using t update_set [of q k "ss_pending s"] by (auto simp: nth_append)
    qed
  qed
qed

lemma request_finish_waiters:
  assumes "request_finish (q, k) e s = (r, t)"
  shows "ss_pending t = AList.delete q (ss_pending s)"
    and "ss_futures t = (if ss_futures s ! k = Waiting then (ss_futures s)[k := Cancelled] else ss_futures s)"
    and "r = Inr f \<Longrightarrow> ss_futures s ! k = Result f"
  using assms by (auto simp: request_finish_def pop_pending_def st_run split: future.splits if_splits)

lemma fail_fold_Result:
  "k < length fs \<Longrightarrow> fold (\<lambda>p fs. fs[snd p := fail_future (fs ! snd p)]) P fs ! k = Result f \<Longrightarrow> fs ! k = Result f"
proof (induction P arbitrary: fs)
  case (Cons p P)
  then have "fs[snd p := fail_future (fs ! snd p)] ! k = Result f" by simp
  with Cons.prems(1) show ?case
    by (cases "snd p = k") (auto simp: fail_future_def split: if_splits)
qed simp

definition releases :: "session \<Rightarrow> session \<Rightarrow> bool" where
  "releases s t \<longleftrightarrow> ss_pending t = []
     \<and> ss_futures t = fold (\<lambda>p fs. fs[snd p := fail_future (fs ! snd p)]) (ss_pending s) (ss_futures s)
     \<and> ss_state t = CLOSED \<and> ss_closed t"

lemma mark_closed_releases: "wp mark_closed (\<lambda>_. releases s) (\<lambda>_ _. False) s"
  by (cases "ss_state s") (simp_all add: mark_closed_def fail_pending_def wp_simps session_transition_def releases_def)

lemma releases_same_view: "releases s t \<Longrightarrow> same_view t v \<Longrightarrow> releases s v"
  using same_viewD [of t v] by (simp add: releases_def)

lemma closing_releases:
  "wp (close_session env) (\<lambda>_. releases s) (\<lambda>_. releases s) s"
  "wp (run_cleanup env) (\<lambda>_. releases s) (\<lambda>_. releases s) s"
proof -
  have close: "wp (close_link env) (\<lambda>_. releases s) (\<lambda>_. releases s) t" if "releases s t" for t
    unfolding close_link_def
    by (rule wp_mono [OF leadsD [OF perform_ops(2)]]) (erule releases_same_view [OF that])+
  show "wp (close_session env) (\<lambda>_. releases s) (\<lambda>_. releases s) s"
    unfolding close_session_def wp_sbind by (rule wp_mono [OF mark_closed_releases]) (simp_all add: close)
  have "releases s (t\<lparr>ss_clock_task := False\<rparr>)" if "releases s t" for t
    using that by (simp add: releases_def)
  then show "wp (run_cleanup env) (\<lambda>_. releases s) (\<lambda>_. releases s) s"
    unfolding run_cleanup_def wp_sbind wp_smod by (intro wp_mono [OF mark_closed_releases]) (simp_all add: close)
qed

lemma wp_always: "wp m (\<lambda>_. P) (\<lambda>_. P) s \<Longrightarrow> m s = (r, t) \<Longrightarrow> P t"
  by (simp add: wp_snd)

lemma answered_releases: "answered ls s \<Longrightarrow> releases s t \<Longrightarrow> answered (ls @ [Closing]) t"
  by (rule answered_step) (auto simp: releases_def fail_fold(1) dest: fail_fold_Result)

lemma answered_trace_step:
  assumes "session_step s l t" and "session_ok s" and "answered ls s"
  shows "answered (ls @ [l]) t"
  using assms
proof (induction rule: session_step.cases)
  case (finished req s e r t)
  obtain q k where req: "req = (q, k)" by (cases req)
  have "answered ls s" using finished by simp
  then have "answered (ls @ [Finished req r]) t"
    using finished unfolding req
    by (elim answered_step)
       (auto simp: request_finish_waiters AList.delete_eq nth_list_update split: if_splits)
  with finished show ?case by simp
next
  case (received f env s r t)
  then show ?case by (simp add: answered_received)
next
  case (started env channel ty payload stream_id s r t)
  then show ?case by (simp add: answered_started request_start_registers)
next
  case (closing env s r t)
  then show ?case by (auto intro: answered_releases wp_always [OF closing_releases(1)])
next
  case (cleanup env s r t)
  then show ?case by (auto intro: answered_releases wp_always [OF closing_releases(2)])
next
  case (granted env channel amount s r t)
  then show ?case by (auto intro!: answered_same leads_run [OF leads_mono [OF calm_ops(4) calm_waiters]])
qed (auto intro!: answered_same simp: same_waiters_def st_run drop_media_credit_def
      set_crash_chunk_max_def adopt_clock_def split: if_splits)

lemma trace_answered:
  assumes "session_trace s0 ls s" and "session_ok s0" and "ss_pending s0 = []"
  shows "answered ls s"
  using assms
proof (induction rule: session_trace.induct)
  case (start s)
  then show ?case by (simp add: answered_def)
next
  case (step s ls t l v)
  then have "session_ok t" using session_trace_fine [OF step(1)] by (simp add: fine_def)
  with step show ?case by (blast intro: answered_trace_step)
qed

text \<open>Claim C16. A request returns only a frame the session received in answer to it: where a
  request that was started under an identifier finishes with a frame, in any interleaving of
  requests, replies, timeouts and closings, that frame carries this identifier and was received
  on the link.\<close>

theorem reply_matches_request:
  assumes "session_init token interval limit = Inr s0" and "session_trace s0 ls s"
    and "Started (Inr req) \<in> set ls" and "session_step s (Finished req (Inr f)) t"
  shows "fr_request_id f = int (fst req) \<and> (\<exists>r. Received f r \<in> set ls)"
proof -
  have "ss_pending s0 = []" using assms(1) by (auto simp: session_init_def res_simps)
  then have ans: "answered ls s"
    by (rule trace_answered [OF assms(2) session_init_ok [OF assms(1)]])
  obtain q k where req: "req = (q, k)" by (cases req)
  from assms(4) have "ss_futures s ! k = Result f"
    by (cases rule: session_step.cases) (auto simp: req dest: request_finish_waiters(3))
  with ans assms(3) show ?thesis unfolding answered_def req by auto
qed

section \<open>Closing\<close>

lemma fail_fold_pending:
  assumes "distinct (map snd P)" and "(q, k) \<in> set P" and "k < length fs" and "fs ! k = Waiting"
  shows "fold (\<lambda>p fs. fs[snd p := fail_future (fs ! snd p)]) P fs ! k
    = Failed (ConnectionError ''ESP-Iris session closed'')"
  using assms
proof (induction P arbitrary: fs)
  case (Cons p P)
  show ?case
  proof (cases "snd p = k")
    case True
    with Cons.prems have "fs[snd p := fail_future (fs ! snd p)] ! k
        = Failed (ConnectionError ''ESP-Iris session closed'')"
      by (simp add: fail_future_def)
    then show ?thesis using fail_fold(2) [of "fs[snd p := fail_future (fs ! snd p)]" k P] by simp
  next
    case False
    with Cons show ?thesis by auto
  qed
qed simp

text \<open>Claim C20. Closing a session, or the end of its read loop, releases every request: each request
  that waits gets the connection error, none stays pending, and a request that starts later writes
  nothing and raises.\<close>

theorem close_releases_requests:
  assumes "session_init token interval limit = Inr s0" and "session_trace s0 ls s"
    and "session_step s Closing t"
  shows "ss_pending t = [] \<and> ss_state t = CLOSED
    \<and> (\<forall>(q, k) \<in> set (ss_pending s). ss_futures s ! k = Waiting \<longrightarrow>
         ss_futures t ! k = Failed (ConnectionError ''ESP-Iris session closed''))
    \<and> (\<exists>e. request_start env channel ty payload stream_id t = (Inl e, t)
         \<and> (ss_ready t \<longrightarrow> e = ConnectionError ''ESP-Iris session closed''))"
proof -
  note ok = trace_ok [OF assms(1,2)]
  have rel: "releases s t"
    using assms(3) by (cases rule: session_step.cases) (auto intro: wp_always closing_releases)
  then have closed: "ss_pending t = [] \<and> ss_state t = CLOSED \<and> ss_closed t"
    by (simp add: releases_def)
  have failed: "ss_futures t ! k = Failed (ConnectionError ''ESP-Iris session closed'')"
    if "(q, k) \<in> set (ss_pending s)" and "ss_futures s ! k = Waiting" for q k
    using rel ok that fail_fold_pending [of "ss_pending s" q k "ss_futures s"]
    by (auto simp: releases_def session_ok_def)
  have "session_ok t"
    using session_step_fine [OF assms(3)] ok by (simp add: fine_def)
  then have "ss_ready t \<longrightarrow> ss_info t \<noteq> None" by (simp add: session_ok_def)
  with closed have "\<exists>e. request_start env channel ty payload stream_id t = (Inl e, t)
      \<and> (ss_ready t \<longrightarrow> e = ConnectionError ''ESP-Iris session closed'')"
    by (auto simp: request_start_def wait_ready_def st_run split: option.splits)
  with closed failed show ?thesis by blast
qed

section \<open>Readiness\<close>

definition same_ready :: "session \<Rightarrow> session \<Rightarrow> bool" where
  "same_ready s t \<longleftrightarrow> ss_ready_announced t = ss_ready_announced s"

interpretation ready: evolution same_ready
  by unfold_locales (simp_all add: same_ready_def)

lemma calm_ready: "calm \<le> same_ready"
  using same_viewD [OF calmD(2)] by (simp add: same_ready_def le_fun_def)

lemmas ready_ops = leads_mono [OF handle_unsolicited_calm calm_ready] calm_ops [THEN leads_mono, OF calm_ready]

text \<open>Where the handshake fails, readiness is not announced.\<close>

lemma complete_ready_raises:
  "wp (complete_ready env) (\<lambda>_. same_gate s) (\<lambda>_. same_ready s) s"
proof -
  have "wp (complete_ready env) (\<lambda>_ _. True) (\<lambda>_. same_ready s) s"
  proof (cases "ss_info s")
    case (Some i)
    have "wp (sbind (if ss_log_credit s = 0 then grant_log_credit env LOG_CREDIT_GRANT else sret ()) (\<lambda>_.
              perform (On_ready i) (en_on_ready env))) (\<lambda>_ _. True) (\<lambda>_. same_ready s) (s\<lparr>ss_state := st\<rparr>)" for st
      by (rule wp_mono [OF ready.after [where s = s]]) (intro ready.rules ready_ops, simp_all add: same_ready_def)
    then show ?thesis
      by (cases "session_transition (ss_state s) AUTHENTICATED")
         (simp_all add: complete_ready_def Some wp_simps ready.refl)
  qed (simp add: complete_ready_def wp_simps ready.refl)
  moreover have "wp (complete_ready env) (\<lambda>_. same_gate s) (\<lambda>_. same_gate s) s"
    by (rule leadsD [OF complete_ready_gate])
  ultimately show ?thesis
    by (auto simp: wp_def split: prod.splits sum.splits)
qed

lemma adopt_info_adopts:
  "wp (adopt_info info) (\<lambda>_ t. ss_info t = Some info \<and> same_ready s t) (\<lambda>_. same_ready s) s"
  by (auto simp: adopt_info_def wp_simps same_ready_def)

text \<open>How a HELLO may end in readiness.\<close>

definition open_hello :: "frame \<Rightarrow> session \<Rightarrow> bool" where
  "open_hello frame t \<longleftrightarrow> ss_reopen_session_id t = None
     \<and> (\<exists>i. ss_info t = Some i \<and> di_session_id i = fr_session_id frame \<and> di_auth_mode i = 0)"

lemma open_hello_ready:
  assumes "ss_info a = Some info" and "di_session_id info = fr_session_id frame"
    and "di_auth_mode info = 0" and "ss_reopen_session_id a = None" and "same_ready s a"
  shows "wp (complete_ready env) (\<lambda>_ t. same_ready s t \<or> open_hello frame t) (\<lambda>_. same_ready s) a"
  by (rule wp_mono [OF complete_ready_raises])
     (use assms in \<open>auto simp: open_hello_def same_gate_def same_ready_def\<close>)

lemma handle_hello_ready:
  "wp (handle_hello env frame) (\<lambda>_ t. same_ready s t \<or> open_hello frame t) (\<lambda>_. same_ready s) s"
proof -
  {
    fix flds a
    let ?info = "hello_info (en_endpoint env) (fr_session_id frame) flds"
    assume a: "ss_info a = Some ?info" "same_ready s a"
    have ack: "wp (send_ack env payload flags) (\<lambda>_. calm a) (\<lambda>_. calm a) a" for payload flags
      by (rule leadsD [OF calm_ops(5)])
    have other: "wp (send_ack env payload flags) (\<lambda>_ t. same_ready s t \<or> open_hello frame t)
        (\<lambda>_. same_ready s) a" for payload flags
      by (rule wp_mono [OF ack]) (use a(2) same_viewD(9) [OF calmD(2)] in \<open>auto simp: same_ready_def\<close>)
    have "wp (send_ack env [] 0) (\<lambda>_. wp (complete_ready env)
            (\<lambda>_ t. same_ready s t \<or> open_hello frame t) (\<lambda>_. same_ready s)) (\<lambda>_. same_ready s) a"
      if "di_auth_mode ?info = 0" "ss_reopen_session_id a = None"
    proof (rule wp_mono [OF ack])
      fix t assume "calm a t"
      note t = same_viewD [OF calmD(2) [OF this]]
      show "wp (complete_ready env) (\<lambda>_ t. same_ready s t \<or> open_hello frame t) (\<lambda>_. same_ready s) t"
        by (rule open_hello_ready [where info = ?info])
           (use a that t in \<open>auto simp: same_ready_def hello_info_def\<close>)
    next
      fix t assume "calm a t"
      then show "same_ready s t" using a(2) same_viewD(9) [OF calmD(2)] by (auto simp: same_ready_def)
    qed
    note other this
  }
  note parts = this
  show ?thesis
  proof (cases "decode_tlv (fr_payload frame)")
    case (Inr flds)
    let ?info = "hello_info (en_endpoint env) (fr_session_id frame) flds"
    show ?thesis
      by (auto simp: handle_hello_def wp_simps Let_def Inr ready.refl split: sum.split
          intro!: wp_mono [OF adopt_info_adopts [of ?info s]]) (auto simp: wp_simps parts split: option.split)
  qed (simp add: handle_hello_def wp_simps ready.refl)
qed

lemma dispatch_ready:
  assumes "\<not> is_control frame ControlType_AUTH_RESULT"
  shows "leads same_ready (dispatch env frame)"
  unfolding dispatch_def if_not_P [OF assms]
  by (intro ready.rules ready.change ready_ops) (auto simp: same_ready_def)

text \<open>The steps that are no received frame announce nothing and leave the log credit alone.\<close>

definition same_flow :: "session \<Rightarrow> session \<Rightarrow> bool" where
  "same_flow s t \<longleftrightarrow> same_ready s t \<and> ss_log_credit t = ss_log_credit s"

interpretation flow: evolution same_flow
  by unfold_locales (simp_all add: same_flow_def same_ready_def)

named_theorems flow_ops \<open>operations that change neither readiness nor log credit\<close>

lemma perform_flow [flow_ops]: "leads same_flow (perform a outcome)"
  unfolding perform_def by (intro flow.rules flow.change) (simp add: same_flow_def same_ready_def)

lemma send_flow [flow_ops]: "leads same_flow (send env channel ty payload flags request_id stream_id)"
  unfolding send_def by (intro flow.rules flow.change flow_ops) (simp add: same_flow_def same_ready_def)

lemma pop_flow [flow_ops]: "leads same_flow (pop_pending q)"
  unfolding pop_pending_def by (intro flow.change) (simp add: same_flow_def same_ready_def)

lemma media_flow [flow_ops]:
  "leads same_flow (grant_media_credit env channel amount)" "leads same_flow (drop_media_credit channel)"
  unfolding grant_media_credit_def drop_media_credit_def
  by (intro flow.rules flow.change flow_ops; simp add: same_flow_def same_ready_def)+

lemma handler_flow [flow_ops]:
  "leads same_flow (handle_media env frame)" "leads same_flow (handle_event env frame now)"
  unfolding handle_media_def handle_event_def Let_def
  by (intro flow.rules flow.change flow_ops; simp add: same_flow_def same_ready_def)+

lemma request_flow [flow_ops]:
  "leads same_flow (request_start env channel ty payload stream_id)" "leads same_flow (request_finish req e)"
proof -
  show "leads same_flow (request_start env channel ty payload stream_id)"
    unfolding request_start_def wait_ready_def
    by (intro flow.rules flow.change flow_ops; simp add: same_flow_def same_ready_def)
  have "leads same_flow (case f of Result frame \<Rightarrow> sret frame | Failed e' \<Rightarrow> sraise e'
      | Cancelled \<Rightarrow> sraise CancelledError | Waiting \<Rightarrow> sraise e)" for f
    by (cases f) (simp_all add: flow.basic)
  then show "leads same_flow (request_finish req e)"
    unfolding request_finish_def
    by (intro flow.rules flow.change flow_ops; simp add: same_flow_def same_ready_def)
qed

lemma closing_flow [flow_ops]: "leads same_flow (close_session env)" "leads same_flow (run_cleanup env)"
  unfolding close_session_def run_cleanup_def mark_closed_def fail_pending_def close_link_def
  by (intro flow.rules flow.change flow_ops; simp add: same_flow_def same_ready_def)+

lemma state_change_flow [flow_ops]:
  "leads same_flow (set_crash_chunk_max n)" "leads same_flow (adopt_clock sample)"
  unfolding set_crash_chunk_max_def adopt_clock_def
  by (intro flow.change; simp add: same_flow_def same_ready_def)+

lemmas flow_runs = request_flow [THEN leads_run] closing_flow [THEN leads_run]
  media_flow [THEN leads_run] state_change_flow [THEN leads_run]

lemma step_flow:
  assumes "session_step s l t" and "\<And>f r. l \<noteq> Received f r"
  shows "same_flow s t"
  using assms
proof (cases rule: session_step.cases)
  case (decoded d)
  then show ?thesis by (simp add: same_flow_def same_ready_def)
qed (auto dest: flow_runs)

text \<open>Claim C19. A session becomes ready only by finishing its handshake: in the step that announces
  readiness it received, without an exception, either a HELLO of the session it then has, with no
  authentication and no reopening left, or, as a frame of the current session with a sequence number
  ahead, the device's positive answer to the pairing proof.\<close>

theorem ready_requires_handshake:
  assumes "session_init token interval limit = Inr s0" and "session_trace s0 ls s"
    and "session_step s l t" and "\<not> ss_ready_announced s" and "ss_ready_announced t"
  shows "\<exists>f. l = Received f (Inr ()) \<and>
    (is_control f ControlType_HELLO \<and> open_hello f t
     \<or> is_control f ControlType_AUTH_RESULT \<and> passes f s \<and> fr_payload f = [1] \<and> fr_flags f AND 2 = 0)"
proof -
  note ok = trace_ok [OF assms(1,2)]
  have no: "\<not> same_ready s t" using assms(4,5) by (simp add: same_ready_def)
  obtain f r where l: "l = Received f r" using step_flow [OF assms(3)] no by (auto simp: same_flow_def)
  with assms(3) obtain env where f: "frame_valid f" and run: "handle_frame env f s = (r, t)"
    by (cases rule: session_step.cases) auto
  show ?thesis
  proof (cases "is_control f ControlType_HELLO")
    case True
    then have "handle_hello env f s = (r, t)" using run by (simp add: handle_frame_cases [OF ok f])
    from wp_run [OF handle_hello_ready this] no True show ?thesis by (cases r) (simp_all add: l)
  next
    case False
    then have p: "passes f s" and d: "dispatch env f (note_sequence f s) = (r, t)"
      using run no by (auto simp: handle_frame_cases [OF ok f] ready.refl split: if_splits)
    have "same_ready s (note_sequence f s)" by (simp add: same_ready_def note_sequence_def)
    with no have no': "\<not> same_ready (note_sequence f s) t" by (simp add: same_ready_def)
    then have auth: "is_control f ControlType_AUTH_RESULT"
      using leads_run [OF dispatch_ready d] by blast
    with d no' have accepted: "fr_payload f = [1] \<and> fr_flags f AND 2 = 0"
      and "complete_ready env (note_sequence f s) = (r, t)"
      by (auto simp: dispatch_def st_run ready.refl split: if_splits)
    from wp_run [OF complete_ready_raises this(2)] no' have "r = Inr ()" by (cases r) simp_all
    with auth p accepted show ?thesis by (simp add: l)
  qed
qed

section \<open>Log credit\<close>

definition credit_ok :: "session \<Rightarrow> bool" where
  "credit_ok s \<longleftrightarrow>
     0 \<le> ss_log_credit s \<and> ss_log_credit s < LOG_CREDIT_LOW_WATER + LOG_CREDIT_GRANT
   \<and> (ss_log_credit s = 0 \<or> LOG_CREDIT_LOW_WATER \<le> ss_log_credit s)
   \<and> (ss_ready_announced s \<longrightarrow> LOG_CREDIT_LOW_WATER \<le> ss_log_credit s)"

lemma credit_ok_flow: "credit_ok s \<Longrightarrow> same_flow s t \<Longrightarrow> credit_ok t"
  by (simp add: credit_ok_def same_flow_def same_ready_def)

lemma flow_credit: "leads same_flow m \<Longrightarrow> credit_ok s \<Longrightarrow> wp m (\<lambda>_. credit_ok) (\<lambda>_ _. True) s"
  by (erule wp_mono [OF leadsD]) (auto intro: credit_ok_flow)

lemma grant_log_credit_adds:
  "wp (grant_log_credit env amount)
     (\<lambda>_ t. same_ready s t \<and> ss_log_credit t = ss_log_credit s + amount) (\<lambda>_ _. True) s"
  unfolding grant_log_credit_def wp_simps
  by (rule wp_mono [OF leadsD [OF send_flow]]) (auto simp: same_flow_def same_ready_def)

lemma handle_log_credit:
  assumes "credit_ok s"
  shows "wp (handle_log env frame) (\<lambda>_. credit_ok) (\<lambda>_ _. True) s"
proof -
  have refill: "wp (grant_log_credit env LOG_CREDIT_GRANT) (\<lambda>_. credit_ok) (\<lambda>_ _. True) v"
    if "0 \<le> ss_log_credit v" "ss_log_credit v < LOG_CREDIT_LOW_WATER" for v
    by (rule wp_mono [OF grant_log_credit_adds])
       (use that in \<open>auto simp: credit_ok_def LOG_CREDIT_GRANT_def LOG_CREDIT_LOW_WATER_def\<close>)
  have rest: "(ss_log_credit v < LOG_CREDIT_LOW_WATER \<longrightarrow>
        wp (grant_log_credit env LOG_CREDIT_GRANT) (\<lambda>_. credit_ok) (\<lambda>_ _. True) v)
      \<and> (\<not> ss_log_credit v < LOG_CREDIT_LOW_WATER \<longrightarrow> credit_ok v)"
    if "same_flow (s\<lparr>ss_log_credit := max 0 (ss_log_credit s - n)\<rparr>) v" and "0 \<le> n" for v n
  proof (intro conjI impI)
    assume "ss_log_credit v < LOG_CREDIT_LOW_WATER"
    with that show "wp (grant_log_credit env LOG_CREDIT_GRANT) (\<lambda>_. credit_ok) (\<lambda>_ _. True) v"
      by (intro refill) (simp_all add: same_flow_def)
  next
    assume "\<not> ss_log_credit v < LOG_CREDIT_LOW_WATER"
    with that assms show "credit_ok v"
      by (auto simp: credit_ok_def same_flow_def same_ready_def LOG_CREDIT_LOW_WATER_def)
  qed
  show ?thesis
    by (simp add: handle_log_def Let_def wp_simps)
       (intro impI wp_mono [OF leadsD [OF perform_flow]], erule rest, simp_all)
qed

lemma complete_ready_credit:
  assumes "credit_ok s"
  shows "wp (complete_ready env) (\<lambda>_. credit_ok) (\<lambda>_ _. True) s"
proof (cases "ss_ready_announced s \<or> ss_info s = None")
  case True
  then show ?thesis using assms by (auto simp: complete_ready_def wp_simps split: option.split)
next
  case False
  then obtain i where i: "ss_info s = Some i" by auto
  let ?done = "\<lambda>t. t\<lparr>ss_ready_announced := True, ss_ready := True, ss_clock_task := True\<rparr>"
  have tell: "wp (perform (On_ready i) (en_on_ready env)) (\<lambda>_ t. credit_ok (?done t)) (\<lambda>_ _. True) v"
    if "LOG_CREDIT_LOW_WATER \<le> ss_log_credit v" "ss_log_credit v < LOG_CREDIT_LOW_WATER + LOG_CREDIT_GRANT" for v
    by (rule wp_mono [OF leadsD [OF perform_flow]])
       (use that in \<open>auto simp: credit_ok_def same_flow_def LOG_CREDIT_LOW_WATER_def\<close>)
  have grant: "wp (grant_log_credit env LOG_CREDIT_GRANT)
      (\<lambda>_. wp (perform (On_ready i) (en_on_ready env)) (\<lambda>_ t. credit_ok (?done t)) (\<lambda>_ _. True)) (\<lambda>_ _. True) v"
    if "ss_log_credit v = 0" for v
    by (rule wp_mono [OF grant_log_credit_adds]) (simp_all add: tell that LOG_CREDIT_LOW_WATER_def LOG_CREDIT_GRANT_def)
  have low: "LOG_CREDIT_LOW_WATER \<le> ss_log_credit s" "ss_log_credit s < LOG_CREDIT_LOW_WATER + LOG_CREDIT_GRANT"
    if "ss_log_credit s \<noteq> 0"
    using that assms by (simp_all add: credit_ok_def)
  show ?thesis
    using False i
    by (cases "session_transition (ss_state s) AUTHENTICATED")
       (auto simp: complete_ready_def wp_simps grant low intro!: tell)
qed

lemma adopt_info_flow: "leads same_flow (adopt_info info)"
  unfolding adopt_info_def
  by (intro flow.rules flow.change) (auto simp: same_flow_def same_ready_def)

lemma handle_hello_credit:
  assumes "credit_ok s"
  shows "wp (handle_hello env frame) (\<lambda>_. credit_ok) (\<lambda>_ _. True) s"
proof -
  have ack: "wp (send_ack env payload flags) (\<lambda>_. credit_ok) (\<lambda>_ _. True) a" if "credit_ok a" for a payload flags
    unfolding send_ack_def by (rule flow_credit [OF send_flow that])
  have full: "wp (send_ack env payload flags) (\<lambda>_. wp (complete_ready env) (\<lambda>_. credit_ok) (\<lambda>_ _. True))
      (\<lambda>_ _. True) a" if "credit_ok a" for a payload flags
    by (rule wp_mono [OF ack [OF that]]) (simp_all add: complete_ready_credit)
  show ?thesis
    by (auto simp: handle_hello_def wp_simps Let_def split: sum.split
        intro!: wp_mono [OF flow_credit [OF adopt_info_flow assms]])
       (auto simp: wp_simps ack full split: option.split)
qed

lemma dispatch_credit:
  assumes "credit_ok s"
  shows "wp (dispatch env frame) (\<lambda>_. credit_ok) (\<lambda>_ _. True) s"
proof -
  have "wp (handle_unsolicited env frame) (\<lambda>_. credit_ok) (\<lambda>_ _. True) s"
    by (simp add: handle_unsolicited_def wp_simps handle_log_credit flow_credit flow_ops assms)
  moreover have "credit_ok (s\<lparr>ss_futures := fs\<rparr>)" for fs using assms by (simp add: credit_ok_def)
  ultimately show ?thesis
    using assms by (auto simp: dispatch_def wp_simps complete_ready_credit split: option.split)
qed

lemma credit_step:
  assumes "session_step s l t" and "session_ok s" and "credit_ok s" and "\<And>f e. l \<noteq> Received f (Inl e)"
  shows "credit_ok t"
proof (cases "\<exists>f r. l = Received f r")
  case False
  then show ?thesis using credit_ok_flow [OF assms(3) step_flow [OF assms(1)]] by blast
next
  case True
  then obtain f r where l: "l = Received f r" by blast
  with assms(4) obtain u where r: "r = Inr u" by (cases r) auto
  from assms(1) l obtain env where f: "frame_valid f" and run: "handle_frame env f s = (r, t)"
    by (cases rule: session_step.cases) auto
  have noted: "credit_ok (note_sequence f s)" using assms(3) by (simp add: credit_ok_def note_sequence_def)
  have "wp (handle_frame env f) (\<lambda>_. credit_ok) (\<lambda>_ _. True) s"
    using handle_hello_credit [OF assms(3), of env f] dispatch_credit [OF noted, of env f] assms(3)
    by (simp add: wp_def handle_frame_cases [OF assms(2) f])
  from wp_run [OF this run] r show ?thesis by simp
qed


section \<open>Exceptions\<close>

text \<open>What handling a frame may raise: the protocol's own errors and what the link or a callback
  raises.\<close>

definition frame_error :: "environment \<Rightarrow> exn \<Rightarrow> bool" where
  "frame_error env e \<longleftrightarrow> (\<exists>m. e = ProtocolError m) \<or> (\<exists>m. e = StateTransitionError m)
     \<or> (\<exists>b. en_write env b = Some e) \<or> (\<exists>d. en_on_event env d = Some e)
     \<or> (\<exists>d. en_on_media env d = Some e) \<or> en_on_ready env = Some e"

lemma frame_error_own [simp]: "frame_error env (ProtocolError m)" "frame_error env (StateTransitionError m)"
  by (simp_all add: frame_error_def)

abbreviation sound :: "environment \<Rightarrow> (session, 'a) st \<Rightarrow> bool" where
  "sound env m \<equiv> raises_only session_ok (frame_error env) m"

named_theorems sound_ops \<open>operations that raise only what handling a frame may raise\<close>

lemma fine_sound: "leads fine (smod f) \<Longrightarrow> sound env (smod f)"
  by (auto simp: leads_def smod_def fine_def intro!: raises_smod)

lemma perform_sound [sound_ops]:
  "(\<And>e. outcome = Some e \<Longrightarrow> frame_error env e) \<Longrightarrow> sound env (perform a outcome)"
  unfolding perform_def
  by (cases outcome) (simp_all, (intro raises_rules fine_sound fine.change; simp)+)

lemma encode_frame_errors: "encode_frame f = Inl e \<Longrightarrow> \<exists>m. e = ProtocolError m"
  by (auto simp: encode_frame_def Let_def res_simps wire_uint_def split: if_splits)

lemma decode_tlv_errors: "decode_tlv payload = Inl e \<Longrightarrow> \<exists>m. e = ProtocolError m"
proof -
  have "decode_tlv_loop payload off res = Inl e \<Longrightarrow> \<exists>m. e = ProtocolError m" for off res
  proof (induction payload off res rule: decode_tlv_loop.induct)
    case (1 payload offset result)
    then show ?case
      by (subst (asm) (2) decode_tlv_loop.simps) (auto simp: Let_def simp del: fun_upd_apply split: if_splits)
  qed
  then show "decode_tlv payload = Inl e \<Longrightarrow> \<exists>m. e = ProtocolError m" by (simp add: decode_tlv_def)
qed

lemma send_sound [sound_ops]:
  assumes "channel < channel_count"
  shows "sound env (send env channel ty payload flags request_id stream_id)"
proof -
  have known: "sound env (sbind (sget (\<lambda>s. channel < length (ss_sequence s))) (\<lambda>known.
      sbind (sraise_if (\<not> known) IndexError) m))" if "\<And>x. sound env (m x)" for m
  proof (rule raises_onlyI)
    fix s assume ok: "session_ok s"
    then have "channel < length (ss_sequence s)" using assms by (simp add: session_ok_def)
    with raises_onlyD [OF that ok]
    show "wp (sbind (sget (\<lambda>s. channel < length (ss_sequence s))) (\<lambda>known.
      sbind (sraise_if (\<not> known) IndexError) m)) (\<lambda>_. session_ok) (\<lambda>e _. frame_error env e) s"
      by (simp add: wp_simps)
  qed
  show ?thesis
    unfolding send_def
    by (intro known raises_rules fine_sound fine.change fine_sequence sound_ops)
       (auto simp: frame_error_def dest: encode_frame_errors)
qed

lemma control_known: "channel_code Channel_CONTROL < channel_count"
  by (simp add: channel_count_10)

lemma credit_sound [sound_ops]:
  "sound env (grant_log_credit env amount)" "sound env (grant_media_credit env channel amount)"
  "sound env (send_ack env payload flags)"
  unfolding grant_log_credit_def grant_media_credit_def send_ack_def
  by (intro raises_rules sound_ops control_known fine_sound fine.change; simp)+

lemma handle_log_sound [sound_ops]: "sound env (handle_log env frame)"
  unfolding handle_log_def Let_def
  by (intro raises_rules sound_ops fine_sound fine.change) (auto simp: frame_error_def)

lemma handle_media_sound [sound_ops]: "sound env (handle_media env frame)"
  unfolding handle_media_def Let_def
  by (intro raises_rules sound_ops fine_sound fine.change) (auto simp: frame_error_def)

lemma handle_event_sound [sound_ops]: "sound env (handle_event env frame now)"
  unfolding handle_event_def
  by (intro raises_rules sound_ops)
     (auto simp: frame_error_def decode_job_def Let_def res_simps dest: decode_tlv_errors)

lemma handle_unsolicited_sound [sound_ops]: "sound env (handle_unsolicited env frame)"
  unfolding handle_unsolicited_def by (intro raises_rules sound_ops)

lemma session_transition_errors: "session_transition a b = Inl e \<Longrightarrow> \<exists>m. e = StateTransitionError m"
  by (auto simp: session_transition_def split: session_state.splits session_event.splits)

text \<open>Completing the handshake needs a device.\<close>

lemma complete_ready_sound:
  assumes "session_ok s" and "ss_info s = Some i"
  shows "wp (complete_ready env) (\<lambda>_ _. True) (\<lambda>e _. frame_error env e) s"
proof -
  have tail: "wp (sbind (if ss_log_credit s = 0 then grant_log_credit env LOG_CREDIT_GRANT else sret ()) (\<lambda>_.
              perform (On_ready i) (en_on_ready env))) (\<lambda>_ _. True) (\<lambda>e _. frame_error env e) t"
    if "session_ok t" for t
    by (rule wp_mono [OF raises_onlyD [where I = session_ok and A = "frame_error env"]])
       (intro raises_rules sound_ops, auto simp: frame_error_def that)
  show ?thesis
  proof (cases "session_transition (ss_state s) AUTHENTICATED")
    case (Inl e)
    then have "frame_error env e" using session_transition_errors by (auto simp: frame_error_def)
    with Inl assms(2) show ?thesis by (simp add: complete_ready_def wp_simps)
  next
    case (Inr st)
    then have "st = READY" by (auto simp: session_transition_def split: session_state.splits session_event.splits)
    then have "session_ok (s\<lparr>ss_state := st\<rparr>)" using assms by (simp add: session_ok_def)
    from tail [OF this] Inr assms(2) show ?thesis by (simp add: complete_ready_def wp_simps)
  qed
qed

lemma dispatch_sound:
  assumes "session_ok s" and "ss_info s = Some i"
  shows "wp (dispatch env frame) (\<lambda>_ _. True) (\<lambda>e _. frame_error env e) s"
proof -
  have "wp (handle_unsolicited env frame) (\<lambda>_ _. True) (\<lambda>e _. frame_error env e) s"
    by (rule wp_mono [OF raises_onlyD [OF handle_unsolicited_sound assms(1)]]) auto
  then show ?thesis
    by (auto simp: dispatch_def wp_simps complete_ready_sound [OF assms] split: option.split)
qed

lemma check_hello_errors: "check_hello flds = Inl e \<Longrightarrow> \<exists>m. e = ProtocolError m"
  by (auto simp: check_hello_def Let_def res_simps)

lemma adopt_info_sound:
  "wp (adopt_info info) (\<lambda>_ t. ss_info t = Some info) (\<lambda>e _. frame_error env e) s"
  by (auto simp: adopt_info_def wp_simps frame_error_def)

lemma handle_hello_sound:
  assumes ok: "session_ok s" and valid: "frame_valid frame"
  shows "wp (handle_hello env frame) (\<lambda>_ _. True) (\<lambda>e _. frame_error env e) s"
proof -
  have sid: "0 \<le> fr_session_id frame" "fr_session_id frame < 2 ^ 32"
    using valid by (simp_all add: frame_valid_def)
  have adopt: "wp (adopt_info info) (\<lambda>_ t. ss_info t = Some info \<and> session_ok t) (\<lambda>e _. frame_error env e) s"
    if "di_session_id info = fr_session_id frame" for info
    by (rule wp_mono [OF wp_conj [OF adopt_info_sound [of info env s] leadsD [OF adopt_info_fine, of info s]]])
       (use that sid ok in \<open>auto simp: fine_def\<close>)
  have ack: "wp (send_ack env payload flags) (\<lambda>_ t. calm a t \<and> session_ok t) (\<lambda>e _. frame_error env e) a"
    if "session_ok a" for a payload flags
    by (rule wp_mono [OF wp_conj [OF raises_onlyD [OF credit_sound(3) that] leadsD [OF calm_ops(5)]]]) auto
  have ack': "wp (send_ack env payload flags) (\<lambda>_ _. True) (\<lambda>e _. frame_error env e) a"
    if "session_ok a" for a payload flags
    by (rule wp_mono [OF ack [OF that]]) auto
  have ready: "wp (send_ack env payload flags) (\<lambda>_. wp (complete_ready env) (\<lambda>_ _. True) (\<lambda>e _. frame_error env e))
      (\<lambda>e _. frame_error env e) a" if "session_ok a" "ss_info a = Some i" for a payload flags i
    by (rule wp_mono [OF ack [OF that(1)]])
       (use that(2) same_viewD(1) [OF calmD(2)] in \<open>auto intro!: complete_ready_sound\<close>)
  show ?thesis
  proof (cases "decode_tlv (fr_payload frame)")
    case (Inl e)
    then have "frame_error env e" using decode_tlv_errors by (auto simp: frame_error_def)
    with Inl show ?thesis by (simp add: handle_hello_def wp_simps)
  next
    case (Inr flds)
    let ?info = "hello_info (en_endpoint env) (fr_session_id frame) flds"
    have "frame_error env e" if "check_hello flds = Inl e" for e
      using check_hello_errors [OF that] by (auto simp: frame_error_def)
    moreover have "di_session_id ?info = fr_session_id frame" by (simp add: hello_info_def)
    ultimately show ?thesis
      by (auto simp: handle_hello_def wp_simps Let_def Inr split: sum.split
            intro!: wp_mono [OF adopt [of ?info]])
         (auto simp: wp_simps ack' ready split: option.split)
  qed
qed


section \<open>The proof of a pairing\<close>

text \<open>What a send writes.\<close>

definition sent_frame :: "session \<Rightarrow> nat \<Rightarrow> nat \<Rightarrow> bytes \<Rightarrow> nat \<Rightarrow> nat \<Rightarrow> nat \<Rightarrow> frame" where
  "sent_frame s channel ty payload flags request_id stream_id =
     \<lparr>fr_channel = int channel, fr_type = int ty, fr_flags = int flags,
      fr_session_id = (case ss_info s of None \<Rightarrow> 0 | Some i \<Rightarrow> di_session_id i),
      fr_request_id = int request_id, fr_stream_id = int stream_id,
      fr_sequence = int ((ss_sequence s ! channel + 1) mod 2 ^ 32), fr_payload = payload\<rparr>"

lemma send_writes:
  "wp (send env channel ty payload flags request_id stream_id)
     (\<lambda>_ t. ss_effects t = ss_effects s @ [Wrote (sent_frame s channel ty payload flags request_id stream_id)])
     (\<lambda>_ t. ss_effects t = ss_effects s
        \<or> ss_effects t = ss_effects s @ [Wrote (sent_frame s channel ty payload flags request_id stream_id)]) s"
  by (auto simp: send_def perform_def wp_simps sent_frame_def split: sum.split option.split)

lemma run_send:
  assumes "channel < length (ss_sequence s)"
    and "frame_valid (sent_frame s channel ty payload flags request_id stream_id)"
    and "en_write env = (\<lambda>_. None)"
  shows "send env channel ty payload flags request_id stream_id s =
    (Inr (), s\<lparr>ss_sequence := (ss_sequence s)[channel := (ss_sequence s ! channel + 1) mod 2 ^ 32],
       ss_effects := ss_effects s @ [Wrote (sent_frame s channel ty payload flags request_id stream_id)]\<rparr>)"
  using assms encode_frame_valid [OF assms(2)]
  by (simp add: send_def perform_def st_run sent_frame_def)

text \<open>A pairing proof: the nonce, and the code of the message under the shared key.\<close>

definition pairing_proof :: "environment \<Rightarrow> frame \<Rightarrow> tlv_fields \<Rightarrow> bytes \<Rightarrow> bytes" where
  "pairing_proof env frame flds key =
     en_nonce env @ hmac_sha256 key
       (auth_message (tlv_bytes flds TlvTag_DEVICE_ID)
          (hello_info (en_endpoint env) (fr_session_id frame) flds)
          (tlv_bytes flds TlvTag_AUTH_CHALLENGE) (en_nonce env))"

definition proves :: "environment \<Rightarrow> frame \<Rightarrow> tlv_fields \<Rightarrow> session \<Rightarrow> session \<Rightarrow> bool" where
  "proves env frame flds s t \<longleftrightarrow> ss_effects t = ss_effects s
     \<or> (\<exists>key f. ss_pairing_token s = Some key \<and> ss_effects t = ss_effects s @ [Wrote f]
          \<and> is_control f ControlType_HELLO_ACK \<and> fr_session_id f = fr_session_id frame
          \<and> length (tlv_bytes flds TlvTag_AUTH_CHALLENGE) = 32
          \<and> fr_payload f = pairing_proof env frame flds key)"

lemma adopt_info_effects:
  "wp (adopt_info info) (\<lambda>_ t. ss_info t = Some info \<and> same_flow s t \<and> ss_effects t = ss_effects s
       \<and> ss_pairing_token t = ss_pairing_token s)
     (\<lambda>_ t. same_flow s t \<and> ss_effects t = ss_effects s) s"
  by (auto simp: adopt_info_def wp_simps same_flow_def same_ready_def)

lemma ack_proves:
  assumes "ss_info a = Some (hello_info (en_endpoint env) (fr_session_id frame) flds)"
    and "same_flow s a" and "ss_effects a = ss_effects s" and "ss_pairing_token s = Some key"
    and "length (tlv_bytes flds TlvTag_AUTH_CHALLENGE) = 32"
  shows "wp (send_ack env (pairing_proof env frame flds key) flags)
    (\<lambda>_ t. same_flow s t \<and> proves env frame flds s t) (\<lambda>_ t. same_flow s t \<and> proves env frame flds s t) a"
proof -
  let ?f = "sent_frame a 0 2 (pairing_proof env frame flds key) flags 0 0"
  have written: "proves env frame flds s t" if "ss_effects t = ss_effects a @ [Wrote ?f]" for t
    using that assms
    by (auto simp: proves_def is_control_def sent_frame_def hello_info_def intro!: exI [of _ ?f])
  have unwritten: "proves env frame flds s t" if "ss_effects t = ss_effects a" for t
    using that assms(3) by (simp add: proves_def)
  show ?thesis
    unfolding send_ack_def channel_code.simps control_type_code.simps
    by (rule wp_mono [OF wp_conj [OF send_writes leadsD [OF send_flow]]])
       (use assms(2) flow.trans in \<open>auto intro: written unwritten\<close>)
qed

text \<open>A HELLO that asks for authentication never makes the session ready by itself. What
  the gateway writes in answer is nothing, or one acknowledgement for that session, and then a
  pairing token is configured, the challenge has 32 bytes, and the acknowledgement carries the
  nonce and the HMAC-SHA-256, under that token, of the message that binds device, boot, session,
  challenge and nonce. Nothing is written without a token.\<close>

theorem authenticated_hello:
  assumes "is_control frame ControlType_HELLO" and "decode_tlv (fr_payload frame) = Inr flds"
    and "tlv_u8 flds (tlv_tag_code TlvTag_AUTH_MODE) 0 \<noteq> 0" and "handle_frame env frame s = (r, t)"
  shows "ss_ready_announced t = ss_ready_announced s \<and> proves env frame flds s t"
proof -
  let ?info = "hello_info (en_endpoint env) (fr_session_id frame) flds"
  have mode: "di_auth_mode ?info \<noteq> 0" using assms(3) by (simp add: hello_info_def)
  have none: "proves env frame flds s a" if "ss_effects a = ss_effects s" for a
    using that by (simp add: proves_def)
  have self: "same_flow s s" by (rule flow.refl)
  have "wp (handle_hello env frame) (\<lambda>_ t. same_flow s t \<and> proves env frame flds s t)
      (\<lambda>_ t. same_flow s t \<and> proves env frame flds s t) s"
    by (auto simp: handle_hello_def wp_simps Let_def assms(2) none self split: sum.split
          intro!: wp_mono [OF adopt_info_effects [of ?info s]])
       (auto simp: wp_simps mode none split: option.split intro!: ack_proves [unfolded pairing_proof_def])
  moreover have "handle_hello env frame s = (r, t)"
    using assms(1,4) by (simp add: handle_frame_def)
  ultimately show ?thesis
    using wp_run by (fastforce simp: same_flow_def same_ready_def split: sum.splits)
qed

end
