(* ===== verification/Session_Runs.thy ===== *)
theory Session_Runs
  imports Session_Claims
begin

text \<open>
  A session on a concrete link: the HELLO of a device without authentication, a request, its reply
  and the end of the request, then closing. It instantiates the claims about sessions.
\<close>

section \<open>The run\<close>

definition ex_env :: environment where
  "ex_env = \<lparr>en_endpoint = u ''usb'', en_write = (\<lambda>_. None), en_on_event = (\<lambda>_. None),
     en_on_media = (\<lambda>_. None), en_on_ready = None, en_close = None, en_nonce = replicate 16 7,
     en_monotonic_ns = 0, en_time_ns = 0, en_wall_minus_monotonic_ns = 0\<rparr>"

definition ex_frame :: "int \<Rightarrow> int \<Rightarrow> int \<Rightarrow> bytes \<Rightarrow> frame" where
  "ex_frame ty request_id sequence payload =
     \<lparr>fr_channel = 0, fr_type = ty, fr_flags = 0, fr_session_id = 5, fr_request_id = request_id,
      fr_stream_id = 0, fr_sequence = sequence, fr_payload = payload\<rparr>"

definition ex_device :: bytes where
  "ex_device = replicate 16 0xAA"

definition ex_records :: "(nat \<times> bytes) list" where
  "ex_records = [(tlv_tag_code TlvTag_DEVICE_ID, ex_device), (tlv_tag_code TlvTag_PROTOCOL_VERSION, [1, 0])]"

definition ex_auth_records :: "(nat \<times> bytes) list" where
  "ex_auth_records = ex_records @ [(tlv_tag_code TlvTag_AUTH_MODE, [1]),
     (tlv_tag_code TlvTag_AUTH_CHALLENGE, replicate 32 9)]"

definition ex_hello :: frame where
  "ex_hello = ex_frame 1 0 1 (concat (map tlv_record ex_records))"

definition ex_auth_hello :: frame where
  "ex_auth_hello = ex_frame 1 0 1 (concat (map tlv_record ex_auth_records))"

definition ex_reply :: frame where
  "ex_reply = ex_frame 4 1 1 []"

definition ex_start :: session where
  "ex_start = \<lparr>ss_info = None, ss_pairing_token = None, ss_decoder = frame_decoder_init,
     ss_state = NEGOTIATING, ss_pending = [], ss_futures = [], ss_request_id = 0,
     ss_reopen_session_id = None, ss_reopen_requested = False,
     ss_sequence = replicate 10 0, ss_last_rx_sequence = replicate 10 None,
     ss_closed = False, ss_ready = False, ss_clock_task = False, ss_log_credit = 0,
     ss_crash_chunk_max = 1024, ss_ready_announced = False, ss_media_credit = replicate 10 0,
     ss_clock_offset_us = None, ss_clock_uncertainty_us = None, ss_effects = []\<rparr>"

lemma ex_start_init: "session_init None 30 3 = Inr ex_start"
  by (simp add: session_init_def pairing_token_of_def ex_start_def channel_count_10)

lemma ex_valid: "frame_valid ex_hello" "frame_valid ex_reply" "frame_valid ex_auth_hello"
  by (simp_all add: frame_valid_def ex_hello_def ex_reply_def ex_auth_hello_def ex_frame_def ex_device_def
      ex_records_def ex_auth_records_def MAX_PAYLOAD_def)

lemma ex_frame_simps [simp]:
  "fr_channel (ex_frame ty r q p) = 0" "fr_type (ex_frame ty r q p) = ty" "fr_flags (ex_frame ty r q p) = 0"
  "fr_session_id (ex_frame ty r q p) = 5" "fr_request_id (ex_frame ty r q p) = r"
  "fr_sequence (ex_frame ty r q p) = q" "fr_payload (ex_frame ty r q p) = p"
  by (simp_all add: ex_frame_def)

lemma ex_records_ok: "list_all tlv_ok ex_records" "list_all tlv_ok ex_auth_records"
  by (simp_all add: tlv_ok_def ex_records_def ex_auth_records_def ex_device_def)

lemma ex_fields:
  "decode_tlv (fr_payload ex_hello) = Inr (tlv_map ex_records)"
  "decode_tlv (fr_payload ex_auth_hello) = Inr (tlv_map ex_auth_records)"
  by (simp_all add: ex_hello_def ex_auth_hello_def decode_tlv_records ex_records_ok)

lemma ex_hello_control: "is_control ex_hello ControlType_HELLO" "is_control ex_auth_hello ControlType_HELLO"
  "\<not> is_control ex_reply ControlType_HELLO" "\<not> is_control ex_reply ControlType_AUTH_RESULT"
  by (simp_all add: is_control_def ex_hello_def ex_auth_hello_def ex_reply_def)

definition ex_info :: device_info where
  "ex_info = hello_info (u ''usb'') 5 (tlv_map ex_records)"

lemma ex_info_simps [simp]:
  "di_session_id ex_info = 5" "di_auth_mode ex_info = 0" "di_capabilities ex_info = 0"
  by (simp_all add: ex_info_def hello_info_def tlv_map_def ex_records_def tlv_u8_def tlv_u64_def tlv_uint_def)

lemma ex_check: "check_hello (tlv_map ex_records) = Inr ()"
  by (simp add: check_hello_def tlv_map_def ex_records_def ex_device_def tlv_bytes_def tlv_u8_def tlv_u16_def
      tlv_u32_def tlv_u64_def tlv_uint_def has_length_def le_eval)

lemma ex_send:
  assumes "ss_info s = Some ex_info" and "0 < length (ss_sequence s)" and "ty < 256" and "flags < 65536"
    and "request_id < 2 ^ 32" and "length payload \<le> MAX_PAYLOAD"
  shows "send ex_env 0 ty payload flags request_id 0 s =
    (Inr (), s\<lparr>ss_sequence := (ss_sequence s)[0 := (ss_sequence s ! 0 + 1) mod 2 ^ 32],
       ss_effects := ss_effects s @ [Wrote (sent_frame s 0 ty payload flags request_id 0)]\<rparr>)"
proof -
  have "int ((ss_sequence s ! 0 + 1) mod 2 ^ 32) < 2 ^ 32" by simp
  then have "frame_valid (sent_frame s 0 ty payload flags request_id 0)"
    using assms by (simp add: frame_valid_def sent_frame_def)
  then show ?thesis
    using assms by (intro run_send) (simp_all add: ex_env_def)
qed

lemma ex_session: "hello_info (en_endpoint ex_env) (fr_session_id ex_hello) (tlv_map ex_records) = ex_info"
  by (simp add: ex_info_def ex_env_def ex_hello_def)

definition ex_ready :: session where
  "ex_ready = snd (handle_frame ex_env ex_hello ex_start)"

lemma ex_opened:
  "handle_frame ex_env ex_hello ex_start = (Inr (), ex_ready)"
  "ss_ready ex_ready" "ss_ready_announced ex_ready" "\<not> ss_closed ex_ready" "ss_info ex_ready = Some ex_info"
  "ss_reopen_session_id ex_ready = None" "ss_last_rx_sequence ex_ready = replicate 10 None"
  "ss_pending ex_ready = []" "ss_futures ex_ready = []" "ss_request_id ex_ready = 0"
  "ss_sequence ex_ready = (replicate 10 0)[0 := 2]"
proof -
  have "\<exists>v. handle_frame ex_env ex_hello ex_start = (Inr (), v) \<and> ss_ready v \<and> ss_ready_announced v
     \<and> \<not> ss_closed v \<and> ss_info v = Some ex_info \<and> ss_reopen_session_id v = None
     \<and> ss_last_rx_sequence v = replicate 10 None \<and> ss_pending v = [] \<and> ss_futures v = []
     \<and> ss_request_id v = 0 \<and> ss_sequence v = (replicate 10 0)[0 := 2]"
    unfolding handle_frame_def if_P [OF ex_hello_control(1)]
    by (simp add: handle_hello_def st_run ex_fields ex_check adopt_info_def
        reopening_def same_session_def send_ack_def complete_ready_def session_transition_def
        grant_log_credit_def perform_def ex_session ex_info_def [symmetric] ex_start_def ex_send has_capability_def credit_payload_def
        MAX_PAYLOAD_def Let_def ex_env_def [THEN arg_cong, of en_on_ready] numeral_2_eq_2 [symmetric])
  then show "handle_frame ex_env ex_hello ex_start = (Inr (), ex_ready)"
  "ss_ready ex_ready" "ss_ready_announced ex_ready" "\<not> ss_closed ex_ready" "ss_info ex_ready = Some ex_info"
  "ss_reopen_session_id ex_ready = None" "ss_last_rx_sequence ex_ready = replicate 10 None"
  "ss_pending ex_ready = []" "ss_futures ex_ready = []" "ss_request_id ex_ready = 0"
  "ss_sequence ex_ready = (replicate 10 0)[0 := 2]"
    by (auto simp: ex_ready_def)
qed

text \<open>A request, its reply, and the end of the request.\<close>

definition ex_asked :: session where
  "ex_asked = snd (request_start ex_env 0 3 [] 0 ex_ready)"

lemma ex_asked:
  "request_start ex_env 0 3 [] 0 ex_ready = (Inr (1, 0), ex_asked)"
  "ss_futures ex_asked = [Waiting]" "ss_pending ex_asked = [(1, 0)]" "ss_info ex_asked = Some ex_info"
  "ss_reopen_session_id ex_asked = None" "ss_last_rx_sequence ex_asked = replicate 10 None"
proof -
  have "\<exists>v. request_start ex_env 0 3 [] 0 ex_ready = (Inr (1, 0), v) \<and> ss_futures v = [Waiting]
     \<and> ss_pending v = [(1, 0)] \<and> ss_info v = Some ex_info \<and> ss_reopen_session_id v = None
     \<and> ss_last_rx_sequence v = replicate 10 None"
    by (simp add: request_start_def wait_ready_def st_run ex_opened next_request_id_def ex_send MAX_PAYLOAD_def)
  then show "request_start ex_env 0 3 [] 0 ex_ready = (Inr (1, 0), ex_asked)"
  "ss_futures ex_asked = [Waiting]" "ss_pending ex_asked = [(1, 0)]" "ss_info ex_asked = Some ex_info"
  "ss_reopen_session_id ex_asked = None" "ss_last_rx_sequence ex_asked = replicate 10 None"
    by (auto simp: ex_asked_def)
qed

definition ex_answered :: session where
  "ex_answered = snd (handle_frame ex_env ex_reply ex_asked)"

lemma ex_answered:
  "handle_frame ex_env ex_reply ex_asked = (Inr (), ex_answered)" "ss_futures ex_answered = [Result ex_reply]"
proof -
  have "reply_outcome ex_reply = Result ex_reply"
    by (simp add: reply_outcome_def ex_reply_def)
  then have "\<exists>v. handle_frame ex_env ex_reply ex_asked = (Inr (), v) \<and> ss_futures v = [Result ex_reply]"
    by (simp add: handle_frame_def ex_hello_control st_run ex_asked accept_sequence_def dispatch_def Let_def)
       (simp add: ex_reply_def)
  then show "handle_frame ex_env ex_reply ex_asked = (Inr (), ex_answered)"
    "ss_futures ex_answered = [Result ex_reply]"
    by (auto simp: ex_answered_def)
qed

lemma ex_finished: "\<exists>v. request_finish (1, 0) IndexError ex_answered = (Inr ex_reply, v)"
  by (simp add: request_finish_def st_run ex_answered pop_pending_def)

definition ex_trace :: "label list" where
  "ex_trace = [Received ex_hello (Inr ()), Started (Inr (1, 0)), Received ex_reply (Inr ())]"

lemma ex_traces:
  "session_trace ex_start [] ex_start"
  "session_trace ex_start [Received ex_hello (Inr ())] ex_ready"
  "session_trace ex_start [Received ex_hello (Inr ()), Started (Inr (1, 0))] ex_asked"
  "session_trace ex_start ex_trace ex_answered"
proof -
  show t0: "session_trace ex_start [] ex_start" by (rule session_trace.start)
  show t1: "session_trace ex_start [Received ex_hello (Inr ())] ex_ready"
    using session_trace.step [OF t0 received [OF ex_valid(1) ex_opened(1)]] by simp
  show t2: "session_trace ex_start [Received ex_hello (Inr ()), Started (Inr (1, 0))] ex_asked"
    using session_trace.step [OF t1 started [OF ex_asked(1)]] by simp
  show "session_trace ex_start ex_trace ex_answered"
    using session_trace.step [OF t2 received [OF ex_valid(2) ex_answered(1)]] by (simp add: ex_trace_def)
qed

section \<open>The claims at this run\<close>


theorem session_identity_pinned_witness:
  "\<exists>j. ss_info ex_ready = Some j \<and> di_device_id j = di_device_id ex_info"
  using session_identity_pinned [OF ex_start_init ex_traces(2) session_trace.start ex_opened(5)] by blast

theorem session_invariant_witness: "session_ok ex_answered"
  by (rule session_invariant [OF ex_start_init ex_traces(4)])

theorem reply_matches_request_witness:
  "fr_request_id ex_reply = 1 \<and> (\<exists>r. Received ex_reply r \<in> set ex_trace)"
proof -
  obtain v where "request_finish (1, 0) IndexError ex_answered = (Inr ex_reply, v)"
    using ex_finished by blast
  then have "session_step ex_answered (Finished (1, 0) (Inr ex_reply)) v"
    by (rule finished [rotated]) (simp add: ex_answered)
  from reply_matches_request [OF ex_start_init ex_traces(4) _ this] show ?thesis
    by (simp add: ex_trace_def)
qed

theorem close_releases_requests_witness:
  "\<exists>t. session_step ex_asked Closing t \<and> ss_pending t = []
     \<and> ss_futures t ! 0 = Failed (ConnectionError ''ESP-Iris session closed'')"
proof -
  obtain r t where "close_session ex_env ex_asked = (r, t)" by fastforce
  then have s: "session_step ex_asked Closing t" by (rule closing)
  from close_releases_requests [OF ex_start_init ex_traces(3) s] s show ?thesis
    by (auto simp: ex_asked)
qed

theorem ready_requires_handshake_witness:
  "\<exists>f. Received ex_hello (Inr ()) = Received f (Inr ()) \<and> is_control f ControlType_HELLO \<and> open_hello f ex_ready"
proof -
  have "\<not> ss_ready_announced ex_start" by (simp add: ex_start_def)
  from ready_requires_handshake [OF ex_start_init ex_traces(1) received [OF ex_valid(1) ex_opened(1)] this ex_opened(3)]
  show ?thesis by (auto simp: is_control_def ex_hello_def)
qed


text \<open>A log record shorter than its header: the error of the protocol.\<close>

definition ex_log :: frame where
  "ex_log = \<lparr>fr_channel = 1, fr_type = 1, fr_flags = 0, fr_session_id = 5, fr_request_id = 0,
     fr_stream_id = 0, fr_sequence = 1, fr_payload = []\<rparr>"


theorem authenticated_hello_witness:
  "\<exists>r t. handle_frame ex_env ex_auth_hello ex_start = (r, t) \<and> \<not> ss_ready_announced t
     \<and> proves ex_env ex_auth_hello (tlv_map ex_auth_records) ex_start t"
proof -
  obtain r t where run: "handle_frame ex_env ex_auth_hello ex_start = (r, t)" by fastforce
  have "tlv_u8 (tlv_map ex_auth_records) (tlv_tag_code TlvTag_AUTH_MODE) 0 \<noteq> 0"
    by (simp add: tlv_map_def ex_auth_records_def ex_records_def tlv_u8_def)
  from authenticated_hello [OF ex_hello_control(2) ex_fields(2) this run] run show ?thesis
    by (auto simp: ex_start_def)
qed

end
