(* ===== verification/Session_Requests.thy ===== *)
theory Session_Requests
  imports Session Device_IO
begin

text \<open>
  The request coroutines of \<^verbatim>\<open>DeviceSession\<close>: status, RPC, jobs, media, screenshots, mirroring,
  restart, clock synchronisation, crash reports and core dump chunks. A coroutine reads the device
  information of its session as an argument and returns with its result what it changes of the
  session (the credit of a channel, the crash chunk size, a clock sample), which the operations of
  theory Session apply.
\<close>

section \<open>Requests\<close>

text \<open>\<^verbatim>\<open>_request\<close>: the probes of the control channel do not take the request lock.\<close>

definition takes_lock :: "request \<Rightarrow> bool" where
  "takes_lock r \<longleftrightarrow> \<not> (rq_channel r = channel_code Channel_CONTROL
     \<and> rq_type r \<in> set (map control_type_code
         [ControlType_STATUS_REQUEST, ControlType_PING, ControlType_TIME_SYNC_REQUEST]))"

definition control_request :: "control_type \<Rightarrow> bytes \<Rightarrow> request" where
  "control_request ty payload =
     \<lparr>rq_channel = channel_code Channel_CONTROL, rq_type = control_type_code ty, rq_payload = payload,
      rq_stream = 0\<rparr>"

definition media_request :: "nat \<Rightarrow> media_type \<Rightarrow> bytes \<Rightarrow> request" where
  "media_request channel ty payload =
     \<lparr>rq_channel = channel, rq_type = media_type_code ty, rq_payload = payload, rq_stream = 0\<rparr>"

definition crash_request :: "crash_type \<Rightarrow> bytes \<Rightarrow> request" where
  "crash_request ty payload =
     \<lparr>rq_channel = channel_code Channel_CRASH, rq_type = crash_type_code ty, rq_payload = payload,
      rq_stream = 0\<rparr>"

definition has_type :: "frame \<Rightarrow> nat \<Rightarrow> bool" where
  "has_type f ty \<longleftrightarrow> fr_type f = int ty"

section \<open>Status\<close>

definition opt_float :: "rat option \<Rightarrow> json" where
  "opt_float x = (case x of None \<Rightarrow> JNull | Some v \<Rightarrow> JFloat v)"

definition status_fields :: "rat option \<Rightarrow> rat option \<Rightarrow> tlv_fields \<Rightarrow> dict" where
  "status_fields offset_us uncertainty_us flds =
     (let u32 = (\<lambda>tag. tlv_u32 flds (tlv_tag_code tag) 0);
          u8 = (\<lambda>tag. tlv_u8 flds (tlv_tag_code tag) 0)
      in [item ''uptime_us'' (jnat (tlv_u64 flds (tlv_tag_code TlvTag_UPTIME_US) 0)),
          item ''free_internal'' (jnat (u32 TlvTag_FREE_INTERNAL)),
          item ''min_free_internal'' (jnat (u32 TlvTag_MIN_FREE_INTERNAL)),
          item ''log_dropped_bytes'' (jnat (u32 TlvTag_LOG_DROPPED)),
          item ''rx_frames'' (jnat (u32 TlvTag_RX_FRAMES)),
          item ''tx_frames'' (jnat (u32 TlvTag_TX_FRAMES)),
          item ''invalid_frames'' (jnat (u32 TlvTag_INVALID_FRAMES)),
          item ''link_count'' (jnat (u32 TlvTag_LINK_COUNT)),
          item ''task_stack_free_min_bytes'' (jnat (u32 TlvTag_TASK_STACK_FREE_MIN)),
          item ''worker_active_max_us'' (jnat (u32 TlvTag_WORKER_ACTIVE_MAX_US)),
          item ''lifecycle_state'' (jnat (u8 TlvTag_LIFECYCLE_STATE)),
          item ''internal_heap_used_bytes'' (jnat (u32 TlvTag_INTERNAL_HEAP_USED)),
          item ''static_internal_bytes'' (jnat (u32 TlvTag_STATIC_INTERNAL_BYTES)),
          item ''internal_total_bytes''
            (jnat (u32 TlvTag_STATIC_INTERNAL_BYTES + u32 TlvTag_INTERNAL_HEAP_USED)),
          item ''crash_count'' (jnat (u32 TlvTag_CRASH_COUNT)),
          item ''crash_limit'' (jnat (u32 TlvTag_CRASH_LIMIT)),
          item ''crash_loop_triggered'' (JBool (u8 TlvTag_CRASH_LOOP_TRIGGERED \<noteq> 0)),
          item ''crash_recovery_pending'' (JBool (u8 TlvTag_CRASH_RECOVERY_PENDING \<noteq> 0)),
          item ''crash_origin_reset_reason'' (jnat (u32 TlvTag_CRASH_ORIGIN_RESET_REASON)),
          item ''crash_failed_app_address'' (jnat (u32 TlvTag_CRASH_FAILED_APP_ADDRESS)),
          item ''crash_failed_firmware_sha256''
            (jstr (hex (tlv_bytes flds TlvTag_CRASH_FAILED_FIRMWARE_SHA256))),
          item ''crash_state_error'' (jnat (u32 TlvTag_CRASH_STATE_ERROR)),
          item ''clock_offset_us'' (opt_float offset_us),
          item ''clock_uncertainty_us'' (opt_float uncertainty_us)])"

definition decode_status :: "device_info \<Rightarrow> rat option \<Rightarrow> rat option \<Rightarrow> frame \<Rightarrow> dict res" where
  "decode_status info offset_us uncertainty_us frame =
     bindr (raise_if (\<not> has_type frame (control_type_code ControlType_STATUS_RESPONSE))
              (ProtocolError ''unexpected status response'')) (\<lambda>_.
     bindr (decode_tlv (fr_payload frame)) (\<lambda>flds.
     let raw_hardware_mac = tlv_bytes flds TlvTag_HARDWARE_MAC in
     bindr (raise_if (raw_hardware_mac \<noteq> [] \<and> mac_text raw_hardware_mac \<noteq> di_hardware_mac info)
              (ProtocolError ''hardware MAC changed on a live session'')) (\<lambda>_.
     Inr (as_dict info @ status_fields offset_us uncertainty_us flds))))"

definition status :: "device_info \<Rightarrow> rat option \<Rightarrow> rat option \<Rightarrow> ('p, dict) io" where
  "status info offset_us uncertainty_us =
     bindio (ask (control_request ControlType_STATUS_REQUEST [])) (\<lambda>frame.
     lift_res (decode_status info offset_us uncertainty_us frame))"

section \<open>Remote calls and jobs\<close>

definition rpc_message :: "int \<Rightarrow> int \<Rightarrow> bytes \<Rightarrow> int \<Rightarrow> bytes res" where
  "rpc_message service_id method_id payload deadline_ms =
     bindr (raise_if (\<not> (1 \<le> service_id \<and> service_id \<le> 0xFFFF) \<or> \<not> (1 \<le> method_id \<and> method_id \<le> 0xFFFF)
               \<or> \<not> (0 \<le> deadline_ms \<and> deadline_ms \<le> 0xFFFFFFFF) \<or> length payload > 1024)
              (ValueError ''invalid RPC request'')) (\<lambda>_.
     Inr (le_bytes 2 (nat service_id) @ le_bytes 2 (nat method_id) @ le_bytes 4 (nat deadline_ms)
          @ le_bytes 2 (length payload) @ le_bytes 2 0 @ payload))"

definition rpc_reply :: "int \<Rightarrow> int \<Rightarrow> frame \<Rightarrow> bytes res" where
  "rpc_reply service_id method_id frame =
     (let payload = fr_payload frame in
      bindr (raise_if (\<not> has_type frame (control_type_code ControlType_RESPONSE) \<or> length payload < 12)
               (ProtocolError ''unexpected RPC response'')) (\<lambda>_.
      bindr (raise_if (int (uint_at 2 0 payload) \<noteq> service_id \<or> int (uint_at 2 2 payload) \<noteq> method_id
                \<or> uint_at 2 10 payload \<noteq> 0 \<or> length payload \<noteq> 12 + uint_at 2 8 payload)
               (ProtocolError ''invalid RPC response'')) (\<lambda>_.
      bindr (raise_if (sint_at 4 4 payload \<noteq> 0) (RuntimeError ''RPC failed with device error'')) (\<lambda>_.
      Inr (drop 12 payload)))))"

definition rpc :: "int \<Rightarrow> int \<Rightarrow> bytes \<Rightarrow> int \<Rightarrow> ('p, bytes) io" where
  "rpc service_id method_id payload deadline_ms =
     bindio (lift_res (rpc_message service_id method_id payload deadline_ms)) (\<lambda>request.
     bindio (ask (control_request ControlType_REQUEST request)) (\<lambda>frame.
     lift_res (rpc_reply service_id method_id frame)))"

definition job_reply :: "frame \<Rightarrow> dict res" where
  "job_reply frame =
     bindr (raise_if (\<not> has_type frame (control_type_code ControlType_JOB_STATUS))
              (ProtocolError ''unexpected job response'')) (\<lambda>_.
     decode_job (fr_payload frame))"

definition job_query :: "int \<Rightarrow> bool \<Rightarrow> request" where
  "job_query job_id cancel =
     control_request (if cancel then ControlType_CANCEL else ControlType_JOB_QUERY) (le_bytes 4 (nat job_id))"

definition job :: "int \<Rightarrow> bool \<Rightarrow> ('p, dict) io" where
  "job job_id cancel =
     bindio (throw_if (\<not> (1 \<le> job_id \<and> job_id \<le> 0xFFFFFFFF)) (ValueError ''invalid job ID'')) (\<lambda>_.
     bindio (ask (job_query job_id cancel)) (\<lambda>frame.
     lift_res (job_reply frame)))"

section \<open>Media\<close>

text \<open>A description as the caller gives it: fields that may be missing.\<close>

type_synonym media_description = "string \<rightharpoonup> int"

definition described :: "media_description \<Rightarrow> string \<Rightarrow> int \<Rightarrow> int" where
  "described d key v = (case d key of Some x \<Rightarrow> x | None \<Rightarrow> v)"

definition encode_media_description :: "media_description \<Rightarrow> bytes res" where
  "encode_media_description d =
     (let x = described d ''x'' 0; y = described d ''y'' 0; width = described d ''width'' 0;
          height = described d ''height'' 0; stride = described d ''stride'' 0;
          format = described d ''format'' 1; quality = described d ''quality'' 0 in
      bindr (raise_if (\<not> list_all (\<lambda>v. 0 \<le> v) [x, y, width, height, stride, format, quality])
               (ValueError ''media description fields must be nonnegative'')) (\<lambda>_.
      bindr (pack_uint StructError 2 x) (\<lambda>b1. bindr (pack_uint StructError 2 y) (\<lambda>b2.
      bindr (pack_uint StructError 2 width) (\<lambda>b3. bindr (pack_uint StructError 2 height) (\<lambda>b4.
      bindr (pack_uint StructError 4 stride) (\<lambda>b5. bindr (pack_uint StructError 2 format) (\<lambda>b6.
      bindr (pack_uint StructError 2 quality) (\<lambda>b7.
      Inr (b1 @ b2 @ b3 @ b4 @ b5 @ b6 @ b7))))))))))"

definition decode_media_description :: "bytes \<Rightarrow> media_description res" where
  "decode_media_description payload =
     bindr (raise_if (length payload < 16) (ProtocolError ''short media description'')) (\<lambda>_.
     Inr [''x'' \<mapsto> int (uint_at 2 0 payload), ''y'' \<mapsto> int (uint_at 2 2 payload),
          ''width'' \<mapsto> int (uint_at 2 4 payload), ''height'' \<mapsto> int (uint_at 2 6 payload),
          ''stride'' \<mapsto> int (uint_at 4 8 payload), ''format'' \<mapsto> int (uint_at 2 12 payload),
          ''quality'' \<mapsto> int (uint_at 2 14 payload)])"

subsection \<open>Screenshots\<close>

definition screenshot_opened :: "frame \<Rightarrow> (media_description \<times> nat) res" where
  "screenshot_opened frame =
     bindr (raise_if (\<not> has_type frame (media_type_code MediaType_OPENED) \<or> length (fr_payload frame) \<noteq> 20)
              (ProtocolError ''unexpected screenshot OPEN response'')) (\<lambda>_.
     bindr (decode_media_description (fr_payload frame)) (\<lambda>actual.
     Inr (actual, uint_at 4 16 (fr_payload frame))))"

definition screenshot_read :: "nat \<Rightarrow> nat \<Rightarrow> nat \<Rightarrow> bytes res" where
  "screenshot_read max_payload total_size done_size =
     bindr (pack_uint StructError 4 (int done_size)) (\<lambda>o4.
     Inr (o4 @ le_bytes 2 (min (max (max_payload - 64) 1) (min 0xFFFF (total_size - done_size))) @ le_bytes 2 0))"

definition screenshot_chunk :: "nat \<Rightarrow> nat \<Rightarrow> frame \<Rightarrow> bytes res" where
  "screenshot_chunk total_size done_size frame =
     (let payload = fr_payload frame in
      bindr (raise_if (\<not> has_type frame (media_type_code MediaType_DATA) \<or> length payload < 8)
               (ProtocolError ''unexpected screenshot DATA response'')) (\<lambda>_.
      bindr (raise_if (uint_at 4 0 payload \<noteq> done_size \<or> uint_at 4 4 payload \<noteq> total_size \<or> drop 8 payload = [])
               (ProtocolError ''invalid screenshot chunk'')) (\<lambda>_.
      Inr (drop 8 payload))))"

definition screenshot_step :: "nat \<Rightarrow> nat \<Rightarrow> bytes \<Rightarrow> ('p, bytes) io" where
  "screenshot_step max_payload total_size result =
     bindio (lift_res (screenshot_read max_payload total_size (length result))) (\<lambda>message.
     bindio (ask (media_request (channel_code Channel_SCREEN) MediaType_READ message)) (\<lambda>frame.
     bindio (lift_res (screenshot_chunk total_size (length result) frame)) (\<lambda>chunk.
     ret (result @ chunk))))"

lemma screenshot_step_consumes:
  "screenshot_step m n r w = (Returned x, v) \<Longrightarrow> length (w_replies v) < length (w_replies w)"
  by (auto simp: screenshot_step_def io_returned)

function screenshot_loop :: "nat \<Rightarrow> nat \<Rightarrow> bytes \<Rightarrow> ('p, bytes) io" where
  "screenshot_loop max_payload total_size result w =
     (if length result < total_size
      then bindio (screenshot_step max_payload total_size result) (screenshot_loop max_payload total_size) w
      else ret result w)"
  by pat_completeness auto
termination
  by (relation "measure (\<lambda>(m, n, r, w). length (w_replies w))") (auto dest: screenshot_step_consumes)

declare screenshot_loop.simps [simp del]

definition screenshot :: "nat \<Rightarrow> media_description \<Rightarrow> ('p, media_description \<times> bytes) io" where
  "screenshot max_payload description =
     bindio (lift_res (encode_media_description description)) (\<lambda>message.
     bindio (ask (media_request (channel_code Channel_SCREEN) MediaType_OPEN message)) (\<lambda>frame.
     bindio (lift_res (screenshot_opened frame)) (\<lambda>(actual, total_size).
     bindio (finally_io (screenshot_loop max_payload total_size [])
               (suppress (ask (media_request (channel_code Channel_SCREEN) MediaType_CLOSE [])))) (\<lambda>result.
     ret (actual, result)))))"

subsection \<open>Mirroring\<close>

definition is_media_channel :: "int \<Rightarrow> bool" where
  "is_media_channel channel \<longleftrightarrow>
     channel \<in> set (map (\<lambda>c. int (channel_code c)) [Channel_SCREEN, Channel_IMAGE, Channel_AUDIO])"

record mirror_state =
  ms_channel :: int
  ms_stream_id :: int
  ms_fps :: int
  ms_description :: media_description

definition mirror_message :: "int \<Rightarrow> media_description \<Rightarrow> int \<Rightarrow> bytes res" where
  "mirror_message channel description fps =
     bindr (raise_if (\<not> is_media_channel channel) (ValueError ''invalid media channel'')) (\<lambda>_.
     bindr (raise_if (\<not> (1 \<le> fps \<and> fps \<le> 60)) (ValueError ''mirror FPS must be between 1 and 60'')) (\<lambda>_.
     bindr (encode_media_description description) (\<lambda>d.
     Inr (d @ le_bytes 2 (nat fps) @ le_bytes 2 0))))"

text \<open>The notification is the change of the credit of the channel: what \<^verbatim>\<open>_grant_media_credit\<close>
  grants, which may raise, and the reset of a stopped mirror.\<close>

datatype credit_change = Credit_granted nat int | Credit_reset nat

definition mirror_start ::
  "credit_change callback \<Rightarrow> int \<Rightarrow> media_description \<Rightarrow> int \<Rightarrow> (credit_change, mirror_state) io" where
  "mirror_start grant channel description fps =
     bindio (lift_res (mirror_message channel description fps)) (\<lambda>payload.
     bindio (ask (media_request (nat channel) MediaType_MIRROR_START payload)) (\<lambda>frame.
     bindio (throw_if (\<not> has_type frame (media_type_code MediaType_MIRROR_STATE))
               (ProtocolError ''unexpected mirror start response'')) (\<lambda>_.
     bindio (notify grant (Credit_granted (nat channel) (128 * 1024))) (\<lambda>_.
     bindio (lift_res (decode_media_description (fr_payload frame))) (\<lambda>d.
     ret \<lparr>ms_channel = channel, ms_stream_id = fr_stream_id frame, ms_fps = fps, ms_description = d\<rparr>)))))"

definition mirror_stop :: "int \<Rightarrow> (credit_change, unit) io" where
  "mirror_stop channel =
     bindio (throw_if (\<not> is_media_channel channel) (ValueError ''invalid media channel'')) (\<lambda>_.
     bindio (ask (media_request (nat channel) MediaType_MIRROR_STOP [])) (\<lambda>frame.
     bindio (throw_if (\<not> has_type frame (media_type_code MediaType_MIRROR_STATE))
       (ProtocolError ''unexpected mirror stop response'')) (\<lambda>_.
     notify (Some (\<lambda>_. None)) (Credit_reset (nat channel)))))"

section \<open>Restart and clock\<close>

definition restart :: "int \<Rightarrow> ('p, nat) io" where
  "restart delay_ms =
     bindio (throw_if (\<not> (100 \<le> delay_ms \<and> delay_ms \<le> 60000))
               (ValueError ''restart delay must be 100..60000 ms'')) (\<lambda>_.
     bindio (ask (control_request ControlType_RESTART (le_bytes 4 (nat delay_ms)))) (\<lambda>frame.
     bindio (throw_if (\<not> has_type frame (control_type_code ControlType_RESTART) \<or> length (fr_payload frame) \<noteq> 4)
               (ProtocolError ''unexpected restart response'')) (\<lambda>_.
     ret (uint_at 4 0 (fr_payload frame)))))"

text \<open>The clock readings before and after the exchange are arguments; the result is the sample that
  \<^verbatim>\<open>sync_clock\<close> weighs against the current estimate.\<close>

definition sync_reply :: "int \<Rightarrow> int \<Rightarrow> frame \<Rightarrow> (rat \<times> rat) res" where
  "sync_reply t1_ns t4_ns frame =
     (let payload = fr_payload frame in
      bindr (raise_if (\<not> has_type frame (control_type_code ControlType_TIME_SYNC_RESPONSE) \<or> length payload \<noteq> 24)
               (ProtocolError ''unexpected time sync response'')) (\<lambda>_.
      bindr (raise_if (int (uint_at 8 0 payload) \<noteq> t1_ns) (ProtocolError ''time sync request echo mismatch'')) (\<lambda>_.
      Inr (clock_sample t1_ns t4_ns (uint_at 8 8 payload) (uint_at 8 16 payload)))))"

definition sync_clock :: "int \<Rightarrow> int \<Rightarrow> ('p, rat \<times> rat) io" where
  "sync_clock t1_ns t4_ns =
     bindio (lift_res (pack_uint StructError 8 t1_ns)) (\<lambda>message.
     bindio (ask (control_request ControlType_TIME_SYNC_REQUEST message)) (\<lambda>frame.
     lift_res (sync_reply t1_ns t4_ns frame)))"

text \<open>What \<^verbatim>\<open>_clock_loop\<close> catches, and what it does after a failed probe: a USB serial endpoint is
  kept, every other link is closed. The notifications are the samples the session adopts; the
  loop runs as often as its readings last, one pair per probe. The result says whether the loop
  closed the link.\<close>

fun clock_failure :: "exn \<Rightarrow> bool" where
  "clock_failure (TimeoutError _) = True"
| "clock_failure (ConnectionError _) = True"
| "clock_failure (ProtocolError _) = True"
| "clock_failure (RuntimeError _) = True"
| "clock_failure (FileServiceError _ _) = True"
| "clock_failure (OperationCancelled _) = True"
| "clock_failure (OperationOutcomeUnknown _) = True"
| "clock_failure OperationConflict = True"
| "clock_failure DeviceMaintenance = True"
| "clock_failure _ = False"

definition keeps_endpoint :: "device_info option \<Rightarrow> bool" where
  "keeps_endpoint info \<longleftrightarrow>
     (case info of None \<Rightarrow> False | Some i \<Rightarrow> di_transport i = transport_code Transport_USB_SERIAL_JTAG)"

definition clock_probe :: "device_info option \<Rightarrow> int \<Rightarrow> int \<Rightarrow> (rat \<times> rat, bool) io" where
  "clock_probe info t1_ns t4_ns =
     catch (bindio (sync_clock t1_ns t4_ns) (\<lambda>sample.
            bindio (notify (Some (\<lambda>_. None)) sample) (\<lambda>_. ret True)))
       (\<lambda>e. if clock_failure e then ret (keeps_endpoint info) else throw e)"

fun clock_loop :: "device_info option \<Rightarrow> (int \<times> int) list \<Rightarrow> (rat \<times> rat, bool) io" where
  "clock_loop info [] = ret False"
| "clock_loop info ((t1, t4) # probes) =
     bindio (clock_probe info t1 t4) (\<lambda>go_on.
     if go_on then clock_loop info probes else ret True)"

section \<open>Crash reports\<close>

definition crash_fields :: "device_info \<Rightarrow> tlv_fields \<Rightarrow> dict" where
  "crash_fields info flds =
     (let u32 = (\<lambda>tag. tlv_u32 flds (tlv_tag_code tag) 0);
          u8 = (\<lambda>tag. tlv_u8 flds (tlv_tag_code tag) 0);
          core_sha = ascii_decode (tlv_bytes flds TlvTag_CORE_DUMP_ELF_SHA256);
          sha_matches = (core_sha \<noteq> [] \<and> take (length core_sha) (di_firmware_sha256 info) = core_sha);
          sha_complete = (u8 TlvTag_CORE_DUMP_ELF_SHA256_COMPLETE \<noteq> 0)
      in [item ''device_id'' (JStr (di_device_id info)),
          item ''boot_id'' (jnat (tlv_u64 flds (tlv_tag_code TlvTag_BOOT_ID) (di_boot_id info))),
          item ''session_id'' (JInt (di_session_id info)),
          item ''reset_reason'' (jnat (u32 TlvTag_RESET_REASON)),
          item ''previous_boot_crash'' (JBool (u8 TlvTag_PREVIOUS_BOOT_CRASH \<noteq> 0)),
          item ''crash_count'' (jnat (u32 TlvTag_CRASH_COUNT)),
          item ''crash_limit'' (jnat (u32 TlvTag_CRASH_LIMIT)),
          item ''crash_loop_triggered'' (JBool (u8 TlvTag_CRASH_LOOP_TRIGGERED \<noteq> 0)),
          item ''crash_recovery_pending'' (JBool (u8 TlvTag_CRASH_RECOVERY_PENDING \<noteq> 0)),
          item ''crash_origin_reset_reason'' (jnat (u32 TlvTag_CRASH_ORIGIN_RESET_REASON)),
          item ''crash_failed_app_address'' (jnat (u32 TlvTag_CRASH_FAILED_APP_ADDRESS)),
          item ''crash_failed_firmware_sha256''
            (jstr (hex (tlv_bytes flds TlvTag_CRASH_FAILED_FIRMWARE_SHA256))),
          item ''crash_state_error'' (jnat (u32 TlvTag_CRASH_STATE_ERROR)),
          item ''core_dump_present'' (JBool (u8 TlvTag_CORE_DUMP_PRESENT \<noteq> 0)),
          item ''core_dump_valid'' (JBool (u8 TlvTag_CORE_DUMP_VALID \<noteq> 0)),
          item ''core_dump_size'' (jnat (u32 TlvTag_CORE_DUMP_SIZE)),
          item ''core_dump_chunk_max'' (jnat (tlv_u32 flds (tlv_tag_code TlvTag_CORE_DUMP_CHUNK_MAX) 1024)),
          item ''core_dump_elf_sha256'' (JStr core_sha),
          item ''core_dump_elf_sha256_complete'' (JBool sha_complete),
          item ''firmware_sha256'' (JStr (di_firmware_sha256 info)),
          item ''firmware_sha_matches'' (JBool sha_matches),
          item ''decode_eligible'' (JBool (sha_complete \<and> sha_matches)),
          item ''panic_reason'' (JStr (utf8_decode (tlv_bytes flds TlvTag_PANIC_REASON)))])"

definition is_crash :: "frame \<Rightarrow> crash_type \<Rightarrow> bool" where
  "is_crash f ty \<longleftrightarrow> fr_channel f = int (channel_code Channel_CRASH) \<and> has_type f (crash_type_code ty)"

text \<open>The report, and the chunk size the session keeps for later reads.\<close>

definition decode_crash_report :: "device_info \<Rightarrow> frame \<Rightarrow> (dict \<times> nat) res" where
  "decode_crash_report info frame =
     bindr (raise_if (\<not> is_crash frame CrashType_METADATA_RESPONSE)
              (ProtocolError ''unexpected crash metadata response'')) (\<lambda>_.
     bindr (decode_tlv (fr_payload frame)) (\<lambda>flds.
     Inr (crash_fields info flds, tlv_u32 flds (tlv_tag_code TlvTag_CORE_DUMP_CHUNK_MAX) 1024)))"

definition crash_report :: "device_info \<Rightarrow> ('p, dict \<times> nat) io" where
  "crash_report info =
     bindio (ask (crash_request CrashType_METADATA_REQUEST [])) (\<lambda>frame.
     lift_res (decode_crash_report info frame))"

definition core_dump_request :: "nat \<Rightarrow> int \<Rightarrow> int \<Rightarrow> bytes res" where
  "core_dump_request crash_chunk_max offset maximum =
     bindr (raise_if (\<not> (0 \<le> offset \<and> offset \<le> 0xFFFFFFFF) \<or> \<not> (1 \<le> maximum \<and> maximum \<le> 2048))
              (ValueError ''invalid coredump chunk range'')) (\<lambda>_.
     Inr (le_bytes 4 (nat offset) @ le_bytes 2 (min (nat maximum) crash_chunk_max) @ le_bytes 2 0))"

definition core_dump_reply :: "int \<Rightarrow> frame \<Rightarrow> (nat \<times> bytes) res" where
  "core_dump_reply offset frame =
     (let payload = fr_payload frame in
      bindr (raise_if (\<not> is_crash frame CrashType_READ_RESPONSE)
               (ProtocolError ''unexpected coredump read response'')) (\<lambda>_.
      bindr (raise_if (length payload < 8) (ProtocolError ''short coredump read response'')) (\<lambda>_.
      bindr (raise_if (int (uint_at 4 0 payload) \<noteq> offset) (ProtocolError ''coredump offset mismatch'')) (\<lambda>_.
      Inr (uint_at 4 4 payload, drop 8 payload)))))"

definition read_core_dump_chunk :: "nat \<Rightarrow> int \<Rightarrow> int \<Rightarrow> ('p, nat \<times> bytes) io" where
  "read_core_dump_chunk crash_chunk_max offset maximum =
     bindio (lift_res (core_dump_request crash_chunk_max offset maximum)) (\<lambda>request.
     bindio (ask (crash_request CrashType_READ_REQUEST request)) (\<lambda>frame.
     lift_res (core_dump_reply offset frame)))"

section \<open>Facts\<close>

text \<open>The two descriptions of a medium are inverse to each other.\<close>

lemma media_description_roundtrip:
  assumes "encode_media_description d = Inr b"
  shows "decode_media_description b = Inr
    [''x'' \<mapsto> described d ''x'' 0, ''y'' \<mapsto> described d ''y'' 0, ''width'' \<mapsto> described d ''width'' 0,
     ''height'' \<mapsto> described d ''height'' 0, ''stride'' \<mapsto> described d ''stride'' 0,
     ''format'' \<mapsto> described d ''format'' 1, ''quality'' \<mapsto> described d ''quality'' 0]"
  using assms
  by (auto simp: encode_media_description_def decode_media_description_def Let_def res_simps
      pack_uint_def uint_at_append1 uint_at_append2 uint_at_le_bytes split: if_splits)

end
