(* ===== verification/Session_Ota.thy ===== *)
theory Session_Ota
  imports Session_Requests Sha256
begin

text \<open>
  The firmware transfer of \<^verbatim>\<open>DeviceSession\<close> (\<^verbatim>\<open>ota_update\<close> and \<^verbatim>\<open>ota_status\<close>): begin, batches of
  data requests in flight together, recovery from a timeout by the status of the device, the final
  request with its three kinds of evidence, and cancellation of a transfer that fails. An observer
  of the log knows what the device has confirmed; the final request is sent only when this is the
  whole image.
\<close>

section \<open>Status\<close>

definition OTA_IN_FLIGHT_BYTES :: nat where
  "OTA_IN_FLIGHT_BYTES = 4096"

definition ota_request :: "ota_type \<Rightarrow> bytes \<Rightarrow> request" where
  "ota_request ty payload =
     \<lparr>rq_channel = channel_code Channel_OTA, rq_type = ota_type_code ty, rq_payload = payload, rq_stream = 0\<rparr>"

record ota_info =
  oi_job_id :: nat
  oi_bytes_total :: nat
  oi_bytes_received :: nat
  oi_progress_permille :: nat
  oi_active :: bool
  oi_result :: int
  oi_partition :: ustr

definition ota_info_dict :: "ota_info \<Rightarrow> dict" where
  "ota_info_dict i =
     [item ''stage'' (jstr (if oi_active i then ''transferring'' else ''idle'')),
      item ''job_id'' (jnat (oi_job_id i)), item ''bytes_total'' (jnat (oi_bytes_total i)),
      item ''bytes_received'' (jnat (oi_bytes_received i)),
      item ''progress_permille'' (jnat (oi_progress_permille i)), item ''active'' (JBool (oi_active i)),
      item ''result'' (JInt (oi_result i)), item ''partition'' (JStr (oi_partition i))]"

definition decode_ota_status :: "frame \<Rightarrow> ota_info res" where
  "decode_ota_status frame =
     (let payload = fr_payload frame in
      bindr (raise_if (\<not> has_type frame (ota_type_code OtaType_STATUS) \<or> length payload < 20)
               (ProtocolError ''unexpected OTA status response'')) (\<lambda>_.
      let label_size = uint_at 1 15 payload in
      bindr (raise_if (length payload \<noteq> 20 + label_size) (ProtocolError ''invalid OTA status response'')) (\<lambda>_.
      Inr \<lparr>oi_job_id = uint_at 4 0 payload, oi_bytes_total = uint_at 4 4 payload,
           oi_bytes_received = uint_at 4 8 payload, oi_progress_permille = uint_at 2 12 payload,
           oi_active = (uint_at 1 14 payload \<noteq> 0), oi_result = sint_at 4 16 payload,
           oi_partition = ascii_decode (drop 20 payload)\<rparr>)))"

definition ota_status :: "('p, ota_info) io" where
  "ota_status =
     bindio (ask (ota_request OtaType_STATUS [])) (\<lambda>frame. lift_res (decode_ota_status frame))"

section \<open>Requests in flight together\<close>

text \<open>
  \<^verbatim>\<open>asyncio.gather\<close> over one task per request. Each request has its reply or its exception, in the
  order of the requests; when some raise, \<^verbatim>\<open>gather\<close> raises the exception that comes first in time,
  here chosen by \<open>pick\<close>, and the other tasks are cancelled and awaited.
\<close>

definition attempt :: "('p, 'a) io \<Rightarrow> ('p, 'a res) io" where
  "attempt m = catch (bindio m (\<lambda>x. ret (Inr x))) (\<lambda>e. ret (Inl e))"

fun ask_all :: "request list \<Rightarrow> ('p, frame res list) io" where
  "ask_all [] = ret []"
| "ask_all (r # rs) =
     bindio (attempt (ask r)) (\<lambda>a.
     bindio (ask_all rs) (\<lambda>as. ret (a # as)))"

definition raised :: "frame res list \<Rightarrow> exn list" where
  "raised as = List.map_filter (\<lambda>a. case a of Inl e \<Rightarrow> Some e | Inr _ \<Rightarrow> None) as"

definition gathered :: "(exn list \<Rightarrow> nat) \<Rightarrow> frame res list \<Rightarrow> frame list res" where
  "gathered pick as =
     (if raised as = [] then mapr (\<lambda>a. a) as
      else Inl (raised as ! (pick (raised as) mod length (raised as))))"

definition gather :: "(exn list \<Rightarrow> nat) \<Rightarrow> request list \<Rightarrow> ('p, frame list) io" where
  "gather pick rs = bindio (ask_all rs) (\<lambda>as. lift_res (gathered pick as))"

section \<open>The transfer\<close>

record ota_job =
  oj_job_id :: nat
  oj_chunk_size :: nat
  oj_partition :: ustr

definition encode_text :: "ustr \<Rightarrow> bytes res" where
  "encode_text s = (case utf8_encode s of Some b \<Rightarrow> Inr b | None \<Rightarrow> Inl UnicodeError)"

definition ota_digest :: "bytes option \<Rightarrow> bytes \<Rightarrow> bytes" where
  "ota_digest expected_sha256 img =
     (case expected_sha256 of Some (b # bs) \<Rightarrow> b # bs | _ \<Rightarrow> sha256 img)"

definition ota_begin_message :: "bytes \<Rightarrow> bytes \<Rightarrow> ustr \<Rightarrow> ustr \<Rightarrow> bytes res" where
  "ota_begin_message img digest project_name version =
     bindr (raise_if (length digest \<noteq> 32) (ValueError ''OTA SHA-256 must contain 32 bytes'')) (\<lambda>_.
     bindr (encode_text project_name) (\<lambda>project.
     bindr (encode_text version) (\<lambda>release.
     bindr (raise_if (length project > 32 \<or> length release > 32)
              (ValueError ''OTA project/version is too long'')) (\<lambda>_.
     bindr (pack_uint StructError 4 (int (length img))) (\<lambda>size.
     Inr (size @ digest @ le_bytes 1 (length project) @ le_bytes 1 (length release) @ [0, 0]
          @ project @ release))))))"

definition ota_progress :: "string \<Rightarrow> dict \<Rightarrow> nat \<Rightarrow> nat \<Rightarrow> nat \<Rightarrow> ustr \<Rightarrow> json" where
  "ota_progress stage job_id received total_size progress label =
     JDict ([item ''stage'' (jstr stage)] @ job_id @
       [item ''bytes_received'' (jnat received), item ''bytes_total'' (jnat total_size),
        item ''progress_permille'' (jnat progress), item ''partition'' (JStr label)])"

definition ota_job_item :: "ota_job \<Rightarrow> dict" where
  "ota_job_item oj = [item ''job_id'' (jnat (oj_job_id oj))]"

definition ota_accept :: "bytes \<Rightarrow> frame \<Rightarrow> ota_job res" where
  "ota_accept img frame =
     (let payload = fr_payload frame in
      bindr (raise_if (\<not> has_type frame (ota_type_code OtaType_BEGIN_RESPONSE) \<or> length payload < 11)
               (ProtocolError ''unexpected OTA begin response'')) (\<lambda>_.
      bindr (raise_if (uint_at 4 4 payload \<noteq> length img \<or> uint_at 2 8 payload = 0
                \<or> length payload \<noteq> 11 + uint_at 1 10 payload)
               (ProtocolError ''invalid OTA begin response'')) (\<lambda>_.
      Inr \<lparr>oj_job_id = uint_at 4 0 payload, oj_chunk_size = uint_at 2 8 payload,
           oj_partition = ascii_decode (drop 11 payload)\<rparr>)))"

text \<open>The chunks of one batch: at most \<open>n\<close>, from \<open>off\<close> on.\<close>

fun ota_batch :: "bytes \<Rightarrow> nat \<Rightarrow> nat \<Rightarrow> nat \<Rightarrow> (nat \<times> bytes) list" where
  "ota_batch img chunk_size off 0 = []"
| "ota_batch img chunk_size off (Suc n) =
     (if off < length img
      then let chunk = pyslice off (off + chunk_size) img
           in (off, chunk) # ota_batch img chunk_size (off + length chunk) n
      else [])"

definition request_count :: "nat \<Rightarrow> nat" where
  "request_count chunk_size = max 1 (OTA_IN_FLIGHT_BYTES div chunk_size)"

text \<open>The offset is below the image size, which the begin message holds in four bytes.\<close>

definition ota_data_request :: "nat \<times> bytes \<Rightarrow> request" where
  "ota_data_request c = ota_request OtaType_DATA (le_bytes 4 (fst c) @ snd c)"

definition chunk_end :: "nat \<times> bytes \<Rightarrow> nat" where
  "chunk_end c = fst c + length (snd c)"

definition ota_resume ::
  "json callback \<Rightarrow> ota_job \<Rightarrow> nat \<Rightarrow> (nat \<times> bytes) list \<Rightarrow> (json, nat) io" where
  "ota_resume cb oj off batch =
     bindio ota_status (\<lambda>status.
     bindio (throw_if (\<not> oi_active status \<or> oi_job_id status \<noteq> oj_job_id oj)
               (TimeoutError ''OTA data response timed out'')) (\<lambda>_.
     let received = oi_bytes_received status in
     bindio (throw_if (received \<notin> set (off # map chunk_end batch))
               (ProtocolError ''OTA resumed at unexpected byte offset'')) (\<lambda>_.
     bindio (notify cb (JDict (ota_info_dict status))) (\<lambda>_.
     ret received))))"

definition ota_check_response :: "nat \<times> bytes \<Rightarrow> frame \<Rightarrow> (nat \<times> nat) res" where
  "ota_check_response c response =
     (let payload = fr_payload response in
      bindr (raise_if (\<not> has_type response (ota_type_code OtaType_DATA_RESPONSE) \<or> length payload \<noteq> 8)
               (ProtocolError ''unexpected OTA data response'')) (\<lambda>_.
      bindr (raise_if (uint_at 4 0 payload \<noteq> chunk_end c \<or> uint_at 2 6 payload \<noteq> 0)
               (ProtocolError ''invalid OTA progress'')) (\<lambda>_.
      Inr (uint_at 4 0 payload, uint_at 2 4 payload))))"

fun ota_responses ::
  "json callback \<Rightarrow> ota_job \<Rightarrow> nat \<Rightarrow> nat \<Rightarrow> ((nat \<times> bytes) \<times> frame) list \<Rightarrow> (json, nat) io" where
  "ota_responses cb oj total_size off [] = ret off"
| "ota_responses cb oj total_size off ((c, response) # cs) =
     bindio (lift_res (ota_check_response c response)) (\<lambda>(received, progress).
     bindio (notify cb (ota_progress ''transferring'' (ota_job_item oj) received total_size progress
                          (oj_partition oj))) (\<lambda>_.
     ota_responses cb oj total_size received cs))"

text \<open>The wait for a batch; \<open>None\<close> where the source continues in the handler of the timeout.\<close>

definition ota_wait :: "(exn list \<Rightarrow> nat) \<Rightarrow> (nat \<times> bytes) list \<Rightarrow> ('p, frame list option) io" where
  "ota_wait pick batch =
     catch (bindio (gather pick (map ota_data_request batch)) (\<lambda>responses. ret (Some responses)))
       (\<lambda>e. if is_timeout e then ret None else throw e)"

text \<open>One iteration of the transfer loop: the next offset.\<close>

definition ota_step ::
  "(exn list \<Rightarrow> nat) \<Rightarrow> json callback \<Rightarrow> ota_job \<Rightarrow> bytes \<Rightarrow> nat \<Rightarrow> (json, nat) io" where
  "ota_step pick cb oj img off =
     (let batch = ota_batch img (oj_chunk_size oj) off (request_count (oj_chunk_size oj)) in
      bindio (ota_wait pick batch) (\<lambda>reply.
      case reply of
        None \<Rightarrow> ota_resume cb oj off batch
      | Some responses \<Rightarrow>
          bindio (throw_if (length batch \<noteq> length responses)
                    (ProtocolError ''OTA data response count does not match request batch'')) (\<lambda>_.
          ota_responses cb oj (length img) off (zip batch responses))))"

section \<open>Consumption of replies\<close>

lemma attempt_ask:
  "attempt (ask r) w = (Returned a, v) \<longleftrightarrow>
     (\<exists>rest. w_replies w = a # rest \<and> v = w\<lparr>w_replies := rest, w_log := w_log w @ [Exchange r a]\<rparr>)"
  "attempt (ask r) w \<noteq> (Raised e, v)"
  by (auto simp: attempt_def catch_def bindio_def ask_def ret_def split: list.split sum.split)

lemma ask_all_log:
  assumes "ask_all rs w = (Returned as, v)"
  shows "w_replies w = as @ w_replies v \<and> w_log v = w_log w @ map2 Exchange rs as \<and> length as = length rs"
  using assms
proof (induction rs arbitrary: w as)
  case (Cons r rs)
  from Cons.prems obtain a rest as' where w: "w_replies w = a # rest" and as: "as = a # as'"
    and tail: "ask_all rs (w\<lparr>w_replies := rest, w_log := w_log w @ [Exchange r a]\<rparr>) = (Returned as', v)"
    by (auto simp: bindio_Returned attempt_ask)
  from Cons.IH [OF tail] show ?case by (simp add: w as)
qed simp

lemma ask_all_raises: "ask_all rs w \<noteq> (Raised e, v)"
proof (induction rs arbitrary: w)
  case (Cons r rs)
  then show ?case
    by (auto simp: bindio_Raised attempt_ask)
qed simp

lemma gather_run:
  assumes "gather pick rs w = (out, v)" and "out \<noteq> Blocked"
  obtains as where "w_replies w = as @ w_replies v" and "w_log v = w_log w @ map2 Exchange rs as"
    and "length as = length rs"
    and "out = (case gathered pick as of Inr fs \<Rightarrow> Returned fs | Inl e \<Rightarrow> Raised e)"
proof -
  obtain as where as: "ask_all rs w = (Returned as, v)"
    and out: "out = (case gathered pick as of Inr fs \<Rightarrow> Returned fs | Inl e \<Rightarrow> Raised e)"
    using assms ask_all_raises [of rs w]
    by (auto simp: gather_def bindio_def lift_res_def ret_def throw_def split: prod.splits outcome.splits sum.splits)
  from ask_all_log [OF as] out show thesis by (intro that) simp_all
qed

lemma ota_batch_nonempty: "off < length img \<Longrightarrow> 0 < n \<Longrightarrow> ota_batch img c off n \<noteq> []"
  by (cases n) (simp_all add: Let_def)

lemma request_count_pos [simp]: "0 < request_count c"
  by (simp add: request_count_def)

lemma ota_responses_replies:
  "ota_responses cb oj n off cs w = (Returned x, v) \<Longrightarrow> w_replies v = w_replies w"
  by (induction cb oj n off cs arbitrary: w rule: ota_responses.induct)
     (auto simp: bindio_Returned dest!: notify_replies)

lemma ota_resume_replies:
  "ota_resume cb oj off batch w = (Returned x, v) \<Longrightarrow> length (w_replies v) < length (w_replies w)"
  by (auto simp: ota_resume_def ota_status_def Let_def bindio_Returned ask_Returned dest!: notify_replies)

lemma ota_wait_run:
  assumes "ota_wait pick batch w = (out, v)" and "out \<noteq> Blocked"
  obtains as where "w_replies w = as @ w_replies v" and "length as = length batch"
    and "w_log v = w_log w @ map2 Exchange (map ota_data_request batch) as"
    and "out = (case gathered pick as of Inr fs \<Rightarrow> Returned (Some fs)
                  | Inl e \<Rightarrow> if is_timeout e then Returned None else Raised e)"
proof -
  obtain out' v' where g: "gather pick (map ota_data_request batch) w = (out', v')" by fastforce
  with assms have v: "v' = v" and "out' \<noteq> Blocked"
    by (auto simp: ota_wait_def catch_def bindio_def ret_def throw_def split: outcome.splits if_splits)
  from g this(2) obtain as where as: "w_replies w = as @ w_replies v'" "length as = length batch"
    "w_log v' = w_log w @ map2 Exchange (map ota_data_request batch) as"
    "out' = (case gathered pick as of Inr fs \<Rightarrow> Returned fs | Inl e \<Rightarrow> Raised e)"
    by (rule gather_run) simp
  show thesis
    using as assms g v
    by (intro that [of as])
       (auto simp: ota_wait_def catch_def bindio_def ret_def throw_def split: sum.splits)
qed

lemma ota_step_consumes:
  assumes run: "ota_step pick cb oj img off w = (Returned x, v)" and off: "off < length img"
  shows "length (w_replies v) < length (w_replies w)"
proof -
  define batch where "batch = ota_batch img (oj_chunk_size oj) off (request_count (oj_chunk_size oj))"
  from run obtain reply u where wait: "ota_wait pick batch w = (Returned reply, u)"
    and rest: "(case reply of None \<Rightarrow> ota_resume cb oj off batch
      | Some responses \<Rightarrow>
          bindio (throw_if (length batch \<noteq> length responses)
                    (ProtocolError ''OTA data response count does not match request batch'')) (\<lambda>_.
          ota_responses cb oj (length img) off (zip batch responses))) u = (Returned x, v)"
    by (auto simp: ota_step_def Let_def bindio_Returned simp flip: batch_def)
  from wait obtain as where "w_replies w = as @ w_replies u" "length as = length batch"
    by (rule ota_wait_run) simp
  moreover have "batch \<noteq> []" unfolding batch_def using off by (intro ota_batch_nonempty) simp_all
  ultimately have "length (w_replies u) < length (w_replies w)" by (cases batch) simp_all
  with rest show ?thesis
    by (auto simp: bindio_Returned split: option.splits dest!: ota_resume_replies ota_responses_replies)
qed

text \<open>\<^verbatim>\<open>while offset < len(image)\<close>; every iteration awaits a reply.\<close>

function ota_loop ::
  "(exn list \<Rightarrow> nat) \<Rightarrow> json callback \<Rightarrow> ota_job \<Rightarrow> bytes \<Rightarrow> nat \<Rightarrow> (json, unit) io" where
  "ota_loop pick cb oj img off w =
     (if off < length img then bindio (ota_step pick cb oj img off) (ota_loop pick cb oj img) w
      else ret () w)"
  by pat_completeness auto
termination
  by (relation "measure (\<lambda>(pick, cb, oj, img, off, w). length (w_replies w))")
     (auto dest: ota_step_consumes)

declare ota_loop.simps [simp del]

section \<open>The end of the transfer\<close>

datatype ota_evidence = Ota_device_job | Ota_session_close | Ota_end_response

primrec ota_evidence_text :: "ota_evidence \<Rightarrow> string" where
  "ota_evidence_text Ota_device_job = ''device_job''"
| "ota_evidence_text Ota_session_close = ''session_close''"
| "ota_evidence_text Ota_end_response = ''end_response''"

definition job_succeeded :: "dict \<Rightarrow> bool" where
  "job_succeeded d \<longleftrightarrow>
     dget d ''job_state'' = jstr ''succeeded'' \<and> dget_default d ''result'' (JInt (- 1)) = JInt 0"

definition ota_end :: "ota_job \<Rightarrow> ('p, ota_evidence \<times> frame option) io" where
  "ota_end oj =
     catch (bindio (ask (ota_request OtaType_END [])) (\<lambda>end_frame. ret (Ota_end_response, Some end_frame))) (\<lambda>e.
       if is_timeout e then
         bindio (job (int (oj_job_id oj)) False) (\<lambda>job_status.
         bindio (throw_if (\<not> job_succeeded job_status) (TimeoutError ''OTA end response timed out'')) (\<lambda>_.
         ret (Ota_device_job, None)))
       else if is_os_error e then ret (Ota_session_close, None)
       else throw e)"

definition ota_transfer ::
  "(exn list \<Rightarrow> nat) \<Rightarrow> json callback \<Rightarrow> ota_job \<Rightarrow> bytes \<Rightarrow> (json, ota_evidence \<times> frame option) io" where
  "ota_transfer pick cb oj img =
     bindio (ota_loop pick cb oj img 0) (\<lambda>_.
     bindio (notify cb (ota_progress ''verifying'' (ota_job_item oj) (length img) (length img) 950
                          (oj_partition oj))) (\<lambda>_.
     ota_end oj))"

definition ota_cancel :: "('p, unit) io" where
  "ota_cancel = suppress (ask (ota_request OtaType_CANCEL []))"

definition ota_check_end :: "ota_job \<Rightarrow> frame option \<Rightarrow> unit res" where
  "ota_check_end oj end_frame =
     (case end_frame of
        None \<Rightarrow> Inr ()
      | Some frame \<Rightarrow>
          let payload = fr_payload frame in
          bindr (raise_if (\<not> has_type frame (ota_type_code OtaType_END_RESPONSE) \<or> length payload \<noteq> 8)
                   (ProtocolError ''unexpected OTA end response'')) (\<lambda>_.
          raise_if (uint_at 4 0 payload \<noteq> oj_job_id oj \<or> sint_at 4 4 payload \<noteq> 0)
            (RuntimeError ''OTA failed with device error'')))"

record ota_result =
  or_job_id :: nat
  or_bytes :: nat
  or_sha256 :: string
  or_partition :: ustr
  or_restart_required :: bool
  or_completion_evidence :: ota_evidence

definition ota_update ::
  "(exn list \<Rightarrow> nat) \<Rightarrow> bytes \<Rightarrow> bytes option \<Rightarrow> ustr \<Rightarrow> ustr \<Rightarrow> json callback \<Rightarrow> (json, ota_result) io" where
  "ota_update pick img expected_sha256 project_name version cb =
     bindio (throw_if (img = []) (ValueError ''OTA image is empty'')) (\<lambda>_.
     let digest = ota_digest expected_sha256 img in
     bindio (lift_res (ota_begin_message img digest project_name version)) (\<lambda>message.
     bindio (notify cb (ota_progress ''erasing'' [] 0 (length img) 0 [])) (\<lambda>_.
     bindio (ask (ota_request OtaType_BEGIN message)) (\<lambda>frame.
     bindio (lift_res (ota_accept img frame)) (\<lambda>oj.
     bindio (notify cb (ota_progress ''transferring'' (ota_job_item oj) 0 (length img) 0
                          (oj_partition oj))) (\<lambda>_.
     bindio (on_raise (ota_transfer pick cb oj img) ota_cancel) (\<lambda>(evidence, end_frame).
     bindio (lift_res (ota_check_end oj end_frame)) (\<lambda>_.
     ret \<lparr>or_job_id = oj_job_id oj, or_bytes = length img, or_sha256 = hex digest,
          or_partition = oj_partition oj, or_restart_required = True,
          or_completion_evidence = evidence\<rparr>))))))))"

section \<open>What the device has confirmed\<close>

text \<open>
  An observer of the log that knows the protocol and not the client. Its state is what has been
  transmitted, laid out by offset, and the number of bytes the device has confirmed: a data response
  with the offset after its chunk confirms the chunk when it follows what is confirmed already, and
  a status of an active transfer sets the number to what the device reports.
\<close>

definition is_ota :: "ota_type \<Rightarrow> request \<Rightarrow> bool" where
  "is_ota ty r \<longleftrightarrow> rq_channel r = channel_code Channel_OTA \<and> rq_type r = ota_type_code ty"

definition ota_ack :: "nat \<Rightarrow> frame \<Rightarrow> bool" where
  "ota_ack n f \<longleftrightarrow> has_type f (ota_type_code OtaType_DATA_RESPONSE) \<and> length (fr_payload f) = 8
     \<and> uint_at 4 0 (fr_payload f) = n"

definition ota_sent :: "request \<Rightarrow> bytes \<Rightarrow> bytes" where
  "ota_sent r sent = take (uint_at 4 0 (rq_payload r)) sent @ drop 4 (rq_payload r)"

fun ota_observe :: "json event \<Rightarrow> bytes \<times> nat \<Rightarrow> bytes \<times> nat" where
  "ota_observe (Notify p) st = st"
| "ota_observe (Exchange r reply) (sent, conf) =
     (if is_ota OtaType_DATA r then
        (ota_sent r sent,
         (case reply of
            Inr f \<Rightarrow> if uint_at 4 0 (rq_payload r) = conf \<and> ota_ack (conf + length (drop 4 (rq_payload r))) f
                     then conf + length (drop 4 (rq_payload r)) else conf
          | Inl _ \<Rightarrow> conf))
      else if is_ota OtaType_STATUS r then
        (sent, (case reply of
           Inr f \<Rightarrow> (case decode_ota_status f of
                      Inr i \<Rightarrow> if oi_active i then oi_bytes_received i else conf
                    | Inl _ \<Rightarrow> conf)
         | Inl _ \<Rightarrow> conf))
      else (sent, conf))"

definition ota_confirmed :: "json event list \<Rightarrow> bytes" where
  "ota_confirmed es = (let (sent, conf) = fold ota_observe es ([], 0) in take conf sent)"

definition no_ota_end :: "json event \<Rightarrow> bool" where
  "no_ota_end ev \<longleftrightarrow> (case ev of Exchange r _ \<Rightarrow> \<not> is_ota OtaType_END r | Notify _ \<Rightarrow> True)"

text \<open>Events that carry neither data nor a status nor the end.\<close>

definition ota_quiet :: "json event \<Rightarrow> bool" where
  "ota_quiet ev \<longleftrightarrow> (case ev of
     Exchange r _ \<Rightarrow> \<not> is_ota OtaType_DATA r \<and> \<not> is_ota OtaType_STATUS r \<and> \<not> is_ota OtaType_END r
   | Notify _ \<Rightarrow> True)"

text \<open>A log in which the final request, if there is one, comes after the confirmation of the whole
  image, and only once.\<close>

definition ota_log_ok :: "bytes \<Rightarrow> json event list \<Rightarrow> bool" where
  "ota_log_ok img es \<longleftrightarrow> list_all no_ota_end es \<or>
     (\<exists>es1 r reply es2. es = es1 @ Exchange r reply # es2 \<and> is_ota OtaType_END r
        \<and> list_all no_ota_end es1 \<and> list_all no_ota_end es2 \<and> ota_confirmed es1 = img)"

lemma is_ota_request [simp]: "is_ota ty (ota_request ty' p) \<longleftrightarrow> ty = ty'"
  by (auto simp: is_ota_def ota_request_def ota_type.code_inject)

lemma observe_ota_quiet: "list_all ota_quiet l \<Longrightarrow> fold ota_observe l st = st"
proof (induction l arbitrary: st)
  case (Cons ev l)
  then have "ota_observe ev st = st"
    by (cases ev; cases st) (auto simp: ota_quiet_def)
  with Cons show ?case by simp
qed simp

lemma ota_quiet_no_end: "list_all ota_quiet l \<Longrightarrow> list_all no_ota_end l"
  by (auto simp: list_all_iff ota_quiet_def no_ota_end_def split: event.splits)

section \<open>The log of each part\<close>

text \<open>What a batch does to the observer: all of it is transmitted, and if every response is
  accepted, all of it is confirmed.\<close>

fun batch_of :: "bytes \<Rightarrow> nat \<Rightarrow> (nat \<times> bytes) list \<Rightarrow> bool" where
  "batch_of img off [] \<longleftrightarrow> True"
| "batch_of img off (c # cs) \<longleftrightarrow>
     fst c = off \<and> snd c = pyslice off (chunk_end c) img \<and> off < 256 ^ 4 \<and> chunk_end c \<le> length img
     \<and> batch_of img (chunk_end c) cs"

lemma ota_batch_ok:
  "length img < 256 ^ 4 \<Longrightarrow> batch_of img off (ota_batch img c off n)"
  by (induction img c off n rule: ota_batch.induct) (auto simp: Let_def chunk_end_def pyslice_def min_def)

definition batch_end :: "nat \<Rightarrow> (nat \<times> bytes) list \<Rightarrow> nat" where
  "batch_end off batch = (if batch = [] then off else chunk_end (last batch))"

lemma batch_end_simps [simp]:
  "batch_end off [] = off" "batch_end off (c # cs) = batch_end (chunk_end c) cs"
  by (simp_all add: batch_end_def)

lemma batch_end_ge: "batch_of img off batch \<Longrightarrow> off \<le> batch_end off batch"
  by (induction img off batch rule: batch_of.induct) (auto simp: chunk_end_def)

lemma batch_ends: "batch_of img off batch \<Longrightarrow> x \<in> set (map chunk_end batch) \<Longrightarrow> x \<le> batch_end off batch"
  by (induction img off batch rule: batch_of.induct) (auto dest: batch_end_ge)

lemma data_request_parts:
  assumes "fst c < 256 ^ 4"
  shows "uint_at 4 0 (rq_payload (ota_data_request c)) = fst c"
    and "drop 4 (rq_payload (ota_data_request c)) = snd c"
  using assms by (simp_all add: ota_data_request_def ota_request_def uint_at_le_bytes_append)

lemma is_ota_data [simp]: "is_ota ty (ota_data_request c) \<longleftrightarrow> ty = OtaType_DATA"
  by (simp add: ota_data_request_def)

lemma observe_batch:
  assumes "batch_of img off batch" and "length as = length batch" and "off \<le> k"
    and "k \<le> length img"
  shows "\<exists>conf'. fold ota_observe (map2 Exchange (map ota_data_request batch) as) (take k img, conf)
     = (take (if batch = [] then k else batch_end off batch) img, conf')"
  using assms
proof (induction batch arbitrary: off as k conf)
  case (Cons c cs)
  from Cons.prems(2) obtain a as' where as: "as = a # as'" by (cases as) auto
  have c: "fst c = off" "snd c = pyslice off (chunk_end c) img" "off < 256 ^ 4" "chunk_end c \<le> length img"
    "batch_of img (chunk_end c) cs" "off \<le> chunk_end c"
    using Cons.prems(1) by (auto simp: chunk_end_def)
  have sent: "ota_sent (ota_data_request c) (take k img) = take (chunk_end c) img"
    using c Cons.prems(3,4)
    by (simp add: ota_sent_def data_request_parts pyslice_def min_absorb1)
       (metis add_diff_inverse_nat not_less take_add take_drop)
  obtain conf1 where step: "ota_observe (Exchange (ota_data_request c) a) (take k img, conf)
      = (take (chunk_end c) img, conf1)"
    by (simp add: sent)
  from Cons.IH [OF c(5), of as' "chunk_end c" conf1] Cons.prems(2) c(4) as
  obtain conf' where "fold ota_observe (map2 Exchange (map ota_data_request cs) as') (take (chunk_end c) img, conf1)
     = (take (if cs = [] then chunk_end c else batch_end (chunk_end c) cs) img, conf')"
    by auto
  with step show ?case by (auto simp: as)
qed simp

definition batch_acked :: "(nat \<times> bytes) list \<Rightarrow> frame list \<Rightarrow> bool" where
  "batch_acked batch fs \<longleftrightarrow> list_all2 (\<lambda>c f. ota_ack (chunk_end c) f) batch fs"

lemma observe_acked:
  assumes "batch_of img off batch" and "batch_acked batch fs"
  shows "snd (fold ota_observe (map2 Exchange (map ota_data_request batch) (map Inr fs)) (sent, off))
     = batch_end off batch"
  using assms
proof (induction batch arbitrary: off fs sent)
  case (Cons c cs)
  then obtain f fs' where fs: "fs = f # fs'" "ota_ack (chunk_end c) f" "batch_acked cs fs'"
    by (auto simp: batch_acked_def list_all2_Cons1)
  have "ota_observe (Exchange (ota_data_request c) (Inr f)) (sent, off)
      = (ota_sent (ota_data_request c) sent, chunk_end c)"
    using Cons.prems(1) fs(2) by (simp add: data_request_parts chunk_end_def)
  with Cons.IH [OF _ fs(3)] Cons.prems(1) show ?case by (simp add: fs(1))
qed simp

lemma responses_acked:
  assumes "ota_responses cb oj n off (zip batch fs) w = (Returned x, v)" and "length batch = length fs"
  shows "batch_acked batch fs \<and> x = batch_end off batch"
  using assms
proof (induction batch arbitrary: off fs w)
  case (Cons c cs)
  then obtain f fs' where fs: "fs = f # fs'" by (cases fs) auto
  with Cons.prems obtain received progress v' where
    "ota_check_response c f = Inr (received, progress)"
    "ota_responses cb oj n received (zip cs fs') v' = (Returned x, v)"
    by (auto simp: bindio_Returned)
  moreover from this(1) have "received = chunk_end c" "ota_ack (chunk_end c) f"
    by (auto simp: ota_check_response_def Let_def bindr_eq_Inr res_simps ota_ack_def)
  ultimately show ?case
    using Cons.IH [of received fs' v'] Cons.prems(2) by (simp add: fs batch_acked_def)
qed (simp add: batch_acked_def)

lemma gathered_Inr: "gathered pick as = Inr fs \<Longrightarrow> as = map Inr fs"
proof -
  have "raised as = [] \<Longrightarrow> mapr (\<lambda>a. a) as = Inr fs \<Longrightarrow> as = map Inr fs" for fs
    by (induction as arbitrary: fs)
       (auto simp: raised_def List.map_filter_def res_simps bindr_eq_Inr split: sum.splits)
  then show "gathered pick as = Inr fs \<Longrightarrow> as = map Inr fs"
    by (auto simp: gathered_def split: if_splits)
qed

text \<open>Logging of the parts.\<close>

lemma emits_ask_all:
  assumes "\<And>r reply. r \<in> set rs \<Longrightarrow> P (Exchange r reply)"
  shows "emits P (ask_all rs)"
  using assms
proof (induction rs)
  case Nil
  show ?case by (simp add: emits_ret)
next
  case (Cons r rs)
  then show ?case
    unfolding ask_all.simps attempt_def by (intro emits_intros) auto
qed

lemma ota_status_no_end: "emits no_ota_end ota_status"
  unfolding ota_status_def by (intro emits_intros) (simp add: no_ota_end_def)

lemma ota_wait_no_end: "emits no_ota_end (ota_wait pick batch)"
  unfolding ota_wait_def gather_def
  by (intro emits_intros emits_ask_all) (auto simp: no_ota_end_def)

lemma ota_responses_quiet: "emits ota_quiet (ota_responses cb oj n off cs)"
  by (induction cb oj n off cs rule: ota_responses.induct)
     (auto intro!: emits_intros simp: ota_quiet_def)

lemma ota_step_no_end: "emits no_ota_end (ota_step pick cb oj img off)"
proof -
  have resp: "emits no_ota_end (ota_responses cb oj n off cs)" for n cs
    by (rule emits_mono [OF ota_responses_quiet]) (auto simp: ota_quiet_def no_ota_end_def split: event.splits)
  have resume: "emits no_ota_end (ota_resume cb oj off batch)" for batch
    unfolding ota_resume_def Let_def by (intro emits_intros ota_status_no_end) (simp add: no_ota_end_def)
  show ?thesis
    unfolding ota_step_def Let_def
    by (intro emits_bindio ota_wait_no_end) (auto split: option.split intro!: resume resp emits_intros)
qed

lemma ota_loop_no_end: "run_log (ota_loop pick cb oj img off) w (\<lambda>out l. list_all no_ota_end l)"
proof (induction pick cb oj img off w rule: ota_loop.induct)
  case (1 pick cb oj img off w)
  show ?case
  proof (cases "off < length img")
    case True
    have "run_log (bindio (ota_step pick cb oj img off) (ota_loop pick cb oj img)) w
        (\<lambda>out l. list_all no_ota_end l)"
      using 1 [OF True]
      by (intro run_log_bindio [OF run_log_emits [OF ota_step_no_end]]) (auto intro: run_log_mono)
    with True show ?thesis by (simp add: run_log_def ota_loop.simps [of pick cb oj img off w])
  next
    case False
    then show ?thesis by (simp add: run_log_def ret_def ota_loop.simps [of pick cb oj img off w])
  qed
qed

lemma notify_run:
  assumes "notify cb p w = (Returned y, v)"
  obtains l where "w_log v = w_log w @ l" and "l = [] \<or> l = [Notify p]"
  using assms by (auto simp: notify_def split: option.splits)

lemma ota_resume_log:
  assumes "ota_resume cb oj off batch w = (Returned x, v)"
  obtains l where "w_log v = w_log w @ l" and "x \<in> set (off # map chunk_end batch)"
    and "\<And>sent conf. fold ota_observe l (sent, conf) = (sent, x)"
proof -
  from assms obtain st u y where run: "ota_status w = (Returned st, u)"
    and x: "oi_active st" "x = oi_bytes_received st" "x \<in> set (off # map chunk_end batch)"
    and n: "notify cb (JDict (ota_info_dict st)) u = (Returned y, v)"
    by (auto simp: ota_resume_def Let_def bindio_Returned)
  from run obtain f where f: "w_log u = w_log w @ [Exchange (ota_request OtaType_STATUS []) (Inr f)]"
    "decode_ota_status f = Inr st"
    by (auto simp: ota_status_def bindio_Returned ask_Returned)
  from n obtain l where "w_log v = w_log u @ l" "l = [] \<or> l = [Notify (JDict (ota_info_dict st))]"
    by (rule notify_run)
  with f x show thesis
    by (intro that [of "Exchange (ota_request OtaType_STATUS []) (Inr f) # l"]) auto
qed

lemma ota_step_log:
  assumes run: "ota_step pick cb oj img off w = (Returned x, v)"
    and off: "off < length img" "off \<le> k" "k \<le> length img" and size: "length img < 256 ^ 4"
  obtains l k' where "w_log v = w_log w @ l" and "x \<le> k'" and "k' \<le> length img"
    and "fold ota_observe l (take k img, off) = (take k' img, x)"
proof -
  define batch where "batch = ota_batch img (oj_chunk_size oj) off (request_count (oj_chunk_size oj))"
  have ne: "batch \<noteq> []" unfolding batch_def using off(1) by (intro ota_batch_nonempty) simp_all
  have of: "batch_of img off batch" unfolding batch_def by (rule ota_batch_ok [OF size])
  have le: "batch_end off batch \<le> length img"
    using of ne by (induction img off batch rule: batch_of.induct) (auto simp: batch_end_def)
  from run obtain reply u where wait: "ota_wait pick batch w = (Returned reply, u)"
    and rest: "(case reply of None \<Rightarrow> ota_resume cb oj off batch
      | Some responses \<Rightarrow>
          bindio (throw_if (length batch \<noteq> length responses)
                    (ProtocolError ''OTA data response count does not match request batch'')) (\<lambda>_.
          ota_responses cb oj (length img) off (zip batch responses))) u = (Returned x, v)"
    by (auto simp: ota_step_def Let_def bindio_Returned simp flip: batch_def)
  from wait obtain as where as: "length as = length batch"
    "w_log u = w_log w @ map2 Exchange (map ota_data_request batch) as"
    "Returned reply = (case gathered pick as of Inr fs \<Rightarrow> Returned (Some fs)
                  | Inl e \<Rightarrow> if is_timeout e then Returned None else Raised e)"
    by (rule ota_wait_run) simp
  let ?l = "map2 Exchange (map ota_data_request batch) as"
  obtain conf where obs: "fold ota_observe ?l (take k img, off) = (take (batch_end off batch) img, conf)"
    using observe_batch [OF of as(1) off(2,3), of off] ne by auto
  show thesis
  proof (cases reply)
    case None
    with rest have "ota_resume cb oj off batch u = (Returned x, v)" by simp
    then obtain l where l: "w_log v = w_log u @ l" "x \<in> set (off # map chunk_end batch)"
      "\<And>sent conf. fold ota_observe l (sent, conf) = (sent, x)"
      by (rule ota_resume_log) (rule that)
    have "x \<le> batch_end off batch"
      using l(2) batch_ends [OF of] batch_end_ge [OF of] by auto
    with l as obs le show thesis by (intro that [of "?l @ l" "batch_end off batch"]) auto
  next
    case (Some fs)
    with as(3) have map: "as = map Inr fs"
      by (auto dest!: gathered_Inr split: sum.splits if_splits)
    from Some rest have resp: "ota_responses cb oj (length img) off (zip batch fs) u = (Returned x, v)"
      by (auto simp: bindio_Returned)
    from resp obtain l where l: "w_log v = w_log u @ l" "list_all ota_quiet l"
      by (rule emitsD [OF ota_responses_quiet])
    from responses_acked [OF resp] as(1) map have acked: "batch_acked batch fs" "x = batch_end off batch"
      by auto
    have "conf = x" using observe_acked [OF of acked(1), of "take k img"] obs acked(2) map by simp
    with l as obs le acked show thesis
      by (intro that [of "?l @ l" "batch_end off batch"]) (auto simp: observe_ota_quiet)
  qed
qed

lemma ota_loop_log:
  assumes "ota_loop pick cb oj img off w = (Returned y, v)"
    and "off \<le> k" "k \<le> length img" "length img < 256 ^ 4"
  shows "\<exists>l. w_log v = w_log w @ l \<and> (\<exists>x \<ge> length img. fold ota_observe l (take k img, off) = (img, x))"
  using assms
proof (induction pick cb oj img off w arbitrary: k rule: ota_loop.induct)
  case (1 pick cb oj img off w)
  show ?case
  proof (cases "off < length img")
    case True
    with 1(2) obtain x v' where step: "ota_step pick cb oj img off w = (Returned x, v')"
      and loop: "ota_loop pick cb oj img x v' = (Returned y, v)"
      by (auto simp: ota_loop.simps [of pick cb oj img off w] bindio_Returned)
    obtain l k' where l: "w_log v' = w_log w @ l" "x \<le> k'" "k' \<le> length img"
      "fold ota_observe l (take k img, off) = (take k' img, x)"
      by (rule ota_step_log [OF step True 1(3,4,5)]) (rule that)
    from 1(1) [OF True step loop l(2,3) 1(5)] l show ?thesis by auto
  next
    case False
    with 1(2-4) show ?thesis
      by (intro exI [of _ "[]"]) (auto simp: ota_loop.simps [of pick cb oj img off w])
  qed
qed

section \<open>The log of the whole update\<close>

lemma job_quiet: "emits ota_quiet (job n cancel)"
  unfolding job_def
  by (intro emits_intros)
     (auto simp: ota_quiet_def is_ota_def job_query_def control_request_def)

lemma ota_cancel_quiet: "emits ota_quiet ota_cancel"
  unfolding ota_cancel_def by (intro emits_intros) (simp add: ota_quiet_def)

lemma ota_end_log:
  "run_log (ota_end oj) w (\<lambda>out l. l = [] \<or>
     (\<exists>reply l'. l = Exchange (ota_request OtaType_END []) reply # l' \<and> list_all ota_quiet l'))"
proof -
  have tail: "emits ota_quiet (bindio (job n False) (\<lambda>d.
      bindio (throw_if (\<not> job_succeeded d) e) (\<lambda>_. ret x)))" for n e and x :: "ota_evidence \<times> frame option"
    by (intro emits_intros job_quiet)
  show ?thesis
    unfolding ota_end_def
    by (rule run_log_catch [where P = "\<lambda>out l. (out = Blocked \<and> l = []) \<or>
          (\<exists>reply. l = [Exchange (ota_request OtaType_END []) reply])"],
        rule run_log_bindio [OF run_log_ask [where Q = "\<lambda>out l. (out = Blocked \<and> l = []) \<or>
          (\<exists>reply. l = [Exchange (ota_request OtaType_END []) reply])"]])
       (auto intro!: run_log_ret run_log_throw run_log_mono [OF run_log_emits [OF tail]])
qed

lemma ota_transfer_log:
  assumes "length img < 256 ^ 4" and "list_all ota_quiet l0"
  shows "run_log (ota_transfer pick cb oj img) w (\<lambda>out l. ota_log_ok img (l0 @ l))"
  unfolding ota_transfer_def
proof (rule run_log_bindio [OF run_log_mono [OF ota_loop_no_end, where Q =
      "\<lambda>out l. list_all no_ota_end l \<and> (\<forall>y. out = Returned y \<longrightarrow> ota_confirmed (l0 @ l) = img)"]])
  fix out v l
  assume run: "ota_loop pick cb oj img 0 w = (out, v)" and v: "w_log v = w_log w @ l"
    and l: "list_all no_ota_end l"
  show "list_all no_ota_end l \<and> (\<forall>y. out = Returned y \<longrightarrow> ota_confirmed (l0 @ l) = img)"
    using ota_loop_log [of pick cb oj img 0 w _ v 0] assms run v l
    by (auto simp: ota_confirmed_def observe_ota_quiet)
next
  fix y :: unit and l v
  assume l: "list_all no_ota_end l \<and> (\<forall>x. Returned y = Returned x \<longrightarrow> ota_confirmed (l0 @ l) = img)"
  have n0: "list_all no_ota_end l0" by (rule ota_quiet_no_end [OF assms(2)])
  let ?p = "ota_progress ''verifying'' (ota_job_item oj) (length img) (length img) 950 (oj_partition oj)"
  show "run_log (bindio (notify cb ?p) (\<lambda>_. ota_end oj)) v (\<lambda>out l'. ota_log_ok img (l0 @ l @ l'))"
  proof (rule run_log_bindio)
    show "run_log (notify cb ?p) v (\<lambda>out n. list_all ota_quiet n)"
      by (rule run_log_notify) (auto simp: ota_quiet_def)
  next
    fix x n v' assume n: "list_all ota_quiet n"
    have c: "ota_confirmed (l0 @ l @ n) = img"
      using l n by (simp add: ota_confirmed_def observe_ota_quiet Let_def)
    show "run_log (ota_end oj) v' (\<lambda>out l'. ota_log_ok img (l0 @ l @ n @ l'))"
    proof (rule run_log_mono [OF ota_end_log])
      fix out v'' l'
      assume "l' = [] \<or> (\<exists>reply l''. l' = Exchange (ota_request OtaType_END []) reply # l'' \<and> list_all ota_quiet l'')"
      then show "ota_log_ok img (l0 @ l @ n @ l')"
      proof (elim disjE exE conjE)
        fix reply l'' assume "l' = Exchange (ota_request OtaType_END []) reply # l''" "list_all ota_quiet l''"
        then show ?thesis
          using c l n0 ota_quiet_no_end [OF n] ota_quiet_no_end [of l'']
          unfolding ota_log_ok_def
          by (intro disjI2 exI [of _ "l0 @ l @ n"] exI [of _ "ota_request OtaType_END []"] exI [of _ reply]
              exI [of _ l'']) auto
      qed (use l n0 ota_quiet_no_end [OF n] in \<open>simp add: ota_log_ok_def\<close>)
    qed
  qed (use l n0 in \<open>auto simp: ota_log_ok_def dest!: ota_quiet_no_end\<close>)
qed (use ota_quiet_no_end [OF assms(2)] in \<open>auto simp: ota_log_ok_def\<close>)

lemma ota_log_ok_suffix:
  assumes "ota_log_ok img l" and "list_all ota_quiet l'"
  shows "ota_log_ok img (l @ l')"
proof -
  have l': "list_all no_ota_end l'" by (rule ota_quiet_no_end [OF assms(2)])
  from assms(1) consider "list_all no_ota_end l"
    | es1 r reply es2 where "l = es1 @ Exchange r reply # es2" "is_ota OtaType_END r"
      "list_all no_ota_end es1" "list_all no_ota_end es2" "ota_confirmed es1 = img"
    unfolding ota_log_ok_def by blast
  then show ?thesis
  proof cases
    case 2
    with l' show ?thesis
      unfolding ota_log_ok_def
      by (intro disjI2 exI [of _ es1] exI [of _ r] exI [of _ reply] exI [of _ "es2 @ l'"]) simp
  qed (simp add: ota_log_ok_def l')
qed

lemma ota_update_log:
  "run_log (ota_update pick img sha project_name version cb) w (\<lambda>out l. ota_log_ok img l)"
proof -
  let ?ok = "\<lambda>l. ota_log_ok img l"
  have nil: "?ok []" by (simp add: ota_log_ok_def)
  have quiet: "?ok l" if "list_all ota_quiet l" for l
    using ota_quiet_no_end [OF that] by (simp add: ota_log_ok_def)
  have tell: "run_log (notify cb p) v (\<lambda>out l. list_all ota_quiet l)" for p v
    by (rule run_log_notify) (auto simp: ota_quiet_def)
  have transfer: "run_log (bindio (on_raise (ota_transfer pick cb oj img) ota_cancel) k) v
      (\<lambda>out l. ?ok (l0 @ l))"
    if "length img < 256 ^ 4" "list_all ota_quiet l0" "\<And>x. emits ota_quiet (k x)"
    for oj l0 v and k :: "ota_evidence \<times> frame option \<Rightarrow> (json, ota_result) io"
  proof (rule run_log_bindio)
    show "run_log (on_raise (ota_transfer pick cb oj img) ota_cancel) v (\<lambda>out l. ?ok (l0 @ l))"
      unfolding on_raise_def
    proof (rule run_log_catch [OF ota_transfer_log [OF that(1,2)]])
      fix e l v' assume "?ok (l0 @ l)"
      then show "run_log (bindio ota_cancel (\<lambda>_. throw e)) v' (\<lambda>out l'. ?ok (l0 @ l @ l'))"
        by (intro run_log_mono [OF run_log_emits [OF emits_bindio [OF ota_cancel_quiet emits_throw]]])
           (metis append.assoc ota_log_ok_suffix)
    qed simp_all
  next
    fix x l v' assume "?ok (l0 @ l)"
    then show "run_log (k x) v' (\<lambda>out l'. ?ok (l0 @ l @ l'))"
      by (intro run_log_mono [OF run_log_emits [OF that(3)]]) (metis append.assoc ota_log_ok_suffix)
  qed simp_all
  have asked: "run_log (ask (ota_request OtaType_BEGIN m)) v (\<lambda>out l. list_all ota_quiet l)" for m v
    by (rule run_log_ask) (simp_all add: ota_quiet_def)
  show ?thesis
    unfolding ota_update_def Let_def
  proof (intro run_log_bind_throw_if run_log_bind_lift nil)
    fix message
    assume m: "ota_begin_message img (ota_digest sha img) project_name version = Inr message"
    then have size: "length img < 256 ^ 4"
      by (auto simp: ota_begin_message_def bindr_eq_Inr pack_uint_def split: if_splits)
    show "run_log (bindio (notify cb (ota_progress ''erasing'' [] 0 (length img) 0 [])) (\<lambda>_.
       bindio (ask (ota_request OtaType_BEGIN message)) (\<lambda>frame.
       bindio (lift_res (ota_accept img frame)) (\<lambda>oj.
       bindio (notify cb (ota_progress ''transferring'' (ota_job_item oj) 0 (length img) 0
                            (oj_partition oj))) (\<lambda>_.
       bindio (on_raise (ota_transfer pick cb oj img) ota_cancel) (\<lambda>(evidence, end_frame).
       bindio (lift_res (ota_check_end oj end_frame)) (\<lambda>_.
       ret \<lparr>or_job_id = oj_job_id oj, or_bytes = length img, or_sha256 = hex (ota_digest sha img),
            or_partition = oj_partition oj, or_restart_required = True,
            or_completion_evidence = evidence\<rparr>))))))) w (\<lambda>out l. ?ok l)"
      by (rule run_log_bindio [OF tell], rule run_log_bindio [OF asked], rule run_log_bind_lift,
          rule run_log_bindio [OF tell], simp only: append.assoc [symmetric], rule transfer [OF size])
         (auto intro!: emits_intros quiet split: prod.split)
  qed
qed

text \<open>Claim C23. The request that makes the device boot the new image is sent at most once, and only after
  the device has confirmed every byte of it: whatever replies, timeouts, resumed offsets and failures
  occur, what was transmitted at the confirmed offsets before that request is exactly the image.\<close>

theorem ota_end_after_confirmation:
  "ota_log_ok img (w_log (snd (ota_update pick img expected_sha256 project_name version cb
     \<lparr>w_replies = replies, w_log = []\<rparr>)))"
  using ota_update_log [of pick img expected_sha256 project_name version cb "\<lparr>w_replies = replies, w_log = []\<rparr>"]
  by (auto simp: run_log_def)

section \<open>What a successful update rests on\<close>

definition ota_evidence_ok :: "ota_result \<Rightarrow> frame res \<Rightarrow> json event list \<Rightarrow> bool" where
  "ota_evidence_ok r reply after \<longleftrightarrow>
     (case or_completion_evidence r of
        Ota_end_response \<Rightarrow>
          (\<exists>f. reply = Inr f \<and> has_type f (ota_type_code OtaType_END_RESPONSE)
             \<and> uint_at 4 0 (fr_payload f) = or_job_id r \<and> sint_at 4 4 (fr_payload f) = 0) \<and> after = []
      | Ota_device_job \<Rightarrow>
          (\<exists>e f d. reply = Inl e \<and> is_timeout e
             \<and> after = [Exchange (job_query (int (or_job_id r)) False) (Inr f)]
             \<and> job_reply f = Inr d \<and> job_succeeded d)
      | Ota_session_close \<Rightarrow> (\<exists>e. reply = Inl e \<and> is_os_error e \<and> \<not> is_timeout e) \<and> after = [])"

lemma ota_end_Returned:
  assumes "ota_end oj w = (Returned (evidence, end_frame), v)" and "ota_check_end oj end_frame = Inr ()"
  obtains reply after where "w_log v = w_log w @ Exchange (ota_request OtaType_END []) reply # after"
    and "ota_evidence_ok \<lparr>or_job_id = oj_job_id oj, or_bytes = n, or_sha256 = digest,
           or_partition = oj_partition oj, or_restart_required = True,
           or_completion_evidence = evidence\<rparr> reply after"
proof (cases "w_replies w")
  case Nil
  with assms(1) show thesis by (simp add: ota_end_def catch_def bindio_def ask_def)
next
  case (Cons reply rest)
  show thesis
  proof (cases reply)
    case (Inr f)
    with Cons assms show thesis
      by (intro that [of reply "[]"])
         (auto simp: ota_end_def catch_def bindio_def ask_def ret_def ota_check_end_def Let_def res_simps
            ota_evidence_ok_def)
  next
    case (Inl e)
    let ?w = "w\<lparr>w_replies := rest, w_log := w_log w @ [Exchange (ota_request OtaType_END []) (Inl e)]\<rparr>"
    from Cons Inl have raised: "bindio (ask (ota_request OtaType_END []))
        (\<lambda>end_frame. ret (Ota_end_response, Some end_frame)) w = (Raised e, ?w)"
      by (simp add: bindio_def ask_def)
    show thesis
    proof (cases "is_timeout e")
      case True
      with assms(1) raised obtain d where "job (int (oj_job_id oj)) False ?w = (Returned d, v)"
        "job_succeeded d" "evidence = Ota_device_job"
        by (auto simp: ota_end_def catch_def bindio_Returned)
      with True show thesis
        by (auto simp: job_def bindio_Returned ask_Returned ota_evidence_ok_def
            intro!: that [of "Inl e" "[Exchange (job_query (int (oj_job_id oj)) False) (Inr _)]"])
    next
      case False
      with assms(1) raised have "is_os_error e" "evidence = Ota_session_close" "v = ?w"
        by (auto simp: ota_end_def catch_def split: if_splits)
      with False show thesis
        by (intro that [of "Inl e" "[]"]) (simp_all add: ota_evidence_ok_def)
    qed
  qed
qed

lemma ota_transfer_Returned:
  assumes "ota_transfer pick cb oj img w = (Returned (evidence, end_frame), v)"
    and "ota_check_end oj end_frame = Inr ()" and "length img < 256 ^ 4"
    and "fold ota_observe (w_log w) ([], 0) = ([], 0)"
  obtains middle reply after where
    "w_log v = w_log w @ middle @ Exchange (ota_request OtaType_END []) reply # after"
    and "ota_confirmed (w_log w @ middle) = img"
    and "ota_evidence_ok \<lparr>or_job_id = oj_job_id oj, or_bytes = n, or_sha256 = digest,
           or_partition = oj_partition oj, or_restart_required = True,
           or_completion_evidence = evidence\<rparr> reply after"
proof -
  from assms(1) obtain u1 u2 p where runs: "ota_loop pick cb oj img 0 w = (Returned (), u1)"
    "notify cb p u1 = (Returned (), u2)" "ota_end oj u2 = (Returned (evidence, end_frame), v)"
    by (auto simp: ota_transfer_def bindio_Returned)
  obtain l x where l: "w_log u1 = w_log w @ l" "length img \<le> x" "fold ota_observe l (take 0 img, 0) = (img, x)"
    using ota_loop_log [OF runs(1), of 0] assms(3) by auto
  obtain q where q: "w_log u2 = w_log u1 @ q" "q = [] \<or> q = [Notify p]"
    using runs(2) by (rule notify_run)
  obtain reply after where "w_log v = w_log u2 @ Exchange (ota_request OtaType_END []) reply # after"
    "ota_evidence_ok \<lparr>or_job_id = oj_job_id oj, or_bytes = n, or_sha256 = digest,
           or_partition = oj_partition oj, or_restart_required = True,
           or_completion_evidence = evidence\<rparr> reply after"
    by (rule ota_end_Returned [OF runs(3) assms(2)]) (rule that)
  with l q assms(4) show thesis
    by (intro that [of "l @ q" reply after]) (auto simp: ota_confirmed_def)
qed

text \<open>Claim C24. An update that reports success has sent the size and the digest of the image, has seen the
  device confirm every byte of it, and has one of the three kinds of evidence it reports: the
  final response with the job of this transfer and no error, a job query that says the job succeeded
  after a timeout, or the loss of the link on the final request.\<close>

theorem ota_success_evidence:
  assumes "ota_update pick img expected_sha256 project_name version cb \<lparr>w_replies = replies, w_log = []\<rparr>
    = (Returned r, v)"
  shows "or_bytes r = length img \<and> or_sha256 r = hex (ota_digest expected_sha256 img) \<and>
    (\<exists>message before f middle reply after.
       ota_begin_message img (ota_digest expected_sha256 img) project_name version = Inr message
       \<and> w_log v = before @ Exchange (ota_request OtaType_BEGIN message) (Inr f) # middle
            @ Exchange (ota_request OtaType_END []) reply # after
       \<and> ota_confirmed (before @ Exchange (ota_request OtaType_BEGIN message) (Inr f) # middle) = img
       \<and> ota_evidence_ok r reply after)"
proof -
  let ?d = "ota_digest expected_sha256 img"
  from assms obtain message f oj evidence end_frame p q u1 u2 u3 where
    message: "ota_begin_message img ?d project_name version = Inr message"
    and runs: "notify cb p \<lparr>w_replies = replies, w_log = []\<rparr> = (Returned (), u1)"
      "ask (ota_request OtaType_BEGIN message) u1 = (Returned f, u2)"
      "notify cb q u2 = (Returned (), u3)"
      "ota_transfer pick cb oj img u3 = (Returned (evidence, end_frame), v)"
      "ota_check_end oj end_frame = Inr ()"
    and r: "r = \<lparr>or_job_id = oj_job_id oj, or_bytes = length img, or_sha256 = hex ?d,
           or_partition = oj_partition oj, or_restart_required = True,
           or_completion_evidence = evidence\<rparr>"
    by (auto simp: ota_update_def Let_def bindio_Returned on_raise_Returned)
  have size: "length img < 256 ^ 4"
    using message by (auto simp: ota_begin_message_def bindr_eq_Inr pack_uint_def split: if_splits)
  obtain l1 where l1: "w_log u1 = l1" "l1 = [] \<or> l1 = [Notify p]"
    using runs(1) by (rule notify_run) (auto intro: that)
  have l2: "w_log u2 = w_log u1 @ [Exchange (ota_request OtaType_BEGIN message) (Inr f)]"
    using runs(2) by (auto simp: ask_Returned)
  obtain l3 where l3: "w_log u3 = w_log u2 @ l3" "l3 = [] \<or> l3 = [Notify q]"
    using runs(3) by (rule notify_run)
  have idle: "fold ota_observe (w_log u3) ([], 0) = ([], 0)"
    using l1 l2 l3 by auto
  obtain middle reply after where
    "w_log v = w_log u3 @ middle @ Exchange (ota_request OtaType_END []) reply # after"
    "ota_confirmed (w_log u3 @ middle) = img" "ota_evidence_ok r reply after"
    by (rule ota_transfer_Returned [OF runs(4,5) size idle, where n = "length img" and digest = "hex ?d", folded r])
       (rule that)
  with message l1 l2 l3 r show ?thesis
    by (intro conjI exI [of _ message] exI [of _ l1] exI [of _ f] exI [of _ "l3 @ middle"] exI [of _ reply]
        exI [of _ after]) auto
qed

text \<open>A run in which the data response and the final response are lost: the status of the device
  shows that the chunk arrived, and the job query that the image was accepted.\<close>

definition ota_reply :: "channel \<Rightarrow> nat \<Rightarrow> bytes \<Rightarrow> frame" where
  "ota_reply ch ty payload = \<lparr>fr_channel = int (channel_code ch), fr_type = int ty, fr_flags = 0,
     fr_session_id = 1, fr_request_id = 1, fr_stream_id = 0, fr_sequence = 1, fr_payload = payload\<rparr>"

definition ota_begun :: frame where
  "ota_begun = ota_reply Channel_OTA (ota_type_code OtaType_BEGIN_RESPONSE) [9, 0, 0, 0, 3, 0, 0, 0, 0, 8, 0]"

definition ota_arrived :: frame where
  "ota_arrived = ota_reply Channel_OTA (ota_type_code OtaType_STATUS)
     [9, 0, 0, 0, 3, 0, 0, 0, 3, 0, 0, 0, 0, 3, 1, 0, 0, 0, 0, 0]"

definition ota_job_done :: frame where
  "ota_job_done = ota_reply Channel_CONTROL (control_type_code ControlType_JOB_STATUS)
     [9, 0, 0, 0, 1, 0, 2, 0, 0, 3, 0, 0, 0, 0, 0, 0]"

definition ota_script :: "frame res list" where
  "ota_script = [Inr ota_begun, Inl (TimeoutError ''request''), Inr ota_arrived,
     Inl (TimeoutError ''request''), Inr ota_job_done]"

definition ota_sample_job :: ota_job where
  "ota_sample_job = \<lparr>oj_job_id = 9, oj_chunk_size = 2048, oj_partition = []\<rparr>"

definition ota_sample :: ota_result where
  "ota_sample = \<lparr>or_job_id = 9, or_bytes = 3, or_sha256 = hex (replicate 32 7), or_partition = [],
     or_restart_required = True, or_completion_evidence = Ota_device_job\<rparr>"

lemma ota_sample_accept: "ota_accept [1, 2, 3] ota_begun = Inr ota_sample_job"
  by code_simp

lemma ota_sample_status:
  "decode_ota_status ota_arrived = Inr \<lparr>oi_job_id = 9, oi_bytes_total = 3, oi_bytes_received = 3,
     oi_progress_permille = 768, oi_active = True, oi_result = 0, oi_partition = []\<rparr>"
  by (simp add: decode_ota_status_def ota_arrived_def ota_reply_def has_type_def uint_at_def sint_at_def
      ascii_decode_def Let_def pyslice_def le_nat.simps)

lemma ota_sample_end: "\<exists>d. job_reply ota_job_done = Inr d \<and> job_succeeded d"
  by (simp add: job_reply_def decode_job_def ota_job_done_def ota_reply_def has_type_def uint_at_def
      sint_at_def Let_def pyslice_def job_succeeded_def dget_def dget_default_def item_def u_def jstr_def
      enum_of_def job_state_members_def le_nat.simps jnat_def)

lemma ota_sample_message: "\<exists>m. ota_begin_message [1, 2, 3] (replicate 32 7) [112] [49] = Inr m"
  by (simp add: ota_begin_message_def encode_text_def utf8_char_def pack_uint_def)

lemma ota_sample_batch:
  "ota_batch [1, 2, 3] 2048 0 (request_count 2048) = [(0, [1, 2, 3])]"
  by (simp add: request_count_def OTA_IN_FLIGHT_BYTES_def numeral_2_eq_2 pyslice_def)

lemma ota_sample_step:
  "ota_step pick None ota_sample_job [1, 2, 3] 0
     \<lparr>w_replies = Inl (TimeoutError m) # Inr ota_arrived # rest, w_log = l\<rparr>
   = (Returned 3, \<lparr>w_replies = rest, w_log = l @ [Exchange (ota_data_request (0, [1, 2, 3])) (Inl (TimeoutError m)),
       Exchange (ota_request OtaType_STATUS []) (Inr ota_arrived)]\<rparr>)"
  by (simp add: ota_step_def ota_sample_job_def ota_sample_batch ota_wait_def gather_def attempt_def
      gathered_def raised_def List.map_filter_def ota_resume_def ota_status_def ota_sample_status
      chunk_end_def bindio_def catch_def run_ask run_ret run_throw notify_def)

lemma ota_sample_loop:
  "ota_loop pick None ota_sample_job [1, 2, 3] 0
     \<lparr>w_replies = Inl (TimeoutError m) # Inr ota_arrived # rest, w_log = l\<rparr>
   = (Returned (), \<lparr>w_replies = rest, w_log = l @ [Exchange (ota_data_request (0, [1, 2, 3])) (Inl (TimeoutError m)),
       Exchange (ota_request OtaType_STATUS []) (Inr ota_arrived)]\<rparr>)"
  by (simp add: ota_loop.simps bindio_def ota_sample_step run_ret)

lemma ota_sample_run:
  "\<exists>v. ota_update (\<lambda>_. 0) [1, 2, 3] (Some (replicate 32 7)) [112] [49] None
     \<lparr>w_replies = ota_script, w_log = []\<rparr> = (Returned ota_sample, v)"
proof -
  obtain d where d: "job_reply ota_job_done = Inr d" "job_succeeded d" using ota_sample_end by blast
  obtain m where m: "ota_begin_message [1, 2, 3] (replicate 32 7) [112] [49] = Inr m"
    using ota_sample_message by blast
  have digest: "ota_digest (Some (replicate 32 7)) [1, 2, 3] = replicate 32 7"
    by (simp add: ota_digest_def numeral_eq_Suc)
  have id: "oj_job_id ota_sample_job = 9" by (simp add: ota_sample_job_def)
  have fin: "\<exists>v. on_raise (ota_transfer (\<lambda>_. 0) None ota_sample_job [1, 2, 3]) ota_cancel
      \<lparr>w_replies = tl ota_script, w_log = l\<rparr> = (Returned (Ota_device_job, None), v)" for l
    by (simp add: on_raise_Returned ota_transfer_def ota_script_def ota_sample_loop bindio_def notify_def
        ota_end_def catch_def run_ask job_def id d run_ret throw_if_def)
  have script: "ota_script = Inr ota_begun # tl ota_script" by (simp add: ota_script_def)
  show ?thesis
    unfolding ota_update_def digest Let_def m
    using fin [of "[Exchange (ota_request OtaType_BEGIN m) (Inr ota_begun)]"]
    by (subst script) (auto simp: run_notify run_bind_ask ota_sample_accept bindio_def [of "on_raise _ _"]
        ota_check_end_def ota_sample_def ota_sample_job_def)
qed

theorem ota_success_evidence_witness:
  "\<exists>v. ota_update (\<lambda>_. 0) [1, 2, 3] (Some (replicate 32 7)) [112] [49] None
      \<lparr>w_replies = ota_script, w_log = []\<rparr> = (Returned ota_sample, v)
    \<and> (\<exists>message before f middle reply after.
       w_log v = before @ Exchange (ota_request OtaType_BEGIN message) (Inr f) # middle
            @ Exchange (ota_request OtaType_END []) reply # after
       \<and> ota_confirmed (before @ Exchange (ota_request OtaType_BEGIN message) (Inr f) # middle) = [1, 2, 3]
       \<and> ota_evidence_ok ota_sample reply after)"
proof -
  obtain v where run: "ota_update (\<lambda>_. 0) [1, 2, 3] (Some (replicate 32 7)) [112] [49] None
      \<lparr>w_replies = ota_script, w_log = []\<rparr> = (Returned ota_sample, v)"
    using ota_sample_run by blast
  from ota_success_evidence [OF this] run show ?thesis by blast
qed

end
