(* ===== verification/Operation_Identity.thy ===== *)
theory Operation_Identity
  imports Protocol_Types Json_Value Sha256 "HOL-Library.List_Lexorder"
begin

text \<open>
  \<^verbatim>\<open>operation_identity.py\<close>: the fingerprint that binds an operation identifier to one request. A
  request is turned into a tagged tree without bytes and with sorted keys, printed as compact JSON
  and hashed. The printer is \<^verbatim>\<open>json.dumps\<close> with the options the source gives; the decimal text of a
  float is an argument.
\<close>

section \<open>Canonical trees\<close>

fun canonical :: "json \<Rightarrow> json" where
  "canonical (JBytes b) = JList [jstr ''bytes'', jnat (length b), jstr (hex (sha256 b))]"
| "canonical (JDict d) =
     JList [jstr ''object'', JList (map (\<lambda>kv. JList [JStr (fst kv), snd kv])
              (sort_key fst (map (\<lambda>kv. (fst kv, canonical (snd kv))) d)))]"
| "canonical (JList vs) = JList [jstr ''array'', JList (map canonical vs)]"
| "canonical JNull = JList [jstr ''NoneType'', JNull]"
| "canonical (JStr s) = JList [jstr ''str'', JStr s]"
| "canonical (JInt n) = JList [jstr ''int'', JInt n]"
| "canonical (JFloat x) = JList [jstr ''float'', JFloat x]"
| "canonical (JBool b) = JList [jstr ''bool'', JBool b]"

section \<open>Compact JSON\<close>

text \<open>A code point inside a string literal (\<^verbatim>\<open>ensure_ascii=False\<close>).\<close>

definition hex4 :: "nat \<Rightarrow> ustr" where
  "hex4 c = u [hex_digit (c div 4096 mod 16), hex_digit (c div 256 mod 16), hex_digit (c div 16 mod 16),
               hex_digit (c mod 16)]"

definition json_char :: "nat \<Rightarrow> ustr" where
  "json_char c =
     (if c = 34 then [92, 34] else if c = 92 then [92, 92] else if c = 10 then [92, 110]
      else if c = 13 then [92, 114] else if c = 9 then [92, 116] else if c = 8 then [92, 98]
      else if c = 12 then [92, 102] else if c < 32 then [92, 117] @ hex4 c
      else [c])"

definition json_string :: "ustr \<Rightarrow> ustr" where
  "json_string s = [34] @ concat (map json_char s) @ [34]"

fun commas :: "ustr list \<Rightarrow> ustr" where
  "commas [] = []"
| "commas [x] = x"
| "commas (x # y # xs) = x @ [44] @ commas (y # xs)"

text \<open>Bytes are refused with a \<^verbatim>\<open>TypeError\<close>; the items of a dictionary are printed in the order of
  their keys.\<close>

fun dumps :: "(rat \<Rightarrow> string) \<Rightarrow> json \<Rightarrow> ustr res" where
  "dumps fr JNull = Inr (u ''null'')"
| "dumps fr (JBool b) = Inr (u (if b then ''true'' else ''false''))"
| "dumps fr (JInt n) = Inr (u (str_int n))"
| "dumps fr (JFloat x) = Inr (u (fr x))"
| "dumps fr (JStr s) = Inr (json_string s)"
| "dumps fr (JBytes b) = Inl (TypeError ''Object of type bytes is not JSON serializable'')"
| "dumps fr (JList vs) = bindr (mapr (dumps fr) vs) (\<lambda>ts. Inr ([91] @ commas ts @ [93]))"
| "dumps fr (JDict d) =
     bindr (mapr (\<lambda>kv. bindr (dumps fr (snd kv)) (\<lambda>t. Inr (fst kv, t))) d) (\<lambda>ts.
     Inr ([123] @ commas (map (\<lambda>kt. json_string (fst kt) @ [58] @ snd kt) (sort_key fst ts)) @ [125]))"

section \<open>Fingerprints\<close>

definition IDENTITY_KEYS :: "string list" where
  "IDENTITY_KEYS = [''device_id'', ''actor_type'', ''actor_name'', ''actor_scopes'', ''action'', ''params'']"

definition request_identity :: "dict \<Rightarrow> json" where
  "request_identity request = JDict (map (\<lambda>key. (u key, dget request key)) IDENTITY_KEYS)"

definition request_encoding :: "(rat \<Rightarrow> string) \<Rightarrow> dict \<Rightarrow> ustr res" where
  "request_encoding fr request = dumps fr (canonical (request_identity request))"

definition request_fingerprint :: "(rat \<Rightarrow> string) \<Rightarrow> dict \<Rightarrow> ustr res" where
  "request_fingerprint fr request =
     bindr (request_encoding fr request) (\<lambda>text.
     case utf8_encode text of
       None \<Rightarrow> Inl UnicodeError
     | Some encoded \<Rightarrow> Inr (u (''sha256:v1:'' @ hex (sha256 encoded))))"

definition require_same_request :: "ustr option \<Rightarrow> ustr \<Rightarrow> unit res" where
  "require_same_request existing fingerprint = raise_if (existing \<noteq> Some fingerprint) OperationConflict"

end
