(* ===== verification/Store.thy ===== *)
theory Store
  imports Stateful Operation_Identity Boot_Identity
begin

text \<open>
  The durable state of the gateway (\<^verbatim>\<open>store.py\<close>): the SQLite tables as lists of rows in insertion
  order, with the keys and unique constraints of \<^verbatim>\<open>migrations.py\<close>, and one operation per method.
  A JSON column holds the tree that \<^verbatim>\<open>json.loads\<close> gives back. Readings of the clock are arguments.
\<close>

section \<open>Rows\<close>

record device_row =
  dv_device_id :: ustr
  dv_alias :: "ustr option"
  dv_first_seen_ns :: int
  dv_last_seen_ns :: int
  dv_cached :: dict

record session_row =
  sn_id :: nat
  sn_device_id :: ustr
  sn_boot_id :: ustr
  sn_session_id :: ustr
  sn_endpoint :: "ustr option"
  sn_started_ns :: int
  sn_ended_ns :: "int option"

record op_row =
  op_operation_id :: ustr
  op_device_id :: ustr
  op_actor_type :: ustr
  op_actor_name :: ustr
  op_action :: ustr
  op_params :: json
  op_status :: string
  op_result :: json
  op_error :: "ustr option"
  op_created_ns :: int
  op_started_ns :: "int option"
  op_finished_ns :: "int option"
  op_queue_position :: int
  op_progress :: json
  op_fingerprint :: "ustr option"

record event_row =
  ev_event_id :: nat
  ev_device_id :: "ustr option"
  ev_category :: ustr
  ev_host_receive_ns :: int
  ev_payload :: dict

record lease_row =
  ml_lease_id :: ustr
  ml_device_id :: ustr
  ml_token_hash :: ustr
  ml_purpose :: ustr
  ml_state :: string
  ml_endpoint :: json
  ml_evidence :: json
  ml_previous_boot_id :: "ustr option"
  ml_expected_version :: "ustr option"
  ml_actor_type :: ustr
  ml_actor_name :: ustr
  ml_created_ns :: int
  ml_expires_ns :: int
  ml_finished_ns :: "int option"
  ml_error :: "ustr option"

record audit_row =
  au_audit_id :: nat
  au_actor_type :: ustr
  au_actor_name :: ustr
  au_action :: ustr
  au_details :: json
  au_created_ns :: int

record token_row =
  at_token_id :: ustr
  at_name :: ustr
  at_token_hash :: ustr
  at_created_ns :: int
  at_last_used_ns :: "int option"
  at_revoked_ns :: "int option"
  at_scopes :: json

text \<open>\<open>st_sequences\<close>: the last identifier given out, for the tables with \<^verbatim>\<open>AUTOINCREMENT\<close>.\<close>

record store =
  st_settings :: "(ustr \<times> json) list"
  st_devices :: "device_row list"
  st_sessions :: "session_row list"
  st_session_seq :: nat
  st_operations :: "op_row list"
  st_events :: "event_row list"
  st_event_seq :: nat
  st_leases :: "lease_row list"
  st_audits :: "audit_row list"
  st_audit_seq :: nat
  st_tokens :: "token_row list"
  st_reconciliations :: "(ustr \<times> ustr \<times> dict) list"

definition store_init :: store where
  "store_init = \<lparr>st_settings = [], st_devices = [], st_sessions = [], st_session_seq = 0,
     st_operations = [], st_events = [], st_event_seq = 0, st_leases = [], st_audits = [],
     st_audit_seq = 0, st_tokens = [], st_reconciliations = []\<rparr>"

section \<open>Queries on tables\<close>

text \<open>\<^verbatim>\<open>SELECT ... WHERE key = ?\<close> on a unique column, and \<^verbatim>\<open>UPDATE ... WHERE key = ?\<close>.\<close>

definition select :: "('r \<Rightarrow> 'k) \<Rightarrow> 'k \<Rightarrow> 'r list \<Rightarrow> 'r option" where
  "select key k rows = find (\<lambda>r. key r = k) rows"

definition update_where :: "('r \<Rightarrow> 'k) \<Rightarrow> 'k \<Rightarrow> ('r \<Rightarrow> 'r) \<Rightarrow> 'r list \<Rightarrow> 'r list" where
  "update_where key k f rows = map (\<lambda>r. if key r = k then f r else r) rows"

text \<open>\<^verbatim>\<open>_json\<close> refuses bytes; what it accepts comes back from \<^verbatim>\<open>_loads\<close>.\<close>

fun storable :: "json \<Rightarrow> bool" where
  "storable (JBytes b) = False"
| "storable (JList vs) = list_all storable vs"
| "storable (JDict d) = list_all (\<lambda>kv. storable (snd kv)) d"
| "storable v = True"

definition to_json :: "json \<Rightarrow> json res" where
  "to_json v = (if storable v then Inr v else Inl (TypeError ''Object of type bytes is not JSON serializable''))"

definition to_json_dict :: "dict \<Rightarrow> dict res" where
  "to_json_dict d = bindr (to_json (JDict d)) (\<lambda>_. Inr d)"

section \<open>Settings\<close>

definition get_setting :: "ustr \<Rightarrow> json \<Rightarrow> (store, json) st" where
  "get_setting key v = sget (\<lambda>s. case map_of (st_settings s) key of Some x \<Rightarrow> x | None \<Rightarrow> v)"

definition set_setting :: "ustr \<Rightarrow> json \<Rightarrow> (store, unit) st" where
  "set_setting key v =
     sbind (slift (to_json v)) (\<lambda>x.
     smod (\<lambda>s. s\<lparr>st_settings := dput (st_settings s) key x\<rparr>))"

section \<open>Devices and sessions\<close>

text \<open>What \<^verbatim>\<open>remember_device\<close> reads of its argument; \<open>de_info\<close> is the whole dictionary.\<close>

record device_entry =
  de_device_id :: ustr
  de_boot_id :: "int option"
  de_session_id :: "int option"
  de_endpoint :: "ustr option"
  de_info :: dict

definition str_option :: "int option \<Rightarrow> ustr" where
  "str_option x = u (case x of None \<Rightarrow> ''None'' | Some n \<Rightarrow> str_int n)"

text \<open>\<^verbatim>\<open>cached.update(info)\<close>.\<close>

definition dupdate :: "dict \<Rightarrow> dict \<Rightarrow> dict" where
  "dupdate d e = fold (\<lambda>(k, v) d. dput d k v) e d"

definition upsert_device :: "int \<Rightarrow> ustr \<Rightarrow> dict \<Rightarrow> store \<Rightarrow> store" where
  "upsert_device now device_id cached s =
     (case select dv_device_id device_id (st_devices s) of
        None \<Rightarrow> s\<lparr>st_devices := st_devices s @ [\<lparr>dv_device_id = device_id, dv_alias = None,
                  dv_first_seen_ns = now, dv_last_seen_ns = now, dv_cached = cached\<rparr>]\<rparr>
      | Some _ \<Rightarrow> s\<lparr>st_devices := update_where dv_device_id device_id
                  (\<lambda>r. r\<lparr>dv_last_seen_ns := now, dv_cached := cached\<rparr>) (st_devices s)\<rparr>)"

definition active_session :: "ustr \<Rightarrow> store \<Rightarrow> session_row option" where
  "active_session device_id s =
     find (\<lambda>r. sn_device_id r = device_id \<and> sn_ended_ns r = None) (rev (st_sessions s))"

definition insert_session :: "int \<Rightarrow> device_entry \<Rightarrow> store \<Rightarrow> store" where
  "insert_session now entry s =
     s\<lparr>st_session_seq := Suc (st_session_seq s),
       st_sessions := st_sessions s @ [\<lparr>sn_id = Suc (st_session_seq s), sn_device_id = de_device_id entry,
         sn_boot_id = str_option (de_boot_id entry), sn_session_id = str_option (de_session_id entry),
         sn_endpoint = de_endpoint entry, sn_started_ns = now, sn_ended_ns = None\<rparr>]\<rparr>"

definition end_session :: "int \<Rightarrow> nat \<Rightarrow> store \<Rightarrow> store" where
  "end_session now i s =
     s\<lparr>st_sessions := update_where sn_id i (\<lambda>r. r\<lparr>sn_ended_ns := Some now\<rparr>) (st_sessions s)\<rparr>"

definition follow_session :: "int \<Rightarrow> device_entry \<Rightarrow> store \<Rightarrow> store" where
  "follow_session now entry s =
     (case de_session_id entry of
        None \<Rightarrow> s
      | Some _ \<Rightarrow>
          (case active_session (de_device_id entry) s of
             None \<Rightarrow> insert_session now entry s
           | Some active \<Rightarrow>
               if sn_session_id active \<noteq> str_option (de_session_id entry)
               then insert_session now entry (end_session now (sn_id active) s) else s))"

definition remember_device :: "int \<Rightarrow> device_entry \<Rightarrow> (store, unit) st" where
  "remember_device now entry =
     sbind (sget (\<lambda>s. case select dv_device_id (de_device_id entry) (st_devices s) of
                        Some r \<Rightarrow> dv_cached r | None \<Rightarrow> [])) (\<lambda>cached.
     sbind (slift (to_json_dict (dupdate cached (de_info entry)))) (\<lambda>doc.
     sbind (smod (upsert_device now (de_device_id entry) doc)) (\<lambda>_.
     smod (follow_session now entry))))"

definition set_alias :: "ustr \<Rightarrow> ustr option \<Rightarrow> (store, unit) st" where
  "set_alias device_id alias =
     (let a = (case alias of Some [] \<Rightarrow> None | x \<Rightarrow> x) in
      sbind (sget (\<lambda>s. a \<noteq> None \<and> list_ex (\<lambda>r. dv_device_id r = device_id) (st_devices s)
                      \<and> list_ex (\<lambda>r. dv_device_id r \<noteq> device_id \<and> dv_alias r = a) (st_devices s))) (\<lambda>taken.
      sbind (sraise_if taken (ValueError ''device alias is already in use'')) (\<lambda>_.
      smod (\<lambda>s. s\<lparr>st_devices := update_where dv_device_id device_id (\<lambda>r. r\<lparr>dv_alias := a\<rparr>) (st_devices s)\<rparr>))))"

definition remove_device :: "ustr \<Rightarrow> (store, bool) st" where
  "remove_device device_id =
     sbind (sget (\<lambda>s. select dv_device_id device_id (st_devices s) \<noteq> None)) (\<lambda>known.
     sbind (smod (\<lambda>s. s\<lparr>st_devices := filter (\<lambda>r. dv_device_id r \<noteq> device_id) (st_devices s),
                       st_settings := filter (\<lambda>kv. fst kv \<noteq> u ''status.'' @ device_id) (st_settings s)\<rparr>)) (\<lambda>_.
     sret known))"

definition cached_devices :: "(store, dict list) st" where
  "cached_devices = sget (\<lambda>s. map (\<lambda>r. dupdate (dv_cached r)
       [item ''alias'' (case dv_alias r of None \<Rightarrow> JNull | Some a \<Rightarrow> JStr a),
        item ''last_seen_ns'' (JInt (dv_last_seen_ns r)), item ''cached'' (JBool True)])
     (sort_key (\<lambda>r. case dv_alias r of Some a \<Rightarrow> a | None \<Rightarrow> dv_device_id r) (st_devices s)))"

definition resolve_device :: "ustr \<Rightarrow> (store, ustr) st" where
  "resolve_device v =
     sbind (sget (\<lambda>s. find (\<lambda>r. dv_device_id r = v \<or> dv_alias r = Some v) (st_devices s))) (\<lambda>row.
     case row of None \<Rightarrow> sraise (KeyError ''unknown device or alias'') | Some r \<Rightarrow> sret (dv_device_id r))"

section \<open>Events\<close>

text \<open>\<^verbatim>\<open>int(payload.get("host_receive_wall_ns") or time.time_ns())\<close>, where the entry is an integer or
  absent.\<close>

definition event_time :: "int \<Rightarrow> dict \<Rightarrow> int" where
  "event_time now payload =
     (case dget payload ''host_receive_wall_ns'' of JInt n \<Rightarrow> if n = 0 then now else n | _ \<Rightarrow> now)"

definition event_item :: "event_row \<Rightarrow> dict" where
  "event_item r = dupdate (ev_payload r)
     [item ''event_id'' (jnat (ev_event_id r)), item ''category'' (JStr (ev_category r)),
      item ''host_receive_ns'' (JInt (ev_host_receive_ns r))]"

definition append_event :: "int \<Rightarrow> ustr \<Rightarrow> dict \<Rightarrow> ustr option \<Rightarrow> (store, dict) st" where
  "append_event now category payload device_id =
     sbind (slift (to_json_dict payload)) (\<lambda>doc.
     sbind (sget (\<lambda>s. \<lparr>ev_event_id = Suc (st_event_seq s), ev_device_id = device_id, ev_category = category,
                      ev_host_receive_ns = event_time now payload, ev_payload = doc\<rparr>)) (\<lambda>row.
     sbind (smod (\<lambda>s. s\<lparr>st_event_seq := ev_event_id row, st_events := st_events s @ [row]\<rparr>)) (\<lambda>_.
     sret (event_item row))))"

definition event_limit :: "int \<Rightarrow> nat" where
  "event_limit limit = nat (max 1 (min limit 5000))"

definition event_matches :: "ustr option \<Rightarrow> ustr list \<Rightarrow> event_row \<Rightarrow> bool" where
  "event_matches device_id categories r \<longleftrightarrow>
     (case device_id of None \<Rightarrow> True | Some d \<Rightarrow> d = [] \<or> ev_device_id r = Some d)
     \<and> (categories = [] \<or> ev_category r \<in> set categories)"

definition oldest_event :: "store \<Rightarrow> nat" where
  "oldest_event s = (case st_events s of [] \<Rightarrow> 0 | r # rs \<Rightarrow> Min (set (map ev_event_id (r # rs))))"

definition events_after :: "int \<Rightarrow> ustr option \<Rightarrow> ustr list \<Rightarrow> int \<Rightarrow> (store, dict list \<times> bool) st" where
  "events_after cursor device_id categories limit =
     sget (\<lambda>s. (map event_item (take (event_limit limit)
                 (sort_key ev_event_id (filter (\<lambda>r. int (ev_event_id r) > cursor \<and> event_matches device_id categories r)
                   (st_events s)))),
               cursor \<noteq> 0 \<and> oldest_event s \<noteq> 0 \<and> cursor < int (oldest_event s) - 1))"

definition latest_events :: "ustr option \<Rightarrow> ustr list \<Rightarrow> int \<Rightarrow> (store, dict list) st" where
  "latest_events device_id categories limit =
     sget (\<lambda>s. map event_item (rev (take (event_limit limit)
       (rev (sort_key ev_event_id (filter (event_matches device_id categories) (st_events s)))))))"

section \<open>Operations\<close>

text \<open>A row as \<^verbatim>\<open>_operation_row\<close> shows it: the boot identifiers of result and progress have their
  texts beside them, the parameters are as stored.\<close>

definition operation_row :: "op_row \<Rightarrow> op_row" where
  "operation_row r = r\<lparr>op_result := boot_id_copy (op_result r), op_progress := boot_id_copy (op_progress r)\<rparr>"

definition operation :: "ustr \<Rightarrow> (store, op_row option) st" where
  "operation operation_id =
     sget (\<lambda>s. map_option operation_row (select op_operation_id operation_id (st_operations s)))"

record op_request =
  rq_operation_id :: ustr
  rq_device_id :: ustr
  rq_actor_type :: ustr
  rq_actor_name :: ustr
  rq_action :: ustr
  rq_params :: json
  rq_fingerprint :: "ustr option"
  rq_status :: string
  rq_created_ns :: int
  rq_queue_position :: int

definition op_request_dict :: "op_request \<Rightarrow> dict" where
  "op_request_dict r =
     [item ''operation_id'' (JStr (rq_operation_id r)), item ''device_id'' (JStr (rq_device_id r)),
      item ''actor_type'' (JStr (rq_actor_type r)), item ''actor_name'' (JStr (rq_actor_name r)),
      item ''action'' (JStr (rq_action r)), item ''params'' (rq_params r)]"

definition given_fingerprint :: "(rat \<Rightarrow> string) \<Rightarrow> op_request \<Rightarrow> ustr res" where
  "given_fingerprint fr r =
     (case rq_fingerprint r of
        Some (c # cs) \<Rightarrow> Inr (c # cs)
      | _ \<Rightarrow> request_fingerprint fr (op_request_dict r))"

definition new_op_row :: "op_request \<Rightarrow> json \<Rightarrow> ustr \<Rightarrow> op_row" where
  "new_op_row r params fingerprint =
     \<lparr>op_operation_id = rq_operation_id r, op_device_id = rq_device_id r, op_actor_type = rq_actor_type r,
      op_actor_name = rq_actor_name r, op_action = rq_action r, op_params = params, op_status = rq_status r,
      op_result = JNull, op_error = None, op_created_ns = rq_created_ns r, op_started_ns = None,
      op_finished_ns = None, op_queue_position = rq_queue_position r, op_progress = JNull,
      op_fingerprint = Some fingerprint\<rparr>"

definition insert_operation :: "op_row \<Rightarrow> (store, bool) st" where
  "insert_operation row =
     sbind (sget (\<lambda>s. select op_operation_id (op_operation_id row) (st_operations s) = None)) (\<lambda>fresh.
     sbind (smod (\<lambda>s. if fresh then s\<lparr>st_operations := st_operations s @ [row]\<rparr> else s)) (\<lambda>_.
     sret fresh))"

definition create_operation :: "(rat \<Rightarrow> string) \<Rightarrow> op_request \<Rightarrow> (store, op_row \<times> bool) st" where
  "create_operation fr r =
     sbind (slift (given_fingerprint fr r)) (\<lambda>fingerprint.
     sbind (slift (to_json (rq_params r))) (\<lambda>params.
     sbind (insert_operation (new_op_row r params fingerprint)) (\<lambda>created.
     sbind (operation (rq_operation_id r)) (\<lambda>stored.
     case stored of
       None \<Rightarrow> sraise AssertionError
     | Some row \<Rightarrow>
         sbind (slift (require_same_request (op_fingerprint row) fingerprint)) (\<lambda>_.
         sret (row, created))))))"

datatype op_change =
    Set_status string
  | Set_result json
  | Set_error ustr
  | Set_started_ns int
  | Set_finished_ns int
  | Set_queue_position int
  | Set_progress json

fun apply_change :: "op_change \<Rightarrow> op_row \<Rightarrow> op_row" where
  "apply_change (Set_status x) r = r\<lparr>op_status := x\<rparr>"
| "apply_change (Set_result x) r = r\<lparr>op_result := x\<rparr>"
| "apply_change (Set_error x) r = r\<lparr>op_error := Some x\<rparr>"
| "apply_change (Set_started_ns x) r = r\<lparr>op_started_ns := Some x\<rparr>"
| "apply_change (Set_finished_ns x) r = r\<lparr>op_finished_ns := Some x\<rparr>"
| "apply_change (Set_queue_position x) r = r\<lparr>op_queue_position := x\<rparr>"
| "apply_change (Set_progress x) r = r\<lparr>op_progress := x\<rparr>"

fun check_change :: "op_change \<Rightarrow> unit res" where
  "check_change (Set_result x) = bindr (to_json x) (\<lambda>_. Inr ())"
| "check_change (Set_progress x) = bindr (to_json x) (\<lambda>_. Inr ())"
| "check_change c = Inr ()"

definition update_operation :: "ustr \<Rightarrow> op_change list \<Rightarrow> (store, op_row) st" where
  "update_operation operation_id changes =
     sbind (slift (mapr check_change changes)) (\<lambda>_.
     sbind (smod (\<lambda>s. s\<lparr>st_operations := update_where op_operation_id operation_id (fold apply_change changes)
                         (st_operations s)\<rparr>)) (\<lambda>_.
     sbind (operation operation_id) (\<lambda>stored.
     case stored of None \<Rightarrow> sraise (KeyError ''operation'') | Some row \<Rightarrow> sret row)))"

text \<open>\<^verbatim>\<open>operations\<close>: latest first. SQL leaves the order of equal times open; the model takes the order
  of the rows. A negative limit is no limit.\<close>

definition operations :: "ustr option \<Rightarrow> int \<Rightarrow> (store, op_row list) st" where
  "operations device_id limit =
     sget (\<lambda>s. let rows = sort_key (\<lambda>r. - op_created_ns r)
                  (filter (\<lambda>r. case device_id of None \<Rightarrow> True | Some d \<Rightarrow> d = [] \<or> op_device_id r = d)
                    (st_operations s))
               in map operation_row (if limit < 0 then rows else take (nat limit) rows))"

section \<open>Maintenance leases\<close>

definition ACTIVE_LEASE_STATES :: "string list" where
  "ACTIVE_LEASE_STATES = [''detached'', ''flashing'', ''reattaching'', ''verifying'', ''expired_quarantined'']"

definition lease_active :: "lease_row \<Rightarrow> bool" where
  "lease_active r \<longleftrightarrow> ml_state r \<in> set ACTIVE_LEASE_STATES"

text \<open>The primary key and the unique index \<^verbatim>\<open>maintenance_one_active_per_device\<close>.\<close>

definition leases_ok :: "lease_row list \<Rightarrow> bool" where
  "leases_ok rows \<longleftrightarrow> distinct (map ml_lease_id rows)
     \<and> distinct (map ml_device_id (filter lease_active rows))"

definition write_leases :: "lease_row list \<Rightarrow> (store, unit) st" where
  "write_leases rows = sbind (sraise_if (\<not> leases_ok rows) IntegrityError) (\<lambda>_. smod (\<lambda>s. s\<lparr>st_leases := rows\<rparr>))"

definition maintenance_lease :: "ustr \<Rightarrow> (store, lease_row option) st" where
  "maintenance_lease lease_id = sget (\<lambda>s. select ml_lease_id lease_id (st_leases s))"

definition create_maintenance_lease :: "lease_row \<Rightarrow> (store, lease_row) st" where
  "create_maintenance_lease lease =
     sbind (slift (to_json (ml_endpoint lease))) (\<lambda>_.
     sbind (slift (to_json (ml_evidence lease))) (\<lambda>_.
     sbind (sget (\<lambda>s. st_leases s @ [lease\<lparr>ml_finished_ns := None, ml_error := None\<rparr>])) (\<lambda>rows.
     sbind (write_leases rows) (\<lambda>_.
     sbind (maintenance_lease (ml_lease_id lease)) (\<lambda>stored.
     sret (case stored of Some row \<Rightarrow> row | None \<Rightarrow> lease))))))"

datatype lease_change =
    Lease_state string
  | Lease_expires_ns int
  | Lease_finished_ns int
  | Lease_error "ustr option"
  | Lease_endpoint json
  | Lease_evidence json

fun apply_lease_change :: "lease_change \<Rightarrow> lease_row \<Rightarrow> lease_row" where
  "apply_lease_change (Lease_state x) r = r\<lparr>ml_state := x\<rparr>"
| "apply_lease_change (Lease_expires_ns x) r = r\<lparr>ml_expires_ns := x\<rparr>"
| "apply_lease_change (Lease_finished_ns x) r = r\<lparr>ml_finished_ns := Some x\<rparr>"
| "apply_lease_change (Lease_error x) r = r\<lparr>ml_error := x\<rparr>"
| "apply_lease_change (Lease_endpoint x) r = r\<lparr>ml_endpoint := x\<rparr>"
| "apply_lease_change (Lease_evidence x) r = r\<lparr>ml_evidence := x\<rparr>"

fun check_lease_change :: "lease_change \<Rightarrow> unit res" where
  "check_lease_change (Lease_endpoint x) = bindr (to_json x) (\<lambda>_. Inr ())"
| "check_lease_change (Lease_evidence x) = bindr (to_json x) (\<lambda>_. Inr ())"
| "check_lease_change c = Inr ()"

definition update_maintenance_lease :: "ustr \<Rightarrow> lease_change list \<Rightarrow> (store, lease_row) st" where
  "update_maintenance_lease lease_id changes =
     sbind (slift (mapr check_lease_change changes)) (\<lambda>_.
     sbind (sget (\<lambda>s. update_where ml_lease_id lease_id (fold apply_lease_change changes) (st_leases s))) (\<lambda>rows.
     sbind (write_leases rows) (\<lambda>_.
     sbind (maintenance_lease lease_id) (\<lambda>stored.
     case stored of None \<Rightarrow> sraise (KeyError ''maintenance lease'') | Some row \<Rightarrow> sret row))))"

definition active_maintenance_leases :: "(store, lease_row list) st" where
  "active_maintenance_leases = sget (\<lambda>s. sort_key ml_created_ns (filter lease_active (st_leases s)))"

section \<open>Audit\<close>

definition add_audit :: "int \<Rightarrow> ustr \<Rightarrow> ustr \<Rightarrow> ustr \<Rightarrow> json \<Rightarrow> (store, audit_row) st" where
  "add_audit now actor_type actor_name action details =
     sbind (slift (to_json details)) (\<lambda>doc.
     sbind (sget (\<lambda>s. \<lparr>au_audit_id = Suc (st_audit_seq s), au_actor_type = actor_type, au_actor_name = actor_name,
                      au_action = action, au_details = doc, au_created_ns = now\<rparr>)) (\<lambda>row.
     sbind (smod (\<lambda>s. s\<lparr>st_audit_seq := au_audit_id row, st_audits := st_audits s @ [row]\<rparr>)) (\<lambda>_.
     sret row)))"

definition audits :: "int \<Rightarrow> (store, audit_row list) st" where
  "audits limit = sget (\<lambda>s. let rows = rev (sort_key au_audit_id (st_audits s)) in
     map (\<lambda>r. r\<lparr>au_details := boot_id_copy (au_details r)\<rparr>) (if limit < 0 then rows else take (nat limit) rows))"

section \<open>Raw log files\<close>

text \<open>
  \<^verbatim>\<open>cleanup_raw_logs\<close> on the log files of the store, each with its modification time and size: files
  older than the cutoff are removed, then the oldest while the total is above the limit. The index
  loses the rows whose file is gone.
\<close>

record log_file =
  lf_path :: ustr
  lf_mtime :: rat
  lf_size :: nat

fun trim_logs :: "int \<Rightarrow> int \<Rightarrow> log_file list \<Rightarrow> log_file list" where
  "trim_logs max_bytes total_size [] = []"
| "trim_logs max_bytes total_size (f # fs) =
     (if total_size > max_bytes then trim_logs max_bytes (total_size - int (lf_size f)) fs else f # fs)"

definition log_cutoff :: "rat \<Rightarrow> int \<Rightarrow> rat" where
  "log_cutoff now max_age_days = fsub now (float_of_int (max_age_days * 86400))"

definition cleanup_raw_logs :: "rat \<Rightarrow> int \<Rightarrow> int \<Rightarrow> log_file list \<Rightarrow> log_file list" where
  "cleanup_raw_logs now max_age_days max_bytes files =
     (let recent = filter (\<lambda>f. \<not> lf_mtime f < log_cutoff now max_age_days) (sort_key lf_mtime files)
      in trim_logs max_bytes (int (sum_list (map lf_size recent))) recent)"

definition prune_index :: "log_file list \<Rightarrow> (nat \<times> ustr) list \<Rightarrow> (nat \<times> ustr) list" where
  "prune_index files index = filter (\<lambda>row. snd row \<in> set (map lf_path files)) index"

text \<open>The result is the newest part of the recent files, as large as the limit allows.\<close>

lemma trim_logs_suffix:
  assumes "total_size = int (sum_list (map lf_size fs))"
  shows "\<exists>gone. fs = gone @ trim_logs m total_size fs
     \<and> (0 \<le> m \<longrightarrow> int (sum_list (map lf_size (trim_logs m total_size fs))) \<le> m)
     \<and> (gone \<noteq> [] \<longrightarrow> int (sum_list (map lf_size (last gone # trim_logs m total_size fs))) > m)"
  using assms
proof (induction m total_size fs rule: trim_logs.induct)
  case (2 m n f fs)
  show ?case
  proof (cases "n > m")
    case True
    with 2 obtain gone where g: "fs = gone @ trim_logs m (n - int (lf_size f)) fs"
      "0 \<le> m \<longrightarrow> int (sum_list (map lf_size (trim_logs m (n - int (lf_size f)) fs))) \<le> m"
      "gone \<noteq> [] \<longrightarrow> int (sum_list (map lf_size (last gone # trim_logs m (n - int (lf_size f)) fs))) > m"
      by auto
    show ?thesis
    proof (cases "gone = []")
      case True
      with g \<open>n > m\<close> 2(2) show ?thesis by (intro exI [of _ "[f]"]) (auto simp: algebra_simps)
    next
      case False
      with g \<open>n > m\<close> show ?thesis by (intro exI [of _ "f # gone"]) auto
    qed
  qed (use 2 in simp)
qed simp

section \<open>Tables\<close>

text \<open>A change that keeps the key of every row, and what it does to lookups.\<close>

locale keyed_change =
  fixes key :: "'r \<Rightarrow> 'k" and f :: "'r \<Rightarrow> 'r"
  assumes keeps_key: "key (f r) = key r"
begin

lemma select_update:
  "select key k (update_where key k' f rows)
     = (if k = k' then map_option f (select key k rows) else select key k rows)"
  by (induction rows) (auto simp: select_def update_where_def keeps_key)

lemma keys_update: "map key (update_where key k' f rows) = map key rows"
  by (auto simp: update_where_def keeps_key)

end

lemma select_append:
  "select key k (rows @ [r]) = (case select key k rows of Some x \<Rightarrow> Some x | None \<Rightarrow> if key r = k then Some r else None)"
  by (induction rows) (auto simp: select_def)

lemma select_key: "select key k rows = Some r \<Longrightarrow> key r = k"
  by (auto simp: select_def find_Some_iff)

lemma select_None: "select key k rows = None \<longleftrightarrow> k \<notin> key ` set rows"
  by (auto simp: select_def find_None_iff)

lemma apply_changes_key: "op_operation_id (fold apply_change cs r) = op_operation_id r"
proof (induction cs arbitrary: r)
  case (Cons c cs)
  then show ?case by (cases c) auto
qed simp

lemma apply_lease_changes_key: "ml_lease_id (fold apply_lease_change cs r) = ml_lease_id r"
proof (induction cs arbitrary: r)
  case (Cons c cs)
  then show ?case by (cases c) auto
qed simp

interpretation op_changes: keyed_change op_operation_id "fold apply_change cs" for cs
  by unfold_locales (rule apply_changes_key)

interpretation lease_changes: keyed_change ml_lease_id "fold apply_lease_change cs" for cs
  by unfold_locales (rule apply_lease_changes_key)

interpretation device_seen: keyed_change dv_device_id "\<lambda>r. r\<lparr>dv_last_seen_ns := now, dv_cached := cached\<rparr>" for now cached
  by unfold_locales simp

interpretation device_alias: keyed_change dv_device_id "\<lambda>r. r\<lparr>dv_alias := a\<rparr>" for a
  by unfold_locales simp

interpretation session_ended: keyed_change sn_id "\<lambda>r. r\<lparr>sn_ended_ns := Some now\<rparr>" for now
  by unfold_locales simp

text \<open>After a cleanup the raw logs fit the size limit, none is older than the age limit, and nothing
  was deleted without need: what is kept are the newest of the recent files, and the newest of those deleted for
  their size would not fit beside them.\<close>

theorem log_retention_bounded:
  assumes "0 \<le> max_bytes"
  shows "int (sum_list (map lf_size (cleanup_raw_logs now max_age_days max_bytes files))) \<le> max_bytes
    \<and> (\<forall>f \<in> set (cleanup_raw_logs now max_age_days max_bytes files). log_cutoff now max_age_days \<le> lf_mtime f)
    \<and> (\<exists>gone. filter (\<lambda>f. log_cutoff now max_age_days \<le> lf_mtime f) (sort_key lf_mtime files)
              = gone @ cleanup_raw_logs now max_age_days max_bytes files
            \<and> (gone \<noteq> [] \<longrightarrow> int (sum_list (map lf_size
                 (last gone # cleanup_raw_logs now max_age_days max_bytes files))) > max_bytes))"
proof -
  define recent where "recent = filter (\<lambda>f. log_cutoff now max_age_days \<le> lf_mtime f) (sort_key lf_mtime files)"
  define kept where "kept = cleanup_raw_logs now max_age_days max_bytes files"
  have "kept = trim_logs max_bytes (int (sum_list (map lf_size recent))) recent"
    by (simp add: kept_def recent_def cleanup_raw_logs_def Let_def not_less)
  with trim_logs_suffix [of "int (sum_list (map lf_size recent))" recent max_bytes] assms
  obtain gone where gone: "recent = gone @ kept" "int (sum_list (map lf_size kept)) \<le> max_bytes"
    "gone \<noteq> [] \<longrightarrow> int (sum_list (map lf_size (last gone # kept))) > max_bytes" by auto
  have "set kept \<subseteq> set recent" using gone(1) by auto
  then have "\<forall>f \<in> set kept. log_cutoff now max_age_days \<le> lf_mtime f" by (auto simp: recent_def)
  with gone show ?thesis unfolding recent_def [symmetric] kept_def [symmetric] by blast
qed

definition ex_log :: "nat \<Rightarrow> log_file" where
  "ex_log n = \<lparr>lf_path = [97], lf_mtime = of_nat n, lf_size = 10 * n\<rparr>"

theorem log_retention_bounded_witness:
  "int (sum_list (map lf_size (cleanup_raw_logs 5 7 30 [ex_log 2, ex_log 3, ex_log 1]))) \<le> 30"
  using log_retention_bounded [of 30 5 7 "[ex_log 2, ex_log 3, ex_log 1]"] by simp

end
