(* ===== verification/Observability.thy ===== *)
theory Observability
  imports Stateful Json_Value "HOL-Library.List_Lexorder"
begin

text \<open>
  \<^verbatim>\<open>observability.py\<close>: the envelope of events and the registry of counters, gauges and
  distributions. Floats are rounded as in theory Py\_Float; readings of the clock are arguments.
\<close>

section \<open>Events\<close>

definition CORRELATION_FIELDS :: "string list" where
  "CORRELATION_FIELDS = [''device_id'', ''boot_id'', ''session_id'', ''operation_id'', ''request_id'',
     ''job_id'', ''firmware_sha256'']"

definition setdefault :: "ustr \<times> json \<Rightarrow> dict \<Rightarrow> dict" where
  "setdefault kv d = (case map_of d (fst kv) of None \<Rightarrow> d @ [kv] | Some _ \<Rightarrow> d)"

definition correlation :: "dict \<Rightarrow> dict" where
  "correlation d = map (\<lambda>key. (u key, dget d key)) (filter (\<lambda>key. dget d key \<noteq> JNull) CORRELATION_FIELDS)"

text \<open>The kind of an event is a text.\<close>

definition event_name :: "ustr \<Rightarrow> dict \<Rightarrow> json" where
  "event_name category d = dget_default d ''kind'' (JStr category)"

definition normalize_event :: "int \<Rightarrow> dict \<Rightarrow> ustr \<Rightarrow> ustr \<Rightarrow> dict" where
  "normalize_event now event category component =
     (let d1 = setdefault (item ''schema'' (jstr ''esp-iris-event/v1'')) event;
          d2 = setdefault (item ''host_receive_wall_ns'' (JInt now)) d1;
          d3 = setdefault (item ''component'' (JStr component)) d2;
          d4 = setdefault (item ''event_name'' (event_name category d3)) d3;
          d5 = setdefault (item ''severity'' (jstr ''info'')) d4
      in dput d5 (u ''correlation'') (JDict (correlation d5)))"

section \<open>Metrics\<close>

record distribution =
  ds_count :: int
  ds_total :: rat
  ds_maximum :: rat

definition distribution_init :: distribution where
  "distribution_init = \<lparr>ds_count = 0, ds_total = 0, ds_maximum = 0\<rparr>"

definition distribution_observe :: "rat \<Rightarrow> distribution \<Rightarrow> distribution" where
  "distribution_observe v d =
     \<lparr>ds_count = ds_count d + 1, ds_total = fadd (ds_total d) v, ds_maximum = max (ds_maximum d) v\<rparr>"

definition distribution_as_dict :: "distribution \<Rightarrow> dict" where
  "distribution_as_dict d =
     [item ''count'' (JInt (ds_count d)), item ''sum'' (JFloat (ds_total d)), item ''max'' (JFloat (ds_maximum d)),
      item ''average'' (JFloat (if ds_count d \<noteq> 0 then fdiv (ds_total d) (float_of_int (ds_count d)) else 0))]"

record metrics =
  mt_started_ns :: int
  mt_counters :: "(string \<times> int) list"
  mt_gauges :: "(string \<times> rat) list"
  mt_distributions :: "(string \<times> distribution) list"

definition metrics_init :: "int \<Rightarrow> metrics" where
  "metrics_init now = \<lparr>mt_started_ns = now, mt_counters = [], mt_gauges = [], mt_distributions = []\<rparr>"

text \<open>\<^verbatim>\<open>d[key] = value\<close> and \<^verbatim>\<open>d.get(key, default)\<close>.\<close>

fun aput :: "('k \<times> 'v) list \<Rightarrow> 'k \<Rightarrow> 'v \<Rightarrow> ('k \<times> 'v) list" where
  "aput [] key v = [(key, v)]"
| "aput ((k, w) # d) key v = (if k = key then (k, v) # d else (k, w) # aput d key v)"

definition aget :: "('k \<times> 'v) list \<Rightarrow> 'k \<Rightarrow> 'v \<Rightarrow> 'v" where
  "aget d key v = (case map_of d key of Some x \<Rightarrow> x | None \<Rightarrow> v)"

lemma map_of_aput [simp]: "map_of (aput d key v) = (map_of d)(key \<mapsto> v)"
  by (induction d key v rule: aput.induct) (auto simp: fun_eq_iff)

lemma aget_aput [simp]: "aget (aput d k v) k' w = (if k' = k then v else aget d k' w)"
  by (simp add: aget_def)

definition increment :: "string \<Rightarrow> int \<Rightarrow> (metrics, unit) st" where
  "increment name amount =
     sbind (sraise_if (amount < 0) (ValueError ''counter increments must be non-negative'')) (\<lambda>_.
     smod (\<lambda>m. m\<lparr>mt_counters := aput (mt_counters m) name (aget (mt_counters m) name 0 + amount)\<rparr>))"

definition gauge :: "string \<Rightarrow> rat \<Rightarrow> (metrics, unit) st" where
  "gauge name v = smod (\<lambda>m. m\<lparr>mt_gauges := aput (mt_gauges m) name v\<rparr>)"

definition observe :: "string \<Rightarrow> rat \<Rightarrow> (metrics, unit) st" where
  "observe name v =
     sbind (sraise_if (v < 0) (ValueError ''observations must be non-negative'')) (\<lambda>_.
     smod (\<lambda>m. m\<lparr>mt_distributions := aput (mt_distributions m) name
       (distribution_observe v (aget (mt_distributions m) name distribution_init))\<rparr>))"

text \<open>True division of integers, rounded once.\<close>

definition int_div :: "int \<Rightarrow> int \<Rightarrow> rat" where
  "int_div a b = fl (of_int a / of_int b)"

definition sorted_items :: "(string \<times> 'v) list \<Rightarrow> (ustr \<times> 'v) list" where
  "sorted_items d = sort_key fst (map (\<lambda>kv. (u (fst kv), snd kv)) d)"

definition snapshot :: "int \<Rightarrow> metrics \<Rightarrow> dict" where
  "snapshot now m =
     [item ''schema'' (jstr ''esp-iris-metrics/v1''),
      item ''uptime_seconds'' (JFloat (int_div (now - mt_started_ns m) 1000000000)),
      item ''counters'' (JDict (map (\<lambda>kv. (fst kv, JInt (snd kv))) (sorted_items (mt_counters m)))),
      item ''gauges'' (JDict (map (\<lambda>kv. (fst kv, JFloat (snd kv))) (sorted_items (mt_gauges m)))),
      item ''distributions'' (JDict (map (\<lambda>kv. (fst kv, JDict (distribution_as_dict (snd kv))))
         (sorted_items (mt_distributions m))))]"

end
