(* ===== verification/Operations.thy ===== *)
theory Operations
  imports Store Observability State_Machine
begin

text \<open>
  The operation manager (\<^verbatim>\<open>operations.py\<close>): submission and execution of operations, their stages and
  progress, cancellation of queued work and the maintenance gate of a device. A coroutine is cut at
  its awaits into handlers that run without interruption; theory Operation\_Safety composes them to a
  transition system. The event sink is an argument that may raise.
\<close>

section \<open>State\<close>

record pending =
  pe_device_id :: ustr
  pe_cancelled :: bool
  pe_running :: bool

text \<open>An \<^verbatim>\<open>asyncio.Lock\<close> knows only whether it is held; the model also records by whom.\<close>

datatype holder = Held_by_operation ustr | Held_by_maintenance

record manager =
  mg_store :: store
  mg_locks :: "ustr \<rightharpoonup> holder"
  mg_pending :: "(ustr \<times> pending) list"
  mg_submission_ids :: "ustr list"
  mg_maintenance_pending :: "ustr list"
  mg_maintenance_active :: "ustr list"
  mg_metrics :: metrics
  mg_emitted :: "op_row list"

definition manager_init :: "store \<Rightarrow> int \<Rightarrow> manager" where
  "manager_init s now =
     \<lparr>mg_store = s, mg_locks = Map.empty, mg_pending = [], mg_submission_ids = [],
      mg_maintenance_pending = [], mg_maintenance_active = [], mg_metrics = metrics_init now, mg_emitted = []\<rparr>"

definition on_store :: "(store, 'a) st \<Rightarrow> (manager, 'a) st" where
  "on_store m s = (case m (mg_store s) of (r, t) \<Rightarrow> (r, s\<lparr>mg_store := t\<rparr>))"

definition on_metrics :: "(metrics, 'a) st \<Rightarrow> (manager, 'a) st" where
  "on_metrics m s = (case m (mg_metrics s) of (r, t) \<Rightarrow> (r, s\<lparr>mg_metrics := t\<rparr>))"

text \<open>The sink: what it raises for an event, if anything.\<close>

type_synonym sink = "op_row \<Rightarrow> exn option"

definition emit :: "sink \<Rightarrow> op_row \<Rightarrow> (manager, unit) st" where
  "emit sink op =
     sbind (smod (\<lambda>s. s\<lparr>mg_emitted := mg_emitted s @ [op]\<rparr>)) (\<lambda>_.
     case sink op of None \<Rightarrow> sret () | Some e \<Rightarrow> sraise e)"

text \<open>\<^verbatim>\<open>_safe_value\<close>: what is stored of a value.\<close>

fun safe_value :: "json \<Rightarrow> json" where
  "safe_value (JBytes b) =
     JDict [item ''bytes'' (jnat (length b)), item ''sha256'' (jstr (hex (sha256 b)))]"
| "safe_value (JDict d) = JDict (map (\<lambda>kv. (fst kv, safe_value (snd kv))) d)"
| "safe_value (JList vs) = JList (map safe_value vs)"
| "safe_value v = v"

record actor =
  ac_kind :: ustr
  ac_name :: ustr
  ac_scopes :: "ustr list"

text \<open>\<^verbatim>\<open>sorted\<close> of a set.\<close>

definition sorted_scopes :: "ustr list \<Rightarrow> ustr list" where
  "sorted_scopes scopes = sort (remdups scopes)"

definition fingerprint :: "(rat \<Rightarrow> string) \<Rightarrow> ustr \<Rightarrow> actor \<Rightarrow> ustr \<Rightarrow> json \<Rightarrow> ustr res" where
  "fingerprint fr device_id actor action params =
     request_fingerprint fr
       [item ''device_id'' (JStr device_id), item ''actor_type'' (JStr (ac_kind actor)),
        item ''actor_name'' (JStr (ac_name actor)),
        item ''actor_scopes'' (JList (map JStr (sorted_scopes (ac_scopes actor)))),
        item ''action'' (JStr action), item ''params'' params]"

section \<open>Maintenance\<close>

definition maintenance_state :: "ustr \<Rightarrow> manager \<Rightarrow> string option" where
  "maintenance_state device_id s =
     (if device_id \<in> set (mg_maintenance_active s) then Some ''active''
      else if device_id \<in> set (mg_maintenance_pending s) then Some ''pending''
      else None)"

text \<open>\<^verbatim>\<open>acquire_maintenance\<close> up to the wait for the lock, when the wait succeeds, and when it ends with
  an exception.\<close>

definition acquire_request :: "ustr \<Rightarrow> (manager, unit) st" where
  "acquire_request device_id =
     sbind (sget (maintenance_state device_id)) (\<lambda>state.
     sbind (sraise_if (state \<noteq> None) DeviceMaintenance) (\<lambda>_.
     smod (\<lambda>s. s\<lparr>mg_maintenance_pending := List.insert device_id (mg_maintenance_pending s)\<rparr>)))"

definition acquire_granted :: "ustr \<Rightarrow> (manager, unit) st" where
  "acquire_granted device_id =
     smod (\<lambda>s. s\<lparr>mg_locks := (mg_locks s)(device_id \<mapsto> Held_by_maintenance),
                mg_maintenance_pending := removeAll device_id (mg_maintenance_pending s),
                mg_maintenance_active := List.insert device_id (mg_maintenance_active s)\<rparr>)"

definition acquire_failed :: "ustr \<Rightarrow> exn \<Rightarrow> (manager, unit) st" where
  "acquire_failed device_id e =
     sbind (smod (\<lambda>s. s\<lparr>mg_maintenance_pending := removeAll device_id (mg_maintenance_pending s)\<rparr>)) (\<lambda>_.
     sraise e)"

definition restore_maintenance :: "ustr \<Rightarrow> (manager, unit) st" where
  "restore_maintenance device_id =
     smod (\<lambda>s. s\<lparr>mg_maintenance_active := List.insert device_id (mg_maintenance_active s)\<rparr>)"

definition release_maintenance :: "ustr \<Rightarrow> (manager, unit) st" where
  "release_maintenance device_id =
     smod (\<lambda>s. s\<lparr>mg_maintenance_pending := removeAll device_id (mg_maintenance_pending s),
                mg_maintenance_active := removeAll device_id (mg_maintenance_active s),
                mg_locks := (mg_locks s)(device_id := None)\<rparr>)"

section \<open>Transitions\<close>

text \<open>\<^verbatim>\<open>x or y\<close> on optional integers, and truth of one.\<close>

definition int_or :: "int option \<Rightarrow> int \<Rightarrow> int" where
  "int_or x y = (case x of Some n \<Rightarrow> if n = 0 then y else n | None \<Rightarrow> y)"

definition observe_duration :: "op_row \<Rightarrow> (manager, unit) st" where
  "observe_duration op =
     (let started = int_or (op_started_ns op) (op_created_ns op) in
      case op_finished_ns op of
        None \<Rightarrow> sret ()
      | Some finished \<Rightarrow>
          if started \<noteq> 0 \<and> finished \<noteq> 0 \<and> finished \<ge> started
          then on_metrics (observe ''operations.duration_seconds'' (int_div (finished - started) 1000000000))
          else sret ())"

definition transition_metrics :: "operation_state \<Rightarrow> op_row \<Rightarrow> (manager, op_row) st" where
  "transition_metrics target op =
     sbind (on_metrics (increment (''operations.transition.'' @ operation_state_value target) 1)) (\<lambda>_.
     sbind (if terminal target then observe_duration op else sret ()) (\<lambda>_.
     sret op))"

definition transition :: "ustr \<Rightarrow> string \<Rightarrow> op_change list \<Rightarrow> (manager, op_row) st" where
  "transition operation_id status changes =
     sbind (on_store (operation operation_id)) (\<lambda>current.
     case current of
       None \<Rightarrow> sraise (KeyError ''operation'')
     | Some row \<Rightarrow>
         sbind (slift (operation_transition (op_status row) status)) (\<lambda>target.
         sbind (on_store (update_operation operation_id
                  (Set_status (operation_state_value target) # changes)))
           (transition_metrics target)))"

record queue_view =
  qv_device_id :: ustr
  qv_maintenance :: "string option"
  qv_running :: "ustr list"
  qv_queued :: "ustr list"

definition queue_state :: "ustr \<Rightarrow> manager \<Rightarrow> queue_view" where
  "queue_state device_id s =
     (let items = filter (\<lambda>kv. pe_device_id (snd kv) = device_id) (mg_pending s) in
      \<lparr>qv_device_id = device_id, qv_maintenance = maintenance_state device_id s,
       qv_running = map fst (filter (\<lambda>kv. pe_running (snd kv)) items),
       qv_queued = map fst (filter (\<lambda>kv. \<not> pe_running (snd kv) \<and> \<not> pe_cancelled (snd kv)) items)\<rparr>)"

definition ACTIVE_STAGES :: "string list" where
  "ACTIVE_STAGES = [''running'', ''preserving_evidence'', ''entering_recovery'', ''waiting_recovery'',
     ''recovery_connected'', ''preparing_ota'', ''erasing'', ''validating_plan'', ''transferring'', ''verifying'',
     ''committing'', ''waiting_device'', ''reconnecting'']"

definition stage :: "sink \<Rightarrow> ustr \<Rightarrow> string \<Rightarrow> (manager, op_row) st" where
  "stage sink operation_id status =
     sbind (sraise_if (status \<notin> set ACTIVE_STAGES) (ValueError ''invalid active operation stage'')) (\<lambda>_.
     sbind (transition operation_id status []) (\<lambda>op.
     sbind (emit sink op) (\<lambda>_.
     sret op)))"

text \<open>\<^verbatim>\<open>{**previous, ...}\<close>; a progress that is not a dictionary counts as empty, as it is \<^verbatim>\<open>None\<close> until it
  is set.\<close>

definition dict_of :: "json \<Rightarrow> dict" where
  "dict_of v = (case v of JDict d \<Rightarrow> d | _ \<Rightarrow> [])"

definition safe_dict :: "dict \<Rightarrow> dict" where
  "safe_dict d = dict_of (safe_value (JDict d))"

definition progress ::
  "sink \<Rightarrow> int \<Rightarrow> ustr \<Rightarrow> string \<Rightarrow> int \<Rightarrow> dict \<Rightarrow> (manager, op_row) st" where
  "progress sink now operation_id new_stage progress_permille details =
     (let permille = max 0 (min progress_permille 1000) in
      sbind (on_store (operation operation_id)) (\<lambda>current.
      let previous = (case current of None \<Rightarrow> [] | Some row \<Rightarrow> dict_of (op_progress row)) in
      sbind (transition operation_id new_stage
               [Set_progress (JDict (dupdate previous
                  ([item ''stage'' (jstr new_stage), item ''progress_permille'' (JInt permille),
                    item ''updated_ns'' (JInt now)] @ safe_dict details)))]) (\<lambda>op.
      sbind (emit sink op) (\<lambda>_.
      sret op))))"

section \<open>Submission\<close>

text \<open>The call of an operation, as its submission and execution pass it on.\<close>

record job_request =
  jr_device_id :: ustr
  jr_actor :: actor
  jr_action :: ustr
  jr_params :: json
  jr_serialized :: bool

text \<open>\<^verbatim>\<open>submit\<close> up to its first await: an operation that exists already, one whose submission is under
  way (to be looked up again), or a new background task.\<close>

datatype submission = Existing op_row | Submission_under_way | New_task

definition check_existing :: "ustr \<Rightarrow> op_row option \<Rightarrow> op_row option res" where
  "check_existing fp row =
     (case row of None \<Rightarrow> Inr None
      | Some r \<Rightarrow> bindr (require_same_request (op_fingerprint r) fp) (\<lambda>_. Inr (Some r)))"

definition submit_begin :: "(rat \<Rightarrow> string) \<Rightarrow> job_request \<Rightarrow> ustr \<Rightarrow> (manager, submission) st" where
  "submit_begin fr job operation_id =
     sbind (sget (maintenance_state (jr_device_id job))) (\<lambda>state.
     sbind (sraise_if (state \<noteq> None) DeviceMaintenance) (\<lambda>_.
     sbind (slift (fingerprint fr (jr_device_id job) (jr_actor job) (jr_action job) (jr_params job))) (\<lambda>fp.
     sbind (on_store (operation operation_id)) (\<lambda>row.
     sbind (slift (check_existing fp row)) (\<lambda>existing.
     case existing of
       Some r \<Rightarrow> sret (Existing r)
     | None \<Rightarrow>
         sbind (sget (\<lambda>s. operation_id \<in> set (mg_submission_ids s))) (\<lambda>under_way.
         if under_way then sret Submission_under_way
         else sbind (smod (\<lambda>s. s\<lparr>mg_submission_ids := List.insert operation_id (mg_submission_ids s)\<rparr>)) (\<lambda>_.
              sret New_task)))))))"

text \<open>The lookups of a submission that waits for another one, after each of at most ten turns of the
  event loop, and the lookup after the background task had its first turn.\<close>

definition submit_poll :: "(rat \<Rightarrow> string) \<Rightarrow> job_request \<Rightarrow> ustr \<Rightarrow> (manager, op_row option) st" where
  "submit_poll fr job operation_id =
     sbind (slift (fingerprint fr (jr_device_id job) (jr_actor job) (jr_action job) (jr_params job))) (\<lambda>fp.
     sbind (on_store (operation operation_id)) (\<lambda>row.
     slift (check_existing fp row)))"

definition submit_end :: "(rat \<Rightarrow> string) \<Rightarrow> job_request \<Rightarrow> ustr \<Rightarrow> (manager, op_row) st" where
  "submit_end fr job operation_id =
     sbind (submit_poll fr job operation_id) (\<lambda>row.
     case row of None \<Rightarrow> sraise (RuntimeError ''background operation was not registered'') | Some r \<Rightarrow> sret r)"

definition submit_completed :: "ustr \<Rightarrow> (manager, unit) st" where
  "submit_completed operation_id =
     smod (\<lambda>s. s\<lparr>mg_submission_ids := removeAll operation_id (mg_submission_ids s)\<rparr>)"

section \<open>Execution\<close>

definition queue_position :: "ustr \<Rightarrow> manager \<Rightarrow> int" where
  "queue_position device_id s =
     int (length (filter (\<lambda>kv. pe_device_id (snd kv) = device_id \<and> \<not> pe_cancelled (snd kv)) (mg_pending s)))"

text \<open>\<^verbatim>\<open>execute\<close> up to its first await: the row, and whether this call created it.\<close>

definition execute_begin ::
  "(rat \<Rightarrow> string) \<Rightarrow> int \<Rightarrow> job_request \<Rightarrow> ustr \<Rightarrow> (manager, op_row \<times> bool) st" where
  "execute_begin fr now job operation_id =
     sbind (sget (maintenance_state (jr_device_id job))) (\<lambda>state.
     sbind (sraise_if (state \<noteq> None) DeviceMaintenance) (\<lambda>_.
     sbind (sget (queue_position (jr_device_id job))) (\<lambda>position.
     sbind (slift (fingerprint fr (jr_device_id job) (jr_actor job) (jr_action job) (jr_params job))) (\<lambda>fp.
     sbind (on_store (create_operation fr
              \<lparr>rq_operation_id = operation_id, rq_device_id = jr_device_id job,
               rq_actor_type = ac_kind (jr_actor job), rq_actor_name = ac_name (jr_actor job),
               rq_action = jr_action job, rq_params = safe_value (jr_params job), rq_fingerprint = Some fp,
               rq_status = (if jr_serialized job then ''queued'' else ''running''), rq_created_ns = now,
               rq_queue_position = position\<rparr>)) (\<lambda>(op, created).
     sbind (if created
            then smod (\<lambda>s. s\<lparr>mg_pending := aput (mg_pending s) operation_id
                   \<lparr>pe_device_id = jr_device_id job, pe_cancelled = False, pe_running = False\<rparr>\<rparr>)
            else sret ()) (\<lambda>_.
     sret (op, created)))))))"

definition set_pending :: "ustr \<Rightarrow> (pending \<Rightarrow> pending) \<Rightarrow> (manager, unit) st" where
  "set_pending operation_id f =
     smod (\<lambda>s. s\<lparr>mg_pending := map (\<lambda>kv. if fst kv = operation_id then (fst kv, f (snd kv)) else kv) (mg_pending s)\<rparr>)"

text \<open>The start of \<^verbatim>\<open>_run\<close>.\<close>

definition run_start :: "sink \<Rightarrow> int \<Rightarrow> ustr \<Rightarrow> (manager, unit) st" where
  "run_start sink now operation_id =
     sbind (set_pending operation_id (\<lambda>p. p\<lparr>pe_running := True\<rparr>)) (\<lambda>_.
     sbind (transition operation_id ''running'' [Set_started_ns now, Set_queue_position 0]) (\<lambda>op.
     emit sink op))"

text \<open>The exceptions of the call: the state the operation ends in and the recorded error, whose text is
  an argument. \<^verbatim>\<open>OperationCancelled\<close> passes without a transition.\<close>

definition UNSAFE_ACTIONS :: "ustr list" where
  "UNSAFE_ACTIONS = [u ''firmware.ota'', u ''firmware.system_update'', u ''device.restart'', u ''rpc.raw'']"

definition interrupted_state :: "op_row option \<Rightarrow> string" where
  "interrupted_state row =
     (if (case row of None \<Rightarrow> False | Some r \<Rightarrow> op_action r \<in> set UNSAFE_ACTIONS)
      then ''outcome_unknown'' else ''interrupted'')"

fun is_unknown :: "exn \<Rightarrow> bool" where
  "is_unknown (OperationOutcomeUnknown _) = True"
| "is_unknown (TimeoutError _) = True"
| "is_unknown _ = False"

fun is_operation_cancelled :: "exn \<Rightarrow> bool" where
  "is_operation_cancelled (OperationCancelled _) = True"
| "is_operation_cancelled _ = False"

definition error_text :: "ustr \<Rightarrow> ustr" where
  "error_text s = (if s = [] then u ''device outcome could not be established'' else s)"

definition run_failed :: "sink \<Rightarrow> int \<Rightarrow> ustr \<Rightarrow> exn \<Rightarrow> ustr \<Rightarrow> (manager, 'a) st" where
  "run_failed sink now operation_id e message =
     (if e = CancelledError then
        sbind (on_store (operation operation_id)) (\<lambda>row.
        sbind (transition operation_id (interrupted_state row)
                 [Set_error (u ''gateway task was interrupted; device writes were not replayed''),
                  Set_finished_ns now]) (\<lambda>op.
        sbind (emit sink op) (\<lambda>_. sraise e)))
      else if is_operation_cancelled e then sraise e
      else if is_unknown e then
        sbind (transition operation_id ''outcome_unknown''
                 [Set_error (error_text message), Set_finished_ns now]) (\<lambda>op.
        sbind (emit sink op) (\<lambda>_. sraise e))
      else
        sbind (transition operation_id ''failed'' [Set_error message, Set_finished_ns now]) (\<lambda>op.
        sbind (emit sink op) (\<lambda>_. sraise e)))"

definition final_progress :: "int \<Rightarrow> op_row option \<Rightarrow> json" where
  "final_progress now row =
     (case row of
        None \<Rightarrow> JNull
      | Some r \<Rightarrow>
          (case op_progress r of
             JDict d \<Rightarrow> JDict (dupdate d [item ''stage'' (jstr ''succeeded''),
               item ''progress_permille'' (JInt 1000), item ''updated_ns'' (JInt now)])
           | v \<Rightarrow> v))"

definition run_succeeded :: "sink \<Rightarrow> int \<Rightarrow> int \<Rightarrow> ustr \<Rightarrow> json \<Rightarrow> (manager, op_row) st" where
  "run_succeeded sink updated_ns finished_ns operation_id summary =
     sbind (on_store (operation operation_id)) (\<lambda>current.
     sbind (transition operation_id ''succeeded''
              [Set_result (safe_value summary), Set_progress (final_progress updated_ns current),
               Set_finished_ns finished_ns]) (\<lambda>op.
     sbind (emit sink op) (\<lambda>_.
     sret op)))"

text \<open>\<^verbatim>\<open>_run\<close>: the call runs between the handlers above; it may use the manager, as the calls of the
  gateway do to report stages and progress.\<close>

definition run_operation ::
  "sink \<Rightarrow> (nat \<Rightarrow> int) \<Rightarrow> (exn \<Rightarrow> ustr) \<Rightarrow> ustr \<Rightarrow> (manager, json) st \<Rightarrow> (json \<Rightarrow> json)
     \<Rightarrow> (manager, op_row \<times> json) st" where
  "run_operation sink clock text_of operation_id call summary =
     sbind (run_start sink (clock 0) operation_id) (\<lambda>_.
     sbind (scatch call (\<lambda>e. run_failed sink (clock 1) operation_id e (text_of e))) (\<lambda>result.
     sbind (run_succeeded sink (clock 2) (clock 3) operation_id (summary result)) (\<lambda>op.
     sret (op, result))))"

text \<open>Where the lock of the device is free: \<^verbatim>\<open>async with\<close> takes it, and the check that follows.\<close>

definition take_lock :: "ustr \<Rightarrow> ustr \<Rightarrow> (manager, unit) st" where
  "take_lock device_id operation_id =
     smod (\<lambda>s. s\<lparr>mg_locks := (mg_locks s)(device_id \<mapsto> Held_by_operation operation_id)\<rparr>)"

definition release_lock :: "ustr \<Rightarrow> (manager, unit) st" where
  "release_lock device_id = smod (\<lambda>s. s\<lparr>mg_locks := (mg_locks s)(device_id := None)\<rparr>)"

definition check_cancelled :: "ustr \<Rightarrow> (manager, unit) st" where
  "check_cancelled operation_id =
     sbind (sget (\<lambda>s. case map_of (mg_pending s) operation_id of Some p \<Rightarrow> pe_cancelled p | None \<Rightarrow> False)) (\<lambda>c.
     sraise_if c (OperationCancelled ''operation cancelled before it reached the device''))"

definition pop_pending_op :: "ustr \<Rightarrow> (manager, unit) st" where
  "pop_pending_op operation_id =
     smod (\<lambda>s. s\<lparr>mg_pending := filter (\<lambda>kv. fst kv \<noteq> operation_id) (mg_pending s)\<rparr>)"

text \<open>\<^verbatim>\<open>cancel_queued\<close>: one pending operation, and all of them.\<close>

definition cancel_one :: "sink \<Rightarrow> int \<Rightarrow> ustr \<Rightarrow> (manager, bool) st" where
  "cancel_one sink now operation_id =
     sbind (sget (\<lambda>s. case map_of (mg_pending s) operation_id of
                        None \<Rightarrow> False | Some p \<Rightarrow> \<not> pe_running p \<and> \<not> pe_cancelled p)) (\<lambda>queued.
     if queued then
       sbind (set_pending operation_id (\<lambda>p. p\<lparr>pe_cancelled := True\<rparr>)) (\<lambda>_.
       sbind (transition operation_id ''cancelled''
                [Set_error (u ''cancelled when gateway entered observe mode''), Set_finished_ns now]) (\<lambda>op.
       sbind (emit sink op) (\<lambda>_.
       sret True)))
     else sret False)"

fun cancel_all :: "sink \<Rightarrow> int \<Rightarrow> ustr list \<Rightarrow> nat \<Rightarrow> (manager, nat) st" where
  "cancel_all sink now [] count = sret count"
| "cancel_all sink now (i # ids) count =
     sbind (cancel_one sink now i) (\<lambda>c. cancel_all sink now ids (if c then Suc count else count))"

definition cancel_queued :: "sink \<Rightarrow> int \<Rightarrow> (manager, nat) st" where
  "cancel_queued sink now =
     sbind (sget (\<lambda>s. map fst (mg_pending s))) (\<lambda>ids. cancel_all sink now ids 0)"

section \<open>The parts of \<^verbatim>\<open>execute\<close>\<close>

text \<open>Admission, up to the wait for the lock of the device; entry, once the lock is free (or at once when
  the operation is not serialized); and the end of the call with its result or exception. On every way
  out the lock is released and the pending entry removed.\<close>

definition execute_cleanup :: "job_request \<Rightarrow> ustr \<Rightarrow> (manager, unit) st" where
  "execute_cleanup job operation_id =
     sbind (if jr_serialized job then release_lock (jr_device_id job) else sret ()) (\<lambda>_.
     pop_pending_op operation_id)"

definition execute_abandon :: "ustr \<Rightarrow> exn \<Rightarrow> (manager, 'a) st" where
  "execute_abandon operation_id e = sbind (pop_pending_op operation_id) (\<lambda>_. sraise e)"

definition execute_admit ::
  "(rat \<Rightarrow> string) \<Rightarrow> sink \<Rightarrow> int \<Rightarrow> job_request \<Rightarrow> ustr \<Rightarrow> (manager, op_row \<times> bool) st" where
  "execute_admit fr sink now job operation_id =
     sbind (execute_begin fr now job operation_id) (\<lambda>(op, created).
     sbind (if created then scatch (emit sink op) (execute_abandon operation_id) else sret ()) (\<lambda>_.
     sret (op, created)))"

definition execute_enter :: "sink \<Rightarrow> int \<Rightarrow> job_request \<Rightarrow> ustr \<Rightarrow> (manager, unit) st" where
  "execute_enter sink now job operation_id =
     sbind (if jr_serialized job then take_lock (jr_device_id job) operation_id else sret ()) (\<lambda>_.
     scatch (sbind (if jr_serialized job then check_cancelled operation_id else sret ()) (\<lambda>_.
             run_start sink now operation_id))
       (\<lambda>e. sbind (execute_cleanup job operation_id) (\<lambda>_. sraise e)))"

definition execute_finish ::
  "sink \<Rightarrow> int \<Rightarrow> int \<Rightarrow> job_request \<Rightarrow> ustr \<Rightarrow> json res \<Rightarrow> ustr \<Rightarrow> (manager, op_row) st" where
  "execute_finish sink updated_ns finished_ns job operation_id outcome message =
     sfinally (case outcome of
                 Inr summary \<Rightarrow> run_succeeded sink updated_ns finished_ns operation_id summary
               | Inl e \<Rightarrow> run_failed sink finished_ns operation_id e message)
       (execute_cleanup job operation_id)"

end
