(* ===== verification/Operation_Safety.thy ===== *)
theory Operation_Safety
  imports Operations
begin

text \<open>
  What the operation manager guarantees. Rows of the operation table are never lost, keep the request
  they stand for, move along legal transitions and are final once finished; in the transition system
  of its handlers the operations of a device run one at a time and never during host maintenance.
\<close>

section \<open>Rows\<close>

lemma wp_on_store [wp_simps]:
  "wp (on_store m) Q E = (\<lambda>s. wp m (\<lambda>x t. Q x (s\<lparr>mg_store := t\<rparr>)) (\<lambda>e t. E e (s\<lparr>mg_store := t\<rparr>)) (mg_store s))"
  by (rule ext) (auto simp: wp_def on_store_def split: prod.split sum.split)

lemma wp_on_metrics [wp_simps]:
  "wp (on_metrics m) Q E = (\<lambda>s. wp m (\<lambda>x t. Q x (s\<lparr>mg_metrics := t\<rparr>)) (\<lambda>e t. E e (s\<lparr>mg_metrics := t\<rparr>)) (mg_metrics s))"
  by (rule ext) (auto simp: wp_def on_metrics_def split: prod.split sum.split)

definition find_op :: "ustr \<Rightarrow> manager \<Rightarrow> op_row option" where
  "find_op i s = select op_operation_id i (st_operations (mg_store s))"

definition op_finished :: "op_row \<Rightarrow> bool" where
  "op_finished r \<longleftrightarrow> op_status r \<in> operation_state_value ` set TERMINAL_OPERATION_STATES"

definition op_stands_for :: "op_row \<Rightarrow> op_row \<Rightarrow> bool" where
  "op_stands_for r r' \<longleftrightarrow>
     op_operation_id r' = op_operation_id r \<and> op_device_id r' = op_device_id r
     \<and> op_actor_type r' = op_actor_type r \<and> op_actor_name r' = op_actor_name r
     \<and> op_action r' = op_action r \<and> op_params r' = op_params r \<and> op_created_ns r' = op_created_ns r
     \<and> op_fingerprint r' = op_fingerprint r"

definition status_step :: "string \<Rightarrow> string \<Rightarrow> bool" where
  "status_step a b \<longleftrightarrow> (\<exists>t. operation_transition a b = Inr t)"

definition row_evolves :: "op_row \<Rightarrow> op_row \<Rightarrow> bool" where
  "row_evolves r r' \<longleftrightarrow> op_stands_for r r' \<and> status_step\<^sup>*\<^sup>* (op_status r) (op_status r')
     \<and> (op_finished r \<longrightarrow> r' = r)"

definition ops_evolve :: "manager \<Rightarrow> manager \<Rightarrow> bool" where
  "ops_evolve s t \<longleftrightarrow> (\<forall>i r. find_op i s = Some r \<longrightarrow> (\<exists>r'. find_op i t = Some r' \<and> row_evolves r r'))"

lemma op_stands_for_refl [simp]: "op_stands_for r r"
  by (simp add: op_stands_for_def)

lemma row_evolves_refl [simp]: "row_evolves r r"
  by (simp add: row_evolves_def)

lemma row_evolves_trans: "row_evolves r r' \<Longrightarrow> row_evolves r' r'' \<Longrightarrow> row_evolves r r''"
  by (auto simp: row_evolves_def op_stands_for_def intro: rtranclp_trans)

interpretation ops: evolution ops_evolve
proof
  show "ops_evolve s t \<Longrightarrow> ops_evolve t v \<Longrightarrow> ops_evolve s v" for s t v
    unfolding ops_evolve_def by (metis row_evolves_trans)
qed (auto simp: ops_evolve_def)

named_theorems ops_rules \<open>operations along which rows evolve\<close>

lemma ops_same: "mg_store t = mg_store s \<Longrightarrow> ops_evolve s t"
  by (auto simp: ops_evolve_def find_op_def)

text \<open>The identity of a request is not among the columns a change can set.\<close>

lemma apply_changes_stands_for: "op_stands_for r (fold apply_change cs r)"
proof (induction cs arbitrary: r)
  case (Cons c cs)
  have "op_stands_for r (apply_change c r)" by (cases c) (simp_all add: op_stands_for_def)
  with Cons [of "apply_change c r"] show ?case by (auto simp: op_stands_for_def)
qed simp

definition keeps_status :: "op_change list \<Rightarrow> bool" where
  "keeps_status cs \<longleftrightarrow> list_all (\<lambda>c. \<forall>x. c \<noteq> Set_status x) cs"

lemma apply_changes_status: "keeps_status cs \<Longrightarrow> op_status (fold apply_change cs r) = op_status r"
proof (induction cs arbitrary: r)
  case (Cons c cs)
  then have "keeps_status cs" "op_status (apply_change c r) = op_status r"
    by (cases c; simp add: keeps_status_def)+
  with Cons.IH show ?case by simp
qed simp

lemma transition_not_finished:
  "operation_transition (op_status r) x = Inr t \<Longrightarrow> \<not> op_finished r"
  by (auto simp: operation_transition_eq_Inr legal_def op_finished_def operation_state.code_inject)

text \<open>What a transition does: it refuses, or sets the state that was asked for.\<close>

lemma find_op_updated:
  "find_op i (s\<lparr>mg_store := (mg_store s)\<lparr>st_operations :=
       update_where op_operation_id j (fold apply_change cs) (st_operations (mg_store s))\<rparr>\<rparr>)
     = (if i = j then map_option (fold apply_change cs) (find_op i s) else find_op i s)"
  by (simp add: find_op_def op_changes.select_update)

lemma wp_update_operation [wp_simps]:
  "wp (update_operation i cs) Q E = (\<lambda>s.
     case mapr check_change cs of
       Inl e \<Rightarrow> E e s
     | Inr _ \<Rightarrow>
         let t = s\<lparr>st_operations := update_where op_operation_id i (fold apply_change cs) (st_operations s)\<rparr>
         in case select op_operation_id i (st_operations s) of
              None \<Rightarrow> E (KeyError ''operation'') t
            | Some r \<Rightarrow> Q (operation_row (fold apply_change cs r)) t)"
  by (rule ext) (auto simp: update_operation_def operation_def wp_simps Let_def op_changes.select_update
      split: sum.split option.split)

lemma operation_row_status [simp]: "op_status (operation_row r) = op_status r"
  by (simp add: operation_row_def)

lemma leads_same_store: "(\<And>s. mg_store (snd (m s)) = mg_store s) \<Longrightarrow> leads ops_evolve m"
  by (simp add: leads_def ops_same)

lemma leads_on_metrics [ops_rules]: "leads ops_evolve (on_metrics m)"
  by (rule leads_same_store) (simp add: on_metrics_def split: prod.split)

lemma leads_emit [ops_rules]: "leads ops_evolve (emit sink op)"
  unfolding emit_def by (intro ops.rules ops.change) (simp_all add: ops_same)

lemma leads_observe_duration [ops_rules]: "leads ops_evolve (observe_duration op)"
  unfolding observe_duration_def Let_def by (intro ops.rules ops_rules)

lemma leads_operation [ops_rules]: "leads ops_evolve (on_store (operation i))"
  by (rule leads_same_store) (simp add: on_store_def operation_def sget_def)

lemma update_after_transition:
  assumes "find_op i s = Some r" and "operation_transition (op_status r) x = Inr t" and "keeps_status cs"
  shows "wp (on_store (update_operation i (Set_status (operation_state_value t) # cs)))
    (\<lambda>_. ops_evolve s) (\<lambda>_. ops_evolve s) s"
proof -
  let ?f = "fold apply_change (Set_status (operation_state_value t) # cs)"
  have x: "x = operation_state_value t" using assms(2) by (auto simp: operation_transition_eq_Inr)
  have "op_status (?f r) = operation_state_value t"
    using assms(3) by (simp add: apply_changes_status)
  then have "row_evolves r (?f r)"
    using assms(2) transition_not_finished [OF assms(2)] x
      apply_changes_stands_for [of r "Set_status (operation_state_value t) # cs"]
    unfolding row_evolves_def status_step_def by auto
  then have "ops_evolve s (s\<lparr>mg_store := (mg_store s)\<lparr>st_operations :=
      update_where op_operation_id i ?f (st_operations (mg_store s))\<rparr>\<rparr>)"
    using assms(1) unfolding ops_evolve_def find_op_updated by auto
  then show ?thesis
    by (simp add: wp_simps ops.refl Let_def split: sum.split option.split)
qed

lemma leads_transition_metrics [ops_rules]: "leads ops_evolve (transition_metrics t op)"
  unfolding transition_metrics_def by (intro ops.rules ops_rules)

lemma transition_run:
  "transition i x cs s =
     (case find_op i s of
        None \<Rightarrow> (Inl (KeyError ''operation''), s)
      | Some r \<Rightarrow>
          (case operation_transition (op_status r) x of
             Inl e \<Rightarrow> (Inl e, s)
           | Inr t \<Rightarrow> sbind (on_store (update_operation i (Set_status (operation_state_value t) # cs)))
                        (transition_metrics t) s))"
  by (simp add: transition_def sbind_def on_store_def operation_def sget_def slift_def find_op_def sraise_def
      split: option.split sum.split)

lemma leads_transition [ops_rules]:
  assumes "keeps_status cs"
  shows "leads ops_evolve (transition i x cs)"
proof (rule leadsI)
  fix s :: manager
  show "wp (transition i x cs) (\<lambda>_. ops_evolve s) (\<lambda>_. ops_evolve s) s"
    unfolding wp_snd transition_run
  proof (simp add: ops.refl split: option.split sum.split, intro allI impI)
    fix r t assume "find_op i s = Some r" "operation_transition (op_status r) x = Inr t"
    then have "wp (on_store (update_operation i (Set_status (operation_state_value t) # cs)))
        (\<lambda>op. wp (transition_metrics t op) (\<lambda>_. ops_evolve s) (\<lambda>_. ops_evolve s)) (\<lambda>_. ops_evolve s) s"
      by (intro wp_mono [OF update_after_transition [OF _ _ assms]] ops.after [OF leads_transition_metrics])
    then show "ops_evolve s (snd (sbind (on_store (update_operation i
        (Set_status (operation_state_value t) # cs))) (transition_metrics t) s))"
      unfolding wp_snd [symmetric] wp_sbind .
  qed
qed

lemma keeps_status_simps [simp]:
  "keeps_status []" "keeps_status (Set_result v # cs) = keeps_status cs"
  "keeps_status (Set_error m # cs) = keeps_status cs" "keeps_status (Set_started_ns n # cs) = keeps_status cs"
  "keeps_status (Set_finished_ns n # cs) = keeps_status cs"
  "keeps_status (Set_queue_position n # cs) = keeps_status cs"
  "keeps_status (Set_progress v # cs) = keeps_status cs"
  by (auto simp: keeps_status_def)

text \<open>Creation adds a row under a new key.\<close>

lemma leads_create [ops_rules]: "leads ops_evolve (on_store (create_operation fr q))"
proof (rule leadsI)
  fix s :: manager
  have "ops_evolve s (s\<lparr>mg_store := (mg_store s)\<lparr>st_operations := st_operations (mg_store s) @ [row]\<rparr>\<rparr>)" for row
    by (auto simp: ops_evolve_def find_op_def select_append)
  then show "wp (on_store (create_operation fr q)) (\<lambda>_. ops_evolve s) (\<lambda>_. ops_evolve s) s"
    by (simp add: create_operation_def insert_operation_def operation_def wp_simps ops.refl
        split: sum.split option.split)
qed

lemma leads_set_pending [ops_rules]: "leads ops_evolve (set_pending i f)"
  unfolding set_pending_def by (rule ops.change) (simp add: ops_same)

lemma leads_pop [ops_rules]: "leads ops_evolve (pop_pending_op i)"
  unfolding pop_pending_op_def by (rule ops.change) (simp add: ops_same)

lemma leads_locks [ops_rules]:
  "leads ops_evolve (take_lock d i)" "leads ops_evolve (release_lock d)"
  "leads ops_evolve (acquire_request d)" "leads ops_evolve (acquire_granted d)"
  "leads ops_evolve (acquire_failed d e)" "leads ops_evolve (restore_maintenance d)"
  "leads ops_evolve (release_maintenance d)" "leads ops_evolve (submit_completed i)"
  unfolding take_lock_def release_lock_def acquire_request_def acquire_granted_def acquire_failed_def
    restore_maintenance_def release_maintenance_def submit_completed_def
  by (intro ops.rules ops.change; simp add: ops_same)+

lemma leads_runs [ops_rules]:
  "leads ops_evolve (run_start sink now i)" "leads ops_evolve (run_failed sink now i e message)"
  "leads ops_evolve (run_succeeded sink t1 t2 i summary)"
  unfolding run_start_def run_failed_def run_succeeded_def
  by (intro ops.rules ops_rules; simp)+

lemma leads_execute [ops_rules]:
  "leads ops_evolve (execute_begin fr now job i)" "leads ops_evolve (execute_cleanup job i)"
  "leads ops_evolve (execute_abandon i e)" "leads ops_evolve (check_cancelled i)"
  unfolding execute_begin_def execute_cleanup_def execute_abandon_def check_cancelled_def
  by (intro ops.rules ops_rules ops.change; simp add: ops_same)+

lemma leads_handlers [ops_rules]:
  "leads ops_evolve (execute_admit fr sink now job i)" "leads ops_evolve (execute_enter sink now job i)"
  "leads ops_evolve (execute_finish sink t1 t2 job i out message)"
  unfolding execute_admit_def execute_enter_def execute_finish_def
  by (intro ops.rules ops_rules; simp add: ops_rules split: sum.split)+

lemma leads_cancel [ops_rules]: "leads ops_evolve (cancel_queued sink now)"
proof -
  have one: "leads ops_evolve (cancel_one sink now i)" for i
    unfolding cancel_one_def by (intro ops.rules ops_rules) simp
  have "leads ops_evolve (cancel_all sink now ids n)" for ids n
    by (induction ids arbitrary: n) (simp_all add: ops.rules one)
  then show ?thesis unfolding cancel_queued_def by (intro ops.rules)
qed

lemma leads_reports [ops_rules]:
  "leads ops_evolve (stage sink i x)" "leads ops_evolve (progress sink now i x n details)"
  unfolding stage_def progress_def Let_def
  by (intro ops.rules ops_rules; simp)+

lemma leads_submit [ops_rules]:
  "leads ops_evolve (submit_begin fr job i)" "leads ops_evolve (submit_poll fr job i)"
  "leads ops_evolve (submit_end fr job i)"
  unfolding submit_begin_def submit_end_def submit_poll_def
  by (intro ops.rules ops_rules ops.change; simp add: ops_same)+

section \<open>The transition system\<close>

text \<open>
  A task executes one operation: it waits for the lock of its device or its call is under way. Every
  step is one handler, with the outcome it had; a call ends with any result or exception. An operation
  that is not serialized does not wait. The reports of stages and progress, submissions, the observe
  mode and maintenance come in between at any time; maintenance is released by who has acquired it.
\<close>

datatype phase = Waiting | Working

record task =
  tk_job :: job_request
  tk_phase :: phase

record op_system =
  os_manager :: manager
  os_tasks :: "ustr \<rightharpoonup> task"

inductive op_step :: "(rat \<Rightarrow> string) \<Rightarrow> op_system \<Rightarrow> op_system \<Rightarrow> bool" for fr where
  admit: "execute_admit fr sink now job i (os_manager s) = (r, m) \<Longrightarrow>
     op_step fr s (s\<lparr>os_manager := m, os_tasks := (case r of
        Inr (op, True) \<Rightarrow> (os_tasks s)(i \<mapsto> \<lparr>tk_job = job, tk_phase = Waiting\<rparr>)
      | _ \<Rightarrow> os_tasks s)\<rparr>)"
| enter: "os_tasks s i = Some \<lparr>tk_job = job, tk_phase = Waiting\<rparr> \<Longrightarrow>
     jr_serialized job \<longrightarrow> mg_locks (os_manager s) (jr_device_id job) = None \<Longrightarrow>
     execute_enter sink now job i (os_manager s) = (r, m) \<Longrightarrow>
     op_step fr s (s\<lparr>os_manager := m, os_tasks := (case r of
        Inr _ \<Rightarrow> (os_tasks s)(i \<mapsto> \<lparr>tk_job = job, tk_phase = Working\<rparr>)
      | Inl _ \<Rightarrow> (os_tasks s)(i := None))\<rparr>)"
| abandon: "os_tasks s i = Some \<lparr>tk_job = job, tk_phase = Waiting\<rparr> \<Longrightarrow>
     execute_abandon i e (os_manager s) = (Inl e :: unit res, m) \<Longrightarrow>
     op_step fr s (s\<lparr>os_manager := m, os_tasks := (os_tasks s)(i := None)\<rparr>)"
| finish: "os_tasks s i = Some \<lparr>tk_job = job, tk_phase = Working\<rparr> \<Longrightarrow>
     execute_finish sink t1 t2 job i result message (os_manager s) = (r, m) \<Longrightarrow>
     op_step fr s (s\<lparr>os_manager := m, os_tasks := (os_tasks s)(i := None)\<rparr>)"
| report_stage: "stage sink i x (os_manager s) = (r, m) \<Longrightarrow> op_step fr s (s\<lparr>os_manager := m\<rparr>)"
| report_progress: "progress sink now i x n details (os_manager s) = (r, m) \<Longrightarrow>
     op_step fr s (s\<lparr>os_manager := m\<rparr>)"
| submit: "submit_begin fr job i (os_manager s) = (r, m) \<Longrightarrow> op_step fr s (s\<lparr>os_manager := m\<rparr>)"
| submitted: "submit_completed i (os_manager s) = (r, m) \<Longrightarrow> op_step fr s (s\<lparr>os_manager := m\<rparr>)"
| observe_mode: "cancel_queued sink now (os_manager s) = (r, m) \<Longrightarrow> op_step fr s (s\<lparr>os_manager := m\<rparr>)"
| maintenance_request: "acquire_request d (os_manager s) = (r, m) \<Longrightarrow> op_step fr s (s\<lparr>os_manager := m\<rparr>)"
| maintenance_granted: "d \<in> set (mg_maintenance_pending (os_manager s)) \<Longrightarrow>
     mg_locks (os_manager s) d = None \<Longrightarrow> acquire_granted d (os_manager s) = (r, m) \<Longrightarrow>
     op_step fr s (s\<lparr>os_manager := m\<rparr>)"
| maintenance_failed: "acquire_failed d e (os_manager s) = (r, m) \<Longrightarrow> op_step fr s (s\<lparr>os_manager := m\<rparr>)"
| maintenance_released: "d \<in> set (mg_maintenance_active (os_manager s)) \<Longrightarrow>
     release_maintenance d (os_manager s) = (r, m) \<Longrightarrow> op_step fr s (s\<lparr>os_manager := m\<rparr>)"

text \<open>A gateway that starts: no task, and the maintenance of the active leases restored.\<close>

definition start_manager :: "store \<Rightarrow> int \<Rightarrow> manager" where
  "start_manager st now =
     snd (sbind (on_store active_maintenance_leases) (\<lambda>leases.
          sfor (map ml_device_id leases) restore_maintenance) (manager_init st now))"

definition op_start :: "store \<Rightarrow> int \<Rightarrow> op_system" where
  "op_start st now = \<lparr>os_manager = start_manager st now, os_tasks = Map.empty\<rparr>"

lemma op_step_evolves: "op_step fr s t \<Longrightarrow> ops_evolve (os_manager s) (os_manager t)"
  by (induction rule: op_step.induct) (auto intro: leads_run ops_rules)

lemma op_steps_evolve: "(op_step fr)\<^sup>*\<^sup>* s t \<Longrightarrow> ops_evolve (os_manager s) (os_manager t)"
  by (induction rule: rtranclp_induct) (auto intro: ops.refl ops.trans op_step_evolves)


section \<open>One operation of a device at a time\<close>

text \<open>What a handler changes of the locks and of maintenance.\<close>

definition same_gates :: "manager \<Rightarrow> manager \<Rightarrow> bool" where
  "same_gates s t \<longleftrightarrow> mg_locks t = mg_locks s \<and> mg_maintenance_active t = mg_maintenance_active s"

interpretation gates: evolution same_gates
  by unfold_locales (auto simp: same_gates_def)

named_theorems gate_rules \<open>handlers that leave the gates as they are\<close>

lemma gates_on_store [gate_rules]: "leads same_gates (on_store m)"
  by (simp add: leads_def on_store_def same_gates_def split: prod.split)

lemma gates_on_metrics [gate_rules]: "leads same_gates (on_metrics m)"
  by (simp add: leads_def on_metrics_def same_gates_def split: prod.split)

lemma gates_basic [gate_rules]:
  "leads same_gates (emit sink op)" "leads same_gates (set_pending i f)" "leads same_gates (pop_pending_op i)"
  "leads same_gates (submit_completed i)" "leads same_gates (acquire_request d)"
  "leads same_gates (acquire_failed d e)" "leads same_gates (check_cancelled i)"
  unfolding emit_def set_pending_def pop_pending_op_def submit_completed_def acquire_request_def
    acquire_failed_def check_cancelled_def
  by (intro gates.rules gates.change; simp add: same_gates_def)+

lemma gates_transition [gate_rules]: "leads same_gates (transition i x cs)"
  unfolding transition_def transition_metrics_def observe_duration_def Let_def
  by (intro gates.rules gate_rules)

lemma gates_handlers [gate_rules]:
  "leads same_gates (run_start sink now i)" "leads same_gates (run_failed sink now i e message)"
  "leads same_gates (run_succeeded sink t1 t2 i summary)" "leads same_gates (execute_abandon i e)"
  "leads same_gates (stage sink i x)" "leads same_gates (progress sink now i x n details)"
  "leads same_gates (submit_begin fr job i)" "leads same_gates (execute_begin fr now job i)"
  unfolding run_start_def run_failed_def run_succeeded_def execute_abandon_def stage_def progress_def Let_def
    submit_begin_def execute_begin_def
  by (intro gates.rules gate_rules gates.change; simp add: same_gates_def)+

lemma gates_admit [gate_rules]: "leads same_gates (execute_admit fr sink now job i)"
  unfolding execute_admit_def by (intro gates.rules gate_rules)

lemma gates_cancel [gate_rules]: "leads same_gates (cancel_queued sink now)"
proof -
  have one: "leads same_gates (cancel_one sink now i)" for i
    unfolding cancel_one_def by (intro gates.rules gate_rules)
  have "leads same_gates (cancel_all sink now ids n)" for ids n
    by (induction ids arbitrary: n) (simp_all add: gates.rules one)
  then show ?thesis unfolding cancel_queued_def by (intro gates.rules)
qed

text \<open>The lock of a device is held by the serialized operation whose call is under way, or by active
  maintenance; maintenance that was restored holds no lock, but then the device has no task.\<close>

definition runs_on :: "op_system \<Rightarrow> ustr \<Rightarrow> ustr \<Rightarrow> bool" where
  "runs_on s i d \<longleftrightarrow> (\<exists>job. os_tasks s i = Some \<lparr>tk_job = job, tk_phase = Working\<rparr>
     \<and> jr_serialized job \<and> jr_device_id job = d)"

definition has_task :: "op_system \<Rightarrow> ustr \<Rightarrow> bool" where
  "has_task s d \<longleftrightarrow> (\<exists>i tk. os_tasks s i = Some tk \<and> jr_device_id (tk_job tk) = d)"

definition gates_ok :: "op_system \<Rightarrow> bool" where
  "gates_ok s \<longleftrightarrow>
     (\<forall>d i. mg_locks (os_manager s) d = Some (Held_by_operation i) \<longleftrightarrow> runs_on s i d)
     \<and> (\<forall>d. mg_locks (os_manager s) d = Some Held_by_maintenance \<longrightarrow> d \<in> set (mg_maintenance_active (os_manager s)))
     \<and> (\<forall>d \<in> set (mg_maintenance_active (os_manager s)).
          mg_locks (os_manager s) d = Some Held_by_maintenance \<or> \<not> has_task s d)"

lemma gates_ok_same:
  assumes "gates_ok s" and "same_gates (os_manager s) m"
  shows "gates_ok (s\<lparr>os_manager := m\<rparr>)"
  using assms by (simp add: gates_ok_def same_gates_def runs_on_def has_task_def)

text \<open>Admission to a device under maintenance fails.\<close>

lemma admit_refused:
  assumes "jr_device_id job \<in> set (mg_maintenance_active s)"
  shows "execute_admit fr sink now job i s = (Inl DeviceMaintenance, s)"
  using assms
  by (simp add: execute_admit_def execute_begin_def maintenance_state_def st_run)

lemma enter_gates:
  assumes "execute_enter sink now job i s = (r, m)"
  shows "mg_maintenance_active m = mg_maintenance_active s \<and>
    mg_locks m = (if jr_serialized job then (mg_locks s)(jr_device_id job :=
      (case r of Inr _ \<Rightarrow> Some (Held_by_operation i) | Inl _ \<Rightarrow> None)) else mg_locks s)"
proof -
  define body where "body = sbind (if jr_serialized job then check_cancelled i else sret ()) (\<lambda>_.
    run_start sink now i)"
  define s0 where "s0 = (if jr_serialized job
    then s\<lparr>mg_locks := (mg_locks s)(jr_device_id job \<mapsto> Held_by_operation i)\<rparr> else s)"
  have lead: "leads same_gates body"
    unfolding body_def by (intro gates.rules gate_rules)
  obtain r' m' where b: "body s0 = (r', m')" by fastforce
  from leads_run [OF lead b] have same: "same_gates s0 m'" .
  have "execute_enter sink now job i s = scatch body (\<lambda>e. sbind (execute_cleanup job i) (\<lambda>_. sraise e)) s0"
    by (simp add: execute_enter_def body_def s0_def take_lock_def sbind_def smod_def sret_def)
  with assms b same show ?thesis
    by (cases r')
       (auto simp: scatch_def sbind_def execute_cleanup_def release_lock_def pop_pending_op_def smod_def
         sret_def sraise_def s0_def same_gates_def split: if_splits)
qed

lemma finish_gates:
  assumes "execute_finish sink t1 t2 job i result message s = (r, m)"
  shows "mg_maintenance_active m = mg_maintenance_active s \<and>
    mg_locks m = (if jr_serialized job then (mg_locks s)(jr_device_id job := None) else mg_locks s)"
proof -
  define body where "body = (case result of
      Inr summary \<Rightarrow> run_succeeded sink t1 t2 i summary | Inl e \<Rightarrow> run_failed sink t2 i e message)"
  have lead: "leads same_gates body"
    unfolding body_def by (simp add: gate_rules split: sum.split)
  obtain r' m' where b: "body s = (r', m')" by fastforce
  from leads_run [OF lead b] have same: "same_gates s m'" .
  with assms b show ?thesis
    by (cases r')
       (auto simp: execute_finish_def body_def [symmetric] sfinally_def sbind_def execute_cleanup_def
         release_lock_def pop_pending_op_def smod_def sret_def sraise_def same_gates_def split: if_splits)
qed

text \<open>A task stands for a row of its own.\<close>

lemma begin_created:
  assumes "execute_begin fr now job i s = (Inr (op, True), m)"
  shows "find_op i s = None \<and> find_op i m \<noteq> None"
  using assms
  by (auto simp: execute_begin_def create_operation_def insert_operation_def operation_def st_run on_store_def
      find_op_def select_append new_op_row_def
      split: if_splits sum.splits option.splits prod.splits)

lemma admit_created:
  assumes "execute_admit fr sink now job i s = (Inr (op, True), m)"
  shows "find_op i s = None \<and> find_op i m \<noteq> None"
proof -
  from assms obtain m' where b: "execute_begin fr now job i s = (Inr (op, True), m')"
    and e: "scatch (emit sink op) (execute_abandon i) m' = (Inr (), m)"
    by (auto simp: execute_admit_def sbind_def sret_def split: prod.splits sum.splits if_splits)
  have "leads ops_evolve (scatch (emit sink op) (execute_abandon i))"
    by (intro ops.rules ops_rules)
  from leads_run [OF this e] begin_created [OF b] show ?thesis
    by (auto simp: ops_evolve_def)
qed

definition tasks_known :: "op_system \<Rightarrow> bool" where
  "tasks_known s \<longleftrightarrow> (\<forall>i. os_tasks s i \<noteq> None \<longrightarrow> find_op i (os_manager s) \<noteq> None)"

lemma tasks_known_step:
  assumes "op_step fr s t" and "tasks_known s"
  shows "tasks_known t"
proof -
  have rows: "find_op i (os_manager s) \<noteq> None \<Longrightarrow> find_op i (os_manager t) \<noteq> None" for i
    using op_step_evolves [OF assms(1)] unfolding ops_evolve_def by blast
  from assms(1) have "os_tasks t i \<noteq> None \<Longrightarrow> os_tasks s i \<noteq> None \<or> find_op i (os_manager t) \<noteq> None" for i
    by (cases rule: op_step.cases)
       (auto split: sum.splits if_splits bool.splits dest!: admit_created)
  with rows assms(2) show ?thesis unfolding tasks_known_def by blast
qed

text \<open>What the steps of a task change of who runs and who has a task.\<close>

lemma runs_on_upd:
  "runs_on (s\<lparr>os_manager := m, os_tasks := (os_tasks s)(i \<mapsto> \<lparr>tk_job = job, tk_phase = p\<rparr>)\<rparr>) j d
     \<longleftrightarrow> (if j = i then p = Working \<and> jr_serialized job \<and> jr_device_id job = d else runs_on s j d)"
  "runs_on (s\<lparr>os_manager := m, os_tasks := (os_tasks s)(i := None)\<rparr>) j d \<longleftrightarrow> j \<noteq> i \<and> runs_on s j d"
  by (auto simp: runs_on_def)

lemma has_task_upd:
  "has_task (s\<lparr>os_manager := m, os_tasks := (os_tasks s)(i \<mapsto> \<lparr>tk_job = job, tk_phase = p\<rparr>)\<rparr>) d
     \<Longrightarrow> has_task s d \<or> d = jr_device_id job"
  "has_task (s\<lparr>os_manager := m, os_tasks := (os_tasks s)(i := None)\<rparr>) d \<Longrightarrow> has_task s d"
  by (auto simp: has_task_def split: if_splits)

lemma runs_on_task: "runs_on s i d \<Longrightarrow> has_task s d"
  unfolding runs_on_def has_task_def by fastforce

lemma gates_okD:
  assumes "gates_ok s"
  shows "mg_locks (os_manager s) d = Some (Held_by_operation i) \<longleftrightarrow> runs_on s i d"
    and "mg_locks (os_manager s) d = Some Held_by_maintenance \<Longrightarrow> d \<in> set (mg_maintenance_active (os_manager s))"
    and "d \<in> set (mg_maintenance_active (os_manager s)) \<Longrightarrow> has_task s d
      \<Longrightarrow> mg_locks (os_manager s) d = Some Held_by_maintenance"
  using assms unfolding gates_ok_def by blast+

lemma gates_okI:
  assumes "\<And>d i. mg_locks (os_manager s) d = Some (Held_by_operation i) \<longleftrightarrow> runs_on s i d"
    and "\<And>d. mg_locks (os_manager s) d = Some Held_by_maintenance \<Longrightarrow> d \<in> set (mg_maintenance_active (os_manager s))"
    and "\<And>d. d \<in> set (mg_maintenance_active (os_manager s)) \<Longrightarrow> has_task s d
      \<Longrightarrow> mg_locks (os_manager s) d = Some Held_by_maintenance"
  shows "gates_ok s"
  using assms unfolding gates_ok_def by blast

lemma gates_ok_admit:
  assumes "gates_ok s" and "os_tasks s i = None" and "jr_device_id job \<notin> set (mg_maintenance_active (os_manager s))"
    and "same_gates (os_manager s) m"
  shows "gates_ok (s\<lparr>os_manager := m, os_tasks := (os_tasks s)(i \<mapsto> \<lparr>tk_job = job, tk_phase = Waiting\<rparr>)\<rparr>)"
proof -
  have "\<not> runs_on s i d" for d using assms(2) by (simp add: runs_on_def)
  with assms gates_okD [OF assms(1)] show ?thesis
    by (intro gates_okI) (auto simp: runs_on_upd same_gates_def dest: has_task_upd)
qed

lemma gates_ok_enter:
  assumes "gates_ok s" and "os_tasks s i = Some \<lparr>tk_job = job, tk_phase = Waiting\<rparr>"
    and "jr_serialized job \<longrightarrow> mg_locks (os_manager s) (jr_device_id job) = None"
    and "mg_maintenance_active m = mg_maintenance_active (os_manager s)"
    and "mg_locks m = (if jr_serialized job then (mg_locks (os_manager s))(jr_device_id job \<mapsto> Held_by_operation i)
           else mg_locks (os_manager s))"
  shows "gates_ok (s\<lparr>os_manager := m, os_tasks := (os_tasks s)(i \<mapsto> \<lparr>tk_job = job, tk_phase = Working\<rparr>)\<rparr>)"
proof -
  have idle: "\<not> runs_on s i d" for d using assms(2) by (simp add: runs_on_def)
  have own: "has_task s (jr_device_id job)" using assms(2) unfolding has_task_def by fastforce
  show ?thesis
  proof (rule gates_okI, goal_cases)
    case (1 d j)
    then show ?case using assms(3,5) gates_okD(1) [OF assms(1), of d j] idle by (auto simp: runs_on_upd)
  next
    case (2 d)
    then show ?case using assms(4,5) gates_okD(2) [OF assms(1), of d] by (auto split: if_splits)
  next
    case (3 d)
    then have "mg_locks (os_manager s) d = Some Held_by_maintenance"
      using gates_okD(3) [OF assms(1), of d] own assms(4) by (auto dest: has_task_upd)
    with assms(3,5) show ?case by auto
  qed
qed

lemma gates_ok_leave:
  assumes "gates_ok s" and "os_tasks s i = Some \<lparr>tk_job = job, tk_phase = p\<rparr>"
    and "mg_maintenance_active m = mg_maintenance_active (os_manager s)"
    and "mg_locks m = (if jr_serialized job \<and> p = Working then (mg_locks (os_manager s))(jr_device_id job := None)
           else mg_locks (os_manager s))"
  shows "gates_ok (s\<lparr>os_manager := m, os_tasks := (os_tasks s)(i := None)\<rparr>)"
proof -
  have run: "runs_on s i d \<longleftrightarrow> p = Working \<and> jr_serialized job \<and> d = jr_device_id job" for d
    using assms(2) by (auto simp: runs_on_def)
  show ?thesis
  proof (rule gates_okI, goal_cases)
    case (1 d j)
    then show ?case
      using assms(4) gates_okD(1) [OF assms(1), of d j] gates_okD(1) [OF assms(1), of d i] run [of d]
      by (auto simp: runs_on_upd split: if_splits)
  next
    case (2 d)
    then show ?case using assms(3,4) gates_okD(2) [OF assms(1), of d] by (auto split: if_splits)
  next
    case (3 d)
    then have "mg_locks (os_manager s) d = Some Held_by_maintenance"
      using gates_okD(3) [OF assms(1), of d] assms(3) by (auto dest: has_task_upd)
    moreover have "\<not> runs_on s i d" using calculation gates_okD(1) [OF assms(1), of d i] by simp
    ultimately show ?case using assms(4) run [of d] by auto
  qed
qed

lemma gates_ok_manager:
  assumes "gates_ok s"
    and "\<And>d i. mg_locks m d = Some (Held_by_operation i) \<longleftrightarrow> mg_locks (os_manager s) d = Some (Held_by_operation i)"
    and "\<And>d. mg_locks m d = Some Held_by_maintenance \<Longrightarrow> d \<in> set (mg_maintenance_active m)"
    and "\<And>d. d \<in> set (mg_maintenance_active m) \<Longrightarrow> has_task s d \<Longrightarrow> mg_locks m d = Some Held_by_maintenance"
  shows "gates_ok (s\<lparr>os_manager := m\<rparr>)"
  using assms gates_okD(1) [OF assms(1)]
  by (intro gates_okI) (auto simp: runs_on_def has_task_def)

lemma gates_ok_granted:
  assumes "gates_ok s" and "mg_locks (os_manager s) d = None"
    and "acquire_granted d (os_manager s) = (r, m)"
  shows "gates_ok (s\<lparr>os_manager := m\<rparr>)"
proof -
  have "\<not> runs_on s i d" for i using gates_okD(1) [OF assms(1), of d i] assms(2) by simp
  with assms(2,3) gates_okD [OF assms(1)] show ?thesis
    by (intro gates_ok_manager [OF assms(1)]) (auto simp: acquire_granted_def smod_def split: if_splits)
qed

lemma gates_ok_released:
  assumes "gates_ok s" and "d \<in> set (mg_maintenance_active (os_manager s))"
    and "release_maintenance d (os_manager s) = (r, m)"
  shows "gates_ok (s\<lparr>os_manager := m\<rparr>)"
proof -
  have "mg_locks (os_manager s) d \<noteq> Some (Held_by_operation i)" for i
    using gates_okD [OF assms(1), of d] assms(2) runs_on_task [of s i d] by auto
  with assms(3) gates_okD [OF assms(1)] show ?thesis
    by (intro gates_ok_manager [OF assms(1)]) (auto simp: release_maintenance_def smod_def split: if_splits)
qed

lemma gates_ok_step:
  assumes "op_step fr s t" and "gates_ok s" and "tasks_known s"
  shows "gates_ok t"
  using assms
proof (induction rule: op_step.induct)
  case (admit sink now job i s r m)
  have same: "same_gates (os_manager s) m" by (rule leads_run [OF gates_admit admit(1)])
  have new: "gates_ok (s\<lparr>os_manager := m, os_tasks := (os_tasks s)(i \<mapsto> \<lparr>tk_job = job, tk_phase = Waiting\<rparr>)\<rparr>)"
    if "r = Inr (op, True)" for op
  proof (rule gates_ok_admit [OF admit(2) _ _ same])
    show "os_tasks s i = None"
      using admit_created [OF admit(1) [unfolded that]] admit(3) unfolding tasks_known_def by auto
    show "jr_device_id job \<notin> set (mg_maintenance_active (os_manager s))"
      using admit(1) that admit_refused [of job "os_manager s" fr sink now i] by auto
  qed
  show ?case
    using new gates_ok_same [OF admit(2) same] by (auto split: sum.split bool.split prod.split)
next
  case (enter s i job sink now r m)
  note g = enter_gates [OF enter(3)]
  show ?case
  proof (cases r)
    case (Inl e)
    have "gates_ok (s\<lparr>os_manager := m, os_tasks := (os_tasks s)(i := None)\<rparr>)"
      using g Inl enter(2) by (intro gates_ok_leave [OF enter(4,1)]) (auto simp: fun_upd_idem)
    with Inl show ?thesis by simp
  next
    case (Inr x)
    have "gates_ok (s\<lparr>os_manager := m, os_tasks := (os_tasks s)(i \<mapsto> \<lparr>tk_job = job, tk_phase = Working\<rparr>)\<rparr>)"
      using g Inr by (intro gates_ok_enter [OF enter(4,1,2)]) auto
    with Inr show ?thesis by simp
  qed
next
  case (abandon s i job e m)
  have "same_gates (os_manager s) m" by (rule leads_run [OF gates_handlers(4) abandon(2)])
  then show ?case by (intro gates_ok_leave [OF abandon(3,1)]) (auto simp: same_gates_def)
next
  case (finish s i job sink t1 t2 result message r m)
  from finish_gates [OF finish(2)] show ?case by (intro gates_ok_leave [OF finish(3,1)]) auto
next
  case (maintenance_granted d s r m)
  then show ?case by (intro gates_ok_granted)
next
  case (maintenance_released d s r m)
  then show ?case by (intro gates_ok_released)
qed (auto intro!: gates_ok_same intro: leads_run gate_rules)

lemma restore_all:
  "mg_locks (snd (sfor ds restore_maintenance m)) = mg_locks m"
  by (induction ds arbitrary: m) (simp_all add: st_run restore_maintenance_def)

lemma gates_ok_start: "gates_ok (op_start st now)"
  by (rule gates_okI)
     (auto simp: op_start_def start_manager_def on_store_def active_maintenance_leases_def st_run restore_all
       manager_init_def runs_on_def has_task_def)

lemma op_steps_ok:
  assumes "(op_step fr)\<^sup>*\<^sup>* (op_start st now) s"
  shows "gates_ok s \<and> tasks_known s"
  using assms
proof (induction rule: rtranclp_induct)
  case base
  show ?case using gates_ok_start by (simp add: tasks_known_def op_start_def)
next
  case (step s t)
  then show ?case by (blast intro: gates_ok_step tasks_known_step)
qed


section \<open>Admission\<close>

lemma fingerprint_nonempty: "fingerprint fr d a x p = Inr fp \<Longrightarrow> fp \<noteq> []"
  by (auto simp: fingerprint_def request_fingerprint_def bindr_eq_Inr u_def split: option.splits)

lemma storable_safe_value [simp]: "storable (safe_value v)"
  by (induction v rule: safe_value.induct) (auto simp: list_all_iff item_def jnat_def jstr_def)

lemma operation_row_fingerprint [simp]: "op_fingerprint (operation_row r) = op_fingerprint r"
  by (simp add: operation_row_def)


section \<open>The end of a call\<close>

definition same_row :: "ustr \<Rightarrow> manager \<Rightarrow> manager \<Rightarrow> bool" where
  "same_row i s t \<longleftrightarrow> find_op i t = find_op i s"

interpretation row: evolution "same_row i" for i
  by unfold_locales (auto simp: same_row_def)

lemma row_emit: "leads (same_row i) (emit sink op)"
  unfolding emit_def by (intro row.rules row.change) (simp_all add: same_row_def find_op_def)

lemma row_metrics: "leads (same_row i) (transition_metrics t op)"
proof -
  have "leads (same_row i) (on_metrics m)" for m :: "(metrics, unit) st"
    by (simp add: leads_def on_metrics_def same_row_def find_op_def split: prod.split)
  then show ?thesis
    unfolding transition_metrics_def observe_duration_def Let_def by (intro row.rules)
qed

lemma row_cleanup: "leads (same_row i) (execute_cleanup job j)"
  unfolding execute_cleanup_def release_lock_def pop_pending_op_def
  by (intro row.rules row.change) (simp_all add: same_row_def find_op_def)

text \<open>A legal transition sets the row, whatever the metrics and the sink do.\<close>

lemma update_sets:
  assumes "find_op i s = Some r" and "mapr check_change cs = Inr us"
  shows "wp (on_store (update_operation i cs)) (\<lambda>_ m. find_op i m = Some (fold apply_change cs r))
    (\<lambda>_ m. find_op i m = Some (fold apply_change cs r)) s"
  using assms by (simp add: wp_simps find_op_def Let_def op_changes.select_update)

lemma transition_sets:
  assumes "find_op i s = Some r" and "op_status r = operation_state_value x" and "legal x t"
    and "mapr check_change cs = Inr us"
  shows "wp (transition i (operation_state_value t) cs)
    (\<lambda>_ m. find_op i m = Some (fold apply_change (Set_status (operation_state_value t) # cs) r))
    (\<lambda>_ m. find_op i m = Some (fold apply_change (Set_status (operation_state_value t) # cs) r)) s"
proof -
  let ?P = "\<lambda>m. find_op i m = Some (fold apply_change (Set_status (operation_state_value t) # cs) r)"
  have tr: "operation_transition (op_status r) (operation_state_value t) = Inr t"
    using assms(2,3) by (simp add: operation_transition_values)
  have "wp (on_store (update_operation i (Set_status (operation_state_value t) # cs)))
     (\<lambda>_. ?P) (\<lambda>_. ?P) s"
    using assms(4) by (intro update_sets [OF assms(1)]) (simp add: res_simps)
  then have "wp (sbind (on_store (update_operation i (Set_status (operation_state_value t) # cs)))
      (transition_metrics t)) (\<lambda>_. ?P) (\<lambda>_. ?P) s"
    unfolding wp_sbind
    by (rule wp_mono) (rule wp_mono [OF leadsD [OF row_metrics [of i]]]; simp add: same_row_def)+
  then show ?thesis
    unfolding wp_snd transition_run using assms(1) tr by simp
qed

definition outcome_state :: "op_row \<Rightarrow> json res \<Rightarrow> operation_state" where
  "outcome_state r result =
     (case result of
        Inr _ \<Rightarrow> SUCCEEDED
      | Inl e \<Rightarrow> if e = CancelledError then (if op_action r \<in> set UNSAFE_ACTIONS then OUTCOME_UNKNOWN else INTERRUPTED)
               else if is_unknown e then OUTCOME_UNKNOWN else FAILED)"

lemma storable_boot_id_copy [simp]: "storable v \<Longrightarrow> storable (boot_id_copy v)"
proof (induction v rule: boot_id_copy.induct)
  case (1 d)
  have add: "storable (JDict (fold add_boot_text xs e))" if "storable (JDict e)" for xs e
    using that
  proof (induction xs arbitrary: e)
    case (Cons x xs)
    have "storable (JDict (dput e k (JStr t)))" for k t
      using Cons.prems by (induction e k "JStr t" rule: dput.induct) (auto simp: list_all_iff split: if_splits)
    then have "storable (JDict (add_boot_text x e))"
      using Cons.prems by (auto simp: add_boot_text_def split: prod.split json.split)
    with Cons.IH show ?case by simp
  qed simp
  show ?case
    using 1 by (simp only: boot_id_copy.simps) (rule add, auto simp: list_all_iff)
qed (auto simp: list_all_iff)

lemma storable_dupdate:
  "list_all (\<lambda>kv. storable (snd kv)) d \<Longrightarrow> list_all (\<lambda>kv. storable (snd kv)) e \<Longrightarrow>
   list_all (\<lambda>kv. storable (snd kv)) (dupdate d e)"
proof -
  have put: "list_all (\<lambda>kv. storable (snd kv)) d \<Longrightarrow> storable v \<Longrightarrow> list_all (\<lambda>kv. storable (snd kv)) (dput d k v)" for d k v
    by (induction d k v rule: dput.induct) auto
  show "list_all (\<lambda>kv. storable (snd kv)) d \<Longrightarrow> list_all (\<lambda>kv. storable (snd kv)) e \<Longrightarrow>
      list_all (\<lambda>kv. storable (snd kv)) (dupdate d e)"
    unfolding dupdate_def by (induction e arbitrary: d) (auto simp: put)
qed

lemma storable_final_progress:
  assumes "storable (op_progress r)"
  shows "storable (final_progress now (Some (operation_row r)))"
proof -
  have "storable (boot_id_copy (op_progress r))" using assms by simp
  then show ?thesis
    by (auto simp: final_progress_def operation_row_def item_def jstr_def intro!: storable_dupdate
        split: json.split)
qed

lemma emit_after:
  assumes "wp m (\<lambda>_ t. find_op i t = x) (\<lambda>_ t. find_op i t = x) s" and "\<And>op. leads (same_row i) (k op)"
  shows "wp (sbind m k) (\<lambda>_ t. find_op i t = x) (\<lambda>_ t. find_op i t = x) s"
  unfolding wp_sbind
  by (rule wp_mono [OF assms(1)], rule wp_mono [OF leadsD [OF assms(2)]]) (simp_all add: same_row_def)

lemma row_tail: "leads (same_row i) (sbind (emit sink op) (\<lambda>_. sraise e))"
  "leads (same_row i) (sbind (emit sink op) (\<lambda>_. sret op))"
  by (intro row.rules row_emit)+

lemma wp_lookup:
  "wp (sbind (on_store (operation i)) f) Q E s = wp (f (map_option operation_row (find_op i s))) Q E s"
  by (simp add: wp_simps operation_def find_op_def)

definition ends_in :: "ustr \<Rightarrow> operation_state \<Rightarrow> int \<Rightarrow> manager \<Rightarrow> bool" where
  "ends_in i x now m \<longleftrightarrow>
     (\<exists>r. find_op i m = Some r \<and> op_status r = operation_state_value x \<and> op_finished_ns r = Some now)"

lemma run_ends:
  assumes r: "find_op i s = Some r" "op_status r = operation_state_value x" "\<not> terminal x" "x \<noteq> QUEUED"
    and progress: "storable (op_progress r)" and result: "\<And>m. result \<noteq> Inl (OperationCancelled m)"
  shows "wp (case result of Inr summary \<Rightarrow> run_succeeded sink t1 t2 i summary
      | Inl e \<Rightarrow> run_failed sink t2 i e message)
    (\<lambda>_. ends_in i (outcome_state r result) t2) (\<lambda>_. ends_in i (outcome_state r result) t2) s"
proof -
  have step: "wp (sbind (transition i (operation_state_value t) cs) k) (\<lambda>_. ends_in i t t2) (\<lambda>_. ends_in i t t2) s"
    if "mapr check_change cs = Inr us" "\<And>op. leads (same_row i) (k op)" "keeps_status cs"
      "op_finished_ns (fold apply_change cs (r\<lparr>op_status := operation_state_value t\<rparr>)) = Some t2"
    for t cs us and k :: "op_row \<Rightarrow> (manager, op_row) st"
  proof -
    have legal: "legal x t" using r(3,4) by (simp add: legal_def)
    show ?thesis
      by (rule wp_mono [OF emit_after [OF transition_sets [OF r(1,2) legal that(1)] that(2)]])
         (simp_all add: ends_in_def that apply_changes_status)
  qed
  have err: "wp (sbind (transition i v [Set_error m, Set_finished_ns t2]) (\<lambda>op. sbind (emit sink op) (\<lambda>_. sraise e :: (manager, op_row) st)))
      (\<lambda>_. ends_in i t t2) (\<lambda>_. ends_in i t t2) s" if "v = operation_state_value t" for v m t e
    unfolding that by (rule step) (simp_all add: res_simps row_tail)
  show ?thesis
  proof (cases result)
    case (Inr v)
    have "wp (sbind (transition i (operation_state_value SUCCEEDED) [Set_result (safe_value v),
          Set_progress (final_progress t1 (Some (operation_row r))), Set_finished_ns t2])
        (\<lambda>op. sbind (emit sink op) (\<lambda>_. sret op)))
        (\<lambda>_. ends_in i SUCCEEDED t2) (\<lambda>_. ends_in i SUCCEEDED t2) s"
      by (rule step) (simp_all add: to_json_def res_simps row_tail storable_final_progress [OF progress])
    with Inr r(1) show ?thesis by (simp add: run_succeeded_def wp_lookup outcome_state_def)
  next
    case (Inl e)
    then have "\<not> is_operation_cancelled e" using result by (cases e) auto
    with Inl r(1) show ?thesis
      unfolding outcome_state_def run_failed_def
      by (auto simp: wp_lookup interrupted_state_def operation_row_def simp del: u_def intro!: err)
  qed
qed

lemma cleanup_effect:
  "execute_cleanup job i s =
     (Inr (), s\<lparr>mg_locks := (if jr_serialized job then (mg_locks s)(jr_device_id job := None) else mg_locks s),
                mg_pending := filter (\<lambda>kv. fst kv \<noteq> i) (mg_pending s)\<rparr>)"
  by (simp add: execute_cleanup_def release_lock_def pop_pending_op_def st_run)

text \<open>Claim C28. When the call of a running operation ends, its durable row is in the final state that stands for
  the outcome, with the time of the end: succeeded for a result, failed for an exception, outcome unknown for a
  timeout and for an interrupted write to the device, interrupted for other interruptions. The pending entry is
  gone and the lock of the device free, also when the event sink raises.\<close>

theorem finish_records_outcome:
  assumes "find_op i s = Some r" and "op_status r = operation_state_value x" and "\<not> terminal x" and "x \<noteq> QUEUED"
    and "storable (op_progress r)" and "\<And>m. result \<noteq> Inl (OperationCancelled m)"
    and "execute_finish sink t1 t2 job i result message s = (out, m)"
  shows "ends_in i (outcome_state r result) t2 m \<and> terminal (outcome_state r result)
    \<and> i \<notin> fst ` set (mg_pending m) \<and> (jr_serialized job \<longrightarrow> mg_locks m (jr_device_id job) = None)"
proof -
  define body where "body = (case result of Inr summary \<Rightarrow> run_succeeded sink t1 t2 i summary
      | Inl e \<Rightarrow> run_failed sink t2 i e message)"
  obtain o' m' where b: "body s = (o', m')" by fastforce
  have "ends_in i (outcome_state r result) t2 m'"
  proof -
    have "wp body (\<lambda>_. ends_in i (outcome_state r result) t2) (\<lambda>_. ends_in i (outcome_state r result) t2) s"
      unfolding body_def by (rule run_ends [OF assms(1-6)])
    with b show ?thesis unfolding wp_snd by simp
  qed
  moreover have "m = m'\<lparr>mg_locks := (if jr_serialized job then (mg_locks m')(jr_device_id job := None) else mg_locks m'),
      mg_pending := filter (\<lambda>kv. fst kv \<noteq> i) (mg_pending m')\<rparr>"
    using assms(7) b
    by (cases o') (simp_all add: execute_finish_def body_def [symmetric] sfinally_def sbind_def cleanup_effect
      sret_def sraise_def)
  ultimately show ?thesis
    by (auto simp: ends_in_def find_op_def outcome_state_def TERMINAL_OPERATION_STATES_def split: sum.split)
qed

section \<open>Restart\<close>

text \<open>\<^verbatim>\<open>_recover_interrupted\<close> of \<^verbatim>\<open>cli.py\<close>: the operations a stopped gateway left active.\<close>

definition RECOVERED_STATES :: "string list" where
  "RECOVERED_STATES = [''queued'', ''running'', ''entering_recovery'', ''waiting_recovery'', ''recovery_connected'',
     ''preparing_ota'', ''erasing'', ''preserving_evidence'', ''validating_plan'', ''transferring'', ''verifying'',
     ''committing'', ''waiting_device'', ''reconnecting'']"

definition uncertain_action :: "ustr \<Rightarrow> bool" where
  "uncertain_action action \<longleftrightarrow> list_ex (\<lambda>p. starts_with p action)
     [''rpc.'', ''device.restart'', ''firmware.ota'', ''firmware.system_update'']"

definition recover_one :: "int \<Rightarrow> ustr \<times> ustr \<Rightarrow> (store, unit) st" where
  "recover_one now row =
     sbind (update_operation (fst row)
              [Set_status (if uncertain_action (snd row) then ''outcome_unknown'' else ''interrupted''),
               Set_error (u ''gateway restarted; operation was not replayed''), Set_finished_ns now]) (\<lambda>_.
     sret ())"

definition recover_interrupted :: "int \<Rightarrow> (store, unit) st" where
  "recover_interrupted now =
     sbind (sget (\<lambda>s. map (\<lambda>r. (op_operation_id r, op_action r))
              (filter (\<lambda>r. op_status r \<in> set RECOVERED_STATES) (st_operations s)))) (\<lambda>rows.
     sbind (sfor rows (recover_one now)) (\<lambda>_.
     if rows = [] then sret ()
     else sbind (add_audit now (u ''system'') (u ''gateway'') (u ''operations.recovered'')
                   (JDict [item ''count'' (jnat (length rows)), item ''replayed'' (JBool False)])) (\<lambda>_.
          sret ())))"

text \<open>The list of the query is the list of the active states.\<close>

lemma recovered_states: "x \<in> set RECOVERED_STATES \<longleftrightarrow> x \<in> operation_state_value ` set ACTIVE_OPERATION_STATES"
  by (auto simp: RECOVERED_STATES_def ACTIVE_OPERATION_STATES_def operation_state_members_def
      TERMINAL_OPERATION_STATES_def)

definition recovered_row :: "int \<Rightarrow> op_row \<Rightarrow> op_row" where
  "recovered_row now r =
     (if op_status r \<in> set RECOVERED_STATES
      then r\<lparr>op_status := (if uncertain_action (op_action r) then ''outcome_unknown'' else ''interrupted''),
             op_error := Some (u ''gateway restarted; operation was not replayed''), op_finished_ns := Some now\<rparr>
      else r)"

definition recover_change :: "int \<Rightarrow> ustr \<Rightarrow> op_row \<Rightarrow> op_row" where
  "recover_change now action r =
     r\<lparr>op_status := (if uncertain_action action then ''outcome_unknown'' else ''interrupted''),
       op_error := Some (u ''gateway restarted; operation was not replayed''), op_finished_ns := Some now\<rparr>"

lemma recover_one_rows:
  "st_operations (snd (recover_one now row s)) =
     map (\<lambda>r. if op_operation_id r = fst row then recover_change now (snd row) r else r) (st_operations s)"
  by (simp add: recover_one_def update_operation_def operation_def st_run res_simps update_where_def
      recover_change_def split: option.split)

lemma recover_one_returns:
  assumes "fst row \<in> op_operation_id ` set (st_operations s)"
  shows "fst (recover_one now row s) = Inr ()"
proof -
  obtain r where "select op_operation_id (fst row) (st_operations s) = Some r"
    using assms select_None [of op_operation_id "fst row" "st_operations s"] by auto
  then have "wp (recover_one now row) (\<lambda>_ _. True) (\<lambda>_ _. False) s"
    by (simp add: recover_one_def wp_simps res_simps Let_def)
  then show ?thesis by (auto simp: wp_def split: sum.splits prod.splits)
qed

lemma recover_loop:
  assumes "fst ` set L \<subseteq> op_operation_id ` set (st_operations s)" and "distinct (map fst L)"
  shows "\<exists>t. sfor L (recover_one now) s = (Inr (), t) \<and> st_operations t =
     map (\<lambda>r. case map_of L (op_operation_id r) of None \<Rightarrow> r | Some a \<Rightarrow> recover_change now a r) (st_operations s)"
  using assms
proof (induction L arbitrary: s)
  case Nil
  show ?case by (simp add: sret_def)
next
  case (Cons row L)
  obtain t where one: "recover_one now row s = (Inr (), t)"
    using recover_one_returns [of row s now] Cons.prems(1) by (metis image_subset_iff list.set_intros(1) prod.collapse)
  have rows: "st_operations t =
      map (\<lambda>r. if op_operation_id r = fst row then recover_change now (snd row) r else r) (st_operations s)"
    using recover_one_rows [of now row s] one by simp
  have "map op_operation_id (st_operations t) = map op_operation_id (st_operations s)"
    by (auto simp: rows recover_change_def)
  then have ids: "op_operation_id ` set (st_operations t) = op_operation_id ` set (st_operations s)"
    by (metis set_map)
  obtain t' where t': "sfor L (recover_one now) t = (Inr (), t')" "st_operations t' =
      map (\<lambda>r. case map_of L (op_operation_id r) of None \<Rightarrow> r | Some a \<Rightarrow> recover_change now a r) (st_operations t)"
    using Cons.IH [of t] Cons.prems ids by auto
  have "map_of L (fst row) = None" using Cons.prems(2) by (simp add: map_of_eq_None_iff)
  with one t' rows show ?case
    by (cases row) (auto simp: sbind_def recover_change_def split: option.split)
qed

text \<open>Claim C29. A gateway that starts again leaves no operation active and replays none: every row that was in
  an active state ends in the unknown outcome when its action may have written to the device, and as interrupted
  otherwise, with the time of the restart; every other row is unchanged.\<close>

theorem restart_settles_operations:
  assumes "distinct (map op_operation_id (st_operations s))"
  shows "st_operations (snd (recover_interrupted now s)) = map (recovered_row now) (st_operations s)
    \<and> (\<forall>r \<in> set (st_operations (snd (recover_interrupted now s))).
         op_status r \<notin> operation_state_value ` set ACTIVE_OPERATION_STATES)"
proof -
  define L where "L = map (\<lambda>r. (op_operation_id r, op_action r))
    (filter (\<lambda>r. op_status r \<in> set RECOVERED_STATES) (st_operations s))"
  have dist: "distinct (map fst L)"
    using assms by (simp add: L_def comp_def distinct_map_filter)
  have ids: "fst ` set L \<subseteq> op_operation_id ` set (st_operations s)"
    by (auto simp: L_def)
  obtain t where t: "sfor L (recover_one now) s = (Inr (), t)" "st_operations t =
      map (\<lambda>r. case map_of L (op_operation_id r) of None \<Rightarrow> r | Some a \<Rightarrow> recover_change now a r) (st_operations s)"
    using recover_loop [OF ids dist] by blast
  have rows: "st_operations (snd (recover_interrupted now s)) = st_operations t"
    using t(1) by (simp add: recover_interrupted_def L_def [symmetric] st_run add_audit_def to_json_def item_def jnat_def)
  have "(case map_of L (op_operation_id r) of None \<Rightarrow> r | Some a \<Rightarrow> recover_change now a r) = recovered_row now r"
    if r: "r \<in> set (st_operations s)" for r
  proof (cases "op_status r \<in> set RECOVERED_STATES")
    case True
    then have "map_of L (op_operation_id r) = Some (op_action r)"
      using r dist by (intro map_of_is_SomeI) (auto simp: L_def)
    with True show ?thesis by (simp add: recovered_row_def recover_change_def)
  next
    case False
    have "op_operation_id r \<notin> fst ` set L"
    proof
      assume "op_operation_id r \<in> fst ` set L"
      then obtain r' where "r' \<in> set (st_operations s)" "op_operation_id r' = op_operation_id r"
        "op_status r' \<in> set RECOVERED_STATES" by (auto simp: L_def)
      with r assms False show False by (metis distinct_map inj_on_def)
    qed
    then have "map_of L (op_operation_id r) = None" by (simp add: map_of_eq_None_iff)
    with False show ?thesis by (simp add: recovered_row_def)
  qed
  with t(2) rows have eq: "st_operations (snd (recover_interrupted now s)) = map (recovered_row now) (st_operations s)"
    by simp
  have "op_status (recovered_row now r) \<notin> operation_state_value ` set ACTIVE_OPERATION_STATES" for r
    unfolding recovered_states [symmetric] by (simp add: recovered_row_def) (simp add: RECOVERED_STATES_def)
  with eq show ?thesis by auto
qed

text \<open>A release by someone who does not hold the maintenance of a device frees the lock of the operation that
  runs there.\<close>

lemma release_frees_any_lock: "mg_locks (snd (release_maintenance d s)) d = None"
  by (simp add: release_maintenance_def smod_def)

end
