(* ===== verification/Operation_Runs.thy ===== *)
theory Operation_Runs
  imports Operation_Safety
begin

text \<open>A concrete run of the operation manager, which witnesses the theorems of theory Operation\_Safety: an
  operation is admitted, enters its device and is under way.\<close>

section \<open>Admission of a new operation\<close>

definition quiet_sink :: sink where
  "quiet_sink op = None"

lemma admit_new:
  assumes "fingerprint fr (jr_device_id job) (jr_actor job) (jr_action job) (jr_params job) = Inr fp"
    and "maintenance_state (jr_device_id job) s = None" and "find_op i s = None"
  shows "\<exists>op m r. execute_admit fr quiet_sink now job i s = (Inr (op, True), m) \<and> find_op i m = Some r
    \<and> op_status r = (if jr_serialized job then ''queued'' else ''running'') \<and> op_fingerprint r = Some fp
    \<and> op_progress r = JNull \<and> mg_locks m = mg_locks s
    \<and> map_of (mg_pending m) i = Some \<lparr>pe_device_id = jr_device_id job, pe_cancelled = False, pe_running = False\<rparr>"
proof -
  obtain c cs where fp: "fp = c # cs" using fingerprint_nonempty [OF assms(1)] by (cases fp) auto
  have row: "select op_operation_id i (st_operations (mg_store s)) = None"
    using assms(3) by (simp add: find_op_def)
  show ?thesis
    using assms(1,2) row fp
    by (simp add: execute_admit_def execute_begin_def create_operation_def given_fingerprint_def to_json_def
        insert_operation_def operation_def emit_def quiet_sink_def st_run on_store_def new_op_row_def
        require_same_request_def select_append find_op_def)
qed

text \<open>A transition to an active state returns.\<close>

lemma transition_returns:
  assumes "find_op i s = Some r" and "op_status r = operation_state_value x" and "legal x t"
    and "mapr check_change cs = Inr us" and "\<not> terminal t"
  shows "wp (transition i (operation_state_value t) cs)
    (\<lambda>_ m. find_op i m = Some (fold apply_change (Set_status (operation_state_value t) # cs) r)) (\<lambda>_ _. False) s"
proof -
  define cs' where "cs' = Set_status (operation_state_value t) # cs"
  have check: "mapr check_change cs' = Inr (() # us)" using assms(4) by (simp add: cs'_def res_simps)
  have row: "select op_operation_id i (st_operations (mg_store s)) = Some r"
    using assms(1) by (simp add: find_op_def)
  have tr: "operation_transition (op_status r) (operation_state_value t) = Inr t"
    using assms(2,3) by (simp add: operation_transition_values)
  have run: "transition i (operation_state_value t) cs s
      = sbind (on_store (update_operation i cs')) (transition_metrics t) s"
    using assms(1) tr by (simp add: transition_run cs'_def)
  have "wp (sbind (on_store (update_operation i cs')) (transition_metrics t))
      (\<lambda>_ m. find_op i m = Some (fold apply_change cs' r)) (\<lambda>_ _. False) s"
    using row check assms(5)
    by (simp add: wp_simps transition_metrics_def increment_def Let_def find_op_def op_changes.select_update)
  then show ?thesis unfolding wp_def run cs'_def .
qed

lemma enter_new:
  assumes "find_op i s = Some r" and "op_status r = ''queued''"
    and "map_of (mg_pending s) i = Some \<lparr>pe_device_id = d, pe_cancelled = False, pe_running = False\<rparr>"
    and "jr_serialized job"
  shows "\<exists>m. execute_enter quiet_sink now job i s = (Inr (), m) \<and>
    find_op i m = Some (r\<lparr>op_status := ''running'', op_started_ns := Some now, op_queue_position := 0\<rparr>)"
proof -
  let ?P = "\<lambda>m. find_op i m = Some (r\<lparr>op_status := ''running'', op_started_ns := Some now, op_queue_position := 0\<rparr>)"
  let ?s = "s\<lparr>mg_locks := (mg_locks s)(jr_device_id job \<mapsto> Held_by_operation i),
     mg_pending := map (\<lambda>kv. if fst kv = i then (fst kv, snd kv\<lparr>pe_running := True\<rparr>) else kv) (mg_pending s)\<rparr>"
  have "wp (transition i (operation_state_value RUNNING) [Set_started_ns now, Set_queue_position 0])
      (\<lambda>_. ?P) (\<lambda>_ _. False) ?s"
    using transition_returns [of i ?s r QUEUED RUNNING "[Set_started_ns now, Set_queue_position 0]"] assms(1,2)
    by (simp add: find_op_def legal_def res_simps)
  then have "wp (transition i ''running'' [Set_started_ns now, Set_queue_position 0])
      (\<lambda>op m. ?P (m\<lparr>mg_emitted := mg_emitted m @ [op]\<rparr>)) (\<lambda>_ _. False) ?s"
    by (auto simp: find_op_def elim!: wp_mono)
  then have "wp (execute_enter quiet_sink now job i) (\<lambda>_. ?P) (\<lambda>_ _. False) s"
    using assms(3,4)
    by (simp add: execute_enter_def take_lock_def check_cancelled_def run_start_def set_pending_def emit_def
        quiet_sink_def wp_simps) (auto elim!: wp_mono)
  moreover obtain o' m where "execute_enter quiet_sink now job i s = (o', m)" by fastforce
  ultimately show ?thesis by (cases o') (auto simp: wp_def)
qed

section \<open>A run\<close>

definition ex_actor :: actor where
  "ex_actor = \<lparr>ac_kind = u ''developer'', ac_name = u ''Developer'', ac_scopes = [u ''*'']\<rparr>"

definition ex_job :: job_request where
  "ex_job = \<lparr>jr_device_id = u ''d1'', jr_actor = ex_actor, jr_action = u ''rpc.raw'', jr_params = JNull,
     jr_serialized = True\<rparr>"

definition ex_fr :: "rat \<Rightarrow> string" where
  "ex_fr x = ''0.0''"

lemma utf8_ascii: "list_all (\<lambda>c. c < 128) s \<Longrightarrow> \<exists>b. utf8_encode s = Some b"
  by (induction s) (auto simp: utf8_char_def)

lemma ex_fingerprint:
  "\<exists>fp. fingerprint ex_fr (jr_device_id ex_job) (jr_actor ex_job) (jr_action ex_job) (jr_params ex_job) = Inr fp"
proof -
  obtain enc where "dumps ex_fr (canonical (request_identity
      [item ''device_id'' (JStr (u ''d1'')), item ''actor_type'' (JStr (u ''developer'')),
       item ''actor_name'' (JStr (u ''Developer'')), item ''actor_scopes'' (JList [JStr (u ''*'')]),
       item ''action'' (JStr (u ''rpc.raw'')), item ''params'' JNull])) = Inr enc" "list_all (\<lambda>c. c < 128) enc"
    by (simp add: request_identity_def IDENTITY_KEYS_def dget_def dget_default_def item_def u_def res_simps
        jstr_def json_string_def json_char_def)
  with utf8_ascii [of enc] show ?thesis
    by (auto simp: fingerprint_def request_fingerprint_def request_encoding_def ex_job_def ex_actor_def
        sorted_scopes_def)
qed

definition ex_start :: op_system where
  "ex_start = op_start store_init 0"

lemma ex_start_facts:
  "maintenance_state d (os_manager ex_start) = None" "find_op i (os_manager ex_start) = None"
  "os_tasks ex_start = Map.empty" "mg_locks (os_manager ex_start) = Map.empty"
  by (simp_all add: ex_start_def op_start_def start_manager_def on_store_def active_maintenance_leases_def st_run
      store_init_def manager_init_def maintenance_state_def find_op_def select_def)

lemma ex_operation_run:
  obtains s1 s2 r1 r2 fp where "op_step ex_fr ex_start s1" and "op_step ex_fr s1 s2"
    and "find_op [49] (os_manager s1) = Some r1" and "op_status r1 = ''queued''"
    and "find_op [49] (os_manager s2) = Some r2" and "op_status r2 = ''running''" and "op_progress r2 = JNull"
    and "runs_on s2 [49] (u ''d1'')"
    and "fingerprint ex_fr (jr_device_id ex_job) (jr_actor ex_job) (jr_action ex_job) (jr_params ex_job) = Inr fp"
    and "op_fingerprint r1 = Some fp" and "maintenance_state (u ''d1'') (os_manager s1) = None"
proof -
  obtain fp where fp: "fingerprint ex_fr (jr_device_id ex_job) (jr_actor ex_job) (jr_action ex_job)
      (jr_params ex_job) = Inr fp" using ex_fingerprint by blast
  obtain op m r where admit: "execute_admit ex_fr quiet_sink 5 ex_job [49] (os_manager ex_start) = (Inr (op, True), m)"
    and r: "find_op [49] m = Some r" "op_status r = ''queued''" "op_fingerprint r = Some fp" "op_progress r = JNull"
    and m: "mg_locks m = Map.empty"
      "map_of (mg_pending m) [49] = Some \<lparr>pe_device_id = u ''d1'', pe_cancelled = False, pe_running = False\<rparr>"
    using admit_new [OF fp, of "os_manager ex_start" "[49]" 5]
    by (auto simp: ex_start_facts ex_job_def)
  define s1 where "s1 = ex_start\<lparr>os_manager := m, os_tasks := [[49] \<mapsto> \<lparr>tk_job = ex_job, tk_phase = Waiting\<rparr>]\<rparr>"
  have step1: "op_step ex_fr ex_start s1"
    using op_step.admit [OF admit] by (simp add: s1_def ex_start_facts)
  obtain m' where enter: "execute_enter quiet_sink 6 ex_job [49] m = (Inr (), m')"
    and r': "find_op [49] m' = Some (r\<lparr>op_status := ''running'', op_started_ns := Some 6, op_queue_position := 0\<rparr>)"
    using enter_new [OF r(1,2) m(2), of ex_job 6] by (auto simp: ex_job_def)
  define s2 where "s2 = s1\<lparr>os_manager := m', os_tasks := [[49] \<mapsto> \<lparr>tk_job = ex_job, tk_phase = Working\<rparr>]\<rparr>"
  have step2: "op_step ex_fr s1 s2"
    using op_step.enter [of s1 "[49]" ex_job quiet_sink 6 "Inr ()" m' ex_fr] enter m(1)
    by (simp add: s1_def s2_def)
  have gate: "maintenance_state (u ''d1'') m = None"
    using leads_run [OF gates_admit admit] admit ex_start_facts(1) [of "u ''d1''"]
    by (auto simp: same_gates_def maintenance_state_def execute_admit_def execute_begin_def st_run on_store_def
        emit_def quiet_sink_def split: if_splits prod.splits sum.splits)
  show thesis
    by (rule that [OF step1 step2 _ r(2) _ _ _ _ fp r(3),
          of "r\<lparr>op_status := ''running'', op_started_ns := Some 6, op_queue_position := 0\<rparr>"])
       (use r r' gate in \<open>simp_all add: s1_def s2_def runs_on_def ex_job_def\<close>)
qed

section \<open>Witnesses\<close>




theorem finish_records_outcome_witness:
  "\<exists>s m. ends_in [49] OUTCOME_UNKNOWN 9 (m :: manager) \<and> mg_locks m (u ''d1'') = None
     \<and> (\<exists>r. find_op [49] s = Some r \<and> op_status r = ''running'')"
proof (rule ex_operation_run)
  fix s2 r2
  assume r: "find_op [49] (os_manager s2) = Some r2" "op_status r2 = ''running''" "op_progress r2 = JNull"
  obtain out m where fin: "execute_finish quiet_sink 8 9 ex_job [49] (Inl (TimeoutError ''lost'')) (u ''lost'')
      (os_manager s2) = (out, m)" by fastforce
  have "op_status r2 = operation_state_value RUNNING" "storable (op_progress r2)" using r by simp_all
  from finish_records_outcome [OF r(1) this(1) _ _ this(2) _ fin] show ?thesis
    using r by (intro exI [of _ "os_manager s2"] exI [of _ m]) (auto simp: outcome_state_def ex_job_def)
qed

definition ex_row :: op_row where
  "ex_row = \<lparr>op_operation_id = u ''1'', op_device_id = u ''d1'', op_actor_type = u ''developer'',
     op_actor_name = u ''Developer'', op_action = u ''firmware.ota'', op_params = JNull, op_status = ''transferring'',
     op_result = JNull, op_error = None, op_created_ns = 1, op_started_ns = Some 2, op_finished_ns = None,
     op_queue_position = 0, op_progress = JNull, op_fingerprint = None\<rparr>"

theorem restart_settles_operations_witness:
  "map op_status (st_operations (snd (recover_interrupted 9 (store_init\<lparr>st_operations := [ex_row]\<rparr>))))
     = [''outcome_unknown'']"
proof -
  have "distinct (map op_operation_id (st_operations (store_init\<lparr>st_operations := [ex_row]\<rparr>)))" by simp
  from restart_settles_operations [OF this, of 9] show ?thesis
    by (simp add: recovered_row_def ex_row_def RECOVERED_STATES_def uncertain_action_def starts_with_def u_def)
qed

end
