(* ===== verification/Py_Value.thy ===== *)
theory Py_Value
  imports Json_Value Protocol_Types
begin

text \<open>
  What the source does with values of unknown type: truth, equality, attribute access and iteration, and
  \<^verbatim>\<open>int(value)\<close>.
\<close>

section \<open>Truth and equality\<close>

fun truthy :: "json \<Rightarrow> bool" where
  "truthy JNull = False"
| "truthy (JBool b) = b"
| "truthy (JInt n) = (n \<noteq> 0)"
| "truthy (JFloat x) = (x \<noteq> 0)"
| "truthy (JStr s) = (s \<noteq> [])"
| "truthy (JBytes b) = (b \<noteq> [])"
| "truthy (JList vs) = (vs \<noteq> [])"
| "truthy (JDict d) = (d \<noteq> [])"

text \<open>Numbers of all types are compared by value, dictionaries without their order.\<close>

fun number :: "json \<Rightarrow> rat option" where
  "number (JBool b) = Some (if b then 1 else 0)"
| "number (JInt n) = Some (of_int n)"
| "number (JFloat x) = Some x"
| "number _ = None"

fun py_eq :: "json \<Rightarrow> json \<Rightarrow> bool"
  and py_eq_list :: "json list \<Rightarrow> json list \<Rightarrow> bool"
  and py_eq_items :: "dict \<Rightarrow> dict \<Rightarrow> bool" where
  "py_eq (JList vs) w = (case w of JList ws \<Rightarrow> py_eq_list vs ws | _ \<Rightarrow> False)"
| "py_eq (JDict d) w = (case w of JDict e \<Rightarrow> length d = length e \<and> py_eq_items d e | _ \<Rightarrow> False)"
| "py_eq v w = (if number v \<noteq> None then number v = number w else v = w)"
| "py_eq_list [] ws = (ws = [])"
| "py_eq_list (v # vs) ws = (case ws of w # ws' \<Rightarrow> py_eq v w \<and> py_eq_list vs ws' | [] \<Rightarrow> False)"
| "py_eq_items [] e = True"
| "py_eq_items ((k, v) # d) e = ((case map_of e k of Some w \<Rightarrow> py_eq v w | None \<Rightarrow> False) \<and> py_eq_items d e)"

section \<open>Attributes and iteration\<close>

text \<open>\<^verbatim>\<open>v.get(key, default)\<close>, and \<^verbatim>\<open>for x in v\<close>.\<close>

definition jget :: "json \<Rightarrow> string \<Rightarrow> json \<Rightarrow> json res" where
  "jget v key d = (case v of JDict e \<Rightarrow> Inr (dget_default e key d) | _ \<Rightarrow> Inl AttributeError)"

definition iterate :: "json \<Rightarrow> json list res" where
  "iterate v = (case v of
     JList vs \<Rightarrow> Inr vs
   | JDict d \<Rightarrow> Inr (map (\<lambda>kv. JStr (fst kv)) d)
   | JStr s \<Rightarrow> Inr (map (\<lambda>c. JStr [c]) s)
   | JBytes b \<Rightarrow> Inr (map (\<lambda>x. JInt (uint x)) b)
   | _ \<Rightarrow> Inl (TypeError ''object is not iterable''))"

text \<open>\<^verbatim>\<open>any(...)\<close> and a loop that returns \<^verbatim>\<open>False\<close> at the first failure.\<close>

fun anyr :: "('a \<Rightarrow> bool res) \<Rightarrow> 'a list \<Rightarrow> bool res" where
  "anyr p [] = Inr False"
| "anyr p (x # xs) = bindr (p x) (\<lambda>b. if b then Inr True else anyr p xs)"

fun allr :: "('a \<Rightarrow> bool res) \<Rightarrow> 'a list \<Rightarrow> bool res" where
  "allr p [] = Inr True"
| "allr p (x # xs) = bindr (p x) (\<lambda>b. if b then allr p xs else Inr False)"

lemma allr_True: "allr p xs = Inr True \<longleftrightarrow> (\<forall>x \<in> set xs. p x = Inr True)"
  by (induction xs) (auto simp: res_simps)

section \<open>Integers\<close>

text \<open>
  \<^verbatim>\<open>int(value)\<close> of a JSON value: an integer or a truth value as it is, a float towards zero, and the decimal
  text with a sign, single underscores between digits and white space around it. The decimal digits of other scripts,
  which Python also reads, are refused here.
\<close>

fun digits_value :: "nat \<Rightarrow> ustr \<Rightarrow> nat option" where
  "digits_value acc [] = Some acc"
| "digits_value acc (c # cs) =
     (if 0x30 \<le> c \<and> c \<le> 0x39 then digits_value (10 * acc + (c - 0x30)) cs
      else if c = 0x5F
      then (case cs of d # _ \<Rightarrow> if 0x30 \<le> d \<and> d \<le> 0x39 then digits_value acc cs else None | [] \<Rightarrow> None)
      else None)"

definition MAX_STR_DIGITS :: nat where
  "MAX_STR_DIGITS = 4300"

definition digits_nat :: "ustr \<Rightarrow> nat option" where
  "digits_nat s =
     (case s of
        c # _ \<Rightarrow> if 0x30 \<le> c \<and> c \<le> 0x39 \<and> length (filter (\<lambda>d. d \<noteq> 0x5F) s) \<le> MAX_STR_DIGITS
                 then digits_value 0 s else None
      | [] \<Rightarrow> None)"

definition int_text :: "ustr \<Rightarrow> int option" where
  "int_text s =
     (case strip_by py_space s of
        c # cs \<Rightarrow> if c = 0x2D then map_option (\<lambda>n. - int n) (digits_nat cs)
                  else if c = 0x2B then map_option int (digits_nat cs)
                  else map_option int (digits_nat (c # cs))
      | [] \<Rightarrow> None)"

fun py_int :: "json \<Rightarrow> int res" where
  "py_int (JInt n) = Inr n"
| "py_int (JBool b) = Inr (if b then 1 else 0)"
| "py_int (JFloat x) = Inr (int_of_float x)"
| "py_int (JStr s) = (case int_text s of Some n \<Rightarrow> Inr n | None \<Rightarrow> Inl (ValueError ''invalid literal for int() with base 10''))"
| "py_int (JBytes b) = (case int_text (map unat b) of Some n \<Rightarrow> Inr n | None \<Rightarrow> Inl (ValueError ''invalid literal for int() with base 10''))"
| "py_int _ = Inl (TypeError ''int() argument must be a string, a bytes-like object or a real number'')"

end
