(* ===== verification/Security.thy ===== *)
theory Security
  imports Operations Py_Value
begin

text \<open>
  Authentication (\<^verbatim>\<open>security.py\<close>): actors and their scopes, the developer password, browser sessions and agent
  tokens. Random values (salts, tokens) and readings of the clock are arguments; the store is the one of theory Store.
\<close>

section \<open>Actors\<close>

definition AGENT_TOKEN_SCOPES :: "ustr list" where
  "AGENT_TOKEN_SCOPES = [u ''files.read'', u ''files.write'', u ''files.delete'']"

definition actor_as_dict :: "actor \<Rightarrow> dict" where
  "actor_as_dict a = [item ''type'' (JStr (ac_kind a)), item ''name'' (JStr (ac_name a)),
     item ''scopes'' (JList (map JStr (sorted_scopes (ac_scopes a))))]"

definition allows :: "actor \<Rightarrow> ustr \<Rightarrow> bool" where
  "allows a scope \<longleftrightarrow> u ''*'' \<in> set (ac_scopes a) \<or> scope \<in> set (ac_scopes a)"

text \<open>An actor made without scopes has them all.\<close>

definition full_actor :: "string \<Rightarrow> string \<Rightarrow> actor" where
  "full_actor kind name = \<lparr>ac_kind = u kind, ac_name = u name, ac_scopes = [u ''*'']\<rparr>"

section \<open>PBKDF2\<close>

text \<open>\<^verbatim>\<open>hashlib.pbkdf2_hmac("sha256", ...)\<close> with the digest's own length: one block of RFC 8018.\<close>

fun pbkdf2_rounds :: "nat \<Rightarrow> bytes \<Rightarrow> bytes \<Rightarrow> bytes \<Rightarrow> bytes" where
  "pbkdf2_rounds 0 password v acc = acc"
| "pbkdf2_rounds (Suc n) password v acc =
     (let v' = hmac_sha256 password v in pbkdf2_rounds n password v' (map2 xor acc v'))"

definition pbkdf2_sha256 :: "bytes \<Rightarrow> bytes \<Rightarrow> nat \<Rightarrow> bytes" where
  "pbkdf2_sha256 password salt rounds =
     (let v = hmac_sha256 password (salt @ [0, 0, 0, 1]) in pbkdf2_rounds (rounds - 1) password v v)"

definition pbkdf2_hmac :: "bytes \<Rightarrow> bytes \<Rightarrow> int \<Rightarrow> bytes res" where
  "pbkdf2_hmac password salt rounds =
     (if rounds < - (2 ^ 63) \<or> rounds \<ge> 2 ^ 31 then Inl OverflowError
      else if rounds < 1 then Inl (ValueError ''iteration value must be greater than 0.'')
      else Inr (pbkdf2_sha256 password salt (nat rounds)))"

section \<open>State\<close>

record auth =
  am_store :: store
  am_sessions :: "(ustr \<times> actor \<times> int) list"

definition auth_init :: "store \<Rightarrow> auth" where
  "auth_init s = \<lparr>am_store = s, am_sessions = []\<rparr>"

definition in_store :: "(store, 'a) st \<Rightarrow> (auth, 'a) st" where
  "in_store m a = (case m (am_store a) of (r, t) \<Rightarrow> (r, a\<lparr>am_store := t\<rparr>))"

section \<open>The developer password\<close>

definition PASSWORD_ROUNDS :: int where
  "PASSWORD_ROUNDS = 310000"

definition password_key :: ustr where
  "password_key = u ''password_hash''"

definition encode_text :: "ustr \<Rightarrow> bytes res" where
  "encode_text s = (case utf8_encode s of None \<Rightarrow> Inl UnicodeError | Some b \<Rightarrow> Inr b)"

definition configured :: "(auth, bool) st" where
  "configured = sbind (in_store (get_setting password_key JNull)) (\<lambda>v. sret (v \<noteq> JNull))"

definition set_password :: "bytes \<Rightarrow> ustr \<Rightarrow> (auth, unit) st" where
  "set_password salt password =
     sbind (sraise_if (length password < 8) (ValueError ''developer password must contain at least 8 characters'')) (\<lambda>_.
     sbind (slift (encode_text password)) (\<lambda>secret.
     sbind (slift (pbkdf2_hmac secret salt PASSWORD_ROUNDS)) (\<lambda>digest.
     in_store (set_setting password_key (JDict
       [item ''algorithm'' (jstr ''pbkdf2-sha256''), item ''rounds'' (JInt PASSWORD_ROUNDS),
        item ''salt'' (jstr (hex salt)), item ''digest'' (jstr (hex digest))])))))"

definition set_initial_password :: "int \<Rightarrow> bytes \<Rightarrow> ustr \<Rightarrow> ustr \<Rightarrow> (auth, unit) st" where
  "set_initial_password now salt password actor_name =
     sbind configured (\<lambda>done_before.
     sbind (sraise_if done_before (RuntimeError ''developer password is already configured'')) (\<lambda>_.
     sbind (set_password salt password) (\<lambda>_.
     sbind (in_store (add_audit now (u ''system'') actor_name (u ''password.configured'') (JDict []))) (\<lambda>_.
     sret ()))))"

definition change_password :: "int \<Rightarrow> bytes \<Rightarrow> ustr \<Rightarrow> actor \<Rightarrow> (auth, unit) st" where
  "change_password now salt password actor =
     sbind (set_password salt password) (\<lambda>_.
     sbind (smod (\<lambda>a. a\<lparr>am_sessions := []\<rparr>)) (\<lambda>_.
     sbind (in_store (add_audit now (ac_kind actor) (ac_name actor) (u ''password.changed'') (JDict []))) (\<lambda>_.
     sret ())))"

text \<open>The check of a saved hash, with the exceptions it raises. \<^verbatim>\<open>str\<close> of a value that is neither a text nor
  an integer is never a digest of 64 digits, and a text that is not ASCII makes the comparison raise.\<close>

definition saved_text :: "json \<Rightarrow> ustr option" where
  "saved_text v = (case v of JStr s \<Rightarrow> Some s | JInt n \<Rightarrow> Some (u (str_int n)) | _ \<Rightarrow> None)"

definition dindex :: "dict \<Rightarrow> string \<Rightarrow> json res" where
  "dindex d key = (case map_of d (u key) of Some v \<Rightarrow> Inr v | None \<Rightarrow> Inl (KeyError key))"

definition salt_of :: "json \<Rightarrow> bytes res" where
  "salt_of v = (case v of
     JStr s \<Rightarrow> (case fromhex s of Some b \<Rightarrow> Inr b | None \<Rightarrow> Inl (ValueError ''non-hexadecimal number found in fromhex() arg''))
   | _ \<Rightarrow> Inl (TypeError ''fromhex() argument must be str''))"

definition check_saved :: "dict \<Rightarrow> ustr \<Rightarrow> bool res" where
  "check_saved saved password =
     bindr (encode_text password) (\<lambda>secret.
     bindr (bindr (dindex saved ''salt'') salt_of) (\<lambda>salt.
     bindr (bindr (dindex saved ''rounds'') py_int) (\<lambda>rounds.
     bindr (pbkdf2_hmac secret salt rounds) (\<lambda>digest.
     bindr (dindex saved ''digest'') (\<lambda>stored.
     case saved_text stored of
       None \<Rightarrow> Inr False
     | Some s \<Rightarrow> bindr (raise_if (\<not> list_all (\<lambda>c. c < 0x80) s)
                          (TypeError ''comparing strings with non-ASCII characters is not supported'')) (\<lambda>_.
                 Inr (u (hex digest) = s)))))))"

text \<open>\<^verbatim>\<open>except (KeyError, TypeError, ValueError)\<close>; a \<^verbatim>\<open>UnicodeError\<close> is a \<^verbatim>\<open>ValueError\<close>.\<close>

fun is_format_error :: "exn \<Rightarrow> bool" where
  "is_format_error (KeyError _) = True"
| "is_format_error (TypeError _) = True"
| "is_format_error (ValueError _) = True"
| "is_format_error UnicodeError = True"
| "is_format_error _ = False"

definition verify_password :: "ustr \<Rightarrow> (auth, bool) st" where
  "verify_password password =
     sbind (in_store (get_setting password_key JNull)) (\<lambda>saved.
     case saved of
       JDict d \<Rightarrow> slift (case check_saved d password of
                           Inl e \<Rightarrow> if is_format_error e then Inr False else Inl e
                         | Inr ok \<Rightarrow> Inr ok)
     | _ \<Rightarrow> sret False)"

section \<open>Browser sessions\<close>

definition login :: "int \<Rightarrow> ustr \<Rightarrow> ustr \<Rightarrow> (auth, ustr) st" where
  "login now token password =
     sbind (verify_password password) (\<lambda>ok.
     sbind (sraise_if (\<not> ok) (PermissionError ''invalid developer password'')) (\<lambda>_.
     sbind (smod (\<lambda>a. a\<lparr>am_sessions := aput (am_sessions a) token (full_actor ''developer'' ''Developer'', now)\<rparr>)) (\<lambda>_.
     sret token)))"

definition logout :: "ustr option \<Rightarrow> (auth, unit) st" where
  "logout token =
     (case token of
        Some t \<Rightarrow> if t = [] then sret ()
                  else smod (\<lambda>a. a\<lparr>am_sessions := filter (\<lambda>kv. fst kv \<noteq> t) (am_sessions a)\<rparr>)
      | None \<Rightarrow> sret ())"

definition browser_actor :: "ustr option \<Rightarrow> auth \<Rightarrow> actor option" where
  "browser_actor token a =
     (case token of
        None \<Rightarrow> None
      | Some t \<Rightarrow> if t = [] then None else map_option fst (map_of (am_sessions a) t))"

section \<open>Agent tokens\<close>

definition token_digest :: "ustr \<Rightarrow> ustr res" where
  "token_digest bearer = bindr (encode_text bearer) (\<lambda>b. Inr (u (hex (sha256 b))))"

definition bearer_text :: "ustr \<Rightarrow> ustr \<Rightarrow> ustr" where
  "bearer_text token_id secret = u ''iris_'' @ token_id @ u ''_'' @ secret"

definition insert_token :: "token_row \<Rightarrow> (store, unit) st" where
  "insert_token row =
     sbind (sget (\<lambda>s. list_ex (\<lambda>r. at_token_id r = at_token_id row \<or> at_name r = at_name row) (st_tokens s))) (\<lambda>taken.
     sbind (sraise_if taken IntegrityError) (\<lambda>_.
     smod (\<lambda>s. s\<lparr>st_tokens := st_tokens s @ [row]\<rparr>)))"

definition create_agent_token ::
  "int \<Rightarrow> int \<Rightarrow> ustr \<Rightarrow> ustr \<Rightarrow> ustr \<Rightarrow> actor \<Rightarrow> ustr list option \<Rightarrow> (auth, dict) st" where
  "create_agent_token now audit_ns token_id secret name actor scopes =
     (let clean = strip_by py_space name in
      sbind (sraise_if (clean = [] \<or> length clean > 64) (ValueError ''token name must contain 1 to 64 characters'')) (\<lambda>_.
      let selected = (case scopes of None \<Rightarrow> [u ''files.read''] | Some ss \<Rightarrow> ss) in
      sbind (sraise_if (selected = [] \<or> \<not> set selected \<subseteq> set AGENT_TOKEN_SCOPES)
               (ValueError ''agent token contains an unsupported or empty scope set'')) (\<lambda>_.
      let bearer = bearer_text token_id secret in
      sbind (slift (token_digest bearer)) (\<lambda>digest.
      sbind (scatch (in_store (insert_token \<lparr>at_token_id = token_id, at_name = clean, at_token_hash = digest,
                at_created_ns = now, at_last_used_ns = None, at_revoked_ns = None,
                at_scopes = JList (map JStr (sorted_scopes selected))\<rparr>))
              (\<lambda>e. if e = IntegrityError then sraise (ValueError ''agent token name is already in use'') else sraise e)) (\<lambda>_.
      sbind (in_store (add_audit audit_ns (ac_kind actor) (ac_name actor) (u ''agent_token.created'')
               (JDict [item ''token_id'' (JStr token_id), item ''name'' (JStr clean)]))) (\<lambda>_.
      sret [item ''token_id'' (JStr token_id), item ''name'' (JStr clean), item ''token'' (JStr bearer),
            item ''created_ns'' (JInt now), item ''scopes'' (JList (map JStr (sorted_scopes selected))),
            item ''shown_once'' (JBool True)]))))))"

text \<open>\<^verbatim>\<open>frozenset(json.loads(...))\<close>, empty when the value is not iterable or has members that cannot be hashed;
  a member that is no text names no scope and is left out.\<close>

fun hashable :: "json \<Rightarrow> bool" where
  "hashable (JList vs) = False"
| "hashable (JDict d) = False"
| "hashable v = True"

definition scope_set :: "json \<Rightarrow> ustr list" where
  "scope_set v = (case v of
     JList vs \<Rightarrow> if list_all hashable vs then concat (map (\<lambda>x. case x of JStr s \<Rightarrow> [s] | _ \<Rightarrow> []) vs) else []
   | JDict d \<Rightarrow> map fst d
   | JStr s \<Rightarrow> map (\<lambda>c. [c]) s
   | _ \<Rightarrow> [])"

definition find_token :: "ustr \<Rightarrow> store \<Rightarrow> token_row option" where
  "find_token digest s = find (\<lambda>r. at_token_hash r = digest \<and> at_revoked_ns r = None) (st_tokens s)"

definition authenticate_bearer :: "int \<Rightarrow> ustr option \<Rightarrow> (auth, actor option) st" where
  "authenticate_bearer now bearer =
     (case bearer of
        None \<Rightarrow> sret None
      | Some b \<Rightarrow>
          if b = [] \<or> \<not> starts_with ''iris_'' b then sret None
          else sbind (slift (token_digest b)) (\<lambda>digest.
               sbind (in_store (sget (find_token digest))) (\<lambda>row.
               case row of
                 None \<Rightarrow> sret None
               | Some r \<Rightarrow>
                   sbind (in_store (smod (\<lambda>s. s\<lparr>st_tokens := update_where at_token_id (at_token_id r)
                            (\<lambda>t. t\<lparr>at_last_used_ns := Some now\<rparr>) (st_tokens s)\<rparr>))) (\<lambda>_.
                   sret (Some \<lparr>ac_kind = u ''agent'', ac_name = at_name r, ac_scopes = scope_set (at_scopes r)\<rparr>)))))"

definition list_agent_tokens :: "(auth, dict list) st" where
  "list_agent_tokens = in_store (sget (\<lambda>s. map (\<lambda>r.
       [item ''token_id'' (JStr (at_token_id r)), item ''name'' (JStr (at_name r)),
        item ''created_ns'' (JInt (at_created_ns r)),
        item ''last_used_ns'' (case at_last_used_ns r of None \<Rightarrow> JNull | Some n \<Rightarrow> JInt n),
        item ''revoked_ns'' (case at_revoked_ns r of None \<Rightarrow> JNull | Some n \<Rightarrow> JInt n),
        item ''scopes'' (at_scopes r)])
     (sort_key (\<lambda>r. - at_created_ns r) (st_tokens s))))"

definition revoke_agent_token :: "int \<Rightarrow> int \<Rightarrow> ustr \<Rightarrow> actor \<Rightarrow> (auth, unit) st" where
  "revoke_agent_token now audit_ns token_id actor =
     sbind (in_store (sget (\<lambda>s. select at_token_id token_id (st_tokens s)))) (\<lambda>row.
     case row of
       None \<Rightarrow> sraise (KeyError ''token_id'')
     | Some r \<Rightarrow>
         if at_revoked_ns r = None
         then sbind (in_store (smod (\<lambda>s. s\<lparr>st_tokens := update_where at_token_id token_id
                  (\<lambda>t. t\<lparr>at_revoked_ns := Some now\<rparr>) (st_tokens s)\<rparr>))) (\<lambda>_.
              sbind (in_store (add_audit audit_ns (ac_kind actor) (ac_name actor) (u ''agent_token.revoked'')
                       (JDict [item ''token_id'' (JStr token_id), item ''name'' (JStr (at_name r))]))) (\<lambda>_.
              sret ()))
         else sret ())"

end
