(* ===== verification/Security_Safety.thy ===== *)
theory Security_Safety
  imports Security
begin

text \<open>
  Histories of the authentication state: what an agent token gives, that a revoked one stays revoked, and which
  passwords are accepted.
\<close>

section \<open>Histories\<close>

text \<open>One call of the authentication manager with the values it draws, or a change that another part of the gateway
  makes to the rest of the store.\<close>

datatype auth_call =
    Set_initial_password int bytes ustr ustr
  | Change_password int bytes ustr actor
  | Login int ustr ustr
  | Logout "ustr option"
  | Create_token int int ustr ustr ustr actor "ustr list option"
  | Authenticate int "ustr option"
  | Revoke_token int int ustr actor
  | Elsewhere store

definition saved_password :: "auth \<Rightarrow> json" where
  "saved_password a = (case map_of (st_settings (am_store a)) password_key of Some v \<Rightarrow> v | None \<Rightarrow> JNull)"

definition tokens :: "auth \<Rightarrow> token_row list" where
  "tokens a = st_tokens (am_store a)"

fun auth_step :: "auth_call \<Rightarrow> auth \<Rightarrow> auth" where
  "auth_step (Set_initial_password now salt password name) a = snd (set_initial_password now salt password name a)"
| "auth_step (Change_password now salt password actor) a = snd (change_password now salt password actor a)"
| "auth_step (Login now token password) a = snd (login now token password a)"
| "auth_step (Logout token) a = snd (logout token a)"
| "auth_step (Create_token now audit_ns i secret name actor scopes) a =
     snd (create_agent_token now audit_ns i secret name actor scopes a)"
| "auth_step (Authenticate now bearer) a = snd (authenticate_bearer now bearer a)"
| "auth_step (Revoke_token now audit_ns i actor) a = snd (revoke_agent_token now audit_ns i actor a)"
| "auth_step (Elsewhere s) a =
     (if st_tokens s = tokens a \<and> map_of (st_settings s) password_key = map_of (st_settings (am_store a)) password_key
      then a\<lparr>am_store := s\<rparr> else a)"

definition auth_history :: "auth_call list \<Rightarrow> auth \<Rightarrow> auth" where
  "auth_history calls a = fold auth_step calls a"

section \<open>The table of tokens\<close>

lemma wp_in_store [wp_simps]: "wp (in_store m) Q E a = wp m (\<lambda>x t. Q x (a\<lparr>am_store := t\<rparr>)) (\<lambda>e t. E e (a\<lparr>am_store := t\<rparr>)) (am_store a)"
  by (simp add: wp_def in_store_def split: prod.split sum.split)

definition scopes_ok :: "token_row \<Rightarrow> bool" where
  "scopes_ok r \<longleftrightarrow> (\<exists>ss. at_scopes r = JList (map JStr ss) \<and> ss \<noteq> [] \<and> set ss \<subseteq> set AGENT_TOKEN_SCOPES)"

definition tokens_ok :: "token_row list \<Rightarrow> bool" where
  "tokens_ok rows \<longleftrightarrow> distinct (map at_token_id rows) \<and> list_all scopes_ok rows"

text \<open>A row keeps its secret, name and scopes, and once revoked it stays so.\<close>

definition row_follows :: "token_row \<Rightarrow> token_row \<Rightarrow> bool" where
  "row_follows r r' \<longleftrightarrow> at_token_id r' = at_token_id r \<and> at_token_hash r' = at_token_hash r \<and> at_name r' = at_name r
     \<and> at_scopes r' = at_scopes r \<and> (at_revoked_ns r \<noteq> None \<longrightarrow> at_revoked_ns r' = at_revoked_ns r)"

definition rows_follow :: "token_row list \<Rightarrow> token_row list \<Rightarrow> bool" where
  "rows_follow rows rows' \<longleftrightarrow>
     (tokens_ok rows \<longrightarrow> tokens_ok rows' \<and> (\<forall>r \<in> set rows. \<exists>r' \<in> set rows'. row_follows r r'))"

definition table_follows :: "auth \<Rightarrow> auth \<Rightarrow> bool" where
  "table_follows a b \<longleftrightarrow> rows_follow (tokens a) (tokens b)"

lemma rows_follow_refl [simp]: "rows_follow rows rows"
  by (auto simp: rows_follow_def row_follows_def)

lemma rows_follow_trans:
  assumes "rows_follow r1 r2" and "rows_follow r2 r3"
  shows "rows_follow r1 r3"
proof -
  have "row_follows x z" if "row_follows x y" "row_follows y z" for x y z
    using that by (auto simp: row_follows_def)
  with assms show ?thesis unfolding rows_follow_def by meson
qed

interpretation table: evolution table_follows
  by unfold_locales (auto simp: table_follows_def intro: rows_follow_trans)

text \<open>The three changes of a row table.\<close>

lemma rows_follow_update:
  assumes "\<And>r. tokens_ok rows \<Longrightarrow> r \<in> set rows \<Longrightarrow> at_token_id r = i \<Longrightarrow> row_follows r (f r)"
  shows "rows_follow rows (update_where at_token_id i f rows)"
proof -
  define g where "g r = (if at_token_id r = i then f r else r)" for r
  have "tokens_ok (map g rows) \<and> (\<forall>r \<in> set rows. \<exists>r' \<in> set (map g rows). row_follows r r')" if ok: "tokens_ok rows"
  proof -
    have g: "row_follows r (g r)" if "r \<in> set rows" for r
      using assms [OF ok that] by (simp add: g_def row_follows_def)
    then have "map at_token_id (map g rows) = map at_token_id rows" by (auto simp: row_follows_def)
    moreover have "list_all scopes_ok (map g rows)"
      using ok g by (fastforce simp: tokens_ok_def list_all_iff scopes_ok_def row_follows_def)
    ultimately show ?thesis using ok g unfolding tokens_ok_def by (auto simp del: map_map)
  qed
  then have "rows_follow rows (map g rows)" by (simp add: rows_follow_def)
  then show ?thesis by (simp add: update_where_def g_def [abs_def])
qed

lemma rows_follow_insert:
  assumes "at_token_id row \<notin> at_token_id ` set rows" and "scopes_ok row"
  shows "rows_follow rows (rows @ [row])"
  using assms by (auto simp: rows_follow_def tokens_ok_def row_follows_def)

named_theorems table_rules \<open>calls along which the table of tokens evolves\<close>

lemma leads_in_store:
  assumes "\<And>s. rows_follow (st_tokens s) (st_tokens (snd (m s)))"
  shows "leads table_follows (in_store m)"
  using assms by (simp add: leads_def in_store_def table_follows_def tokens_def split: prod.split) (metis snd_conv)

lemma table_quiet [table_rules]:
  "leads table_follows (in_store (sget g))" "leads table_follows (in_store (get_setting key v))"
  "leads table_follows (in_store (set_setting key v))" "leads table_follows (in_store (add_audit now kind name action doc))"
  by (rule leads_in_store; simp add: sget_def get_setting_def set_setting_def add_audit_def st_run split: sum.split)+

lemma table_sessions: "leads table_follows (smod (\<lambda>a. a\<lparr>am_sessions := f a\<rparr>))"
  by (rule table.change) (simp add: table_follows_def tokens_def)

lemma table_update:
  "(\<And>r. row_follows r (f r)) \<Longrightarrow>
   leads table_follows (in_store (smod (\<lambda>s. s\<lparr>st_tokens := update_where at_token_id i f (st_tokens s)\<rparr>)))"
  by (rule leads_in_store) (simp add: smod_def rows_follow_update)

lemma table_insert: "scopes_ok row \<Longrightarrow> leads table_follows (in_store (insert_token row))"
  by (rule leads_in_store) (auto simp: insert_token_def st_run list_ex_iff intro!: rows_follow_insert)

lemma table_password [table_rules]:
  "leads table_follows configured" "leads table_follows (set_password salt password)"
  "leads table_follows (set_initial_password now salt password name)"
  "leads table_follows (change_password now salt password actor)"
  "leads table_follows (verify_password password)"
  unfolding configured_def set_password_def set_initial_password_def change_password_def verify_password_def
  by (intro table.rules table_rules table_sessions; simp add: table.basic split: json.split)+


lemma sorted_scopes_ok:
  assumes "selected \<noteq> []" and "set selected \<subseteq> set AGENT_TOKEN_SCOPES"
    and "at_scopes r = JList (map JStr (sorted_scopes selected))"
  shows "scopes_ok r"
proof -
  have "set (sorted_scopes selected) = set selected" by (simp add: sorted_scopes_def)
  with assms show ?thesis unfolding scopes_ok_def by (metis set_empty)
qed

lemma table_guard:
  assumes "\<not> c \<Longrightarrow> leads table_follows (f ())"
  shows "leads table_follows (sbind (sraise_if c e) f)"
  using assms by (cases c) (auto simp: leads_def st_run table.refl)

lemma table_create [table_rules]: "leads table_follows (create_agent_token now audit_ns i secret name actor scopes)"
  unfolding create_agent_token_def Let_def
  by (intro table_guard table.rules table_rules table_insert) (auto intro!: sorted_scopes_ok)

lemma table_calls [table_rules]:
  "leads table_follows (login now token password)" "leads table_follows (logout cookie)"
  "leads table_follows (authenticate_bearer now bearer)"
  unfolding login_def logout_def authenticate_bearer_def
  by (intro table.rules table_rules table_sessions table_update; simp add: row_follows_def)+

text \<open>A revocation touches only the row it has read, which was not revoked.\<close>

lemma select_unique:
  assumes "select key i rows = Some r" and "distinct (map key rows)" and "r' \<in> set rows" and "key r' = i"
  shows "r' = r"
  using assms by (induction rows) (auto simp: select_def split: if_splits)

lemma table_revoke [table_rules]: "leads table_follows (revoke_agent_token now audit_ns i actor)"
proof -
  have "leads table_follows (in_store (add_audit audit_ns kind name action doc))" for kind name action doc
    by (intro table_rules)
  then have audit: "table_follows a (snd (in_store (add_audit audit_ns kind name action doc) a))" for kind name action doc a
    by (simp add: leads_def)
  show ?thesis unfolding leads_def
  proof
    fix a
    let ?row = "select at_token_id i (tokens a)"
    define b where "b = a\<lparr>am_store := (am_store a)\<lparr>st_tokens := update_where at_token_id i
                  (\<lambda>t. t\<lparr>at_revoked_ns := Some now\<rparr>) (tokens a)\<rparr>\<rparr>"
    have b: "table_follows a b" if "?row = Some r" "at_revoked_ns r = None" for r
      unfolding table_follows_def b_def tokens_def
      by (simp, rule rows_follow_update)
        (use that in \<open>auto simp: tokens_ok_def tokens_def row_follows_def dest: select_unique\<close>)
    show "table_follows a (snd (revoke_agent_token now audit_ns i actor a))"
    proof (cases ?row)
      case None
      then show ?thesis by (simp add: revoke_agent_token_def in_store_def tokens_def st_run table.refl)
    next
      case (Some r)
      have "snd (revoke_agent_token now audit_ns i actor a) =
          (if at_revoked_ns r = None then snd (in_store (add_audit audit_ns (ac_kind actor) (ac_name actor)
             (u ''agent_token.revoked'') (JDict [item ''token_id'' (JStr i), item ''name'' (JStr (at_name r))])) b) else a)"
        using Some by (simp add: revoke_agent_token_def b_def tokens_def in_store_def st_run split: prod.split sum.split)
      with Some b audit show ?thesis by (auto intro: table.trans table.refl)
    qed
  qed
qed

lemma table_step: "table_follows a (auth_step c a)"
proof (cases c)
  case (Elsewhere s)
  then show ?thesis by (simp add: table.refl) (simp add: table_follows_def tokens_def)
qed (simp_all add: table_rules leads_def [symmetric] leads_run [OF _ prod.collapse [symmetric]])

lemma table_history: "table_follows a (auth_history calls a)"
  unfolding auth_history_def
  by (induction calls arbitrary: a) (auto simp: table.refl intro: table.trans table_step)

lemma scope_set_texts: "scope_set (JList (map JStr ss)) = ss"
proof -
  have "list_all hashable (map JStr ss)" by (simp add: list_all_iff)
  moreover have "concat (map (\<lambda>x. case x of JStr s \<Rightarrow> [s] | _ \<Rightarrow> []) (map JStr ss)) = ss"
    by (induction ss) auto
  ultimately show ?thesis by (simp add: scope_set_def del: map_map)
qed

lemma authenticate_row:
  assumes "authenticate_bearer now (Some bearer) a = (Inr (Some actor), b)"
  obtains r where "r \<in> set (tokens a)" "token_digest bearer = Inr (at_token_hash r)" "at_revoked_ns r = None"
    "actor = \<lparr>ac_kind = u ''agent'', ac_name = at_name r, ac_scopes = scope_set (at_scopes r)\<rparr>"
proof -
  from assms obtain r digest where "token_digest bearer = Inr digest" "find_token digest (am_store a) = Some r"
    "actor = \<lparr>ac_kind = u ''agent'', ac_name = at_name r, ac_scopes = scope_set (at_scopes r)\<rparr>"
    by (auto simp: authenticate_bearer_def in_store_def st_run split: if_splits sum.splits option.splits)
  moreover from this(2) have "r \<in> set (tokens a)" "at_token_hash r = digest" "at_revoked_ns r = None"
    by (auto simp: find_token_def tokens_def find_Some_iff)
  ultimately show thesis using that by blast
qed

text \<open>Claim C30. An agent token gives what its row says and no more. After any history of calls on a gateway that
  started without tokens, a bearer text that is accepted is one whose digest is in the table, under a token that was
  not revoked at any earlier moment; the actor is an agent whose scopes are among the three file scopes, so that it is
  never allowed everything.\<close>

theorem agent_tokens_confined:
  assumes "st_tokens s0 = []" and "authenticate_bearer now (Some bearer) (auth_history calls (auth_init s0)) = (Inr (Some actor), b)"
  shows "\<exists>r \<in> set (tokens (auth_history calls (auth_init s0))). token_digest bearer = Inr (at_token_hash r)
    \<and> (\<forall>calls1 calls2. calls = calls1 @ calls2 \<longrightarrow>
         (\<forall>r1 \<in> set (tokens (auth_history calls1 (auth_init s0))). at_revoked_ns r1 \<noteq> None \<longrightarrow> at_token_id r1 \<noteq> at_token_id r))
    \<and> ac_kind actor = u ''agent'' \<and> ac_name actor = at_name r \<and> set (ac_scopes actor) \<subseteq> set AGENT_TOKEN_SCOPES
    \<and> (\<forall>scope. allows actor scope \<longrightarrow> scope \<in> set AGENT_TOKEN_SCOPES)"
proof -
  let ?a = "\<lambda>calls. auth_history calls (auth_init s0)"
  have ok: "tokens_ok (tokens (?a cs))" for cs
    using table_history [of "auth_init s0" cs] assms(1)
    by (simp add: table_follows_def rows_follow_def tokens_def auth_init_def tokens_ok_def)
  obtain r where r: "r \<in> set (tokens (?a calls))" "token_digest bearer = Inr (at_token_hash r)" "at_revoked_ns r = None"
    "actor = \<lparr>ac_kind = u ''agent'', ac_name = at_name r, ac_scopes = scope_set (at_scopes r)\<rparr>"
    using assms(2) by (rule authenticate_row)
  have "at_token_id r1 \<noteq> at_token_id r"
    if calls: "calls = calls1 @ calls2" and r1: "r1 \<in> set (tokens (?a calls1))" "at_revoked_ns r1 \<noteq> None" for calls1 calls2 r1
  proof
    assume same: "at_token_id r1 = at_token_id r"
    have "?a calls = auth_history calls2 (?a calls1)" by (simp add: calls auth_history_def)
    then obtain r2 where "r2 \<in> set (tokens (?a calls))" "row_follows r1 r2"
      using table_history [of "?a calls1" calls2] ok [of calls1] r1(1) by (auto simp: table_follows_def rows_follow_def)
    with same r r1(2) have "r2 \<in> set (tokens (?a calls))" "at_token_id r2 = at_token_id r" "r2 \<noteq> r"
      by (auto simp: row_follows_def)
    with r(1) ok [of calls] show False by (auto simp: tokens_ok_def distinct_map dest: inj_onD)
  qed
  moreover have "set (scope_set (at_scopes r)) \<subseteq> set AGENT_TOKEN_SCOPES"
  proof -
    have "scopes_ok r" using ok [of calls] r(1) by (simp add: tokens_ok_def list_all_iff)
    then obtain ss where "at_scopes r = JList (map JStr ss)" "set ss \<subseteq> set AGENT_TOKEN_SCOPES"
      by (auto simp: scopes_ok_def)
    then show ?thesis by (simp only: scope_set_texts)
  qed
  moreover have "u ''*'' \<notin> set AGENT_TOKEN_SCOPES" by (simp add: AGENT_TOKEN_SCOPES_def)
  ultimately show ?thesis
    using r unfolding allows_def by (intro bexI [of _ r]) auto
qed

section \<open>A new token\<close>

lemma find_snoc: "(\<And>y. y \<in> set xs \<Longrightarrow> \<not> P y) \<Longrightarrow> P x \<Longrightarrow> find P (xs @ [x]) = Some x"
  by (induction xs) auto

lemma create_then_authenticate:
  assumes "create_agent_token now audit_ns i secret name actor scopes a = (Inr answer, b)"
    and "\<And>r. r \<in> set (tokens a) \<Longrightarrow> token_digest (bearer_text i secret) \<noteq> Inr (at_token_hash r)"
  shows "\<exists>c. dget answer ''token'' = JStr (bearer_text i secret) \<and>
    authenticate_bearer later (Some (bearer_text i secret)) b =
      (Inr (Some \<lparr>ac_kind = u ''agent'', ac_name = strip_by py_space name,
         ac_scopes = sorted_scopes (case scopes of None \<Rightarrow> [u ''files.read''] | Some ss \<Rightarrow> ss)\<rparr>), c)"
proof -
  obtain digest where digest: "token_digest (bearer_text i secret) = Inr digest"
    using assms(1) by (auto simp: create_agent_token_def Let_def st_run in_store_def split: if_splits sum.splits)
  define row where "row = \<lparr>at_token_id = i, at_name = strip_by py_space name, at_token_hash = digest,
     at_created_ns = now, at_last_used_ns = None, at_revoked_ns = None,
     at_scopes = JList (map JStr (sorted_scopes (case scopes of None \<Rightarrow> [u ''files.read''] | Some ss \<Rightarrow> ss)))\<rparr>"
  have b: "tokens b = tokens a @ [row]" and token: "dget answer ''token'' = JStr (bearer_text i secret)"
    using assms(1) digest
    by (auto simp: create_agent_token_def insert_token_def add_audit_def tokens_def row_def Let_def st_run in_store_def
        dget_def dget_default_def item_def split: if_splits sum.splits)
  have "find_token digest (am_store b) = Some row"
    using assms(2) digest b unfolding find_token_def tokens_def by (simp, intro find_snoc) (auto simp: row_def)
  then show ?thesis
    using digest token
    by (simp add: authenticate_bearer_def in_store_def st_run bearer_text_def starts_with_def scope_set_texts row_def)
qed

text \<open>A new token works: when its creation returns and no token in the table had the same digest, the bearer
  text it returned authenticates at once, as an agent with the stripped name and the scopes that were asked for.\<close>

theorem new_token_authenticates:
  assumes "create_agent_token now audit_ns i secret name actor scopes a = (Inr answer, b)"
    and "\<And>r. r \<in> set (tokens a) \<Longrightarrow> token_digest (bearer_text i secret) \<noteq> Inr (at_token_hash r)"
  shows "\<exists>c. dget answer ''token'' = JStr (bearer_text i secret) \<and>
    authenticate_bearer later (Some (bearer_text i secret)) b =
      (Inr (Some \<lparr>ac_kind = u ''agent'', ac_name = strip_by py_space name,
         ac_scopes = sorted_scopes (case scopes of None \<Rightarrow> [u ''files.read''] | Some ss \<Rightarrow> ss)\<rparr>), c)"
  by (rule create_then_authenticate [OF assms])

section \<open>Passwords\<close>

definition same_password :: "auth \<Rightarrow> auth \<Rightarrow> bool" where
  "same_password a b \<longleftrightarrow>
     map_of (st_settings (am_store b)) password_key = map_of (st_settings (am_store a)) password_key"

interpretation password: evolution same_password
  by unfold_locales (auto simp: same_password_def)

named_theorems password_rules \<open>calls that keep the password\<close>

lemma password_in_store:
  assumes "\<And>s. st_settings (snd (m s)) = st_settings s"
  shows "leads same_password (in_store m)"
  using assms by (simp add: leads_def in_store_def same_password_def split: prod.split) (metis snd_conv)

lemma password_quiet [password_rules]:
  "leads same_password (in_store (sget g))" "leads same_password (in_store (get_setting key v))"
  "leads same_password (in_store (add_audit now kind name action doc))"
  "leads same_password (in_store (smod (\<lambda>s. s\<lparr>st_tokens := h s\<rparr>)))" "leads same_password (in_store (insert_token row))"
  by (rule password_in_store; simp add: get_setting_def add_audit_def insert_token_def st_run split: sum.split)+

lemma password_sessions [password_rules]: "leads same_password (smod (\<lambda>a. a\<lparr>am_sessions := f a\<rparr>))"
  by (rule password.change) (simp add: same_password_def)

lemma password_calls [password_rules]:
  "leads same_password (verify_password secret)" "leads same_password (login now token secret)"
  "leads same_password (logout cookie)" "leads same_password (authenticate_bearer now bearer)"
  "leads same_password (revoke_agent_token now audit_ns i actor)"
  "leads same_password (create_agent_token now audit_ns i secret name actor scopes)"
  unfolding verify_password_def login_def logout_def authenticate_bearer_def revoke_agent_token_def create_agent_token_def Let_def
  by (intro password.rules password_rules; simp add: password.basic split: json.split)+

fun changes_password :: "auth_call \<Rightarrow> bool" where
  "changes_password (Change_password now salt password actor) = True"
| "changes_password _ = False"

lemma password_step:
  assumes "\<not> changes_password c" and "saved_password a \<noteq> JNull"
  shows "same_password a (auth_step c a)"
proof (cases c)
  case (Set_initial_password now salt password name)
  with assms(2) show ?thesis
    by (simp add: set_initial_password_def configured_def in_store_def get_setting_def saved_password_def st_run password.refl)
next
  case (Elsewhere s)
  then show ?thesis by (simp add: same_password_def)
qed (use assms in \<open>simp_all add: password_rules leads_def [symmetric] leads_run [OF _ prod.collapse [symmetric]]\<close>)

lemma password_history:
  assumes "list_all (\<lambda>c. \<not> changes_password c) calls" and "saved_password a \<noteq> JNull"
  shows "same_password a (auth_history calls a)"
  using assms unfolding auth_history_def
proof (induction calls arbitrary: a)
  case (Cons c calls)
  then have step: "same_password a (auth_step c a)" by (intro password_step) simp_all
  then have "saved_password (auth_step c a) = saved_password a" by (simp add: same_password_def saved_password_def)
  with Cons step show ?case by (auto intro: password.trans)
qed (simp add: password.refl)

text \<open>Which texts the saved hash of a password accepts.\<close>

definition same_hash :: "bytes \<Rightarrow> ustr \<Rightarrow> ustr \<Rightarrow> bool" where
  "same_hash salt p q = (case (utf8_encode p, utf8_encode q) of
     (Some x, Some y) \<Rightarrow> pbkdf2_sha256 x salt 310000 = pbkdf2_sha256 y salt 310000 | _ \<Rightarrow> False)"

definition saved_hash :: "bytes \<Rightarrow> bytes \<Rightarrow> dict" where
  "saved_hash salt secret = [item ''algorithm'' (jstr ''pbkdf2-sha256''), item ''rounds'' (JInt PASSWORD_ROUNDS),
     item ''salt'' (jstr (hex salt)), item ''digest'' (jstr (hex (pbkdf2_sha256 secret salt 310000)))]"

lemma hex_ascii: "list_all (\<lambda>c. c < 0x80) (u (hex bs))"
proof (induction bs)
  case (Cons b bs)
  have "unat b div 16 < 16" using byte_lt [of b] by linarith
  then have "lower_hex (hex_code (unat b div 16))" "lower_hex (hex_code (unat b mod 16))" by (simp_all add: hex_code_lower)
  with Cons show ?case by (auto simp: lower_hex_def hex_code_def [symmetric])
qed simp

lemma hex_text_inject: "u (hex x) = u (hex y) \<longleftrightarrow> x = y"
  by (metis fromhex_hex option.inject)

lemma check_saved_hash:
  "check_saved (saved_hash salt secret) q = (case utf8_encode q of
     None \<Rightarrow> Inl UnicodeError
   | Some y \<Rightarrow> Inr (pbkdf2_sha256 y salt 310000 = pbkdf2_sha256 secret salt 310000))"
  by (simp add: check_saved_def encode_text_def dindex_def saved_hash_def item_def jstr_def salt_of_def fromhex_hex
      pbkdf2_hmac_def PASSWORD_ROUNDS_def saved_text_def hex_ascii hex_text_inject split: option.split)

lemma change_password_saves:
  assumes "change_password now salt p actor a = (Inr (), b)"
  obtains secret where "utf8_encode p = Some secret" "saved_password b = JDict (saved_hash salt secret)" "am_sessions b = []"
  using assms
  by (auto simp: change_password_def set_password_def encode_text_def pbkdf2_hmac_def PASSWORD_ROUNDS_def set_setting_def
      add_audit_def saved_hash_def saved_password_def to_json_def item_def jstr_def in_store_def st_run split: if_splits sum.splits option.splits)

lemma verify_saved:
  assumes "saved_password a = JDict (saved_hash salt secret)" and "utf8_encode p = Some secret"
  shows "verify_password q a = (Inr (same_hash salt p q), a)"
proof -
  have "in_store (get_setting password_key JNull) a = (Inr (saved_password a), a)"
    by (simp add: in_store_def get_setting_def saved_password_def sget_def)
  then show ?thesis
    using assms by (auto simp: verify_password_def sbind_def slift_def check_saved_hash same_hash_def split: option.split)
qed

text \<open>Claim C31. A changed password is the one that counts: after \<^verbatim>\<open>change_password\<close> returns, no earlier browser
  session is known, and as long as the password is not changed again, whatever else is called, exactly those texts are
  accepted whose PBKDF2 hash under the new salt is that of the new password; a login with such a text gives a
  developer's session and any other raises a permission error.\<close>

theorem changed_password_verifies:
  assumes "change_password now salt p actor a = (Inr (), b)" and "list_all (\<lambda>c. \<not> changes_password c) calls"
  shows "browser_actor cookie b = None
    \<and> same_hash salt p p
    \<and> verify_password q (auth_history calls b) = (Inr (same_hash salt p q), auth_history calls b)
    \<and> (token \<noteq> [] \<longrightarrow> (case login now' token q (auth_history calls b) of
         (Inr t, c) \<Rightarrow> same_hash salt p q \<and> browser_actor (Some t) c = Some (full_actor ''developer'' ''Developer'')
       | (Inl e, c) \<Rightarrow> \<not> same_hash salt p q \<and> (\<exists>m. e = PermissionError m) \<and> c = auth_history calls b))"
proof -
  obtain secret where secret: "utf8_encode p = Some secret" "saved_password b = JDict (saved_hash salt secret)" "am_sessions b = []"
    using assms(1) by (rule change_password_saves)
  have "same_password b (auth_history calls b)" by (rule password_history) (use assms(2) secret(2) in simp_all)
  then have saved: "saved_password (auth_history calls b) = JDict (saved_hash salt secret)"
    using secret(2) by (simp add: same_password_def saved_password_def)
  note verify = verify_saved [OF saved secret(1)]
  moreover have "browser_actor cookie b = None" using secret(3) by (simp add: browser_actor_def split: option.split)
  moreover have "same_hash salt p p" using secret(1) by (simp add: same_hash_def)
  ultimately show ?thesis
    by (auto simp: login_def sbind_def verify sraise_if_def sraise_def sret_def smod_def browser_actor_def)
qed

section \<open>Examples\<close>

definition ex_salt :: bytes where "ex_salt = replicate 16 7"
definition ex_password :: ustr where "ex_password = u ''espressif''"
definition ex_developer :: actor where "ex_developer = full_actor ''developer'' ''Developer''"

definition ex_bearer :: ustr where "ex_bearer = bearer_text (u ''0a'') (u ''s'')"

definition ex_auth :: auth where
  "ex_auth = auth_history [Create_token 1 2 (u ''0a'') (u ''s'') (u '' bot '') ex_developer None] (auth_init store_init)"

lemma ex_token_run:
  "\<exists>answer. create_agent_token 1 2 (u ''0a'') (u ''s'') (u '' bot '') ex_developer None (auth_init store_init) = (Inr answer, ex_auth)"
  by (simp add: ex_auth_def auth_history_def create_agent_token_def insert_token_def add_audit_def token_digest_def encode_text_def
      bearer_text_def utf8_char_def strip_by_def py_space_def AGENT_TOKEN_SCOPES_def to_json_def item_def
      auth_init_def store_init_def in_store_def st_run Let_def)

theorem new_token_authenticates_witness:
  "\<exists>answer c. create_agent_token 1 2 (u ''0a'') (u ''s'') (u '' bot '') ex_developer None (auth_init store_init) = (Inr answer, ex_auth) \<and>
     authenticate_bearer 3 (Some ex_bearer) ex_auth =
       (Inr (Some \<lparr>ac_kind = u ''agent'', ac_name = u ''bot'', ac_scopes = [u ''files.read'']\<rparr>), c)"
proof -
  obtain answer where run:
    "create_agent_token 1 2 (u ''0a'') (u ''s'') (u '' bot '') ex_developer None (auth_init store_init) = (Inr answer, ex_auth)"
    using ex_token_run by blast
  show ?thesis
    using new_token_authenticates [OF run, of 3] run
    by (auto simp: tokens_def auth_init_def store_init_def ex_bearer_def strip_by_def py_space_def sorted_scopes_def)
qed

theorem agent_tokens_confined_witness:
  "\<exists>actor c. authenticate_bearer 3 (Some ex_bearer) ex_auth = (Inr (Some actor), c) \<and> \<not> allows actor (u ''operations'')"
proof -
  obtain answer where run:
    "create_agent_token 1 2 (u ''0a'') (u ''s'') (u '' bot '') ex_developer None (auth_init store_init) = (Inr answer, ex_auth)"
    using ex_token_run by blast
  have "\<exists>actor c. authenticate_bearer 3 (Some ex_bearer) ex_auth = (Inr (Some actor), c)"
    using create_then_authenticate [OF run, of 3] by (auto simp: ex_bearer_def tokens_def auth_init_def store_init_def)
  then obtain actor c where auth: "authenticate_bearer 3 (Some ex_bearer) ex_auth = (Inr (Some actor), c)" by blast
  have "allows actor scope \<longrightarrow> scope \<in> set AGENT_TOKEN_SCOPES" for scope
    using agent_tokens_confined [OF _ auth [unfolded ex_auth_def]] by (auto simp: store_init_def)
  from this [of "u ''operations''"] have "\<not> allows actor (u ''operations'')" by (auto simp: AGENT_TOKEN_SCOPES_def)
  with auth show ?thesis by blast
qed

lemma ex_change: "fst (change_password 1 ex_salt ex_password ex_developer (auth_init store_init)) = Inr ()"
  by (simp add: change_password_def set_password_def encode_text_def ex_password_def pbkdf2_hmac_def PASSWORD_ROUNDS_def
      set_setting_def add_audit_def to_json_def item_def jstr_def in_store_def st_run utf8_char_def)

theorem changed_password_verifies_witness:
  "\<exists>b. change_password 1 ex_salt ex_password ex_developer (auth_init store_init) = (Inr (), b) \<and>
     fst (verify_password ex_password (auth_history [Login 5 (u ''t'') (u ''wrong''), Logout None] b)) = Inr True"
proof -
  obtain b where run: "change_password 1 ex_salt ex_password ex_developer (auth_init store_init) = (Inr (), b)"
    using ex_change by (metis prod.collapse)
  show ?thesis
    using changed_password_verifies [OF run, of "[Login 5 (u ''t'') (u ''wrong''), Logout None]" None ex_password] run
    by simp
qed

end
