(* ===== verification/Hub_IO.thy ===== *)
theory Hub_IO
  imports Stateful Py_Value System_Update
begin

text \<open>
  The calls a gateway workflow awaits (\<^verbatim>\<open>contracts.py\<close>: the device hub, the operation manager, the artifact store
  and the clock), as a script of answers: a call takes the next answer, which is a value or an exception, and is logged
  with it. A workflow that has no answer left is cancelled at that await. During a transfer the script may hold reports
  for the progress callback before the answer.
\<close>

datatype hub_call =
    Hub_status ustr
  | Hub_inventory ustr
  | Hub_crash_report ustr
  | Hub_read_core_dump ustr nat int
  | Hub_enter_recovery ustr
  | Hub_restart ustr int
  | Hub_ota_update ustr bytes bytes json json
  | Hub_system_update ustr update_bundle bytes
  | Hub_subscribe ustr
  | Hub_unsubscribe ustr
  | Next_event
  | Before_deadline
  | Op_progress ustr int dict
  | Op_stage ustr
  | Save_artifact ustr string bytes string
  | Save_json ustr string json
  | Hub_list_devices
  | Hub_maintenance_endpoint ustr
  | Hub_quiesce_device ustr
  | Hub_quiesce_endpoint ustr
  | Hub_resume_endpoint ustr
  | Wait_lock ustr

datatype answer = Answer json | Report dict

record hub_world =
  hw_replies :: "(exn + answer) list"
  hw_log :: "(hub_call \<times> json res) list"

fun is_report :: "exn + answer \<Rightarrow> bool" where
  "is_report (Inr (Report d)) = True"
| "is_report _ = False"

fun answer_value :: "exn + answer \<Rightarrow> json res" where
  "answer_value (Inl e) = Inl e"
| "answer_value (Inr (Answer v)) = Inr v"
| "answer_value (Inr (Report d)) = Inr (JDict d)"

type_synonym 'a hub = "(hub_world, 'a) st"

definition hub_ask :: "hub_call \<Rightarrow> json hub" where
  "hub_ask c w =
     (case dropWhile is_report (hw_replies w) of
        [] \<Rightarrow> (Inl CancelledError, w\<lparr>hw_replies := []\<rparr>)
      | r # rs \<Rightarrow> (answer_value r, \<lparr>hw_replies = rs, hw_log = hw_log w @ [(c, answer_value r)]\<rparr>))"

text \<open>A call that returns at once and does not fail.\<close>

definition hub_note :: "hub_call \<Rightarrow> unit hub" where
  "hub_note c = smod (\<lambda>w. w\<lparr>hw_log := hw_log w @ [(c, Inr JNull)]\<rparr>)"

text \<open>The answer of a call whose value is used as a dictionary.\<close>

definition ask_dict :: "hub_call \<Rightarrow> dict hub" where
  "ask_dict c = sbind (hub_ask c) (\<lambda>v. case v of JDict d \<Rightarrow> sret d | _ \<Rightarrow> sraise AttributeError)"

text \<open>\<^verbatim>\<open>loop.time() < deadline\<close>.\<close>

definition before_deadline :: "bool hub" where
  "before_deadline = sbind (hub_ask Before_deadline) (\<lambda>v. sret (truthy v))"

definition hub_progress :: "ustr \<Rightarrow> int \<Rightarrow> dict \<Rightarrow> unit hub" where
  "hub_progress stage permille extra = sbind (hub_ask (Op_progress stage permille extra)) (\<lambda>_. sret ())"

text \<open>A transfer: \<open>report\<close> is called for every report before the answer, with what it keeps between calls.\<close>

fun transfer_loop :: "hub_call \<Rightarrow> ('k \<Rightarrow> dict \<Rightarrow> 'k hub) \<Rightarrow> nat \<Rightarrow> 'k \<Rightarrow> json hub" where
  "transfer_loop c report 0 k w = hub_ask c w"
| "transfer_loop c report (Suc n) k w =
     (case hw_replies w of
        Inr (Report d) # rs \<Rightarrow>
          sbind (report k d) (\<lambda>k'. transfer_loop c report n k') (w\<lparr>hw_replies := rs\<rparr>)
      | _ \<Rightarrow> hub_ask c w)"

definition transfer :: "hub_call \<Rightarrow> ('k \<Rightarrow> dict \<Rightarrow> 'k hub) \<Rightarrow> 'k \<Rightarrow> json hub" where
  "transfer c report k w = transfer_loop c report (length (hw_replies w)) k w"

section \<open>Rules\<close>

lemma sbind_cong [fundef_cong]:
  assumes "m w = m' w'" and "\<And>x v. m' w' = (Inr x, v) \<Longrightarrow> f x v = g x v"
  shows "sbind m f w = sbind m' g w'"
  using assms by (simp add: sbind_def split: prod.split sum.split)

lemma scatch_cong [fundef_cong]:
  assumes "m w = m' w'" and "\<And>e v. m' w' = (Inl e, v) \<Longrightarrow> h e v = k e v"
  shows "scatch m h w = scatch m' k w'"
  using assms by (simp add: scatch_def split: prod.split sum.split)

lemma hub_ask_consumes:
  assumes "hub_ask c w = (Inr x, v)"
  shows "length (hw_replies v) < length (hw_replies w)"
proof -
  from assms obtain r rs where rs: "dropWhile is_report (hw_replies w) = r # rs" "v = \<lparr>hw_replies = rs, hw_log = hw_log w @ [(c, answer_value r)]\<rparr>"
    by (auto simp: hub_ask_def split: list.splits)
  have "length (r # rs) \<le> length (hw_replies w)" unfolding rs(1) [symmetric] by (rule length_dropWhile_le)
  with rs(2) show ?thesis by simp
qed

lemma hub_ask_le: "hub_ask c w = (r, v) \<Longrightarrow> length (hw_replies v) \<le> length (hw_replies w)"
  using length_dropWhile_le [of is_report "hw_replies w"]
  by (auto simp: hub_ask_def split: list.splits)

text \<open>\<open>shrinks m\<close>: a run of \<open>m\<close> never gains answers.\<close>

definition fewer :: "hub_world \<Rightarrow> hub_world \<Rightarrow> bool" where
  "fewer w v \<longleftrightarrow> length (hw_replies v) \<le> length (hw_replies w)"

interpretation script: evolution fewer
  by unfold_locales (auto simp: fewer_def)

named_theorems script_rules \<open>calls that only take answers\<close>

lemma script_ask [script_rules]: "leads fewer (hub_ask c)"
  by (auto simp: leads_def fewer_def intro: hub_ask_le [OF prod.collapse [symmetric]])

lemma script_note [script_rules]: "leads fewer (hub_note c)"
  unfolding hub_note_def by (rule script.change) (simp add: fewer_def)

lemma script_json_case [script_rules]:
  "(\<And>d. leads fewer (f d)) \<Longrightarrow> leads fewer g \<Longrightarrow> leads fewer (case v of JDict d \<Rightarrow> f d | _ \<Rightarrow> g)"
  by (cases v) auto

lemma script_asks [script_rules]:
  "leads fewer (ask_dict c)" "leads fewer before_deadline" "leads fewer (hub_progress stage permille extra)"
  unfolding ask_dict_def before_deadline_def hub_progress_def by (intro script.rules script_rules)+

lemma before_deadline_consumes:
  "before_deadline w = (Inr b, v) \<Longrightarrow> length (hw_replies v) < length (hw_replies w)"
  by (auto simp: before_deadline_def sbind_def sret_def split: prod.splits sum.splits dest: hub_ask_consumes)

lemma fewer_run: "leads fewer m \<Longrightarrow> m w = (r, v) \<Longrightarrow> length (hw_replies v) \<le> length (hw_replies w)"
  using leads_run [of fewer m w r v] by (simp add: fewer_def)

end
