(* ===== verification/Reconciliation.thy ===== *)
theory Reconciliation
  imports Security
begin

text \<open>
  \<^verbatim>\<open>reconciliation.py\<close>: read-only observations of an operation whose outcome is uncertain. The coroutine is cut at
  its awaits: the row is read first, the events after the live status, and the record is written at the end. What the
  hub answers or raises is an argument, as are \<^verbatim>\<open>str(v).lower()\<close> and the identifier of an operation on the wire.
\<close>

section \<open>Health timeout\<close>

text \<open>\<^verbatim>\<open>float(x)\<close> of a number; a text is not read here.\<close>

definition py_float :: "json \<Rightarrow> rat res" where
  "py_float v = (case v of
     JInt n \<Rightarrow> Inr (float_of_int n)
   | JBool b \<Rightarrow> Inr (if b then 1 else 0)
   | JFloat x \<Rightarrow> Inr x
   | _ \<Rightarrow> Inl (TypeError ''float() argument must be a string or a real number''))"

definition health_timeout :: "dict \<Rightarrow> rat option \<Rightarrow> rat res" where
  "health_timeout status override =
     bindr (case override of
              Some x \<Rightarrow> Inr x
            | None \<Rightarrow> bindr (py_float (dget_default status ''health_timeout_ms'' (JInt 45000))) (\<lambda>ms. Inr (fdiv ms 1000))) (\<lambda>seconds.
     bindr (raise_if (\<not> (1 \<le> seconds \<and> seconds \<le> 600))
              (ValueError ''OTA health timeout must be between 1 and 600 seconds'')) (\<lambda>_.
     Inr seconds))"

section \<open>Records\<close>

definition reconciliation_records :: "ustr \<Rightarrow> (store, dict list) st" where
  "reconciliation_records operation_id =
     sbind (operation operation_id) (\<lambda>row.
     sbind (sraise_if (row = None) (KeyError ''operation_id'')) (\<lambda>_.
     sget (\<lambda>s. map (\<lambda>r. snd (snd r)) (filter (\<lambda>r. fst (snd r) = operation_id) (st_reconciliations s)))))"

section \<open>Components of a bundle\<close>

text \<open>The identity of a written image: the hash of its component, its project and the hash of its ELF file.\<close>

definition image_matches :: "(json \<Rightarrow> ustr) \<Rightarrow> json \<Rightarrow> json \<Rightarrow> dict \<Rightarrow> bool res" where
  "image_matches folded target component status =
     (let expected = (if truthy target then target else JDict []) in
      bindr (jget expected ''elf_sha256'' JNull) (\<lambda>elf.
      if \<not> truthy elf then Inr False
      else bindr (jget component ''sha256'' JNull) (\<lambda>sha.
           if \<not> truthy sha then Inr False
           else bindr (jget expected ''sha256'' JNull) (\<lambda>sha'.
                bindr (jget expected ''project_name'' JNull) (\<lambda>project.
                Inr (py_eq sha' sha \<and> py_eq (dget status ''project_name'') project
                     \<and> folded (dget_default status ''firmware_sha256'' (jstr '''')) = folded elf))))))"

definition component_matches :: "(json \<Rightarrow> ustr) \<Rightarrow> json \<Rightarrow> dict \<Rightarrow> dict \<Rightarrow> json \<Rightarrow> bool res" where
  "component_matches folded prog status inventory component =
     bindr (jget component ''kind'' JNull) (\<lambda>kind.
     if kind = jstr ''bootloader'' then
       bindr (jget component ''sha256'' JNull) (\<lambda>expected.
       Inr (truthy expected \<and> py_eq (dget inventory ''bootloader_sha256'') expected))
     else if kind = jstr ''application'' then
       bindr (jget prog ''target_application'' JNull) (\<lambda>target. image_matches folded target component status)
     else if kind = jstr ''recovery'' then
       bindr (jget prog ''target_recovery'' JNull) (\<lambda>target. image_matches folded target component status)
     else Inr True)"

definition bundle_field :: "json \<Rightarrow> string \<Rightarrow> json \<Rightarrow> json res" where
  "bundle_field params key d = bindr (jget params ''bundle'' (JDict [])) (\<lambda>b. jget b key d)"

definition target_components_match :: "(json \<Rightarrow> ustr) \<Rightarrow> json \<Rightarrow> json \<Rightarrow> dict \<Rightarrow> dict \<Rightarrow> bool res" where
  "target_components_match folded params prog status inventory =
     bindr (bundle_field params ''components'' JNull) (\<lambda>components.
     case components of
       JList cs \<Rightarrow> allr (component_matches folded prog status inventory) cs
     | _ \<Rightarrow> Inr False)"

section \<open>The observation\<close>

record observation =
  rc_outcome :: string
  rc_reason :: string
  rc_evidence :: dict

definition observation_init :: observation where
  "observation_init = \<lparr>rc_outcome = ''outcome_unknown'', rc_reason = ''insufficient current evidence'', rc_evidence = []\<rparr>"

definition note_evidence :: "string \<Rightarrow> json \<Rightarrow> (observation, unit) st" where
  "note_evidence key v = smod (\<lambda>ob. ob\<lparr>rc_evidence := dput (rc_evidence ob) (u key) v\<rparr>)"

definition conclude :: "string \<Rightarrow> string \<Rightarrow> (observation, unit) st" where
  "conclude result reason = smod (\<lambda>ob. ob\<lparr>rc_outcome := result, rc_reason := reason\<rparr>)"

definition give_reason :: "string \<Rightarrow> (observation, unit) st" where
  "give_reason reason = smod (\<lambda>ob. ob\<lparr>rc_reason := reason\<rparr>)"

record hub_answers =
  ha_status :: "dict res"
  ha_inventory :: "dict res"
  ha_status_after :: "dict res"

definition is_healthy_event :: "json \<Rightarrow> int \<Rightarrow> dict \<Rightarrow> bool" where
  "is_healthy_event boot created_ns event \<longleftrightarrow>
     dget event ''event_name'' = jstr ''healthy'' \<and> py_eq (dget event ''boot_id'') boot
     \<and> (case dget_default event ''host_receive_ns'' (JInt 0) of JInt n \<Rightarrow> created_ns \<le> n | _ \<Rightarrow> False)"

definition healthy_event :: "json \<Rightarrow> int \<Rightarrow> dict list \<Rightarrow> dict option" where
  "healthy_event boot created_ns events = find (is_healthy_event boot created_ns) (rev events)"

definition new_boot :: "json \<Rightarrow> json \<Rightarrow> bool" where
  "new_boot boot writer \<longleftrightarrow> writer \<noteq> JNull \<and> \<not> py_eq boot writer"

definition observe_ota ::
  "(json \<Rightarrow> ustr) \<Rightarrow> json \<Rightarrow> dict \<Rightarrow> json \<Rightarrow> dict option \<Rightarrow> (observation, unit) st" where
  "observe_ota folded params status writer healthy =
     sbind (slift (jget params ''image'' (JDict []))) (\<lambda>img.
     sbind (slift (jget img ''elf_sha256'' JNull)) (\<lambda>elf.
     sbind (slift (jget img ''project_name'' JNull)) (\<lambda>project.
     let matches = truthy elf \<and> folded (dget_default status ''firmware_sha256'' (jstr '''')) = folded elf
           \<and> py_eq (dget status ''project_name'') project in
     if matches \<and> healthy \<noteq> None \<and> dget status ''firmware_mode'' = jstr ''normal''
        \<and> new_boot (dget status ''boot_id'') writer
     then conclude ''observed_success'' ''expected firmware is healthy on a new boot'' else sret ())))"

definition is_recovery_component :: "json \<Rightarrow> bool res" where
  "is_recovery_component c = bindr (jget c ''kind'' JNull) (\<lambda>kind. Inr (kind = jstr ''recovery''))"

definition update_success ::
  "(json \<Rightarrow> ustr) \<Rightarrow> op_row \<Rightarrow> dict \<Rightarrow> dict \<Rightarrow> json \<Rightarrow> bool res" where
  "update_success folded op after inventory prog =
     bindr (bundle_field (op_params op) ''target_layout_sha256'' JNull) (\<lambda>layout.
     if py_eq (dget inventory ''partition_table_sha256'') layout
     then target_components_match folded (op_params op) prog after inventory
     else Inr False)"

text \<open>The decision once the inventory and the second status are there.\<close>

definition conclude_update ::
  "(json \<Rightarrow> ustr) \<Rightarrow> (ustr \<Rightarrow> ustr) \<Rightarrow> op_row \<Rightarrow> dict \<Rightarrow> dict \<Rightarrow> dict \<Rightarrow> json \<Rightarrow> json \<Rightarrow> dict option \<Rightarrow>
   (observation, unit) st" where
  "conclude_update folded wire_id op status inventory after prog writer healthy =
     (let receipt_matches = (dget inventory ''last_operation_id'' = JStr (wire_id (op_operation_id op)));
          last_result = dget inventory ''last_result'' in
     sbind (slift (bindr (bundle_field (op_params op) ''components'' (JList [])) iterate)) (\<lambda>components.
     sbind (slift (anyr is_recovery_component components)) (\<lambda>recovery.
     let expected_mode = jstr (if recovery then ''recovery'' else ''normal'') in
     if receipt_matches \<and> last_result \<noteq> JNull \<and> \<not> py_eq last_result (JInt 0)
     then conclude ''observed_failure'' ''matching device receipt reports failure''
     else if receipt_matches \<and> py_eq last_result (JInt 0) \<and> healthy \<noteq> None
       \<and> dget status ''firmware_mode'' = expected_mode \<and> dget after ''firmware_mode'' = expected_mode
       \<and> new_boot (dget status ''boot_id'') writer
     then
       sbind (slift (update_success folded op after inventory prog)) (\<lambda>same.
       if same then
         sbind (slift (jget prog ''target_application'' JNull)) (\<lambda>application.
         sbind (note_evidence ''target_application'' application) (\<lambda>_.
         sbind (slift (jget prog ''target_recovery'' JNull)) (\<lambda>target_recovery.
         sbind (note_evidence ''target_recovery'' target_recovery) (\<lambda>_.
         conclude ''observed_success'' ''matching commit receipt, layout and healthy new boot''))))
       else sret ())
     else sret ())))"

definition observe_system_update ::
  "(json \<Rightarrow> ustr) \<Rightarrow> (ustr \<Rightarrow> ustr) \<Rightarrow> op_row \<Rightarrow> hub_answers \<Rightarrow> dict \<Rightarrow> json \<Rightarrow> json \<Rightarrow> dict option \<Rightarrow>
   (observation, unit) st" where
  "observe_system_update folded wire_id op hub status prog writer healthy =
     sbind (slift (ha_inventory hub)) (\<lambda>inventory.
     sbind (note_evidence ''inventory'' (JDict inventory)) (\<lambda>_.
     sbind (slift (ha_status_after hub)) (\<lambda>after.
     sbind (note_evidence ''status_after_inventory'' (JDict after)) (\<lambda>_.
     sbind (sraise_if (dget after ''device_id'' \<noteq> JStr (op_device_id op)
                \<or> \<not> py_eq (dget after ''boot_id'') (dget status ''boot_id''))
              (RuntimeError ''device rebooted during inventory observation'')) (\<lambda>_.
     conclude_update folded wire_id op status inventory after prog writer healthy)))))"

text \<open>\<^verbatim>\<open>reconcile_operation\<close> up to the first await.\<close>

definition reconcile_begin :: "ustr \<Rightarrow> (store, op_row) st" where
  "reconcile_begin operation_id =
     sbind (operation operation_id) (\<lambda>row.
     case row of
       None \<Rightarrow> sraise (KeyError ''operation_id'')
     | Some op \<Rightarrow>
         sbind (sraise_if (op_status op \<notin> {''outcome_unknown'', ''interrupted''})
                  (ValueError ''only uncertain or interrupted operations can be reconciled'')) (\<lambda>_.
         sret op))"

definition operation_progress :: "op_row \<Rightarrow> json" where
  "operation_progress op = (if truthy (op_progress op) then op_progress op else JDict [])"

definition writer_boot :: "op_row \<Rightarrow> json res" where
  "writer_boot op =
     bindr (jget (operation_progress op) ''previous_boot_id'' JNull) (\<lambda>previous.
     jget (operation_progress op) ''writer_boot_id'' previous)"

text \<open>The body of the \<^verbatim>\<open>try\<close>; \<open>events\<close> are those of the device the store has once the status is there.\<close>

definition observe_operation ::
  "(json \<Rightarrow> ustr) \<Rightarrow> (ustr \<Rightarrow> ustr) \<Rightarrow> op_row \<Rightarrow> hub_answers \<Rightarrow> dict list \<Rightarrow> (observation, unit) st" where
  "observe_operation folded wire_id op hub events =
     sbind (slift (ha_status hub)) (\<lambda>status.
     sbind (note_evidence ''status'' (JDict status)) (\<lambda>_.
     if dget status ''device_id'' \<noteq> JStr (op_device_id op) \<or> dget status ''boot_id'' = JNull
     then give_reason ''live device identity is missing or does not match''
     else
       sbind (slift (writer_boot op)) (\<lambda>writer.
       let healthy = healthy_event (dget status ''boot_id'') (op_created_ns op) events in
       sbind (case healthy of None \<Rightarrow> sret () | Some e \<Rightarrow> note_evidence ''healthy_event'' (JDict e)) (\<lambda>_.
       if op_action op = u ''firmware.ota'' then observe_ota folded (op_params op) status writer healthy
       else if op_action op = u ''firmware.system_update''
       then observe_system_update folded wire_id op hub status (operation_progress op) writer healthy
       else give_reason ''action has no durable proof contract; live observation retained''))))"

fun exn_name :: "exn \<Rightarrow> string" where
  "exn_name (KeyError _) = ''KeyError''"
| "exn_name (LookupError _) = ''LookupError''"
| "exn_name IndexError = ''IndexError''"
| "exn_name (RuntimeError _) = ''RuntimeError''"
| "exn_name (FileServiceError _ _) = ''FileServiceError''"
| "exn_name (TimeoutError _) = ''TimeoutError''"
| "exn_name (ConnectionError _) = ''ConnectionError''"
| "exn_name (PermissionError _) = ''PermissionError''"
| "exn_name OperationConflict = ''OperationConflict''"
| "exn_name (OperationCancelled _) = ''OperationCancelled''"
| "exn_name (OperationOutcomeUnknown _) = ''OperationOutcomeUnknown''"
| "exn_name DeviceMaintenance = ''DeviceMaintenance''"
| "exn_name _ = ''OSError''"

text \<open>\<^verbatim>\<open>except (OSError, ConnectionError, LookupError, RuntimeError, asyncio.TimeoutError)\<close>.\<close>

fun is_observation_error :: "exn \<Rightarrow> bool" where
  "is_observation_error (KeyError _) = True"
| "is_observation_error (LookupError _) = True"
| "is_observation_error IndexError = True"
| "is_observation_error (RuntimeError _) = True"
| "is_observation_error (FileServiceError _ _) = True"
| "is_observation_error OperationConflict = True"
| "is_observation_error (OperationCancelled _) = True"
| "is_observation_error (OperationOutcomeUnknown _) = True"
| "is_observation_error DeviceMaintenance = True"
| "is_observation_error e = is_os_error e"

definition guarded_observation ::
  "(json \<Rightarrow> ustr) \<Rightarrow> (ustr \<Rightarrow> ustr) \<Rightarrow> op_row \<Rightarrow> hub_answers \<Rightarrow> dict list \<Rightarrow> observation res" where
  "guarded_observation folded wire_id op hub events =
     (case scatch (observe_operation folded wire_id op hub events)
             (\<lambda>e. if is_observation_error e then give_reason (''live observation unavailable: '' @ exn_name e) else sraise e)
             observation_init of
        (Inr _, ob) \<Rightarrow> Inr ob
      | (Inl e, ob) \<Rightarrow> Inl e)"

definition device_events :: "op_row \<Rightarrow> (store, dict list) st" where
  "device_events op = latest_events (Some (op_device_id op)) [u ''device''] 5000"

definition record_dict :: "ustr \<Rightarrow> int \<Rightarrow> actor \<Rightarrow> op_row \<Rightarrow> observation \<Rightarrow> dict" where
  "record_dict reconciliation_id observed_ns actor op ob =
     [item ''reconciliation_id'' (JStr reconciliation_id), item ''operation_id'' (JStr (op_operation_id op)),
      item ''device_id'' (JStr (op_device_id op)), item ''actor'' (JDict (actor_as_dict actor)),
      item ''observed_ns'' (JInt observed_ns), item ''outcome'' (jstr (rc_outcome ob)), item ''replayed'' (JBool False),
      item ''evidence'' (JDict (rc_evidence ob)), item ''reason'' (jstr (rc_reason ob))]"

text \<open>The insertion of the record.\<close>

definition reconcile_finish :: "ustr \<Rightarrow> int \<Rightarrow> actor \<Rightarrow> op_row \<Rightarrow> observation \<Rightarrow> (store, dict) st" where
  "reconcile_finish reconciliation_id observed_ns actor op ob =
     (let r = record_dict reconciliation_id observed_ns actor op ob in
      sbind (slift (to_json_dict r)) (\<lambda>doc.
      sbind (sget (\<lambda>s. list_ex (\<lambda>x. fst x = reconciliation_id) (st_reconciliations s))) (\<lambda>taken.
      sbind (sraise_if taken IntegrityError) (\<lambda>_.
      sbind (smod (\<lambda>s. s\<lparr>st_reconciliations := st_reconciliations s @ [(reconciliation_id, op_operation_id op, doc)]\<rparr>)) (\<lambda>_.
      sret r)))))"

text \<open>The whole call on a store that nobody else changes meanwhile.\<close>

definition reconcile_operation ::
  "(json \<Rightarrow> ustr) \<Rightarrow> (ustr \<Rightarrow> ustr) \<Rightarrow> ustr \<Rightarrow> int \<Rightarrow> hub_answers \<Rightarrow> ustr \<Rightarrow> actor \<Rightarrow> (store, dict) st" where
  "reconcile_operation folded wire_id reconciliation_id observed_ns hub operation_id actor =
     sbind (reconcile_begin operation_id) (\<lambda>op.
     sbind (device_events op) (\<lambda>events.
     sbind (slift (guarded_observation folded wire_id op hub events)) (\<lambda>ob.
     reconcile_finish reconciliation_id observed_ns actor op ob)))"

section \<open>What a conclusion rests on\<close>

text \<open>The live status is that of the device, on a boot other than the one that wrote, which has since reported itself
  healthy.\<close>

definition healthy_new_boot :: "op_row \<Rightarrow> dict \<Rightarrow> dict list \<Rightarrow> bool" where
  "healthy_new_boot op status events \<longleftrightarrow>
     dget status ''device_id'' = JStr (op_device_id op) \<and> dget status ''boot_id'' \<noteq> JNull
     \<and> (\<exists>e \<in> set events. dget e ''event_name'' = jstr ''healthy'' \<and> py_eq (dget e ''boot_id'') (dget status ''boot_id'')
          \<and> (\<exists>n. dget_default e ''host_receive_ns'' (JInt 0) = JInt n \<and> op_created_ns op \<le> n))
     \<and> (\<exists>writer. writer_boot op = Inr writer \<and> writer \<noteq> JNull \<and> \<not> py_eq (dget status ''boot_id'') writer)"

definition ota_evidence :: "(json \<Rightarrow> ustr) \<Rightarrow> op_row \<Rightarrow> hub_answers \<Rightarrow> dict list \<Rightarrow> bool" where
  "ota_evidence folded op hub events \<longleftrightarrow> op_action op = u ''firmware.ota'' \<and>
     (\<exists>status img elf project. ha_status hub = Inr status \<and> healthy_new_boot op status events
        \<and> dget status ''firmware_mode'' = jstr ''normal''
        \<and> jget (op_params op) ''image'' (JDict []) = Inr img \<and> jget img ''elf_sha256'' JNull = Inr elf \<and> truthy elf
        \<and> folded (dget_default status ''firmware_sha256'' (jstr '''')) = folded elf
        \<and> jget img ''project_name'' JNull = Inr project \<and> py_eq (dget status ''project_name'') project)"

definition same_boot_receipt :: "(ustr \<Rightarrow> ustr) \<Rightarrow> op_row \<Rightarrow> dict \<Rightarrow> dict \<Rightarrow> dict \<Rightarrow> bool" where
  "same_boot_receipt wire_id op status inventory after \<longleftrightarrow>
     dget inventory ''last_operation_id'' = JStr (wire_id (op_operation_id op))
     \<and> dget after ''device_id'' = JStr (op_device_id op) \<and> py_eq (dget after ''boot_id'') (dget status ''boot_id'')"

definition update_evidence :: "(json \<Rightarrow> ustr) \<Rightarrow> (ustr \<Rightarrow> ustr) \<Rightarrow> op_row \<Rightarrow> hub_answers \<Rightarrow> dict list \<Rightarrow> bool" where
  "update_evidence folded wire_id op hub events \<longleftrightarrow> op_action op = u ''firmware.system_update'' \<and>
     (\<exists>status inventory after cs layout. ha_status hub = Inr status \<and> ha_inventory hub = Inr inventory
        \<and> ha_status_after hub = Inr after \<and> healthy_new_boot op status events
        \<and> same_boot_receipt wire_id op status inventory after \<and> py_eq (dget inventory ''last_result'') (JInt 0)
        \<and> dget after ''firmware_mode'' = dget status ''firmware_mode''
        \<and> bundle_field (op_params op) ''target_layout_sha256'' JNull = Inr layout
        \<and> py_eq (dget inventory ''partition_table_sha256'') layout
        \<and> bundle_field (op_params op) ''components'' JNull = Inr (JList cs)
        \<and> (\<forall>c \<in> set cs. component_matches folded (operation_progress op) after inventory c = Inr True))"

definition failure_evidence :: "(ustr \<Rightarrow> ustr) \<Rightarrow> op_row \<Rightarrow> hub_answers \<Rightarrow> bool" where
  "failure_evidence wire_id op hub \<longleftrightarrow> op_action op = u ''firmware.system_update'' \<and>
     (\<exists>status inventory after. ha_status hub = Inr status \<and> ha_inventory hub = Inr inventory
        \<and> ha_status_after hub = Inr after \<and> same_boot_receipt wire_id op status inventory after
        \<and> dget inventory ''last_result'' \<noteq> JNull \<and> \<not> py_eq (dget inventory ''last_result'') (JInt 0))"

definition justified :: "(json \<Rightarrow> ustr) \<Rightarrow> (ustr \<Rightarrow> ustr) \<Rightarrow> op_row \<Rightarrow> hub_answers \<Rightarrow> dict list \<Rightarrow> observation \<Rightarrow> bool" where
  "justified folded wire_id op hub events ob \<longleftrightarrow>
     rc_outcome ob = ''outcome_unknown''
     \<or> rc_outcome ob = ''observed_success'' \<and> (ota_evidence folded op hub events \<or> update_evidence folded wire_id op hub events)
     \<or> rc_outcome ob = ''observed_failure'' \<and> failure_evidence wire_id op hub"

lemma healthy_event_Some: "healthy_event boot ns events = Some e \<Longrightarrow> e \<in> set events \<and> is_healthy_event boot ns e"
  using nth_mem [of _ "rev events"] by (fastforce simp: healthy_event_def find_Some_iff)

lemma healthy_new_bootI:
  assumes "dget status ''device_id'' = JStr (op_device_id op)" "dget status ''boot_id'' \<noteq> JNull"
    and "healthy_event (dget status ''boot_id'') (op_created_ns op) events = Some e"
    and "writer_boot op = Inr writer" "new_boot (dget status ''boot_id'') writer"
  shows "healthy_new_boot op status events"
  using assms(1,2,4,5) healthy_event_Some [OF assms(3)]
  by (auto simp: healthy_new_boot_def is_healthy_event_def new_boot_def split: json.splits intro!: bexI [of _ e])

lemma observe_ota_justified:
  assumes "rc_outcome ob = ''outcome_unknown''" and "op_action op = u ''firmware.ota''" and "ha_status hub = Inr status"
    and "dget status ''device_id'' = JStr (op_device_id op)" "dget status ''boot_id'' \<noteq> JNull"
    and "writer_boot op = Inr writer" and "healthy = healthy_event (dget status ''boot_id'') (op_created_ns op) events"
  shows "wp (observe_ota folded (op_params op) status writer healthy)
    (\<lambda>_. justified folded wire_id op hub events) (\<lambda>_. justified folded wire_id op hub events) ob"
proof -
  have live: "healthy_new_boot op status events" if "healthy \<noteq> None" "new_boot (dget status ''boot_id'') writer"
    using that assms by (auto intro: healthy_new_bootI)
  have "justified folded wire_id op hub events ob" using assms(1) by (simp add: justified_def)
  moreover have "justified folded wire_id op hub events (ob\<lparr>rc_outcome := ''observed_success'', rc_reason := reason\<rparr>)"
    if "ota_evidence folded op hub events" for reason
    using that by (simp add: justified_def)
  ultimately show ?thesis
    using assms(2,3) live
    unfolding observe_ota_def
    by (auto simp: wp_simps Let_def conclude_def ota_evidence_def split: sum.split)
qed

lemma update_success_True:
  assumes "update_success folded op after inventory prog = Inr True"
  obtains layout cs where "bundle_field (op_params op) ''target_layout_sha256'' JNull = Inr layout"
    "py_eq (dget inventory ''partition_table_sha256'') layout"
    "bundle_field (op_params op) ''components'' JNull = Inr (JList cs)"
    "\<And>c. c \<in> set cs \<Longrightarrow> component_matches folded prog after inventory c = Inr True"
proof -
  from assms obtain layout where layout: "bundle_field (op_params op) ''target_layout_sha256'' JNull = Inr layout"
    "py_eq (dget inventory ''partition_table_sha256'') layout"
    "target_components_match folded (op_params op) prog after inventory = Inr True"
    unfolding update_success_def bindr_eq_Inr by (auto split: if_splits)
  from layout(3) obtain v where v: "bundle_field (op_params op) ''components'' JNull = Inr v"
    "(case v of JList cs \<Rightarrow> allr (component_matches folded prog after inventory) cs | _ \<Rightarrow> Inr False) = Inr True"
    unfolding target_components_match_def bindr_eq_Inr by blast
  then obtain cs where "v = JList cs" "allr (component_matches folded prog after inventory) cs = Inr True"
    by (cases v) auto
  with v layout that show thesis by (simp add: allr_True)
qed

lemma conclude_update_justified:
  assumes start: "rc_outcome ob = ''outcome_unknown''" and act: "op_action op = u ''firmware.system_update''"
    and hub: "ha_status hub = Inr status" "ha_inventory hub = Inr inventory" "ha_status_after hub = Inr after"
    and after: "dget after ''device_id'' = JStr (op_device_id op)" "py_eq (dget after ''boot_id'') (dget status ''boot_id'')"
    and live: "healthy \<noteq> None \<Longrightarrow> new_boot (dget status ''boot_id'') writer \<Longrightarrow> healthy_new_boot op status events"
  shows "wp (conclude_update folded wire_id op status inventory after (operation_progress op) writer healthy)
    (\<lambda>_. justified folded wire_id op hub events) (\<lambda>_. justified folded wire_id op hub events) ob"
proof -
  let ?J = "justified folded wire_id op hub events"
  let ?receipt = "dget inventory ''last_operation_id'' = JStr (wire_id (op_operation_id op))"
  let ?zero = "py_eq (dget inventory ''last_result'') (JInt 0)"
  have unknown: "?J (ob\<lparr>rc_evidence := ev\<rparr>)" "?J ob" for ev using start by (simp_all add: justified_def)
  have failed: "?J (ob\<lparr>rc_outcome := ''observed_failure'', rc_reason := reason\<rparr>)"
    if "?receipt" "dget inventory ''last_result'' \<noteq> JNull" "\<not> ?zero" for reason
  proof -
    have "failure_evidence wire_id op hub"
      unfolding failure_evidence_def same_boot_receipt_def using act hub after that by blast
    then show ?thesis by (simp add: justified_def)
  qed
  have success: "?J (ob\<lparr>rc_evidence := ev, rc_outcome := ''observed_success'', rc_reason := reason\<rparr>)"
    if "?receipt" "?zero" "healthy \<noteq> None" "new_boot (dget status ''boot_id'') writer"
      "dget after ''firmware_mode'' = dget status ''firmware_mode''"
      "update_success folded op after inventory (operation_progress op) = Inr True" for ev reason
  proof -
    have "update_evidence folded wire_id op hub events"
      using that(6)
    proof (rule update_success_True)
      fix layout cs
      assume "bundle_field (op_params op) ''target_layout_sha256'' JNull = Inr layout"
        "py_eq (dget inventory ''partition_table_sha256'') layout"
        "bundle_field (op_params op) ''components'' JNull = Inr (JList cs)"
        "\<And>c. c \<in> set cs \<Longrightarrow> component_matches folded (operation_progress op) after inventory c = Inr True"
      with act hub after that live [OF that(3,4)] show ?thesis
        unfolding update_evidence_def same_boot_receipt_def by blast
    qed
    then show ?thesis by (simp add: justified_def)
  qed
  show ?thesis
    unfolding conclude_update_def Let_def wp_simps note_evidence_def conclude_def
    using unknown failed success
    by (simp split: sum.split)
qed

lemma observe_update_justified:
  assumes "rc_outcome ob = ''outcome_unknown''" and "op_action op = u ''firmware.system_update''" and "ha_status hub = Inr status"
    and "dget status ''device_id'' = JStr (op_device_id op)" "dget status ''boot_id'' \<noteq> JNull"
    and "writer_boot op = Inr writer" and "healthy = healthy_event (dget status ''boot_id'') (op_created_ns op) events"
  shows "wp (observe_system_update folded wire_id op hub status (operation_progress op) writer healthy)
    (\<lambda>_. justified folded wire_id op hub events) (\<lambda>_. justified folded wire_id op hub events) ob"
proof -
  let ?J = "justified folded wire_id op hub events"
  have live: "healthy_new_boot op status events" if "healthy \<noteq> None" "new_boot (dget status ''boot_id'') writer"
    using that assms by (auto intro: healthy_new_bootI)
  have unknown: "?J (ob\<lparr>rc_evidence := ev\<rparr>)" "?J ob" for ev using assms(1) by (simp_all add: justified_def)
  have tail: "wp (conclude_update folded wire_id op status inventory after (operation_progress op) writer healthy) (\<lambda>_. ?J) (\<lambda>_. ?J)
      (ob\<lparr>rc_evidence := ev\<rparr>)"
    if "ha_inventory hub = Inr inventory" "ha_status_after hub = Inr after" "dget after ''device_id'' = JStr (op_device_id op)"
      "py_eq (dget after ''boot_id'') (dget status ''boot_id'')" for inventory after ev
    by (rule conclude_update_justified) (use assms that live in auto)
  show ?thesis
    unfolding observe_system_update_def wp_simps note_evidence_def
    using unknown by (simp add: tail split: sum.split)
qed

lemma observation_justified:
  assumes "guarded_observation folded wire_id op hub events = Inr ob"
  shows "justified folded wire_id op hub events ob"
proof -
  let ?J = "justified folded wire_id op hub events"
  have unknown: "?J ob" if "rc_outcome ob = ''outcome_unknown''" for ob using that by (simp add: justified_def)
  have reason: "?J (ob\<lparr>rc_reason := reason\<rparr>)" if "?J ob" for ob reason using that by (simp add: justified_def)
  have start: "rc_outcome (observation_init\<lparr>rc_evidence := ev\<rparr>) = ''outcome_unknown''" for ev
    by (simp add: observation_init_def)
  have start': "rc_outcome observation_init = ''outcome_unknown''" by (simp add: observation_init_def)
  have "wp (observe_operation folded wire_id op hub events) (\<lambda>_. ?J) (\<lambda>_. ?J) observation_init"
    unfolding observe_operation_def Let_def
    by (auto simp: wp_simps note_evidence_def give_reason_def split: sum.split option.split
        intro!: unknown reason observe_ota_justified observe_update_justified start start')
  then have "wp (scatch (observe_operation folded wire_id op hub events)
      (\<lambda>e. if is_observation_error e then give_reason (''live observation unavailable: '' @ exn_name e) else sraise e))
      (\<lambda>_. ?J) (\<lambda>_. ?J) observation_init"
    unfolding wp_scatch by (rule wp_mono) (auto simp: wp_simps give_reason_def reason)
  from wp_run [OF this] assms show ?thesis
    by (auto simp: guarded_observation_def split: prod.splits sum.splits)
qed

text \<open>Claim C33. Reconciling an operation only observes. It is refused unless the operation is uncertain or interrupted;
  reading the row and the events changes nothing, and the end appends one record, never marked as replayed, and leaves
  every other table as it was. The record says success only when the device itself was seen: healthy since the request
  and on a boot other than the writer's, with the very firmware of the request, or with a matching receipt of result
  0 and the layout and components of the bundle; it says failure only on a matching receipt with another result; and
  everything else stays unknown. Between the three parts the store may change.\<close>

theorem reconciliation_evidence:
  assumes "reconcile_begin i s1 = (Inr op, t1)" and "device_events op s2 = (Inr events, t2)"
    and "guarded_observation folded wire_id op hub events = Inr ob"
    and "reconcile_finish reconciliation_id ns actor op ob s3 = (Inr r, t3)"
  shows "op_status op \<in> {''outcome_unknown'', ''interrupted''} \<and> op_operation_id op = i
    \<and> t1 = s1 \<and> t2 = s2
    \<and> t3 = s3\<lparr>st_reconciliations := st_reconciliations s3 @ [(reconciliation_id, i, r)]\<rparr>
    \<and> dget r ''replayed'' = JBool False
    \<and> (dget r ''outcome'' = jstr ''outcome_unknown''
       \<or> dget r ''outcome'' = jstr ''observed_success''
           \<and> (ota_evidence folded op hub events \<or> update_evidence folded wire_id op hub events)
       \<or> dget r ''outcome'' = jstr ''observed_failure'' \<and> failure_evidence wire_id op hub)"
proof -
  have "op_status op \<in> {''outcome_unknown'', ''interrupted''}" "op_operation_id op = i" "t1 = s1"
    using assms(1) select_key
    by (auto simp: reconcile_begin_def operation_def operation_row_def st_run split: option.splits if_splits)
  moreover have "t2 = s2" using assms(2) by (simp add: device_events_def latest_events_def sget_def)
  moreover have "t3 = s3\<lparr>st_reconciliations := st_reconciliations s3 @ [(reconciliation_id, op_operation_id op, r)]\<rparr>"
    "r = record_dict reconciliation_id ns actor op ob"
    using assms(4)
    by (auto simp: reconcile_finish_def Let_def to_json_dict_def to_json_def st_run split: if_splits sum.splits)
  moreover have "dget (record_dict reconciliation_id ns actor op ob) ''outcome'' = jstr (rc_outcome ob)"
    "dget (record_dict reconciliation_id ns actor op ob) ''replayed'' = JBool False"
    by (simp_all add: record_dict_def dget_def dget_default_def item_def)
  ultimately show ?thesis
    using observation_justified [OF assms(3)] by (auto simp: justified_def)
qed

section \<open>An example\<close>

definition ex_folded :: "json \<Rightarrow> ustr" where
  "ex_folded v = (case v of JStr s \<Rightarrow> ascii_lower s | _ \<Rightarrow> [])"

definition ex_uncertain :: op_row where
  "ex_uncertain = \<lparr>op_operation_id = u ''op'', op_device_id = u ''d'', op_actor_type = u ''agent'', op_actor_name = u ''bot'',
     op_action = u ''firmware.ota'',
     op_params = JDict [item ''image'' (JDict [item ''elf_sha256'' (jstr ''ab''), item ''project_name'' (jstr ''p'')])],
     op_status = ''outcome_unknown'', op_result = JNull, op_error = None, op_created_ns = 5, op_started_ns = None,
     op_finished_ns = None, op_queue_position = 0, op_progress = JDict [item ''previous_boot_id'' (jstr ''one'')],
     op_fingerprint = None\<rparr>"

definition ex_healthy :: event_row where
  "ex_healthy = \<lparr>ev_event_id = 1, ev_device_id = Some (u ''d''), ev_category = u ''device'', ev_host_receive_ns = 9,
     ev_payload = [item ''event_name'' (jstr ''healthy''), item ''boot_id'' (JInt 2)]\<rparr>"

definition ex_uncertain_store :: store where
  "ex_uncertain_store = store_init\<lparr>st_operations := [ex_uncertain], st_events := [ex_healthy]\<rparr>"

definition ex_live :: hub_answers where
  "ex_live = \<lparr>ha_status = Inr [item ''device_id'' (jstr ''d''), item ''boot_id'' (JInt 2), item ''firmware_mode'' (jstr ''normal''),
       item ''firmware_sha256'' (jstr ''AB''), item ''project_name'' (jstr ''p'')],
     ha_inventory = Inl (TimeoutError ''''), ha_status_after = Inl (TimeoutError '''')\<rparr>"

definition ex_observed :: observation where
  "ex_observed = \<lparr>rc_outcome = ''observed_success'', rc_reason = ''expected firmware is healthy on a new boot'',
     rc_evidence = [item ''status'' (JDict [item ''device_id'' (jstr ''d''), item ''boot_id'' (JInt 2),
         item ''firmware_mode'' (jstr ''normal''), item ''firmware_sha256'' (jstr ''AB''), item ''project_name'' (jstr ''p'')]),
       item ''healthy_event'' (JDict (event_item ex_healthy))]\<rparr>"

lemma ex_begin: "reconcile_begin (u ''op'') ex_uncertain_store = (Inr ex_uncertain, ex_uncertain_store)"
  by (simp add: reconcile_begin_def operation_def operation_row_def select_def ex_uncertain_store_def ex_uncertain_def
      boot_id_copy_dict boot_id_text_def add_boot_text_def item_def jstr_def st_run)

lemma ex_events: "device_events ex_uncertain ex_uncertain_store = (Inr [event_item ex_healthy], ex_uncertain_store)"
  by (simp add: device_events_def latest_events_def ex_uncertain_store_def ex_uncertain_def ex_healthy_def event_matches_def
      event_limit_def sget_def)

lemma ex_event_item: "event_item ex_healthy = [item ''event_name'' (jstr ''healthy''), item ''boot_id'' (JInt 2),
    item ''event_id'' (JInt 1), item ''category'' (jstr ''device''), item ''host_receive_ns'' (JInt 9)]"
  by (simp add: event_item_def ex_healthy_def dupdate_def item_def jstr_def jnat_def)

lemma ex_observation: "guarded_observation ex_folded id ex_uncertain ex_live [event_item ex_healthy] = Inr ex_observed"
  by (simp add: guarded_observation_def observe_operation_def observe_ota_def ex_uncertain_def ex_live_def ex_event_item
      ex_observed_def observation_init_def note_evidence_def conclude_def healthy_event_def is_healthy_event_def writer_boot_def
      operation_progress_def new_boot_def jget_def dget_def dget_default_def item_def jstr_def ex_folded_def ascii_lower_def
      Let_def st_run)

lemma ex_finish: "\<exists>r t. reconcile_finish (u ''r1'') 11 (full_actor ''developer'' ''Developer'') ex_uncertain ex_observed ex_uncertain_store
     = (Inr r, t) \<and> dget r ''outcome'' = jstr ''observed_success''"
  by (simp add: reconcile_finish_def record_dict_def ex_observed_def ex_uncertain_def ex_uncertain_store_def store_init_def
      ex_event_item actor_as_dict_def full_actor_def sorted_scopes_def to_json_dict_def to_json_def item_def jstr_def
      dget_def dget_default_def Let_def st_run)

theorem reconciliation_evidence_witness:
  "\<exists>r t. reconcile_finish (u ''r1'') 11 (full_actor ''developer'' ''Developer'') ex_uncertain ex_observed ex_uncertain_store
     = (Inr r, t)
     \<and> dget r ''outcome'' = jstr ''observed_success''
     \<and> (ota_evidence ex_folded ex_uncertain ex_live [event_item ex_healthy]
        \<or> update_evidence ex_folded id ex_uncertain ex_live [event_item ex_healthy])"
proof -
  obtain r t where run: "reconcile_finish (u ''r1'') 11 (full_actor ''developer'' ''Developer'') ex_uncertain ex_observed
      ex_uncertain_store = (Inr r, t)" and outcome: "dget r ''outcome'' = jstr ''observed_success''"
    using ex_finish by blast
  from reconciliation_evidence [OF ex_begin ex_events ex_observation run] outcome
  have "ota_evidence ex_folded ex_uncertain ex_live [event_item ex_healthy]
      \<or> update_evidence ex_folded id ex_uncertain ex_live [event_item ex_healthy]"
    by (simp add: jstr_def)
  with run outcome show ?thesis by blast
qed

end
