(* ===== verification/Compatibility.thy ===== *)
theory Compatibility
  imports Py_Value Firmware
begin

text \<open>
  \<^verbatim>\<open>compatibility.py\<close>: the checks of firmware role, chip and declared product contract before an update, and the
  contract that is required again after a restart into Recovery.
\<close>

definition CONTRACT_FIELDS :: "string list" where
  "CONTRACT_FIELDS = [''chip_target'', ''product_contract'', ''board_id'', ''layout_id'', ''recovery_abi'']"

text \<open>The check of one declared field; \<^verbatim>\<open>type(item) is not int\<close> also refuses truth values.\<close>

definition contract_item :: "string \<Rightarrow> json \<Rightarrow> unit res" where
  "contract_item key v =
     (if key = ''recovery_abi'' then
        (case v of
           JInt n \<Rightarrow> raise_if (\<not> (1 \<le> n \<and> n \<le> 65535)) (ValueError ''compatibility recovery_abi must be 1..65535'')
         | _ \<Rightarrow> Inl (ValueError ''compatibility recovery_abi must be 1..65535''))
      else
        (case v of
           JStr s \<Rightarrow>
             if s = [] then Inl (ValueError (''compatibility '' @ key @ '' must contain 1..64 UTF-8 bytes''))
             else (case utf8_encode s of
                     None \<Rightarrow> Inl UnicodeError
                   | Some b \<Rightarrow> raise_if (length b > 64) (ValueError (''compatibility '' @ key @ '' must contain 1..64 UTF-8 bytes'')))
         | _ \<Rightarrow> Inl (ValueError (''compatibility '' @ key @ '' must contain 1..64 UTF-8 bytes''))))"

fun contract_items :: "dict \<Rightarrow> string list \<Rightarrow> dict res" where
  "contract_items d [] = Inr []"
| "contract_items d (key # keys) =
     (case map_of d (u key) of
        None \<Rightarrow> contract_items d keys
      | Some v \<Rightarrow> bindr (contract_item key v) (\<lambda>_. bindr (contract_items d keys) (\<lambda>rest. Inr ((u key, v) # rest))))"

definition compatibility_expectation :: "json \<Rightarrow> dict res" where
  "compatibility_expectation v = (case v of
     JNull \<Rightarrow> Inr []
   | JDict d \<Rightarrow>
       bindr (raise_if (\<not> fst ` set d \<subseteq> set (map u CONTRACT_FIELDS)) (ValueError ''unknown compatibility fields'')) (\<lambda>_.
       contract_items d CONTRACT_FIELDS)
   | _ \<Rightarrow> Inl (TypeError ''compatibility must be a JSON object''))"

text \<open>Both sides of the comparison of a required field have one type, so that it is equality of values.\<close>

fun require_contract :: "dict \<Rightarrow> dict \<Rightarrow> unit res" where
  "require_contract status [] = Inr ()"
| "require_contract status ((key, expected) # rest) =
     bindr (raise_if (map_of status key \<noteq> Some expected)
              (ValueError ''device compatibility is missing or mismatched'')) (\<lambda>_.
     require_contract status rest)"

definition undeclared :: "json \<Rightarrow> bool" where
  "undeclared v \<longleftrightarrow> v = JNull \<or> v = JStr [] \<or> number v = Some 0"

fun carry_forward :: "dict \<Rightarrow> string list \<Rightarrow> dict \<Rightarrow> dict" where
  "carry_forward status [] required = required"
| "carry_forward status (key # keys) required =
     (let actual = dget status key in
      carry_forward status keys
        (if undeclared actual \<or> map_of required (u key) \<noteq> None then required else required @ [(u key, actual)]))"

definition validate_update_compatibility :: "dict \<Rightarrow> json \<Rightarrow> json \<Rightarrow> bool \<Rightarrow> dict res" where
  "validate_update_compatibility status chip_id expectation recovery =
     (let role = dget status ''firmware_mode'' in
      bindr (raise_if ((role \<noteq> jstr ''normal'' \<and> role \<noteq> jstr ''recovery'') \<or> (recovery \<and> role \<noteq> jstr ''recovery''))
               (ValueError ''update requires an explicit compatible firmware role; migrate legacy firmware with product recovery'')) (\<lambda>_.
      bindr (raise_if (chip_id \<noteq> JInt (int ESP32S31_CHIP_ID)) (ValueError ''update artifact has an unsupported or missing chip ID'')) (\<lambda>_.
      bindr (compatibility_expectation expectation) (\<lambda>required.
      bindr (raise_if (dget_default required ''chip_target'' (jstr ''esp32s31'') \<noteq> jstr ''esp32s31'')
               (ValueError ''compatibility chip_target does not match the artifact'')) (\<lambda>_.
      let required' = dput required (u ''chip_target'') (jstr ''esp32s31'') in
      bindr (require_contract status required') (\<lambda>_.
      compatibility_expectation (JDict (carry_forward status CONTRACT_FIELDS required'))))))))"

section \<open>What the contract contains\<close>

lemma u_inject: "u s = u t \<longleftrightarrow> s = t"
  by (simp add: u_def inj_map_eq_map inj_on_def)

lemma contract_items_map:
  "contract_items d keys = Inr c \<Longrightarrow> map_of c k = (if k \<in> u ` set keys then map_of d k else None)"
proof (induction d keys arbitrary: c rule: contract_items.induct)
  case (2 d key keys)
  then show ?case by (cases "map_of d (u key)") (auto simp: res_simps)
qed auto

lemma expectation_map:
  assumes "compatibility_expectation (JDict d) = Inr c"
  shows "map_of c k = map_of d k"
proof -
  from assms have keys: "fst ` set d \<subseteq> u ` set CONTRACT_FIELDS" and "contract_items d CONTRACT_FIELDS = Inr c"
    by (auto simp: compatibility_expectation_def res_simps)
  moreover have "map_of d k = None" if "k \<notin> u ` set CONTRACT_FIELDS"
    using keys that by (auto simp: map_of_eq_None_iff)
  ultimately show ?thesis by (auto simp: contract_items_map)
qed

lemma require_contract_Inr: "require_contract status d = Inr () \<longleftrightarrow> (\<forall>(k, v) \<in> set d. map_of status k = Some v)"
  by (induction status d rule: require_contract.induct) (auto simp: res_simps raise_if_eq_Inr)

lemma carry_old: "map_of required k = Some v \<Longrightarrow> map_of (carry_forward status keys required) k = Some v"
  by (induction status keys required rule: carry_forward.induct) (auto simp: Let_def map_add_def)

lemma carry_new:
  assumes "key \<in> set keys" and "\<not> undeclared (dget status key)" and "map_of required (u key) = None"
  shows "map_of (carry_forward status keys required) (u key) = Some (dget status key)"
  using assms
proof (induction status keys required rule: carry_forward.induct)
  case (2 status key' keys required)
  show ?case
  proof (cases "key' = key")
    case True
    have "map_of (required @ [(u key, dget status key)]) (u key) = Some (dget status key)"
      using 2(4) by (simp add: map_add_def)
    from carry_old [OF this] True 2 show ?thesis by (simp add: Let_def)
  next
    case False
    with 2 show ?thesis by (auto simp: Let_def u_inject)
  qed
qed simp

lemma carry_sound:
  "map_of (carry_forward status keys required) k = Some v \<Longrightarrow>
   map_of required k = Some v \<or> (\<exists>key \<in> set keys. k = u key \<and> v = dget status key \<and> \<not> undeclared v)"
  by (induction status keys required rule: carry_forward.induct)
    (auto simp: Let_def map_add_def split: if_splits option.splits)

text \<open>A device that declares something has it in its status.\<close>

lemma declared_get: "\<not> undeclared (dget status key) \<Longrightarrow> map_of status (u key) = Some (dget status key)"
  by (auto simp: undeclared_def dget_def dget_default_def split: option.splits)

lemma validated:
  assumes "validate_update_compatibility status chip_id expectation recovery = Inr c"
  obtains required where "compatibility_expectation expectation = Inr required"
    "\<And>k v. map_of c k = Some v \<Longrightarrow> map_of status k = Some v"
    "\<And>k v. map_of required k = Some v \<Longrightarrow> map_of c k = Some v"
    "\<And>key. key \<in> set CONTRACT_FIELDS \<Longrightarrow> \<not> undeclared (dget status key) \<Longrightarrow> map_of c (u key) = Some (dget status key)"
    "map_of c (u ''chip_target'') = Some (jstr ''esp32s31'')"
proof -
  from assms obtain required where required: "compatibility_expectation expectation = Inr required"
    and chip: "dget_default required ''chip_target'' (jstr ''esp32s31'') = jstr ''esp32s31''"
    and fields: "require_contract status (dput required (u ''chip_target'') (jstr ''esp32s31'')) = Inr ()"
    and c: "compatibility_expectation (JDict (carry_forward status CONTRACT_FIELDS (dput required (u ''chip_target'') (jstr ''esp32s31'')))) = Inr c"
    by (auto simp: validate_update_compatibility_def Let_def res_simps raise_if_eq_Inr)
  define r where "r = dput required (u ''chip_target'') (jstr ''esp32s31'')"
  have in_c: "map_of c k = map_of (carry_forward status CONTRACT_FIELDS r) k" for k
    using expectation_map [OF c] by (simp add: r_def)
  have status: "map_of status k = Some v" if "map_of r k = Some v" for k v
    using fields map_of_SomeD [OF that] by (auto simp: require_contract_Inr r_def)
  show thesis
  proof (rule that [OF required])
    show "map_of status k = Some v" if "map_of c k = Some v" for k v
      using that carry_sound [of status CONTRACT_FIELDS r k v] by (auto simp: in_c status declared_get)
    show "map_of c k = Some v" if "map_of required k = Some v" for k v
    proof -
      have "map_of r k = Some v" using that chip by (auto simp: r_def dget_default_def)
      then show ?thesis by (simp add: in_c carry_old)
    qed
    show "map_of c (u key) = Some (dget status key)" if "key \<in> set CONTRACT_FIELDS" "\<not> undeclared (dget status key)" for key
    proof (cases "map_of r (u key)")
      case (Some v)
      with status [OF Some] declared_get [OF that(2)] show ?thesis by (simp add: in_c carry_old)
    qed (use that in \<open>simp add: in_c carry_new\<close>)
    show "map_of c (u ''chip_target'') = Some (jstr ''esp32s31'')"
      unfolding in_c by (rule carry_old) (simp add: r_def)
  qed
qed

text \<open>Claim C32. The contract that a compatibility check returns holds the device to what it declares: it consists of
  fields of the status, contains every expectation of the caller, the chip target and every declared field; and when a
  later status, for instance after the restart into Recovery, passes the check against this contract, every field the
  device had declared is unchanged.\<close>

theorem compatibility_carried:
  assumes "validate_update_compatibility status chip_id (JDict expectation) recovery = Inr c"
  shows "(\<forall>k v. map_of c k = Some v \<longrightarrow> map_of status k = Some v)
    \<and> (\<forall>k v. map_of expectation k = Some v \<longrightarrow> map_of c k = Some v)
    \<and> map_of c (u ''chip_target'') = Some (jstr ''esp32s31'')
    \<and> (\<forall>key \<in> set CONTRACT_FIELDS. \<not> undeclared (dget status key) \<longrightarrow> map_of c (u key) = Some (dget status key))
    \<and> (\<forall>later chip_id' recovery' c'. validate_update_compatibility later chip_id' (JDict c) recovery' = Inr c' \<longrightarrow>
         (\<forall>key \<in> set CONTRACT_FIELDS. \<not> undeclared (dget status key) \<longrightarrow> dget later key = dget status key))"
proof -
  obtain required where c: "compatibility_expectation (JDict expectation) = Inr required"
    "\<And>k v. map_of c k = Some v \<Longrightarrow> map_of status k = Some v"
    "\<And>k v. map_of required k = Some v \<Longrightarrow> map_of c k = Some v"
    "\<And>key. key \<in> set CONTRACT_FIELDS \<Longrightarrow> \<not> undeclared (dget status key) \<Longrightarrow> map_of c (u key) = Some (dget status key)"
    "map_of c (u ''chip_target'') = Some (jstr ''esp32s31'')"
    by (rule validated [OF assms]) (rule that)
  have "dget later key = dget status key"
    if later: "validate_update_compatibility later chip_id' (JDict c) recovery' = Inr c'"
      and key: "key \<in> set CONTRACT_FIELDS" "\<not> undeclared (dget status key)" for later chip_id' recovery' c' key
  proof -
    obtain required' where "compatibility_expectation (JDict c) = Inr required'"
      "\<And>k v. map_of c' k = Some v \<Longrightarrow> map_of later k = Some v"
      "\<And>k v. map_of required' k = Some v \<Longrightarrow> map_of c' k = Some v"
      by (rule validated [OF later]) (rule that)
    moreover from this(1) have "map_of required' (u key) = Some (dget status key)"
      using c(4) [OF key] by (simp add: expectation_map)
    ultimately have "map_of later (u key) = Some (dget status key)" by blast
    then show ?thesis by (simp add: dget_def dget_default_def)
  qed
  with c expectation_map [OF c(1)] show ?thesis by auto
qed

definition ex_status :: dict where
  "ex_status = [item ''firmware_mode'' (jstr ''normal''), item ''chip_target'' (jstr ''esp32s31''),
     item ''board_id'' (jstr ''b1''), item ''recovery_abi'' (JInt 2), item ''layout_id'' (jstr '''')]"

definition ex_required :: dict where
  "ex_required = [item ''chip_target'' (jstr ''esp32s31'')]"

definition ex_contract :: dict where
  "ex_contract = [item ''chip_target'' (jstr ''esp32s31''), item ''board_id'' (jstr ''b1''), item ''recovery_abi'' (JInt 2)]"

lemma ex_no_expectation: "compatibility_expectation (JDict []) = Inr []"
  by (simp add: compatibility_expectation_def CONTRACT_FIELDS_def)

lemma ex_contract_fields: "require_contract ex_status ex_required = Inr ()"
  by (simp add: require_contract_Inr ex_required_def ex_status_def item_def jstr_def)

lemma ex_carry: "carry_forward ex_status CONTRACT_FIELDS ex_required = ex_contract"
  by (simp add: CONTRACT_FIELDS_def ex_required_def ex_contract_def ex_status_def item_def jstr_def dget_def
      dget_default_def undeclared_def Let_def)

lemma ex_contract_checked: "compatibility_expectation (JDict ex_contract) = Inr ex_contract"
  by (simp add: compatibility_expectation_def CONTRACT_FIELDS_def ex_contract_def item_def jstr_def contract_item_def utf8_char_def)

lemma ex_validated: "validate_update_compatibility ex_status (JInt 32) (JDict []) False = Inr ex_contract"
proof -
  have "dget ex_status ''firmware_mode'' = jstr ''normal''"
    by (simp add: ex_status_def dget_def dget_default_def item_def)
  moreover have "dput [] (u ''chip_target'') (jstr ''esp32s31'') = ex_required"
    by (simp add: ex_required_def item_def)
  ultimately show ?thesis
    by (simp only: validate_update_compatibility_def ex_no_expectation ex_carry ex_contract_checked ex_contract_fields Let_def
        bindr.simps) (simp add: ESP32S31_CHIP_ID_def dget_default_def ex_contract_fields ex_carry ex_contract_checked)
qed

theorem compatibility_carried_witness:
  "\<exists>c. validate_update_compatibility ex_status (JInt 32) (JDict []) False = Inr c \<and>
     map_of c (u ''board_id'') = Some (jstr ''b1'')"
proof -
  have "\<exists>c. validate_update_compatibility ex_status (JInt 32) (JDict []) False = Inr c" using ex_validated by blast
  then obtain c where c: "validate_update_compatibility ex_status (JInt 32) (JDict []) False = Inr c" by blast
  have "dget ex_status ''board_id'' = jstr ''b1''" "''board_id'' \<in> set CONTRACT_FIELDS" "\<not> undeclared (jstr ''b1'')"
    by (simp_all add: ex_status_def dget_def dget_default_def item_def CONTRACT_FIELDS_def undeclared_def jstr_def)
  moreover have "\<not> undeclared (dget ex_status key) \<longrightarrow> map_of c (u key) = Some (dget ex_status key)"
    if "key \<in> set CONTRACT_FIELDS" for key
    using compatibility_carried [OF c] that by blast
  ultimately show ?thesis using c by metis
qed

end
