(* ===== verification/Closed_Loops.thy ===== *)
theory Closed_Loops
  imports Hub_IO Reconciliation Compatibility
begin

text \<open>
  The workflows that write firmware and prove the result: \<^verbatim>\<open>_validate_ota_identity\<close>, \<^verbatim>\<open>preserve_coredump\<close>,
  \<^verbatim>\<open>closed_loop_ota\<close> and \<^verbatim>\<open>closed_loop_restart\<close> of \<^verbatim>\<open>gateway.py\<close> and \<^verbatim>\<open>system_update_workflow.py\<close>, over the
  scripted hub. \<^verbatim>\<open>str(v)\<close> and \<^verbatim>\<open>.lower()\<close> are the arguments \<open>txt\<close> and \<open>lower\<close>.
\<close>

section \<open>Identity of the running firmware\<close>

definition OTA_VALIDATION_MODES :: "string list" where
  "OTA_VALIDATION_MODES = [''elf_sha256'', ''version'']"

definition DEFAULT_OTA_VALIDATION_MODE :: string where
  "DEFAULT_OTA_VALIDATION_MODE = ''elf_sha256''"

definition require_ota_validation_mode :: "string \<Rightarrow> unit res" where
  "require_ota_validation_mode mode =
     raise_if (mode \<notin> set OTA_VALIDATION_MODES) (ValueError ''OTA validation mode must be one of: elf_sha256, version'')"

definition validate_ota_identity ::
  "(json \<Rightarrow> ustr) \<Rightarrow> (ustr \<Rightarrow> ustr) \<Rightarrow> dict \<Rightarrow> dict \<Rightarrow> string \<Rightarrow> dict res" where
  "validate_ota_identity txt lower status metadata mode =
     bindr (require_ota_validation_mode mode) (\<lambda>_.
     bindr (raise_if (\<not> py_eq (dget status ''project_name'') (dget metadata ''project_name''))
              (RuntimeError ''device reconnected with an unexpected firmware project'')) (\<lambda>_.
     let by_hash = (mode = ''elf_sha256'');
         expected_field = (if by_hash then ''elf_sha256'' else ''version'');
         actual_field = (if by_hash then ''firmware_sha256'' else ''app_version'');
         fold_text = (if by_hash then lower else id);
         expected = fold_text (txt (dget_default metadata expected_field (jstr '''')));
         actual = fold_text (txt (dget_default status actual_field (jstr ''''))) in
     bindr (raise_if (expected = []) (RuntimeError ''OTA artifact is missing the expected identity'')) (\<lambda>_.
     bindr (raise_if (actual = []) (OperationOutcomeUnknown ''device did not report its identity; acceptance remains unknown'')) (\<lambda>_.
     bindr (raise_if (actual \<noteq> expected) (RuntimeError ''device reconnected with an unexpected identity'')) (\<lambda>_.
     Inr [item ''mode'' (jstr mode), item ''expected_field'' (jstr expected_field), item ''actual_field'' (jstr actual_field),
          item ''expected'' (JStr expected), item ''actual'' (JStr actual)])))))"

section \<open>Core dumps\<close>

definition dindex_st :: "dict \<Rightarrow> string \<Rightarrow> json hub" where
  "dindex_st d key = slift (dindex d key)"

text \<open>The answer of a read: the total size and the bytes at the offset.\<close>

fun chunk_answer :: "json \<Rightarrow> (json \<times> bytes) res" where
  "chunk_answer (JList [t, JBytes b]) = Inr (t, b)"
| "chunk_answer _ = Inl (TypeError ''cannot unpack core dump chunk'')"

function coredump_loop :: "ustr \<Rightarrow> dict \<Rightarrow> int \<Rightarrow> bytes \<Rightarrow> bytes hub" where
  "coredump_loop device_id report expected_size data w =
     (if int (length data) < expected_size then
        sbind (slift (py_int (dget_default report ''core_dump_chunk_max'' (JInt 1024)))) (\<lambda>chunk_max.
        sbind (hub_ask (Hub_read_core_dump device_id (length data) (min chunk_max (expected_size - int (length data))))) (\<lambda>v.
        sbind (slift (chunk_answer v)) (\<lambda>answer.
        sbind (sraise_if (\<not> py_eq (fst answer) (JInt expected_size) \<or> snd answer = [])
                 (RuntimeError ''coredump preservation stopped before completion'')) (\<lambda>_.
        coredump_loop device_id report expected_size (data @ snd answer))))) w
      else sret data w)"
  by pat_completeness auto
termination
  by (relation "measure (\<lambda>(d, r, t, data, w). length (hw_replies w))")
    (auto simp: slift_def sraise_if_def sraise_def sret_def split: if_splits dest: hub_ask_consumes)

declare coredump_loop.simps [simp del]

definition preserve_coredump :: "ustr \<Rightarrow> dict option hub" where
  "preserve_coredump device_id =
     sbind (ask_dict (Hub_crash_report device_id)) (\<lambda>report.
     if \<not> truthy (dget report ''core_dump_present'') \<or> \<not> truthy (dget report ''core_dump_valid'') then sret None
     else
       sbind (dindex_st report ''core_dump_size'') (\<lambda>v.
       sbind (slift (py_int v)) (\<lambda>expected_size.
       sbind (coredump_loop device_id report expected_size []) (\<lambda>data.
       sbind (hub_ask (Save_artifact device_id ''coredump'' data ''bin'')) (\<lambda>path.
       sret (Some [item ''path'' path, item ''bytes'' (jnat (length data)), item ''sha256'' (jstr (hex (sha256 data)))]))))))"

section \<open>Waiting for Recovery\<close>

text \<open>\<^verbatim>\<open>enter_recovery\<close>, whose answer may be lost, and the loop that looks for the device on another boot in
  Recovery; \<open>None\<close> when the deadline has passed.\<close>

definition try_enter_recovery :: "ustr \<Rightarrow> unit hub" where
  "try_enter_recovery device_id =
     scatch (sbind (hub_ask (Hub_enter_recovery device_id)) (\<lambda>_. sret ()))
       (\<lambda>e. if is_os_error e then sret () else sraise e)"

definition try_status :: "ustr \<Rightarrow> dict option hub" where
  "try_status device_id =
     scatch (sbind (ask_dict (Hub_status device_id)) (\<lambda>s. sret (Some s)))
       (\<lambda>e. if is_observation_error e then sret None else sraise e)"

definition in_recovery :: "json \<Rightarrow> dict \<Rightarrow> bool" where
  "in_recovery previous_boot status \<longleftrightarrow>
     dget status ''firmware_mode'' = jstr ''recovery'' \<and> \<not> py_eq (dget status ''boot_id'') previous_boot"

lemma script_try_status [script_rules]: "leads fewer (try_status device_id)"
  unfolding try_status_def by (intro script.rules script_rules)

function wait_recovery :: "ustr \<Rightarrow> json \<Rightarrow> dict option hub" where
  "wait_recovery device_id previous_boot w =
     sbind before_deadline (\<lambda>more w1.
     if \<not> more then sret None w1
     else sbind (try_status device_id) (\<lambda>candidate w2.
          case candidate of
            None \<Rightarrow> wait_recovery device_id previous_boot w2
          | Some s \<Rightarrow> if in_recovery previous_boot s then sret (Some s) w2
                      else wait_recovery device_id previous_boot w2) w1) w"
  by pat_completeness auto
termination
  by (relation "measure (\<lambda>(d, p, w). length (hw_replies w))")
    (auto dest!: before_deadline_consumes fewer_run [OF script_try_status])

declare wait_recovery.simps [simp del]

section \<open>System update\<close>

definition firmware_as_dict :: "firmware_image \<Rightarrow> dict" where
  "firmware_as_dict fw =
     [item ''sha256'' (jstr (fw_sha256 fw)), item ''size'' (jnat (fw_size fw)), item ''chip_id'' (jnat (fw_chip_id fw)),
      item ''project_name'' (JStr (fw_project_name fw)), item ''version'' (JStr (fw_version fw)),
      item ''elf_sha256'' (jstr (fw_elf_sha256 fw))]"

definition first_component :: "component_kind \<Rightarrow> update_bundle \<Rightarrow> component option" where
  "first_component kind b = find (\<lambda>c. sc_kind c = kind) (sb_components b)"

definition first_image :: "component_kind \<Rightarrow> update_bundle \<Rightarrow> dict option res" where
  "first_image kind b =
     (case first_component kind b of
        None \<Rightarrow> Inr None
      | Some c \<Rightarrow> bindr (inspect_firmware_image (sc_data c)) (\<lambda>fw. Inr (Some (firmware_as_dict fw))))"

definition joption :: "dict option \<Rightarrow> json" where
  "joption d = (case d of None \<Rightarrow> JNull | Some x \<Rightarrow> JDict x)"

text \<open>The device that writes: the one that answers now, or the one that comes back in Recovery.\<close>

definition writer_status :: "ustr \<Rightarrow> dict \<Rightarrow> dict hub" where
  "writer_status device_id before =
     (if dget before ''firmware_mode'' = jstr ''recovery'' then sret before
      else
        sbind (hub_progress (u ''entering_recovery'') 30 [item ''previous_boot_id'' (dget before ''boot_id'')]) (\<lambda>_.
        sbind (try_enter_recovery device_id) (\<lambda>_.
        sbind (wait_recovery device_id (dget before ''boot_id'')) (\<lambda>found.
        case found of
          None \<Rightarrow> sraise (OperationOutcomeUnknown ''factory recovery did not reconnect for system update'')
        | Some s \<Rightarrow> sret s))))"

definition update_report :: "(json \<Rightarrow> ustr) \<Rightarrow> int \<Rightarrow> dict \<Rightarrow> int hub" where
  "update_report txt last_progress d =
     sbind (slift (py_int (dget_default d ''progress_permille'' (JInt 0)))) (\<lambda>device_progress.
     if device_progress < last_progress + 10 \<and> device_progress < 950 then sret last_progress
     else
       sbind (hub_progress (txt (dget_default d ''stage'' (jstr ''transferring''))) (50 + device_progress * 800 div 1000)
                [item ''device_progress_permille'' (JInt device_progress), item ''component_id'' (dget d ''component_id''),
                 item ''component_kind'' (dget d ''component_kind''), item ''bytes_received'' (dget_default d ''bytes_received'' (JInt 0)),
                 item ''bytes_total'' (dget_default d ''bytes_total'' (JInt 0)), item ''job_id'' (dget d ''job_id'')]) (\<lambda>_.
       sret device_progress))"

definition next_event :: "dict option hub" where
  "next_event =
     scatch (sbind (ask_dict Next_event) (\<lambda>d. sret (Some d))) (\<lambda>e. if is_timeout e then sret None else sraise e)"

lemma script_next_event [script_rules]: "leads fewer next_event"
  unfolding next_event_def by (intro script.rules script_rules)

definition event_new_boot :: "json \<Rightarrow> dict \<Rightarrow> json \<Rightarrow> json" where
  "event_new_boot writer event boot =
     (let event_boot = dget event ''boot_id'' in
      if event_boot \<noteq> JNull \<and> \<not> py_eq event_boot writer then event_boot else boot)"

definition is_healthy_of :: "json \<Rightarrow> dict \<Rightarrow> bool" where
  "is_healthy_of boot event \<longleftrightarrow> dget event ''event_name'' = jstr ''healthy'' \<and> py_eq (dget event ''boot_id'') boot"

function wait_healthy :: "json \<Rightarrow> json \<Rightarrow> (json \<times> bool) hub" where
  "wait_healthy writer boot w =
     sbind before_deadline (\<lambda>more w1.
     if \<not> more then sret (boot, False) w1
     else sbind next_event (\<lambda>got w2.
          case got of
            None \<Rightarrow> wait_healthy writer boot w2
          | Some event \<Rightarrow>
              if is_healthy_of (event_new_boot writer event boot) event
              then sret (event_new_boot writer event boot, True) w2
              else wait_healthy writer (event_new_boot writer event boot) w2) w1) w"
  by pat_completeness auto
termination
  by (relation "measure (\<lambda>(p, b, w). length (hw_replies w))")
    (auto dest!: before_deadline_consumes fewer_run [OF script_next_event])

declare wait_healthy.simps [simp del]

text \<open>\<^verbatim>\<open>except (ConnectionError, OSError, KeyError)\<close> and \<^verbatim>\<open>except (ConnectionError, OSError, KeyError, LookupError)\<close>.\<close>

fun is_key_error :: "exn \<Rightarrow> bool" where
  "is_key_error (KeyError _) = True"
| "is_key_error _ = False"

fun is_lookup_error :: "exn \<Rightarrow> bool" where
  "is_lookup_error (KeyError _) = True"
| "is_lookup_error (LookupError _) = True"
| "is_lookup_error IndexError = True"
| "is_lookup_error _ = False"

definition is_lost_contact :: "exn \<Rightarrow> bool" where
  "is_lost_contact e \<longleftrightarrow> is_os_error e \<or> is_lookup_error e"

definition try_restart :: "ustr \<Rightarrow> json hub" where
  "try_restart device_id =
     scatch (hub_ask (Hub_restart device_id 250)) (\<lambda>e. if is_os_error e \<or> is_key_error e then sret JNull else sraise e)"

text \<open>The observation of the result of a write: its answer, the new boot, the last status and the inventory.\<close>

definition accept_update :: "ustr \<Rightarrow> json \<Rightarrow> json \<Rightarrow> (dict \<times> json \<times> dict \<times> dict) hub" where
  "accept_update device_id writer v =
     sbind (hub_progress (u ''waiting_device'') 875 [item ''writer_boot_id'' writer]) (\<lambda>_.
     sbind (slift (jget v ''completion_evidence'' JNull)) (\<lambda>evidence.
     sbind (if evidence \<noteq> jstr ''session_close'' then try_restart device_id else sret JNull) (\<lambda>_.
     sbind (wait_healthy writer JNull) (\<lambda>(boot, healthy).
     sbind (sraise_if (boot = JNull \<or> \<not> healthy)
              (OperationOutcomeUnknown ''system update was written but healthy acceptance was not observed'')) (\<lambda>_.
     sbind (ask_dict (Hub_status device_id)) (\<lambda>status.
     sbind (ask_dict (Hub_inventory device_id)) (\<lambda>inventory.
     sbind (ask_dict (Hub_status device_id)) (\<lambda>after.
     sbind (sraise_if (\<not> py_eq (dget status ''boot_id'') boot \<or> \<not> py_eq (dget after ''boot_id'') boot)
              (OperationOutcomeUnknown ''system update rebooted after HEALTHY; acceptance needs reconciliation'')) (\<lambda>_.
     sret (case v of JDict d \<Rightarrow> d | _ \<Rightarrow> [], boot, after, inventory))))))))))"

definition observe_update ::
  "(json \<Rightarrow> ustr) \<Rightarrow> ustr \<Rightarrow> update_bundle \<Rightarrow> bytes \<Rightarrow> json \<Rightarrow> (dict \<times> json \<times> dict \<times> dict) hub" where
  "observe_update txt device_id b wire writer =
     sbind (transfer (Hub_system_update device_id b wire) (update_report txt) (-10)) (accept_update device_id writer)"

definition guarded_update ::
  "(json \<Rightarrow> ustr) \<Rightarrow> ustr \<Rightarrow> update_bundle \<Rightarrow> bytes \<Rightarrow> json \<Rightarrow> (dict \<times> json \<times> dict \<times> dict) hub" where
  "guarded_update txt device_id b wire writer =
     sbind (hub_note (Hub_subscribe device_id)) (\<lambda>_.
     sfinally
       (scatch (observe_update txt device_id b wire writer)
          (\<lambda>e. if is_lost_contact e
                then sraise (OperationOutcomeUnknown ''system update outcome needs read-only reconciliation'') else sraise e))
       (hub_note (Hub_unsubscribe device_id)))"

text \<open>The checks of the inventory and of the running firmware after the update.\<close>

definition check_update ::
  "(json \<Rightarrow> ustr) \<Rightarrow> (ustr \<Rightarrow> ustr) \<Rightarrow> update_bundle \<Rightarrow> bytes \<Rightarrow> dict \<Rightarrow> dict \<Rightarrow> dict option \<Rightarrow> dict option \<Rightarrow> string \<Rightarrow>
   (dict option \<times> dict option) res" where
  "check_update txt lower b wire status inventory target_application target_recovery mode =
     bindr (raise_if (dget inventory ''partition_table_sha256'' \<noteq> JStr (sb_target_layout_sha256 b))
              (RuntimeError ''post-update partition-table SHA-256 does not match'')) (\<lambda>_.
     bindr (raise_if (dget inventory ''last_operation_id'' \<noteq> jstr (hex wire))
              (RuntimeError ''post-update sysmeta operation ID does not match'')) (\<lambda>_.
     bindr (py_int (dget_default inventory ''last_result'' (JInt (-1)))) (\<lambda>result.
     bindr (raise_if (result \<noteq> 0) (RuntimeError ''post-update sysmeta records a failed commit'')) (\<lambda>_.
     bindr (raise_if (case first_component BOOTLOADER b of
                        None \<Rightarrow> False
                      | Some c \<Rightarrow> dget inventory ''bootloader_sha256'' \<noteq> jstr (hex (sc_sha256 c)))
              (RuntimeError ''post-update bootloader SHA-256 does not match'')) (\<lambda>_.
     bindr (case first_component APPLICATION b of
              None \<Rightarrow> Inr None
            | Some _ \<Rightarrow> bindr (validate_ota_identity txt lower status
                               (case target_application of Some t \<Rightarrow> t | None \<Rightarrow> []) mode) (\<lambda>r. Inr (Some r))) (\<lambda>application_validation.
     bindr (case target_recovery of
              None \<Rightarrow> Inr None
            | Some t \<Rightarrow>
                bindr (raise_if (dget status ''firmware_mode'' \<noteq> jstr ''recovery'')
                         (RuntimeError ''updated Recovery did not boot in recovery mode'')) (\<lambda>_.
                bindr (validate_ota_identity txt lower status t mode) (\<lambda>r. Inr (Some r)))) (\<lambda>recovery_validation.
     Inr (application_validation, recovery_validation))))))))"

definition update_result ::
  "dict \<Rightarrow> dict \<Rightarrow> dict \<Rightarrow> dict option \<Rightarrow> dict \<Rightarrow> json \<Rightarrow> dict \<Rightarrow> dict option \<Rightarrow> dict option \<Rightarrow> dict" where
  "update_result before writing inventory_before coredump result boot inventory_after application recovery =
     dupdate result
       [item ''validated'' (JBool True), item ''healthy'' (JBool True), item ''previous_boot_id'' (dget before ''boot_id''),
        item ''writer_boot_id'' (dget writing ''boot_id''), item ''boot_id'' boot,
        item ''source_inventory'' (JDict inventory_before), item ''target_inventory'' (JDict inventory_after),
        item ''application_validation'' (joption application), item ''recovery_validation'' (joption recovery),
        item ''preserved_coredump'' (joption coredump)]"

definition run_system_update ::
  "(json \<Rightarrow> ustr) \<Rightarrow> (ustr \<Rightarrow> ustr) \<Rightarrow> ustr \<Rightarrow> update_bundle \<Rightarrow> bytes \<Rightarrow> string \<Rightarrow> rat option \<Rightarrow> json \<Rightarrow> dict hub" where
  "run_system_update txt lower device_id b wire mode override compatibility =
     sbind (ask_dict (Hub_status device_id)) (\<lambda>before.
     sbind (slift (validate_update_compatibility before (JInt (sb_chip_id b)) compatibility False)) (\<lambda>contract.
     sbind (slift (health_timeout before override)) (\<lambda>timeout.
     sbind (preserve_coredump device_id) (\<lambda>coredump.
     sbind (case coredump of
              None \<Rightarrow> sret ()
            | Some d \<Rightarrow> hub_progress (u ''preserving_evidence'') 20 [item ''coredump'' (JDict d)]) (\<lambda>_.
     sbind (writer_status device_id before) (\<lambda>writing.
     sbind (slift (validate_update_compatibility writing (JInt (sb_chip_id b)) (JDict contract) True)) (\<lambda>_.
     sbind (ask_dict (Hub_inventory device_id)) (\<lambda>inventory_before.
     sbind (slift (first_image APPLICATION b)) (\<lambda>target_application.
     sbind (slift (first_image RECOVERY b)) (\<lambda>target_recovery.
     sbind (sraise_if (target_recovery \<noteq> None
              \<and> dget inventory_before ''partition_table_sha256'' \<noteq> JStr (sb_target_layout_sha256 b))
              (RuntimeError ''Recovery self-update source layout does not match the bundle'')) (\<lambda>_.
     sbind (hub_progress (u ''validating_plan'') 50
              [item ''source_inventory'' (JDict inventory_before), item ''writer_boot_id'' (dget writing ''boot_id''),
               item ''target_application'' (joption target_application), item ''target_recovery'' (joption target_recovery)]) (\<lambda>_.
     sbind (guarded_update txt device_id b wire (dget writing ''boot_id'')) (\<lambda>(result, boot, status, inventory_after).
     sbind (slift (check_update txt lower b wire status inventory_after target_application target_recovery mode)) (\<lambda>(application, recovery).
     sret (update_result before writing inventory_before coredump result boot inventory_after application recovery)))))))))))))))"

section \<open>OTA update\<close>

definition ota_report :: "(json \<Rightarrow> ustr) \<Rightarrow> bool \<Rightarrow> bytes \<Rightarrow> int \<Rightarrow> dict \<Rightarrow> int hub" where
  "ota_report txt recovery img last_progress d =
     sbind (slift (py_int (dget_default d ''progress_permille'' (JInt 0)))) (\<lambda>device_progress.
     let stage_text = txt (dget_default d ''stage'' (jstr ''transferring'')) in
     if stage_text = u ''transferring'' \<and> device_progress < 900 \<and> device_progress < last_progress + 10
     then sret last_progress
     else
       sbind (hub_progress stage_text
                (if recovery then 100 + device_progress * 750 div 1000 else device_progress * 850 div 1000)
                [item ''device_progress_permille'' (JInt device_progress), item ''job_id'' (dget d ''job_id''),
                 item ''bytes_received'' (dget_default d ''bytes_received'' (JInt 0)),
                 item ''bytes_total'' (dget_default d ''bytes_total'' (jnat (length img))),
                 item ''partition'' (dget_default d ''partition'' (jstr ''''))]) (\<lambda>_.
       sret device_progress))"

text \<open>The writer of an OTA update, and its boot if it came back in Recovery.\<close>

definition ota_writer :: "ustr \<Rightarrow> bool \<Rightarrow> dict \<Rightarrow> (dict \<times> json) hub" where
  "ota_writer device_id recovery before =
     (if recovery \<and> dget before ''firmware_mode'' \<noteq> jstr ''recovery'' then
        let previous_boot = dget before ''boot_id'' in
        sbind (hub_progress (u ''entering_recovery'') 25 [item ''previous_boot_id'' previous_boot]) (\<lambda>_.
        sbind (try_enter_recovery device_id) (\<lambda>_.
        sbind (hub_progress (u ''waiting_recovery'') 50 [item ''previous_boot_id'' previous_boot]) (\<lambda>_.
        sbind (wait_recovery device_id previous_boot) (\<lambda>found.
        let recovery_boot = (case found of Some s \<Rightarrow> dget s ''boot_id'' | None \<Rightarrow> JNull) in
        sbind (sraise_if (recovery_boot = JNull)
                 (OperationOutcomeUnknown ''factory recovery restart was accepted but recovery did not reconnect within 30 seconds'')) (\<lambda>_.
        sbind (hub_progress (u ''recovery_connected'') 75 [item ''recovery_boot_id'' recovery_boot]) (\<lambda>_.
        sret (case found of Some s \<Rightarrow> s | None \<Rightarrow> [], recovery_boot)))))))
      else sret (before, JNull))"

text \<open>The loop that accepts a healthy event only with a status of the same boot.\<close>

function wait_accepted :: "ustr \<Rightarrow> json \<Rightarrow> json \<Rightarrow> (json \<times> dict option) hub" where
  "wait_accepted device_id writer boot w =
     sbind before_deadline (\<lambda>more w1.
     if \<not> more then sret (boot, None) w1
     else sbind next_event (\<lambda>got w2.
          case got of
            None \<Rightarrow> wait_accepted device_id writer boot w2
          | Some event \<Rightarrow>
              if is_healthy_of (event_new_boot writer event boot) event
              then sbind (ask_dict (Hub_status device_id)) (\<lambda>candidate w3.
                     if py_eq (dget candidate ''boot_id'') (event_new_boot writer event boot)
                     then sret (event_new_boot writer event boot, Some candidate) w3
                     else wait_accepted device_id writer (event_new_boot writer candidate (event_new_boot writer event boot)) w3) w2
              else wait_accepted device_id writer (event_new_boot writer event boot) w2) w1) w"
  by pat_completeness auto
termination
  by (relation "measure (\<lambda>(d, p, b, w). length (hw_replies w))")
    (auto dest!: before_deadline_consumes fewer_run [OF script_next_event] fewer_run [OF script_asks(1)])

declare wait_accepted.simps [simp del]

text \<open>A result the writer itself reports as healthy.\<close>

definition accept_result ::
  "(json \<Rightarrow> ustr) \<Rightarrow> (ustr \<Rightarrow> ustr) \<Rightarrow> ustr \<Rightarrow> dict \<Rightarrow> string \<Rightarrow> string \<Rightarrow> json \<Rightarrow> json \<Rightarrow> dict \<Rightarrow> dict hub" where
  "accept_result txt lower device_id metadata execution_mode mode writer recovery_boot result =
     sbind (ask_dict (Hub_status device_id)) (\<lambda>status.
     sbind (sraise_if (dget status ''boot_id'' = JNull \<or> py_eq (dget status ''boot_id'') writer)
              (OperationOutcomeUnknown ''OTA HEALTHY result has no confirmed new boot'')) (\<lambda>_.
     sbind (sraise_if (dget result ''boot_id'' \<noteq> JNull \<and> \<not> py_eq (dget result ''boot_id'') (dget status ''boot_id''))
              (OperationOutcomeUnknown ''OTA boot changed after HEALTHY result'')) (\<lambda>_.
     sbind (slift (validate_ota_identity txt lower status metadata mode)) (\<lambda>validation.
     sret (dupdate result
       [item ''validated_image'' (JDict metadata), item ''execution_mode'' (jstr execution_mode),
        item ''validation'' (JDict validation), item ''recovery_boot_id'' recovery_boot])))))"

definition observe_ota_restart ::
  "(json \<Rightarrow> ustr) \<Rightarrow> (ustr \<Rightarrow> ustr) \<Rightarrow> ustr \<Rightarrow> dict \<Rightarrow> string \<Rightarrow> string \<Rightarrow> json \<Rightarrow> json \<Rightarrow> json \<Rightarrow> dict \<Rightarrow> dict hub" where
  "observe_ota_restart txt lower device_id metadata execution_mode mode previous_boot writer recovery_boot result =
     sbind (if dget result ''completion_evidence'' = jstr ''session_close'' then sret JNull else try_restart device_id) (\<lambda>delay.
     sbind (hub_progress (u ''reconnecting'') 925 [item ''writer_boot_id'' writer]) (\<lambda>_.
     sbind (wait_accepted device_id writer JNull) (\<lambda>(boot, reconnected).
     case reconnected of
       None \<Rightarrow> sraise (OperationOutcomeUnknown ''OTA was written, but the final reconnect/healthy acceptance was not observed'')
     | Some status \<Rightarrow>
         sbind (sraise_if (boot = JNull)
                  (OperationOutcomeUnknown ''OTA was written, but the final reconnect/healthy acceptance was not observed'')) (\<lambda>_.
         sbind (slift (validate_ota_identity txt lower status metadata mode)) (\<lambda>validation.
         sret (dupdate result
           [item ''validated_image'' (JDict metadata), item ''execution_mode'' (jstr execution_mode),
            item ''validation'' (JDict validation), item ''planned_restart_ms'' delay, item ''previous_boot_id'' previous_boot,
            item ''recovery_boot_id'' recovery_boot, item ''boot_id'' boot, item ''healthy'' (JBool True)]))))))"

definition write_ota ::
  "(json \<Rightarrow> ustr) \<Rightarrow> (ustr \<Rightarrow> ustr) \<Rightarrow> bool \<Rightarrow> ustr \<Rightarrow> bytes \<Rightarrow> dict \<Rightarrow> string \<Rightarrow> string \<Rightarrow> json \<Rightarrow> json \<Rightarrow> json \<Rightarrow> dict hub" where
  "write_ota txt lower demo device_id img metadata execution_mode mode previous_boot writer recovery_boot =
     sbind (hub_progress (u ''preparing_ota'') (if execution_mode = ''recovery'' then 90 else 0) [item ''writer_boot_id'' writer]) (\<lambda>_.
     sbind (slift (bindr (dindex metadata ''sha256'') salt_of)) (\<lambda>expected_sha256.
     sbind (slift (dindex metadata ''project_name'')) (\<lambda>project_name.
     sbind (slift (dindex metadata ''version'')) (\<lambda>version.
     sbind (transfer (Hub_ota_update device_id img expected_sha256 project_name version)
              (ota_report txt (execution_mode = ''recovery'') img) (-10)) (\<lambda>v.
     sbind (slift (case v of JDict d \<Rightarrow> Inr d | _ \<Rightarrow> Inl AttributeError)) (\<lambda>result.
     sbind (hub_progress (u ''waiting_device'') 900 [item ''job_id'' (dget result ''job_id'')]) (\<lambda>_.
     if truthy (dget result ''healthy'')
     then accept_result txt lower device_id metadata execution_mode mode writer recovery_boot result
     else
       sbind (sraise_if demo AssertionError) (\<lambda>_.
       observe_ota_restart txt lower device_id metadata execution_mode mode previous_boot writer recovery_boot result))))))))"

definition guarded_ota ::
  "(json \<Rightarrow> ustr) \<Rightarrow> (ustr \<Rightarrow> ustr) \<Rightarrow> bool \<Rightarrow> ustr \<Rightarrow> bytes \<Rightarrow> dict \<Rightarrow> string \<Rightarrow> string \<Rightarrow> json \<Rightarrow> json \<Rightarrow> json \<Rightarrow> dict hub" where
  "guarded_ota txt lower demo device_id img metadata execution_mode mode previous_boot writer recovery_boot =
     sbind (if demo then sret () else hub_note (Hub_subscribe device_id)) (\<lambda>_.
     sfinally
       (scatch (write_ota txt lower demo device_id img metadata execution_mode mode previous_boot writer recovery_boot)
          (\<lambda>e. if is_lost_contact e
                then sraise (OperationOutcomeUnknown
                       ''OTA write or post-write observation lost contact; reconcile before another write'')
                else sraise e))
       (if demo then sret () else hub_note (Hub_unsubscribe device_id)))"

definition closed_loop_ota ::
  "(json \<Rightarrow> ustr) \<Rightarrow> (ustr \<Rightarrow> ustr) \<Rightarrow> bool \<Rightarrow> rat option \<Rightarrow> ustr \<Rightarrow> bytes \<Rightarrow> dict \<Rightarrow> string \<Rightarrow> string \<Rightarrow> json \<Rightarrow> dict hub" where
  "closed_loop_ota txt lower demo override device_id img metadata execution_mode mode compatibility =
     sbind (sraise_if (execution_mode \<notin> {''recovery'', ''application''})
              (ValueError ''OTA execution mode must be recovery or application'')) (\<lambda>_.
     sbind (slift (require_ota_validation_mode mode)) (\<lambda>_.
     sbind (ask_dict (Hub_status device_id)) (\<lambda>before.
     sbind (slift (validate_update_compatibility before (dget metadata ''chip_id'') compatibility False)) (\<lambda>contract.
     sbind (slift (health_timeout before override)) (\<lambda>timeout.
     sbind (if truthy (dget_default before ''ota_project_name_match_required'' (JBool False))
               \<and> truthy (dget before ''project_name'')
            then sbind (slift (dindex metadata ''project_name'')) (\<lambda>project.
                 sraise_if (\<not> py_eq (dget before ''project_name'') project)
                   (ValueError ''firmware project does not match device project''))
            else sret ()) (\<lambda>_.
     sbind (ota_writer device_id (execution_mode = ''recovery'') before) (\<lambda>(writing, recovery_boot).
     sbind (slift (validate_update_compatibility writing (dget metadata ''chip_id'') (JDict contract) (execution_mode = ''recovery''))) (\<lambda>_.
     let previous_boot = dget before ''boot_id'';
         writer = (if recovery_boot \<noteq> JNull then recovery_boot else previous_boot) in
     guarded_ota txt lower demo device_id img metadata execution_mode mode previous_boot writer recovery_boot))))))))"

section \<open>The gateway's system update\<close>

definition closed_loop_system_update ::
  "(json \<Rightarrow> ustr) \<Rightarrow> (ustr \<Rightarrow> ustr) \<Rightarrow> rat option \<Rightarrow> ustr \<Rightarrow> update_bundle \<Rightarrow> bytes \<Rightarrow> json \<Rightarrow> dict hub" where
  "closed_loop_system_update txt lower override device_id b wire compatibility =
     run_system_update txt lower device_id b wire DEFAULT_OTA_VALIDATION_MODE override compatibility"

section \<open>Restart\<close>

definition is_rebooted :: "json \<Rightarrow> dict \<Rightarrow> bool" where
  "is_rebooted previous_boot event \<longleftrightarrow>
     dget event ''kind'' = jstr ''connection'' \<and> dget event ''connection_state'' = jstr ''rebooted''
     \<and> dget event ''boot_id'' \<noteq> JNull \<and> \<not> py_eq (dget event ''boot_id'') previous_boot"

function wait_rebooted :: "json \<Rightarrow> dict option hub" where
  "wait_rebooted previous_boot w =
     sbind before_deadline (\<lambda>more w1.
     if \<not> more then sret None w1
     else sbind next_event (\<lambda>got w2.
          case got of
            None \<Rightarrow> wait_rebooted previous_boot w2
          | Some event \<Rightarrow> if is_rebooted previous_boot event then sret (Some event) w2
                          else wait_rebooted previous_boot w2) w1) w"
  by pat_completeness auto
termination
  by (relation "measure (\<lambda>(p, w). length (hw_replies w))")
    (auto dest!: before_deadline_consumes fewer_run [OF script_next_event])

declare wait_rebooted.simps [simp del]

definition closed_loop_restart :: "bool \<Rightarrow> ustr \<Rightarrow> int \<Rightarrow> dict hub" where
  "closed_loop_restart demo device_id delay_ms =
     sbind (ask_dict (Hub_status device_id)) (\<lambda>before.
     let previous_boot = dget before ''boot_id'' in
     if demo then
       sbind (hub_ask (Hub_restart device_id delay_ms)) (\<lambda>accepted_delay.
       sbind (hub_ask (Op_stage (u ''reconnecting''))) (\<lambda>_.
       sbind (ask_dict (Hub_status device_id)) (\<lambda>after.
       sret [item ''accepted'' (JBool True), item ''delay_ms'' accepted_delay, item ''previous_boot_id'' previous_boot,
             item ''boot_id'' (dget after ''boot_id''),
             item ''reconnected'' (JBool (\<not> py_eq (dget after ''boot_id'') previous_boot)), item ''demo'' (JBool True)])))
     else
       sbind (hub_note (Hub_subscribe device_id)) (\<lambda>_.
       sfinally
         (sbind (hub_ask (Hub_restart device_id delay_ms)) (\<lambda>accepted_delay.
          sbind (hub_ask (Op_stage (u ''reconnecting''))) (\<lambda>_.
          sbind (wait_rebooted previous_boot) (\<lambda>found.
          case found of
            None \<Rightarrow> sraise (OperationOutcomeUnknown
                      ''restart was accepted but same-device reconnect was not observed within 30 seconds'')
          | Some event \<Rightarrow>
              sbind (ask_dict (Hub_status device_id)) (\<lambda>status.
              sret [item ''accepted'' (JBool True), item ''delay_ms'' accepted_delay, item ''previous_boot_id'' previous_boot,
                    item ''boot_id'' (dget event ''boot_id''), item ''reconnected'' (JBool True),
                    item ''app_version'' (dget status ''app_version'')])))))
         (hub_note (Hub_unsubscribe device_id))))"

end
