(* ===== verification/Closed_Loop_Claims.thy ===== *)
theory Closed_Loop_Claims
  imports Closed_Loops
begin

text \<open>
  What the closed loops guarantee: no firmware is written before the device that writes it has passed the compatibility
  check, an exception that means lost contact leaves a workflow only while nothing was written, and a returned result
  rests on a healthy event, a status and an inventory of the new boot.
\<close>

section \<open>Calls before and after the write\<close>

fun quiet_call :: "hub_call \<Rightarrow> bool" where
  "quiet_call (Hub_system_update d b wire) = False"
| "quiet_call (Hub_ota_update d img sha project version) = False"
| "quiet_call _ = True"

definition quiet_log :: "(hub_call \<times> json res) list \<Rightarrow> bool" where
  "quiet_log l \<longleftrightarrow> list_all (\<lambda>e. quiet_call (fst e)) l"

lemma quiet_log_simps [simp]:
  "quiet_log []" "quiet_log (e # l) \<longleftrightarrow> quiet_call (fst e) \<and> quiet_log l" "quiet_log (l @ l') \<longleftrightarrow> quiet_log l \<and> quiet_log l'"
  by (simp_all add: quiet_log_def)

definition grows :: "hub_world \<Rightarrow> hub_world \<Rightarrow> bool" where
  "grows w v \<longleftrightarrow> (\<exists>l. hw_log v = hw_log w @ l \<and> quiet_log l)"

interpretation quiet: evolution grows
proof
  show "grows w w" for w unfolding grows_def by (rule exI [of _ "[]"]) simp
  show "grows w v \<Longrightarrow> grows v x \<Longrightarrow> grows w x" for w v x
    unfolding grows_def by (metis append.assoc quiet_log_simps(3))
qed

named_theorems quiet_rules \<open>calls that write no firmware\<close>

lemma quiet_ask [quiet_rules]: "quiet_call c \<Longrightarrow> leads grows (hub_ask c)"
  by (auto simp: leads_def grows_def hub_ask_def split: list.split)

lemma quiet_note [quiet_rules]: "quiet_call c \<Longrightarrow> leads grows (hub_note c)"
  unfolding hub_note_def by (rule quiet.change) (simp add: grows_def)

lemma quiet_json_case [quiet_rules]:
  "(\<And>d. leads grows (f d)) \<Longrightarrow> leads grows g \<Longrightarrow> leads grows (case v of JDict d \<Rightarrow> f d | _ \<Rightarrow> g)"
  by (cases v) auto

lemma quiet_asks [quiet_rules]:
  "quiet_call c \<Longrightarrow> leads grows (ask_dict c)" "leads grows before_deadline" "leads grows (hub_progress name permille extra)"
  unfolding ask_dict_def before_deadline_def hub_progress_def
  by (intro quiet.rules quiet_rules; simp)+

lemma quiet_tries [quiet_rules]:
  "leads grows (try_enter_recovery d)" "leads grows (try_status d)" "leads grows next_event" "leads grows (try_restart d)"
  "leads grows (update_report txt k p)" "leads grows (ota_report txt r img k p)"
  unfolding try_enter_recovery_def try_status_def next_event_def try_restart_def update_report_def ota_report_def Let_def
  by (intro quiet.rules quiet_rules; simp)+

section \<open>What a run has seen\<close>

text \<open>\<open>seen w0 v S\<close>: since \<open>w0\<close> nothing was written, and the calls of \<open>S\<close> were answered so.\<close>

definition seen :: "hub_world \<Rightarrow> hub_world \<Rightarrow> (hub_call \<times> json res) set \<Rightarrow> bool" where
  "seen w0 v S \<longleftrightarrow> (\<exists>l. hw_log v = hw_log w0 @ l \<and> quiet_log l \<and> S \<subseteq> set l)"

lemma seen_refl [simp]: "seen w w {}"
  by (simp add: seen_def)

lemma seen_grows: "seen w0 w S \<Longrightarrow> grows w v \<Longrightarrow> seen w0 v S"
  unfolding seen_def grows_def by (metis append.assoc le_supI1 quiet_log_simps(3) set_append)

lemma seen_weaken: "seen w0 v S \<Longrightarrow> T \<subseteq> S \<Longrightarrow> seen w0 v T"
  unfolding seen_def by blast

lemma seen_answer:
  "seen w0 w S \<Longrightarrow> quiet_call c \<Longrightarrow> hw_log v = hw_log w @ [(c, a)] \<Longrightarrow> seen w0 v (insert (c, a) S)"
  unfolding seen_def by auto

lemma wp_quiet:
  assumes "leads grows m" and "seen w0 w S" and "\<And>x v. seen w0 v S \<Longrightarrow> Q x v" and "\<And>e v. seen w0 v S \<Longrightarrow> E e v"
  shows "wp m Q E w"
proof -
  obtain r v where m: "m w = (r, v)" by fastforce
  then have "seen w0 v S" using assms(1,2) leads_run seen_grows by metis
  with m assms(3,4) show ?thesis by (cases r) (simp_all add: wp_def)
qed

lemma wp_ask_dict:
  assumes "quiet_call c" and "seen w0 w S"
    and "\<And>d v. seen w0 v (insert (c, Inr (JDict d)) S) \<Longrightarrow> Q d v" and "\<And>e v. seen w0 v S \<Longrightarrow> E e v"
  shows "wp (ask_dict c) Q E w"
proof -
  obtain r v where run: "ask_dict c w = (r, v)" by fastforce
  show ?thesis
  proof (cases r)
    case (Inl e)
    have "seen w0 v S" using run quiet_asks(1) [OF assms(1)] assms(2) leads_run seen_grows by metis
    with run Inl assms(4) show ?thesis by (simp add: wp_def)
  next
    case (Inr d)
    with run have "hw_log v = hw_log w @ [(c, Inr (JDict d))]"
      by (auto simp: ask_dict_def hub_ask_def st_run split: list.splits json.splits sum.splits)
    with assms(1,2) have "seen w0 v (insert (c, Inr (JDict d)) S)" by (intro seen_answer)
    with run Inr assms(3) show ?thesis by (simp add: wp_def)
  qed
qed

lemma wp_branches [wp_simps]:
  "wp (\<lambda>w. if c then m w else n w) Q E = (if c then wp m Q E else wp n Q E)"
  "wp (\<lambda>w. case z of None \<Rightarrow> m w | Some y \<Rightarrow> f y w) Q E = (case z of None \<Rightarrow> wp m Q E | Some y \<Rightarrow> wp (f y) Q E)"
  by (auto simp: fun_eq_iff wp_def split: option.split)

section \<open>The loops\<close>

text \<open>Inside a round of a loop fewer than \<open>n\<close> answers are left.\<close>

definition in_round :: "hub_world \<Rightarrow> nat \<Rightarrow> (hub_call \<times> json res) set \<Rightarrow> hub_world \<Rightarrow> bool" where
  "in_round w0 n S v \<longleftrightarrow> seen w0 v S \<and> length (hw_replies v) < n"

lemma wp_deadline:
  assumes "seen w0 w S" and "\<And>b v. in_round w0 (length (hw_replies w)) S v \<Longrightarrow> Q b v" and "\<And>e v. seen w0 v S \<Longrightarrow> E e v"
  shows "wp before_deadline Q E w"
proof -
  obtain r v where run: "before_deadline w = (r, v)" by fastforce
  then have "seen w0 v S" using quiet_asks(2) assms(1) leads_run seen_grows by metis
  with run assms(2,3) before_deadline_consumes show ?thesis
    by (cases r) (auto simp: wp_def in_round_def)
qed

lemma wp_try_dict:
  assumes "quiet_call c" and "in_round w0 n S w"
    and "\<And>v. in_round w0 n S v \<Longrightarrow> Q None v" and "\<And>d v. in_round w0 n (insert (c, Inr (JDict d)) S) v \<Longrightarrow> Q (Some d) v"
    and "\<And>e v. seen w0 v S \<Longrightarrow> E e v"
  shows "wp (scatch (sbind (ask_dict c) (\<lambda>d. sret (Some d))) (\<lambda>e. if h e then sret None else sraise e)) Q E w"
proof -
  have "wp (ask_dict c) (\<lambda>d v. in_round w0 n (insert (c, Inr (JDict d)) S) v) (\<lambda>e v. in_round w0 n S v) w"
  proof -
    have "wp (ask_dict c) (\<lambda>d v. seen w0 v (insert (c, Inr (JDict d)) S)) (\<lambda>e v. seen w0 v S) w"
      by (rule wp_ask_dict) (use assms(1,2) in \<open>auto simp: in_round_def\<close>)
    moreover have "wp (ask_dict c) (\<lambda>_. fewer w) (\<lambda>_. fewer w) w" by (rule leadsD) (rule script_asks(1))
    ultimately show ?thesis
      by (rule wp_mono [OF wp_conj]) (use assms(2) in \<open>auto simp: in_round_def fewer_def\<close>)
  qed
  then show ?thesis
    unfolding wp_simps
    by (rule wp_mono) (use assms(3,4,5) in \<open>auto simp: in_round_def intro: seen_weaken\<close>)
qed

lemmas wp_try_status = wp_try_dict [where c = "Hub_status d" and h = is_observation_error for d, folded try_status_def]
lemmas wp_next_event = wp_try_dict [where c = Next_event and h = is_timeout, folded next_event_def]

lemma wait_recovery_wp:
  assumes "seen w0 w S"
  shows "wp (wait_recovery d p)
    (\<lambda>x v. case x of None \<Rightarrow> seen w0 v S | Some s \<Rightarrow> in_recovery p s \<and> seen w0 v (insert (Hub_status d, Inr (JDict s)) S))
    (\<lambda>e v. seen w0 v S) w"
    (is "wp _ ?Q ?E w")
  using assms
proof (induction w rule: measure_induct_rule [of "\<lambda>w. length (hw_replies w)"])
  case (less w)
  let ?next = "\<lambda>candidate w2. case candidate of None \<Rightarrow> wait_recovery d p w2
     | Some s \<Rightarrow> if in_recovery p s then sret (Some s) w2 else wait_recovery d p w2"
  have again: "wp (wait_recovery d p) ?Q ?E v" if "in_round w0 (length (hw_replies w)) T v" "S \<subseteq> T" for v T
    using that unfolding in_round_def by (intro less.IH) (auto intro: seen_weaken)
  have "wp (sbind before_deadline (\<lambda>more w1. if \<not> more then sret None w1 else sbind (try_status d) ?next w1)) ?Q ?E w"
    unfolding wp_sbind
  proof (rule wp_deadline [OF less.prems])
    fix more v assume v: "in_round w0 (length (hw_replies w)) S v"
    have "wp (try_status d) (\<lambda>x. wp (?next x) ?Q ?E) ?E v"
    proof (rule wp_try_status [OF _ v])
      show "wp (?next None) ?Q ?E v'" if "in_round w0 (length (hw_replies w)) S v'" for v'
        using again [OF that] by simp
      show "wp (?next (Some s)) ?Q ?E v'"
        if "in_round w0 (length (hw_replies w)) (insert (Hub_status d, Inr (JDict s)) S) v'" for s v'
        using again [OF that] that by (auto simp: wp_simps in_round_def)
    qed simp_all
    with v show "wp (\<lambda>w1. if \<not> more then sret None w1 else sbind (try_status d) ?next w1) ?Q ?E v"
      by (simp add: wp_simps in_round_def)
  qed
  then show ?case by (simp add: wp_def wait_recovery.simps [of d p w])
qed

text \<open>The event loop: what it accepts is a healthy event of a boot other than the writer's.\<close>

definition other_boot :: "json \<Rightarrow> json \<Rightarrow> bool" where
  "other_boot writer boot \<longleftrightarrow> boot = JNull \<or> \<not> py_eq boot writer"

lemma event_new_boot_other: "other_boot writer boot \<Longrightarrow> other_boot writer (event_new_boot writer event boot)"
  by (auto simp: other_boot_def event_new_boot_def Let_def)

definition saw_healthy :: "hub_world \<Rightarrow> hub_world \<Rightarrow> (hub_call \<times> json res) set \<Rightarrow> json \<Rightarrow> json \<Rightarrow> bool" where
  "saw_healthy w0 v S writer boot \<longleftrightarrow> other_boot writer boot \<and>
     (\<exists>event. is_healthy_of boot event \<and> seen w0 v (insert (Next_event, Inr (JDict event)) S))"

lemma wait_healthy_wp:
  assumes "seen w0 w S" and "other_boot writer boot"
  shows "wp (wait_healthy writer boot)
    (\<lambda>x v. if snd x then saw_healthy w0 v S writer (fst x) else seen w0 v S) (\<lambda>e v. seen w0 v S) w"
    (is "wp _ ?Q ?E w")
  using assms
proof (induction w arbitrary: boot rule: measure_induct_rule [of "\<lambda>w. length (hw_replies w)"])
  case (less w)
  let ?b = "\<lambda>event. event_new_boot writer event boot"
  let ?next = "\<lambda>got w2. case got of None \<Rightarrow> wait_healthy writer boot w2
     | Some event \<Rightarrow> if is_healthy_of (?b event) event then sret (?b event, True) w2 else wait_healthy writer (?b event) w2"
  have again: "wp (wait_healthy writer boot') ?Q ?E v"
    if "in_round w0 (length (hw_replies w)) T v" "S \<subseteq> T" "other_boot writer boot'" for v T boot'
    using that unfolding in_round_def by (intro less.IH) (auto intro: seen_weaken)
  have "wp (sbind before_deadline (\<lambda>more w1. if \<not> more then sret (boot, False) w1 else sbind next_event ?next w1)) ?Q ?E w"
    unfolding wp_sbind
  proof (rule wp_deadline [OF less.prems(1)])
    fix more v assume v: "in_round w0 (length (hw_replies w)) S v"
    have "wp next_event (\<lambda>x. wp (?next x) ?Q ?E) ?E v"
    proof (rule wp_next_event [OF _ v])
      show "wp (?next None) ?Q ?E v'" if "in_round w0 (length (hw_replies w)) S v'" for v'
        using again [OF that] less.prems(2) by simp
      show "wp (?next (Some event)) ?Q ?E v'"
        if "in_round w0 (length (hw_replies w)) (insert (Next_event, Inr (JDict event)) S) v'" for event v'
      proof (cases "is_healthy_of (?b event) event")
        case True
        with that event_new_boot_other [OF less.prems(2)] show ?thesis
          by (auto simp: wp_simps in_round_def saw_healthy_def)
      next
        case False
        have "wp (wait_healthy writer (?b event)) ?Q ?E v'"
          by (rule again [OF that]) (auto intro: event_new_boot_other less.prems(2))
        with False show ?thesis unfolding wp_simps by simp
      qed
    qed simp_all
    with v show "wp (\<lambda>w1. if \<not> more then sret (boot, False) w1 else sbind next_event ?next w1) ?Q ?E v"
      by (simp add: wp_simps in_round_def)
  qed simp
  then show ?case by (simp add: wp_def wait_healthy.simps [of writer boot w])
qed

lemma wp_ask_round:
  assumes "quiet_call c" and "in_round w0 n S w"
    and "\<And>d v. in_round w0 n (insert (c, Inr (JDict d)) S) v \<Longrightarrow> Q d v" and "\<And>e v. seen w0 v S \<Longrightarrow> E e v"
  shows "wp (ask_dict c) Q E w"
proof -
  have "wp (ask_dict c) (\<lambda>d v. seen w0 v (insert (c, Inr (JDict d)) S)) (\<lambda>e v. seen w0 v S) w"
    by (rule wp_ask_dict) (use assms(1,2) in \<open>auto simp: in_round_def\<close>)
  moreover have "wp (ask_dict c) (\<lambda>_. fewer w) (\<lambda>_. fewer w) w" by (rule leadsD) (rule script_asks(1))
  ultimately show ?thesis
    by (rule wp_mono [OF wp_conj]) (use assms(2-4) in \<open>auto simp: in_round_def fewer_def\<close>)
qed

definition saw_accepted :: "hub_world \<Rightarrow> hub_world \<Rightarrow> (hub_call \<times> json res) set \<Rightarrow> ustr \<Rightarrow> json \<Rightarrow> json \<Rightarrow> dict \<Rightarrow> bool" where
  "saw_accepted w0 v S d writer boot status \<longleftrightarrow> other_boot writer boot \<and> py_eq (dget status ''boot_id'') boot \<and>
     (\<exists>event. is_healthy_of boot event \<and>
        seen w0 v (insert (Hub_status d, Inr (JDict status)) (insert (Next_event, Inr (JDict event)) S)))"

lemma wait_accepted_wp:
  assumes "seen w0 w S" and "other_boot writer boot"
  shows "wp (wait_accepted d writer boot)
    (\<lambda>x v. case snd x of Some status \<Rightarrow> saw_accepted w0 v S d writer (fst x) status | None \<Rightarrow> seen w0 v S) (\<lambda>e v. seen w0 v S) w"
    (is "wp _ ?Q ?E w")
  using assms
proof (induction w arbitrary: boot rule: measure_induct_rule [of "\<lambda>w. length (hw_replies w)"])
  case (less w)
  let ?n = "length (hw_replies w)"
  let ?b = "\<lambda>event. event_new_boot writer event boot"
  let ?check = "\<lambda>event candidate w3. if py_eq (dget candidate ''boot_id'') (?b event) then sret (?b event, Some candidate) w3
     else wait_accepted d writer (event_new_boot writer candidate (?b event)) w3"
  let ?next = "\<lambda>got w2. case got of None \<Rightarrow> wait_accepted d writer boot w2
     | Some event \<Rightarrow> if is_healthy_of (?b event) event then sbind (ask_dict (Hub_status d)) (?check event) w2
                     else wait_accepted d writer (?b event) w2"
  have again: "wp (wait_accepted d writer boot') ?Q ?E v"
    if "in_round w0 ?n T v" "S \<subseteq> T" "other_boot writer boot'" for v T boot'
    using that unfolding in_round_def by (intro less.IH) (auto intro: seen_weaken)
  have other: "other_boot writer (?b event)" for event by (rule event_new_boot_other [OF less.prems(2)])
  have check: "wp (?check event candidate) ?Q ?E v"
    if "is_healthy_of (?b event) event"
      "in_round w0 ?n (insert (Hub_status d, Inr (JDict candidate)) (insert (Next_event, Inr (JDict event)) S)) v" for event candidate v
  proof (cases "py_eq (dget candidate ''boot_id'') (?b event)")
    case True
    with that other show ?thesis by (auto simp: wp_simps in_round_def saw_accepted_def)
  next
    case False
    have "wp (wait_accepted d writer (event_new_boot writer candidate (?b event))) ?Q ?E v"
      by (rule again [OF that(2)]) (auto intro: event_new_boot_other less.prems(2))
    with False show ?thesis unfolding wp_simps by simp
  qed
  have "wp (sbind before_deadline (\<lambda>more w1. if \<not> more then sret (boot, None) w1 else sbind next_event ?next w1)) ?Q ?E w"
    unfolding wp_sbind
  proof (rule wp_deadline [OF less.prems(1)])
    fix more v assume v: "in_round w0 ?n S v"
    have "wp next_event (\<lambda>x. wp (?next x) ?Q ?E) ?E v"
    proof (rule wp_next_event [OF _ v])
      show "wp (?next None) ?Q ?E v'" if "in_round w0 ?n S v'" for v'
        using again [OF that] less.prems(2) by simp
      show "wp (?next (Some event)) ?Q ?E v'" if v': "in_round w0 ?n (insert (Next_event, Inr (JDict event)) S) v'" for event v'
      proof (cases "is_healthy_of (?b event) event")
        case True
        have "wp (sbind (ask_dict (Hub_status d)) (?check event)) ?Q ?E v'"
          unfolding wp_sbind by (rule wp_ask_round [OF _ v']) (auto intro: check [OF True] seen_weaken)
        with True show ?thesis by (simp add: wp_branches)
      next
        case False
        have "wp (wait_accepted d writer (?b event)) ?Q ?E v'" by (rule again [OF v']) (auto intro: other)
        with False show ?thesis unfolding wp_simps by simp
      qed
    qed simp_all
    with v show "wp (\<lambda>w1. if \<not> more then sret (boot, None) w1 else sbind next_event ?next w1) ?Q ?E v"
      by (simp add: wp_simps in_round_def)
  qed simp
  then show ?case by (simp add: wp_def wait_accepted.simps [of d writer boot w])
qed

section \<open>The write\<close>

text \<open>A transfer reports quietly and ends with the one call, unless an exception or the end of the script comes first.\<close>

lemma transfer_loop_wp:
  assumes "\<And>k p. leads grows (report k p)" and "seen w0 w S"
    and "\<And>x v v'. seen w0 v S \<Longrightarrow> hw_log v' = hw_log v @ [(c, Inr x)] \<Longrightarrow> Q x v'"
    and "\<And>e v v'. seen w0 v S \<Longrightarrow> hw_log v' = hw_log v @ [(c, Inl e)] \<Longrightarrow> E e v'"
    and "\<And>e v. seen w0 v S \<Longrightarrow> E e v"
  shows "wp (transfer_loop c report n k) Q E w"
  using assms(2)
proof (induction n arbitrary: k w)
  case (Suc n)
  have ask: "wp (hub_ask c) Q E v" if "seen w0 v S" for v
    using assms(3,4) [OF that] assms(5) [of "v\<lparr>hw_replies := []\<rparr>"] that
    by (auto simp: wp_def hub_ask_def seen_def split: list.split sum.split)
  show ?case
  proof (cases "\<exists>p rs. hw_replies w = Inr (Report p) # rs")
    case True
    then obtain p rs where reply: "hw_replies w = Inr (Report p) # rs" by blast
    have "seen w0 (w\<lparr>hw_replies := rs\<rparr>) S" using Suc.prems by (simp add: seen_def)
    then have "wp (sbind (report k p) (\<lambda>k'. transfer_loop c report n k')) Q E (w\<lparr>hw_replies := rs\<rparr>)"
      unfolding wp_sbind by (rule wp_quiet [OF assms(1)]) (auto intro: Suc.IH assms(5))
    with reply show ?thesis by (simp add: wp_def)
  next
    case False
    then have "transfer_loop c report (Suc n) k w = hub_ask c w"
      by (auto split: list.split sum.split answer.split)
    with ask [OF Suc.prems] show ?thesis by (simp add: wp_def)
  qed
next
  case 0
  then show ?case
    using assms(3,4) [OF 0] assms(5) [of "w\<lparr>hw_replies := []\<rparr>"]
    by (auto simp: wp_def hub_ask_def seen_def split: list.split sum.split)
qed

lemma transfer_wp:
  assumes "\<And>k p. leads grows (report k p)" and "seen w0 w S"
    and "\<And>x v v'. seen w0 v S \<Longrightarrow> hw_log v' = hw_log v @ [(c, Inr x)] \<Longrightarrow> Q x v'"
    and "\<And>e v v'. seen w0 v S \<Longrightarrow> hw_log v' = hw_log v @ [(c, Inl e)] \<Longrightarrow> E e v'"
    and "\<And>e v. seen w0 v S \<Longrightarrow> E e v"
  shows "wp (transfer c report k) Q E w"
  using transfer_loop_wp [OF assms, where n = "length (hw_replies w)"] by (simp add: wp_def transfer_def)

definition written ::
  "hub_world \<Rightarrow> hub_call \<Rightarrow> (hub_call \<times> json res) set \<Rightarrow> json res \<Rightarrow> hub_world \<Rightarrow> (hub_call \<times> json res) set \<Rightarrow> bool" where
  "written w0 c S a v T \<longleftrightarrow>
     (\<exists>l1 l2. hw_log v = hw_log w0 @ l1 @ (c, a) # l2 \<and> quiet_log l1 \<and> quiet_log l2 \<and> S \<subseteq> set l1 \<and> T \<subseteq> set l2)"

lemma writtenI: "seen w0 v0 S \<Longrightarrow> hw_log v' = hw_log v0 @ [(c, a)] \<Longrightarrow> seen v' v T \<Longrightarrow> written w0 c S a v T"
  unfolding seen_def written_def by (elim exE conjE) (rule exI, rule exI, auto)

lemma written_grows: "written w0 c S a v T \<Longrightarrow> grows v x \<Longrightarrow> written w0 c S a x T"
  unfolding written_def grows_def by fastforce

lemma written_weaken: "written w0 c S a v T \<Longrightarrow> T' \<subseteq> T \<Longrightarrow> written w0 c S a v T'"
  unfolding written_def by blast

text \<open>An exception leaves a log without a write, or with the one write and nothing like it around.\<close>

definition at_most_written :: "hub_world \<Rightarrow> hub_call \<Rightarrow> (hub_call \<times> json res) set \<Rightarrow> hub_world \<Rightarrow> bool" where
  "at_most_written w0 c S v \<longleftrightarrow> seen w0 v S \<or> (\<exists>a. written w0 c S a v {})"

text \<open>Steps of a workflow, with what is known before them as the first premise.\<close>

lemma bind_quiet:
  "seen w0 w S \<Longrightarrow> leads grows m \<Longrightarrow> (\<And>x v. seen w0 v S \<Longrightarrow> wp (f x) Q E v) \<Longrightarrow> (\<And>e v. seen w0 v S \<Longrightarrow> E e v) \<Longrightarrow>
   wp (sbind m f) Q E w"
  unfolding wp_sbind by (rule wp_quiet)

lemma bind_dict:
  "seen w0 w S \<Longrightarrow> quiet_call c \<Longrightarrow> (\<And>d v. seen w0 v (insert (c, Inr (JDict d)) S) \<Longrightarrow> wp (f d) Q E v) \<Longrightarrow>
   (\<And>e v. seen w0 v S \<Longrightarrow> E e v) \<Longrightarrow> wp (sbind (ask_dict c) f) Q E w"
  unfolding wp_sbind by (rule wp_ask_dict)

lemma bind_lift:
  "(\<And>x. r = Inr x \<Longrightarrow> wp (f x) Q E w) \<Longrightarrow> (\<And>e. r = Inl e \<Longrightarrow> E e w) \<Longrightarrow> wp (sbind (slift r) f) Q E w"
  by (cases r) (simp_all add: wp_simps)

lemma bind_guard:
  "(\<not> c \<Longrightarrow> wp (f ()) Q E w) \<Longrightarrow> (c \<Longrightarrow> E e w) \<Longrightarrow> wp (sbind (sraise_if c e) f) Q E w"
  by (simp add: wp_simps)

section \<open>System update\<close>

definition update_observed ::
  "hub_world \<Rightarrow> (hub_call \<times> json res) set \<Rightarrow> ustr \<Rightarrow> update_bundle \<Rightarrow> bytes \<Rightarrow> json \<Rightarrow> dict \<times> json \<times> dict \<times> dict \<Rightarrow> hub_world \<Rightarrow> bool" where
  "update_observed w0 S d b wire writer x v = (case x of (result, boot, after, inventory) \<Rightarrow>
     boot \<noteq> JNull \<and> \<not> py_eq boot writer \<and> py_eq (dget after ''boot_id'') boot \<and>
     (\<exists>event. is_healthy_of boot event \<and>
        written w0 (Hub_system_update d b wire) S (Inr (JDict result)) v
          {(Next_event, Inr (JDict event)), (Hub_status d, Inr (JDict after)), (Hub_inventory d, Inr (JDict inventory))}))"

lemma accept_update_wp:
  assumes "\<And>v T. seen w v T \<Longrightarrow> E v"
    and "\<And>r boot after inventory event status v. result = JDict r \<Longrightarrow> boot \<noteq> JNull \<Longrightarrow> other_boot writer boot \<Longrightarrow>
      py_eq (dget after ''boot_id'') boot \<Longrightarrow> is_healthy_of boot event \<Longrightarrow>
      seen w v {(Hub_status d, Inr (JDict after)), (Hub_inventory d, Inr (JDict inventory)), (Hub_status d, Inr (JDict status)),
        (Next_event, Inr (JDict event))} \<Longrightarrow> Q (r, boot, after, inventory) v"
  shows "wp (accept_update d writer result) Q (\<lambda>e. E) w"
proof (cases "\<exists>r. result = JDict r")
  case True
  then obtain r where r: "result = JDict r" by blast
  have tail: "wp (sbind (sraise_if (boot = JNull \<or> \<not> healthy) x) (\<lambda>_.
      sbind (ask_dict (Hub_status d)) (\<lambda>status. sbind (ask_dict (Hub_inventory d)) (\<lambda>inventory.
      sbind (ask_dict (Hub_status d)) (\<lambda>after.
      sbind (sraise_if (\<not> py_eq (dget status ''boot_id'') boot \<or> \<not> py_eq (dget after ''boot_id'') boot) y) (\<lambda>_.
      sret (r, boot, after, inventory))))))) Q (\<lambda>e. E) v"
    if "if healthy then saw_healthy w v {} writer boot else seen w v {}" for boot healthy v x y
  proof (cases "boot = JNull \<or> \<not> healthy")
    case True
    with that have "seen w v {}" by (auto simp: saw_healthy_def intro: seen_weaken split: if_splits)
    with True assms(1) show ?thesis by (simp add: wp_simps)
  next
    case False
    with that obtain event where "other_boot writer boot" "is_healthy_of boot event" "seen w v {(Next_event, Inr (JDict event))}"
      by (auto simp: saw_healthy_def)
    with False r show ?thesis
      by (intro bind_guard bind_dict) (auto simp: wp_simps intro: assms)
  qed
  have heal: "wp (sbind (wait_healthy writer JNull) (\<lambda>(boot, healthy).
      sbind (sraise_if (boot = JNull \<or> \<not> healthy) x) (\<lambda>_.
      sbind (ask_dict (Hub_status d)) (\<lambda>status. sbind (ask_dict (Hub_inventory d)) (\<lambda>inventory.
      sbind (ask_dict (Hub_status d)) (\<lambda>after.
      sbind (sraise_if (\<not> py_eq (dget status ''boot_id'') boot \<or> \<not> py_eq (dget after ''boot_id'') boot) y) (\<lambda>_.
      sret (r, boot, after, inventory)))))))) Q (\<lambda>e. E) v" if "seen w v {}" for v x y
    unfolding wp_sbind [of "wait_healthy _ _"]
  proof (rule wp_mono [OF wait_healthy_wp [OF that]])
    show "other_boot writer JNull" by (simp add: other_boot_def)
    show "E t" if "seen w t {}" for t using that by (rule assms(1))
  qed (unfold case_prod_beta, rule tail, assumption)
  show ?thesis
    unfolding accept_update_def r json.case
  proof (rule bind_quiet [OF seen_refl], rule quiet_rules, rule bind_lift)
    fix v evidence assume "seen w v {}"
    then show "wp (sbind (if evidence \<noteq> jstr ''session_close'' then try_restart d else sret JNull) (\<lambda>_.
        sbind (wait_healthy writer JNull) (\<lambda>(boot, healthy).
        sbind (sraise_if (boot = JNull \<or> \<not> healthy)
          (OperationOutcomeUnknown ''system update was written but healthy acceptance was not observed'')) (\<lambda>_.
        sbind (ask_dict (Hub_status d)) (\<lambda>status. sbind (ask_dict (Hub_inventory d)) (\<lambda>inventory.
        sbind (ask_dict (Hub_status d)) (\<lambda>after.
        sbind (sraise_if (\<not> py_eq (dget status ''boot_id'') boot \<or> \<not> py_eq (dget after ''boot_id'') boot)
          (OperationOutcomeUnknown ''system update rebooted after HEALTHY; acceptance needs reconciliation'')) (\<lambda>_.
        sret (r, boot, after, inventory))))))))) Q (\<lambda>e. E) v"
      by (rule bind_quiet) (intro quiet.rules quiet_rules, erule heal, erule assms(1))
  qed (auto intro: assms(1))
next
  case False
  then have absent: "jget result key z = Inl AttributeError" for key z by (auto simp: jget_def split: json.split)
  show ?thesis
    unfolding accept_update_def absent
    by (rule bind_quiet [OF seen_refl], intro quiet_rules) (auto simp: wp_simps intro: assms(1))
qed

text \<open>What an update leaves in the log: the observation if it returns, and at most the one write if it does not.\<close>

lemma observe_update_wp:
  assumes "seen w0 w S"
  shows "wp (observe_update txt d b wire writer) (update_observed w0 S d b wire writer)
    (\<lambda>e. at_most_written w0 (Hub_system_update d b wire) S) w"
  unfolding observe_update_def wp_sbind
proof (rule transfer_wp [OF _ assms])
  fix x and v v' :: hub_world assume v: "seen w0 v S" "hw_log v' = hw_log v @ [(Hub_system_update d b wire, Inr x)]"
  note result = writtenI [OF v]
  show "wp (accept_update d writer x) (update_observed w0 S d b wire writer)
    (\<lambda>e. at_most_written w0 (Hub_system_update d b wire) S) v'"
  proof (rule accept_update_wp)
    fix y T assume "seen v' y T"
    then show "at_most_written w0 (Hub_system_update d b wire) S y"
      using result [of y T] by (auto simp: at_most_written_def intro: written_weaken)
  next
    fix r boot after inventory event status y
    assume "x = JDict r" "boot \<noteq> JNull" "other_boot writer boot" "py_eq (dget after ''boot_id'') boot" "is_healthy_of boot event"
      "seen v' y {(Hub_status d, Inr (JDict after)), (Hub_inventory d, Inr (JDict inventory)), (Hub_status d, Inr (JDict status)),
        (Next_event, Inr (JDict event))}"
    then show "update_observed w0 S d b wire writer (r, boot, after, inventory) y"
      unfolding update_observed_def prod.case using result
      by (auto simp: other_boot_def intro!: exI [of _ event] intro: written_weaken)
  qed
next
  fix e and v v' :: hub_world assume "seen w0 v S" "hw_log v' = hw_log v @ [(Hub_system_update d b wire, Inl e)]"
  from writtenI [OF this seen_refl] show "at_most_written w0 (Hub_system_update d b wire) S v'"
    by (auto simp: at_most_written_def)
qed (auto simp: at_most_written_def intro: quiet_rules)


text \<open>The checks after the write never raise one of the exceptions that mean lost contact.\<close>

lemma validate_ota_identity_error: "validate_ota_identity txt lower s m mode = Inl e \<Longrightarrow> \<not> is_lost_contact e"
  by (auto simp: validate_ota_identity_def require_ota_validation_mode_def is_lost_contact_def Let_def res_simps)

lemma py_int_error: "py_int v = Inl e \<Longrightarrow> \<not> is_lost_contact e"
  by (cases v) (auto simp: is_lost_contact_def split: option.splits)

lemma check_update_error:
  "check_update txt lower b wire s found ta tr mode = Inl e \<Longrightarrow> \<not> is_lost_contact e"
  by (auto simp: check_update_def res_simps dest: validate_ota_identity_error py_int_error split: option.splits)
    (simp_all add: is_lost_contact_def)

lemma at_most_written_grows: "at_most_written w0 c S v \<Longrightarrow> grows v x \<Longrightarrow> at_most_written w0 c S x"
  unfolding at_most_written_def using seen_grows written_grows by blast

lemma grows_note: "quiet_call c \<Longrightarrow> grows v (v\<lparr>hw_log := hw_log v @ [(c, r)]\<rparr>)"
  by (simp add: grows_def)

lemma update_observed_grows: "update_observed w0 S d b wire writer x v \<Longrightarrow> grows v y \<Longrightarrow> update_observed w0 S d b wire writer x y"
  unfolding update_observed_def by (cases x) (auto intro: written_grows)

text \<open>A block between \<^verbatim>\<open>subscribe\<close> and \<^verbatim>\<open>unsubscribe\<close> whose lost-contact exceptions are turned into an unknown outcome.\<close>

lemma guarded_wp:
  assumes "seen w0 w S" and "\<And>v. seen w0 v S \<Longrightarrow> wp m Q (\<lambda>e. P) v"
    and "\<And>x v y. Q x v \<Longrightarrow> grows v y \<Longrightarrow> Q x y" and "\<And>v y. P v \<Longrightarrow> grows v y \<Longrightarrow> P y"
  shows "wp (sbind (if demo then sret () else hub_note (Hub_subscribe d)) (\<lambda>_.
           sfinally (scatch m (\<lambda>e. if is_lost_contact e then sraise (OperationOutcomeUnknown msg) else sraise e))
             (if demo then sret () else hub_note (Hub_unsubscribe d))))
         Q (\<lambda>e v. P v \<and> \<not> is_lost_contact e) w"
proof -
  define fin where "fin = (if demo then sret () else hub_note (Hub_unsubscribe d))"
  have keep: "wp fin (\<lambda>_. R) T v"
    if "R v" "\<And>v y. R v \<Longrightarrow> grows v y \<Longrightarrow> R y" for R :: "hub_world \<Rightarrow> bool" and T v
    using that(1) that(2) [OF that(1) grows_note] by (simp add: fin_def wp_simps hub_note_def)
  have caught: "wp (if is_lost_contact e then sraise (OperationOutcomeUnknown msg) else sraise e) (\<lambda>x. wp fin (\<lambda>_. Q x) E)
      (\<lambda>e. wp fin (\<lambda>_ v. P v \<and> \<not> is_lost_contact e) E) v" if "P v" for e E v
    using that by (auto simp: wp_simps is_lost_contact_def intro!: keep dest: assms(4))
  have "wp (sfinally (scatch m (\<lambda>e. if is_lost_contact e then sraise (OperationOutcomeUnknown msg) else sraise e)) fin)
      Q (\<lambda>e v. P v \<and> \<not> is_lost_contact e) v" if "seen w0 v S" for v
    unfolding wp_sfinally wp_scatch
    by (rule wp_mono [OF assms(2) [OF that]]) (erule keep, erule assms(3), assumption, erule caught)
  then have "wp (sbind (if demo then sret () else hub_note (Hub_subscribe d)) (\<lambda>_.
      sfinally (scatch m (\<lambda>e. if is_lost_contact e then sraise (OperationOutcomeUnknown msg) else sraise e)) fin))
      Q (\<lambda>e v. P v \<and> \<not> is_lost_contact e) w"
    unfolding wp_sbind using assms(1) seen_grows [OF assms(1) grows_note]
    by (cases demo) (simp_all add: wp_sret wp_smod hub_note_def)
  then show ?thesis unfolding fin_def .
qed

lemma guarded_update_wp:
  assumes "seen w0 w S"
  shows "wp (guarded_update txt d b wire writer) (update_observed w0 S d b wire writer)
    (\<lambda>e v. at_most_written w0 (Hub_system_update d b wire) S v \<and> \<not> is_lost_contact e) w"
  unfolding guarded_update_def
  by (rule guarded_wp [where demo = False, simplified, OF assms observe_update_wp])
    (auto intro: update_observed_grows at_most_written_grows)


section \<open>A run of the system update\<close>

lemma coredump_loop_quiet: "grows w (snd (coredump_loop d report n data w))"
proof (induction w arbitrary: data rule: measure_induct_rule [of "\<lambda>w. length (hw_replies w)"])
  case (less w)
  have more: "grows w (snd (coredump_loop d report n data' v))" if "hub_ask (Hub_read_core_dump d k m) w = (Inr x, v)" for k m x v data'
    using less.IH [OF hub_ask_consumes [OF that]] leads_run [OF quiet_ask that] by (auto intro: quiet.trans)
  have grow: "grows w v" if "hub_ask (Hub_read_core_dump d k m) w = (r, v)" for k m r v
    using leads_run [OF quiet_ask that] by simp
  show ?case
    by (subst coredump_loop.simps) (auto simp: st_run intro: quiet.refl more grow split: sum.split prod.split)
qed

lemma quiet_coredump [quiet_rules]: "leads grows (preserve_coredump d)"
  unfolding preserve_coredump_def dindex_st_def
  by (intro quiet.rules quiet_rules) (simp_all add: leads_def coredump_loop_quiet)

text \<open>The device that writes has answered, and on another boot if it had to be sent to Recovery.\<close>

definition writes_from :: "dict \<Rightarrow> dict \<Rightarrow> bool" where
  "writes_from before writing \<longleftrightarrow> writing = before \<or> \<not> py_eq (dget writing ''boot_id'') (dget before ''boot_id'')"

lemma writer_status_wp:
  assumes "seen w0 w S" "(Hub_status d, Inr (JDict before)) \<in> S"
    and "\<And>s v. seen w0 v (insert (Hub_status d, Inr (JDict s)) S) \<Longrightarrow> writes_from before s \<Longrightarrow> Q s v"
    and "\<And>e v. seen w0 v S \<Longrightarrow> E e v"
  shows "wp (writer_status d before) Q E w"
proof (cases "dget before ''firmware_mode'' = jstr ''recovery''")
  case True
  with assms(1,2) assms(3) [of w before] show ?thesis
    by (simp add: writer_status_def wp_simps writes_from_def insert_absorb)
next
  case False
  have found: "wp (sbind (wait_recovery d p) (\<lambda>found. case found of None \<Rightarrow> sraise e | Some s \<Rightarrow> sret s)) Q E v"
    if "seen w0 v S" "p = dget before ''boot_id''" for v p e
    unfolding wp_sbind
    by (rule wp_mono [OF wait_recovery_wp [OF that(1)]])
      (auto simp: wp_simps in_recovery_def writes_from_def that(2) intro: assms(3,4) split: option.splits)
  from False show ?thesis
    unfolding writer_status_def
    by simp (rule bind_quiet [OF assms(1)], intro quiet_rules, rule bind_quiet, assumption, intro quiet_rules,
      rule found, simp_all add: assms(4))
qed


text \<open>What makes a write lawful: the status the update began with and the status of the writer, and that both pass
  the compatibility check, the second one in Recovery against the contract of the first.\<close>

definition update_lawful :: "update_bundle \<Rightarrow> json \<Rightarrow> dict \<Rightarrow> dict \<Rightarrow> bool" where
  "update_lawful b compatibility before writing \<longleftrightarrow> writes_from before writing \<and>
     (\<exists>contract carried. validate_update_compatibility before (JInt (sb_chip_id b)) compatibility False = Inr contract \<and>
        validate_update_compatibility writing (JInt (sb_chip_id b)) (JDict contract) True = Inr carried)"

definition both :: "ustr \<Rightarrow> dict \<Rightarrow> dict \<Rightarrow> (hub_call \<times> json res) set" where
  "both d before writing = {(Hub_status d, Inr (JDict writing)), (Hub_status d, Inr (JDict before))}"

text \<open>What is known of a run of the update that raises, and of one that returns.\<close>

definition update_failed :: "hub_world \<Rightarrow> ustr \<Rightarrow> update_bundle \<Rightarrow> bytes \<Rightarrow> json \<Rightarrow> exn \<Rightarrow> hub_world \<Rightarrow> bool" where
  "update_failed w0 d b wire compatibility e v \<longleftrightarrow> seen w0 v {} \<or>
     (\<exists>before writing a. update_lawful b compatibility before writing \<and>
        written w0 (Hub_system_update d b wire) (both d before writing) a v {} \<and> \<not> is_lost_contact e)"

definition update_done ::
  "(json \<Rightarrow> ustr) \<Rightarrow> (ustr \<Rightarrow> ustr) \<Rightarrow> string \<Rightarrow> hub_world \<Rightarrow> ustr \<Rightarrow> update_bundle \<Rightarrow> bytes \<Rightarrow> json \<Rightarrow> dict \<Rightarrow> hub_world \<Rightarrow> bool" where
  "update_done txt lower mode w0 d b wire compatibility out v \<longleftrightarrow>
     (\<exists>before writing result boot after inventory application recovery extra.
        update_lawful b compatibility before writing \<and>
        update_observed w0 (both d before writing) d b wire (dget writing ''boot_id'') (result, boot, after, inventory) v \<and>
        first_image APPLICATION b = Inr application \<and> first_image RECOVERY b = Inr recovery \<and>
        check_update txt lower b wire after inventory application recovery mode = Inr extra \<and>
        dget out ''boot_id'' = boot \<and> dget out ''healthy'' = JBool True \<and> dget out ''target_inventory'' = JDict inventory)"

lemma update_failed_before: "seen w0 v S \<Longrightarrow> update_failed w0 d b wire compatibility e v"
  unfolding update_failed_def by (auto intro: seen_weaken)

lemma update_failed_written:
  "at_most_written w0 (Hub_system_update d b wire) (both d before writing) v \<Longrightarrow> update_lawful b compatibility before writing \<Longrightarrow>
   \<not> is_lost_contact e \<Longrightarrow> update_failed w0 d b wire compatibility e v"
  unfolding update_failed_def at_most_written_def by (auto intro: seen_weaken)

lemma update_observed_written:
  "update_observed w0 S d b wire writer x v \<Longrightarrow> at_most_written w0 (Hub_system_update d b wire) S v"
  unfolding update_observed_def at_most_written_def by (cases x) (auto intro: written_weaken)


lemma bind_writer:
  "seen w0 w S \<Longrightarrow> (Hub_status d, Inr (JDict before)) \<in> S \<Longrightarrow>
   (\<And>s v. seen w0 v (insert (Hub_status d, Inr (JDict s)) S) \<Longrightarrow> writes_from before s \<Longrightarrow> wp (f s) Q E v) \<Longrightarrow>
   (\<And>e v. seen w0 v S \<Longrightarrow> E e v) \<Longrightarrow> wp (sbind (writer_status d before) f) Q E w"
  unfolding wp_sbind by (rule writer_status_wp)

lemma map_of_dupdate: "distinct (map fst e) \<Longrightarrow> map_of (dupdate d e) k = (case map_of e k of Some v \<Rightarrow> Some v | None \<Rightarrow> map_of d k)"
proof (induction e arbitrary: d)
  case (Cons kv e)
  then show ?case by (cases kv) (auto simp: dupdate_def map_of_eq_None_iff [symmetric] split: option.splits)
qed (simp add: dupdate_def)

lemma dget_dupdate:
  "distinct (map fst e) \<Longrightarrow> dget (dupdate d e) k = (case map_of e (u k) of Some v \<Rightarrow> v | None \<Rightarrow> dget d k)"
  by (simp add: dget_def dget_default_def map_of_dupdate split: option.split)

text \<open>From the subscription to the result.\<close>

lemma update_tail_wp:
  assumes "seen w0 w S" and "both d before writing \<subseteq> S" and lawful: "update_lawful b compatibility before writing"
    and "first_image APPLICATION b = Inr ta" and "first_image RECOVERY b = Inr tr"
  shows "wp (sbind (guarded_update txt d b wire (dget writing ''boot_id'')) (\<lambda>(result, boot, status, inventory_after).
     sbind (slift (check_update txt lower b wire status inventory_after ta tr mode)) (\<lambda>(application, recovery).
     sret (update_result before' writing' source core result boot inventory_after application recovery))))
    (update_done txt lower mode w0 d b wire compatibility) (update_failed w0 d b wire compatibility) w"
  unfolding wp_sbind
proof (rule wp_mono [OF guarded_update_wp])
  show "seen w0 w (both d before writing)" using assms(1,2) by (rule seen_weaken)
  show "update_failed w0 d b wire compatibility e v"
    if "at_most_written w0 (Hub_system_update d b wire) (both d before writing) v \<and> \<not> is_lost_contact e" for e v
    using that lawful update_failed_written by blast
next
  fix x v assume x: "update_observed w0 (both d before writing) d b wire (dget writing ''boot_id'') x v"
  note failed = update_failed_written [OF update_observed_written [OF x] lawful]
  obtain result boot after inventory where [simp]: "x = (result, boot, after, inventory)" by (cases x) auto
  show "wp (case x of (result, boot, status, inventory_after) \<Rightarrow>
     sbind (slift (check_update txt lower b wire status inventory_after ta tr mode)) (\<lambda>(application, recovery).
     sret (update_result before' writing' source core result boot inventory_after application recovery)))
    (update_done txt lower mode w0 d b wire compatibility) (update_failed w0 d b wire compatibility) v"
    unfolding \<open>x = _\<close> prod.case
  proof (rule bind_lift)
    fix extra assume "check_update txt lower b wire after inventory ta tr mode = Inr extra"
    with x lawful assms(4,5) have "update_done txt lower mode w0 d b wire compatibility out v"
      if "dget out ''boot_id'' = boot" "dget out ''healthy'' = JBool True" "dget out ''target_inventory'' = JDict inventory" for out
      unfolding update_done_def using that by (cases extra) (simp, blast)
    then show "wp (case extra of (application, recovery) \<Rightarrow> sret (update_result before' writing' source core result boot inventory application recovery))
      (update_done txt lower mode w0 d b wire compatibility) (update_failed w0 d b wire compatibility) v"
      by (cases extra) (simp add: wp_simps update_result_def dget_dupdate item_def u_inject)
  qed (use check_update_error failed in blast)
qed

lemma run_system_update_wp:
  "wp (run_system_update txt lower d b wire mode override compatibility)
     (update_done txt lower mode w d b wire compatibility) (update_failed w d b wire compatibility) w"
  unfolding run_system_update_def
  by (rule bind_dict [OF seen_refl], simp, rule bind_lift, rule bind_lift, rule bind_quiet, assumption, intro quiet_rules,
    rule bind_quiet, assumption, intro quiet.rules quiet_rules, rule bind_writer, assumption, simp, rule bind_lift,
    rule bind_dict, assumption, simp, rule bind_lift, rule bind_lift, rule bind_guard, rule bind_quiet, assumption, intro quiet_rules,
    rule update_tail_wp, assumption)
   (auto simp: both_def update_lawful_def intro: update_failed_before)




text \<open>A device in Recovery that is updated with a bundle of no components, and answers as it should.\<close>

definition ex_device :: "int \<Rightarrow> dict" where
  "ex_device n = [item ''firmware_mode'' (jstr ''recovery''), item ''chip_target'' (jstr ''esp32s31''), item ''boot_id'' (JInt n)]"

definition ex_empty_bundle :: update_bundle where
  "ex_empty_bundle = \<lparr>sb_manifest = [], sb_manifest_bytes = [], sb_signature = [], sb_manifest_sha256 = [], sb_key_id = None,
     sb_signature_verified = True, sb_chip_id = 32, sb_flash_size = 4194304, sb_target_layout_sha256 = u ''aa'', sb_components = []\<rparr>"

definition ex_inventory :: dict where
  "ex_inventory = [item ''partition_table_sha256'' (jstr ''aa''), item ''last_operation_id'' (jstr (hex [7])), item ''last_result'' (JInt 0)]"

definition ex_event :: dict where
  "ex_event = [item ''event_name'' (jstr ''healthy''), item ''boot_id'' (JInt 2)]"

definition ex_update_replies :: "(exn + answer) list" where
  "ex_update_replies = map (Inr \<circ> Answer)
     [JDict (ex_device 1), JDict [], JDict ex_inventory, JNull, JDict [item ''completion_evidence'' (jstr ''session_close'')], JNull,
      JBool True, JDict ex_event, JDict (ex_device 2), JDict ex_inventory, JDict (ex_device 2)]"

lemma ex_device_contract: "require_contract (ex_device n) ex_required = Inr ()"
  by (simp add: require_contract_Inr ex_required_def ex_device_def item_def jstr_def)

lemma ex_device_carry: "carry_forward (ex_device n) CONTRACT_FIELDS ex_required = ex_required"
  by (simp add: CONTRACT_FIELDS_def ex_required_def ex_device_def item_def jstr_def dget_def dget_default_def undeclared_def Let_def)

lemma ex_required_checked: "compatibility_expectation (JDict ex_required) = Inr ex_required"
  by (simp add: compatibility_expectation_def CONTRACT_FIELDS_def ex_required_def item_def jstr_def contract_item_def utf8_char_def)

lemma ex_device_mode: "dget (ex_device n) ''firmware_mode'' = jstr ''recovery''"
  by (simp add: ex_device_def dget_def dget_default_def item_def)

lemma ex_compat:
  assumes "dget s ''firmware_mode'' = jstr ''recovery''" and "require_contract s ex_required = Inr ()"
    and "carry_forward s CONTRACT_FIELDS ex_required = ex_required"
  shows "validate_update_compatibility s (JInt 32) (JDict []) flag = Inr ex_required"
    "validate_update_compatibility s (JInt 32) (JDict ex_required) flag = Inr ex_required"
proof -
  have put: "dput [] (u ''chip_target'') (jstr ''esp32s31'') = ex_required" "dput ex_required (u ''chip_target'') (jstr ''esp32s31'') = ex_required"
    by (simp_all add: ex_required_def item_def)
  have chip: "dget_default ex_required ''chip_target'' x = jstr ''esp32s31''" for x
    by (simp add: ex_required_def dget_default_def item_def)
  show "validate_update_compatibility s (JInt 32) (JDict []) flag = Inr ex_required"
    by (simp only: validate_update_compatibility_def ex_no_expectation assms(1) Let_def bindr.simps)
      (simp add: ESP32S31_CHIP_ID_def dget_default_def put assms(2,3) ex_required_checked del: dput.simps u_simps u_Cons)
  show "validate_update_compatibility s (JInt 32) (JDict ex_required) flag = Inr ex_required"
    by (simp only: validate_update_compatibility_def ex_required_checked assms(1) Let_def bindr.simps)
      (simp add: ESP32S31_CHIP_ID_def chip put assms(2,3) ex_required_checked del: u_simps u_Cons)
qed

lemmas ex_update_compat = ex_compat [OF ex_device_mode ex_device_contract ex_device_carry]

definition ex_update_world :: hub_world where
  "ex_update_world = \<lparr>hw_replies = ex_update_replies, hw_log = []\<rparr>"

lemma ex_dget:
  "dget (ex_device n) ''boot_id'' = JInt n" "dget ex_event ''boot_id'' = JInt 2" "dget ex_event ''event_name'' = jstr ''healthy''"
  "dget ex_inventory ''partition_table_sha256'' = JStr (sb_target_layout_sha256 ex_empty_bundle)"
  "dget ex_inventory ''last_operation_id'' = jstr (hex [7])" "dget_default ex_inventory ''last_result'' x = JInt 0"
  "dget_default [item ''completion_evidence'' y] ''completion_evidence'' x = y"
  by (simp_all add: ex_device_def ex_event_def ex_inventory_def ex_empty_bundle_def dget_def dget_default_def item_def jstr_def)

lemma ex_bundle_simps: "sb_chip_id ex_empty_bundle = 32" "first_component k ex_empty_bundle = None" "first_image k ex_empty_bundle = Inr None"
  by (simp_all add: ex_empty_bundle_def first_component_def first_image_def)

lemma ex_ask:
  "hub_ask c \<lparr>hw_replies = Inr (Answer x) # rs, hw_log = l\<rparr> = (Inr x, \<lparr>hw_replies = rs, hw_log = l @ [(c, Inr x)]\<rparr>)"
  by (simp add: hub_ask_def)

lemma ex_ask_dict:
  "ask_dict c \<lparr>hw_replies = Inr (Answer (JDict x)) # rs, hw_log = l\<rparr> = (Inr x, \<lparr>hw_replies = rs, hw_log = l @ [(c, Inr (JDict x))]\<rparr>)"
  by (simp add: ask_dict_def ex_ask st_run)

lemma ex_transfer:
  "transfer c report k \<lparr>hw_replies = Inr (Answer x) # rs, hw_log = l\<rparr> = (Inr x, \<lparr>hw_replies = rs, hw_log = l @ [(c, Inr x)]\<rparr>)"
  by (simp add: transfer_def ex_ask)

lemma ex_healthy:
  "wait_healthy (JInt 1) JNull \<lparr>hw_replies = Inr (Answer (JBool True)) # Inr (Answer (JDict ex_event)) # rs, hw_log = l\<rparr> =
     (Inr (JInt 2, True), \<lparr>hw_replies = rs, hw_log = l @ [(Before_deadline, Inr (JBool True)), (Next_event, Inr (JDict ex_event))]\<rparr>)"
  by (simp add: wait_healthy.simps before_deadline_def next_event_def ex_ask ex_ask_dict st_run truthy.simps
      event_new_boot_def is_healthy_of_def ex_dget)

lemma ex_update_run:
  "\<exists>v. run_system_update (\<lambda>_. []) id [] ex_empty_bundle [7] ''version'' (Some 30) (JDict []) ex_update_world =
     (Inr (update_result (ex_device 1) (ex_device 1) ex_inventory None
        [item ''completion_evidence'' (jstr ''session_close'')] (JInt 2) ex_inventory None None), v)"
  by (simp add: run_system_update_def ex_update_world_def ex_update_replies_def ex_ask_dict ex_bundle_simps ex_update_compat
      health_timeout_def preserve_coredump_def dget_def [of "[]"] dget_default_def [of "[]"] truthy.simps writer_status_def ex_device_mode
      hub_progress_def ex_ask guarded_update_def observe_update_def ex_transfer accept_update_def ex_healthy
      st_run jget_def ex_dget hub_note_def check_update_def del: u_simps u_Cons)

lemma ex_result_boot: "dget (update_result x y z c r boot i t s) ''boot_id'' = boot"
  by (simp add: update_result_def dget_dupdate item_def u_inject del: u_simps u_Cons)



end
