(* ===== verification/Ota_Loop_Claims.thy ===== *)
theory Ota_Loop_Claims
  imports Closed_Loop_Claims
begin

text \<open>
  What the OTA update of \<^verbatim>\<open>gateway.py\<close> (\<^verbatim>\<open>closed_loop_ota\<close>) guarantees, by the rules of the system update: at most one
  write, by a device that passed the compatibility check, and a result that rests on the new boot.
\<close>

section \<open>OTA update\<close>

text \<open>What the code has seen since the write when it returns: a status of a boot other than the writer's, with the
  identity of the image, and either the writer's own report of health or a healthy event of that boot.\<close>

definition ota_proof ::
  "(json \<Rightarrow> ustr) \<Rightarrow> (ustr \<Rightarrow> ustr) \<Rightarrow> ustr \<Rightarrow> dict \<Rightarrow> string \<Rightarrow> json \<Rightarrow> hub_world \<Rightarrow> dict \<Rightarrow> dict \<Rightarrow> hub_world \<Rightarrow> bool" where
  "ota_proof txt lower d metadata mode writer w result out v \<longleftrightarrow>
     (\<exists>status boot validation. boot \<noteq> JNull \<and> \<not> py_eq boot writer \<and> (dget status ''boot_id'' = boot \<or> py_eq (dget status ''boot_id'') boot) \<and>
        validate_ota_identity txt lower status metadata mode = Inr validation \<and> dget out ''validation'' = JDict validation \<and>
        seen w v {(Hub_status d, Inr (JDict status))} \<and>
        (truthy (dget result ''healthy'') \<or>
         (\<exists>event. is_healthy_of boot event \<and> seen w v {(Next_event, Inr (JDict event)), (Hub_status d, Inr (JDict status))})))"

lemma accept_result_wp:
  assumes "seen w v {}" and "truthy (dget result ''healthy'')"
  shows "wp (accept_result txt lower d metadata execution mode writer recovery result)
    (ota_proof txt lower d metadata mode writer w result) (\<lambda>e v. seen w v {}) v"
  unfolding accept_result_def
proof (rule bind_dict [OF assms(1)], simp)
  fix status y assume y: "seen w y (insert (Hub_status d, Inr (JDict status)) {})"
  then have "seen w y {}" by (rule seen_weaken) simp
  with y assms(2) show "wp (sbind (sraise_if (dget status ''boot_id'' = JNull \<or> py_eq (dget status ''boot_id'') writer)
        (OperationOutcomeUnknown ''OTA HEALTHY result has no confirmed new boot'')) (\<lambda>_.
      sbind (sraise_if (dget result ''boot_id'' \<noteq> JNull \<and> \<not> py_eq (dget result ''boot_id'') (dget status ''boot_id''))
        (OperationOutcomeUnknown ''OTA boot changed after HEALTHY result'')) (\<lambda>_.
      sbind (slift (validate_ota_identity txt lower status metadata mode)) (\<lambda>validation.
      sret (dupdate result
        [item ''validated_image'' (JDict metadata), item ''execution_mode'' (jstr execution),
         item ''validation'' (JDict validation), item ''recovery_boot_id'' recovery])))))
     (ota_proof txt lower d metadata mode writer w result) (\<lambda>e v. seen w v {}) y"
    by (intro bind_guard bind_lift)
      (auto simp: wp_simps ota_proof_def dget_dupdate item_def u_inject simp del: u_simps u_Cons)
qed simp


lemma saw_accepted_seen: "saw_accepted w v {} d writer boot status \<Longrightarrow> seen w v {}"
  unfolding saw_accepted_def by (auto intro: seen_weaken)

lemma ota_proof_observed:
  assumes "saw_accepted w v {} d writer boot status" and "boot \<noteq> JNull"
    and "validate_ota_identity txt lower status metadata mode = Inr validation" and "dget out ''validation'' = JDict validation"
  shows "ota_proof txt lower d metadata mode writer w result out v"
proof -
  from assms(1) obtain event where "\<not> py_eq boot writer" "py_eq (dget status ''boot_id'') boot" "is_healthy_of boot event"
    "seen w v {(Next_event, Inr (JDict event)), (Hub_status d, Inr (JDict status))}"
    using assms(2) by (auto simp: saw_accepted_def other_boot_def insert_commute)
  moreover from this(4) have "seen w v {(Hub_status d, Inr (JDict status))}" by (rule seen_weaken) simp
  ultimately show ?thesis using assms(2-4) unfolding ota_proof_def by blast
qed

lemma bind_accepted:
  assumes "seen w y {}" and "\<And>boot z. seen w z {} \<Longrightarrow> wp (f (boot, None)) Q (\<lambda>e v. seen w v {}) z"
    and "\<And>boot status z. saw_accepted w z {} d writer boot status \<Longrightarrow> wp (f (boot, Some status)) Q (\<lambda>e v. seen w v {}) z"
  shows "wp (sbind (wait_accepted d writer JNull) f) Q (\<lambda>e v. seen w v {}) y"
  unfolding wp_sbind
  by (rule wp_mono [OF wait_accepted_wp [OF assms(1)]]) (use assms(2,3) in \<open>auto simp: other_boot_def split: option.splits\<close>)

lemma observe_ota_restart_wp:
  assumes "seen w v {}"
  shows "wp (observe_ota_restart txt lower d metadata execution mode previous writer recovery result)
    (ota_proof txt lower d metadata mode writer w result) (\<lambda>e v. seen w v {}) v"
  unfolding observe_ota_restart_def
  by (rule bind_quiet [OF assms], intro quiet.rules quiet_rules, rule bind_quiet, assumption, intro quiet_rules,
     rule bind_accepted, assumption, simp add: wp_simps, unfold prod.case option.case, intro bind_guard bind_lift)
   (auto simp: wp_simps dget_dupdate item_def u_inject intro: ota_proof_observed saw_accepted_seen simp del: u_simps u_Cons)

text \<open>The call that writes an image, and what is known of a run that raises.\<close>

definition ota_write :: "ustr \<Rightarrow> bytes \<Rightarrow> dict \<Rightarrow> hub_call \<Rightarrow> bool" where
  "ota_write d img metadata c \<longleftrightarrow>
     (\<exists>digest sha project version. dindex metadata ''sha256'' = Inr digest \<and> salt_of digest = Inr sha \<and>
        dindex metadata ''project_name'' = Inr project \<and> dindex metadata ''version'' = Inr version \<and>
        c = Hub_ota_update d img sha project version)"

definition ota_at_most :: "hub_world \<Rightarrow> ustr \<Rightarrow> bytes \<Rightarrow> dict \<Rightarrow> (hub_call \<times> json res) set \<Rightarrow> hub_world \<Rightarrow> bool" where
  "ota_at_most w0 d img metadata S v \<longleftrightarrow> seen w0 v S \<or> (\<exists>c a. ota_write d img metadata c \<and> written w0 c S a v {})"

definition ota_observed ::
  "(json \<Rightarrow> ustr) \<Rightarrow> (ustr \<Rightarrow> ustr) \<Rightarrow> hub_world \<Rightarrow> ustr \<Rightarrow> bytes \<Rightarrow> dict \<Rightarrow> string \<Rightarrow> json \<Rightarrow> (hub_call \<times> json res) set \<Rightarrow>
   dict \<Rightarrow> hub_world \<Rightarrow> bool" where
  "ota_observed txt lower w0 d img metadata mode writer S out v \<longleftrightarrow>
     (\<exists>c result status boot validation T. ota_write d img metadata c \<and> boot \<noteq> JNull \<and> \<not> py_eq boot writer \<and>
        (dget status ''boot_id'' = boot \<or> py_eq (dget status ''boot_id'') boot) \<and>
        validate_ota_identity txt lower status metadata mode = Inr validation \<and> dget out ''validation'' = JDict validation \<and>
        (truthy (dget result ''healthy'') \<or> (\<exists>event. is_healthy_of boot event \<and> (Next_event, Inr (JDict event)) \<in> T)) \<and>
        (Hub_status d, Inr (JDict status)) \<in> T \<and> written w0 c S (Inr (JDict result)) v T)"

lemma ota_observed_intro:
  assumes "seen w0 v S" "hw_log v' = hw_log v @ [(c, Inr (JDict result))]" "ota_write d img metadata c"
    and "ota_proof txt lower d metadata mode writer v' result out y"
  shows "ota_observed txt lower w0 d img metadata mode writer S out y"
  using assms(4) unfolding ota_proof_def ota_observed_def
  by (elim exE conjE disjE) (use assms(3) writtenI [OF assms(1,2)] in blast)+


lemma ota_at_most_written:
  assumes "seen w0 v S" and "hw_log v' = hw_log v @ [(c, a)]" and "ota_write d img metadata c" and "seen v' y {}"
  shows "ota_at_most w0 d img metadata S y"
  unfolding ota_at_most_def using writtenI [OF assms(1,2,4)] assms(3) by blast

lemma ota_result_wp:
  "wp (sbind (slift (case x of JDict r \<Rightarrow> Inr r | _ \<Rightarrow> Inl AttributeError)) (\<lambda>result.
     sbind (hub_progress (u ''waiting_device'') 900 [item ''job_id'' (dget result ''job_id'')]) (\<lambda>_.
     if truthy (dget result ''healthy'')
     then accept_result txt lower d metadata execution mode writer recovery result
     else sbind (sraise_if demo AssertionError) (\<lambda>_.
       observe_ota_restart txt lower d metadata execution mode previous writer recovery result))))
   (\<lambda>out y. \<exists>result. x = JDict result \<and> ota_proof txt lower d metadata mode writer v result out y) (\<lambda>e y. seen v y {}) v"
proof (rule bind_lift)
  fix result assume "(case x of JDict r \<Rightarrow> Inr r | _ \<Rightarrow> Inl AttributeError) = Inr result"
  then have x: "x = JDict result" by (auto split: json.splits)
  show "wp (sbind (hub_progress (u ''waiting_device'') 900 [item ''job_id'' (dget result ''job_id'')]) (\<lambda>_.
     if truthy (dget result ''healthy'')
     then accept_result txt lower d metadata execution mode writer recovery result
     else sbind (sraise_if demo AssertionError) (\<lambda>_.
       observe_ota_restart txt lower d metadata execution mode previous writer recovery result)))
   (\<lambda>out y. \<exists>result. x = JDict result \<and> ota_proof txt lower d metadata mode writer v result out y) (\<lambda>e y. seen v y {}) v"
  proof (rule bind_quiet [OF seen_refl])
    fix y assume y: "seen v y {}"
    show "wp (if truthy (dget result ''healthy'')
       then accept_result txt lower d metadata execution mode writer recovery result
       else sbind (sraise_if demo AssertionError) (\<lambda>_.
         observe_ota_restart txt lower d metadata execution mode previous writer recovery result))
     (\<lambda>out y. \<exists>result. x = JDict result \<and> ota_proof txt lower d metadata mode writer v result out y) (\<lambda>e y. seen v y {}) y"
      using accept_result_wp [OF y] observe_ota_restart_wp [OF y] y by (simp add: x wp_if wp_sbind wp_sraise_if)
  qed (intro quiet_rules)
qed simp

lemma write_ota_wp:
  assumes "seen w0 w S"
  shows "wp (write_ota txt lower demo d img metadata execution mode previous writer recovery)
    (ota_observed txt lower w0 d img metadata mode writer S) (\<lambda>e. ota_at_most w0 d img metadata S) w"
proof -
  have before: "ota_at_most w0 d img metadata S v" if "seen w0 v S" for v
    using that by (simp add: ota_at_most_def)
  have after: "wp (sbind (transfer c report (-10 :: int)) f)
      (ota_observed txt lower w0 d img metadata mode writer S) (\<lambda>e. ota_at_most w0 d img metadata S) v"
    if v: "seen w0 v S" and c: "ota_write d img metadata c" and quiet: "\<And>k p. leads grows (report k p)"
      and f: "\<And>x v. wp (f x) (\<lambda>out y. \<exists>result. x = JDict result \<and> ota_proof txt lower d metadata mode writer v result out y)
        (\<lambda>e y. seen v y {}) v" for c report f v
    unfolding wp_sbind
  proof (rule transfer_wp [OF quiet v])
    fix x and y y' :: hub_world assume y: "seen w0 y S" "hw_log y' = hw_log y @ [(c, Inr x)]"
    show "wp (f x) (ota_observed txt lower w0 d img metadata mode writer S) (\<lambda>e. ota_at_most w0 d img metadata S) y'"
      by (rule wp_mono [OF f]) (use y c in \<open>auto intro: ota_observed_intro ota_at_most_written\<close>)
  qed (use c in \<open>auto intro: before ota_at_most_written\<close>)
  show ?thesis
    unfolding write_ota_def
    by (rule bind_quiet [OF assms], intro quiet_rules, rule bind_lift, rule bind_lift, rule bind_lift, rule after, assumption,
       force simp: ota_write_def res_simps, intro quiet_rules, rule ota_result_wp) (auto intro: before)
qed

lemma ota_observed_grows:
  "ota_observed txt lower w0 d img metadata mode writer S out v \<Longrightarrow> grows v y \<Longrightarrow>
   ota_observed txt lower w0 d img metadata mode writer S out y"
  unfolding ota_observed_def by (elim exE conjE) (intro exI conjI, assumption+, erule written_grows, assumption)

lemma ota_at_most_grows: "ota_at_most w0 d img metadata S v \<Longrightarrow> grows v y \<Longrightarrow> ota_at_most w0 d img metadata S y"
  unfolding ota_at_most_def using written_grows seen_grows by blast

lemma guarded_ota_wp:
  assumes "seen w0 w S"
  shows "wp (guarded_ota txt lower demo d img metadata execution mode previous writer recovery)
    (ota_observed txt lower w0 d img metadata mode writer S)
    (\<lambda>e v. ota_at_most w0 d img metadata S v \<and> \<not> is_lost_contact e) w"
  unfolding guarded_ota_def
  by (rule guarded_wp [OF assms write_ota_wp]) (auto intro: ota_observed_grows ota_at_most_grows)


text \<open>The device that writes an image; the boot it is known by is the one of its status.\<close>

definition writer_known ::
  "hub_world \<Rightarrow> (hub_call \<times> json res) set \<Rightarrow> ustr \<Rightarrow> dict \<Rightarrow> dict \<times> json \<Rightarrow> hub_world \<Rightarrow> bool" where
  "writer_known w0 S d before x v \<longleftrightarrow> seen w0 v (insert (Hub_status d, Inr (JDict (fst x))) S) \<and> writes_from before (fst x) \<and>
     (if snd x \<noteq> JNull then snd x else dget before ''boot_id'') = dget (fst x) ''boot_id''"

lemma found_recovery_wp:
  assumes "seen w0 w S" and "p = dget before ''boot_id''"
  shows "wp (sbind (wait_recovery d p) (\<lambda>found. sbind (sraise_if ((case found of Some s \<Rightarrow> dget s ''boot_id'' | None \<Rightarrow> JNull) = JNull) e) (\<lambda>_.
      sbind (hub_progress name n [item k (case found of Some s \<Rightarrow> dget s ''boot_id'' | None \<Rightarrow> JNull)]) (\<lambda>_.
      sret (case found of Some s \<Rightarrow> s | None \<Rightarrow> [], case found of Some s \<Rightarrow> dget s ''boot_id'' | None \<Rightarrow> JNull)))))
    (writer_known w0 S d before) (\<lambda>e v. seen w0 v S) w"
  unfolding wp_sbind
proof (rule wp_mono [OF wait_recovery_wp [OF assms(1)]])
  fix found y assume y: "case found of None \<Rightarrow> seen w0 y S | Some s \<Rightarrow> in_recovery p s \<and> seen w0 y (insert (Hub_status d, Inr (JDict s)) S)"
  show "wp (sraise_if ((case found of Some s \<Rightarrow> dget s ''boot_id'' | None \<Rightarrow> JNull) = JNull) e) (\<lambda>_.
    wp (hub_progress name n [item k (case found of Some s \<Rightarrow> dget s ''boot_id'' | None \<Rightarrow> JNull)]) (\<lambda>_.
    wp (sret (case found of Some s \<Rightarrow> s | None \<Rightarrow> [], case found of Some s \<Rightarrow> dget s ''boot_id'' | None \<Rightarrow> JNull))
      (writer_known w0 S d before) (\<lambda>e v. seen w0 v S)) (\<lambda>e v. seen w0 v S)) (\<lambda>e v. seen w0 v S) y"
  proof (cases found)
    case None
    with y show ?thesis by (simp add: wp_simps)
  next
    case (Some s)
    with y assms(2) have s: "writes_from before s" "seen w0 y (insert (Hub_status d, Inr (JDict s)) S)"
      by (simp_all add: in_recovery_def writes_from_def)
    have "wp (hub_progress name n [item k (dget s ''boot_id'')]) (\<lambda>_. writer_known w0 S d before (s, dget s ''boot_id''))
        (\<lambda>e v. seen w0 v S) y" if "dget s ''boot_id'' \<noteq> JNull"
      by (rule wp_quiet [OF _ s(2)]) (use that in \<open>auto simp: writer_known_def intro: quiet_rules s(1) seen_weaken\<close>)
    with Some s(2) show ?thesis by (auto simp: wp_sraise_if wp_sret intro: seen_weaken)
  qed
qed

lemma ota_writer_wp:
  assumes "seen w0 w S" "(Hub_status d, Inr (JDict before)) \<in> S"
  shows "wp (ota_writer d recovery before) (writer_known w0 S d before) (\<lambda>e v. seen w0 v S) w"
proof (cases "recovery \<and> dget before ''firmware_mode'' \<noteq> jstr ''recovery''")
  case True
  show ?thesis
    unfolding ota_writer_def if_P [OF True] Let_def
    by (rule bind_quiet [OF assms(1)], intro quiet_rules, rule bind_quiet, assumption, intro quiet_rules,
      rule bind_quiet, assumption, intro quiet_rules, rule found_recovery_wp, assumption) auto
next
  case False
  with assms show ?thesis
    by (simp only: ota_writer_def if_not_P wp_sret) (simp add: wp_sret writer_known_def writes_from_def insert_absorb)
qed

lemma bind_ota_writer:
  assumes "seen w0 w S" "(Hub_status d, Inr (JDict before)) \<in> S"
    and "\<And>s boot v. seen w0 v (insert (Hub_status d, Inr (JDict s)) S) \<Longrightarrow> writes_from before s \<Longrightarrow>
      (if boot \<noteq> JNull then boot else dget before ''boot_id'') = dget s ''boot_id'' \<Longrightarrow> wp (f (s, boot)) Q E v"
    and "\<And>e v. seen w0 v S \<Longrightarrow> E e v"
  shows "wp (sbind (ota_writer d recovery before) f) Q E w"
  unfolding wp_sbind
  by (rule wp_mono [OF ota_writer_wp [OF assms(1,2)]]) (use assms(3,4) in \<open>auto simp: writer_known_def cong: if_cong\<close>)

section \<open>A run of the OTA update\<close>

definition ota_lawful :: "dict \<Rightarrow> string \<Rightarrow> json \<Rightarrow> dict \<Rightarrow> dict \<Rightarrow> bool" where
  "ota_lawful metadata execution compatibility before writing \<longleftrightarrow> writes_from before writing \<and>
     (\<exists>contract carried. validate_update_compatibility before (dget metadata ''chip_id'') compatibility False = Inr contract \<and>
        validate_update_compatibility writing (dget metadata ''chip_id'') (JDict contract) (execution = ''recovery'') = Inr carried)"

definition ota_failed :: "hub_world \<Rightarrow> ustr \<Rightarrow> bytes \<Rightarrow> dict \<Rightarrow> string \<Rightarrow> json \<Rightarrow> exn \<Rightarrow> hub_world \<Rightarrow> bool" where
  "ota_failed w0 d img metadata execution compatibility e v \<longleftrightarrow> seen w0 v {} \<or>
     (\<exists>before writing c a. ota_lawful metadata execution compatibility before writing \<and> ota_write d img metadata c \<and>
        written w0 c (both d before writing) a v {} \<and> \<not> is_lost_contact e)"

definition ota_done ::
  "(json \<Rightarrow> ustr) \<Rightarrow> (ustr \<Rightarrow> ustr) \<Rightarrow> hub_world \<Rightarrow> ustr \<Rightarrow> bytes \<Rightarrow> dict \<Rightarrow> string \<Rightarrow> string \<Rightarrow> json \<Rightarrow> dict \<Rightarrow> hub_world \<Rightarrow> bool" where
  "ota_done txt lower w0 d img metadata execution mode compatibility out v \<longleftrightarrow>
     (\<exists>before writing. ota_lawful metadata execution compatibility before writing \<and>
        ota_observed txt lower w0 d img metadata mode (dget writing ''boot_id'') (both d before writing) out v)"

lemma ota_failed_before: "seen w0 v S \<Longrightarrow> ota_failed w0 d img metadata execution compatibility e v"
  unfolding ota_failed_def by (auto intro: seen_weaken)

lemma ota_tail_wp:
  assumes "seen w0 w S" and "both d before writing \<subseteq> S" and lawful: "ota_lawful metadata execution compatibility before writing"
    and "writer = dget writing ''boot_id''"
  shows "wp (guarded_ota txt lower demo d img metadata execution mode previous writer recovery)
    (ota_done txt lower w0 d img metadata execution mode compatibility) (ota_failed w0 d img metadata execution compatibility) w"
proof (rule wp_mono [OF guarded_ota_wp])
  show "seen w0 w (both d before writing)" using assms(1,2) by (rule seen_weaken)
  show "ota_done txt lower w0 d img metadata execution mode compatibility out v"
    if "ota_observed txt lower w0 d img metadata mode writer (both d before writing) out v" for out v
    using that lawful assms(4) unfolding ota_done_def by blast
  show "ota_failed w0 d img metadata execution compatibility e v"
    if "ota_at_most w0 d img metadata (both d before writing) v \<and> \<not> is_lost_contact e" for e v
    using that lawful unfolding ota_failed_def ota_at_most_def by (blast intro: seen_weaken)
qed

lemma closed_loop_ota_wp:
  "wp (closed_loop_ota txt lower demo override d img metadata execution mode compatibility)
     (ota_done txt lower w d img metadata execution mode compatibility) (ota_failed w d img metadata execution compatibility) w"
  unfolding closed_loop_ota_def Let_def
  by (rule bind_guard, rule bind_lift, rule bind_dict [OF seen_refl], simp, rule bind_lift, rule bind_lift,
    rule bind_quiet, assumption, intro quiet.rules, rule bind_ota_writer, assumption, simp, unfold prod.case, rule bind_lift,
    rule ota_tail_wp, assumption)
   (auto simp: both_def ota_lawful_def intro: ota_failed_before ota_failed_before [OF seen_refl])





text \<open>A device that writes an image in its running mode and answers as it should.\<close>

definition ex_text :: "json \<Rightarrow> ustr" where
  "ex_text v = (case v of JStr s \<Rightarrow> s | _ \<Rightarrow> [])"

definition ex_app :: "int \<Rightarrow> dict" where
  "ex_app n = ex_device n @ [item ''project_name'' (jstr ''p''), item ''app_version'' (jstr ''2'')]"

definition ex_metadata :: dict where
  "ex_metadata = [item ''chip_id'' (JInt 32), item ''sha256'' (jstr ''''), item ''project_name'' (jstr ''p''), item ''version'' (jstr ''2'')]"

definition ex_ota_world :: hub_world where
  "ex_ota_world = \<lparr>hw_replies = map (Inr \<circ> Answer)
     [JDict (ex_app 1), JNull, JDict [item ''completion_evidence'' (jstr ''session_close'')], JNull, JNull,
      JBool True, JDict ex_event, JDict (ex_app 2)], hw_log = []\<rparr>"

lemma ex_app_contract: "require_contract (ex_app n) ex_required = Inr ()"
  by (simp add: require_contract_Inr ex_required_def ex_app_def ex_device_def item_def jstr_def)

lemma ex_app_carry: "carry_forward (ex_app n) CONTRACT_FIELDS ex_required = ex_required"
  by (simp add: CONTRACT_FIELDS_def ex_required_def ex_app_def ex_device_def item_def jstr_def dget_def dget_default_def undeclared_def Let_def)

lemma ex_app_dget:
  "dget (ex_app n) ''firmware_mode'' = jstr ''recovery''" "dget (ex_app n) ''boot_id'' = JInt n"
  "dget (ex_app n) ''project_name'' = jstr ''p''" "dget_default (ex_app n) ''app_version'' x = jstr ''2''"
  "dget_default (ex_app n) ''ota_project_name_match_required'' x = x"
  "dget ex_metadata ''chip_id'' = JInt 32" "dindex ex_metadata ''sha256'' = Inr (jstr '''')"
  "dindex ex_metadata ''project_name'' = Inr (jstr ''p'')" "dindex ex_metadata ''version'' = Inr (jstr ''2'')"
  "dget ex_metadata ''project_name'' = jstr ''p''" "dget_default ex_metadata ''version'' x = jstr ''2''"
  "dget [item ''completion_evidence'' y] ''completion_evidence'' = y" "dget [item ''completion_evidence'' y] ''healthy'' = JNull"
  by (simp_all add: ex_app_def ex_device_def ex_metadata_def dget_def dget_default_def dindex_def item_def)

lemmas ex_app_compat = ex_compat [OF ex_app_dget(1) ex_app_contract ex_app_carry]

lemma ex_accepted:
  "wait_accepted d (JInt 1) JNull
     \<lparr>hw_replies = Inr (Answer (JBool True)) # Inr (Answer (JDict ex_event)) # Inr (Answer (JDict (ex_app 2))) # rs, hw_log = l\<rparr> =
   (Inr (JInt 2, Some (ex_app 2)), \<lparr>hw_replies = rs, hw_log = l @ [(Before_deadline, Inr (JBool True)),
      (Next_event, Inr (JDict ex_event)), (Hub_status d, Inr (JDict (ex_app 2)))]\<rparr>)"
  by (simp add: wait_accepted.simps before_deadline_def next_event_def ex_ask ex_ask_dict st_run truthy.simps
      event_new_boot_def is_healthy_of_def ex_dget ex_app_dget)

lemma ex_identity: "\<exists>x. validate_ota_identity ex_text id (ex_app n) ex_metadata ''version'' = Inr x"
  by (simp add: validate_ota_identity_def require_ota_validation_mode_def OTA_VALIDATION_MODES_def ex_app_dget ex_text_def jstr_def Let_def)

lemma ex_ota_run:
  "\<exists>out v. closed_loop_ota ex_text id False (Some 30) [] [1] ex_metadata ''application'' ''version'' (JDict []) ex_ota_world = (Inr out, v)"
proof -
  obtain x where x: "validate_ota_identity ex_text id (ex_app 2) ex_metadata ''version'' = Inr x" using ex_identity by blast
  have sha: "salt_of (jstr '''') = Inr []" by (simp add: salt_of_def jstr_def)
  have mode: "require_ota_validation_mode ''version'' = Inr ()" by (simp add: require_ota_validation_mode_def OTA_VALIDATION_MODES_def)
  show ?thesis
    by (simp add: closed_loop_ota_def ex_ota_world_def mode ex_ask_dict ex_app_compat ex_app_dget health_timeout_def truthy.simps
      ota_writer_def guarded_ota_def write_ota_def hub_progress_def ex_ask sha ex_transfer observe_ota_restart_def ex_accepted x
      st_run hub_note_def Let_def del: u_simps u_Cons)
qed



end
