(* ===== verification/Gateway_Service.thy ===== *)
theory Gateway_Service
  imports Operation_Safety Security Py_Value
begin

text \<open>
  The service object of \<^verbatim>\<open>gateway.py\<close> (\<^verbatim>\<open>GatewayService\<close>): the events of devices and their subscribers, the mode of
  the gateway, the list of devices and the status of one. The hub is asked for its devices and answers in the argument
  \<open>hub\<close>, which is \<open>None\<close> while no hub is attached. Clock readings, \<^verbatim>\<open>str()\<close> and the Unicode classes of space and digit
  are arguments. The device identifier of an event is a text or absent.
\<close>

section \<open>Log lines\<close>

text \<open>\<^verbatim>\<open>.*$\<close>: the rest of a line, before a final line feed.\<close>

definition line_rest :: "ustr \<Rightarrow> ustr option" where
  "line_rest s =
     (let rest = dropWhile (\<lambda>c. c \<noteq> 10) s in if rest = [] \<or> rest = [10] then Some (takeWhile (\<lambda>c. c \<noteq> 10) s) else None)"

text \<open>\<^verbatim>\<open>\s?(?P<message>.*)$\<close>: the space is taken when the rest still matches.\<close>

definition log_message :: "(nat \<Rightarrow> bool) \<Rightarrow> ustr \<Rightarrow> ustr option" where
  "log_message space s =
     (case s of
        [] \<Rightarrow> line_rest s
      | c # r \<Rightarrow> if space c then (case line_rest r of Some m \<Rightarrow> Some m | None \<Rightarrow> line_rest s) else line_rest s)"

text \<open>\<^verbatim>\<open>\s+(?P<tag>[^:]+):\s?(?P<message>.*)$\<close>: the spaces leave one character to the tag when nothing else stands before
  the colon.\<close>

definition log_tail :: "(nat \<Rightarrow> bool) \<Rightarrow> ustr \<Rightarrow> (ustr \<times> ustr) option" where
  "log_tail space s =
     (let gap = takeWhile space s; body = dropWhile space s;
          name = takeWhile (\<lambda>c. c \<noteq> 58) body;
          tag = (if name \<noteq> [] then name else if length gap \<ge> 2 then [last gap] else []) in
      if gap = [] \<or> tag = [] then None
      else case dropWhile (\<lambda>c. c \<noteq> 58) body of
             [] \<Rightarrow> None
           | _ # r \<Rightarrow> map_option (\<lambda>m. (tag, m)) (log_message space r))"

text \<open>\<^verbatim>\<open>LOG_PATTERN.match(text)\<close> and \<^verbatim>\<open>groupdict()\<close>.\<close>

definition match_log :: "(nat \<Rightarrow> bool) \<Rightarrow> (nat \<Rightarrow> bool) \<Rightarrow> ustr \<Rightarrow> dict option" where
  "match_log space digit s =
     (case s of
        [] \<Rightarrow> None
      | level # r \<Rightarrow>
          if level \<notin> set (u ''EWIDV'') \<or> takeWhile space r = [] then None
          else case dropWhile space r of
                 [] \<Rightarrow> None
               | c # r2 \<Rightarrow>
                   let stamp = takeWhile digit r2 in
                   if c \<noteq> 40 \<or> stamp = [] then None
                   else case dropWhile digit r2 of
                          [] \<Rightarrow> None
                        | c # r3 \<Rightarrow>
                            if c \<noteq> 41 then None
                            else map_option (\<lambda>(tag, message).
                                   [item ''level'' (JStr [level]), item ''stamp'' (JStr stamp), item ''tag'' (JStr tag),
                                    item ''message'' (JStr message)]) (log_tail space r3))"

section \<open>State\<close>

text \<open>A subscriber is a bounded queue; the set of queues is a list in the order of its iteration.\<close>

record service =
  sv_manager :: manager
  sv_mode :: string
  sv_mode_transition :: bool
  sv_subscribers :: "(nat \<times> dict list) list"

definition on_manager :: "(manager, 'a) st \<Rightarrow> (service, 'a) st" where
  "on_manager m s = (case m (sv_manager s) of (r, t) \<Rightarrow> (r, s\<lparr>sv_manager := t\<rparr>))"

definition in_tables :: "(store, 'a) st \<Rightarrow> (service, 'a) st" where
  "in_tables m = on_manager (on_store m)"

definition set_gauge :: "string \<Rightarrow> nat \<Rightarrow> (service, unit) st" where
  "set_gauge name n = on_manager (on_metrics (gauge name (float_of_int (int n))))"

section \<open>Queues\<close>

definition QUEUE_SIZE :: nat where
  "QUEUE_SIZE = 1024"

definition put_nowait :: "dict \<Rightarrow> (dict list, unit) st" where
  "put_nowait x =
     sbind (sget (\<lambda>q. length q \<ge> QUEUE_SIZE)) (\<lambda>full.
     sbind (sraise_if full QueueFull) (\<lambda>_.
     smod (\<lambda>q. q @ [x])))"

definition gap_event :: "int \<Rightarrow> dict" where
  "gap_event now = [item ''kind'' (jstr ''history_gap''), item ''category'' (jstr ''system''), item ''host_receive_ns'' (JInt now),
     item ''reason'' (jstr ''live subscriber queue overflow'')]"

definition deliver :: "int \<Rightarrow> dict \<Rightarrow> (dict list, unit) st" where
  "deliver now x =
     sbind (sget (\<lambda>q. length q \<ge> QUEUE_SIZE)) (\<lambda>full.
     sbind (if full then sbind (smod tl) (\<lambda>_. put_nowait (gap_event now)) else sret ()) (\<lambda>_.
     put_nowait x))"

fun each_queue :: "(dict list, unit) st \<Rightarrow> (nat \<times> dict list) list \<Rightarrow> unit res \<times> (nat \<times> dict list) list" where
  "each_queue m [] = (Inr (), [])"
| "each_queue m ((i, q) # qs) =
     (case m q of
        (Inl e, q') \<Rightarrow> (Inl e, (i, q') # qs)
      | (Inr _, q') \<Rightarrow> (case each_queue m qs of (r, qs') \<Rightarrow> (r, (i, q') # qs')))"

definition on_subscribers :: "(dict list, unit) st \<Rightarrow> (service, unit) st" where
  "on_subscribers m s = (case each_queue m (sv_subscribers s) of (r, qs) \<Rightarrow> (r, s\<lparr>sv_subscribers := qs\<rparr>))"

definition subscribe :: "(service, nat) st" where
  "subscribe =
     sbind (sget (\<lambda>s. Suc (fold max (map fst (sv_subscribers s)) 0))) (\<lambda>i.
     sbind (smod (\<lambda>s. s\<lparr>sv_subscribers := (i, []) # sv_subscribers s\<rparr>)) (\<lambda>_.
     sbind (sget (\<lambda>s. length (sv_subscribers s))) (\<lambda>n.
     sbind (set_gauge ''events.subscribers'' n) (\<lambda>_.
     sret i))))"

definition unsubscribe :: "nat \<Rightarrow> (service, unit) st" where
  "unsubscribe i =
     sbind (smod (\<lambda>s. s\<lparr>sv_subscribers := filter (\<lambda>q. fst q \<noteq> i) (sv_subscribers s)\<rparr>)) (\<lambda>_.
     sbind (sget (\<lambda>s. length (sv_subscribers s))) (\<lambda>n.
     set_gauge ''events.subscribers'' n))"

section \<open>Events\<close>

text \<open>The category of an event, and the event with the parts of its log line.\<close>

definition event_category :: "ustr \<Rightarrow> string" where
  "event_category kind = (if kind = u ''log'' then ''log'' else if kind = u ''operation'' then ''operation'' else ''device'')"

definition parsed_event :: "(json \<Rightarrow> ustr) \<Rightarrow> (nat \<Rightarrow> bool) \<Rightarrow> (nat \<Rightarrow> bool) \<Rightarrow> ustr \<Rightarrow> dict \<Rightarrow> dict" where
  "parsed_event txt space digit kind event =
     (if kind = u ''log'' then
        (case match_log space digit (txt (dget_default event ''text'' (jstr ''''))) of
           Some groups \<Rightarrow> dput event (u ''parsed'') (JDict groups)
         | None \<Rightarrow> event)
      else event)"

definition text_option :: "json \<Rightarrow> ustr option" where
  "text_option v = (case v of JStr s \<Rightarrow> Some s | _ \<Rightarrow> None)"

text \<open>The device of the event as the hub knows it now.\<close>

definition remember_sender :: "int \<Rightarrow> device_entry list option \<Rightarrow> json \<Rightarrow> (service, unit) st" where
  "remember_sender now hub device_id =
     (case hub of
        Some entries \<Rightarrow>
          if truthy device_id then
            (case find (\<lambda>e. JStr (de_device_id e) = device_id) entries of
               None \<Rightarrow> sret ()
             | Some e \<Rightarrow> in_tables (remember_device now (e\<lparr>de_info := dput (de_info e) (u ''connected'') (JBool True)\<rparr>)))
          else sret ()
      | None \<Rightarrow> sret ())"

definition on_device_event ::
  "(json \<Rightarrow> ustr) \<Rightarrow> (nat \<Rightarrow> bool) \<Rightarrow> (nat \<Rightarrow> bool) \<Rightarrow> int \<Rightarrow> device_entry list option \<Rightarrow> dict \<Rightarrow> (service, unit) st" where
  "on_device_event txt space digit now hub event =
     (let device_id = dget event ''device_id'';
          kind = txt (dget_default event ''kind'' (jstr ''device_event''));
          category = event_category kind;
          doc = normalize_event now (parsed_event txt space digit kind event) (u category) (u ''gateway'') in
      sbind (on_manager (on_metrics (increment (''events.'' @ category) 1))) (\<lambda>_.
      sbind (remember_sender now hub device_id) (\<lambda>_.
      sbind (in_tables (append_event now (u category) doc (text_option device_id))) (\<lambda>persisted.
      sbind (on_subscribers (deliver now persisted)) (\<lambda>_.
      sbind (sget (\<lambda>s. length (sv_subscribers s))) (\<lambda>n.
      set_gauge ''events.subscribers'' n))))))"

definition audit_dict :: "audit_row \<Rightarrow> dict" where
  "audit_dict a = [item ''audit_id'' (jnat (au_audit_id a)), item ''actor_type'' (JStr (au_actor_type a)),
     item ''actor_name'' (JStr (au_actor_name a)), item ''action'' (JStr (au_action a)), item ''details'' (au_details a),
     item ''created_ns'' (JInt (au_created_ns a))]"

definition broadcast_system :: "int \<Rightarrow> audit_row \<Rightarrow> (service, unit) st" where
  "broadcast_system now audit =
     sbind (in_tables (append_event now (u ''system'')
              [item ''kind'' (jstr ''system_audit''), item ''audit'' (JDict (audit_dict audit)), item ''host_receive_wall_ns'' (JInt now)] None)) (\<lambda>x.
     on_subscribers (sbind (sget (\<lambda>q. length q \<ge> QUEUE_SIZE)) (\<lambda>full. if full then sret () else put_nowait x)))"

section \<open>Mode\<close>

definition mode_state :: "service \<Rightarrow> dict" where
  "mode_state s = [item ''mode'' (jstr (sv_mode s)), item ''transitioning'' (JBool (sv_mode_transition s)),
     item ''default'' (jstr ''develop''), item ''observe_behavior'' (jstr ''cached_state_only'')]"

definition require_develop :: "(service, bool) st" where
  "require_develop = sget (\<lambda>s. sv_mode s = ''develop'')"

definition set_mode :: "string \<Rightarrow> (service, unit) st" where
  "set_mode mode =
     sbind (smod (\<lambda>s. s\<lparr>sv_mode := mode\<rparr>)) (\<lambda>_.
     in_tables (set_setting (u ''mode'') (jstr mode)))"

definition switch_mode :: "sink \<Rightarrow> int \<Rightarrow> string \<Rightarrow> actor \<Rightarrow> (service, dict) st" where
  "switch_mode sink now mode actor =
     sbind (sraise_if (mode \<notin> {''develop'', ''observe''}) (ValueError ''mode must be develop or observe'')) (\<lambda>_.
     sbind (sget sv_mode) (\<lambda>previous.
     if previous = mode then sget mode_state
     else
       sbind (set_mode mode) (\<lambda>_.
       sbind (if mode = ''observe'' then
                sbind (smod (\<lambda>s. s\<lparr>sv_mode_transition := True\<rparr>)) (\<lambda>_. on_manager (cancel_queued sink now))
              else sbind (smod (\<lambda>s. s\<lparr>sv_mode_transition := False\<rparr>)) (\<lambda>_. sret 0)) (\<lambda>cancelled.
       sbind (in_tables (add_audit now (ac_kind actor) (ac_name actor) (u ''mode.changed'')
                (JDict [item ''from'' (jstr previous), item ''to'' (jstr mode), item ''cancelled_queued'' (jnat cancelled)]))) (\<lambda>audit.
       sbind (broadcast_system now audit) (\<lambda>_.
       sget mode_state))))))"

text \<open>One round of \<^verbatim>\<open>_finish_mode_transition\<close>: whether it ends.\<close>

definition finish_mode_transition :: "(json \<Rightarrow> ustr) \<Rightarrow> (service, bool) st" where
  "finish_mode_transition txt =
     sbind (in_tables cached_devices) (\<lambda>devices.
     sbind (sget (\<lambda>s. list_ex (\<lambda>d. qv_running (queue_state (txt (dget_default d ''device_id'' (jstr ''''))) (sv_manager s)) \<noteq> [])
                        devices)) (\<lambda>busy.
     if busy then sret False
     else sbind (smod (\<lambda>s. s\<lparr>sv_mode_transition := False\<rparr>)) (\<lambda>_. sret True)))"

section \<open>Devices\<close>

definition connected_entry :: "device_entry \<Rightarrow> device_entry" where
  "connected_entry e = e\<lparr>de_info := dupdate (de_info e) [item ''connected'' (JBool True), item ''cached'' (JBool False)]\<rparr>"

definition connected_devices :: "device_entry list option \<Rightarrow> (ustr \<times> device_entry) list" where
  "connected_devices hub =
     fold (\<lambda>e d. aput d (de_device_id e) (connected_entry e)) (case hub of Some es \<Rightarrow> es | None \<Rightarrow> []) []"

definition index_devices :: "(json \<Rightarrow> ustr) \<Rightarrow> dict list \<Rightarrow> (ustr \<times> dict) list res" where
  "index_devices txt docs = foldlr (\<lambda>d doc. bindr (dindex doc ''device_id'') (\<lambda>v. Inr (aput d (txt v) doc))) [] docs"

definition with_alias :: "dict \<Rightarrow> dict \<Rightarrow> dict" where
  "with_alias old info =
     (if truthy (dget old ''alias'') then dput info (u ''alias'') (dget old ''alias'')
      else if truthy (dget info ''suggested_alias'') then dput info (u ''alias'') (dget info ''suggested_alias'') else info)"

fun merge_devices :: "int \<Rightarrow> (ustr \<times> device_entry) list \<Rightarrow> (ustr \<times> dict) list \<Rightarrow> (service, (ustr \<times> dict) list) st" where
  "merge_devices now [] cached = sret cached"
| "merge_devices now ((device_id, e) # es) cached =
     (let info = with_alias (case map_of cached device_id of Some old \<Rightarrow> old | None \<Rightarrow> []) (de_info e) in
      sbind (in_tables (remember_device now (e\<lparr>de_info := info\<rparr>))) (\<lambda>_.
      merge_devices now es (aput cached device_id info)))"

definition device_sort_key :: "(json \<Rightarrow> ustr) \<Rightarrow> dict \<Rightarrow> ustr" where
  "device_sort_key txt d = txt (if truthy (dget d ''alias'') then dget d ''alias'' else dget d ''device_id'')"

definition list_devices :: "(json \<Rightarrow> ustr) \<Rightarrow> int \<Rightarrow> device_entry list option \<Rightarrow> (service, dict list) st" where
  "list_devices txt now hub =
     (let connected = connected_devices hub in
      sbind (in_tables cached_devices) (\<lambda>docs.
      sbind (slift (index_devices txt docs)) (\<lambda>cached.
      sbind (merge_devices now connected cached) (\<lambda>merged.
      let known = map (\<lambda>(device_id, d). if map_of connected device_id = None
                         then dput d (u ''connected'') (JBool False) else d) merged;
          result = sort_key (device_sort_key txt) known in
      sbind (set_gauge ''devices.connected'' (length connected)) (\<lambda>_.
      sbind (set_gauge ''devices.known'' (length result)) (\<lambda>_.
      sret (map boot_id_text result)))))))"

definition find_device :: "(json \<Rightarrow> ustr) \<Rightarrow> int \<Rightarrow> device_entry list option \<Rightarrow> ustr \<Rightarrow> (service, ustr) st" where
  "find_device txt now hub v =
     sbind (list_devices txt now hub) (\<lambda>docs.
     if list_ex (\<lambda>d. dget d ''device_id'' = JStr v) docs then sret v
     else in_tables (resolve_device v))"


text \<open>The entry of a status dictionary; its identifiers are integers or absent.\<close>

definition int_option :: "json \<Rightarrow> int option" where
  "int_option v = (case v of JInt n \<Rightarrow> Some n | _ \<Rightarrow> None)"

definition entry_of :: "(json \<Rightarrow> ustr) \<Rightarrow> dict \<Rightarrow> device_entry res" where
  "entry_of txt d =
     bindr (dindex d ''device_id'') (\<lambda>v.
     Inr \<lparr>de_device_id = txt v, de_boot_id = int_option (dget d ''boot_id''), de_session_id = int_option (dget d ''session_id''),
          de_endpoint = text_option (dget d ''endpoint''), de_info = d\<rparr>)"

definition queue_dict :: "queue_view \<Rightarrow> dict" where
  "queue_dict q = [item ''device_id'' (JStr (qv_device_id q)),
     item ''maintenance'' (case qv_maintenance q of None \<Rightarrow> JNull | Some s \<Rightarrow> jstr s),
     item ''running'' (JList (map JStr (qv_running q))), item ''queued'' (JList (map JStr (qv_queued q)))]"

text \<open>\<^verbatim>\<open>current_status\<close>: in observe mode the stored status; otherwise \<open>answer\<close>, what the device answers or raises.\<close>

definition stale_status :: "ustr \<Rightarrow> (service, dict) st" where
  "stale_status device_id =
     sbind (in_tables (get_setting (u ''status.'' @ device_id) JNull)) (\<lambda>cached.
     sbind (sraise_if (\<not> truthy cached) (LookupError ''no cached device status is available'')) (\<lambda>_.
     case cached of
       JDict d \<Rightarrow> sret (boot_id_text (dupdate d [item ''stale'' (JBool True), item ''mode'' (jstr ''observe'')]))
     | _ \<Rightarrow> sraise (TypeError ''object is not a mapping'')))"

definition fresh_status :: "(json \<Rightarrow> ustr) \<Rightarrow> int \<Rightarrow> ustr \<Rightarrow> dict \<Rightarrow> (service, dict) st" where
  "fresh_status txt now device_id answer =
     sbind (sget (\<lambda>s. queue_state device_id (sv_manager s))) (\<lambda>queue.
     let result = dupdate (boot_id_text answer)
           [item ''stale'' (JBool False), item ''mode'' (jstr ''develop''), item ''queue'' (JDict (queue_dict queue))] in
     sbind (in_tables (set_setting (u ''status.'' @ device_id) (JDict result))) (\<lambda>_.
     sbind (slift (entry_of txt result)) (\<lambda>entry.
     sbind (in_tables (remember_device now entry)) (\<lambda>_.
     sret result))))"

definition current_status :: "(json \<Rightarrow> ustr) \<Rightarrow> int \<Rightarrow> device_entry list option \<Rightarrow> (ustr \<Rightarrow> dict res) \<Rightarrow> ustr \<Rightarrow> (service, dict) st" where
  "current_status txt now hub answer v =
     sbind (find_device txt now hub v) (\<lambda>device_id.
     sbind (sget sv_mode) (\<lambda>mode.
     if mode = ''observe'' then stale_status device_id
     else
       sbind (sraise_if (hub = None) (RuntimeError ''device hub is not attached'')) (\<lambda>_.
       sbind (slift (answer device_id)) (\<lambda>d.
       fresh_status txt now device_id d))))"

section \<open>What subscribers receive\<close>

lemma wp_on_manager [wp_simps]:
  "wp (on_manager m) Q E = (\<lambda>s. wp m (\<lambda>x t. Q x (s\<lparr>sv_manager := t\<rparr>)) (\<lambda>e t. E e (s\<lparr>sv_manager := t\<rparr>)) (sv_manager s))"
  by (rule ext) (auto simp: wp_def on_manager_def split: prod.split sum.split)

lemma wp_on_subscribers [wp_simps]:
  "wp (on_subscribers m) Q E =
     (\<lambda>s. case each_queue m (sv_subscribers s) of (r, qs) \<Rightarrow> case r of Inr x \<Rightarrow> Q x (s\<lparr>sv_subscribers := qs\<rparr>) | Inl e \<Rightarrow> E e (s\<lparr>sv_subscribers := qs\<rparr>))"
  by (rule ext) (auto simp: wp_def on_subscribers_def split: prod.split sum.split)

lemma deliver_room: "length q < QUEUE_SIZE \<Longrightarrow> deliver now x q = (Inr (), q @ [x])"
  by (simp add: deliver_def put_nowait_def st_run)

lemma deliver_full: "length q = QUEUE_SIZE \<Longrightarrow> deliver now x q = (Inl QueueFull, tl q @ [gap_event now])"
  by (simp add: deliver_def put_nowait_def st_run QUEUE_SIZE_def)

lemma deliver_returns: "deliver now x q = (Inr y, q') \<Longrightarrow> length q < QUEUE_SIZE \<and> q' = q @ [x]"
  by (auto simp: deliver_def put_nowait_def st_run split: if_splits)

lemma deliver_all:
  "\<forall>p\<in>set ps. length (snd p) < QUEUE_SIZE \<Longrightarrow> each_queue (deliver now x) (ps @ qs) =
     (case each_queue (deliver now x) qs of (r, qs') \<Rightarrow> (r, map (\<lambda>(i, q). (i, q @ [x])) ps @ qs'))"
  by (induction ps) (auto simp: deliver_room split: prod.split)

lemma each_queue_returns:
  "each_queue (deliver now x) qs = (Inr y, qs') \<Longrightarrow>
     (\<forall>p\<in>set qs. length (snd p) < QUEUE_SIZE) \<and> qs' = map (\<lambda>(i, q). (i, q @ [x])) qs"
proof (induction qs arbitrary: qs')
  case (Cons p qs)
  then show ?case by (cases p) (auto split: prod.splits sum.splits dest: deliver_returns)
qed simp


lemma each_queue_raises:
  "each_queue (deliver now x) qs = (Inl e, qs') \<Longrightarrow> \<forall>p\<in>set qs. length (snd p) \<le> QUEUE_SIZE \<Longrightarrow>
     \<exists>ps i q rest. qs = ps @ (i, q) # rest \<and> length q = QUEUE_SIZE \<and> e = QueueFull \<and>
       qs' = map (\<lambda>(i, q). (i, q @ [x])) ps @ (i, tl q @ [gap_event now]) # rest"
proof (induction qs arbitrary: qs')
  case (Cons p qs)
  obtain i q where p: "p = (i, q)" by fastforce
  show ?case
  proof (cases "length q = QUEUE_SIZE")
    case True
    with Cons.prems p show ?thesis by (intro exI [of _ "[]"]) (auto simp: deliver_full)
  next
    case False
    with Cons.prems(2) p have "length q < QUEUE_SIZE" by simp
    with Cons.prems p obtain qs1 where "each_queue (deliver now x) qs = (Inl e, qs1)" and qs': "qs' = (i, q @ [x]) # qs1"
      by (auto simp: deliver_room split: prod.splits)
    with Cons obtain ps j q' rest where "qs = ps @ (j, q') # rest" "length q' = QUEUE_SIZE" "e = QueueFull"
      "qs1 = map (\<lambda>(i, q). (i, q @ [x])) ps @ (j, tl q' @ [gap_event now]) # rest"
      by fastforce
    with p qs' show ?thesis by (intro exI [of _ "(i, q) # ps"]) auto
  qed
qed simp

text \<open>What the steps before the delivery leave alone.\<close>

definition tables :: "service \<Rightarrow> store" where
  "tables s = mg_store (sv_manager s)"

definition same_feed :: "service \<Rightarrow> service \<Rightarrow> bool" where
  "same_feed s t \<longleftrightarrow> sv_subscribers t = sv_subscribers s \<and> st_events (tables t) = st_events (tables s)"

interpretation feed: evolution same_feed
  by unfold_locales (auto simp: same_feed_def)

lemma follow_session_events: "st_events (follow_session now e s) = st_events s"
  by (simp add: follow_session_def insert_session_def end_session_def split: option.split)

lemma upsert_device_events: "st_events (upsert_device now d c s) = st_events s"
  by (simp add: upsert_device_def split: option.split)

lemma remember_sender_wp:
  "wp (remember_sender now hub d) (\<lambda>_. same_feed s) (\<lambda>e _. e \<noteq> QueueFull) s"
  by (auto simp: remember_sender_def in_tables_def remember_device_def wp_simps to_json_dict_def to_json_def same_feed_def tables_def
      follow_session_events upsert_device_events split: option.split sum.split)

text \<open>An event that every subscriber got, and one that a full queue stopped.\<close>

definition event_done :: "service \<Rightarrow> service \<Rightarrow> bool" where
  "event_done s t \<longleftrightarrow> (\<forall>p\<in>set (sv_subscribers s). length (snd p) < QUEUE_SIZE) \<and>
     (\<exists>row. st_events (tables t) = st_events (tables s) @ [row] \<and>
        sv_subscribers t = map (\<lambda>(i, q). (i, q @ [event_item row])) (sv_subscribers s))"

definition event_overflow :: "int \<Rightarrow> service \<Rightarrow> service \<Rightarrow> bool" where
  "event_overflow now s t \<longleftrightarrow> (\<exists>row ps i q rest. st_events (tables t) = st_events (tables s) @ [row] \<and>
     sv_subscribers s = ps @ (i, q) # rest \<and> length q = QUEUE_SIZE \<and>
     sv_subscribers t = map (\<lambda>(i, q). (i, q @ [event_item row])) ps @ (i, tl q @ [gap_event now]) # rest)"

lemma append_event_wp:
  "wp (in_tables (append_event now c doc d)) (\<lambda>x t. \<exists>row. x = event_item row \<and> sv_subscribers t = sv_subscribers s \<and>
     st_events (tables t) = st_events (tables s) @ [row]) (\<lambda>e _. e \<noteq> QueueFull) s"
  by (auto simp: in_tables_def append_event_def to_json_dict_def to_json_def wp_simps tables_def split: sum.split)

lemma deliver_wp:
  assumes "\<forall>p\<in>set (sv_subscribers s). length (snd p) \<le> QUEUE_SIZE"
    and "sv_subscribers t = sv_subscribers s" and "st_events (tables t) = st_events (tables s) @ [row]"
  shows "wp (on_subscribers (deliver now (event_item row))) (\<lambda>_. event_done s) (\<lambda>e v. e = QueueFull \<longrightarrow> event_overflow now s v) t"
proof -
  obtain r qs where run: "each_queue (deliver now (event_item row)) (sv_subscribers s) = (r, qs)" by fastforce
  have keep: "tables (t\<lparr>sv_subscribers := qs\<rparr>) = tables t" by (simp add: tables_def)
  show ?thesis
  proof (cases r)
    case (Inl e)
    from each_queue_raises [OF run [unfolded Inl] assms(1)] obtain ps i q rest where
      "sv_subscribers s = ps @ (i, q) # rest" "length q = QUEUE_SIZE"
      "qs = map (\<lambda>(i, q). (i, q @ [event_item row])) ps @ (i, tl q @ [gap_event now]) # rest" by blast
    with assms(3) have "event_overflow now s (t\<lparr>sv_subscribers := qs\<rparr>)"
      unfolding event_overflow_def keep by (intro exI [of _ row] exI [of _ ps] exI [of _ i] exI [of _ q] exI [of _ rest]) simp
    with Inl run assms(2) show ?thesis by (simp add: wp_on_subscribers)
  next
    case (Inr y)
    with run each_queue_returns have "event_done s (t\<lparr>sv_subscribers := qs\<rparr>)"
      unfolding event_done_def keep assms(3) by fastforce
    with Inr run assms(2) show ?thesis by (simp add: wp_on_subscribers)
  qed
qed

lemma set_gauge_wp:
  "event_done s t \<Longrightarrow> wp (sbind (sget (\<lambda>s. length (sv_subscribers s))) (\<lambda>n. set_gauge name n)) (\<lambda>_. event_done s) E t"
  by (simp add: set_gauge_def gauge_def wp_simps event_done_def tables_def)

lemma on_device_event_wp:
  assumes "\<forall>p\<in>set (sv_subscribers s). length (snd p) \<le> QUEUE_SIZE"
  shows "wp (on_device_event txt space digit now hub event) (\<lambda>_. event_done s) (\<lambda>e t. e = QueueFull \<longrightarrow> event_overflow now s t) s"
proof -
  have rest: "wp (sbind (remember_sender now hub d) (\<lambda>_. sbind (in_tables (append_event now c doc did)) (\<lambda>persisted.
      sbind (on_subscribers (deliver now persisted)) (\<lambda>_.
      sbind (sget (\<lambda>s. length (sv_subscribers s))) (\<lambda>n. set_gauge ''events.subscribers'' n)))))
      (\<lambda>_. event_done s) (\<lambda>e t. e = QueueFull \<longrightarrow> event_overflow now s t) v"
    if v: "same_feed s v" for v d c doc did
    unfolding wp_sbind [of "remember_sender now hub d"]
  proof (rule wp_mono [OF remember_sender_wp], unfold wp_sbind [of "in_tables m" for m], rule wp_mono [OF append_event_wp])
    fix x v1 persisted t
    assume "same_feed v v1" and "\<exists>row. persisted = event_item row \<and> sv_subscribers t = sv_subscribers v1 \<and>
      st_events (tables t) = st_events (tables v1) @ [row]"
    with v obtain row where row: "persisted = event_item row" "sv_subscribers t = sv_subscribers s"
      "st_events (tables t) = st_events (tables s) @ [row]"
      by (auto simp: same_feed_def)
    show "wp (sbind (on_subscribers (deliver now persisted)) (\<lambda>_.
      sbind (sget (\<lambda>s. length (sv_subscribers s))) (\<lambda>n. set_gauge ''events.subscribers'' n)))
      (\<lambda>_. event_done s) (\<lambda>e t. e = QueueFull \<longrightarrow> event_overflow now s t) t"
      unfolding wp_sbind [of "on_subscribers m" for m] row(1)
      by (rule wp_mono [OF deliver_wp [OF assms row(2,3)]]) (erule set_gauge_wp, assumption)
  qed simp_all
  have "wp (on_manager (on_metrics (increment name 1))) (\<lambda>_. same_feed s) (\<lambda>_ _. False) s" for name
    by (simp add: increment_def wp_simps same_feed_def tables_def)
  then show ?thesis
    unfolding on_device_event_def Let_def wp_sbind [of "on_manager m" for m]
    by (rule wp_mono) (erule rest, simp)
qed


text \<open>
  Claim C40. An event that the service handles without an exception is stored as one new row and reaches every
  subscriber, and then no queue was full. A full queue is not survived: the code makes room for one entry and puts two,
  the notice of the gap and the event, so that \<^verbatim>\<open>QueueFull\<close> leaves the handler after the row was stored; the full
  queue has the notice but not the event, and the subscribers behind it get nothing.
\<close>

theorem event_delivery:
  assumes "on_device_event txt space digit now hub event s = (r, t)"
    and "\<forall>p\<in>set (sv_subscribers s). length (snd p) \<le> QUEUE_SIZE"
  shows "(r = Inr () \<longrightarrow> (\<forall>p\<in>set (sv_subscribers s). length (snd p) < QUEUE_SIZE) \<and>
      (\<exists>row. st_events (tables t) = st_events (tables s) @ [row] \<and>
         sv_subscribers t = map (\<lambda>(i, q). (i, q @ [event_item row])) (sv_subscribers s))) \<and>
    (r = Inl QueueFull \<longrightarrow> (\<exists>row ps i q rest. st_events (tables t) = st_events (tables s) @ [row] \<and>
       sv_subscribers s = ps @ (i, q) # rest \<and> length q = QUEUE_SIZE \<and>
       sv_subscribers t = map (\<lambda>(i, q). (i, q @ [event_item row])) ps @ (i, tl q @ [gap_event now]) # rest))"
  using wp_run [OF on_device_event_wp [OF assms(2)] assms(1)]
  by (cases r) (simp_all add: event_done_def event_overflow_def)

text \<open>A device event with two subscribers, the first of which has stopped reading.\<close>

definition ex_backlog :: "dict list" where
  "ex_backlog = replicate QUEUE_SIZE []"

definition ex_service :: service where
  "ex_service = \<lparr>sv_manager = manager_init store_init 0, sv_mode = ''develop'', sv_mode_transition = False,
     sv_subscribers = [(1, ex_backlog), (2, [])]\<rparr>"

lemma ex_backlog_full: "length ex_backlog = QUEUE_SIZE"
  by (simp add: ex_backlog_def)

lemma ex_event_storable: "storable (JDict (normalize_event 5 [] (u ''device'') (u ''gateway'')))"
  by (simp add: normalize_event_def setdefault_def correlation_def event_name_def CORRELATION_FIELDS_def item_def jstr_def Let_def
      dget_def dget_default_def)

lemma ex_service_event:
  "\<exists>t. on_device_event (\<lambda>_. []) (\<lambda>_. False) (\<lambda>_. False) 5 None [] ex_service = (Inl QueueFull, t)"
proof -
  have deliver: "deliver 5 x ex_backlog = (Inl QueueFull, tl ex_backlog @ [gap_event 5])" for x
    by (rule deliver_full) (rule ex_backlog_full)
  have kind: "event_category [] = ''device''" "parsed_event (\<lambda>_. []) (\<lambda>_. False) (\<lambda>_. False) [] [] = []"
    by (simp_all add: event_category_def parsed_event_def)
  show ?thesis
    unfolding on_device_event_def Let_def kind
    by (simp add: ex_service_def in_tables_def on_manager_def on_metrics_def on_store_def increment_def
        remember_sender_def append_event_def to_json_dict_def to_json_def on_subscribers_def ex_event_storable deliver st_run
        del: storable.simps u_simps u_Cons)
qed

theorem event_delivery_witness:
  "\<exists>t i q rest. on_device_event (\<lambda>_. []) (\<lambda>_. False) (\<lambda>_. False) 5 None [] ex_service = (Inl QueueFull, t) \<and>
     sv_subscribers ex_service = (i, q) # rest \<and> sv_subscribers t = (i, tl q @ [gap_event 5]) # rest"
proof -
  obtain t where run: "on_device_event (\<lambda>_. []) (\<lambda>_. False) (\<lambda>_. False) 5 None [] ex_service = (Inl QueueFull, t)"
    using ex_service_event by blast
  have "\<forall>p\<in>set (sv_subscribers ex_service). length (snd p) \<le> QUEUE_SIZE" by (simp add: ex_service_def ex_backlog_full QUEUE_SIZE_def)
  from event_delivery [OF run this] obtain ps i q rest x where
    split: "sv_subscribers ex_service = ps @ (i, q) # rest" "length q = QUEUE_SIZE"
    "sv_subscribers t = map (\<lambda>(i, q). (i, q @ [x])) ps @ (i, tl q @ [gap_event 5]) # rest" by blast
  then have "ps = []" by (cases ps) (auto simp: ex_service_def QUEUE_SIZE_def Cons_eq_append_conv)
  with run split show ?thesis by auto
qed

end
