(* ===== verification/Maintenance.thy ===== *)
theory Maintenance
  imports Gateway_Service Closed_Loops
begin

text \<open>
  Host maintenance (\<^verbatim>\<open>gateway.py\<close>): a lease takes a device away from the gateway so that a local tool can flash it, and
  the gateway takes it back only after the Recovery firmware has been verified. A coroutine awaits the answers of a
  scripted hub; at every await other tasks may change the service, which the script gives as functions. Clock readings,
  \<^verbatim>\<open>str()\<close>, random texts and the devices of the hub, which is attached, are arguments.
\<close>

section \<open>State and awaits\<close>

record maint_world =
  mw_service :: service
  mw_hub :: hub_world
  mw_others :: "(service \<Rightarrow> service) list"
  mw_retries :: nat
  mw_last_error :: "string option"

type_synonym 'a maint = "(maint_world, 'a) st"

definition others_run :: "maint_world \<Rightarrow> maint_world" where
  "others_run w = (case mw_others w of [] \<Rightarrow> w | f # fs \<Rightarrow> w\<lparr>mw_service := f (mw_service w), mw_others := fs\<rparr>)"

definition at_once :: "'a hub \<Rightarrow> 'a maint" where
  "at_once m w = (case m (mw_hub w) of (r, h) \<Rightarrow> (r, w\<lparr>mw_hub := h\<rparr>))"

definition await :: "'a hub \<Rightarrow> 'a maint" where
  "await m w = (case m (mw_hub w) of (r, h) \<Rightarrow> (r, others_run (w\<lparr>mw_hub := h\<rparr>)))"

definition serve :: "(service, 'a) st \<Rightarrow> 'a maint" where
  "serve m w = (case m (mw_service w) of (r, s) \<Rightarrow> (r, w\<lparr>mw_service := s\<rparr>))"

section \<open>Leases\<close>

definition ACTIVE_MAINTENANCE_STATES :: "string list" where
  "ACTIVE_MAINTENANCE_STATES = [''detached'', ''flashing'', ''reattaching'', ''verifying'', ''expired_quarantined'']"

definition jtext :: "ustr option \<Rightarrow> json" where
  "jtext x = (case x of None \<Rightarrow> JNull | Some s \<Rightarrow> JStr s)"

definition lease_public :: "lease_row \<Rightarrow> dict" where
  "lease_public r =
     [item ''lease_id'' (JStr (ml_lease_id r)), item ''device_id'' (JStr (ml_device_id r)), item ''purpose'' (JStr (ml_purpose r)),
      item ''state'' (jstr (ml_state r)), item ''previous_boot_id'' (jtext (ml_previous_boot_id r)),
      item ''expected_version'' (jtext (ml_expected_version r)), item ''actor_type'' (JStr (ml_actor_type r)),
      item ''actor_name'' (JStr (ml_actor_name r)), item ''created_ns'' (JInt (ml_created_ns r)), item ''expires_ns'' (JInt (ml_expires_ns r)),
      item ''finished_ns'' (case ml_finished_ns r of None \<Rightarrow> JNull | Some n \<Rightarrow> JInt n), item ''error'' (jtext (ml_error r)),
      item ''endpoint'' (ml_endpoint r), item ''evidence'' (ml_evidence r)]"

definition lease_token_hash :: "ustr \<Rightarrow> ustr res" where
  "lease_token_hash token = bindr (encode_text token) (\<lambda>b. Inr (u (hex (sha256 b))))"

definition authorized_lease :: "int \<Rightarrow> ustr \<Rightarrow> ustr \<Rightarrow> (service, lease_row) st" where
  "authorized_lease now lease_id token =
     sbind (in_tables (maintenance_lease lease_id)) (\<lambda>row.
     case row of
       None \<Rightarrow> sraise (KeyError ''lease_id'')
     | Some lease \<Rightarrow>
         sbind (sraise_if (token = []) (PermissionError ''invalid maintenance lease token'')) (\<lambda>_.
         sbind (slift (lease_token_hash token)) (\<lambda>digest.
         sbind (sraise_if (ml_token_hash lease \<noteq> digest) (PermissionError ''invalid maintenance lease token'')) (\<lambda>_.
         if ml_state lease \<in> set ACTIVE_MAINTENANCE_STATES \<and> now > ml_expires_ns lease \<and> ml_state lease \<noteq> ''expired_quarantined''
         then in_tables (update_maintenance_lease lease_id
                [Lease_state ''expired_quarantined'', Lease_error (Some (u ''maintenance lease expired before completion''))])
         else sret lease))))"

definition lease_view :: "ustr \<Rightarrow> (service, dict) st" where
  "lease_view lease_id =
     sbind (in_tables (maintenance_lease lease_id)) (\<lambda>row.
     case row of None \<Rightarrow> sraise (KeyError ''lease_id'') | Some lease \<Rightarrow> sret (lease_public lease))"

definition lease_expiry :: "int \<Rightarrow> rat \<Rightarrow> int" where
  "lease_expiry now ttl_seconds = now + int_of_float (fmul (max 30 ttl_seconds) 1000000000)"

definition renew_maintenance :: "int \<Rightarrow> int \<Rightarrow> ustr \<Rightarrow> ustr \<Rightarrow> rat \<Rightarrow> (service, dict) st" where
  "renew_maintenance now later lease_id token ttl_seconds =
     sbind (authorized_lease now lease_id token) (\<lambda>lease.
     sbind (sraise_if (ml_state lease \<notin> set ACTIVE_MAINTENANCE_STATES) (RuntimeError ''maintenance lease is already finished'')) (\<lambda>_.
     sbind (in_tables (update_maintenance_lease lease_id
              [Lease_state (if ml_state lease = ''detached'' then ''flashing'' else ml_state lease),
               Lease_expires_ns (lease_expiry later ttl_seconds)])) (\<lambda>renewed.
     sret (lease_public renewed))))"

section \<open>The gate of a device\<close>

definition acquire_gate :: "ustr \<Rightarrow> unit maint" where
  "acquire_gate key =
     sbind (serve (on_manager (acquire_request key))) (\<lambda>_.
     sbind (scatch (await (hub_ask (Wait_lock key))) (\<lambda>e. serve (on_manager (sbind (acquire_failed key e) (\<lambda>_. sret JNull))))) (\<lambda>_.
     serve (on_manager (acquire_granted key))))"

definition release_gate :: "ustr \<Rightarrow> unit maint" where
  "release_gate key = serve (on_manager (release_maintenance key))"

section \<open>Acquiring\<close>

definition text_or_empty :: "(json \<Rightarrow> ustr) \<Rightarrow> json \<Rightarrow> ustr" where
  "text_or_empty txt v = txt (if truthy v then v else jstr '''')"

text \<open>The crash index of a device, and its core dump if it has one.\<close>

definition crash_evidence :: "(json \<Rightarrow> ustr) \<Rightarrow> ustr \<Rightarrow> dict maint" where
  "crash_evidence txt device_id =
     sbind (await (ask_dict (Hub_crash_report device_id))) (\<lambda>report.
     sbind (at_once (hub_ask (Save_json device_id ''crash-index'' (JDict report)))) (\<lambda>path.
     if truthy (dget report ''core_dump_present'') \<and> truthy (dget report ''core_dump_valid'') then
       sbind (await (preserve_coredump device_id)) (\<lambda>preserved.
       case preserved of
         None \<Rightarrow> sraise (RuntimeError ''a valid core dump could not be preserved'')
       | Some d \<Rightarrow> sret [item ''crash_index'' (JStr (txt path)), item ''core_dump'' (JDict d)])
     else sret [item ''crash_index'' (JStr (txt path))]))"

text \<open>The parts of a lease that the caller gives, with the random identifier and token.\<close>

record lease_request =
  lr_actor :: actor
  lr_purpose :: ustr
  lr_expected_version :: ustr
  lr_ttl_seconds :: rat
  lr_lease_id :: ustr
  lr_token :: ustr

definition new_lease :: "(json \<Rightarrow> ustr) \<Rightarrow> int \<Rightarrow> lease_request \<Rightarrow> ustr \<Rightarrow> ustr \<Rightarrow> json \<Rightarrow> dict \<Rightarrow> json \<Rightarrow> lease_row" where
  "new_lease txt now r key digest endpoint evidence previous_boot =
     \<lparr>ml_lease_id = lr_lease_id r, ml_device_id = key, ml_token_hash = digest, ml_purpose = lr_purpose r, ml_state = ''detached'',
      ml_endpoint = endpoint, ml_evidence = JDict evidence,
      ml_previous_boot_id = (let s = text_or_empty txt previous_boot in if s = [] then None else Some s),
      ml_expected_version = Some (lr_expected_version r), ml_actor_type = ac_kind (lr_actor r), ml_actor_name = ac_name (lr_actor r),
      ml_created_ns = now, ml_expires_ns = lease_expiry now (lr_ttl_seconds r), ml_finished_ns = None, ml_error = None\<rparr>"

text \<open>After the endpoint was quiesced: the lease, its audit record and the broadcast.\<close>

definition grant_lease ::
  "(json \<Rightarrow> ustr) \<Rightarrow> int \<Rightarrow> lease_request \<Rightarrow> ustr \<Rightarrow> json \<Rightarrow> dict \<Rightarrow> json \<Rightarrow> string \<Rightarrow> dict \<Rightarrow> dict maint" where
  "grant_lease txt now r key endpoint evidence previous_boot action details =
     sbind (slift (lease_token_hash (lr_token r))) (\<lambda>digest.
     sbind (serve (in_tables (create_maintenance_lease (new_lease txt now r key digest endpoint evidence previous_boot)))) (\<lambda>lease.
     sbind (serve (in_tables (add_audit now (ac_kind (lr_actor r)) (ac_name (lr_actor r)) (u action)
              (JDict (item ''lease_id'' (JStr (ml_lease_id lease)) # details))))) (\<lambda>audit.
     sbind (serve (broadcast_system now audit)) (\<lambda>_.
     sret (lease_public lease @ [item ''token'' (JStr (lr_token r))])))))"

text \<open>\<^verbatim>\<open>except BaseException\<close> before the endpoint is known, and after it: the endpoint is resumed, whatever that raises.\<close>

definition try_resume :: "(json \<Rightarrow> ustr) \<Rightarrow> json \<Rightarrow> unit maint" where
  "try_resume txt endpoint =
     (if endpoint = JNull then sret ()
      else scatch
        (sbind (slift (case endpoint of JDict d \<Rightarrow> dindex d ''endpoint'' | _ \<Rightarrow> Inl (TypeError ''endpoint is not a mapping''))) (\<lambda>v.
         sbind (await (hub_ask (Hub_resume_endpoint (txt v)))) (\<lambda>_. sret ())))
        (\<lambda>e. if is_exception e then sret () else sraise e))"

definition detach :: "(json \<Rightarrow> ustr) \<Rightarrow> ustr \<Rightarrow> (json \<times> dict) maint \<Rightarrow> hub_call \<Rightarrow> (json \<Rightarrow> json \<Rightarrow> dict \<Rightarrow> dict maint) \<Rightarrow> dict maint" where
  "detach txt key before quiesce after =
     sbind (scatch (sbind before (\<lambda>(previous_boot, evidence). sbind (await (hub_ask quiesce)) (\<lambda>endpoint.
              sret (endpoint, previous_boot, evidence))))
              (\<lambda>e. sbind (release_gate key) (\<lambda>_. sraise e))) (\<lambda>(endpoint, previous_boot, evidence).
     scatch (after endpoint previous_boot evidence)
       (\<lambda>e. sbind (try_resume txt endpoint) (\<lambda>_. sbind (release_gate key) (\<lambda>_. sraise e))))"

definition observe_before :: "(json \<Rightarrow> ustr) \<Rightarrow> ustr \<Rightarrow> (json \<times> dict) maint" where
  "observe_before txt device_id =
     sbind (await (ask_dict (Hub_status device_id))) (\<lambda>before.
     sbind (sraise_if (text_or_empty txt (dget before ''device_id'') \<noteq> device_id)
              (RuntimeError ''device status did not confirm the requested Device ID'')) (\<lambda>_.
     let previous_boot = dget before ''boot_id'' in
     sbind (sraise_if (previous_boot = JNull \<or> previous_boot = jstr '''') (RuntimeError ''device status did not provide a Boot ID'')) (\<lambda>_.
     sbind (crash_evidence txt device_id) (\<lambda>evidence.
     sret (previous_boot, item ''device_before'' (JDict before) # evidence)))))"

definition acquire_maintenance ::
  "(json \<Rightarrow> ustr) \<Rightarrow> int \<Rightarrow> device_entry list option \<Rightarrow> lease_request \<Rightarrow> ustr \<Rightarrow> dict maint" where
  "acquire_maintenance txt now hub r v =
     sbind (serve (find_device txt now hub v)) (\<lambda>device_id.
     sbind (acquire_gate device_id) (\<lambda>_.
     detach txt device_id (observe_before txt device_id) (Hub_quiesce_device device_id) (\<lambda>endpoint previous_boot evidence.
       grant_lease txt now r device_id endpoint evidence previous_boot ''maintenance.acquired''
         [item ''device_id'' (JStr device_id), item ''purpose'' (JStr (lr_purpose r))])))"

text \<open>The same for an endpoint without a live identity.\<close>

definition observe_endpoint ::
  "(json \<Rightarrow> ustr) \<Rightarrow> int \<Rightarrow> device_entry list option \<Rightarrow> dict \<Rightarrow> ustr option \<Rightarrow> (json \<times> dict) maint" where
  "observe_endpoint txt now hub endpoint_before expected =
     sbind (serve (list_devices txt now hub)) (\<lambda>devices.
     let cached = (case expected of None \<Rightarrow> None
                   | Some i \<Rightarrow> find (\<lambda>d. text_or_empty txt (dget d ''device_id'') = i) devices);
         live = (case expected of None \<Rightarrow> False
                 | Some i \<Rightarrow> i \<in> de_device_id ` set (case hub of Some es \<Rightarrow> es | None \<Rightarrow> [])) in
     sbind (if live then sbind (await (ask_dict (Hub_status (the expected)))) (\<lambda>d. sret (Some d)) else sret cached) (\<lambda>before.
     sbind (if live then crash_evidence txt (the expected) else sret []) (\<lambda>crash.
     sret (case before of None \<Rightarrow> JNull | Some d \<Rightarrow> if d = [] then JNull else dget d ''boot_id'',
       [item ''expected_device_id'' (jtext expected), item ''endpoint_before'' (JDict endpoint_before)]
       @ (case before of None \<Rightarrow> [] | Some d \<Rightarrow> [item ''device_before'' (JDict d)]) @ crash))))"

definition acquire_endpoint_maintenance ::
  "(json \<Rightarrow> ustr) \<Rightarrow> int \<Rightarrow> device_entry list option \<Rightarrow> lease_request \<Rightarrow> ustr \<Rightarrow> dict maint" where
  "acquire_endpoint_maintenance txt now hub r name =
     sbind (at_once (ask_dict (Hub_maintenance_endpoint name))) (\<lambda>endpoint_before.
     let endpoint_name = text_or_empty txt (dget endpoint_before ''endpoint'');
         found = text_or_empty txt (dget endpoint_before ''device_id'');
         expected = (if found = [] then None else Some found);
         key = (if found = [] then u ''endpoint::'' @ endpoint_name else found) in
     sbind (sraise_if (take 4 endpoint_name \<noteq> u ''usb:'') (RuntimeError ''host maintenance is supported only for local USB devices'')) (\<lambda>_.
     sbind (acquire_gate key) (\<lambda>_.
     detach txt key (observe_endpoint txt now hub endpoint_before expected) (Hub_quiesce_endpoint endpoint_name)
       (\<lambda>endpoint previous_boot evidence.
        grant_lease txt now r key endpoint evidence previous_boot ''maintenance.endpoint_acquired''
          [item ''device_id'' (jtext expected), item ''endpoint'' (JStr endpoint_name), item ''purpose'' (JStr (lr_purpose r))]))))"


section \<open>Finishing\<close>

definition lease_endpoint :: "(json \<Rightarrow> ustr) \<Rightarrow> lease_row \<Rightarrow> ustr res" where
  "lease_endpoint txt lease =
     (case ml_endpoint lease of
        JDict d \<Rightarrow> bindr (dindex d ''endpoint'') (\<lambda>v. Inr (txt v))
      | _ \<Rightarrow> Inl (TypeError ''endpoint is not a mapping''))"

definition expected_device :: "(json \<Rightarrow> ustr) \<Rightarrow> lease_row \<Rightarrow> ustr option" where
  "expected_device txt lease =
     (case ml_evidence lease of
        JDict d \<Rightarrow>
          if map_of d (u ''expected_device_id'') = None then Some (ml_device_id lease)
          else let s = text_or_empty txt (dget d ''expected_device_id'') in if s = [] then None else Some s
      | _ \<Rightarrow> Some (ml_device_id lease))"

definition dict_items :: "json \<Rightarrow> dict list res" where
  "dict_items v = (case v of
     JList vs \<Rightarrow> mapr (\<lambda>x. case x of JDict d \<Rightarrow> Inr d | _ \<Rightarrow> Inl AttributeError) vs
   | _ \<Rightarrow> Inl (TypeError ''object is not iterable''))"

definition at_endpoint :: "ustr \<Rightarrow> ustr option \<Rightarrow> dict \<Rightarrow> bool" where
  "at_endpoint endpoint expected d \<longleftrightarrow> dget d ''endpoint'' = JStr endpoint \<and>
     (case expected of None \<Rightarrow> True | Some i \<Rightarrow> dget d ''device_id'' = JStr i)"

definition boot_changed :: "(json \<Rightarrow> ustr) \<Rightarrow> lease_row \<Rightarrow> json \<Rightarrow> bool" where
  "boot_changed txt lease current \<longleftrightarrow> current \<noteq> JNull \<and> current \<noteq> jstr '''' \<and>
     (case ml_previous_boot_id lease of None \<Rightarrow> True | Some p \<Rightarrow> p = [] \<or> txt current \<noteq> p)"

definition version_matches :: "lease_row \<Rightarrow> dict \<Rightarrow> bool" where
  "version_matches lease status \<longleftrightarrow>
     (case ml_expected_version lease of None \<Rightarrow> True | Some v \<Rightarrow> v = [] \<or> dget status ''app_version'' = JStr v)"

text \<open>The conditions under which a reattached device is taken back.\<close>

definition recovery_verified :: "(json \<Rightarrow> ustr) \<Rightarrow> lease_row \<Rightarrow> dict \<Rightarrow> bool" where
  "recovery_verified txt lease status \<longleftrightarrow>
     dget status ''firmware_mode'' = jstr ''recovery'' \<and> boot_changed txt lease (dget status ''boot_id'') \<and> version_matches lease status \<and>
     (case dget_default status ''capability_names'' (JList []) of JList vs \<Rightarrow> jstr ''ota'' \<in> set vs | _ \<Rightarrow> False)"

datatype verdict = Again | Expired | Verified ustr dict

definition count_retry :: "exn \<Rightarrow> verdict maint" where
  "count_retry e =
     sbind (smod (\<lambda>w. w\<lparr>mw_retries := Suc (mw_retries w), mw_last_error := Some (exn_name e)\<rparr>)) (\<lambda>_. sret Again)"

text \<open>One round of the verification. The await of the round's pause is the one after the deadline is read.\<close>

definition verify_device :: "(json \<Rightarrow> ustr) \<Rightarrow> lease_row \<Rightarrow> ustr \<Rightarrow> verdict maint" where
  "verify_device txt lease actual =
     scatch (sbind (await (ask_dict (Hub_status actual))) (\<lambda>status.
             sret (if dget status ''device_id'' = JStr actual \<and> recovery_verified txt lease status then Verified actual status else Again)))
       (\<lambda>e. if is_os_error e \<or> is_lookup_error e then count_retry e else sraise e)"

definition look_for_device :: "(json \<Rightarrow> ustr) \<Rightarrow> lease_row \<Rightarrow> ustr \<Rightarrow> ustr option \<Rightarrow> verdict maint" where
  "look_for_device txt lease endpoint expected =
     sbind (at_once (hub_ask Hub_list_devices)) (\<lambda>v.
     sbind (slift (dict_items v)) (\<lambda>devices.
     case filter (at_endpoint endpoint expected) devices of
       [d] \<Rightarrow>
         let actual = text_or_empty txt (dget d ''device_id'') in
         if actual = [] then sret Again else verify_device txt lease actual
     | _ \<Rightarrow> sret Again))"

definition verify_step :: "(json \<Rightarrow> ustr) \<Rightarrow> lease_row \<Rightarrow> ustr \<Rightarrow> ustr option \<Rightarrow> verdict maint" where
  "verify_step txt lease endpoint expected =
     sbind (await before_deadline) (\<lambda>more. if more then look_for_device txt lease endpoint expected else sret Expired)"

text \<open>Every await takes answers, so that the rounds come to an end.\<close>

definition shorter :: "maint_world \<Rightarrow> maint_world \<Rightarrow> bool" where
  "shorter w v \<longleftrightarrow> fewer (mw_hub w) (mw_hub v)"

interpretation rounds: evolution shorter
  by unfold_locales (auto simp: shorter_def fewer_def)

named_theorems rounds_rules \<open>calls of a maintenance workflow that only take answers\<close>

lemma mw_hub_others [simp]: "mw_hub (others_run w) = mw_hub w"
  by (simp add: others_run_def split: list.split)

lemma rounds_awaits [rounds_rules]:
  "leads fewer m \<Longrightarrow> leads shorter (await m)" "leads fewer m \<Longrightarrow> leads shorter (at_once m)"
  by (auto simp: leads_def await_def at_once_def shorter_def split: prod.split) (metis snd_conv)+

lemma rounds_retry [rounds_rules]: "leads shorter (count_retry e)"
  unfolding count_retry_def by (intro rounds.rules rounds.change) (simp_all add: shorter_def fewer_def)

lemma rounds_verify [rounds_rules]: "leads shorter (verify_device txt lease actual)"
  unfolding verify_device_def by (intro rounds.rules rounds_rules script_rules)

lemma rounds_look [rounds_rules]: "leads shorter (look_for_device txt lease endpoint expected)"
proof -
  have "leads shorter (case ds of [d] \<Rightarrow> let actual = text_or_empty txt (dget d ''device_id'') in
      if actual = [] then sret Again else verify_device txt lease actual | _ \<Rightarrow> sret Again)" for ds
    by (auto simp: Let_def split: list.split intro!: rounds.rules rounds_rules)
  then show ?thesis
    unfolding look_for_device_def by (intro rounds.rules rounds_rules script_rules)
qed

lemma verify_step_consumes:
  assumes "verify_step txt lease endpoint expected w = (Inr x, v)"
  shows "length (hw_replies (mw_hub v)) < length (hw_replies (mw_hub w))"
proof -
  from assms obtain more w1 where first: "await before_deadline w = (Inr more, w1)"
    and second: "(if more then look_for_device txt lease endpoint expected else sret Expired) w1 = (Inr x, v)"
    by (auto simp: verify_step_def sbind_def split: prod.splits sum.splits)
  from first have "length (hw_replies (mw_hub w1)) < length (hw_replies (mw_hub w))"
    by (auto simp: await_def split: prod.splits dest: before_deadline_consumes)
  moreover have "leads shorter (if more then look_for_device txt lease endpoint expected else sret Expired)"
    by (intro rounds.rules rounds_rules)
  then have "shorter w1 v" using second by (rule leads_run)
  ultimately show ?thesis by (simp add: shorter_def fewer_def)
qed

function verify_loop :: "(json \<Rightarrow> ustr) \<Rightarrow> lease_row \<Rightarrow> ustr \<Rightarrow> ustr option \<Rightarrow> (ustr \<times> dict) option maint" where
  "verify_loop txt lease endpoint expected w =
     sbind (verify_step txt lease endpoint expected) (\<lambda>x w1.
     case x of
       Again \<Rightarrow> verify_loop txt lease endpoint expected w1
     | Expired \<Rightarrow> sret None w1
     | Verified actual status \<Rightarrow> sret (Some (actual, status)) w1) w"
  by pat_completeness auto
termination
  by (relation "measure (\<lambda>(t, l, e, x, w). length (hw_replies (mw_hub w)))") (auto dest: verify_step_consumes)

declare verify_loop.simps [simp del]

text \<open>The evidence of the lease with what was observed; \<^verbatim>\<open>{**evidence, ...}\<close> of a value that is no mapping raises.\<close>

definition observed_evidence :: "lease_row \<Rightarrow> dict \<Rightarrow> json maint" where
  "observed_evidence lease extra =
     sbind (slift (case ml_evidence lease of JDict d \<Rightarrow> Inr d | _ \<Rightarrow> Inl (TypeError ''object is not a mapping''))) (\<lambda>d.
     sget (\<lambda>w. JDict (dupdate d (extra @ [item ''observation_retries'' (jnat (mw_retries w)),
       item ''last_observation_error'' (case mw_last_error w of None \<Rightarrow> JNull | Some e \<Rightarrow> jstr e)]))))"

definition abort_lease :: "int \<Rightarrow> ustr \<Rightarrow> ustr \<Rightarrow> dict maint" where
  "abort_lease finished lease_id audit_device =
     sbind (serve (in_tables (update_maintenance_lease lease_id [Lease_state ''aborted'', Lease_finished_ns finished]))) (\<lambda>completed.
     sbind (serve (in_tables (add_audit finished (u ''lease'') lease_id (u ''maintenance.aborted'')
              (JDict [item ''device_id'' (JStr audit_device)])))) (\<lambda>_.
     sret (lease_public completed)))"

definition release_lease :: "int \<Rightarrow> lease_row \<Rightarrow> ustr \<Rightarrow> dict \<Rightarrow> dict maint" where
  "release_lease finished lease actual status =
     sbind (observed_evidence lease [item ''verification'' (JDict status)]) (\<lambda>evidence.
     sbind (serve (in_tables (update_maintenance_lease (ml_lease_id lease)
              [Lease_state ''released'', Lease_evidence evidence, Lease_finished_ns finished, Lease_error None]))) (\<lambda>completed.
     sbind (serve (in_tables (add_audit finished (u ''lease'') (ml_lease_id lease) (u ''maintenance.released'')
              (JDict [item ''device_id'' (JStr actual), item ''boot_id'' (dget status ''boot_id'')])))) (\<lambda>_.
     sret (lease_public completed))))"

definition fail_lease :: "(exn \<Rightarrow> ustr) \<Rightarrow> int \<Rightarrow> lease_row \<Rightarrow> ustr \<Rightarrow> exn \<Rightarrow> dict maint" where
  "fail_lease message finished lease audit_device e =
     sbind (observed_evidence lease []) (\<lambda>evidence.
     sbind (serve (in_tables (update_maintenance_lease (ml_lease_id lease)
              [Lease_state ''verification_failed'', Lease_evidence evidence, Lease_finished_ns finished, Lease_error (Some (message e))]))) (\<lambda>_.
     sbind (serve (in_tables (add_audit finished (u ''lease'') (ml_lease_id lease) (u ''maintenance.verification_failed'')
              (JDict [item ''device_id'' (JStr audit_device), item ''error'' (JStr (message e))])))) (\<lambda>_.
     sraise e)))"

definition reattach ::
  "(json \<Rightarrow> ustr) \<Rightarrow> int \<Rightarrow> lease_row \<Rightarrow> ustr \<Rightarrow> ustr option \<Rightarrow> ustr \<Rightarrow> bool \<Rightarrow> dict maint" where
  "reattach txt finished lease endpoint expected audit_device abort =
     sbind (serve (in_tables (update_maintenance_lease (ml_lease_id lease) [Lease_state ''reattaching'']))) (\<lambda>_.
     sbind (await (hub_ask (Hub_resume_endpoint endpoint))) (\<lambda>_.
     if abort then abort_lease finished (ml_lease_id lease) audit_device
     else
       sbind (serve (in_tables (update_maintenance_lease (ml_lease_id lease) [Lease_state ''verifying'']))) (\<lambda>_.
       sbind (verify_loop txt lease endpoint expected) (\<lambda>found.
       case found of
         None \<Rightarrow> sraise (RuntimeError ''Recovery endpoint reattached but identity verification did not complete'')
       | Some (actual, status) \<Rightarrow> release_lease finished lease actual status))))"

definition finish_active :: "(json \<Rightarrow> ustr) \<Rightarrow> (exn \<Rightarrow> ustr) \<Rightarrow> int \<Rightarrow> lease_row \<Rightarrow> bool \<Rightarrow> dict maint" where
  "finish_active txt message finished lease abort =
     sbind (slift (lease_endpoint txt lease)) (\<lambda>endpoint.
     let expected = expected_device txt lease;
         audit_device = (case expected of Some i \<Rightarrow> i | None \<Rightarrow> ml_device_id lease) in
     sbind (smod (\<lambda>w. w\<lparr>mw_retries := 0, mw_last_error := None\<rparr>)) (\<lambda>_.
     sfinally
       (scatch (reattach txt finished lease endpoint expected audit_device abort) (fail_lease message finished lease audit_device))
       (release_gate (ml_device_id lease))))"

definition finish_maintenance ::
  "(json \<Rightarrow> ustr) \<Rightarrow> (exn \<Rightarrow> ustr) \<Rightarrow> int \<Rightarrow> int \<Rightarrow> ustr \<Rightarrow> ustr \<Rightarrow> bool \<Rightarrow> dict maint" where
  "finish_maintenance txt message now finished lease_id token abort =
     sbind (serve (authorized_lease now lease_id token)) (\<lambda>lease.
     if ml_state lease \<notin> set ACTIVE_MAINTENANCE_STATES then sret (lease_public lease)
     else finish_active txt message finished lease abort)"

end
