(* ===== verification/Maintenance_Claims.thy ===== *)
theory Maintenance_Claims
  imports Maintenance Closed_Loop_Claims
begin

text \<open>
  What a maintenance lease guarantees: the device is detached only after its crash evidence was saved, it is taken back
  only after Recovery was verified at its endpoint, nobody without the token changes a lease, and the gate of the device
  is free whenever a finishing call ends.
\<close>

section \<open>Rules\<close>

lemma wp_await [wp_simps]:
  "wp (await m) Q E = (\<lambda>w. wp m (\<lambda>x h. Q x (others_run (w\<lparr>mw_hub := h\<rparr>))) (\<lambda>e h. E e (others_run (w\<lparr>mw_hub := h\<rparr>))) (mw_hub w))"
  by (rule ext) (auto simp: wp_def await_def split: prod.split sum.split)

lemma wp_at_once [wp_simps]:
  "wp (at_once m) Q E = (\<lambda>w. wp m (\<lambda>x h. Q x (w\<lparr>mw_hub := h\<rparr>)) (\<lambda>e h. E e (w\<lparr>mw_hub := h\<rparr>)) (mw_hub w))"
  by (rule ext) (auto simp: wp_def at_once_def split: prod.split sum.split)

lemma wp_serve [wp_simps]:
  "wp (serve m) Q E = (\<lambda>w. wp m (\<lambda>x s. Q x (w\<lparr>mw_service := s\<rparr>)) (\<lambda>e s. E e (w\<lparr>mw_service := s\<rparr>)) (mw_service w))"
  by (rule ext) (auto simp: wp_def serve_def split: prod.split sum.split)

text \<open>What the hub was asked since \<open>h0\<close>; no call of these workflows writes firmware.\<close>

definition known :: "hub_world \<Rightarrow> (hub_call \<times> json res) set \<Rightarrow> maint_world \<Rightarrow> bool" where
  "known h0 S w \<longleftrightarrow> seen h0 (mw_hub w) S"

lemma known_simps [simp]:
  "known h0 S (others_run w) \<longleftrightarrow> known h0 S w" "known h0 S (w\<lparr>mw_service := s\<rparr>) \<longleftrightarrow> known h0 S w"
  "known h0 S (w\<lparr>mw_hub := h\<rparr>) \<longleftrightarrow> seen h0 h S" "known h0 S (w\<lparr>mw_retries := n, mw_last_error := x\<rparr>) \<longleftrightarrow> known h0 S w"
  by (simp_all add: known_def)

lemma await_dict:
  assumes "known h0 S w" "quiet_call c" "\<And>d v. known h0 (insert (c, Inr (JDict d)) S) v \<Longrightarrow> Q d v"
    and "\<And>e v. known h0 S v \<Longrightarrow> E e v"
  shows "wp (await (ask_dict c)) Q E w"
  unfolding wp_await by (rule wp_ask_dict [OF assms(2) assms(1) [unfolded known_def]]) (simp_all add: assms(3,4))

lemma await_quiet:
  assumes "known h0 S w" "leads grows m" "\<And>x v. known h0 S v \<Longrightarrow> Q x v" "\<And>e v. known h0 S v \<Longrightarrow> E e v"
  shows "wp (await m) Q E w"
  unfolding wp_await by (rule wp_quiet [OF assms(2) assms(1) [unfolded known_def]]) (simp_all add: assms(3,4))

lemma wp_ask:
  assumes "quiet_call c" and "seen w0 w S" and "\<And>x v. seen w0 v (insert (c, Inr x) S) \<Longrightarrow> Q x v" and "\<And>e v. seen w0 v S \<Longrightarrow> E e v"
  shows "wp (hub_ask c) Q E w"
proof -
  obtain r v where run: "hub_ask c w = (r, v)" by fastforce
  show ?thesis
  proof (cases r)
    case (Inl e)
    have "seen w0 v S" using leads_run [OF quiet_ask [OF assms(1)] run] assms(2) by (rule seen_grows [rotated])
    with run Inl assms(4) show ?thesis by (simp add: wp_def)
  next
    case (Inr x)
    with run have "hw_log v = hw_log w @ [(c, Inr x)]" by (auto simp: hub_ask_def split: list.splits)
    with assms(1,2) have "seen w0 v (insert (c, Inr x) S)" by (intro seen_answer)
    with run Inr assms(3) show ?thesis by (simp add: wp_def)
  qed
qed

lemma at_once_ask:
  assumes "known h0 S w" "quiet_call c" "\<And>x v. known h0 (insert (c, Inr x) S) v \<Longrightarrow> Q x v" and "\<And>e v. known h0 S v \<Longrightarrow> E e v"
  shows "wp (at_once (hub_ask c)) Q E w"
  unfolding wp_at_once by (rule wp_ask [OF assms(2) assms(1) [unfolded known_def]]) (simp_all add: assms(3,4))

lemma await_ask:
  assumes "known h0 S w" "quiet_call c" "\<And>x v. known h0 (insert (c, Inr x) S) v \<Longrightarrow> Q x v" and "\<And>e v. known h0 S v \<Longrightarrow> E e v"
  shows "wp (await (hub_ask c)) Q E w"
  unfolding wp_await by (rule wp_ask [OF assms(2) assms(1) [unfolded known_def]]) (simp_all add: assms(3,4))

section \<open>Verification\<close>

text \<open>A verified device: the only one at the endpoint, and its status.\<close>

definition saw_recovery ::
  "(json \<Rightarrow> ustr) \<Rightarrow> hub_world \<Rightarrow> (hub_call \<times> json res) set \<Rightarrow> lease_row \<Rightarrow> ustr \<Rightarrow> ustr option \<Rightarrow> ustr \<Rightarrow> dict \<Rightarrow> maint_world \<Rightarrow> bool" where
  "saw_recovery txt h0 S lease endpoint expected actual status v \<longleftrightarrow>
     (\<exists>answer devices d. dict_items answer = Inr devices \<and> filter (at_endpoint endpoint expected) devices = [d] \<and>
        actual = text_or_empty txt (dget d ''device_id'') \<and> actual \<noteq> [] \<and>
        dget status ''device_id'' = JStr actual \<and> recovery_verified txt lease status \<and>
        known h0 (insert (Hub_status actual, Inr (JDict status)) (insert (Hub_list_devices, Inr answer) S)) v)"

definition verdict_known ::
  "(json \<Rightarrow> ustr) \<Rightarrow> hub_world \<Rightarrow> (hub_call \<times> json res) set \<Rightarrow> lease_row \<Rightarrow> ustr \<Rightarrow> ustr option \<Rightarrow> verdict \<Rightarrow> maint_world \<Rightarrow> bool" where
  "verdict_known txt h0 S lease endpoint expected x v =
     (case x of Verified actual status \<Rightarrow> saw_recovery txt h0 S lease endpoint expected actual status v | _ \<Rightarrow> known h0 S v)"

lemma known_weaken: "known h0 S v \<Longrightarrow> T \<subseteq> S \<Longrightarrow> known h0 T v"
  unfolding known_def by (rule seen_weaken)

lemma verify_device_wp:
  assumes "known h0 S w"
  shows "wp (verify_device txt lease actual)
    (\<lambda>x v. case x of Verified a status \<Rightarrow> a = actual \<and> dget status ''device_id'' = JStr actual \<and> recovery_verified txt lease status \<and>
        known h0 (insert (Hub_status actual, Inr (JDict status)) S) v | _ \<Rightarrow> known h0 S v) (\<lambda>e. known h0 S) w"
  unfolding verify_device_def wp_scatch wp_sbind
  by (rule await_dict [OF assms])
    (auto simp: wp_simps count_retry_def intro: known_weaken)

lemma look_for_device_wp:
  assumes "known h0 S w"
  shows "wp (look_for_device txt lease endpoint expected) (verdict_known txt h0 S lease endpoint expected) (\<lambda>e. known h0 S) w"
  unfolding look_for_device_def wp_sbind
proof (rule at_once_ask [OF assms])
  fix answer v assume v: "known h0 (insert (Hub_list_devices, Inr answer) S) v"
  then have v': "known h0 S v" by (rule known_weaken) auto
  have found: "wp (verify_device txt lease actual) (verdict_known txt h0 S lease endpoint expected) (\<lambda>e. known h0 S) v"
    if "dict_items answer = Inr devices" "filter (at_endpoint endpoint expected) devices = [d]"
      "actual = text_or_empty txt (dget d ''device_id'')" "actual \<noteq> []" for devices d actual
    using that
    by (intro wp_mono [OF verify_device_wp [OF v]])
      (auto simp: verdict_known_def saw_recovery_def split: verdict.splits intro: known_weaken)
  show "wp (slift (dict_items answer)) (\<lambda>devices. wp (case filter (at_endpoint endpoint expected) devices of
       [d] \<Rightarrow> let actual = text_or_empty txt (dget d ''device_id'') in
         if actual = [] then sret Again else verify_device txt lease actual
     | _ \<Rightarrow> sret Again) (verdict_known txt h0 S lease endpoint expected) (\<lambda>e. known h0 S)) (\<lambda>e. known h0 S) v"
    using v' found by (auto simp: wp_slift wp_sret verdict_known_def Let_def split: sum.split list.split)
qed simp_all

lemma verify_step_wp:
  assumes "known h0 S w"
  shows "wp (verify_step txt lease endpoint expected) (verdict_known txt h0 S lease endpoint expected) (\<lambda>e. known h0 S) w"
  unfolding verify_step_def wp_sbind
  by (rule await_quiet [OF assms quiet_asks(2)])
    (auto simp: wp_if wp_sret verdict_known_def intro: look_for_device_wp)

lemma verify_loop_wp:
  assumes "known h0 S w"
  shows "wp (verify_loop txt lease endpoint expected)
    (\<lambda>x v. case x of Some (actual, status) \<Rightarrow> saw_recovery txt h0 S lease endpoint expected actual status v | None \<Rightarrow> known h0 S v)
    (\<lambda>e. known h0 S) w"
    (is "wp _ ?Q _ w")
  using assms
proof (induction w rule: measure_induct_rule [of "\<lambda>w. length (hw_replies (mw_hub w))"])
  case (less w)
  obtain r v where step: "verify_step txt lease endpoint expected w = (r, v)" by fastforce
  from wp_run [OF verify_step_wp [OF less.prems] step] have v: "case r of
      Inr x \<Rightarrow> verdict_known txt h0 S lease endpoint expected x v | Inl e \<Rightarrow> known h0 S v" by (auto split: sum.splits)
  show ?case
  proof (cases r)
    case (Inl e)
    with v step show ?thesis by (simp add: wp_def verify_loop.simps [of _ _ _ _ w] sbind_def)
  next
    case (Inr x)
    with step have "wp (verify_loop txt lease endpoint expected) ?Q (\<lambda>e. known h0 S) v" if "known h0 S v"
      using less.IH verify_step_consumes that by blast
    with v step Inr show ?thesis
      by (cases x) (simp_all add: wp_def verify_loop.simps [of _ _ _ _ w] sbind_def sret_def verdict_known_def)
  qed
qed


section \<open>Rows of leases\<close>

definition lease_row_of :: "ustr \<Rightarrow> maint_world \<Rightarrow> lease_row option" where
  "lease_row_of lease_id w = select ml_lease_id lease_id (st_leases (tables (mw_service w)))"

lemma update_lease_wp:
  "wp (serve (in_tables (update_maintenance_lease lease_id cs)))
     (\<lambda>row v. lease_row_of lease_id v = Some row \<and> mw_hub v = mw_hub w \<and> (\<exists>old. row = fold apply_lease_change cs old))
     (\<lambda>e v. mw_hub v = mw_hub w) w"
proof -
  have "select ml_lease_id lease_id (update_where ml_lease_id lease_id (fold apply_lease_change cs) rows) = Some row \<Longrightarrow>
      \<exists>old. row = fold apply_lease_change cs old" for rows row
    by (auto simp: lease_changes.select_update)
  then show ?thesis
    by (auto simp: wp_simps in_tables_def update_maintenance_lease_def write_leases_def maintenance_lease_def lease_row_of_def
        tables_def split: sum.split option.split)
qed

lemma add_audit_wp:
  "wp (serve (in_tables (add_audit now t n a d)))
     (\<lambda>_ v. lease_row_of lease_id v = lease_row_of lease_id w \<and> mw_hub v = mw_hub w) (\<lambda>e v. mw_hub v = mw_hub w) w"
  by (auto simp: wp_simps in_tables_def add_audit_def to_json_def lease_row_of_def tables_def split: sum.split)

text \<open>A change of the lease with its audit record: the row that is stored and returned.\<close>

lemma close_lease_wp:
  assumes "\<And>row v. lease_row_of lease_id v = Some row \<Longrightarrow> mw_hub v = mw_hub w \<Longrightarrow> (\<exists>old. row = fold apply_lease_change cs old) \<Longrightarrow>
      Q (lease_public row) v"
    and "\<And>e v. mw_hub v = mw_hub w \<Longrightarrow> E e v"
  shows "wp (sbind (serve (in_tables (update_maintenance_lease lease_id cs))) (\<lambda>completed.
      sbind (serve (in_tables (add_audit now t n a d))) (\<lambda>_. sret (lease_public completed)))) Q E w"
  unfolding wp_sbind [of "serve (in_tables (update_maintenance_lease lease_id cs))"]
proof (rule wp_mono [OF update_lease_wp])
  fix row v assume v: "lease_row_of lease_id v = Some row \<and> mw_hub v = mw_hub w \<and> (\<exists>old. row = fold apply_lease_change cs old)"
  show "wp (sbind (serve (in_tables (add_audit now t n a d))) (\<lambda>_. sret (lease_public row))) Q E v"
    unfolding wp_sbind wp_sret by (rule wp_mono [OF add_audit_wp [where lease_id = lease_id]]) (use v assms in \<open>auto\<close>)
qed (rule assms(2))

lemma saw_recovery_hub:
  "saw_recovery txt h0 S lease endpoint expected actual status w \<Longrightarrow> mw_hub v = mw_hub w \<Longrightarrow>
   saw_recovery txt h0 S lease endpoint expected actual status v"
  by (simp add: saw_recovery_def known_def)

text \<open>A lease that was released on the strength of a verified device.\<close>

definition lease_verified ::
  "(json \<Rightarrow> ustr) \<Rightarrow> hub_world \<Rightarrow> lease_row \<Rightarrow> ustr \<Rightarrow> ustr option \<Rightarrow> dict \<Rightarrow> maint_world \<Rightarrow> bool" where
  "lease_verified txt h0 lease endpoint expected out v \<longleftrightarrow>
     (\<exists>x actual status row. saw_recovery txt h0 {(Hub_resume_endpoint endpoint, Inr x)} lease endpoint expected actual status v \<and>
        lease_row_of (ml_lease_id lease) v = Some row \<and> ml_state row = ''released'' \<and> out = lease_public row)"

lemma release_lease_wp:
  assumes "saw_recovery txt h0 {(Hub_resume_endpoint endpoint, Inr x)} lease endpoint expected actual status w"
  shows "wp (release_lease finished lease actual status) (lease_verified txt h0 lease endpoint expected) (\<lambda>e v. True) w"
  unfolding release_lease_def
proof (subst wp_sbind, rule wp_mono)
  show "wp (observed_evidence lease [item ''verification'' (JDict status)]) (\<lambda>_ v. v = w) (\<lambda>_ _. True) w"
    by (auto simp: observed_evidence_def wp_simps split: sum.split)
next
  fix evidence v assume "v = w"
  then show "wp (sbind (serve (in_tables (update_maintenance_lease (ml_lease_id lease)
        [Lease_state ''released'', Lease_evidence evidence, Lease_finished_ns finished, Lease_error None]))) (\<lambda>completed.
      sbind (serve (in_tables (add_audit finished (u ''lease'') (ml_lease_id lease) (u ''maintenance.released'')
        (JDict [item ''device_id'' (JStr actual), item ''boot_id'' (dget status ''boot_id'')])))) (\<lambda>_.
      sret (lease_public completed)))) (lease_verified txt h0 lease endpoint expected) (\<lambda>e v. True) v"
    using assms by (intro close_lease_wp) (auto simp: lease_verified_def intro: saw_recovery_hub)
qed simp

lemma reattach_wp:
  assumes "mw_hub w = h0"
  shows "wp (reattach txt finished lease endpoint expected audit_device False)
    (lease_verified txt h0 lease endpoint expected) (\<lambda>e v. True) w"
proof -
  have verify: "wp (sbind (verify_loop txt lease endpoint expected) (\<lambda>found.
       case found of
         None \<Rightarrow> sraise e
       | Some (actual, status) \<Rightarrow> release_lease finished lease actual status)) (lease_verified txt h0 lease endpoint expected) (\<lambda>e v. True) v"
    if "known h0 {(Hub_resume_endpoint endpoint, Inr x)} v" for v x e
    unfolding wp_sbind
    by (rule wp_mono [OF verify_loop_wp [OF that]]) (auto simp: wp_simps split: option.split prod.split intro: release_lease_wp)
  have mark: "wp (sbind (serve (in_tables (update_maintenance_lease (ml_lease_id lease) cs))) f)
      (lease_verified txt h0 lease endpoint expected) (\<lambda>e v. True) v"
    if "\<And>row y. mw_hub y = mw_hub v \<Longrightarrow> wp (f row) (lease_verified txt h0 lease endpoint expected) (\<lambda>e v. True) y" for v cs f
    unfolding wp_sbind by (rule wp_mono [OF update_lease_wp]) (auto intro: that)
  have resume: "wp (sbind (await (hub_ask (Hub_resume_endpoint endpoint))) f)
      (lease_verified txt h0 lease endpoint expected) (\<lambda>e v. True) v"
    if "mw_hub v = h0" "\<And>x y. known h0 {(Hub_resume_endpoint endpoint, Inr x)} y \<Longrightarrow>
        wp (f x) (lease_verified txt h0 lease endpoint expected) (\<lambda>e v. True) y" for v f
    unfolding wp_sbind by (rule await_ask [of h0 "{}"]) (use that in \<open>auto simp: known_def\<close>)
  show ?thesis
    unfolding reattach_def if_False simp_thms
  proof (rule mark, rule resume)
    fix y x v assume "known h0 {(Hub_resume_endpoint endpoint, Inr x)} v"
    then show "wp (sbind (serve (in_tables (update_maintenance_lease (ml_lease_id lease) [Lease_state ''verifying'']))) (\<lambda>_.
       sbind (verify_loop txt lease endpoint expected) (\<lambda>found.
       case found of
         None \<Rightarrow> sraise (RuntimeError ''Recovery endpoint reattached but identity verification did not complete'')
       | Some (actual, status) \<Rightarrow> release_lease finished lease actual status)))
      (lease_verified txt h0 lease endpoint expected) (\<lambda>e v. True) v"
      by (intro mark verify) (auto simp: known_def)
  qed (use assms in simp)
qed


section \<open>The gate\<close>

definition gate_free :: "ustr \<Rightarrow> maint_world \<Rightarrow> bool" where
  "gate_free key w \<longleftrightarrow> (let m = sv_manager (mw_service w) in
     key \<notin> set (mg_maintenance_active m) \<and> key \<notin> set (mg_maintenance_pending m) \<and> mg_locks m key = None)"

text \<open>Releasing the gate changes neither the store nor the hub.\<close>

lemma release_gate_wp:
  "wp (release_gate key) (\<lambda>_ v. gate_free key v \<and> mw_hub v = mw_hub w \<and> tables (mw_service v) = tables (mw_service w)) (\<lambda>_ _. False) w"
  by (simp add: release_gate_def release_maintenance_def wp_simps gate_free_def tables_def)

lemma wp_released:
  assumes "wp m Q (\<lambda>_ _. True) w"
    and "\<And>x t v. Q x t \<Longrightarrow> mw_hub v = mw_hub t \<Longrightarrow> tables (mw_service v) = tables (mw_service t) \<Longrightarrow> Q x v"
  shows "wp (sfinally m (release_gate key)) (\<lambda>x v. Q x v \<and> gate_free key v) (\<lambda>e v. gate_free key v) w"
  unfolding wp_sfinally
proof (rule wp_mono [OF assms(1)])
  show "wp (release_gate key) (\<lambda>_ v. Q x v \<and> gate_free key v) (\<lambda>e. gate_free key) t" if "Q x t" for x t
    by (rule wp_mono [OF release_gate_wp]) (use that assms(2) in auto)
  show "wp (release_gate key) (\<lambda>_. gate_free key) (\<lambda>e. gate_free key) t" for t
    by (rule wp_mono [OF release_gate_wp]) auto
qed

lemma lease_verified_released:
  "lease_verified txt h0 lease endpoint expected x t \<Longrightarrow> mw_hub v = mw_hub t \<Longrightarrow> tables (mw_service v) = tables (mw_service t) \<Longrightarrow>
   lease_verified txt h0 lease endpoint expected x v"
  unfolding lease_verified_def lease_row_of_def by (auto intro: saw_recovery_hub)

text \<open>The row a call is authorized for: the stored one, or that row after it was found expired.\<close>

definition authorized :: "ustr \<Rightarrow> lease_row \<Rightarrow> lease_row \<Rightarrow> bool" where
  "authorized token row lease \<longleftrightarrow> token \<noteq> [] \<and> lease_token_hash token = Inr (ml_token_hash row) \<and>
     (lease = row \<or> (\<exists>e. lease = row\<lparr>ml_state := ''expired_quarantined'', ml_error := e\<rparr>))"

lemma update_found_wp:
  assumes "select ml_lease_id lease_id (st_leases (tables s)) = Some row"
  shows "wp (in_tables (update_maintenance_lease lease_id cs)) (\<lambda>x _. x = fold apply_lease_change cs row) (\<lambda>_ _. True) s"
proof -
  have "select ml_lease_id lease_id (update_where ml_lease_id lease_id (fold apply_lease_change cs) (st_leases (tables s))) =
      Some (fold apply_lease_change cs row)"
    using assms by (simp add: lease_changes.select_update)
  then show ?thesis
    by (auto simp: wp_simps in_tables_def update_maintenance_lease_def write_leases_def maintenance_lease_def tables_def split: sum.split)
qed

lemma authorized_lease_wp:
  assumes "lease_row_of lease_id w = Some row"
  shows "wp (serve (authorized_lease now lease_id token)) (\<lambda>lease v. authorized token row lease \<and> mw_hub v = mw_hub w) (\<lambda>e v. True) w"
proof -
  have found: "select ml_lease_id lease_id (st_leases (tables (mw_service w))) = Some row" using assms by (simp add: lease_row_of_def)
  have "wp (in_tables (update_maintenance_lease lease_id [Lease_state ''expired_quarantined'', Lease_error e]))
      (\<lambda>lease v. authorized token row lease) (\<lambda>e v. True) (mw_service w)"
    if "token \<noteq> []" "lease_token_hash token = Inr (ml_token_hash row)" for e
    by (rule wp_mono [OF update_found_wp [OF found]]) (use that in \<open>auto simp: authorized_def\<close>)
  moreover have "wp (in_tables (maintenance_lease lease_id)) (\<lambda>x s. x = Some row \<and> s = mw_service w) (\<lambda>_ _. False) (mw_service w)"
    using found by (simp add: in_tables_def maintenance_lease_def wp_simps tables_def)
  ultimately have "wp (authorized_lease now lease_id token) (\<lambda>lease v. authorized token row lease) (\<lambda>e v. True) (mw_service w)"
    unfolding authorized_lease_def wp_sbind [of "in_tables (maintenance_lease lease_id)"]
    by (elim wp_mono) (auto simp: wp_sbind wp_sraise_if wp_slift wp_sret wp_if authorized_def split: sum.split)
  then show ?thesis by (simp add: wp_serve)
qed

lemma recovery_verified_authorized: "authorized token row lease \<Longrightarrow> recovery_verified txt lease = recovery_verified txt row"
  by (auto simp: fun_eq_iff authorized_def recovery_verified_def boot_changed_def version_matches_def)

lemma saw_recovery_authorized:
  "authorized token row lease \<Longrightarrow> saw_recovery txt h0 S lease endpoint expected actual status v \<longleftrightarrow>
   saw_recovery txt h0 S row endpoint expected actual status v"
  unfolding saw_recovery_def by (drule recovery_verified_authorized [of _ _ _ "txt"]) (simp only:)

lemma authorized_simps:
  "authorized token row lease \<Longrightarrow> ml_lease_id lease = ml_lease_id row" "authorized token row lease \<Longrightarrow> ml_device_id lease = ml_device_id row"
  "authorized token row lease \<Longrightarrow> lease_endpoint txt lease = lease_endpoint txt row"
  "authorized token row lease \<Longrightarrow> expected_device txt lease = expected_device txt row"
  "authorized token row lease \<Longrightarrow> ml_state row \<in> set ACTIVE_MAINTENANCE_STATES \<Longrightarrow> ml_state lease \<in> set ACTIVE_MAINTENANCE_STATES"
  by (auto simp: authorized_def lease_endpoint_def expected_device_def ACTIVE_MAINTENANCE_STATES_def split: json.split)


lemma fail_lease_wp: "wp (fail_lease message finished lease audit_device e) Q (\<lambda>_ _. True) w"
  by (auto simp: fail_lease_def wp_sbind wp_sraise) (simp add: wp_def split: prod.split sum.split)

lemma finish_active_wp:
  assumes "mw_hub w = h0" and "lease_endpoint txt lease = Inr endpoint"
  shows "wp (finish_active txt message finished lease False)
    (\<lambda>out v. lease_verified txt h0 lease endpoint (expected_device txt lease) out v \<and> gate_free (ml_device_id lease) v)
    (\<lambda>e. gate_free (ml_device_id lease)) w"
  unfolding finish_active_def assms(2) Let_def
proof (simp add: wp_sbind wp_slift wp_smod, rule wp_released)
  show "wp (scatch (reattach txt finished lease endpoint (expected_device txt lease) audit_device False) (fail_lease message finished lease audit_device))
      (lease_verified txt h0 lease endpoint (expected_device txt lease)) (\<lambda>_ _. True) (w\<lparr>mw_retries := 0, mw_last_error := None\<rparr>)" for audit_device
    unfolding wp_scatch by (rule wp_mono [OF reattach_wp]) (auto simp: assms(1) intro: fail_lease_wp)
qed (rule lease_verified_released)

text \<open>The gate is free after every way out.\<close>

lemma finish_active_gate:
  assumes "lease_endpoint txt lease = Inr endpoint"
  shows "wp (finish_active txt message finished lease abort) (\<lambda>_. gate_free (ml_device_id lease)) (\<lambda>_. gate_free (ml_device_id lease)) w"
proof -
  have "wp (sfinally m (release_gate key)) (\<lambda>x v. True \<and> gate_free key v) (\<lambda>e v. gate_free key v) v" for m :: "dict maint" and key v
    by (rule wp_released) (simp_all add: wp_def split: prod.split sum.split)
  then show ?thesis unfolding finish_active_def assms(1) Let_def by (simp add: wp_sbind wp_slift wp_smod)
qed


text \<open>Quarantining an expired lease cannot collide with another one.\<close>

lemma quarantine_ok:
  assumes "leases_ok rows" and "select ml_lease_id lease_id rows = Some row" and "lease_active row"
  shows "leases_ok (update_where ml_lease_id lease_id (fold apply_lease_change [Lease_state ''expired_quarantined'', Lease_error e]) rows)"
proof -
  let ?f = "fold apply_lease_change [Lease_state ''expired_quarantined'', Lease_error e]"
  let ?g = "\<lambda>r. if ml_lease_id r = lease_id then ?f r else r"
  have "lease_active (?g r) \<longleftrightarrow> lease_active r" if "r \<in> set rows" for r
  proof (cases "ml_lease_id r = lease_id")
    case True
    moreover have "row \<in> set rows" "ml_lease_id row = lease_id" using assms(2) by (auto simp: select_def find_Some_iff)
    ultimately have "r = row" using that assms(1) by (auto simp: leases_ok_def distinct_map inj_on_def)
    with assms(3) True show ?thesis by (simp add: lease_active_def ACTIVE_LEASE_STATES_def)
  qed simp
  then have "map ml_device_id (filter lease_active (map ?g rows)) = map ml_device_id (filter lease_active rows)"
    by (induction rows) auto
  with assms(1) show ?thesis
    unfolding leases_ok_def lease_changes.keys_update by (simp only: update_where_def)
qed

lemma authorized_lease_returns:
  assumes "lease_row_of lease_id w = Some row" and "leases_ok (st_leases (tables (mw_service w)))"
    and "token \<noteq> []" and "lease_token_hash token = Inr (ml_token_hash row)"
  shows "wp (serve (authorized_lease now lease_id token)) (\<lambda>lease v. authorized token row lease) (\<lambda>e v. False) w"
proof -
  have found: "select ml_lease_id lease_id (st_leases (tables (mw_service w))) = Some row" using assms(1) by (simp add: lease_row_of_def)
  have "wp (in_tables (update_maintenance_lease lease_id [Lease_state ''expired_quarantined'', Lease_error e]))
      (\<lambda>_ _. True) (\<lambda>e v. False) (mw_service w)" if "ml_state row \<in> set ACTIVE_MAINTENANCE_STATES" for e
  proof -
    have "leases_ok (update_where ml_lease_id lease_id (fold apply_lease_change [Lease_state ''expired_quarantined'', Lease_error e])
        (st_leases (tables (mw_service w))))"
      by (rule quarantine_ok [OF assms(2) found]) (use that in \<open>simp add: lease_active_def ACTIVE_LEASE_STATES_def ACTIVE_MAINTENANCE_STATES_def\<close>)
    moreover have "select ml_lease_id lease_id (update_where ml_lease_id lease_id (fold apply_lease_change
        [Lease_state ''expired_quarantined'', Lease_error e]) (st_leases (tables (mw_service w)))) \<noteq> None"
      unfolding lease_changes.select_update using found by simp
    ultimately show ?thesis
      by (auto simp: in_tables_def update_maintenance_lease_def write_leases_def maintenance_lease_def tables_def wp_simps
          simp del: fold_simps split: option.split)
  qed
  then have "wp (authorized_lease now lease_id token) (\<lambda>_ _. True) (\<lambda>e v. False) (mw_service w)"
    using found assms(3,4)
    by (auto simp: authorized_lease_def wp_sbind wp_slift wp_sret wp_sraise_if wp_if wp_on_manager wp_on_store in_tables_def
        maintenance_lease_def wp_sget tables_def)
  then have "wp (serve (authorized_lease now lease_id token)) (\<lambda>_ _. True) (\<lambda>e v. False) w" by (simp add: wp_serve)
  from wp_conj [OF this authorized_lease_wp [OF assms(1), of now token]] show ?thesis by (rule wp_mono) auto
qed



text \<open>
  Claim C39. A call that would finish a maintenance lease without its token fails and changes nothing. With the token of
  an active lease the call leaves the gate of the device free on every way out, whether it returns, fails to verify the
  device, loses the hub or is cancelled.
\<close>

theorem maintenance_gate_freed:
  assumes "finish_maintenance txt message now finished lease_id token abort w = (r, v)"
    and "lease_row_of lease_id w = Some row" and "ml_state row \<in> set ACTIVE_MAINTENANCE_STATES"
    and "leases_ok (st_leases (tables (mw_service w)))" and "lease_endpoint txt row = Inr endpoint"
  shows "if token \<noteq> [] \<and> lease_token_hash token = Inr (ml_token_hash row) then gate_free (ml_device_id row) v
    else (\<exists>e. r = Inl e) \<and> v = w"
proof (cases "token \<noteq> [] \<and> lease_token_hash token = Inr (ml_token_hash row)")
  case True
  have "wp (finish_maintenance txt message now finished lease_id token abort) (\<lambda>_. gate_free (ml_device_id row)) (\<lambda>_. gate_free (ml_device_id row)) w"
    unfolding finish_maintenance_def wp_sbind
  proof (rule wp_mono [OF authorized_lease_returns [OF assms(2,4)]])
    fix lease y assume lease: "authorized token row lease"
    show "wp (if ml_state lease \<notin> set ACTIVE_MAINTENANCE_STATES then sret (lease_public lease) else finish_active txt message finished lease abort)
       (\<lambda>_. gate_free (ml_device_id row)) (\<lambda>_. gate_free (ml_device_id row)) y"
      using finish_active_gate [of "txt" lease endpoint message finished abort y] assms(5) authorized_simps(5) [OF lease assms(3)]
      by (simp add: authorized_simps(2,3) [OF lease])
  qed (use True in auto)
  from wp_run [OF this assms(1)] True show ?thesis by (simp split: sum.splits)
next
  case False
  have "wp (authorized_lease now lease_id token) (\<lambda>_ _. False) (\<lambda>_ s. s = mw_service w) (mw_service w)"
    using assms(2) False
    by (auto simp: authorized_lease_def wp_simps in_tables_def maintenance_lease_def lease_row_of_def tables_def split: sum.split)
  then have "wp (finish_maintenance txt message now finished lease_id token abort) (\<lambda>_ _. False) (\<lambda>_ y. y = w) w"
    unfolding finish_maintenance_def wp_sbind wp_serve by (rule wp_mono) auto
  from wp_run [OF this assms(1)] False show ?thesis by (auto split: sum.splits)
qed


text \<open>A lease whose device comes back in Recovery.\<close>

definition ex_words :: "json \<Rightarrow> ustr" where
  "ex_words v = (case v of JStr s \<Rightarrow> s | _ \<Rightarrow> [])"

definition ex_lease :: lease_row where
  "ex_lease = \<lparr>ml_lease_id = [76], ml_device_id = [68], ml_token_hash = u (hex (sha256 [116])), ml_purpose = [], ml_state = ''detached'',
     ml_endpoint = JDict [item ''endpoint'' (JStr [69])], ml_evidence = JDict [], ml_previous_boot_id = Some [49],
     ml_expected_version = Some [], ml_actor_type = [], ml_actor_name = [], ml_created_ns = 0, ml_expires_ns = 100,
     ml_finished_ns = None, ml_error = None\<rparr>"

definition ex_recovered :: dict where
  "ex_recovered = [item ''device_id'' (JStr [68]), item ''endpoint'' (JStr [69]), item ''firmware_mode'' (jstr ''recovery''),
     item ''boot_id'' (JStr [50]), item ''capability_names'' (JList [jstr ''ota''])]"

definition ex_maint :: maint_world where
  "ex_maint = \<lparr>mw_service = \<lparr>sv_manager = manager_init (store_init\<lparr>st_leases := [ex_lease]\<rparr>) 0, sv_mode = ''develop'',
       sv_mode_transition = False, sv_subscribers = []\<rparr>,
     mw_hub = \<lparr>hw_replies = map (Inr \<circ> Answer) [JNull, JBool True, JList [JDict ex_recovered], JDict ex_recovered], hw_log = []\<rparr>,
     mw_others = [], mw_retries = 0, mw_last_error = None\<rparr>"

lemma ex_lease_row: "lease_row_of [76] ex_maint = Some ex_lease"
  by (simp add: lease_row_of_def ex_maint_def tables_def manager_init_def select_def ex_lease_def)

lemma ex_lease_ok:
  "ml_state ex_lease \<in> set ACTIVE_MAINTENANCE_STATES" "leases_ok (st_leases (tables (mw_service ex_maint)))"
  "lease_endpoint ex_words ex_lease = Inr [69]" "lease_token_hash [116] = Inr (ml_token_hash ex_lease)" "ml_device_id ex_lease = [68]"
  by (simp_all add: ex_lease_def ACTIVE_MAINTENANCE_STATES_def leases_ok_def ex_maint_def tables_def manager_init_def lease_endpoint_def
      dindex_def item_def ex_words_def lease_token_hash_def encode_text_def utf8_char_def)

lemma ex_recovered_verified: "recovery_verified ex_words ex_lease ex_recovered"
  by (simp add: recovery_verified_def ex_recovered_def dget_def dget_default_def item_def boot_changed_def version_matches_def
      ex_lease_def ex_words_def jstr_def)

theorem maintenance_gate_freed_witness:
  "gate_free [68] (snd (finish_maintenance ex_words (\<lambda>_. []) 5 6 [76] [116] False ex_maint))"
  using maintenance_gate_freed [OF prod.collapse [symmetric, of "finish_maintenance ex_words (\<lambda>_. []) 5 6 [76] [116] False ex_maint"]
    ex_lease_row ex_lease_ok(1-3)] ex_lease_ok(4,5) by simp

lemma ex_authorized: "serve (authorized_lease 5 [76] [116]) ex_maint = (Inr ex_lease, ex_maint)"
proof -
  have "on_manager (on_store (maintenance_lease [76])) (mw_service ex_maint) = (Inr (Some ex_lease), mw_service ex_maint)"
    using ex_lease_row by (simp add: on_manager_def on_store_def maintenance_lease_def st_run lease_row_of_def tables_def)
  then show ?thesis
    using ex_lease_ok(4) by (simp add: serve_def authorized_lease_def in_tables_def st_run) (simp add: ex_lease_def)
qed


text \<open>The run of the example: one lease, the hub at a point of its script, and no other task.\<close>

definition ex_at :: "(exn + answer) list \<Rightarrow> maint_world \<Rightarrow> bool" where
  "ex_at rs w \<longleftrightarrow> (\<exists>r. st_leases (tables (mw_service w)) = [r] \<and> ml_lease_id r = [76]) \<and> hw_replies (mw_hub w) = rs \<and> mw_others w = []"

lemma ex_at_update:
  assumes "ex_at rs w" and "mapr check_lease_change cs = Inr us"
  shows "wp (serve (in_tables (update_maintenance_lease [76] cs))) (\<lambda>_. ex_at rs) (\<lambda>_ _. False) w"
proof -
  from assms(1) obtain r where r: "st_leases (tables (mw_service w)) = [r]" "ml_lease_id r = [76]" by (auto simp: ex_at_def)
  then have "update_where ml_lease_id [76] (fold apply_lease_change cs) [r] = [fold apply_lease_change cs r]"
    by (simp add: update_where_def)
  moreover have "select ml_lease_id [76] [fold apply_lease_change cs r] = Some (fold apply_lease_change cs r)" "leases_ok [x]" for x
    using r(2) by (simp_all add: select_def apply_lease_changes_key leases_ok_def)
  ultimately show ?thesis
    using assms r
    by (simp add: wp_simps in_tables_def update_maintenance_lease_def write_leases_def maintenance_lease_def tables_def ex_at_def
        apply_lease_changes_key)
qed

lemma ex_at_audit: "ex_at rs w \<Longrightarrow> storable d \<Longrightarrow> wp (serve (in_tables (add_audit n t m a d))) (\<lambda>_. ex_at rs) (\<lambda>_ _. False) w"
  by (simp add: wp_simps in_tables_def add_audit_def to_json_def tables_def ex_at_def)

lemma ex_at_ask:
  assumes "ex_at (Inr (Answer x) # rs) w"
  shows "wp (await (hub_ask c)) (\<lambda>y v. y = x \<and> ex_at rs v) (\<lambda>_ _. False) w"
    "wp (at_once (hub_ask c)) (\<lambda>y v. y = x \<and> ex_at rs v) (\<lambda>_ _. False) w"
  using assms by (simp_all add: wp_simps wp_def hub_ask_def ex_at_def others_run_def tables_def)

lemma ex_at_await:
  assumes "ex_at (Inr (Answer x) # rs) w"
  shows "wp (await before_deadline) (\<lambda>y v. y = truthy x \<and> ex_at rs v) (\<lambda>_ _. False) w"
    and "x = JDict d \<Longrightarrow> wp (await (ask_dict c)) (\<lambda>y v. y = d \<and> ex_at rs v) (\<lambda>_ _. False) w"
  using assms by (simp_all add: wp_simps wp_def hub_ask_def before_deadline_def ask_dict_def ex_at_def others_run_def tables_def st_run)

lemma wp_then: "wp m P (\<lambda>_ _. False) w \<Longrightarrow> (\<And>x v. P x v \<Longrightarrow> wp (f x) Q E v) \<Longrightarrow> wp (sbind m f) Q E w"
  unfolding wp_sbind by (erule wp_mono) auto

lemma ex_verify:
  assumes "ex_at (map (Inr \<circ> Answer) [JBool True, JList [JDict ex_recovered], JDict ex_recovered]) w"
  shows "wp (verify_loop ex_words ex_lease [69] (Some [68])) (\<lambda>x v. x = Some ([68], ex_recovered) \<and> ex_at [] v) (\<lambda>_ _. False) w"
proof -
  have items: "dict_items (JList [JDict ex_recovered]) = Inr [ex_recovered]" by (simp add: dict_items_def)
  have here: "at_endpoint [69] (Some [68]) ex_recovered" "text_or_empty ex_words (JStr [68]) = [68]" "dget ex_recovered ''device_id'' = JStr [68]"
    by (simp_all add: at_endpoint_def ex_recovered_def dget_def dget_default_def item_def text_or_empty_def ex_words_def)
  have device: "wp (verify_device ex_words ex_lease [68]) (\<lambda>x v. x = Verified [68] ex_recovered \<and> ex_at [] v) (\<lambda>_ _. False) v"
    if "ex_at [Inr (Answer (JDict ex_recovered))] v" for v
    unfolding verify_device_def wp_scatch
    by (rule wp_mono [OF wp_then [OF ex_at_await(2) [OF that refl]]]) (auto simp: wp_sret here(3) ex_recovered_verified)
  have look: "wp (look_for_device ex_words ex_lease [69] (Some [68])) (\<lambda>x v. x = Verified [68] ex_recovered \<and> ex_at [] v) (\<lambda>_ _. False) v"
    if "ex_at (map (Inr \<circ> Answer) [JList [JDict ex_recovered], JDict ex_recovered]) v" for v
    unfolding look_for_device_def
    by (rule wp_then [OF ex_at_ask(2)]) (use that device in \<open>auto simp: wp_sbind wp_slift items here Let_def\<close>)
  have "wp (verify_step ex_words ex_lease [69] (Some [68])) (\<lambda>x v. x = Verified [68] ex_recovered \<and> ex_at [] v) (\<lambda>_ _. False) w"
    unfolding verify_step_def by (rule wp_then [OF ex_at_await(1)]) (use assms look in \<open>auto\<close>)
  then show ?thesis
    by (simp add: wp_def verify_loop.simps [of _ _ _ _ w] sbind_def sret_def split: prod.splits sum.splits)
qed


lemma ex_storable: "storable (JDict ex_recovered)" "dget ex_recovered ''boot_id'' = JStr [50]"
  by (simp_all add: ex_recovered_def item_def jstr_def dget_def dget_default_def)

lemma ex_release:
  assumes "ex_at [] w"
  shows "wp (release_lease 6 ex_lease [68] ex_recovered) (\<lambda>_. ex_at []) (\<lambda>_ _. False) w"
proof -
  have id: "ml_lease_id ex_lease = [76]" "ml_evidence ex_lease = JDict []" by (simp_all add: ex_lease_def)
  have "wp (observed_evidence ex_lease [item ''verification'' (JDict ex_recovered)]) (\<lambda>e v. storable e \<and> v = w) (\<lambda>_ _. False) w"
    using ex_storable(1) by (simp add: observed_evidence_def id wp_simps dupdate_def item_def jnat_def jstr_def split: option.split)
  then show ?thesis
    unfolding release_lease_def id
  proof (rule wp_then)
    fix evidence v assume "storable evidence \<and> v = w"
    then have "mapr check_lease_change [Lease_state ''released'', Lease_evidence evidence, Lease_finished_ns 6, Lease_error None] = Inr [(), (), (), ()]"
      by (simp add: to_json_def)
    with assms \<open>_ \<and> v = w\<close> show "wp (sbind (serve (in_tables (update_maintenance_lease [76]
        [Lease_state ''released'', Lease_evidence evidence, Lease_finished_ns 6, Lease_error None]))) (\<lambda>completed.
      sbind (serve (in_tables (add_audit 6 (u ''lease'') [76] (u ''maintenance.released'')
        (JDict [item ''device_id'' (JStr [68]), item ''boot_id'' (dget ex_recovered ''boot_id'')])))) (\<lambda>_.
      sret (lease_public completed)))) (\<lambda>_. ex_at []) (\<lambda>_ _. False) v"
      by (intro wp_then [OF ex_at_update] wp_then [OF ex_at_audit]) (auto simp: wp_sret ex_storable item_def)
  qed
qed

lemma ex_finish_run: "\<exists>out v. finish_maintenance ex_words (\<lambda>_. []) 5 6 [76] [116] False ex_maint = (Inr out, v)"
proof -
  have lease: "ml_lease_id ex_lease = [76]" "expected_device ex_words ex_lease = Some [68]" "ml_state ex_lease \<in> set ACTIVE_MAINTENANCE_STATES"
    using ex_lease_ok(1) by (simp_all add: ex_lease_def expected_device_def)
  let ?w = "ex_maint\<lparr>mw_retries := 0, mw_last_error := None\<rparr>"
  have start: "ex_at (map (Inr \<circ> Answer) [JNull, JBool True, JList [JDict ex_recovered], JDict ex_recovered]) ?w"
    by (simp add: ex_at_def ex_maint_def tables_def manager_init_def ex_lease_def)
  have "wp (reattach ex_words 6 ex_lease [69] (Some [68]) [68] False) (\<lambda>_ _. True) (\<lambda>_ _. False) ?w"
    unfolding reattach_def lease if_False
    by (rule wp_then [OF ex_at_update [OF start]], simp, rule wp_then [OF ex_at_ask(1)], simp,
      rule wp_then [OF ex_at_update], (erule conjE, assumption), simp, rule wp_then [OF ex_verify], simp)
     (auto simp: wp_simps intro: wp_mono [OF ex_release])
  then have "wp (finish_active ex_words (\<lambda>_. []) 6 ex_lease False) (\<lambda>_ _. True) (\<lambda>_ _. False) ex_maint"
    unfolding finish_active_def ex_lease_ok(3) Let_def lease
    by (simp add: wp_sbind wp_slift wp_smod wp_sfinally wp_scatch)
      (erule wp_mono, auto simp: release_gate_def release_maintenance_def wp_simps)
  then show ?thesis
    using lease(3)
    by (simp add: finish_maintenance_def sbind_def ex_authorized wp_def split: prod.splits sum.splits)
qed


end
