(* ===== verification/Spec2Isabelle.thy ===== *)
theory Spec2Isabelle
  imports Frame_Decoder Tlv State_Machine System_Update_Transport File_Upload Session_Runs Session_Ota Operation_Runs Security_Safety Ota_Loop_Claims Maintenance_Claims
begin

text \<open>
  Verification of the gateway of ESP-Iris.

  ESP-Iris connects development boards to a host. A device speaks a framed binary protocol over USB or TCP; the
  gateway (\<^verbatim>\<open>src/components/esp_iris/tools/iris_gateway/\<close>, written in Python) keeps one session per device, offers status,
  RPC, files, screenshots and firmware updates on it, runs these as durable operations with an audit trail, and serves
  them over HTTP. This development models the logic of the gateway and proves what makes it correct.

  \<^bold>\<open>Reading the models.\<close> A Python function that may raise is a function into \<open>exn + 'a\<close> (theory Protocol\_Types has the
  exceptions, Iris\_Prelude the combinators). A method that mutates an object is a function from the state to a result and
  the state it leaves (\<open>st\<close>, theory Stateful, with weakest preconditions \<open>wp\<close> and the locale \<open>evolution\<close> for relations that
  every step respects). A coroutine that awaits a device is run against a script of replies, each a frame or an
  exception, and logs what it sends (theory Device\_IO); the workflows of the gateway run against a script of the answers
  of the hub (theory Hub\_IO). A theorem about such a coroutine holds for every script, hence for every behaviour of the
  device, the link and the clock; that a script may end at any await is the cancellation of the task, or a peer that
  never answers. Concurrency is modelled by cutting coroutines at their awaits and composing the pieces in a
  transition system (Session\_Safety, Operation\_Safety, Security\_Safety), whose claims are proved by induction on runs.
  Texts are lists of code points (Py\_Text), bytes are \<open>8 word\<close> lists, JSON documents are trees whose dictionaries are
  the lists of their items (Json\_Value, with Python's truth, equality and \<^verbatim>\<open>int()\<close> in Py\_Value), a float is the rational
  number it stands for, rounded to 53 bits after every operation (Py\_Float).

  \<^bold>\<open>The parts.\<close>

  \<^item> Wire protocol, \<^verbatim>\<open>protocol.py\<close>: Protocol\_Types (constants and enumerations; the contract of an enumeration is the locale
    \<open>value_enum\<close>, interpreted on each class), Crc32, Cobs, Framing, Frame\_Decoder, Tlv. The two COBS loops are equal to
    recursive references over blocks; \<^verbatim>\<open>decode_frame\<close> accepts exactly the well-formed frames, a changed byte is
    rejected, and the incremental decoder refines a specification that splits the whole stream at its zero bytes, so
    that chunking does not matter and the decoder finds its way back after garbage.
  \<^item> State machines, \<^verbatim>\<open>state_machine.py\<close>: State\_Machine, exactly the legal transitions.
  \<^item> Device session, \<^verbatim>\<open>session.py\<close> and \<^verbatim>\<open>boot_identity.py\<close>: Session (handshake with its HMAC proof over Sha256, sequence
    numbers, routing of replies, credits, closing), Session\_Requests (every request coroutine), Session\_Ota (the firmware
    transfer with requests in flight together). Session\_Safety is the transition system with its invariant, Session\_Claims
    and Session\_Runs its claims and a concrete run: a request gets its own reply, the device behind a link never changes,
    a replayed frame has no effect, readiness follows the handshake, closing releases every request.
  \<^item> System updates, \<^verbatim>\<open>system_update.py\<close>, \<^verbatim>\<open>system_update_transport.py\<close>, \<^verbatim>\<open>firmware.py\<close>: System\_Update (the bundle loader with
    every check), Firmware (image inspection), System\_Update\_Transport (the transaction): a loaded bundle is
    well formed, the commit is sent only when every byte has been confirmed, a failed transaction is cancelled.
  \<^item> Device files, \<^verbatim>\<open>files.py\<close>: Files, with the claims in File\_Reading and File\_Upload: reads and listings deliver exactly the
    requested part, an upload commits exactly what was confirmed, and it ends after a bounded number of requests.
  \<^item> Operations, \<^verbatim>\<open>operations.py\<close>, \<^verbatim>\<open>operation_identity.py\<close>, \<^verbatim>\<open>store.py\<close>, \<^verbatim>\<open>migrations.py\<close>, \<^verbatim>\<open>observability.py\<close>: Operation\_Identity,
    Store (tables as lists of rows), Observability, Operations (the manager, cut at its awaits), Operation\_Safety and
    Operation\_Runs: rows follow legal transitions and are final once finished, operations of a device exclude each other
    and host maintenance, an identifier is bound to its request, a restart leaves no operation active.
  \<^item> Authentication, \<^verbatim>\<open>security.py\<close>: Security and Security\_Safety (PBKDF2 over Sha256, browser sessions, agent tokens).
  \<^item> Update compatibility and reconciliation, \<^verbatim>\<open>compatibility.py\<close>, \<^verbatim>\<open>reconciliation.py\<close>: Compatibility, Reconciliation.
  \<^item> Closed update loops, \<^verbatim>\<open>system_update_workflow.py\<close> and \<^verbatim>\<open>closed_loop_ota\<close>, \<^verbatim>\<open>closed_loop_restart\<close>, \<^verbatim>\<open>preserve_coredump\<close> of
    \<^verbatim>\<open>gateway.py\<close>: Closed\_Loops, with the claims in Closed\_Loop\_Claims and Ota\_Loop\_Claims: firmware is written at most once,
    by a device that passed the compatibility check, lost contact after the write is an unknown outcome and never an
    ordinary connection error, and a returned result rests on evidence of the new boot.
  \<^item> The service object, \<^verbatim>\<open>GatewayService\<close> of \<^verbatim>\<open>gateway.py\<close>: Gateway\_Service (events and the bounded queues of their
    subscribers, the mode, the devices and their status) and Maintenance with Maintenance\_Claims (leases that hand a device
    to a local flashing tool). In Maintenance every await also applies an arbitrary change of the service by other
    tasks. An event reaches every subscriber unless a queue is full, which the handler does not survive; a lease is
    released only for a verified Recovery firmware, and the gate of the device is free after every finishing call.

  \<^bold>\<open>Interfaces.\<close> Locales state what a client relies on: \<open>value_enum\<close> for enumerations, \<open>evolution\<close> for relations between a
  state and its successors (interpreted for sessions, stores, leases, logs and scripts), \<open>byte_stuffing\<close> for the code between
  frames and stream, and \<open>keyed_change\<close> for updates of a table by its key. Each is interpreted on the definitions of the model.

  \<^bold>\<open>Bounds and termination.\<close> The loops over a script end because every await takes an answer of it; their
  measure is the length of the script. \<^verbatim>\<open>feed\<close> and the COBS and TLV loops recurse on the bytes that are left. The retry
  loops of the file service have the bounds of the source; the claim \<open>upload_terminates\<close> counts the requests.

  \<^bold>\<open>Arguments.\<close> What is not in the repository is an argument of the definitions: the ZIP reader, the JSON parser and the
  elliptic-curve library of the bundle loader, the decimal text of a float, \<^verbatim>\<open>str()\<close> and \<^verbatim>\<open>lower()\<close> of a value, random
  numbers, clock readings and the event sink. SHA-256, HMAC, PBKDF2, CRC-32 and UTF-8 are defined, since
  the source uses them from the standard library. An interpolated exception text is kept without the interpolated values.

  \<^bold>\<open>Not modelled.\<close> The HTTP routes of \<^verbatim>\<open>gateway.py\<close>, \<^verbatim>\<open>file_routes.py\<close> and \<^verbatim>\<open>http_support.py\<close> (aiohttp handlers around
  the operations above), \<^verbatim>\<open>hub.py\<close> (reconnecting tasks over serial ports, sockets and asyncio queues), \<^verbatim>\<open>link.py\<close>,
  \<^verbatim>\<open>discovery.py\<close>, \<^verbatim>\<open>mdns_discovery.py\<close>, \<^verbatim>\<open>tls.py\<close> (sockets, serial ports, certificates), \<^verbatim>\<open>cli.py\<close> except the recovery of
  interrupted operations (argument parsing and process control), \<^verbatim>\<open>demo.py\<close> (a simulated device), \<^verbatim>\<open>openapi_contract.py\<close>
  (a static document), \<^verbatim>\<open>media.py\<close> (pixel conversion and PNG files), the migration runner, the bundle builder, the files the
  store writes beside its database, and the C firmware.
\<close>

end
